(* ===== verification/Prelude.thy ===== *)
theory Prelude
  imports
    Main
    "HOL-Library.AList"
    "HOL-Library.Char_ord"
    "HOL-Library.List_Lexorder"
    "HOL-Library.Product_Lexorder"
    "HOL-Library.Option_ord"
    "HOL-Library.Multiset"
begin

text \<open>
  Shared vocabulary of the development: Python exceptions as values, the result type every
  fallible function returns, Python dictionaries as insertion-ordered association lists,
  grouping and indexing loops, and stable sorting by a key. Nothing here is specific to
  one component; the collections \<open>result_simps\<close> and \<open>dict_simps\<close> carry the proofs of the
  component theories.
\<close>

named_theorems result_simps "unfolding of the result monad"
named_theorems dict_simps "lookups in dictionaries built by the loops of the code"

section \<open>Exceptions as values\<close>

text \<open>
  \<open>ValueError\<close>, \<open>KeyError\<close>, \<open>IndexError\<close>, \<open>AssertionError\<close>, \<open>TypeError\<close>, \<open>AttributeError\<close> and \<open>InvalidOperation\<close> are
  the exceptions the modelled code raises itself or lets through. \<open>OutsideModel\<close> marks an
  input that the Python code accepts and the model does not follow (a Decimal that is not a
  finite number); no theorem treats it as a success.
\<close>

datatype py_error =
    ValueError string
  | KeyError string
  | IndexError string
  | AssertionError string
  | TypeError string
  | AttributeError string
  | InvalidOperation string
  | OutsideModel string

type_synonym 'a result = "py_error + 'a"

fun r_bind :: "'a result \<Rightarrow> ('a \<Rightarrow> 'b result) \<Rightarrow> 'b result" where
  "r_bind (Inl e) f = Inl e"
| "r_bind (Inr x) f = f x"

definition r_require :: "bool \<Rightarrow> py_error \<Rightarrow> unit result" where
  "r_require c e = (if c then Inr () else Inl e)"

fun r_map :: "('a \<Rightarrow> 'b result) \<Rightarrow> 'a list \<Rightarrow> 'b list result" where
  "r_map f [] = Inr []"
| "r_map f (x # xs) = r_bind (f x) (\<lambda>y. r_bind (r_map f xs) (\<lambda>ys. Inr (y # ys)))"

fun r_fold :: "('a \<Rightarrow> 's \<Rightarrow> 's result) \<Rightarrow> 'a list \<Rightarrow> 's \<Rightarrow> 's result" where
  "r_fold f [] s = Inr s"
| "r_fold f (x # xs) s = r_bind (f x s) (r_fold f xs)"

definition is_ok :: "'a result \<Rightarrow> bool" where
  "is_ok r = (case r of Inl _ \<Rightarrow> False | Inr _ \<Rightarrow> True)"

lemma r_bind_Inr_iff [result_simps]:
  "r_bind m f = Inr y \<longleftrightarrow> (\<exists>x. m = Inr x \<and> f x = Inr y)"
  by (cases m) auto

lemma r_bind_Inl_iff:
  "r_bind m f = Inl e \<longleftrightarrow> m = Inl e \<or> (\<exists>x. m = Inr x \<and> f x = Inl e)"
  by (cases m) auto

lemma r_require_Inr_iff [result_simps]: "r_require c e = Inr u \<longleftrightarrow> c"
  by (simp add: r_require_def)

lemma r_require_True [simp]: "r_require True e = Inr ()"
  and r_require_False [simp]: "r_require False e = Inl e"
  by (simp_all add: r_require_def)

lemma r_bind_assoc: "r_bind (r_bind m f) g = r_bind m (\<lambda>x. r_bind (f x) g)"
  by (cases m) auto

lemma r_bind_cong [fundef_cong]:
  "m = m' \<Longrightarrow> (\<And>x. m' = Inr x \<Longrightarrow> f x = f' x) \<Longrightarrow> r_bind m f = r_bind m' f'"
  by (cases m') auto

lemma is_ok_iff: "is_ok r \<longleftrightarrow> (\<exists>x. r = Inr x)"
  by (cases r) (auto simp: is_ok_def)

lemma is_ok_simps [simp]: "is_ok (Inr x)" "\<not> is_ok (Inl e)"
  by (simp_all add: is_ok_def)

lemma r_map_Inr_iff: "r_map f xs = Inr ys \<longleftrightarrow> list_all2 (\<lambda>x y. f x = Inr y) xs ys"
proof (induction xs arbitrary: ys)
  case Nil
  then show ?case by auto
next
  case (Cons x xs)
  show ?case by (cases ys) (auto simp: r_bind_Inr_iff Cons.IH)
qed

lemma list_all2_right: "list_all2 P xs ys \<Longrightarrow> y \<in> set ys \<Longrightarrow> \<exists>x \<in> set xs. P x y"
  by (induction rule: list_all2_induct) auto

lemma list_all2_left: "list_all2 P xs ys \<Longrightarrow> x \<in> set xs \<Longrightarrow> \<exists>y \<in> set ys. P x y"
  by (induction rule: list_all2_induct) auto

lemma r_map_all_ok: "(\<And>x. x \<in> set xs \<Longrightarrow> f x = Inr (g x)) \<Longrightarrow> r_map f xs = Inr (map g xs)"
  by (induction xs) auto

lemma r_map_length: "r_map f xs = Inr ys \<Longrightarrow> length ys = length xs"
  by (auto simp: r_map_Inr_iff dest: list_all2_lengthD)

lemma r_map_set:
  "r_map f xs = Inr ys \<Longrightarrow> y \<in> set ys \<Longrightarrow> \<exists>x \<in> set xs. f x = Inr y"
proof (induction xs arbitrary: ys)
  case Nil
  then show ?case by simp
next
  case (Cons x xs)
  then show ?case by (auto simp: r_bind_Inr_iff)
qed

lemma r_map_set_rev:
  "r_map f xs = Inr ys \<Longrightarrow> x \<in> set xs \<Longrightarrow> \<exists>y \<in> set ys. f x = Inr y"
proof (induction xs arbitrary: ys)
  case Nil
  then show ?case by simp
next
  case (Cons x xs)
  then show ?case by (auto simp: r_bind_Inr_iff)
qed

lemma r_map_exists_ok:
  "(\<And>x. x \<in> set xs \<Longrightarrow> \<exists>y. f x = Inr y) \<Longrightarrow> \<exists>ys. r_map f xs = Inr ys"
proof (induction xs)
  case Nil
  show ?case by simp
next
  case (Cons x xs)
  then show ?case by (auto simp: r_bind_Inr_iff) 
qed

lemma r_fold_all_ok:
  "(\<And>x s. x \<in> set xs \<Longrightarrow> f x s = Inr (g x s)) \<Longrightarrow> r_fold f xs s = Inr (fold g xs s)"
  by (induction xs arbitrary: s) auto

lemma r_fold_append: "r_fold f (xs @ ys) s = r_bind (r_fold f xs s) (r_fold f ys)"
proof (induction xs arbitrary: s)
  case (Cons x xs)
  then show ?case by (cases "f x s") simp_all
qed simp

section \<open>Dictionaries\<close>

text \<open>
  A Python \<open>dict\<close> keeps insertion order and replaces a value in place, which is what
  \<^const>\<open>AList.update\<close> does; \<open>d.get(k)\<close> is \<^const>\<open>map_of\<close>. \<open>dict_append\<close> is
  \<open>defaultdict(list)[k].append(x)\<close> (and \<open>setdefault(k, []).append(x)\<close>), \<open>group_by\<close> the loop
  that fills such a dictionary, \<open>index_by\<close> a dict comprehension over records (the last record
  with a key wins), \<open>index_first\<close> a loop that skips keys already present.
\<close>

type_synonym ('k, 'v) dict = "('k \<times> 'v) list"

definition dict_append :: "'k \<Rightarrow> 'v \<Rightarrow> ('k, 'v list) dict \<Rightarrow> ('k, 'v list) dict" where
  "dict_append k x = AList.map_default k [x] (\<lambda>xs. xs @ [x])"

definition group_by :: "('v \<Rightarrow> 'k) \<Rightarrow> 'v list \<Rightarrow> ('k, 'v list) dict" where
  "group_by key xs = fold (\<lambda>x. dict_append (key x) x) xs []"

definition index_by :: "('v \<Rightarrow> 'k) \<Rightarrow> 'v list \<Rightarrow> ('k, 'v) dict" where
  "index_by key xs = fold (\<lambda>x. AList.update (key x) x) xs []"

definition index_first :: "('v \<Rightarrow> 'k) \<Rightarrow> 'v list \<Rightarrow> ('k, 'v) dict" where
  "index_first key xs =
     fold (\<lambda>x d. case map_of d (key x) of None \<Rightarrow> d @ [(key x, x)] | Some _ \<Rightarrow> d) xs []"

definition dict_get :: "('k, 'v) dict \<Rightarrow> 'k \<Rightarrow> 'v \<Rightarrow> 'v" where
  "dict_get d k v = (case map_of d k of None \<Rightarrow> v | Some w \<Rightarrow> w)"

lemma map_of_map_default:
  "map_of (AList.map_default k v f d) j =
     (if j = k then Some (case map_of d k of None \<Rightarrow> v | Some w \<Rightarrow> f w) else map_of d j)"
  by (induction k v f d rule: AList.map_default.induct) auto

lemma keys_map_default: "set (map fst (AList.map_default k v f d)) = insert k (set (map fst d))"
  by (induction k v f d rule: AList.map_default.induct) auto

lemma distinct_map_default:
  "distinct (map fst d) \<Longrightarrow> distinct (map fst (AList.map_default k v f d))"
proof (induction k v f d rule: AList.map_default.induct)
  case (2 k v f p ps)
  then show ?case using keys_map_default [of k v f ps] by (cases p) auto
qed auto

lemma map_of_dict_append [dict_simps]:
  "map_of (dict_append k x d) j =
     (if j = k then Some ((case map_of d k of None \<Rightarrow> [] | Some xs \<Rightarrow> xs) @ [x]) else map_of d j)"
  by (simp add: dict_append_def map_of_map_default split: option.split)

lemma filter_key_empty: "filter (\<lambda>x. key x = k) xs = [] \<longleftrightarrow> k \<notin> key ` set xs"
  by (auto simp: filter_empty_conv)

lemma group_by_snoc: "group_by key (xs @ [x]) = dict_append (key x) x (group_by key xs)"
  by (simp add: group_by_def)

lemma map_of_group_by [dict_simps]:
  "map_of (group_by key xs) k =
     (if k \<in> key ` set xs then Some (filter (\<lambda>x. key x = k) xs) else None)"
proof (induction xs arbitrary: k rule: rev_induct)
  case Nil
  show ?case by (simp add: group_by_def)
next
  case (snoc x xs)
  have *: "(case map_of (group_by key xs) j of None \<Rightarrow> [] | Some ys \<Rightarrow> ys) = filter (\<lambda>x. key x = j) xs"
    for j
    using snoc.IH [of j] filter_key_empty [of key j xs] by auto
  show ?case
    unfolding group_by_snoc map_of_dict_append * using filter_key_empty [of key k xs]
    by (auto simp: snoc.IH)
qed

lemma distinct_group_by: "distinct (map fst (group_by key xs))"
proof (induction xs rule: rev_induct)
  case Nil
  show ?case by (simp add: group_by_def)
next
  case (snoc x xs)
  then show ?case by (simp add: group_by_snoc dict_append_def distinct_map_default)
qed

lemma keys_group_by [dict_simps]: "set (map fst (group_by key xs)) = key ` set xs"
proof (induction xs rule: rev_induct)
  case Nil
  show ?case by (simp add: group_by_def)
next
  case (snoc x xs)
  then show ?case
    using keys_map_default [of "key x" "[x]" "\<lambda>ys. ys @ [x]" "group_by key xs"]
    by (simp add: group_by_snoc dict_append_def)
qed

lemma keys_group_by_image: "fst ` set (group_by key xs) = key ` set xs"
  using keys_group_by [of key xs] by simp

lemma mem_group_byD:
  assumes "(k, ys) \<in> set (group_by key xs)"
  shows "ys = filter (\<lambda>x. key x = k) xs" and "k \<in> key ` set xs" and "ys \<noteq> []"
proof -
  have "map_of (group_by key xs) k = Some ys"
    using assms distinct_group_by by (metis map_of_is_SomeI)
  then show "ys = filter (\<lambda>x. key x = k) xs" and "k \<in> key ` set xs"
    by (auto simp: map_of_group_by split: if_splits)
  then show "ys \<noteq> []" by (auto simp: filter_empty_conv)
qed

lemma dict_get_group_by [dict_simps]:
  "dict_get (group_by key xs) k [] = filter (\<lambda>x. key x = k) xs"
  using filter_key_empty [of key k xs] by (auto simp: dict_get_def map_of_group_by)

lemma mset_group_by: "mset (concat (map snd (group_by key xs))) = mset xs"
proof (induction xs rule: rev_induct)
  case (snoc x xs)
  have step: "mset (concat (map snd (AList.map_default k [x] (\<lambda>ys. ys @ [x]) d))) =
      add_mset x (mset (concat (map snd d)))" for k d
    by (induction k "[x]" "\<lambda>ys. ys @ [x]" d rule: AList.map_default.induct) auto
  show ?case unfolding group_by_snoc dict_append_def step snoc.IH by simp
qed (simp add: group_by_def)

lemma sorted_group_by: "sorted_wrt (<) (map fst (sort_key fst (group_by key xs)))"
  using distinct_group_by [of key xs] by (simp add: strict_sorted_iff distinct_map mset_sort)

lemma index_by_snoc: "index_by key (xs @ [x]) = AList.update (key x) x (index_by key xs)"
  by (simp add: index_by_def)

lemma map_of_index_by [dict_simps]:
  "map_of (index_by key xs) k =
     (if k \<in> key ` set xs then Some (last (filter (\<lambda>x. key x = k) xs)) else None)"
proof (induction xs arbitrary: k rule: rev_induct)
  case Nil
  show ?case by (simp add: index_by_def)
next
  case (snoc x xs)
  show ?case
    by (auto simp: index_by_snoc update_conv' snoc.IH)
qed

lemma distinct_index_by: "distinct (map fst (index_by key xs))"
proof (induction xs rule: rev_induct)
  case Nil
  show ?case by (simp add: index_by_def)
next
  case (snoc x xs)
  then show ?case by (simp add: index_by_snoc distinct_update)
qed

lemma keys_index_by [dict_simps]: "set (map fst (index_by key xs)) = key ` set xs"
proof (induction xs rule: rev_induct)
  case Nil
  show ?case by (simp add: index_by_def)
next
  case (snoc x xs)
  have "set (map fst (AList.update (key x) x d)) = insert (key x) (set (map fst d))" for d
    using update_keys [of "key x" x d] by (simp add: insert_absorb)
  with snoc show ?case by (simp add: index_by_snoc)
qed

lemma index_by_SomeD:
  assumes "map_of (index_by key xs) k = Some x"
  shows "x \<in> set xs" and "key x = k"
proof -
  from assms have "k \<in> key ` set xs" and "x = last (filter (\<lambda>x. key x = k) xs)"
    by (simp_all add: map_of_index_by split: if_splits)
  then have "x \<in> set (filter (\<lambda>x. key x = k) xs)"
    using last_in_set [of "filter (\<lambda>x. key x = k) xs"] by (auto simp: filter_key_empty)
  then show "x \<in> set xs" and "key x = k" by auto
qed

lemma index_by_unique:
  assumes "x \<in> set xs" and "inj_on key (set xs)"
  shows "map_of (index_by key xs) (key x) = Some x"
proof -
  from assms(1) obtain y where y: "map_of (index_by key xs) (key x) = Some y"
    by (simp add: map_of_index_by)
  from index_by_SomeD [OF y] assms have "y = x" by (auto dest: inj_onD)
  with y show ?thesis by simp
qed

lemma index_by_entry:
  assumes "p \<in> set (index_by f xs)"
  shows "f (snd p) = fst p" and "snd p \<in> set xs" and "snd p = last (filter (\<lambda>x. f x = fst p) xs)"
proof -
  have m: "map_of (index_by f xs) (fst p) = Some (snd p)"
    using map_of_is_SomeI [OF distinct_index_by, of "fst p" "snd p" f xs] assms by simp
  from index_by_SomeD [OF m] show "f (snd p) = fst p" and "snd p \<in> set xs" by simp_all
  from m show "snd p = last (filter (\<lambda>x. f x = fst p) xs)"
    by (auto simp: map_of_index_by split: if_splits)
qed

lemma update_absent: "k \<notin> fst ` set d \<Longrightarrow> AList.update k v d = d @ [(k, v)]"
  by (induction d) auto

lemma index_by_distinct: "distinct (map f xs) \<Longrightarrow> index_by f xs = map (\<lambda>x. (f x, x)) xs"
proof (induction xs rule: rev_induct)
  case (snoc x xs)
  then have "f x \<notin> fst ` set (map (\<lambda>x. (f x, x)) xs)" by (auto simp: image_iff)
  then show ?case using snoc by (simp add: index_by_snoc update_absent)
qed (simp add: index_by_def)

lemma index_first_snoc:
  "index_first key (xs @ [x]) =
     (case map_of (index_first key xs) (key x) of
        None \<Rightarrow> index_first key xs @ [(key x, x)] | Some _ \<Rightarrow> index_first key xs)"
  by (simp add: index_first_def split: option.split)

lemma map_of_index_first [dict_simps]:
  "map_of (index_first key xs) k = List.find (\<lambda>x. key x = k) xs"
proof (induction xs rule: rev_induct)
  case Nil
  show ?case by (simp add: index_first_def)
next
  case (snoc x xs)
  have find: "List.find P (xs @ [x]) = (case List.find P xs of None \<Rightarrow> if P x then Some x else None | Some y \<Rightarrow> Some y)"
    for P by (induction xs) auto
  show ?case
    using snoc unfolding find index_first_snoc by (auto simp: map_add_def split: option.splits)
qed

lemma keys_index_first [dict_simps]: "set (map fst (index_first key xs)) = key ` set xs"
proof -
  have "map_of (index_first key xs) k = None \<longleftrightarrow> k \<notin> key ` set xs" for k
    by (auto simp: map_of_index_first find_None_iff)
  then show ?thesis unfolding map_of_eq_None_iff by auto
qed

lemma distinct_index_first: "distinct (map fst (index_first key xs))"
proof (induction xs rule: rev_induct)
  case Nil
  show ?case by (simp add: index_first_def)
next
  case (snoc x xs)
  then show ?case
    by (auto simp: index_first_snoc map_of_eq_None_iff split: option.split)
qed

section \<open>Sorting by a key\<close>

text \<open>
  Python's \<open>sorted(xs, key=f)\<close> is stable; so is \<^const>\<open>sort_key\<close>. \<open>sorted(set(xs))\<close> is
  \<^const>\<open>sorted_list_of_set\<close> of a finite set, which \<^const>\<open>sort\<close> after \<^const>\<open>remdups\<close>
  computes.
\<close>

definition sorted_distinct :: "'a::linorder list \<Rightarrow> 'a list" where
  "sorted_distinct xs = sort (remdups xs)"

lemma sorted_distinct_props [simp]:
  "sorted (sorted_distinct xs)" "distinct (sorted_distinct xs)"
  "set (sorted_distinct xs) = set xs"
  by (simp_all add: sorted_distinct_def)

lemma sorted_distinct_cong: "set xs = set ys \<Longrightarrow> sorted_distinct xs = sorted_distinct ys"
  by (rule sorted_distinct_set_unique) simp_all

lemma sort_key_perm_inj:
  assumes "mset xs = mset ys" and "inj_on f (set xs)"
  shows "sort_key f xs = sort_key f ys"
proof (rule properties_for_sort_key [symmetric, of "sort_key f xs"])
  show "mset (sort_key f xs) = mset ys" using assms(1) by simp
  show "filter (\<lambda>x. f k = f x) (sort_key f xs) = filter (\<lambda>x. f k = f x) ys"
    if "k \<in> set (sort_key f xs)" for k
  proof -
    have *: "set ys = set xs" using assms(1) by (metis set_mset_mset)
    have "mset (filter (\<lambda>x. f k = f x) (sort_key f xs)) = mset (filter (\<lambda>x. f k = f x) ys)"
      using assms(1) by (simp add: mset_filter)
    moreover have "y = k" if "y \<in> set (filter (\<lambda>x. f k = f x) ys)" for y
      using that \<open>k \<in> set (sort_key f xs)\<close> assms(2) * by (auto dest: inj_onD)
    moreover have "y = k" if "y \<in> set (filter (\<lambda>x. f k = f x) (sort_key f xs))" for y
      using that \<open>k \<in> set (sort_key f xs)\<close> assms(2) by (auto dest: inj_onD)
    ultimately show ?thesis
      by (metis replicate_eqI mset_eq_length)
  qed
  show "sorted (map f (sort_key f xs))" by simp
qed

text \<open>
  The contract of every \<open>canonical_*\<close> function of the code: a stable ordering by a key. Where
  the key tells the records apart, the canonical form depends on the records only, not on the
  order a builder found them in.
\<close>

locale record_order =
  fixes key :: "'r \<Rightarrow> 'k::linorder"
    and canonical :: "'r list \<Rightarrow> 'r list"
  assumes canonical_mset: "mset (canonical rs) = mset rs"
    and canonical_sorted: "sorted (map key (canonical rs))"
    and canonical_stable: "filter (\<lambda>r. key r = k) (canonical rs) = filter (\<lambda>r. key r = k) rs"
begin

lemma canonical_eq_sort_key: "canonical rs = sort_key key rs"
proof (rule properties_for_sort_key [symmetric, of "canonical rs"])
  show "filter (\<lambda>x. key k = key x) (canonical rs) = filter (\<lambda>x. key k = key x) rs" for k
    using canonical_stable [of "key k" rs] by (simp add: eq_commute)
qed (simp_all add: canonical_mset canonical_sorted)

lemma canonical_set: "set (canonical rs) = set rs"
  using canonical_mset by (metis set_mset_mset)

lemma canonical_length: "length (canonical rs) = length rs"
  using canonical_mset by (metis size_mset)

lemma canonical_idem: "canonical (canonical rs) = canonical rs"
  by (simp add: canonical_eq_sort_key sorted_sort_id sort_key_id_if_sorted)

lemma canonical_perm:
  "mset rs = mset rs' \<Longrightarrow> inj_on key (set rs) \<Longrightarrow> canonical rs = canonical rs'"
  by (simp add: canonical_eq_sort_key sort_key_perm_inj)

end

lemma sort_key_filter: "filter (\<lambda>r. key r = k) (sort_key key rs) = filter (\<lambda>r. key r = k) rs"
  by (simp add: sort_key_stable)

text \<open>Sorting by a key whose computation can fail: the keys first, then a stable sort.\<close>

definition keyed :: "('a \<Rightarrow> 'k result) \<Rightarrow> 'a \<Rightarrow> ('k \<times> 'a) result" where
  "keyed key x = r_bind (key x) (\<lambda>k. Inr (k, x))"

definition sort_by_result :: "('a \<Rightarrow> 'k::linorder result) \<Rightarrow> 'a list \<Rightarrow> 'a list result" where
  "sort_by_result key xs = r_bind (r_map (keyed key) xs) (\<lambda>ks. Inr (map snd (sort_key fst ks)))"

lemma sort_key_map: "sort_key f (map g xs) = map g (sort_key (\<lambda>x. f (g x)) xs)"
proof (induction xs)
  case (Cons x xs)
  have "insort_key f (g x) (map g ys) = map g (insort_key (\<lambda>x. f (g x)) x ys)" for ys
    by (induction ys) auto
  with Cons show ?case by simp
qed simp

lemma sort_by_result_ok:
  assumes "\<And>x. x \<in> set xs \<Longrightarrow> key x = Inr (k x)"
  shows "sort_by_result key xs = Inr (sort_key k xs)"
proof -
  have "r_map (keyed key) xs = Inr (map (\<lambda>x. (k x, x)) xs)"
    using assms by (intro r_map_all_ok) (simp add: keyed_def)
  then show ?thesis by (simp add: sort_by_result_def sort_key_map comp_def)
qed

lemma sort_by_result_iff:
  "sort_by_result key xs = Inr ys \<longleftrightarrow>
     (\<forall>x \<in> set xs. is_ok (key x)) \<and> ys = sort_key (\<lambda>x. case key x of Inr k \<Rightarrow> k) xs"
proof (cases "\<forall>x \<in> set xs. is_ok (key x)")
  case True
  then have "sort_by_result key xs = Inr (sort_key (\<lambda>x. case key x of Inr k \<Rightarrow> k) xs)"
    by (intro sort_by_result_ok) (auto simp: is_ok_iff)
  with True show ?thesis by auto
next
  case False
  then obtain x where x: "x \<in> set xs" "\<not> is_ok (key x)" by blast
  then obtain e where "key x = Inl e" by (cases "key x") auto
  with x(1) have "x \<in> set xs" "key x = Inl e" by simp_all
  then have "r_map (keyed key) xs \<noteq> Inr ks" for ks
    using r_map_set_rev [of "keyed key" xs ks x] by (auto simp: keyed_def)
  then show ?thesis using False by (auto simp: sort_by_result_def r_bind_Inr_iff)
qed

end
