(* ===== verification/Py_Decimal.thy ===== *)
theory Py_Decimal
  imports Py_Text Complex_Main
begin

text \<open>
  Python's \<open>decimal.Decimal\<close> restricted to finite numbers, with the default context the code
  runs in: 28 significant digits, rounding half to even. A value is an integer coefficient and
  an exponent; the sign of a zero is not kept (every rendering of the code goes through
  \<open>quantize_decimal\<close>, which drops it). Comparison is exact, \<open>+\<close>, \<open>-\<close>, unary minus, \<open>abs\<close>
  and \<open>normalize\<close> round to the context. \<open>dval\<close> is the rational number a Decimal stands for;
  the lemmas relate every operation to it and say when the rounding is exact. NaN, the
  infinities and exponents beyond 900000 are \<open>OutsideModel\<close>.
\<close>

named_theorems decimal_simps "operations on decimals in terms of their rational value"

section \<open>Digits\<close>

definition ndigits :: "nat \<Rightarrow> nat" where
  "ndigits n = length (nat_text n)"

lemma ndigits_rec: "ndigits n = (if n < 10 then 1 else Suc (ndigits (n div 10)))"
  unfolding ndigits_def by (subst nat_text.simps) simp

lemma ndigits_pos [simp]: "0 < ndigits n"
  by (simp add: ndigits_def)

lemma ndigits_le_iff: "0 < k \<Longrightarrow> ndigits n \<le> k \<longleftrightarrow> n < 10 ^ k"
proof (induction k arbitrary: n)
  case 0
  then show ?case by simp
next
  case (Suc k)
  show ?case
  proof (cases "n < 10")
    case True
    moreover have "(10::nat) ^ 1 \<le> 10 ^ Suc k" by (rule power_increasing) simp_all
    ultimately have "n < 10 ^ Suc k" by (metis order_less_le_trans power_one_right)
    with True show ?thesis by (subst ndigits_rec) simp
  next
    case False
    then have "ndigits n \<le> Suc k \<longleftrightarrow> ndigits (n div 10) \<le> k" by (subst ndigits_rec) simp
    also have "\<dots> \<longleftrightarrow> n div 10 < 10 ^ k"
    proof (cases "k = 0")
      case True
      moreover have "ndigits (n div 10) \<noteq> 0" using ndigits_pos [of "n div 10"] by linarith
      moreover have "n div 10 \<noteq> 0" using False by (simp add: div_eq_0_iff)
      ultimately show ?thesis by simp
    next
      case False
      then show ?thesis by (simp add: Suc.IH)
    qed
    also have "\<dots> \<longleftrightarrow> n < 10 ^ Suc k"
      by (simp add: div_less_iff_less_mult mult.commute)
    finally show ?thesis .
  qed
qed

lemma ndigits_ge: "k < ndigits n \<Longrightarrow> 0 < k \<Longrightarrow> 10 ^ k \<le> n"
  using ndigits_le_iff [of k n] by (auto simp: not_less)

section \<open>Finite decimals\<close>

datatype decimal = Decimal (coefficient: int) (exponent: int)

definition dval :: "decimal \<Rightarrow> rat" where
  "dval d = of_int (coefficient d) * 10 powi exponent d"

definition d_zero :: decimal where "d_zero = Decimal 0 0"

abbreviation digits_of :: "int \<Rightarrow> nat" where "digits_of c \<equiv> ndigits (nat \<bar>c\<bar>)"

definition align :: "decimal \<Rightarrow> int \<Rightarrow> int" where
  "align d m = coefficient d * 10 ^ nat (exponent d - m)"

definition d_eq :: "decimal \<Rightarrow> decimal \<Rightarrow> bool" where
  "d_eq a b = (let m = min (exponent a) (exponent b) in align a m = align b m)"

definition d_lt :: "decimal \<Rightarrow> decimal \<Rightarrow> bool" where
  "d_lt a b = (let m = min (exponent a) (exponent b) in align a m < align b m)"

lemma dval_align: "m \<le> exponent d \<Longrightarrow> dval d = of_int (align d m) * 10 powi m"
proof -
  assume "m \<le> exponent d"
  then have "exponent d = int (nat (exponent d - m)) + m" by simp
  then have "(10::rat) powi exponent d = 10 ^ nat (exponent d - m) * 10 powi m"
    by (metis power_int_add power_int_of_nat zero_neq_numeral)
  then show ?thesis by (simp add: dval_def align_def)
qed

lemma powi10_pos [simp]: "0 < (10::rat) powi e"
  by (simp add: zero_less_power_int)

lemma powi10_nz [simp]: "(10::rat) powi e \<noteq> 0"
  by (simp add: power_int_eq_0_iff)

lemma d_eq_iff [decimal_simps]: "d_eq a b \<longleftrightarrow> dval a = dval b"
proof -
  define m where "m = min (exponent a) (exponent b)"
  have "dval a = of_int (align a m) * 10 powi m" "dval b = of_int (align b m) * 10 powi m"
    by (rule dval_align; simp add: m_def)+
  then show ?thesis by (simp add: d_eq_def m_def [symmetric] Let_def)
qed

lemma d_lt_iff [decimal_simps]: "d_lt a b \<longleftrightarrow> dval a < dval b"
proof -
  define m where "m = min (exponent a) (exponent b)"
  have "dval a = of_int (align a m) * 10 powi m" "dval b = of_int (align b m) * 10 powi m"
    by (rule dval_align; simp add: m_def)+
  then show ?thesis by (simp add: d_lt_def m_def [symmetric] Let_def)
qed

lemma dval_zero [simp]: "dval d_zero = 0" "dval (Decimal 0 e) = 0"
  by (simp_all add: dval_def d_zero_def)

lemma dval_eq_0: "dval d = 0 \<longleftrightarrow> coefficient d = 0"
  by (simp add: dval_def)

section \<open>The 28-digit context\<close>

definition half_even :: "nat \<Rightarrow> nat \<Rightarrow> nat" where
  "half_even n m =
     (let q = n div m; r = n mod m in if m < 2 * r \<or> (2 * r = m \<and> odd q) then q + 1 else q)"

definition d_fix :: "decimal \<Rightarrow> decimal" where
  "d_fix d =
     (let c = coefficient d; k = digits_of c - 28 in
      if k = 0 then d
      else let q = half_even (nat \<bar>c\<bar>) (10 ^ k) in
        if ndigits q \<le> 28 then Decimal (sgn c * int q) (exponent d + int k)
        else Decimal (sgn c * int (q div 10)) (exponent d + int k + 1))"

definition fits :: "rat \<Rightarrow> bool" where
  "fits x \<longleftrightarrow> (\<exists>c e. digits_of c \<le> 28 \<and> x = dval (Decimal c e))"

lemma half_even_exact: "0 < m \<Longrightarrow> half_even (q * m) m = q"
  by (simp add: half_even_def)

lemma half_even_pos: "m \<le> n \<Longrightarrow> 0 < m \<Longrightarrow> 0 < half_even n m"
  by (simp add: half_even_def Let_def div_greater_zero_iff)

lemma d_fix_id: "digits_of (coefficient d) \<le> 28 \<Longrightarrow> d_fix d = d"
  by (simp add: d_fix_def)

lemma dval_eq_scaled:
  assumes "dval (Decimal c e) = dval (Decimal c' e')" and "e \<le> e'"
  shows "c = c' * 10 ^ nat (e' - e)"
proof -
  have "dval (Decimal c' e') = of_int (align (Decimal c' e') e) * 10 powi e"
    by (rule dval_align) (simp add: assms)
  with assms(1) have "of_int c * (10::rat) powi e = of_int (align (Decimal c' e') e) * 10 powi e"
    by (simp add: dval_def)
  then have "(of_int c :: rat) = of_int (align (Decimal c' e') e)" by simp
  then show ?thesis by (simp add: align_def del: of_int_power of_int_mult)
qed

lemma digits_of_le: "digits_of c \<le> 28 \<longleftrightarrow> \<bar>c\<bar> < 10 ^ 28"
proof -
  have "digits_of c \<le> 28 \<longleftrightarrow> nat \<bar>c\<bar> < 10 ^ 28" by (rule ndigits_le_iff) simp
  also have "\<dots> \<longleftrightarrow> \<bar>c\<bar> < 10 ^ 28" by (simp add: nat_less_iff)
  finally show ?thesis .
qed

lemma digits_of_ge: "digits_of c = 28 + k \<Longrightarrow> 0 < k \<Longrightarrow> 10 ^ (28 + k - 1) \<le> \<bar>c\<bar>"
proof -
  assume "digits_of c = 28 + k" "0 < k"
  then have "10 ^ (28 + k - 1) \<le> nat \<bar>c\<bar>" by (intro ndigits_ge) simp_all
  then have "int (10 ^ (28 + k - 1)) \<le> \<bar>c\<bar>" by linarith
  then show ?thesis by simp
qed

lemma digits_of_lt: "digits_of c = n \<Longrightarrow> \<bar>c\<bar> < 10 ^ n"
proof -
  assume n: "digits_of c = n"
  then have "0 < n" using ndigits_pos by metis
  with n ndigits_le_iff [of n "nat \<bar>c\<bar>"] have "nat \<bar>c\<bar> < 10 ^ n" by simp
  then have "\<bar>c\<bar> < int (10 ^ n)" by linarith
  then show ?thesis by simp
qed

lemma fits_dvd:
  assumes "fits (dval d)" and "digits_of (coefficient d) = 28 + k" and "0 < k"
  shows "10 ^ k dvd coefficient d"
proof -
  obtain c e where d: "d = Decimal c e" by (cases d)
  obtain c' e' where c': "digits_of c' \<le> 28" and eq: "dval (Decimal c e) = dval (Decimal c' e')"
    using assms(1) by (auto simp: fits_def d)
  have big: "10 ^ (28 + k - 1) \<le> \<bar>c\<bar>" using digits_of_ge assms(2,3) d by simp
  have small: "\<bar>c'\<bar> < 10 ^ 28" using c' by (simp add: digits_of_le)
  have "(10::int) ^ 28 \<le> 10 ^ (28 + k - 1)" by (rule power_increasing) (use assms(3) in auto)
  with big have big28: "10 ^ 28 \<le> \<bar>c\<bar>" by linarith
  have le: "e \<le> e'"
  proof (rule ccontr)
    assume "\<not> e \<le> e'"
    then have "c' = c * 10 ^ nat (e - e')" using dval_eq_scaled [OF eq [symmetric]] by simp
    then have "\<bar>c\<bar> \<le> \<bar>c'\<bar>" by (simp add: abs_mult mult_le_cancel_left1)
    with small big28 show False by linarith
  qed
  define j where "j = nat (e' - e)"
  have c: "c = c' * 10 ^ j" using dval_eq_scaled [OF eq le] by (simp add: j_def)
  have "(10::int) ^ (28 + k - 1) < 10 ^ 28 * 10 ^ j"
  proof -
    have "\<bar>c\<bar> = \<bar>c'\<bar> * 10 ^ j" by (simp add: c abs_mult)
    also have "\<dots> < 10 ^ 28 * 10 ^ j" using small by simp
    finally show ?thesis using big by linarith
  qed
  then have "(10::int) ^ (28 + k - 1) < 10 ^ (28 + j)" by (simp only: power_add)
  then have "28 + k - 1 < 28 + j" by (rule power_less_imp_less_exp [rotated]) simp
  then have "k \<le> j" by linarith
  then show ?thesis by (simp add: c d dvd_mult le_imp_power_dvd)
qed

lemma d_fix_exact [decimal_simps]: "fits (dval d) \<Longrightarrow> dval (d_fix d) = dval d"
proof -
  assume fits: "fits (dval d)"
  obtain c e where d: "d = Decimal c e" by (cases d)
  define k where "k = digits_of c - 28"
  show ?thesis
  proof (cases "k = 0")
    case True
    then show ?thesis using d_fix_id by (simp add: d k_def)
  next
    case False
    then have dc: "digits_of c = 28 + k" and k: "0 < k" by (auto simp: k_def)
    from fits_dvd [OF fits] dc k d obtain q where q: "c = q * 10 ^ k"
      by (auto elim!: dvdE simp: mult.commute)
    have nat_c: "nat \<bar>c\<bar> = nat \<bar>q\<bar> * 10 ^ k"
      by (simp add: q abs_mult nat_mult_distrib nat_power_eq)
    have "\<bar>q\<bar> * 10 ^ k < 10 ^ 28 * 10 ^ k"
      using digits_of_lt [OF dc] by (simp add: q abs_mult power_add)
    then have "\<bar>q\<bar> < 10 ^ 28" by simp
    then have nq: "ndigits (nat \<bar>q\<bar>) \<le> 28" by (simp add: digits_of_le)
    have fixed: "d_fix d = Decimal (sgn c * int (nat \<bar>q\<bar>)) (e + int k)"
      unfolding d_fix_def Let_def d decimal.sel k_def [symmetric]
      using False nq by (simp add: nat_c half_even_exact)
    have "sgn c = sgn q" by (simp add: q sgn_mult)
    then have "d_fix d = Decimal q (e + int k)" by (simp add: fixed sgn_mult_abs)
    then show ?thesis
      by (simp add: d dval_def q power_int_add mult.assoc mult.commute)
  qed
qed

text \<open>Rounding never turns a non-zero number into zero.\<close>

lemma d_fix_zero_iff: "dval (d_fix d) = 0 \<longleftrightarrow> dval d = 0"
proof -
  obtain c e where d: "d = Decimal c e" by (cases d)
  define k where "k = digits_of c - 28"
  show ?thesis
  proof (cases "k = 0")
    case True
    then show ?thesis using d_fix_id by (simp add: d k_def)
  next
    case False
    then have dc: "digits_of c = 28 + k" and k: "0 < k" by (auto simp: k_def)
    have "10 ^ (28 + k - 1) \<le> nat \<bar>c\<bar>" using dc k by (intro ndigits_ge) simp_all
    moreover have "(10::nat) ^ k \<le> 10 ^ (28 + k - 1)" by (rule power_increasing) auto
    ultimately have "10 ^ k \<le> nat \<bar>c\<bar>" by linarith
    then have q: "0 < half_even (nat \<bar>c\<bar>) (10 ^ k)" by (rule half_even_pos) simp
    have c: "c \<noteq> 0"
    proof
      assume "c = 0"
      then have "ndigits 0 = 28 + k" using dc by simp
      then show False by (simp add: ndigits_rec)
    qed
    have "0 < n div 10" if "\<not> ndigits n \<le> 28" for n
      using that ndigits_le_iff [of 28 n] by (simp add: div_greater_zero_iff)
    then have "coefficient (d_fix d) \<noteq> 0"
      unfolding d_fix_def Let_def d decimal.sel k_def [symmetric]
      using False q c by (simp add: sgn_0_0)
    then show ?thesis using c by (simp add: dval_eq_0 d)
  qed
qed

section \<open>Arithmetic\<close>

definition d_exact_add :: "decimal \<Rightarrow> decimal \<Rightarrow> decimal" where
  "d_exact_add a b =
     (let m = min (exponent a) (exponent b) in Decimal (align a m + align b m) m)"

definition d_exact_neg :: "decimal \<Rightarrow> decimal" where
  "d_exact_neg d = Decimal (- coefficient d) (exponent d)"

definition d_add :: "decimal \<Rightarrow> decimal \<Rightarrow> decimal" where
  "d_add a b = d_fix (d_exact_add a b)"

definition d_sub :: "decimal \<Rightarrow> decimal \<Rightarrow> decimal" where
  "d_sub a b = d_fix (d_exact_add a (d_exact_neg b))"

definition d_neg :: "decimal \<Rightarrow> decimal" where
  "d_neg d = d_fix (d_exact_neg d)"

definition d_abs :: "decimal \<Rightarrow> decimal" where
  "d_abs d = (if coefficient d < 0 then d_neg d else d_fix d)"

definition d_sum :: "decimal list \<Rightarrow> decimal" where
  "d_sum ds = foldl d_add d_zero ds"

lemma dval_exact_add [decimal_simps]: "dval (d_exact_add a b) = dval a + dval b"
proof -
  define m where "m = min (exponent a) (exponent b)"
  have "dval a = of_int (align a m) * 10 powi m" "dval b = of_int (align b m) * 10 powi m"
    by (rule dval_align; simp add: m_def)+
  then show ?thesis
    by (simp add: d_exact_add_def m_def [symmetric] Let_def dval_def [of "Decimal _ _"] algebra_simps)
qed

lemma dval_exact_neg [decimal_simps]: "dval (d_exact_neg d) = - dval d"
  by (simp add: d_exact_neg_def dval_def)

lemma d_add_exact: "fits (dval a + dval b) \<Longrightarrow> dval (d_add a b) = dval a + dval b"
  by (simp add: d_add_def decimal_simps)

lemma d_sub_exact: "fits (dval a - dval b) \<Longrightarrow> dval (d_sub a b) = dval a - dval b"
  by (simp add: d_sub_def decimal_simps)

lemma d_sub_zero_iff: "dval (d_sub a b) = 0 \<longleftrightarrow> dval a = dval b"
  by (simp add: d_sub_def d_fix_zero_iff decimal_simps)

lemma fits_minus: "fits (- x) \<longleftrightarrow> fits x"
proof -
  have "fits (- x)" if "fits x" for x
  proof -
    from that obtain c e where "digits_of c \<le> 28" "x = dval (Decimal c e)"
      by (auto simp: fits_def)
    then have "digits_of (- c) \<le> 28 \<and> - x = dval (Decimal (- c) e)" by (simp add: dval_def)
    then show ?thesis unfolding fits_def by blast
  qed
  from this [of x] this [of "- x"] show ?thesis by auto
qed

lemma d_neg_exact: "fits (dval d) \<Longrightarrow> dval (d_neg d) = - dval d"
  by (simp add: d_neg_def decimal_simps fits_minus)

text \<open>
  A sum is exact when every summand is a multiple of a unit \<open>10 powi g\<close> and the absolute
  values add up to less than \<open>10 ^ 28\<close> units: no partial sum then needs more digits than the
  context has.
\<close>

definition on_grid :: "int \<Rightarrow> rat \<Rightarrow> bool" where
  "on_grid g x \<longleftrightarrow> (\<exists>n::int. x = of_int n * 10 powi g)"

lemma on_grid_dval: "on_grid (exponent d) (dval d)"
  unfolding on_grid_def dval_def by blast

lemma on_grid_0: "on_grid g 0"
  unfolding on_grid_def by (rule exI [of _ 0]) simp

lemma on_grid_add: "on_grid g x \<Longrightarrow> on_grid g y \<Longrightarrow> on_grid g (x + y)"
  unfolding on_grid_def by (metis distrib_right of_int_add)

lemma on_grid_fits: "on_grid g x \<Longrightarrow> \<bar>x\<bar> < 10 ^ 28 * 10 powi g \<Longrightarrow> fits x"
proof -
  assume "on_grid g x" and lt: "\<bar>x\<bar> < 10 ^ 28 * 10 powi g"
  then obtain n :: int where n: "x = of_int n * 10 powi g" by (auto simp: on_grid_def)
  with lt have "\<bar>of_int n\<bar> * (10::rat) powi g < 10 ^ 28 * 10 powi g"
    by (simp add: abs_mult power_int_abs)
  then have "\<bar>of_int n :: rat\<bar> < 10 ^ 28" by simp
  then have "\<bar>n\<bar> < 10 ^ 28"
    by (metis of_int_abs of_int_less_iff of_int_numeral of_int_power)
  then have "digits_of n \<le> 28" by (simp add: digits_of_le)
  with n show "fits x" unfolding fits_def dval_def by force
qed

lemma d_sum_exact_aux:
  assumes "\<forall>d \<in> set ds. on_grid g (dval d)" and "on_grid g (dval a)"
    and "\<bar>dval a\<bar> + sum_list (map (\<lambda>d. \<bar>dval d\<bar>) ds) < 10 ^ 28 * 10 powi g"
  shows "dval (foldl d_add a ds) = dval a + sum_list (map dval ds)"
  using assms
proof (induction ds arbitrary: a)
  case Nil
  then show ?case by simp
next
  case (Cons d ds)
  have nn: "0 \<le> sum_list (map (\<lambda>d. \<bar>dval d\<bar>) ds)" by (rule sum_list_nonneg) auto
  have grid: "on_grid g (dval a + dval d)" using Cons.prems by (simp add: on_grid_add)
  moreover have "\<bar>dval a + dval d\<bar> < 10 ^ 28 * 10 powi g"
    using Cons.prems(3) nn abs_triangle_ineq [of "dval a" "dval d"] by simp
  ultimately have step: "dval (d_add a d) = dval a + dval d"
    by (intro d_add_exact on_grid_fits)
  have "dval (foldl d_add (d_add a d) ds) = dval (d_add a d) + sum_list (map dval ds)"
  proof (rule Cons.IH)
    show "\<bar>dval (d_add a d)\<bar> + sum_list (map (\<lambda>d. \<bar>dval d\<bar>) ds) < 10 ^ 28 * 10 powi g"
      using Cons.prems(3) abs_triangle_ineq [of "dval a" "dval d"] by (simp add: step)
  qed (use Cons.prems grid step in auto)
  then show ?case by (simp add: step)
qed

lemma d_sum_exact:
  assumes "\<forall>d \<in> set ds. on_grid g (dval d)"
    and "sum_list (map (\<lambda>d. \<bar>dval d\<bar>) ds) < 10 ^ 28 * 10 powi g"
  shows "dval (d_sum ds) = sum_list (map dval ds)"
  using d_sum_exact_aux [OF assms(1), of d_zero] assms(2) on_grid_0 by (simp add: d_sum_def)

section \<open>Normal form\<close>

function strip_zeros :: "int \<Rightarrow> int \<Rightarrow> decimal" where
  "strip_zeros c e =
     (if c = 0 then d_zero
      else if c mod 10 = 0 then strip_zeros (c div 10) (e + 1)
      else Decimal c e)"
  by auto
termination by (relation "measure (\<lambda>(c, e). nat \<bar>c\<bar>)") auto

declare strip_zeros.simps [simp del]

definition d_normalize :: "decimal \<Rightarrow> decimal" where
  "d_normalize d = (let f = d_fix d in strip_zeros (coefficient f) (exponent f))"

definition canonical_decimal :: "decimal \<Rightarrow> bool" where
  "canonical_decimal d \<longleftrightarrow>
     (if coefficient d = 0 then d = d_zero
      else coefficient d mod 10 \<noteq> 0 \<and> digits_of (coefficient d) \<le> 28)"

lemma dval_strip_zeros: "dval (strip_zeros c e) = dval (Decimal c e)"
proof (induction c e rule: strip_zeros.induct)
  case (1 c e)
  show ?case
  proof (cases "c \<noteq> 0 \<and> c mod 10 = 0")
    case True
    then obtain q where q: "c = 10 * q" by (auto simp: mod_eq_0_iff_dvd elim: dvdE)
    have "dval (Decimal q (e + 1)) = dval (Decimal c e)"
      by (simp add: dval_def q power_int_add)
    with True "1.IH" q show ?thesis by (subst strip_zeros.simps) simp
  next
    case False
    then show ?thesis by (subst strip_zeros.simps) auto
  qed
qed

lemma strip_zeros_canonical: "\<bar>c\<bar> < 10 ^ 28 \<Longrightarrow> canonical_decimal (strip_zeros c e)"
proof (induction c e rule: strip_zeros.induct)
  case (1 c e)
  show ?case
  proof (cases "c \<noteq> 0 \<and> c mod 10 = 0")
    case True
    then obtain q where q: "c = 10 * q" by (auto simp: mod_eq_0_iff_dvd elim: dvdE)
    with "1.prems" have "\<bar>q\<bar> < 10 ^ 28" by linarith
    with True "1.IH" q show ?thesis by (subst strip_zeros.simps) simp
  next
    case False
    then show ?thesis
      using "1.prems" digits_of_le [of c]
      by (subst strip_zeros.simps) (auto simp: canonical_decimal_def d_zero_def)
  qed
qed

lemma half_even_le: "half_even n m \<le> n div m + 1"
  by (simp add: half_even_def Let_def)

lemma d_fix_digits: "digits_of (coefficient (d_fix d)) \<le> 28"
proof -
  obtain c e where d: "d = Decimal c e" by (cases d)
  define k where "k = digits_of c - 28"
  show ?thesis
  proof (cases "k = 0")
    case True
    then show ?thesis using d_fix_id by (simp add: d k_def)
  next
    case False
    then have dc: "digits_of c = 28 + k" by (auto simp: k_def)
    define q where "q = half_even (nat \<bar>c\<bar>) (10 ^ k)"
    have "nat \<bar>c\<bar> < 10 ^ (28 + k)" using ndigits_le_iff [of "28 + k" "nat \<bar>c\<bar>"] dc by simp
    then have "nat \<bar>c\<bar> div 10 ^ k < 10 ^ 28"
      by (simp add: div_less_iff_less_mult power_add)
    then have q: "q \<le> 10 ^ 28" using half_even_le [of "nat \<bar>c\<bar>" "10 ^ k"] by (simp add: q_def)
    then have "q div 10 < 10 ^ 28" by simp
    then have "ndigits (q div 10) \<le> 28" by (simp add: ndigits_le_iff)
    then show ?thesis
      unfolding d_fix_def Let_def d decimal.sel k_def [symmetric] q_def [symmetric]
      using False by (auto simp: abs_mult abs_sgn_eq ndigits_rec [of 0])
  qed
qed

lemma d_normalize_canonical: "canonical_decimal (d_normalize d)"
  unfolding d_normalize_def Let_def
  by (rule strip_zeros_canonical) (use d_fix_digits digits_of_le in blast)

lemma d_normalize_exact: "fits (dval d) \<Longrightarrow> dval (d_normalize d) = dval d"
  by (simp add: d_normalize_def Let_def dval_strip_zeros d_fix_exact)

lemma d_normalize_zero_iff: "dval (d_normalize d) = 0 \<longleftrightarrow> dval d = 0"
  by (simp add: d_normalize_def Let_def dval_strip_zeros d_fix_zero_iff)

lemma canonical_fits: "canonical_decimal d \<Longrightarrow> fits (dval d)"
  unfolding fits_def canonical_decimal_def
  by (rule exI [of _ "coefficient d"], rule exI [of _ "exponent d"])
    (auto simp: ndigits_rec [of 0] split: if_splits)

lemma canonical_unique:
  assumes "canonical_decimal a" and "canonical_decimal b" and "dval a = dval b"
  shows "a = b"
proof (cases "dval a = 0")
  case True
  then show ?thesis using assms by (simp add: dval_eq_0 canonical_decimal_def)
next
  case False
  have eq: "a = b" if "canonical_decimal a" "canonical_decimal b" "dval a = dval b"
    "dval a \<noteq> 0" "exponent a \<le> exponent b" for a b
  proof -
    obtain ca ea cb eb where ab: "a = Decimal ca ea" "b = Decimal cb eb" by (cases a, cases b)
    have ca: "ca = cb * 10 ^ nat (eb - ea)" using dval_eq_scaled that ab by simp
    have "ca \<noteq> 0" using that(4) by (simp add: dval_eq_0 ab)
    then have "ca mod 10 \<noteq> 0" using that(1) by (simp add: canonical_decimal_def ab)
    then have "nat (eb - ea) = 0" unfolding ca by (cases "nat (eb - ea)") auto
    then show ?thesis using that ab ca by simp
  qed
  show ?thesis
    using eq [of a b] eq [of b a] assms False by (metis linear)
qed

section \<open>Decimals as text\<close>

text \<open>
  \<open>format_f\<close> is \<open>format(d, 'f')\<close>. \<open>decimal_of_text\<close> is the constructor \<open>Decimal(text)\<close>:
  surrounding space and underscores are dropped; then an optional sign, digits with an optional
  point, an optional exponent. Anything else raises \<open>InvalidOperation\<close>.
\<close>

definition format_f :: "decimal \<Rightarrow> string" where
  "format_f d =
     (let ds = nat_text (nat \<bar>coefficient d\<bar>); e = exponent d; k = nat (- e); n = length ds;
          sign = (if coefficient d < 0 then ''-'' else [])
      in if 0 \<le> e then sign @ ds @ replicate (nat e) (CHR ''0'')
         else if n \<le> k then sign @ ''0.'' @ replicate (k - n) (CHR ''0'') @ ds
         else sign @ take (n - k) ds @ ''.'' @ drop (n - k) ds)"

definition special_number :: "string \<Rightarrow> bool" where
  "special_number u =
     (let l = lower u in l = ''inf'' \<or> l = ''infinity'' \<or>
        (take 3 l = ''nan'' \<and> list_all is_digit (drop 3 l)) \<or>
        (take 4 l = ''snan'' \<and> list_all is_digit (drop 4 l)))"

definition split_sign :: "string \<Rightarrow> bool \<times> string" where
  "split_sign t =
     (case t of [] \<Rightarrow> (False, [])
      | c # r \<Rightarrow> if c = CHR ''-'' then (True, r) else if c = CHR ''+'' then (False, r) else (False, t))"

definition exponent_of_text :: "string \<Rightarrow> int option" where
  "exponent_of_text t =
     (case t of [] \<Rightarrow> Some 0
      | c # r \<Rightarrow>
          if c = CHR ''e'' \<or> c = CHR ''E'' then
            (let (neg, ds) = split_sign r in
             if ds = [] \<or> \<not> list_all is_digit ds then None
             else Some (if neg then - int (text_nat ds) else int (text_nat ds)))
          else None)"

definition conversion_syntax :: py_error where
  "conversion_syntax = InvalidOperation ''decimal.ConversionSyntax''"

definition split_number :: "string \<Rightarrow> string \<times> string \<times> string" where
  "split_number u =
     (let r = dropWhile is_digit u in
      if r \<noteq> [] \<and> hd r = CHR ''.''
      then (takeWhile is_digit u, takeWhile is_digit (tl r), dropWhile is_digit (tl r))
      else (takeWhile is_digit u, [], r))"

definition decimal_of_text :: "string \<Rightarrow> decimal result" where
  "decimal_of_text s =
     (let (neg, u) = split_sign (filter (\<lambda>c. c \<noteq> CHR ''_'') (strip s));
          (ip, fp, rest) = split_number u
      in if special_number u then Inl (OutsideModel s)
         else if ip = [] \<and> fp = [] then Inl conversion_syntax
         else case exponent_of_text rest of
             None \<Rightarrow> Inl conversion_syntax
           | Some x \<Rightarrow>
               let e = x - int (length fp); n = int (text_nat (ip @ fp)) in
               if 900000 < \<bar>e\<bar> + int (length (ip @ fp)) then Inl (OutsideModel s)
               else Inr (Decimal (if neg then - n else n) e))"

definition text_size :: "decimal \<Rightarrow> int" where
  "text_size d = 2 * \<bar>exponent d\<bar> + int (digits_of (coefficient d)) + 1"

lemma digit_not_special: "u \<noteq> [] \<Longrightarrow> is_digit (hd u) \<Longrightarrow> \<not> special_number u"
proof -
  assume "u \<noteq> []" "is_digit (hd u)"
  then obtain c r where u: "u = c # r" and c: "is_digit c" by (cases u) auto
  then have "lower_char c = c" by (auto simp: lower_char_def is_digit_def Let_def)
  moreover have "c \<noteq> CHR ''i''" "c \<noteq> CHR ''n''" "c \<noteq> CHR ''s''"
    using c by (auto simp: is_digit_def Let_def)
  ultimately show ?thesis by (simp add: special_number_def u lower_def)
qed

lemma plain_text_decimal:
  assumes digits: "ip \<noteq> []" "\<forall>c \<in> set (ip @ fp). is_digit c"
    and size: "int (length fp) + int (length (ip @ fp)) \<le> 900000"
    and sign: "sign = (if neg then ''-'' else [])"
    and t: "t = sign @ ip @ (if fp = [] then [] else CHR ''.'' # fp)"
  shows "decimal_of_text t =
    Inr (Decimal ((if neg then -1 else 1) * int (text_nat (ip @ fp))) (- int (length fp)))"
proof -
  have dg: "c \<noteq> CHR ''_''" "c \<noteq> CHR ''-''" "c \<noteq> CHR ''+''" "c \<noteq> CHR ''.''" if "is_digit c" for c
    using that by (auto simp: is_digit_def Let_def)
  have hd_ip: "is_digit (hd ip)" using digits by simp
  have chars: "c \<in> set t \<Longrightarrow> is_digit c \<or> c = CHR ''-'' \<or> c = CHR ''.''" for c
    using digits sign by (auto simp: t split: if_splits)
  have "strip t = t"
  proof (rule strip_no_space)
    fix c assume "c \<in> set t"
    with chars [of c] show "\<not> is_space c"
      using digit_not_space [of c] by (auto simp: is_space_def Let_def)
  qed
  moreover have "filter (\<lambda>c. c \<noteq> CHR ''_'') t = t"
    using chars dg by (fastforce simp: filter_id_conv)
  moreover define u where "u = ip @ (if fp = [] then [] else CHR ''.'' # fp)"
  moreover have "split_sign t = (neg, u)"
    using digits hd_ip dg(2,3) [of "hd ip"]
    by (cases ip) (auto simp: split_sign_def t sign u_def)
  ultimately have split: "split_sign (filter (\<lambda>c. c \<noteq> CHR ''_'') (strip t)) = (neg, u)" by simp
  have u: "takeWhile is_digit u = ip"
    "dropWhile is_digit u = (if fp = [] then [] else CHR ''.'' # fp)"
    using takeWhile_digits [of ip "if fp = [] then [] else CHR ''.'' # fp"] digits dg
    by (auto simp: u_def is_digit_def Let_def)
  have fp: "takeWhile is_digit fp = fp" "dropWhile is_digit fp = []"
    using takeWhile_digits [of fp "[]"] digits by auto
  have num: "split_number u = (ip, fp, [])"
    unfolding split_number_def u by (simp add: fp del: dropWhile_eq_Nil_conv)
  have "\<not> special_number u"
    using digits hd_ip by (intro digit_not_special) (simp_all add: u_def)
  then show ?thesis
    using digits size by (simp add: decimal_of_text_def split num exponent_of_text_def)
qed

lemma decimal_of_format_f:
  assumes "text_size d \<le> 900000"
  shows "\<exists>d'. decimal_of_text (format_f d) = Inr d' \<and> dval d' = dval d"
proof -
  obtain c e where d: "d = Decimal c e" by (cases d)
  define ds where "ds = nat_text (nat \<bar>c\<bar>)"
  define k where "k = nat (- e)"
  define n where "n = length ds"
  define neg where "neg = (c < 0)"
  define sign where "sign = (if neg then ''-'' else [])"
  have dsd: "\<forall>c \<in> set ds. is_digit c" by (auto simp: ds_def dest: nat_text_digits)
  have ds: "ds \<noteq> []" "text_nat ds = nat \<bar>c\<bar>" by (simp_all add: ds_def)
  have signed: "(if neg then -1 else 1) * int (nat \<bar>c\<bar>) = c" by (auto simp: neg_def)
  have nd: "int n = int (digits_of c)" by (simp add: n_def ds_def ndigits_def)
  note size = assms [unfolded text_size_def d decimal.sel]
  have fmt: "format_f d = (if 0 \<le> e then sign @ ds @ replicate (nat e) (CHR ''0'')
       else if n \<le> k then sign @ ''0.'' @ replicate (k - n) (CHR ''0'') @ ds
       else sign @ take (n - k) ds @ ''.'' @ drop (n - k) ds)"
    by (simp add: format_f_def d ds_def k_def n_def neg_def sign_def Let_def)
  have *: "dval (Decimal ((if neg then -1 else 1) * int (nat \<bar>c\<bar>)) e) = dval d"
    by (simp only: signed d)
  consider (whole) "0 \<le> e" | (small) "e < 0" "n \<le> k" | (point) "e < 0" "k < n" by linarith
  then show ?thesis
  proof cases
    case whole
    have val: "text_nat (ds @ replicate j (CHR ''0'')) = nat \<bar>c\<bar> * 10 ^ j" for j
    proof (induction j)
      case (Suc j)
      have "ds @ replicate (Suc j) (CHR ''0'') = (ds @ replicate j (CHR ''0'')) @ ''0''"
        by (simp add: replicate_append_same)
      then show ?case by (simp only: text_nat_snoc Suc.IH) simp
    qed (simp add: ds)
    have "decimal_of_text (format_f d) = Inr (Decimal ((if neg then -1 else 1) *
        int (text_nat ((ds @ replicate (nat e) (CHR ''0'')) @ []))) (- int (length ([] :: string))))"
      by (rule plain_text_decimal [where sign = sign])
        (use whole ds dsd size nd in \<open>auto simp: fmt sign_def n_def\<close>)
    moreover have "dval (Decimal ((if neg then -1 else 1) * (int (nat \<bar>c\<bar>) * 10 ^ nat e)) 0) = dval d"
    proof -
      have "(10::rat) powi e = 10 ^ nat e" using whole by (simp add: power_int_def)
      then show ?thesis using signed by (simp add: dval_def d mult.assoc [symmetric] del: int_nat_eq)
    qed
    ultimately show ?thesis by (simp add: val)
  next
    case small
    have "decimal_of_text (format_f d) = Inr (Decimal ((if neg then -1 else 1) *
        int (text_nat (''0'' @ (replicate (k - n) (CHR ''0'') @ ds))))
          (- int (length (replicate (k - n) (CHR ''0'') @ ds))))"
      by (rule plain_text_decimal [where sign = sign])
        (use small ds dsd size nd in \<open>auto simp: fmt sign_def n_def k_def\<close>)
    moreover have "text_nat (''0'' @ (replicate (k - n) (CHR ''0'') @ ds)) = nat \<bar>c\<bar>"
      using text_nat_zeros [of "Suc (k - n)" ds] ds by simp
    moreover have "- int (length (replicate (k - n) (CHR ''0'') @ ds)) = e"
      using small by (simp add: n_def k_def)
    ultimately show ?thesis using * by simp
  next
    case point
    have "n - k < length ds" using point by (simp add: n_def k_def)
    then have fp: "drop (n - k) ds \<noteq> []" by simp
    have "decimal_of_text (format_f d) = Inr (Decimal ((if neg then -1 else 1) *
        int (text_nat (take (n - k) ds @ drop (n - k) ds))) (- int (length (drop (n - k) ds))))"
      by (rule plain_text_decimal [where sign = sign])
        (use point ds dsd size nd fp in
          \<open>auto simp: fmt sign_def n_def k_def dest: in_set_takeD in_set_dropD\<close>)
    moreover have "- int (length (drop (n - k) ds)) = e"
      using point by (simp add: n_def k_def)
    ultimately show ?thesis using * ds by simp
  qed
qed

end
