(* ===== verification/Py_Datetime.thy ===== *)
theory Py_Datetime
  imports Py_Text
begin

text \<open>
  Python's \<open>datetime\<close> as the code uses it: calendar fields down to the microsecond with an
  optional UTC offset in seconds (\<open>None\<close> is a naive value). Comparison is by the fields, which
  is Python's order for values with the same offset; the code compares only values that passed
  \<open>require_utc_datetime\<close>. \<open>strftime\<close> and \<open>strptime\<close> are modelled for the two formats of the
  code; \<open>strptime\<close> takes one or two digits for every field but the year, any run of spaces for
  the space of the format, and rejects impossible dates. Proleptic ordinals give differences in
  whole days.
\<close>

datatype datetime = DateTime (year: nat) (month: nat) (day: nat) (hour: nat) (minute: nat)
  (second: nat) (microsecond: nat) (utcoffset: "int option")

definition dt_key :: "datetime \<Rightarrow> nat list \<times> int option" where
  "dt_key d = ([year d, month d, day d, hour d, minute d, second d, microsecond d], utcoffset d)"

lemma dt_key_inj [simp]: "dt_key a = dt_key b \<longleftrightarrow> a = b"
  by (cases a, cases b) (simp add: dt_key_def)

instantiation datetime :: linorder
begin

definition less_eq_datetime :: "datetime \<Rightarrow> datetime \<Rightarrow> bool" where
  "less_eq_datetime a b \<longleftrightarrow> dt_key a \<le> dt_key b"

definition less_datetime :: "datetime \<Rightarrow> datetime \<Rightarrow> bool" where
  "less_datetime a b \<longleftrightarrow> dt_key a < dt_key b"

instance
  by standard (auto simp: less_eq_datetime_def less_datetime_def less_le)

end

section \<open>The calendar\<close>

definition leap_year :: "nat \<Rightarrow> bool" where
  "leap_year y \<longleftrightarrow> 4 dvd y \<and> (\<not> 100 dvd y \<or> 400 dvd y)"

definition days_in_month :: "nat \<Rightarrow> nat \<Rightarrow> nat" where
  "days_in_month y m =
     (if m = 2 then if leap_year y then 29 else 28
      else if m \<in> {4, 6, 9, 11} then 30 else 31)"

definition valid_date :: "nat \<Rightarrow> nat \<Rightarrow> nat \<Rightarrow> bool" where
  "valid_date y m d \<longleftrightarrow>
     1 \<le> y \<and> y \<le> 9999 \<and> 1 \<le> m \<and> m \<le> 12 \<and> 1 \<le> d \<and> d \<le> days_in_month y m"

definition valid_datetime :: "datetime \<Rightarrow> bool" where
  "valid_datetime t \<longleftrightarrow>
     valid_date (year t) (month t) (day t) \<and> hour t < 24 \<and> minute t < 60 \<and> second t < 60 \<and>
     microsecond t < 1000000"

definition days_before_year :: "nat \<Rightarrow> nat" where
  "days_before_year y = (let p = y - 1 in p * 365 + p div 4 - p div 100 + p div 400)"

definition days_before_month :: "nat \<Rightarrow> nat \<Rightarrow> nat" where
  "days_before_month y m = sum_list (map (days_in_month y) [1 ..< m])"

definition toordinal :: "datetime \<Rightarrow> nat" where
  "toordinal t = days_before_year (year t) + days_before_month (year t) (month t) + day t"

text \<open>Microseconds since 1970; differences of instants are differences of these.\<close>

definition unix_microseconds :: "datetime \<Rightarrow> int" where
  "unix_microseconds t =
     (((int (toordinal t) - 719163) * 86400 + int (hour t) * 3600 + int (minute t) * 60 +
        int (second t)) * 1000000) + int (microsecond t)"

lemma days_in_month_le: "days_in_month y m \<le> 31"
  by (simp add: days_in_month_def)

section \<open>Formats\<close>

definition strftime_date :: "datetime \<Rightarrow> string" where
  "strftime_date t =
     zfill 4 (nat_text (year t)) @ ''-'' @ zfill 2 (nat_text (month t)) @ ''-'' @
     zfill 2 (nat_text (day t))"

definition strftime_timestamp :: "datetime \<Rightarrow> string" where
  "strftime_timestamp t =
     strftime_date t @ '' '' @ zfill 2 (nat_text (hour t)) @ '':'' @
     zfill 2 (nat_text (minute t)) @ '':'' @ zfill 2 (nat_text (second t))"

text \<open>Reading one field: the digits, the rest.\<close>

definition read_year :: "string \<Rightarrow> (nat \<times> string) option" where
  "read_year s =
     (let ds = takeWhile is_digit s in
      if length ds = 4 then Some (text_nat ds, dropWhile is_digit s) else None)"

definition read_field :: "nat \<Rightarrow> nat \<Rightarrow> string \<Rightarrow> (nat \<times> string) option" where
  "read_field lo hi s =
     (let ds = takeWhile is_digit s; n = text_nat ds in
      if (length ds = 1 \<or> length ds = 2) \<and> lo \<le> n \<and> n \<le> hi
      then Some (n, dropWhile is_digit s) else None)"

definition read_day :: "string \<Rightarrow> (nat \<times> string) option" where
  "read_day s =
     (case s of [] \<Rightarrow> None
      | c # r \<Rightarrow>
          if c = CHR '' '' then if length (takeWhile is_digit r) = 1 then read_field 1 9 r else None
          else read_field 1 31 s)"

definition read_char :: "char \<Rightarrow> string \<Rightarrow> string option" where
  "read_char c s = (case s of [] \<Rightarrow> None | d # r \<Rightarrow> if d = c then Some r else None)"

definition read_spaces :: "string \<Rightarrow> string option" where
  "read_spaces s =
     (case s of [] \<Rightarrow> None | c # r \<Rightarrow> if is_space c then Some (dropWhile is_space r) else None)"

definition read_date :: "string \<Rightarrow> ((nat \<times> nat \<times> nat) \<times> string) option" where
  "read_date s =
     Option.bind (read_year s) (\<lambda>(y, s). Option.bind (read_char (CHR ''-'') s) (\<lambda>s.
     Option.bind (read_field 1 12 s) (\<lambda>(m, s). Option.bind (read_char (CHR ''-'') s) (\<lambda>s.
     Option.bind (read_day s) (\<lambda>(d, s). Some ((y, m, d), s))))))"

definition read_time :: "string \<Rightarrow> ((nat \<times> nat \<times> nat) \<times> string) option" where
  "read_time s =
     Option.bind (read_field 0 23 s) (\<lambda>(h, s). Option.bind (read_char (CHR '':'') s) (\<lambda>s.
     Option.bind (read_field 0 59 s) (\<lambda>(mi, s). Option.bind (read_char (CHR '':'') s) (\<lambda>s.
     Option.bind (read_field 0 59 s) (\<lambda>(se, s). Some ((h, mi, se), s))))))"

definition strptime_error :: py_error where
  "strptime_error = ValueError ''time data does not match format''"

definition strptime_date :: "string \<Rightarrow> datetime result" where
  "strptime_date s =
     (case read_date s of
        Some ((y, m, d), r) \<Rightarrow>
          if r = [] \<and> valid_date y m d then Inr (DateTime y m d 0 0 0 0 None)
          else Inl strptime_error
      | None \<Rightarrow> Inl strptime_error)"

definition strptime_timestamp :: "string \<Rightarrow> datetime result" where
  "strptime_timestamp s =
     (case Option.bind (read_date s) (\<lambda>(d, s). Option.bind (read_spaces s) (\<lambda>s.
             Option.bind (read_time s) (\<lambda>(t, s). Some (d, t, s)))) of
        Some ((y, m, d), (h, mi, se), r) \<Rightarrow>
          if r = [] \<and> valid_date y m d then Inr (DateTime y m d h mi se 0 None)
          else Inl strptime_error
      | None \<Rightarrow> Inl strptime_error)"

definition with_utc :: "datetime \<Rightarrow> datetime" where
  "with_utc t =
     DateTime (year t) (month t) (day t) (hour t) (minute t) (second t) (microsecond t) (Some 0)"

definition whole_second :: "datetime \<Rightarrow> datetime" where
  "whole_second t =
     DateTime (year t) (month t) (day t) (hour t) (minute t) (second t) 0 (utcoffset t)"

definition midnight :: "datetime \<Rightarrow> bool" where
  "midnight t \<longleftrightarrow> hour t = 0 \<and> minute t = 0 \<and> second t = 0 \<and> microsecond t = 0"

section \<open>Reading back what was written\<close>

lemma takeWhile_zfill:
  "r = [] \<or> \<not> is_digit (hd r) \<Longrightarrow>
     takeWhile is_digit (zfill w (nat_text n) @ r) = zfill w (nat_text n)"
  "r = [] \<or> \<not> is_digit (hd r) \<Longrightarrow> dropWhile is_digit (zfill w (nat_text n) @ r) = r"
proof -
  assume r: "r = [] \<or> \<not> is_digit (hd r)"
  have d: "\<forall>c \<in> set (zfill w (nat_text n)). is_digit c" using zfill_digits by blast
  show "takeWhile is_digit (zfill w (nat_text n) @ r) = zfill w (nat_text n)"
    using d r by (subst takeWhile_append2) (auto intro: takeWhile_eq_Nil_iff [THEN iffD2])
  show "dropWhile is_digit (zfill w (nat_text n) @ r) = r"
    using d r by (subst dropWhile_append2) (auto intro: dropWhile_eq_self_iff [THEN iffD2])
qed

lemma read_field_zfill:
  "lo \<le> n \<Longrightarrow> n \<le> hi \<Longrightarrow> n < 100 \<Longrightarrow> r = [] \<or> \<not> is_digit (hd r) \<Longrightarrow>
     read_field lo hi (zfill 2 (nat_text n) @ r) = Some (n, r)"
  using zfill_length [of n 2] by (simp add: read_field_def takeWhile_zfill Let_def)

lemma read_year_zfill:
  "n < 10000 \<Longrightarrow> r = [] \<or> \<not> is_digit (hd r) \<Longrightarrow>
     read_year (zfill 4 (nat_text n) @ r) = Some (n, r)"
  using zfill_length [of n 4] by (simp add: read_year_def takeWhile_zfill Let_def)

lemma zfill_Cons: "\<exists>c r. zfill w (nat_text n) = c # r \<and> is_digit c"
proof (cases "zfill w (nat_text n)")
  case Nil
  then show ?thesis by (simp add: zfill_def)
next
  case (Cons c r)
  then show ?thesis using zfill_digits [of c w n] by simp
qed

lemma read_day_zfill:
  assumes "1 \<le> n" "n \<le> 31" "r = [] \<or> \<not> is_digit (hd r)"
  shows "read_day (zfill 2 (nat_text n) @ r) = Some (n, r)"
proof -
  obtain c q where c: "zfill 2 (nat_text n) = c # q" "is_digit c" using zfill_Cons by blast
  then have "c \<noteq> CHR '' ''" by (auto simp: is_digit_def Let_def)
  with c have "read_day (zfill 2 (nat_text n) @ r) = read_field 1 31 (zfill 2 (nat_text n) @ r)"
    by (simp add: read_day_def)
  also have "\<dots> = Some (n, r)" using assms by (intro read_field_zfill) auto
  finally show ?thesis .
qed

lemma delimiters [simp]: "\<not> is_digit (CHR ''-'')" "\<not> is_digit (CHR '':'')" "\<not> is_digit (CHR '' '')"
  by (simp_all add: is_digit_def Let_def)

lemma read_date_strftime:
  assumes "valid_date (year t) (month t) (day t)" and "r = [] \<or> \<not> is_digit (hd r)"
  shows "read_date (strftime_date t @ r) = Some ((year t, month t, day t), r)"
proof -
  have b: "year t < 10000" "month t \<le> 12" "1 \<le> month t" "1 \<le> day t" "day t \<le> 31"
    using assms(1) days_in_month_le [of "year t" "month t"] by (auto simp: valid_date_def)
  show ?thesis
    using b assms(2)
    by (simp add: read_date_def strftime_date_def read_year_zfill read_field_zfill read_char_def
        read_day_zfill)
qed

lemma read_time_strftime:
  assumes "hour t < 24" "minute t < 60" "second t < 60"
  shows "read_time (zfill 2 (nat_text (hour t)) @ '':'' @ zfill 2 (nat_text (minute t)) @ '':'' @
    zfill 2 (nat_text (second t))) = Some ((hour t, minute t, second t), [])"
  using assms read_field_zfill [of 0 "second t" 59 "[]"]
  by (simp add: read_time_def read_field_zfill read_char_def)

lemma strptime_strftime_date:
  "valid_date (year t) (month t) (day t) \<Longrightarrow>
     strptime_date (strftime_date t) = Inr (DateTime (year t) (month t) (day t) 0 0 0 0 None)"
  using read_date_strftime [of t "[]"] by (simp add: strptime_date_def)

lemma strptime_strftime_timestamp:
  assumes "valid_datetime t"
  shows "strptime_timestamp (strftime_timestamp t) =
    Inr (DateTime (year t) (month t) (day t) (hour t) (minute t) (second t) 0 None)"
proof -
  let ?time = "zfill 2 (nat_text (hour t)) @ '':'' @ zfill 2 (nat_text (minute t)) @ '':'' @
    zfill 2 (nat_text (second t))"
  have "read_date (strftime_date t @ '' '' @ ?time) = Some ((year t, month t, day t), '' '' @ ?time)"
    using assms by (intro read_date_strftime) (auto simp: valid_datetime_def)
  moreover have "read_spaces ('' '' @ ?time) = Some ?time"
  proof -
    obtain c q where "zfill 2 (nat_text (hour t)) = c # q" "is_digit c" using zfill_Cons by blast
    then show ?thesis using digit_not_space [of c] by (simp add: read_spaces_def is_space_def)
  qed
  ultimately show ?thesis
    using assms read_time_strftime [of t]
    by (simp add: strptime_timestamp_def strftime_timestamp_def valid_datetime_def)
qed

lemma strip_strftime: "strip (strftime_timestamp t) = strftime_timestamp t"
  "strip (strftime_date t) = strftime_date t"
proof -
  obtain c q where c: "zfill 4 (nat_text (year t)) = c # q" "is_digit c" using zfill_Cons by blast
  have l: "\<not> is_space (last (zfill 2 (nat_text n)))" for n
    using zfill_digits [of "last (zfill 2 (nat_text n))" 2 n] zfill_Cons [of 2 n]
    by (auto intro!: digit_not_space dest: last_in_set)
  have ne: "zfill 2 (nat_text n) \<noteq> []" for n using zfill_Cons [of 2 n] by auto
  show "strip (strftime_timestamp t) = strftime_timestamp t"
    unfolding strip_def
    by (rule strip_by_id)
      (use c l ne digit_not_space [of c] in \<open>simp add: strftime_timestamp_def strftime_date_def\<close>)
  show "strip (strftime_date t) = strftime_date t"
    unfolding strip_def
    by (rule strip_by_id) (use c l ne digit_not_space [of c] in \<open>simp add: strftime_date_def\<close>)
qed

end
