(* ===== verification/Value_Objects.thy ===== *)
theory Value_Objects
  imports Py_Decimal Py_Datetime
begin

text \<open>
  \<open>domain/temporal.py\<close>, \<open>domain/value_objects.py\<close> and \<open>adapters/support/precision.py\<close>: the
  canonical form of a decimal and its text, UTC timestamps and their text, and the fractional
  digit checks of the adapters.
\<close>

section \<open>Temporal precision\<close>

datatype temporal_precision = TIMESTAMP | DATE

fun temporal_precision_text :: "temporal_precision \<Rightarrow> string" where
  "temporal_precision_text TIMESTAMP = ''timestamp''"
| "temporal_precision_text DATE = ''date''"

definition parse_temporal_precision :: "string \<Rightarrow> temporal_precision option" where
  "parse_temporal_precision v =
     (let text = strip v in
      if text = [] then None
      else if text = ''timestamp'' then Some TIMESTAMP
      else if text = ''date'' then Some DATE
      else None)"

lemma temporal_precision_text_inj: "temporal_precision_text p = temporal_precision_text q \<longleftrightarrow> p = q"
  by (cases p; cases q) auto

section \<open>Decimals\<close>

definition quantize_decimal :: "decimal \<Rightarrow> decimal" where
  "quantize_decimal v = (if \<not> d_eq v d_zero then d_normalize v else d_zero)"

definition format_decimal :: "decimal option \<Rightarrow> string" where
  "format_decimal v = (case v of None \<Rightarrow> [] | Some d \<Rightarrow> format_f (quantize_decimal d))"

datatype decimal_input = DNone | DNumber decimal | DText string

fun parse_decimal :: "decimal_input \<Rightarrow> decimal option result" where
  "parse_decimal DNone = Inr None"
| "parse_decimal (DNumber d) = Inr (Some (quantize_decimal d))"
| "parse_decimal (DText s) =
     (let text = strip s in
      if text = [] then Inr None
      else r_bind (decimal_of_text text) (\<lambda>d. Inr (Some (quantize_decimal d))))"

lemma quantize_canonical: "canonical_decimal (quantize_decimal d)"
  by (simp add: quantize_decimal_def d_normalize_canonical) (simp add: canonical_decimal_def d_zero_def)

lemma quantize_exact [decimal_simps]: "fits (dval d) \<Longrightarrow> dval (quantize_decimal d) = dval d"
  by (auto simp: quantize_decimal_def d_normalize_exact d_eq_iff)

lemma quantize_zero_iff: "dval (quantize_decimal d) = 0 \<longleftrightarrow> dval d = 0"
  by (simp add: quantize_decimal_def d_normalize_zero_iff d_eq_iff)

lemma quantize_cong: "fits (dval a) \<Longrightarrow> dval a = dval b \<Longrightarrow> quantize_decimal a = quantize_decimal b"
  by (rule canonical_unique) (simp_all add: quantize_canonical quantize_exact)

lemma quantize_fixed: "canonical_decimal d \<Longrightarrow> quantize_decimal d = d"
  by (rule canonical_unique) (simp_all add: quantize_canonical quantize_exact canonical_fits)

lemma quantize_idem [simp]: "quantize_decimal (quantize_decimal d) = quantize_decimal d"
  by (rule quantize_fixed) (rule quantize_canonical)

lemma format_f_no_space: "strip (format_f d) = format_f d" "format_f d \<noteq> []"
proof -
  have d: "\<not> is_space c" if "c \<in> set (nat_text n)" for c n
    using that nat_text_digits digit_not_space by blast
  have o: "\<not> is_space (CHR ''0'')" "\<not> is_space (CHR ''-'')" "\<not> is_space (CHR ''.'')"
    by (simp_all add: is_space_def Let_def)
  show "strip (format_f d) = format_f d"
    by (rule strip_no_space)
      (auto simp: format_f_def Let_def o dest: d in_set_takeD in_set_dropD split: if_splits)
  show "format_f d \<noteq> []" by (simp add: format_f_def Let_def)
qed

lemma parse_format_decimal_aux:
  assumes "text_size (quantize_decimal d) \<le> 900000"
  shows "parse_decimal (DText (format_decimal (Some d))) = Inr (Some (quantize_decimal d))"
proof -
  obtain d' where d': "decimal_of_text (format_f (quantize_decimal d)) = Inr d'"
      "dval d' = dval (quantize_decimal d)"
    using decimal_of_format_f [OF assms] by blast
  have "fits (dval d')" using canonical_fits [OF quantize_canonical [of d]] by (simp add: d')
  then have "quantize_decimal d' = quantize_decimal (quantize_decimal d)"
    using d' by (intro quantize_cong) simp_all
  then show ?thesis by (simp add: format_decimal_def format_f_no_space d')
qed



lemma format_decimal_eq_iff:
  assumes "fits (dval a)" and "fits (dval b)"
    and "text_size (quantize_decimal a) \<le> 900000" and "text_size (quantize_decimal b) \<le> 900000"
  shows "format_decimal (Some a) = format_decimal (Some b) \<longleftrightarrow> dval a = dval b"
proof
  assume "format_decimal (Some a) = format_decimal (Some b)"
  then have "quantize_decimal a = quantize_decimal b"
    using parse_format_decimal_aux [OF assms(3)] parse_format_decimal_aux [OF assms(4)] by simp
  then show "dval a = dval b" using quantize_exact assms(1,2) by metis
next
  assume "dval a = dval b"
  then show "format_decimal (Some a) = format_decimal (Some b)"
    using quantize_cong [OF assms(1)] by (simp add: format_decimal_def)
qed

lemma fits_small: "\<bar>c\<bar> < 10 ^ 28 \<Longrightarrow> fits (dval (Decimal c e))"
  unfolding fits_def using digits_of_le by blast

section \<open>Timestamps\<close>

definition require_utc_datetime :: "datetime \<Rightarrow> string \<Rightarrow> datetime result" where
  "require_utc_datetime v label =
     (case utcoffset v of
        None \<Rightarrow> Inl (ValueError (label @ '' must be timezone-aware UTC''))
      | Some off \<Rightarrow>
          if off \<noteq> 0 then Inl (ValueError (label @ '' must be timezone-aware UTC'')) else Inr v)"

definition format_timestamp :: "datetime \<Rightarrow> string result" where
  "format_timestamp v = r_bind (require_utc_datetime v ''timestamp'') (\<lambda>t. Inr (strftime_timestamp t))"

definition parse_timestamp :: "string \<Rightarrow> datetime result" where
  "parse_timestamp v = r_bind (strptime_timestamp (strip v)) (\<lambda>t. Inr (with_utc t))"

definition require_temporal_datetime ::
    "datetime \<Rightarrow> temporal_precision \<Rightarrow> string \<Rightarrow> datetime result" where
  "require_temporal_datetime v precision label =
     r_bind (require_utc_datetime v label) (\<lambda>normalized.
       if precision = DATE \<and> \<not> midnight normalized
       then Inl (ValueError (label @ '' with date precision must be midnight UTC''))
       else Inr normalized)"

definition format_temporal_value ::
    "datetime \<Rightarrow> temporal_precision \<Rightarrow> string \<Rightarrow> string result" where
  "format_temporal_value v precision label =
     r_bind (require_temporal_datetime v precision label) (\<lambda>normalized.
       if precision = TIMESTAMP then Inr (strftime_timestamp normalized)
       else Inr (strftime_date normalized))"

definition parse_temporal_value :: "string \<Rightarrow> temporal_precision \<Rightarrow> datetime result" where
  "parse_temporal_value v precision =
     (let text = strip v in
      if precision = TIMESTAMP then parse_timestamp text
      else r_bind (strptime_date text) (\<lambda>t. Inr (with_utc t)))"

lemma require_utc_iff [result_simps]:
  "require_utc_datetime v label = Inr t \<longleftrightarrow> utcoffset v = Some 0 \<and> t = v"
  by (auto simp: require_utc_datetime_def split: option.split)

lemma require_utc_ok [simp]: "utcoffset v = Some 0 \<Longrightarrow> require_utc_datetime v label = Inr v"
  by (simp add: require_utc_datetime_def)

lemma require_temporal_iff [result_simps]:
  "require_temporal_datetime v p label = Inr t \<longleftrightarrow>
     utcoffset v = Some 0 \<and> (p = DATE \<longrightarrow> midnight v) \<and> t = v"
  by (auto simp: require_temporal_datetime_def result_simps)

lemma parse_timestamp_shape:
  assumes "parse_timestamp s = Inr t"
  shows "valid_datetime t \<and> utcoffset t = Some 0 \<and> microsecond t = 0"
proof -
  have "h < 24" "mi < 60" "se < 60" if "read_time s = Some ((h, mi, se), r)" for s h mi se r
    using that
    by (auto simp: read_time_def read_field_def Let_def split: if_splits Option.bind_splits)
  then show ?thesis
    using assms
    by (auto simp: parse_timestamp_def strptime_timestamp_def result_simps with_utc_def
        valid_datetime_def split: option.splits if_splits Option.bind_splits)
qed

lemma parse_format_temporal_aux:
  assumes "valid_datetime t" and "format_temporal_value t p label = Inr s"
  shows "parse_temporal_value s p = Inr (whole_second t)"
proof -
  have off: "utcoffset t = Some 0" and mid: "p = DATE \<longrightarrow> midnight t"
    and s: "s = (if p = TIMESTAMP then strftime_timestamp t else strftime_date t)"
    using assms(2) by (auto simp: format_temporal_value_def result_simps split: if_splits)
  show ?thesis
  proof (cases p)
    case TIMESTAMP
    then show ?thesis
      using strptime_strftime_timestamp [OF assms(1)] off
      by (simp add: parse_temporal_value_def parse_timestamp_def s strip_strftime with_utc_def
          whole_second_def)
  next
    case DATE
    then have "midnight t" using mid by simp
    then show ?thesis
      using strptime_strftime_date [of t] assms(1) off DATE
      by (simp add: parse_temporal_value_def s strip_strftime with_utc_def whole_second_def
          valid_datetime_def midnight_def)
  qed
qed

text \<open>
  C38: A value that \<open>format_temporal_value\<close> accepts is written to text that
  \<open>parse_temporal_value\<close> reads back to the same instant down to the second: the text has no
  sub-second part, so the microseconds are lost and nothing else is.
\<close>

theorem parse_format_temporal:
  assumes "valid_datetime t" and "format_temporal_value t p label = Inr s"
  shows "parse_temporal_value s p = Inr (whole_second t)"
  using assms by (rule parse_format_temporal_aux)

theorem parse_format_temporal_witness:
  "parse_temporal_value ''2024-02-29 23:05:09'' TIMESTAMP =
     Inr (whole_second (DateTime 2024 2 29 23 5 9 250000 (Some 0)))"
proof (rule parse_format_temporal [where label = "''as of''"])
  show "valid_datetime (DateTime 2024 2 29 23 5 9 250000 (Some 0))"
    by (simp add: valid_datetime_def valid_date_def days_in_month_def leap_year_def)
  show "format_temporal_value (DateTime 2024 2 29 23 5 9 250000 (Some 0)) TIMESTAMP ''as of'' =
    Inr ''2024-02-29 23:05:09''"
    by (simp add: format_temporal_value_def require_temporal_datetime_def strftime_timestamp_def
        strftime_date_def text_eval)
qed

section \<open>Fractional digits\<close>

record decimal_precision_expectation =
  dpe_minimum :: "nat option"
  dpe_exact :: "nat option"
  dpe_allow_zero :: bool

definition mk_decimal_precision_expectation ::
    "int option \<Rightarrow> int option \<Rightarrow> bool \<Rightarrow> decimal_precision_expectation result" where
  "mk_decimal_precision_expectation minimum exact allow_zero =
     (if (minimum \<noteq> None) = (exact \<noteq> None) then
        Inl (ValueError ''decimal precision expectation requires exactly one of minimum_fraction_digits or exact_fraction_digits'')
      else if (case minimum of None \<Rightarrow> False | Some m \<Rightarrow> m < 0) then
        Inl (ValueError ''minimum_fraction_digits must be non-negative'')
      else if (case exact of None \<Rightarrow> False | Some m \<Rightarrow> m < 0) then
        Inl (ValueError ''exact_fraction_digits must be non-negative'')
      else Inr \<lparr>dpe_minimum = map_option nat minimum, dpe_exact = map_option nat exact,
                dpe_allow_zero = allow_zero\<rparr>)"

record decimal_precision_check =
  dpc_value_text :: string
  dpc_value :: decimal
  dpc_fraction_digits :: nat
  dpc_expectation :: decimal_precision_expectation
  dpc_satisfies :: bool

definition expectation_describe :: "decimal_precision_expectation \<Rightarrow> string" where
  "expectation_describe e =
     (let requirement =
        (case dpe_minimum e of
           Some m \<Rightarrow> ''at least '' @ nat_text m @ '' fractional digits''
         | None \<Rightarrow> ''exactly '' @ nat_text (the (dpe_exact e)) @ '' fractional digits'')
      in if dpe_allow_zero e then requirement @ '' for non-zero values'' else requirement)"

definition mismatch_message :: "decimal_precision_check \<Rightarrow> string" where
  "mismatch_message c =
     ''has '' @ nat_text (dpc_fraction_digits c) @ '' fractional digits; expected '' @
     expectation_describe (dpc_expectation c)"

definition remove_prefix :: "char \<Rightarrow> string \<Rightarrow> string" where
  "remove_prefix c s = (case s of [] \<Rightarrow> [] | d # r \<Rightarrow> if d = c then r else s)"

definition decimal_fraction_digits :: "string \<Rightarrow> nat option result" where
  "decimal_fraction_digits value_text =
     (let normalized = strip value_text in
      r_bind (parse_decimal (DText normalized)) (\<lambda>parsed.
        case parsed of None \<Rightarrow> Inr None
        | Some _ \<Rightarrow>
          (let unsigned = remove_prefix (CHR ''-'') (remove_prefix (CHR ''+'') normalized);
               mantissa = takeWhile (\<lambda>c. c \<noteq> CHR ''E'') (takeWhile (\<lambda>c. c \<noteq> CHR ''e'') unsigned)
           in if CHR ''.'' \<notin> set mantissa then Inr (Some 0)
              else Inr (Some (length (tl (dropWhile (\<lambda>c. c \<noteq> CHR ''.'') mantissa)))))))"

definition check_decimal_precision ::
    "string \<Rightarrow> decimal_precision_expectation \<Rightarrow> decimal_precision_check option result" where
  "check_decimal_precision value_text expectation =
     (let normalized = strip value_text in
      if normalized = [] then Inr None
      else r_bind (parse_decimal (DText normalized)) (\<lambda>parsed.
        case parsed of None \<Rightarrow> Inr None
        | Some v \<Rightarrow>
          r_bind (decimal_fraction_digits normalized) (\<lambda>digits.
            case digits of None \<Rightarrow> Inr None
            | Some n \<Rightarrow>
              (let ok = (if d_eq v d_zero \<and> dpe_allow_zero expectation then True
                         else case dpe_minimum expectation of
                           Some m \<Rightarrow> m \<le> n
                         | None \<Rightarrow> dpe_exact expectation = Some n)
               in Inr (Some \<lparr>dpc_value_text = normalized, dpc_value = v,
                    dpc_fraction_digits = n, dpc_expectation = expectation, dpc_satisfies = ok\<rparr>)))))"

end
