(* ===== verification/Regex_Match.thy ===== *)
theory Regex_Match
  imports Py_Text
begin

text \<open>
  The regular expressions of the code: literals, character classes with a repetition count,
  sequence, alternative, star. \<open>lang\<close> is the set of texts, \<open>fullmatch\<close> the executable test
  (Brzozowski derivatives); \<open>fullmatch_iff\<close> equates them. \<open>sub_runs\<close> is \<open>re.sub\<close> of the
  maximal runs of characters outside a class by an underscore.
\<close>

datatype rexp =
    RZero
  | REps
  | RRun nat "nat option" "char \<Rightarrow> bool"
  | RSeq rexp rexp
  | RAlt rexp rexp
  | RStar rexp

inductive_set star :: "string set \<Rightarrow> string set" for L where
  star_Nil: "[] \<in> star L"
| star_step: "u \<in> L \<Longrightarrow> v \<in> star L \<Longrightarrow> u @ v \<in> star L"

primrec lang :: "rexp \<Rightarrow> string set" where
  "lang RZero = {}"
| "lang REps = {[]}"
| "lang (RRun lo hi P) =
     {s. list_all P s \<and> lo \<le> length s \<and> (case hi of None \<Rightarrow> True | Some h \<Rightarrow> length s \<le> h)}"
| "lang (RSeq a b) = {u @ v | u v. u \<in> lang a \<and> v \<in> lang b}"
| "lang (RAlt a b) = lang a \<union> lang b"
| "lang (RStar a) = star (lang a)"

primrec nullable :: "rexp \<Rightarrow> bool" where
  "nullable RZero = False"
| "nullable REps = True"
| "nullable (RRun lo hi P) = (lo = 0)"
| "nullable (RSeq a b) = (nullable a \<and> nullable b)"
| "nullable (RAlt a b) = (nullable a \<or> nullable b)"
| "nullable (RStar a) = True"

primrec deriv :: "char \<Rightarrow> rexp \<Rightarrow> rexp" where
  "deriv c RZero = RZero"
| "deriv c REps = RZero"
| "deriv c (RRun lo hi P) =
     (if P c \<and> hi \<noteq> Some 0 then RRun (lo - 1) (map_option (\<lambda>h. h - 1) hi) P else RZero)"
| "deriv c (RSeq a b) =
     (if nullable a then RAlt (RSeq (deriv c a) b) (deriv c b) else RSeq (deriv c a) b)"
| "deriv c (RAlt a b) = RAlt (deriv c a) (deriv c b)"
| "deriv c (RStar a) = RSeq (deriv c a) (RStar a)"

primrec simplify :: "rexp \<Rightarrow> rexp" where
  "simplify RZero = RZero"
| "simplify REps = REps"
| "simplify (RRun lo hi P) = RRun lo hi P"
| "simplify (RSeq a b) =
     (case simplify a of RZero \<Rightarrow> RZero | REps \<Rightarrow> simplify b | a' \<Rightarrow> RSeq a' (simplify b))"
| "simplify (RAlt a b) =
     (case simplify a of RZero \<Rightarrow> simplify b | a' \<Rightarrow>
       (case simplify b of RZero \<Rightarrow> a' | b' \<Rightarrow> RAlt a' b'))"
| "simplify (RStar a) = RStar (simplify a)"

fun fullmatch :: "rexp \<Rightarrow> string \<Rightarrow> bool" where
  "fullmatch r [] = nullable r"
| "fullmatch r (c # s) = fullmatch (simplify (deriv c r)) s"

definition lit :: "string \<Rightarrow> rexp" where
  "lit s = foldr (\<lambda>c r. RSeq (RRun 1 (Some 1) (\<lambda>d. d = c)) r) s REps"

lemma nullable_iff: "nullable r \<longleftrightarrow> [] \<in> lang r"
  by (induction r) (auto intro: star_Nil split: option.split)

lemma star_Cons:
  "c # s \<in> star L \<longleftrightarrow> (\<exists>u v. s = u @ v \<and> c # u \<in> L \<and> v \<in> star L)"
proof
  assume "c # s \<in> star L"
  then show "\<exists>u v. s = u @ v \<and> c # u \<in> L \<and> v \<in> star L"
  proof (induction "c # s" rule: star.induct)
    case (star_step u v)
    then show ?case by (cases u) auto
  qed
next
  assume "\<exists>u v. s = u @ v \<and> c # u \<in> L \<and> v \<in> star L"
  then obtain u v where "s = u @ v" "c # u \<in> L" "v \<in> star L" by blast
  then show "c # s \<in> star L" using star_step [of "c # u" L v] by simp
qed

lemma run_deriv:
  "c # s \<in> lang (RRun lo hi P) \<longleftrightarrow> s \<in> lang (deriv c (RRun lo hi P))"
proof (cases hi)
  case None
  then show ?thesis by (cases lo) auto
next
  case (Some h)
  then show ?thesis by (cases lo; cases h) auto
qed

lemma lang_deriv: "s \<in> lang (deriv c r) \<longleftrightarrow> c # s \<in> lang r"
proof (induction r arbitrary: s)
  case (RRun lo hi P)
  show ?case by (rule run_deriv [symmetric])
next
  case (RSeq a b)
  have "c # s \<in> lang (RSeq a b) \<longleftrightarrow>
      ([] \<in> lang a \<and> c # s \<in> lang b) \<or> (\<exists>u v. s = u @ v \<and> c # u \<in> lang a \<and> v \<in> lang b)"
    by (auto simp: Cons_eq_append_conv)
  with RSeq.IH show ?case by (auto simp: nullable_iff)
qed (auto simp: star_Cons)

lemma lang_simplify: "lang (simplify r) = lang r"
proof (induction r)
  case (RSeq a b)
  have "lang (simplify (RSeq a b)) = lang (RSeq (simplify a) (simplify b))"
    by (cases "simplify a") auto
  with RSeq show ?case by simp
next
  case (RAlt a b)
  have "lang (simplify (RAlt a b)) = lang (RAlt (simplify a) (simplify b))"
    by (cases "simplify a"; cases "simplify b") auto
  with RAlt show ?case by simp
qed simp_all

theorem fullmatch_iff: "fullmatch r s \<longleftrightarrow> s \<in> lang r"
  by (induction s arbitrary: r) (simp_all add: nullable_iff lang_simplify lang_deriv)

lemma lang_lit [simp]: "lang (lit s) = {s}"
proof (induction s)
  case (Cons c s)
  have one: "u \<in> lang (RRun 1 (Some 1) (\<lambda>d. d = c)) \<longleftrightarrow> u = [c]" for u
    by (cases u; cases "tl u") auto
  have "lang (lit (c # s)) = {u @ v | u v. u = [c] \<and> v \<in> lang (lit s)}"
    unfolding lit_def by (simp only: foldr.simps comp_def lang.simps(4) one)
  then show ?case by (simp add: Cons.IH)
qed (simp add: lit_def)

section \<open>Substitution of runs\<close>

function sub_runs :: "(char \<Rightarrow> bool) \<Rightarrow> string \<Rightarrow> string" where
  "sub_runs P [] = []"
| "sub_runs P (c # s) =
     (if P c then c # sub_runs P s
      else CHR ''_'' # sub_runs P (dropWhile (\<lambda>d. \<not> P d) s))"
  by pat_completeness auto
termination
  by (relation "measure (\<lambda>(P, s). length s)") (auto simp: le_imp_less_Suc length_dropWhile_le)

lemma sub_runs_chars: "c \<in> set (sub_runs P s) \<Longrightarrow> P c \<or> c = CHR ''_''"
  by (induction P s rule: sub_runs.induct) (auto split: if_splits)

lemma sub_runs_id: "list_all P s \<Longrightarrow> sub_runs P s = s"
  by (induction s) simp_all

end
