(* ===== verification/Location_Ids.thy ===== *)
theory Location_Ids
  imports Regex_Match
begin

text \<open>
  \<open>domain/location_identifiers.py\<close>: the identifier patterns, the classification of a raw
  identifier, the location ids built from parts or from an identifier, and the acceptance test
  \<open>require_location_id\<close>. The theorems say when what the builders produce is accepted.
\<close>

section \<open>Character classes\<close>

definition in_range :: "char \<Rightarrow> char \<Rightarrow> char \<Rightarrow> bool" where
  "in_range lo hi c \<longleftrightarrow> (of_char lo :: nat) \<le> of_char c \<and> (of_char c :: nat) \<le> of_char hi"

definition lower_alnum :: "char \<Rightarrow> bool" where
  "lower_alnum c \<longleftrightarrow> in_range (CHR ''a'') (CHR ''z'') c \<or> in_range (CHR ''0'') (CHR ''9'') c"

definition suffix_char :: "char \<Rightarrow> bool" where
  "suffix_char c \<longleftrightarrow> lower_alnum c \<or> c = CHR ''_''"

definition generic_char :: "char \<Rightarrow> bool" where
  "generic_char c \<longleftrightarrow> lower_alnum c \<or> c = CHR ''_'' \<or> c = CHR ''.''"

definition near_char :: "char \<Rightarrow> bool" where
  "near_char c \<longleftrightarrow> lower_alnum c \<or> c = CHR ''_'' \<or> c = CHR ''.'' \<or> c = CHR ''-''"

definition hex_digit :: "char \<Rightarrow> bool" where
  "hex_digit c \<longleftrightarrow> in_range (CHR ''a'') (CHR ''f'') c \<or> in_range (CHR ''A'') (CHR ''F'') c \<or>
     in_range (CHR ''0'') (CHR ''9'') c"

definition base58 :: "char \<Rightarrow> bool" where
  "base58 c \<longleftrightarrow> in_range (CHR ''1'') (CHR ''9'') c \<or> in_range (CHR ''A'') (CHR ''H'') c \<or>
     in_range (CHR ''J'') (CHR ''N'') c \<or> in_range (CHR ''P'') (CHR ''Z'') c \<or>
     in_range (CHR ''a'') (CHR ''k'') c \<or> in_range (CHR ''m'') (CHR ''z'') c"

definition bech32 :: "char \<Rightarrow> bool" where
  "bech32 c \<longleftrightarrow> c = CHR ''a'' \<or> in_range (CHR ''c'') (CHR ''h'') c \<or>
     in_range (CHR ''j'') (CHR ''n'') c \<or> in_range (CHR ''p'') (CHR ''z'') c \<or> c = CHR ''0'' \<or>
     in_range (CHR ''2'') (CHR ''9'') c"

section \<open>Patterns\<close>

definition EVM_ADDRESS_PATTERN :: rexp where
  "EVM_ADDRESS_PATTERN = RSeq (lit ''0x'') (RRun 40 (Some 40) hex_digit)"

definition BTC_XPUB_PATTERN :: rexp where
  "BTC_XPUB_PATTERN = RSeq (lit ''xpub'') (RRun 1 None base58)"

definition TRON_ADDRESS_PATTERN :: rexp where
  "TRON_ADDRESS_PATTERN = RSeq (lit ''T'') (RRun 33 (Some 33) base58)"

definition BTC_ADDRESS_PATTERN :: rexp where
  "BTC_ADDRESS_PATTERN =
     RAlt (RSeq (lit ''bc1'') (RRun 11 (Some 71) bech32))
       (RSeq (RRun 1 (Some 1) (\<lambda>c. c = CHR ''1'' \<or> c = CHR ''3'')) (RRun 25 (Some 34) base58))"

definition SOLANA_ADDRESS_PATTERN :: rexp where
  "SOLANA_ADDRESS_PATTERN = RRun 32 (Some 44) base58"

definition CARDANO_ACCOUNT_KEY_PATTERN :: rexp where
  "CARDANO_ACCOUNT_KEY_PATTERN = RRun 64 None hex_digit"

definition NEAR_ACCOUNT_PATTERN :: rexp where
  "NEAR_ACCOUNT_PATTERN = RRun 6 (Some 64) near_char"

definition IDENTIFIER_PATTERNS :: "(string \<times> rexp) list" where
  "IDENTIFIER_PATTERNS =
     [(''btc_xpub'', BTC_XPUB_PATTERN), (''evm_address'', EVM_ADDRESS_PATTERN),
      (''tron_address'', TRON_ADDRESS_PATTERN), (''btc_address'', BTC_ADDRESS_PATTERN),
      (''solana_address'', SOLANA_ADDRESS_PATTERN)]"

definition SCOPE_NETWORKS :: "(string, string) dict" where
  "SCOPE_NETWORKS =
     [(''btc_xpub'', ''btc''), (''btc_address'', ''btc''), (''cardano_account_key'', ''cardano''),
      (''evm_address'', ''evm''), (''solana_address'', ''solana''), (''tron_address'', ''tron'')]"

definition LOCATION_NAMESPACES :: "(string, string) dict" where
  "LOCATION_NAMESPACES =
     [(''btc_xpub'', ''bitcoin''), (''btc_address'', ''bitcoin''),
      (''cardano_account_key'', ''cardano''), (''near_account'', ''near''),
      (''solana_address'', ''solana''), (''tron_address'', ''tron'')]"

definition ONCHAIN_LOCATION_PREFIXES :: "string list" where
  "ONCHAIN_LOCATION_PREFIXES =
     [''evm:'', ''near:'', ''bitcoin:'', ''cardano:'', ''solana:'', ''tron:'']"

definition segments :: "(char \<Rightarrow> bool) \<Rightarrow> rexp" where
  "segments P = RStar (RSeq (lit '':'') (RRun 1 None P))"

definition LOCATION_ID_GENERIC_PATTERN :: rexp where
  "LOCATION_ID_GENERIC_PATTERN = RSeq (RRun 1 None generic_char) (segments generic_char)"

definition LOCATION_ID_NEAR_PATTERN :: rexp where
  "LOCATION_ID_NEAR_PATTERN =
     RSeq (lit ''near:'') (RSeq (RRun 6 (Some 64) near_char) (segments suffix_char))"

definition LOCATION_ID_EVM_PATTERN :: rexp where
  "LOCATION_ID_EVM_PATTERN =
     RSeq (lit ''evm:'') (RSeq (RRun 1 None suffix_char) (RSeq (lit '':0x'')
       (RSeq (RRun 40 (Some 40) hex_digit) (segments suffix_char))))"

definition LOCATION_ID_BITCOIN_PATTERN :: rexp where
  "LOCATION_ID_BITCOIN_PATTERN =
     RSeq (lit ''bitcoin:'') (RSeq (RAlt BTC_XPUB_PATTERN BTC_ADDRESS_PATTERN) (segments suffix_char))"

definition LOCATION_ID_CARDANO_PATTERN :: rexp where
  "LOCATION_ID_CARDANO_PATTERN =
     RSeq (lit ''cardano:'') (RSeq (RRun 64 None hex_digit) (segments suffix_char))"

definition LOCATION_ID_SOLANA_PATTERN :: rexp where
  "LOCATION_ID_SOLANA_PATTERN =
     RSeq (lit ''solana:'') (RSeq (RRun 32 (Some 44) base58) (segments suffix_char))"

definition LOCATION_ID_TRON_PATTERN :: rexp where
  "LOCATION_ID_TRON_PATTERN =
     RSeq (lit ''tron:'') (RSeq (RSeq (lit ''T'') (RRun 33 (Some 33) base58)) (segments suffix_char))"

section \<open>Operations\<close>

definition normalized_location_part :: "string \<Rightarrow> string" where
  "normalized_location_part v =
     strip_by (\<lambda>c. c = CHR ''_'') (sub_runs generic_char (lower (strip v)))"

definition normalized_location_segment :: "string \<Rightarrow> string" where
  "normalized_location_segment v =
     strip_by (\<lambda>c. c = CHR ''_'') (sub_runs lower_alnum (lower (strip v)))"

definition location_id_from_parts :: "string list \<Rightarrow> string result" where
  "location_id_from_parts parts =
     (let normalized_parts = map normalized_location_part parts in
      if normalized_parts = [] then Inl (ValueError ''location_id parts must not be blank'')
      else if list_ex (\<lambda>part. part = []) normalized_parts
        then Inl (ValueError ''location_id parts must not be blank'')
      else Inr (join '':'' normalized_parts))"

definition normalized_identifier :: "string \<Rightarrow> string \<Rightarrow> string" where
  "normalized_identifier identifier_kind identifier_value =
     (let normalized = strip identifier_value in
      if identifier_kind \<in> {''evm_address'', ''address_alias''} then lower normalized
      else normalized)"

definition identifier_kind_for_value :: "string \<Rightarrow> string" where
  "identifier_kind_for_value identifier_value =
     (let v = strip identifier_value in
      case List.find (\<lambda>(kind, pattern). fullmatch pattern v) IDENTIFIER_PATTERNS of
        Some (kind, pattern) \<Rightarrow> kind
      | None \<Rightarrow>
          if fullmatch CARDANO_ACCOUNT_KEY_PATTERN v then ''cardano_account_key''
          else if fullmatch NEAR_ACCOUNT_PATTERN v then ''near_account''
          else ''unknown'')"

definition scope_token_for_identifier :: "string \<Rightarrow> string" where
  "scope_token_for_identifier identifier_value =
     (let kind = identifier_kind_for_value identifier_value in
      case map_of SCOPE_NETWORKS kind of
        None \<Rightarrow> []
      | Some network \<Rightarrow> network @ '':'' @ normalized_identifier kind identifier_value)"

definition location_id_from_identifier ::
    "string \<Rightarrow> string \<Rightarrow> string \<Rightarrow> string list \<Rightarrow> string result" where
  "location_id_from_identifier identifier_kind identifier_value network_scope suffix =
     (let normalized_value = normalized_identifier identifier_kind identifier_value in
      r_bind
        (if identifier_kind = ''evm_address'' then
           (let normalized_scope = lower (strip network_scope) in
            if normalized_scope = [] then
              Inl (ValueError ''EVM location ids require a network scope'')
            else Inr [''evm'', normalized_scope, normalized_value])
         else case map_of LOCATION_NAMESPACES identifier_kind of
             None \<Rightarrow> Inl (ValueError
               (''unsupported location identifier kind: '' @ identifier_kind))
           | Some namespace \<Rightarrow> Inr [namespace, normalized_value])
        (\<lambda>parts.
          let normalized_suffix =
            map normalized_location_segment (filter (\<lambda>item. strip item \<noteq> []) suffix)
          in Inr (join '':'' (parts @ normalized_suffix))))"

definition is_onchain_location_id :: "string \<Rightarrow> bool" where
  "is_onchain_location_id location_id =
     list_ex (\<lambda>p. starts_with location_id p) ONCHAIN_LOCATION_PREFIXES"

definition is_supported_location_id :: "string \<Rightarrow> bool" where
  "is_supported_location_id v =
     list_ex (\<lambda>pattern. fullmatch pattern v)
       [LOCATION_ID_GENERIC_PATTERN, LOCATION_ID_NEAR_PATTERN, LOCATION_ID_EVM_PATTERN,
        LOCATION_ID_BITCOIN_PATTERN, LOCATION_ID_CARDANO_PATTERN, LOCATION_ID_SOLANA_PATTERN,
        LOCATION_ID_TRON_PATTERN]"

definition require_location_id :: "string \<Rightarrow> string \<Rightarrow> string result" where
  "require_location_id v label =
     (let normalized = strip v in
      if normalized = [] then Inl (ValueError (label @ '' must not be blank''))
      else if is_supported_location_id normalized then Inr normalized
      else Inl (ValueError
        (label @ '' '' @ py_repr normalized @ '' is not a supported location id'')))"

lemma require_location_id_iff [result_simps]:
  "require_location_id v label = Inr l \<longleftrightarrow>
     l = strip v \<and> strip v \<noteq> [] \<and> is_supported_location_id (strip v)"
  by (auto simp: require_location_id_def Let_def)

lemma require_location_id_idem:
  "require_location_id v label = Inr l \<Longrightarrow> require_location_id l label' = Inr l"
  by (simp add: require_location_id_iff)

section \<open>Accepted ids\<close>

lemma star_segments:
  "(\<forall>p \<in> set ps. p \<noteq> [] \<and> list_all P p) \<Longrightarrow>
     concat (map (\<lambda>p. CHR '':'' # p) ps) \<in> lang (segments P)"
proof (induction ps)
  case Nil
  show ?case by (simp add: segments_def star_Nil)
next
  case (Cons p ps)
  have "CHR '':'' # p \<in> lang (RSeq (lit '':'') (RRun 1 None P))"
    using Cons.prems by (cases p) auto
  with Cons show ?case
    using star_step [of "CHR '':'' # p" "lang (RSeq (lit '':'') (RRun 1 None P))"]
    by (simp add: segments_def)
qed

lemma join_as_segments: "join '':'' (p # ps) = p @ concat (map (\<lambda>p. CHR '':'' # p) ps)"
  by (induction ps arbitrary: p) simp_all

lemma not_space_chars: "generic_char c \<Longrightarrow> \<not> is_space c"
  by (auto simp: generic_char_def lower_alnum_def in_range_def is_space_def Let_def)

lemma part_chars: "c \<in> set (strip_by Q (sub_runs P s)) \<Longrightarrow> P c \<or> c = CHR ''_''"
  using set_strip_by [of Q "sub_runs P s"] sub_runs_chars by blast

lemma generic_part:
  "list_all generic_char (normalized_location_part v)"
  "list_all suffix_char (normalized_location_segment v)"
  unfolding normalized_location_part_def normalized_location_segment_def list_all_iff
  using part_chars by (fastforce simp: generic_char_def suffix_char_def)+

lemma generic_accepted:
  assumes "ps \<noteq> []" and "\<forall>p \<in> set ps. p \<noteq> [] \<and> list_all generic_char p"
  shows "require_location_id (join '':'' ps) label = Inr (join '':'' ps)"
proof -
  obtain p qs where ps: "ps = p # qs" using assms(1) by (cases ps) auto
  have p: "p \<noteq> []" "list_all generic_char p" using assms(2) ps by auto
  have "join '':'' ps \<in> lang LOCATION_ID_GENERIC_PATTERN"
  proof -
    have "p \<in> lang (RRun 1 None generic_char)" using p by (cases p) auto
    moreover have "concat (map (\<lambda>p. CHR '':'' # p) qs) \<in> lang (segments generic_char)"
      using assms(2) ps by (intro star_segments) auto
    ultimately show ?thesis
      unfolding ps join_as_segments LOCATION_ID_GENERIC_PATTERN_def lang.simps(4) by blast
  qed
  then have ok: "is_supported_location_id (join '':'' ps)"
    by (simp add: is_supported_location_id_def fullmatch_iff)
  have "\<not> is_space c" if "c \<in> set (join '':'' ps)" for c
  proof -
    have "c = CHR '':'' \<or> generic_char c"
      using that assms(2) set_join [of "'':''" ps] by (auto simp: list_all_iff)
    then show ?thesis using not_space_chars by (auto simp: is_space_def Let_def)
  qed
  then have "strip (join '':'' ps) = join '':'' ps" by (rule strip_no_space)
  then show ?thesis using ok p unfolding ps by (simp add: require_location_id_iff join_as_segments)
qed

text \<open>
  \<open>location_id_from_parts\<close> succeeds exactly when there is a part and every part keeps a
  character after normalisation, and every id it returns is accepted by \<open>require_location_id\<close>,
  unchanged.
\<close>

lemma location_id_from_parts_accepted:
  "(is_ok (location_id_from_parts parts) \<longleftrightarrow>
      parts \<noteq> [] \<and> \<not> list_ex (\<lambda>p. normalized_location_part p = []) parts) \<and>
   (case location_id_from_parts parts of
      Inl e \<Rightarrow> e = ValueError ''location_id parts must not be blank''
    | Inr l \<Rightarrow> require_location_id l label = Inr l)"
proof -
  have eq: "list_ex (\<lambda>part. part = []) (map normalized_location_part parts) \<longleftrightarrow>
      list_ex (\<lambda>p. normalized_location_part p = []) parts"
    by (induction parts) auto
  have "require_location_id (join '':'' (map normalized_location_part parts)) label =
      Inr (join '':'' (map normalized_location_part parts))"
    if "parts \<noteq> []" "\<not> list_ex (\<lambda>p. normalized_location_part p = []) parts"
    using that by (intro generic_accepted) (auto simp: generic_part list_ex_iff)
  then show ?thesis unfolding location_id_from_parts_def Let_def eq by simp
qed

lemma class_not_space:
  "lower_alnum c \<Longrightarrow> \<not> is_space c" "suffix_char c \<Longrightarrow> \<not> is_space c" "near_char c \<Longrightarrow> \<not> is_space c"
  "hex_digit c \<Longrightarrow> \<not> is_space c" "base58 c \<Longrightarrow> \<not> is_space c" "bech32 c \<Longrightarrow> \<not> is_space c"
  by (auto simp: lower_alnum_def suffix_char_def near_char_def hex_digit_def base58_def bech32_def
      in_range_def is_space_def Let_def)

lemma hex_digit_lower: "hex_digit c \<Longrightarrow> hex_digit (lower_char c)"
  by (auto simp: hex_digit_def in_range_def of_char_lower Let_def)

lemma identifier_kind_cases:
  assumes "identifier_kind_for_value v = k" and "k \<noteq> ''unknown''"
  obtains (xpub) "k = ''btc_xpub''" "strip v \<in> lang BTC_XPUB_PATTERN"
  | (evm) "k = ''evm_address''" "strip v \<in> lang EVM_ADDRESS_PATTERN"
  | (tron) "k = ''tron_address''" "strip v \<in> lang TRON_ADDRESS_PATTERN"
  | (btc) "k = ''btc_address''" "strip v \<in> lang BTC_ADDRESS_PATTERN"
  | (solana) "k = ''solana_address''" "strip v \<in> lang SOLANA_ADDRESS_PATTERN"
  | (cardano) "k = ''cardano_account_key''" "strip v \<in> lang CARDANO_ACCOUNT_KEY_PATTERN"
  | (near) "k = ''near_account''" "strip v \<in> lang NEAR_ACCOUNT_PATTERN"
  using assms
  by (auto simp: identifier_kind_for_value_def IDENTIFIER_PATTERNS_def Let_def fullmatch_iff
      split: if_splits)

lemma location_text_accepted:
  assumes "b \<in> lang R" and "b \<noteq> []" and "\<forall>p \<in> set ps. p \<noteq> [] \<and> list_all suffix_char p"
    and "\<forall>c \<in> set (pre @ b). \<not> is_space c"
    and "RSeq (lit pre) (RSeq R (segments suffix_char)) \<in>
      {LOCATION_ID_NEAR_PATTERN, LOCATION_ID_BITCOIN_PATTERN, LOCATION_ID_CARDANO_PATTERN,
       LOCATION_ID_SOLANA_PATTERN, LOCATION_ID_TRON_PATTERN}"
  shows "require_location_id (pre @ b @ concat (map (\<lambda>p. CHR '':'' # p) ps)) label =
    Inr (pre @ b @ concat (map (\<lambda>p. CHR '':'' # p) ps))"
proof -
  let ?t = "pre @ b @ concat (map (\<lambda>p. CHR '':'' # p) ps)"
  have "?t \<in> lang (RSeq (lit pre) (RSeq R (segments suffix_char)))"
    using assms(1) star_segments [OF assms(3)] by auto
  moreover have "is_supported_location_id ?t" if "?t \<in> lang P" and
      "P \<in> {LOCATION_ID_NEAR_PATTERN, LOCATION_ID_BITCOIN_PATTERN, LOCATION_ID_CARDANO_PATTERN,
         LOCATION_ID_SOLANA_PATTERN, LOCATION_ID_TRON_PATTERN}" for P
    using that unfolding is_supported_location_id_def fullmatch_iff by auto
  ultimately have "is_supported_location_id ?t" using assms(5) by blast
  moreover have "strip ?t = ?t"
  proof (rule strip_no_space)
    fix c assume "c \<in> set ?t"
    then consider "c \<in> set (pre @ b)" | "c = CHR '':''" | "suffix_char c"
      using assms(3) by (auto simp: list_all_iff split: if_splits)
    then show "\<not> is_space c"
      using assms(4) class_not_space(2) by cases (auto simp: is_space_def Let_def)
  qed
  ultimately show ?thesis using assms(2) by (simp add: require_location_id_iff)
qed

definition visible :: "rexp \<Rightarrow> bool" where
  "visible r \<longleftrightarrow> (\<forall>s \<in> lang r. \<forall>c \<in> set s. \<not> is_space c)"

lemma visible_intros:
  "visible a \<Longrightarrow> visible b \<Longrightarrow> visible (RSeq a b)"
  "visible a \<Longrightarrow> visible b \<Longrightarrow> visible (RAlt a b)"
  "(\<And>c. P c \<Longrightarrow> \<not> is_space c) \<Longrightarrow> visible (RRun lo hi P)"
  "list_all (\<lambda>c. \<not> is_space c) s \<Longrightarrow> visible (lit s)"
  by (auto simp: visible_def list_all_iff)

lemma visible_patterns:
  "visible BTC_XPUB_PATTERN" "visible BTC_ADDRESS_PATTERN" "visible TRON_ADDRESS_PATTERN"
  "visible SOLANA_ADDRESS_PATTERN" "visible CARDANO_ACCOUNT_KEY_PATTERN"
  "visible NEAR_ACCOUNT_PATTERN"
  unfolding BTC_XPUB_PATTERN_def BTC_ADDRESS_PATTERN_def TRON_ADDRESS_PATTERN_def
    SOLANA_ADDRESS_PATTERN_def CARDANO_ACCOUNT_KEY_PATTERN_def NEAR_ACCOUNT_PATTERN_def
  by (intro visible_intros; auto simp: class_not_space; simp add: is_space_def)+

lemma lang_chars:
  assumes "s \<in> lang r" and "visible r" and "\<not> nullable r"
  shows "s \<noteq> []" and "\<forall>c \<in> set s. \<not> is_space c"
  using assms nullable_iff [of r] by (auto simp: visible_def)

lemma nullable_patterns:
  "\<not> nullable BTC_XPUB_PATTERN" "\<not> nullable BTC_ADDRESS_PATTERN"
  "\<not> nullable TRON_ADDRESS_PATTERN" "\<not> nullable SOLANA_ADDRESS_PATTERN"
  "\<not> nullable CARDANO_ACCOUNT_KEY_PATTERN" "\<not> nullable NEAR_ACCOUNT_PATTERN"
  by (simp_all add: BTC_XPUB_PATTERN_def BTC_ADDRESS_PATTERN_def TRON_ADDRESS_PATTERN_def
      SOLANA_ADDRESS_PATTERN_def CARDANO_ACCOUNT_KEY_PATTERN_def NEAR_ACCOUNT_PATTERN_def)

lemma evm_text_accepted:
  assumes "v \<in> lang EVM_ADDRESS_PATTERN" and "scope \<noteq> []" and "list_all suffix_char scope"
    and "\<forall>p \<in> set ps. p \<noteq> [] \<and> list_all suffix_char p"
  shows "require_location_id
      (''evm:'' @ scope @ '':'' @ lower v @ concat (map (\<lambda>p. CHR '':'' # p) ps)) label =
    Inr (''evm:'' @ scope @ '':'' @ lower v @ concat (map (\<lambda>p. CHR '':'' # p) ps))"
proof -
  let ?s = "concat (map (\<lambda>p. CHR '':'' # p) ps)"
  obtain h where h: "v = ''0x'' @ h" "list_all hex_digit h" "length h = 40"
    using assms(1) by (auto simp: EVM_ADDRESS_PATTERN_def)
  then have low: "lower v = ''0x'' @ lower h"
    by (simp add: lower_def lower_char_def Let_def)
  have hex: "list_all hex_digit (lower h)" "length (lower h) = 40"
    using h by (auto simp: lower_def list_all_iff hex_digit_lower)
  let ?t = "''evm:'' @ scope @ '':0x'' @ lower h @ ?s"
  have "scope \<in> lang (RRun 1 None suffix_char)" using assms(2,3) by (cases scope) auto
  moreover have "lower h \<in> lang (RRun 40 (Some 40) hex_digit)" using hex by simp
  moreover note star_segments [OF assms(4)]
  ultimately have "?t \<in> lang LOCATION_ID_EVM_PATTERN"
    unfolding LOCATION_ID_EVM_PATTERN_def lang.simps(4) lang_lit by blast
  then have "is_supported_location_id ?t"
    by (simp add: is_supported_location_id_def fullmatch_iff)
  moreover have "strip ?t = ?t"
  proof (rule strip_no_space)
    fix c assume "c \<in> set ?t"
    then consider "c \<in> set ''evm::0x''" | "suffix_char c" | "hex_digit c"
      using assms(3,4) hex by (auto simp: list_all_iff split: if_splits)
    then show "\<not> is_space c"
      using class_not_space by cases (auto simp: is_space_def Let_def)
  qed
  ultimately show ?thesis by (simp add: require_location_id_iff low)
qed

text \<open>
  The location id of an identifier of a recognised kind is accepted by
  \<open>require_location_id\<close>: with the kind \<open>identifier_kind_for_value\<close> assigns, a suffix whose
  items keep a character after normalisation and, for an EVM address, a network scope of
  lower-case letters, digits and underscores, \<open>location_id_from_identifier\<close> succeeds and its
  result passes the test unchanged.
\<close>

lemma location_id_from_identifier_accepted:
  assumes "identifier_kind_for_value v = k" and "k \<noteq> ''unknown''"
    and "k = ''evm_address'' \<Longrightarrow> lower (strip scope) \<noteq> [] \<and> list_all suffix_char (lower (strip scope))"
    and "\<forall>s \<in> set suffix. strip s \<noteq> [] \<longrightarrow> normalized_location_segment s \<noteq> []"
  shows "\<exists>l. location_id_from_identifier k v scope suffix = Inr l \<and>
    require_location_id l label = Inr l"
proof -
  define ps where "ps = map normalized_location_segment (filter (\<lambda>item. strip item \<noteq> []) suffix)"
  have ps: "\<forall>p \<in> set ps. p \<noteq> [] \<and> list_all suffix_char p"
    using assms(4) generic_part(2) by (auto simp: ps_def)
  have text_of: "join '':'' ([a, b] @ ps) = (a @ '':'') @ b @ concat (map (\<lambda>p. CHR '':'' # p) ps)"
    for a b using join_as_segments [of a "b # ps"] by simp
  note accept = location_text_accepted [where ps = ps and label = label, OF _ _ ps]
  note pats = LOCATION_ID_NEAR_PATTERN_def LOCATION_ID_BITCOIN_PATTERN_def
    LOCATION_ID_CARDANO_PATTERN_def LOCATION_ID_SOLANA_PATTERN_def LOCATION_ID_TRON_PATTERN_def
    BTC_XPUB_PATTERN_def BTC_ADDRESS_PATTERN_def
  have sp: "\<not> is_space c" if "c \<in> set ''bitcoin:solana:cardano:near:tron:''" for c
    using that by (auto simp: is_space_def Let_def)
  note run = location_id_from_identifier_def normalized_identifier_def LOCATION_NAMESPACES_def
    ps_def [symmetric]
  show ?thesis using assms(1,2)
  proof (cases rule: identifier_kind_cases)
    case xpub
    then show ?thesis
      using accept [of "strip v" "RAlt BTC_XPUB_PATTERN BTC_ADDRESS_PATTERN" "''bitcoin:''"] text_of
        lang_chars [OF xpub(2)] visible_patterns nullable_patterns sp by (simp add: run LOCATION_ID_BITCOIN_PATTERN_def)
  next
    case btc
    then show ?thesis
      using accept [of "strip v" "RAlt BTC_XPUB_PATTERN BTC_ADDRESS_PATTERN" "''bitcoin:''"] text_of
        lang_chars [OF btc(2)] visible_patterns nullable_patterns sp by (simp add: run LOCATION_ID_BITCOIN_PATTERN_def)
  next
    case tron
    then show ?thesis
      using accept [of "strip v" TRON_ADDRESS_PATTERN "''tron:''"] text_of
        lang_chars [OF tron(2)] visible_patterns nullable_patterns sp
      by (simp add: run LOCATION_ID_TRON_PATTERN_def TRON_ADDRESS_PATTERN_def)
  next
    case solana
    then show ?thesis
      using accept [of "strip v" SOLANA_ADDRESS_PATTERN "''solana:''"] text_of
        lang_chars [OF solana(2)] visible_patterns nullable_patterns sp
      by (simp add: run LOCATION_ID_SOLANA_PATTERN_def SOLANA_ADDRESS_PATTERN_def)
  next
    case cardano
    then show ?thesis
      using accept [of "strip v" CARDANO_ACCOUNT_KEY_PATTERN "''cardano:''"] text_of
        lang_chars [OF cardano(2)] visible_patterns nullable_patterns sp
      by (simp add: run LOCATION_ID_CARDANO_PATTERN_def CARDANO_ACCOUNT_KEY_PATTERN_def)
  next
    case near
    then show ?thesis
      using accept [of "strip v" NEAR_ACCOUNT_PATTERN "''near:''"] text_of
        lang_chars [OF near(2)] visible_patterns nullable_patterns sp
      by (simp add: run LOCATION_ID_NEAR_PATTERN_def NEAR_ACCOUNT_PATTERN_def)
  next
    case evm
    have "join '':'' ([''evm'', lower (strip scope), lower (strip v)] @ ps) =
        ''evm:'' @ lower (strip scope) @ '':'' @ lower (strip v) @
          concat (map (\<lambda>p. CHR '':'' # p) ps)"
      using join_as_segments [of "''evm''" "lower (strip scope) # lower (strip v) # ps"] by simp
    then show ?thesis
      using evm_text_accepted [OF evm(2) _ _ ps, of "lower (strip scope)" label] assms(3) evm(1)
      by (simp add: run)
  qed
qed

lemma location_id_from_identifier_accepted_witness:
  "\<exists>l. location_id_from_identifier ''near_account'' '' alice.near '' [] [''Cold Storage''] = Inr l \<and>
    require_location_id l ''location'' = Inr l"
  by (rule location_id_from_identifier_accepted) code_simp+

text \<open>
  The scope of an EVM address is only lower-cased: a scope with another character gives an id
  that the acceptance test refuses.
\<close>

lemma evm_scope_not_normalized:
  "case location_id_from_identifier ''evm_address'' (''0x'' @ replicate 40 (CHR ''a''))
      ''polygon-zkevm'' [] of
    Inl e \<Rightarrow> False
  | Inr l \<Rightarrow> \<not> is_ok (require_location_id l ''location'')"
  by code_simp

section \<open>Location records\<close>

text \<open>\<open>domain/locations/models.py\<close>.\<close>

datatype location_kind =
    LOC_ACCOUNT | LOC_ADDRESS | LOC_CONTAINER | LOC_POSITION | LOC_SUBACCOUNT | LOC_SUBUNIT | LOC_OTHER

fun location_kind_text :: "location_kind \<Rightarrow> string" where
  "location_kind_text LOC_ACCOUNT = ''account''"
| "location_kind_text LOC_ADDRESS = ''address''"
| "location_kind_text LOC_CONTAINER = ''container''"
| "location_kind_text LOC_POSITION = ''position''"
| "location_kind_text LOC_SUBACCOUNT = ''subaccount''"
| "location_kind_text LOC_SUBUNIT = ''subunit''"
| "location_kind_text LOC_OTHER = ''other''"

record location_record =
  lr_location_id :: string
  lr_location_kind :: location_kind
  lr_label :: string
  lr_parent_location_id :: "string option"
  lr_path :: "string list"

definition mk_location_record :: "location_record \<Rightarrow> location_record result" where
  "mk_location_record r =
     (if strip (lr_label r) = [] then Inl (ValueError ''location label must not be blank'')
      else if list_ex (\<lambda>segment. strip segment = []) (lr_path r)
        then Inl (ValueError ''location path segments must not be blank'')
      else r_bind (require_location_id (lr_location_id r) ''location location_id'') (\<lambda>l.
        case lr_parent_location_id r of
          None \<Rightarrow> Inr (r\<lparr>lr_location_id := l\<rparr>)
        | Some p \<Rightarrow> r_bind (require_location_id p ''location parent_location_id'') (\<lambda>q.
            Inr (r\<lparr>lr_location_id := l, lr_parent_location_id := Some q\<rparr>))))"

lemma mk_location_record_idem:
  "mk_location_record r = Inr r' \<Longrightarrow> mk_location_record r' = Inr r'"
  by (auto simp: mk_location_record_def result_simps split: if_splits option.splits)

end
