(* ===== verification/Provenance.thy ===== *)
theory Provenance
  imports Py_Text
begin

text \<open>
  \<open>domain/captures/provenance.py\<close> and \<open>domain/issues/records.py\<close>: locators into a capture,
  their reference text and flat-row form, and the issue and review records that carry them. A
  CSV row is a dictionary from column names to cells.
\<close>

type_synonym row = "(string, string) dict"

definition PROVENANCE_LOCATOR_FIELDS :: "string list" where
  "PROVENANCE_LOCATOR_FIELDS =
     [''capture_uid'', ''relative_path'', ''archive_member_path'', ''locator_kind'', ''anchor'']"

definition field_name :: "string \<Rightarrow> string \<Rightarrow> string" where
  "field_name prefix field = (if prefix = [] then field else prefix @ ''_'' @ field)"

definition provenance_locator_header :: "string \<Rightarrow> string list" where
  "provenance_locator_header prefix =
     (if prefix = [] then PROVENANCE_LOCATOR_FIELDS
      else map (\<lambda>field. prefix @ ''_'' @ field) PROVENANCE_LOCATOR_FIELDS)"

definition empty_provenance_locator_dict :: "string \<Rightarrow> row" where
  "empty_provenance_locator_dict prefix = map (\<lambda>name. (name, [])) (provenance_locator_header prefix)"

record provenance_locator =
  pl_capture_uid :: string
  pl_relative_path :: string
  pl_archive_member_path :: string
  pl_locator_kind :: string
  pl_anchor :: string

definition mk_provenance_locator :: "provenance_locator \<Rightarrow> provenance_locator result" where
  "mk_provenance_locator l =
     (if strip (pl_relative_path l) = [] then Inl (ValueError ''relative_path must not be blank'')
      else if strip (pl_locator_kind l) = [] then
        Inl (ValueError ''locator_kind must not be blank'')
      else Inr l)"

definition to_reference_ref :: "provenance_locator \<Rightarrow> string" where
  "to_reference_ref l =
     (let reference = pl_relative_path l;
          reference = (if pl_archive_member_path l \<noteq> []
            then reference @ ''::'' @ pl_archive_member_path l else reference)
      in if pl_anchor l \<noteq> [] then reference @ ''#'' @ pl_anchor l else reference)"

definition to_flat_dict :: "string \<Rightarrow> provenance_locator \<Rightarrow> row" where
  "to_flat_dict prefix l =
     [(field_name prefix ''capture_uid'', pl_capture_uid l),
      (field_name prefix ''relative_path'', pl_relative_path l),
      (field_name prefix ''archive_member_path'', pl_archive_member_path l),
      (field_name prefix ''locator_kind'', pl_locator_kind l),
      (field_name prefix ''anchor'', pl_anchor l)]"

definition flatten_optional_provenance :: "provenance_locator option \<Rightarrow> string \<Rightarrow> row" where
  "flatten_optional_provenance locator prefix =
     (case locator of None \<Rightarrow> empty_provenance_locator_dict prefix
      | Some l \<Rightarrow> to_flat_dict prefix l)"

text \<open>\<open>partition("#")\<close> and the first \<open>"::"\<close> of \<open>split("::", 1)\<close>.\<close>

definition partition_hash :: "string \<Rightarrow> string \<times> string" where
  "partition_hash s =
     (takeWhile (\<lambda>c. c \<noteq> CHR ''#'') s, tl (dropWhile (\<lambda>c. c \<noteq> CHR ''#'') s))"

fun split_member :: "string \<Rightarrow> (string \<times> string) option" where
  "split_member [] = None"
| "split_member [c] = None"
| "split_member (c # d # r) =
     (if c = CHR '':'' \<and> d = CHR '':'' then Some ([], r)
      else case split_member (d # r) of None \<Rightarrow> None | Some (a, b) \<Rightarrow> Some (c # a, b))"

definition from_reference_ref :: "string \<Rightarrow> string \<Rightarrow> string \<Rightarrow> provenance_locator result" where
  "from_reference_ref reference capture_uid locator_kind =
     (let t = strip reference in
      if t = [] then Inl (ValueError ''reference must not be blank'')
      else
        let (path_part, anchor) = partition_hash t;
            (relative_path, archive_member_path) =
              (case split_member path_part of None \<Rightarrow> (path_part, []) | Some p \<Rightarrow> p)
        in mk_provenance_locator
             \<lparr>pl_capture_uid = capture_uid, pl_relative_path = relative_path,
              pl_archive_member_path = archive_member_path, pl_locator_kind = locator_kind,
              pl_anchor = anchor\<rparr>)"

definition row_item :: "row \<Rightarrow> string \<Rightarrow> string result" where
  "row_item row k = (case map_of row k of None \<Rightarrow> Inl (KeyError k) | Some v \<Rightarrow> Inr v)"

definition from_flat_dict :: "string \<Rightarrow> row \<Rightarrow> provenance_locator result" where
  "from_flat_dict prefix row =
     r_bind (row_item row (field_name prefix ''capture_uid'')) (\<lambda>uid.
       r_bind (row_item row (field_name prefix ''relative_path'')) (\<lambda>path.
         mk_provenance_locator
           \<lparr>pl_capture_uid = uid, pl_relative_path = path,
            pl_archive_member_path = dict_get row (field_name prefix ''archive_member_path'') [],
            pl_locator_kind = dict_get row (field_name prefix ''locator_kind'') ''raw_file'',
            pl_anchor = dict_get row (field_name prefix ''anchor'') []\<rparr>))"

definition provenance_locator_from_row :: "string \<Rightarrow> row \<Rightarrow> provenance_locator option result" where
  "provenance_locator_from_row prefix row =
     (if strip (dict_get row (field_name prefix ''capture_uid'') []) = [] \<and>
         strip (dict_get row (field_name prefix ''relative_path'') []) = [] then Inr None
      else r_bind (from_flat_dict prefix row) (\<lambda>l. Inr (Some l)))"

section \<open>Issues and reviews\<close>

record issue_record =
  iss_issue_id :: string
  iss_source :: string
  iss_adapter_id :: string
  iss_severity :: string
  iss_kind :: string
  iss_message :: string
  iss_context_timestamp :: string
  iss_raw_file :: string
  iss_raw_provenance :: "provenance_locator option"
  iss_raw_row_ref :: string
  iss_status :: string

definition issue_to_row :: "issue_record \<Rightarrow> row" where
  "issue_to_row i =
     [(''issue_id'', iss_issue_id i), (''source'', iss_source i), (''adapter_id'', iss_adapter_id i),
      (''severity'', iss_severity i), (''kind'', iss_kind i), (''message'', iss_message i),
      (''context_timestamp'', iss_context_timestamp i), (''raw_file'', iss_raw_file i),
      (''raw_row_ref'', iss_raw_row_ref i)] @
     flatten_optional_provenance (iss_raw_provenance i) ''raw'' @
     [(''status'', iss_status i)]"

record normalization_review_record =
  nrr_review_id :: string
  nrr_source :: string
  nrr_adapter_id :: string
  nrr_scope :: string
  nrr_kind :: string
  nrr_message :: string
  nrr_context_timestamp :: string
  nrr_raw_file :: string
  nrr_raw_provenance :: "provenance_locator option"
  nrr_raw_row_ref :: string
  nrr_field_name :: string
  nrr_original_value :: string
  nrr_normalized_value :: string
  nrr_status :: string

definition review_to_row :: "normalization_review_record \<Rightarrow> row" where
  "review_to_row r =
     [(''review_id'', nrr_review_id r), (''source'', nrr_source r), (''adapter_id'', nrr_adapter_id r),
      (''scope'', nrr_scope r), (''kind'', nrr_kind r), (''message'', nrr_message r),
      (''context_timestamp'', nrr_context_timestamp r), (''raw_file'', nrr_raw_file r),
      (''raw_row_ref'', nrr_raw_row_ref r)] @
     flatten_optional_provenance (nrr_raw_provenance r) ''raw'' @
     [(''field_name'', nrr_field_name r), (''original_value'', nrr_original_value r),
      (''normalized_value'', nrr_normalized_value r), (''status'', nrr_status r)]"

section \<open>Round trips\<close>

lemma field_name_inj: "field_name prefix a = field_name prefix b \<longleftrightarrow> a = b"
  by (simp add: field_name_def)

lemma from_to_flat_dict: "from_flat_dict prefix (to_flat_dict prefix l) = mk_provenance_locator l"
  by (cases l) (simp add: from_flat_dict_def to_flat_dict_def row_item_def dict_get_def field_name_inj)

lemma split_member_none:
  "split_member (a @ b) = None \<Longrightarrow> split_member a = None"
  by (induction a rule: split_member.induct) (auto split: if_splits option.splits)

lemma split_member_append:
  assumes "split_member (p @ '':'') = None"
  shows "split_member (p @ ''::'' @ m) = Some (p, m)"
  using assms
proof (induction p rule: split_member.induct)
  case (3 c d r)
  then show ?case by (auto split: if_splits option.splits)
qed auto

lemma partition_hash_append:
  "CHR ''#'' \<notin> set p \<Longrightarrow> partition_hash (p @ ''#'' @ a) = (p, a)"
  "CHR ''#'' \<notin> set p \<Longrightarrow> partition_hash p = (p, [])"
  unfolding partition_hash_def by (induction p) auto



end
