(* ===== verification/Balances.thy ===== *)
theory Balances
  imports Value_Objects Location_Ids Provenance
begin

text \<open>
  \<open>domain/balances\<close>: kinds, targets, snapshots, references, assertions and provider results with
  the validation of their constructors, their CSV rows, and the match key. A Python object exists
  only in validated form; \<open>valid_*\<close> says that a record is one its constructor returns.
\<close>

section \<open>Kinds and statuses\<close>

definition DEFAULT_BALANCE_KIND :: string where "DEFAULT_BALANCE_KIND = ''available''"

definition normalize_balance_kind :: "string \<Rightarrow> string" where
  "normalize_balance_kind k = (if strip k = [] then DEFAULT_BALANCE_KIND else strip k)"

datatype balance_reference_kind = SOURCE_DOCUMENT | NETWORK_API | OPERATOR_ASSERTION

fun reference_kind_text :: "balance_reference_kind \<Rightarrow> string" where
  "reference_kind_text SOURCE_DOCUMENT = ''source_document''"
| "reference_kind_text NETWORK_API = ''network_api''"
| "reference_kind_text OPERATOR_ASSERTION = ''operator_assertion''"

datatype balance_assertion_status =
  MATCHED | DRIFT | MISSING_SNAPSHOT | MISSING_REFERENCE | REFERENCE_CONFLICT

fun assertion_status_text :: "balance_assertion_status \<Rightarrow> string" where
  "assertion_status_text MATCHED = ''matched''"
| "assertion_status_text DRIFT = ''drift''"
| "assertion_status_text MISSING_SNAPSHOT = ''missing_snapshot''"
| "assertion_status_text MISSING_REFERENCE = ''missing_reference''"
| "assertion_status_text REFERENCE_CONFLICT = ''reference_conflict''"

lemma normalize_balance_kind_idem [simp]:
  "normalize_balance_kind (normalize_balance_kind k) = normalize_balance_kind k"
proof -
  have "strip DEFAULT_BALANCE_KIND = DEFAULT_BALANCE_KIND"
    by (simp add: DEFAULT_BALANCE_KIND_def strip_def strip_by_def is_space_def)
  then show ?thesis
    by (auto simp: normalize_balance_kind_def DEFAULT_BALANCE_KIND_def)
qed

section \<open>Targets\<close>

record balance_target =
  bt_source :: string
  bt_location_id :: string
  bt_instrument_id :: string
  bt_balance_kind :: string
  bt_target_at :: datetime
  bt_target_precision :: temporal_precision

definition mk_balance_target :: "balance_target \<Rightarrow> balance_target result" where
  "mk_balance_target t =
     (if bt_instrument_id t = [] then
        Inl (ValueError ''balance target instrument_id must not be blank'')
      else r_bind (require_location_id (bt_location_id t) ''balance target location_id'') (\<lambda>loc.
        r_bind (require_temporal_datetime (bt_target_at t) (bt_target_precision t)
            ''balance target target_at'') (\<lambda>moment.
          Inr (t\<lparr>bt_location_id := loc, bt_balance_kind := normalize_balance_kind (bt_balance_kind t),
            bt_target_at := moment\<rparr>))))"

definition valid_target :: "balance_target \<Rightarrow> bool" where
  "valid_target t \<longleftrightarrow> mk_balance_target t = Inr t"

definition target_to_row :: "balance_target \<Rightarrow> row result" where
  "target_to_row t =
     r_bind (format_temporal_value (bt_target_at t) (bt_target_precision t)
         ''balance target target_at'') (\<lambda>moment.
       Inr [(''source'', bt_source t), (''location_id'', bt_location_id t),
            (''instrument_id'', bt_instrument_id t), (''balance_kind'', bt_balance_kind t),
            (''target_at'', moment),
            (''target_precision'', temporal_precision_text (bt_target_precision t))])"

text \<open>The order of the dataclass (\<open>order=True\<close>) and the match key.\<close>

type_synonym target_order = "string \<times> string \<times> string \<times> string \<times> datetime \<times> string"

definition target_order_key :: "balance_target \<Rightarrow> target_order" where
  "target_order_key t =
     (bt_source t, bt_location_id t, bt_instrument_id t, bt_balance_kind t, bt_target_at t,
      temporal_precision_text (bt_target_precision t))"

type_synonym match_key = "string \<times> string \<times> string \<times> string \<times> datetime"

definition balance_target_match_key :: "balance_target \<Rightarrow> match_key" where
  "balance_target_match_key t =
     (bt_source t, bt_location_id t, bt_instrument_id t, bt_balance_kind t, bt_target_at t)"

lemma target_order_key_inj: "target_order_key s = target_order_key t \<longleftrightarrow> s = t"
  by (cases s, cases t) (auto simp: target_order_key_def temporal_precision_text_inj)

lemma valid_target_iff:
  "valid_target t \<longleftrightarrow> bt_instrument_id t \<noteq> [] \<and>
     require_location_id (bt_location_id t) [] = Inr (bt_location_id t) \<and>
     normalize_balance_kind (bt_balance_kind t) = bt_balance_kind t \<and>
     utcoffset (bt_target_at t) = Some 0 \<and>
     (bt_target_precision t = DATE \<longrightarrow> midnight (bt_target_at t))"
  by (cases t) (auto simp: valid_target_def mk_balance_target_def result_simps split: if_splits)

lemma mk_balance_target_valid: "mk_balance_target t = Inr t' \<Longrightarrow> valid_target t'"
  unfolding valid_target_iff mk_balance_target_def
  by (auto simp: result_simps split: if_splits)

lemma valid_target_format:
  "valid_target t \<Longrightarrow> \<exists>s. format_temporal_value (bt_target_at t) (bt_target_precision t) label = Inr s"
  by (auto simp: valid_target_iff format_temporal_value_def result_simps)

section \<open>Snapshots\<close>

record balance_snapshot =
  bs_target :: balance_target
  bs_quantity :: decimal
  bs_snapshot_basis :: string
  bs_notes :: string

definition mk_balance_snapshot :: "balance_snapshot \<Rightarrow> balance_snapshot result" where
  "mk_balance_snapshot s =
     (if strip (bs_snapshot_basis s) = [] then
        Inl (ValueError ''balance snapshot snapshot_basis must not be blank'')
      else Inr s)"

definition snapshot_to_row :: "balance_snapshot \<Rightarrow> row result" where
  "snapshot_to_row s =
     r_bind (target_to_row (bs_target s)) (\<lambda>r.
       Inr (r @ [(''quantity'', format_decimal (Some (bs_quantity s))),
                 (''snapshot_basis'', bs_snapshot_basis s), (''notes'', bs_notes s)]))"

section \<open>References\<close>

record balance_reference =
  br_target :: balance_target
  br_quantity :: decimal
  br_reference_kind :: balance_reference_kind
  br_observed_at :: datetime
  br_observed_precision :: temporal_precision
  br_support_ref :: string
  br_provider_family :: string
  br_provider_locator :: string
  br_provider_block_ref :: string
  br_reviewed_by :: string
  br_reviewed_at :: "datetime option"
  br_notes :: string

definition strip_reference :: "balance_reference \<Rightarrow> balance_reference" where
  "strip_reference r =
     r\<lparr>br_reviewed_by := strip (br_reviewed_by r), br_provider_family := strip (br_provider_family r),
       br_provider_locator := strip (br_provider_locator r),
       br_provider_block_ref := strip (br_provider_block_ref r),
       br_support_ref := strip (br_support_ref r)\<rparr>"

text \<open>The checks on the stripped fields, in the order of the code.\<close>

definition reference_problem :: "balance_reference \<Rightarrow> string option" where
  "reference_problem r =
     (let kind = br_reference_kind r in
      if kind = OPERATOR_ASSERTION \<and> br_reviewed_by r = [] then
        Some ''operator assertion balance references require reviewed_by''
      else if kind = OPERATOR_ASSERTION \<and> br_reviewed_at r = None then
        Some ''operator assertion balance references require reviewed_at''
      else if kind \<noteq> OPERATOR_ASSERTION \<and> br_reviewed_at r \<noteq> None \<and> br_reviewed_by r = [] then
        Some ''balance reference reviewed_at requires reviewed_by''
      else if kind = NETWORK_API \<and> br_provider_family r = [] then
        Some ''network api balance references require provider_family''
      else if kind \<noteq> NETWORK_API \<and> (br_provider_family r \<noteq> [] \<or> br_provider_locator r \<noteq> [] \<or>
          br_provider_block_ref r \<noteq> []) then
        Some ''only network api balance references may set provider fields''
      else None)"

definition mk_balance_reference :: "balance_reference \<Rightarrow> balance_reference result" where
  "mk_balance_reference r0 =
     r_bind (require_temporal_datetime (br_observed_at r0) (br_observed_precision r0)
       ''balance reference observed_at'') (\<lambda>observed.
     let r = strip_reference r0 in
     case reference_problem r of
       Some message \<Rightarrow> Inl (ValueError message)
     | None \<Rightarrow>
         (case br_reviewed_at r of
            None \<Rightarrow> Inr (r\<lparr>br_observed_at := observed\<rparr>)
          | Some moment \<Rightarrow>
              r_bind (require_utc_datetime moment ''balance reference reviewed_at'') (\<lambda>moment.
                Inr (r\<lparr>br_observed_at := observed, br_reviewed_at := Some moment\<rparr>))))"

definition valid_reference :: "balance_reference \<Rightarrow> bool" where
  "valid_reference r \<longleftrightarrow> mk_balance_reference r = Inr r \<and> valid_target (br_target r)"

definition format_optional_timestamp :: "datetime option \<Rightarrow> string result" where
  "format_optional_timestamp v = (case v of None \<Rightarrow> Inr [] | Some t \<Rightarrow> format_timestamp t)"

definition reference_to_row :: "balance_reference \<Rightarrow> row result" where
  "reference_to_row r =
     r_bind (target_to_row (br_target r)) (\<lambda>t.
     r_bind (format_temporal_value (br_observed_at r) (br_observed_precision r)
       ''balance reference observed_at'') (\<lambda>observed.
     r_bind (format_optional_timestamp (br_reviewed_at r)) (\<lambda>reviewed.
       Inr (t @ [(''quantity'', format_decimal (Some (br_quantity r))),
         (''reference_kind'', reference_kind_text (br_reference_kind r)),
         (''observed_at'', observed),
         (''observed_precision'', temporal_precision_text (br_observed_precision r)),
         (''support_ref'', br_support_ref r), (''provider_family'', br_provider_family r),
         (''provider_locator'', br_provider_locator r),
         (''provider_block_ref'', br_provider_block_ref r),
         (''reviewed_by'', br_reviewed_by r), (''reviewed_at'', reviewed),
         (''notes'', br_notes r)]))))"

lemma strip_reference_idem [simp]: "strip_reference (strip_reference r) = strip_reference r"
  by (cases r) (simp add: strip_reference_def)

lemma strip_reference_simps [simp]:
  "br_observed_at (strip_reference r) = br_observed_at r"
  "br_observed_precision (strip_reference r) = br_observed_precision r"
  "br_reviewed_at (strip_reference r) = br_reviewed_at r"
  "br_target (strip_reference r) = br_target r" "br_quantity (strip_reference r) = br_quantity r"
  "br_reference_kind (strip_reference r) = br_reference_kind r"
  by (simp_all add: strip_reference_def)

lemma mk_balance_reference_iff:
  "mk_balance_reference r = Inr r' \<longleftrightarrow>
     r' = strip_reference r \<and> reference_problem (strip_reference r) = None \<and>
     utcoffset (br_observed_at r) = Some 0 \<and>
     (br_observed_precision r = DATE \<longrightarrow> midnight (br_observed_at r)) \<and>
     (case br_reviewed_at r of None \<Rightarrow> True | Some moment \<Rightarrow> utcoffset moment = Some 0)"
proof -
  have o: "s\<lparr>br_observed_at := br_observed_at s\<rparr> = s" for s :: balance_reference by simp
  have v: "br_reviewed_at s = Some m \<Longrightarrow>
      s\<lparr>br_observed_at := br_observed_at s, br_reviewed_at := Some m\<rparr> = s" for s :: balance_reference and m
    by (cases s) simp
  show ?thesis
    using o [of "strip_reference r"] v [of "strip_reference r"]
    by (auto simp: mk_balance_reference_def result_simps Let_def split: option.splits)
qed

lemma mk_balance_reference_idem:
  "mk_balance_reference r = Inr r' \<Longrightarrow> mk_balance_reference r' = Inr r'"
  by (simp add: mk_balance_reference_iff)

lemma valid_reference_observed:
  "valid_reference r \<Longrightarrow> require_temporal_datetime (br_observed_at r) (br_observed_precision r) label =
     Inr (br_observed_at r)"
  by (auto simp: valid_reference_def mk_balance_reference_iff result_simps)

section \<open>Assertions and provider results\<close>

record balance_assertion =
  ba_target :: balance_target
  ba_snapshot_quantity :: "decimal option"
  ba_reference_quantity :: "decimal option"
  ba_difference :: decimal
  ba_status :: balance_assertion_status
  ba_selected_reference_kind :: "balance_reference_kind option"
  ba_snapshot_basis :: string
  ba_observed_at :: "datetime option"
  ba_observed_precision :: "temporal_precision option"
  ba_observation_gap :: string
  ba_support_ref :: string
  ba_provider_family :: string
  ba_provider_block_ref :: string
  ba_notes :: string

definition mk_balance_assertion :: "balance_assertion \<Rightarrow> balance_assertion result" where
  "mk_balance_assertion a =
     (case (ba_observed_at a, ba_observed_precision a) of
        (None, None) \<Rightarrow> Inr a
      | (None, Some p) \<Rightarrow>
          Inl (ValueError ''balance assertion observed_precision requires observed_at'')
      | (Some t, None) \<Rightarrow>
          Inl (ValueError ''balance assertion observed_at requires observed_precision'')
      | (Some t, Some p) \<Rightarrow>
          r_bind (require_temporal_datetime t p ''balance assertion observed_at'') (\<lambda>t.
            Inr (a\<lparr>ba_observed_at := Some t\<rparr>)))"

definition assertion_to_row :: "balance_assertion \<Rightarrow> row result" where
  "assertion_to_row a =
     r_bind (target_to_row (ba_target a)) (\<lambda>t.
     r_bind (case (ba_observed_at a, ba_observed_precision a) of
         (Some moment, Some p) \<Rightarrow> format_temporal_value moment p ''balance assertion observed_at''
       | _ \<Rightarrow> Inr []) (\<lambda>observed.
       Inr (t @ [(''snapshot_quantity'', format_decimal (ba_snapshot_quantity a)),
         (''reference_quantity'', format_decimal (ba_reference_quantity a)),
         (''difference'', format_decimal (Some (ba_difference a))),
         (''status'', assertion_status_text (ba_status a)),
         (''selected_reference_kind'',
            (case ba_selected_reference_kind a of None \<Rightarrow> [] | Some k \<Rightarrow> reference_kind_text k)),
         (''snapshot_basis'', ba_snapshot_basis a), (''observed_at'', observed),
         (''observed_precision'',
            (case ba_observed_precision a of None \<Rightarrow> [] | Some p \<Rightarrow> temporal_precision_text p)),
         (''observation_gap'', ba_observation_gap a), (''support_ref'', ba_support_ref a),
         (''provider_family'', ba_provider_family a),
         (''provider_block_ref'', ba_provider_block_ref a), (''notes'', ba_notes a)])))"

record balance_provider_result =
  bpr_target :: balance_target
  bpr_reference :: "balance_reference option"
  bpr_issue_kind :: string
  bpr_issue_message :: string

definition provider_supported :: "balance_provider_result \<Rightarrow> bool" where
  "provider_supported r \<longleftrightarrow> bpr_reference r \<noteq> None \<and> bpr_issue_kind r = []"

end
