(* ===== verification/Balance_Assertions.thy ===== *)
theory Balance_Assertions
  imports Balances
begin

text \<open>
  \<open>domain/balances/assertions.py\<close>: snapshots and references are matched by exact instant; for
  each match key one assertion compares the snapshot with the reference of the highest
  precedence, and every disagreement becomes an issue. \<open>governing\<close> is the declarative reading of
  the precedence loop; the theorems say which assertions come out, what their status means, when
  there is an issue, and that rounding never hides a difference.
\<close>

definition REFERENCE_PRECEDENCE :: "balance_reference_kind list" where
  "REFERENCE_PRECEDENCE = [SOURCE_DOCUMENT, NETWORK_API, OPERATOR_ASSERTION]"

section \<open>Issues\<close>

definition balance_issue :: "string list \<Rightarrow> string \<Rightarrow> string \<Rightarrow> string \<Rightarrow> string \<Rightarrow> string \<Rightarrow> issue_record" where
  "balance_issue id_parts source kind message context raw_file =
     \<lparr>iss_issue_id = join '':'' id_parts, iss_source = source, iss_adapter_id = ''balances'',
      iss_severity = ''high'', iss_kind = kind, iss_message = message,
      iss_context_timestamp = context, iss_raw_file = raw_file, iss_raw_provenance = None,
      iss_raw_row_ref = [], iss_status = ''open''\<rparr>"

definition target_id_parts :: "balance_target \<Rightarrow> string list" where
  "target_id_parts t =
     [bt_source t, bt_location_id t, bt_instrument_id t, bt_balance_kind t]"

definition duplicate_issue :: "balance_target \<Rightarrow> string \<Rightarrow> nat \<Rightarrow> issue_record result" where
  "duplicate_issue target kind duplicate_index =
     r_bind (format_temporal_value (bt_target_at target) (bt_target_precision target)
         ''duplicate balance target_at'') (\<lambda>context.
       Inr (balance_issue (target_id_parts target @ [kind, nat_text duplicate_index])
         (bt_source target) kind
         (''Duplicate '' @ bt_balance_kind target @ '' balance input for '' @
          bt_location_id target @ '' '' @ bt_instrument_id target @ ''.'')
         context []))"

definition conflict_issue ::
    "balance_target \<Rightarrow> balance_reference_kind \<Rightarrow> issue_record result" where
  "conflict_issue target reference_kind =
     r_bind (format_temporal_value (bt_target_at target) (bt_target_precision target)
         ''conflicting balance references target_at'') (\<lambda>context.
       Inr (balance_issue
         (target_id_parts target @
          [''conflicting_balance_references'', reference_kind_text reference_kind])
         (bt_source target) ''conflicting_balance_references''
         ''More than one balance reference with the same precedence matched one balance target.''
         context []))"

definition spaces_for_underscores :: "string \<Rightarrow> string" where
  "spaces_for_underscores s = map (\<lambda>c. if c = CHR ''_'' then CHR '' '' else c) s"

definition assertion_issue :: "balance_assertion \<Rightarrow> issue_record result" where
  "assertion_issue a =
     (let target = ba_target a;
          issue_kind = ''balance_'' @ assertion_status_text (ba_status a);
          status_label = spaces_for_underscores (assertion_status_text (ba_status a))
      in r_bind (format_temporal_value (bt_target_at target) (bt_target_precision target)
           ''balance assertion target_at'') (\<lambda>context.
         Inr (balance_issue (target_id_parts target @ [issue_kind])
           (bt_source target) issue_kind
           (''Balance assertion '' @ status_label @ '' for '' @ bt_location_id target @ '' '' @
            bt_instrument_id target @ ''.'')
           context (ba_support_ref a))))"

section \<open>Indexing\<close>

text \<open>The loop state: the first snapshot of each key, the issues, the duplicates counted so far.\<close>

type_synonym snapshot_index =
  "(match_key, balance_snapshot) dict \<times> issue_record list \<times> (match_key, nat) dict"

definition index_snapshot_step :: "balance_snapshot \<Rightarrow> snapshot_index \<Rightarrow> snapshot_index result" where
  "index_snapshot_step snapshot st =
     (let (indexed, issues, duplicate_counts) = st;
          match_key = balance_target_match_key (bs_target snapshot)
      in case map_of indexed match_key of
           Some _ \<Rightarrow>
             let n = Suc (dict_get duplicate_counts match_key 0) in
             r_bind (duplicate_issue (bs_target snapshot) ''duplicate_balance_snapshot'' n) (\<lambda>issue.
               Inr (indexed, issues @ [issue], AList.update match_key n duplicate_counts))
         | None \<Rightarrow> Inr (indexed @ [(match_key, snapshot)], issues, duplicate_counts))"

definition index_snapshots ::
    "balance_snapshot list \<Rightarrow> ((match_key, balance_snapshot) dict \<times> issue_record list) result" where
  "index_snapshots snapshots =
     r_bind (r_fold index_snapshot_step snapshots ([], [], [])) (\<lambda>(indexed, issues, _).
       Inr (indexed, issues))"

definition index_references ::
    "balance_reference list \<Rightarrow> (match_key, balance_reference list) dict \<times> issue_record list" where
  "index_references references =
     (group_by (\<lambda>r. balance_target_match_key (br_target r)) references, [])"

section \<open>Selection and comparison\<close>

fun select_by_precedence ::
    "balance_target \<Rightarrow> balance_reference list \<Rightarrow> balance_reference_kind list \<Rightarrow>
      (balance_reference option \<times> balance_assertion_status option \<times> issue_record list) result" where
  "select_by_precedence target references [] = Inr (None, None, [])"
| "select_by_precedence target references (reference_kind # kinds) =
     (let matching = filter (\<lambda>r. br_reference_kind r = reference_kind) references in
      if matching = [] then select_by_precedence target references kinds
      else if 1 < length matching then
        r_bind (conflict_issue target reference_kind) (\<lambda>issue.
          Inr (None, Some REFERENCE_CONFLICT, [issue]))
      else Inr (Some (hd matching), None, []))"

definition selected_reference ::
    "balance_target \<Rightarrow> balance_reference list \<Rightarrow>
      (balance_reference option \<times> balance_assertion_status option \<times> issue_record list) result" where
  "selected_reference target references =
     (if references = [] then Inr (None, None, [])
      else select_by_precedence target references REFERENCE_PRECEDENCE)"

definition assertion_status ::
    "balance_snapshot option \<Rightarrow> balance_reference option \<Rightarrow> balance_assertion_status option \<Rightarrow>
      balance_assertion_status" where
  "assertion_status snapshot reference selection_status =
     (if selection_status = Some REFERENCE_CONFLICT then REFERENCE_CONFLICT
      else case snapshot of None \<Rightarrow> MISSING_SNAPSHOT
      | Some s \<Rightarrow>
          (case reference of None \<Rightarrow> MISSING_REFERENCE
           | Some r \<Rightarrow> if \<not> d_eq (bs_quantity s) (br_quantity r) then DRIFT else MATCHED))"

text \<open>\<open>str(int(delta.total_seconds()))\<close>: whole seconds, towards zero.\<close>

definition observation_gap :: "balance_target \<Rightarrow> balance_reference \<Rightarrow> string" where
  "observation_gap target reference =
     (let delta = unix_microseconds (bt_target_at target) - unix_microseconds (br_observed_at reference)
      in int_text (sgn delta * (\<bar>delta\<bar> div 1000000)))"

definition or_zero :: "decimal option \<Rightarrow> decimal" where
  "or_zero q = (case q of None \<Rightarrow> d_zero | Some d \<Rightarrow> if coefficient d = 0 then d_zero else d)"

definition build_assertion ::
    "balance_target \<Rightarrow> balance_snapshot option \<Rightarrow> balance_reference option \<Rightarrow>
      balance_assertion_status option \<Rightarrow> balance_assertion result" where
  "build_assertion target snapshot reference selection_status =
     (let snapshot_quantity = map_option bs_quantity snapshot;
          reference_quantity = map_option br_quantity reference;
          text_of = (\<lambda>f. case reference of None \<Rightarrow> [] | Some r \<Rightarrow> f r)
      in mk_balance_assertion
        \<lparr>ba_target = target, ba_snapshot_quantity = snapshot_quantity,
         ba_reference_quantity = reference_quantity,
         ba_difference = d_sub (or_zero snapshot_quantity) (or_zero reference_quantity),
         ba_status = assertion_status snapshot reference selection_status,
         ba_selected_reference_kind = map_option br_reference_kind reference,
         ba_snapshot_basis = (case snapshot of None \<Rightarrow> [] | Some s \<Rightarrow> bs_snapshot_basis s),
         ba_observed_at = map_option br_observed_at reference,
         ba_observed_precision = map_option br_observed_precision reference,
         ba_observation_gap = text_of (observation_gap target),
         ba_support_ref = text_of br_support_ref, ba_provider_family = text_of br_provider_family,
         ba_provider_block_ref = text_of br_provider_block_ref, ba_notes = text_of br_notes\<rparr>)"

record balance_assertion_result =
  bar_assertions :: "balance_assertion list"
  bar_issues :: "issue_record list"

text \<open>One turn of the main loop.\<close>

definition assert_match_key ::
    "(match_key, balance_snapshot) dict \<Rightarrow> (match_key, balance_reference list) dict \<Rightarrow> match_key \<Rightarrow>
      (balance_assertion \<times> issue_record list) result" where
  "assert_match_key snapshot_index reference_index match_key =
     (let snapshot = map_of snapshot_index match_key;
          references_for_target = dict_get reference_index match_key []
      in r_bind
           (case snapshot of Some s \<Rightarrow> Inr (bs_target s)
            | None \<Rightarrow>
                (case references_for_target of
                   [] \<Rightarrow> Inl (IndexError ''tuple index out of range'')
                 | r # _ \<Rightarrow> Inr (br_target r))) (\<lambda>target.
         r_bind (selected_reference target references_for_target)
           (\<lambda>(reference, selection_status, selection_issues).
         r_bind (build_assertion target snapshot reference selection_status) (\<lambda>a.
           if ba_status a \<noteq> MATCHED then
             r_bind (assertion_issue a) (\<lambda>issue. Inr (a, selection_issues @ [issue]))
           else Inr (a, selection_issues)))))"

definition assert_balance_targets ::
    "balance_snapshot list \<Rightarrow> balance_reference list \<Rightarrow> balance_assertion_result result" where
  "assert_balance_targets snapshots references =
     r_bind (index_snapshots snapshots) (\<lambda>(snapshot_index, snapshot_issues).
       let (reference_index, reference_issues) = index_references references;
           keys = sorted_distinct (map fst snapshot_index @ map fst reference_index)
       in r_bind (r_map (assert_match_key snapshot_index reference_index) keys) (\<lambda>results.
            Inr \<lparr>bar_assertions = map fst results,
                 bar_issues = snapshot_issues @ reference_issues @ concat (map snd results)\<rparr>))"

section \<open>Specification\<close>

definition governing :: "balance_reference list \<Rightarrow> balance_reference list" where
  "governing references =
     (case filter (\<lambda>ms. ms \<noteq> [])
         (map (\<lambda>k. filter (\<lambda>r. br_reference_kind r = k) references) REFERENCE_PRECEDENCE) of
        [] \<Rightarrow> [] | ms # _ \<Rightarrow> ms)"

definition snapshot_key :: "balance_snapshot \<Rightarrow> match_key" where
  "snapshot_key s = balance_target_match_key (bs_target s)"

definition reference_key :: "balance_reference \<Rightarrow> match_key" where
  "reference_key r = balance_target_match_key (br_target r)"

definition spec_status :: "balance_snapshot option \<Rightarrow> balance_reference list \<Rightarrow> balance_assertion_status" where
  "spec_status snapshot references =
     (case governing references of
        r # r' # rs \<Rightarrow> REFERENCE_CONFLICT
      | [] \<Rightarrow> if snapshot = None then MISSING_SNAPSHOT else MISSING_REFERENCE
      | [r] \<Rightarrow> (case snapshot of None \<Rightarrow> MISSING_SNAPSHOT
          | Some s \<Rightarrow> if dval (bs_quantity s) = dval (br_quantity r) then MATCHED else DRIFT))"

lemma index_snapshots_ok:
  assumes "\<forall>s \<in> set snaps. valid_target (bs_target s)"
  shows "\<exists>issues counts. r_fold index_snapshot_step snaps ([], [], []) =
      Inr (index_first snapshot_key snaps, issues, counts) \<and>
    length issues + length (index_first snapshot_key snaps) = length snaps"
  using assms
proof (induction snaps rule: rev_induct)
  case Nil
  show ?case by (simp add: index_first_def)
next
  case (snoc s snaps)
  let ?d = "index_first snapshot_key snaps"
  obtain issues counts where run: "r_fold index_snapshot_step snaps ([], [], []) = Inr (?d, issues, counts)"
      and len: "length issues + length ?d = length snaps"
    using snoc by auto
  note step = index_first_snoc [of snapshot_key snaps s]
  have fold: "r_fold index_snapshot_step (snaps @ [s]) ([], [], []) =
      index_snapshot_step s (?d, issues, counts)"
    by (simp add: r_fold_append run)
      (cases "index_snapshot_step s (?d, issues, counts)"; simp)
  show ?case
  proof (cases "map_of ?d (snapshot_key s)")
    case None
    then show ?thesis
      unfolding fold using len by (simp add: step index_snapshot_step_def snapshot_key_def [symmetric])
  next
    case (Some s')
    from snoc.prems have "valid_target (bs_target s)" by simp
    then obtain stamp where "format_temporal_value (bt_target_at (bs_target s))
        (bt_target_precision (bs_target s)) ''duplicate balance target_at'' = Inr stamp"
      using valid_target_format by blast
    then show ?thesis
      unfolding fold using Some len
      by (simp add: step index_snapshot_step_def snapshot_key_def [symmetric] duplicate_issue_def Let_def)
  qed
qed

lemma index_first_length: "length (index_first key xs) = length xs \<longleftrightarrow> distinct (map key xs)"
proof -
  have "length (index_first key xs) = card (key ` set xs)"
    using distinct_card [OF distinct_index_first [of key xs]] keys_index_first [of key xs] by simp
  then show ?thesis using card_distinct [of "map key xs"] distinct_card [of "map key xs"] by auto
qed

lemma governing_eq:
  "governing references =
     (let by = (\<lambda>k. filter (\<lambda>r. br_reference_kind r = k) references) in
      if by SOURCE_DOCUMENT \<noteq> [] then by SOURCE_DOCUMENT
      else if by NETWORK_API \<noteq> [] then by NETWORK_API else by OPERATOR_ASSERTION)"
  by (simp add: governing_def REFERENCE_PRECEDENCE_def Let_def)

lemma governing_subset: "set (governing references) \<subseteq> set references"
  by (auto simp: governing_eq Let_def split: if_splits)

lemma governing_Nil: "governing [] = []"
  by (simp add: governing_eq)

definition selection :: "balance_reference list \<Rightarrow> balance_reference option" where
  "selection references = (case governing references of [r] \<Rightarrow> Some r | _ \<Rightarrow> None)"

lemma selected_reference_ok:
  assumes "valid_target target"
  shows "\<exists>issues. selected_reference target references =
      Inr (selection references,
           if 1 < length (governing references) then Some REFERENCE_CONFLICT else None, issues) \<and>
    (issues = [] \<longleftrightarrow> \<not> 1 < length (governing references))"
proof (cases "references = []")
  case True
  then show ?thesis by (simp add: selected_reference_def selection_def governing_Nil)
next
  case False
  have ok: "\<exists>i. conflict_issue target k = Inr i" for k
    using valid_target_format [OF assms, of "''conflicting balance references target_at''"]
    by (auto simp: conflict_issue_def)
  have one: "hd ms = m \<and> (\<exists>x. ms = [x])" if "ms \<noteq> []" "\<not> 1 < length ms" "m = hd ms" for ms :: "balance_reference list" and m
    using that by (cases ms; cases "tl ms") auto
  define by_kind where "by_kind = (\<lambda>k. filter (\<lambda>r. br_reference_kind r = k) references)"
  have gov: "governing references = (if by_kind SOURCE_DOCUMENT \<noteq> [] then by_kind SOURCE_DOCUMENT
      else if by_kind NETWORK_API \<noteq> [] then by_kind NETWORK_API else by_kind OPERATOR_ASSERTION)"
    by (simp add: governing_eq by_kind_def Let_def)
  have run: "selected_reference target references =
    (if governing references = [] then Inr (None, None, [])
     else if 1 < length (governing references) then
       r_bind (conflict_issue target (br_reference_kind (hd (governing references))))
         (\<lambda>issue. Inr (None, Some REFERENCE_CONFLICT, [issue]))
     else Inr (Some (hd (governing references)), None, []))"
  proof -
    have kind: "br_reference_kind (hd (by_kind k)) = k" if "by_kind k \<noteq> []" for k
      using hd_in_set [OF that] by (simp add: by_kind_def)
    have step: "select_by_precedence target references (k # ks) =
      (if by_kind k = [] then select_by_precedence target references ks
       else if 1 < length (by_kind k) then
         r_bind (conflict_issue target k) (\<lambda>issue. Inr (None, Some REFERENCE_CONFLICT, [issue]))
       else Inr (Some (hd (by_kind k)), None, []))" for k ks
      by (simp add: by_kind_def Let_def)
    note rules = gov selected_reference_def REFERENCE_PRECEDENCE_def step kind
    show ?thesis
    proof (cases "by_kind SOURCE_DOCUMENT = []")
      case True
      then show ?thesis
        using False
        by (cases "by_kind NETWORK_API = []"; cases "by_kind OPERATOR_ASSERTION = []")
          (simp_all add: rules del: select_by_precedence.simps(2))
    next
      case source: False
      then show ?thesis using False by (simp add: rules del: select_by_precedence.simps(2))
    qed
  qed
  obtain issue where "conflict_issue target (br_reference_kind (hd (governing references))) = Inr issue"
    using ok by blast
  then show ?thesis
    unfolding run selection_def
    by (cases "governing references"; cases "tl (governing references)") auto
qed

lemma spec_status_eq:
  "assertion_status snapshot (selection references)
     (if 1 < length (governing references) then Some REFERENCE_CONFLICT else None) =
   spec_status snapshot references"
  by (auto simp: assertion_status_def selection_def spec_status_def d_eq_iff
      split: list.splits option.splits)

definition asserted :: "balance_snapshot option \<Rightarrow> balance_reference list \<Rightarrow> match_key \<Rightarrow> balance_assertion \<Rightarrow> bool" where
  "asserted snapshot references key a \<longleftrightarrow>
     balance_target_match_key (ba_target a) = key \<and>
     ba_status a = spec_status snapshot references \<and>
     ba_snapshot_quantity a = map_option bs_quantity snapshot \<and>
     ba_reference_quantity a = map_option br_quantity (selection references) \<and>
     ba_selected_reference_kind a = map_option br_reference_kind (selection references) \<and>
     ba_difference a = d_sub (or_zero (ba_snapshot_quantity a)) (or_zero (ba_reference_quantity a))"

lemma build_assertion_ok:
  assumes "\<forall>r \<in> set references. valid_reference r"
  shows "\<exists>a. build_assertion target snapshot (selection references)
      (if 1 < length (governing references) then Some REFERENCE_CONFLICT else None) = Inr a \<and>
    ba_target a = target \<and> asserted snapshot references (balance_target_match_key target) a"
proof (cases "selection references")
  case None
  then show ?thesis
    using spec_status_eq [of snapshot references]
    by (simp add: build_assertion_def mk_balance_assertion_def asserted_def Let_def)
next
  case (Some r)
  then have "r \<in> set references"
    using governing_subset [of references] by (auto simp: selection_def split: list.splits)
  with assms have "require_temporal_datetime (br_observed_at r) (br_observed_precision r)
      ''balance assertion observed_at'' = Inr (br_observed_at r)"
    using valid_reference_observed by blast
  then show ?thesis
    using spec_status_eq [of snapshot references] Some
    by (simp add: build_assertion_def mk_balance_assertion_def asserted_def Let_def)
qed

lemma assert_match_key_ok:
  assumes snaps: "\<forall>s \<in> set snaps. valid_target (bs_target s)"
    and refs: "\<forall>r \<in> set refs. valid_reference r"
    and key: "k \<in> snapshot_key ` set snaps \<union> reference_key ` set refs"
  shows "\<exists>a issues. assert_match_key (index_first snapshot_key snaps) (group_by reference_key refs) k =
      Inr (a, issues) \<and>
    asserted (List.find (\<lambda>s. snapshot_key s = k) snaps) (filter (\<lambda>r. reference_key r = k) refs) k a \<and>
    (issues = [] \<longleftrightarrow> ba_status a = MATCHED)"
proof -
  define snapshot where "snapshot = List.find (\<lambda>s. snapshot_key s = k) snaps"
  define rs where "rs = filter (\<lambda>r. reference_key r = k) refs"
  have lookups: "map_of (index_first snapshot_key snaps) k = snapshot"
    "dict_get (group_by reference_key refs) k [] = rs"
    by (simp_all add: snapshot_def rs_def dict_simps)
  have rs_valid: "\<forall>r \<in> set rs. valid_reference r" using refs by (simp add: rs_def)
  obtain target where target: "(case snapshot of Some s \<Rightarrow> Inr (bs_target s)
        | None \<Rightarrow> (case rs of [] \<Rightarrow> Inl (IndexError ''tuple index out of range'') | r # _ \<Rightarrow> Inr (br_target r))) =
        Inr target"
      and valid: "valid_target target" and tkey: "balance_target_match_key target = k"
  proof (cases snapshot)
    case (Some s)
    then have "s \<in> set snaps" "snapshot_key s = k" by (auto simp: snapshot_def find_Some_iff)
    then show ?thesis using that [of "bs_target s"] Some snaps by (simp add: snapshot_key_def)
  next
    case None
    then have "k \<notin> snapshot_key ` set snaps" by (auto simp: snapshot_def find_None_iff)
    with key have "rs \<noteq> []" by (auto simp: rs_def filter_empty_conv)
    then obtain r rs' where r: "rs = r # rs'" by (cases rs) auto
    then have "r \<in> set rs" by simp
    then have "valid_reference r" "reference_key r = k" using rs_valid by (auto simp: rs_def)
    then show ?thesis using that [of "br_target r"] None r by (simp add: valid_reference_def reference_key_def)
  qed
  define sel_status where
    "sel_status = (if 1 < length (governing rs) then Some REFERENCE_CONFLICT else None)"
  obtain sel_issues where sel: "selected_reference target rs = Inr (selection rs, sel_status, sel_issues)"
      and sel_empty: "sel_issues = [] \<longleftrightarrow> \<not> 1 < length (governing rs)"
    using selected_reference_ok [OF valid] unfolding sel_status_def by blast
  obtain a where a: "build_assertion target snapshot (selection rs) sel_status = Inr a"
      "ba_target a = target" "asserted snapshot rs k a"
    using build_assertion_ok [OF rs_valid] tkey unfolding sel_status_def by blast
  obtain issue where issue: "assertion_issue a = Inr issue"
    using valid_target_format [OF valid, of "''balance assertion target_at''"] a(2)
    by (auto simp: assertion_issue_def Let_def)
  have status: "ba_status a = spec_status snapshot rs" using a(3) by (simp add: asserted_def)
  have "\<not> 1 < length (governing rs)" if "ba_status a = MATCHED"
    using that unfolding status by (auto simp: spec_status_def split: list.splits)
  then have "(if ba_status a \<noteq> MATCHED then sel_issues @ [issue] else sel_issues) = [] \<longleftrightarrow>
      ba_status a = MATCHED"
    using sel_empty by auto
  moreover have "assert_match_key (index_first snapshot_key snaps) (group_by reference_key refs) k =
      Inr (a, if ba_status a \<noteq> MATCHED then sel_issues @ [issue] else sel_issues)"
    by (simp add: assert_match_key_def lookups target sel a(1) issue)
  ultimately show ?thesis using a(3) unfolding snapshot_def rs_def by blast
qed

lemma asserted_member:
  assumes "list_all2 (\<lambda>k a. asserted (f k) (g k) k a) ks as" and "a \<in> set as"
  shows "asserted (f (balance_target_match_key (ba_target a)))
    (g (balance_target_match_key (ba_target a))) (balance_target_match_key (ba_target a)) a"
proof -
  obtain i where "i < length as" "a = as ! i" using assms(2) by (auto simp: in_set_conv_nth)
  then have *: "asserted (f (ks ! i)) (g (ks ! i)) (ks ! i) a"
    using assms(1) by (simp add: list_all2_conv_all_nth)
  then have "balance_target_match_key (ba_target a) = ks ! i" by (simp add: asserted_def)
  with * show ?thesis by simp
qed

definition all_keys :: "balance_snapshot list \<Rightarrow> balance_reference list \<Rightarrow> match_key list" where
  "all_keys snaps refs = sorted_distinct (map snapshot_key snaps @ map reference_key refs)"

lemma assert_balance_targets_ok:
  assumes snaps: "\<forall>s \<in> set snaps. valid_target (bs_target s)"
    and refs: "\<forall>r \<in> set refs. valid_reference r"
  shows "\<exists>res. assert_balance_targets snaps refs = Inr res \<and>
    list_all2 (\<lambda>k a. asserted (List.find (\<lambda>s. snapshot_key s = k) snaps)
      (filter (\<lambda>r. reference_key r = k) refs) k a) (all_keys snaps refs) (bar_assertions res) \<and>
    (bar_issues res = [] \<longleftrightarrow> distinct (map snapshot_key snaps) \<and>
      (\<forall>a \<in> set (bar_assertions res). ba_status a = MATCHED))"
proof -
  let ?S = "index_first snapshot_key snaps" and ?R = "group_by reference_key refs"
  obtain dups counts where idx: "r_fold index_snapshot_step snaps ([], [], []) = Inr (?S, dups, counts)"
      and len: "length dups + length ?S = length snaps"
    using index_snapshots_ok [OF snaps] by blast
  have keys: "sorted_distinct (map fst ?S @ map fst ?R) = all_keys snaps refs"
    unfolding all_keys_def
    by (rule sorted_distinct_cong) (use keys_index_first [of snapshot_key snaps] keys_group_by [of reference_key refs] in simp)
  have "\<exists>y. assert_match_key ?S ?R k = Inr y" if "k \<in> set (all_keys snaps refs)" for k
    using assert_match_key_ok [OF snaps refs, of k] that by (auto simp: all_keys_def)
  then obtain results where results: "r_map (assert_match_key ?S ?R) (all_keys snaps refs) = Inr results"
    using r_map_exists_ok by metis
  have pw: "list_all2 (\<lambda>k ai. assert_match_key ?S ?R k = Inr ai) (all_keys snaps refs) results"
    using results by (simp add: r_map_Inr_iff)
  define good where "good = (\<lambda>k (ai :: balance_assertion \<times> issue_record list).
    asserted (List.find (\<lambda>s. snapshot_key s = k) snaps) (filter (\<lambda>r. reference_key r = k) refs) k (fst ai) \<and>
    (snd ai = [] \<longleftrightarrow> ba_status (fst ai) = MATCHED))"
  have all_good: "list_all2 good (all_keys snaps refs) results"
  proof (rule list.rel_mono_strong [OF pw])
    fix k ai assume "k \<in> set (all_keys snaps refs)" "assert_match_key ?S ?R k = Inr ai"
    then show "good k ai"
      using assert_match_key_ok [OF snaps refs, of k] by (auto simp: all_keys_def good_def)
  qed
  have run: "assert_balance_targets snaps refs = Inr \<lparr>bar_assertions = map fst results,
      bar_issues = dups @ concat (map snd results)\<rparr>"
    using keys results
    by (simp add: assert_balance_targets_def index_snapshots_def idx index_references_def
        reference_key_def [abs_def])
  have dups: "dups = [] \<longleftrightarrow> distinct (map snapshot_key snaps)"
    using len index_first_length [of snapshot_key snaps] by (cases dups) auto
  have "snd ai = [] \<longleftrightarrow> ba_status (fst ai) = MATCHED" if "ai \<in> set results" for ai
    using all_good that by (auto simp: list_all2_conv_all_nth in_set_conv_nth good_def)
  then have "concat (map snd results) = [] \<longleftrightarrow> (\<forall>a \<in> set (map fst results). ba_status a = MATCHED)"
    by auto
  moreover have "list_all2 (\<lambda>k a. asserted (List.find (\<lambda>s. snapshot_key s = k) snaps)
      (filter (\<lambda>r. reference_key r = k) refs) k a) (all_keys snaps refs) (map fst results)"
    using all_good by (simp add: list.rel_map good_def list_all2_mono)
  ultimately show ?thesis using run dups by simp
qed

section \<open>Properties\<close>

text \<open>
  C20: On validated inputs \<open>assert_balance_targets\<close> never raises and returns exactly one
  assertion per match key that occurs in a snapshot or a reference, in the order of the keys.
  Each assertion's status is the declarative one: a conflict when the governing kind (the first of
  source document, network, operator that has a reference for the key) has more than one
  reference, then missing snapshot, missing reference, drift, matched by exact quantity.
\<close>

theorem assert_balance_targets_complete:
  assumes "\<forall>s \<in> set snaps. valid_target (bs_target s)" and "\<forall>r \<in> set refs. valid_reference r"
  shows "\<exists>res. assert_balance_targets snaps refs = Inr res \<and>
    map (balance_target_match_key \<circ> ba_target) (bar_assertions res) =
      sorted_distinct (map snapshot_key snaps @ map reference_key refs) \<and>
    (\<forall>a \<in> set (bar_assertions res).
       let k = balance_target_match_key (ba_target a) in
       ba_status a = spec_status (List.find (\<lambda>s. snapshot_key s = k) snaps)
         (filter (\<lambda>r. reference_key r = k) refs))"
proof -
  obtain res where res: "assert_balance_targets snaps refs = Inr res"
    and pw: "list_all2 (\<lambda>k a. asserted (List.find (\<lambda>s. snapshot_key s = k) snaps)
      (filter (\<lambda>r. reference_key r = k) refs) k a) (all_keys snaps refs) (bar_assertions res)"
    using assert_balance_targets_ok [OF assms] by blast
  have "map (balance_target_match_key \<circ> ba_target) (bar_assertions res) = all_keys snaps refs"
    using pw by (intro nth_equalityI) (auto simp: list_all2_conv_all_nth asserted_def)
  moreover have "asserted (List.find (\<lambda>s. snapshot_key s = balance_target_match_key (ba_target a)) snaps)
      (filter (\<lambda>r. reference_key r = balance_target_match_key (ba_target a)) refs)
      (balance_target_match_key (ba_target a)) a" if "a \<in> set (bar_assertions res)" for a
    using asserted_member [OF pw that] .
  ultimately show ?thesis
    using res unfolding all_keys_def Let_def by (auto simp: asserted_def)
qed

text \<open>
  C28: Nothing is passed over in silence: the issue list of \<open>assert_balance_targets\<close> is empty
  exactly when no two snapshots share a match key and every assertion is matched.
\<close>

theorem assert_balance_targets_issues:
  assumes "\<forall>s \<in> set snaps. valid_target (bs_target s)" and "\<forall>r \<in> set refs. valid_reference r"
  shows "case assert_balance_targets snaps refs of
      Inl e \<Rightarrow> False
    | Inr res \<Rightarrow> bar_issues res = [] \<longleftrightarrow> distinct (map snapshot_key snaps) \<and>
        (\<forall>a \<in> set (bar_assertions res). ba_status a = MATCHED)"
proof -
  obtain res where "assert_balance_targets snaps refs = Inr res"
    "bar_issues res = [] \<longleftrightarrow> distinct (map snapshot_key snaps) \<and>
        (\<forall>a \<in> set (bar_assertions res). ba_status a = MATCHED)"
    using assert_balance_targets_ok [OF assms] by blast
  then show ?thesis by simp
qed

lemma dval_or_zero: "dval (or_zero q) = (case q of None \<Rightarrow> 0 | Some d \<Rightarrow> dval d)"
  by (auto simp: or_zero_def dval_eq_0 split: option.split)

lemma asserted_matched:
  assumes "asserted s rs k a" and "ba_status a = MATCHED"
  shows "dval (ba_difference a) = 0"
proof -
  obtain sn r where "s = Some sn" "governing rs = [r]" "dval (bs_quantity sn) = dval (br_quantity r)"
    using assms by (auto simp: asserted_def spec_status_def split: list.splits option.splits if_splits)
  then show ?thesis
    using assms by (simp add: asserted_def selection_def d_sub_zero_iff dval_or_zero)
qed

lemma asserted_drift:
  assumes "asserted s rs k a" and "ba_status a = DRIFT"
  shows "dval (ba_difference a) \<noteq> 0"
proof -
  obtain sn r where "s = Some sn" "governing rs = [r]" "dval (bs_quantity sn) \<noteq> dval (br_quantity r)"
    using assms by (auto simp: asserted_def spec_status_def split: list.splits option.splits if_splits)
  then show ?thesis
    using assms by (simp add: asserted_def selection_def d_sub_zero_iff dval_or_zero)
qed

text \<open>
  C33: The printed difference never contradicts the status: it is zero for a matched assertion
  and non-zero for a drift, whatever the 28-digit context rounds away, and it is the exact
  difference of the quantities (an absent one counting as zero) whenever that fits 28 digits.
\<close>

theorem assertion_difference:
  assumes "\<forall>s \<in> set snaps. valid_target (bs_target s)" and "\<forall>r \<in> set refs. valid_reference r"
    and "assert_balance_targets snaps refs = Inr res" and "a \<in> set (bar_assertions res)"
  shows "(ba_status a = MATCHED \<longrightarrow> dval (ba_difference a) = 0) \<and>
    (ba_status a = DRIFT \<longrightarrow> dval (ba_difference a) \<noteq> 0) \<and>
    (let exact = (case ba_snapshot_quantity a of None \<Rightarrow> 0 | Some d \<Rightarrow> dval d) -
        (case ba_reference_quantity a of None \<Rightarrow> 0 | Some d \<Rightarrow> dval d)
     in fits exact \<longrightarrow> dval (ba_difference a) = exact)"
proof -
  have pw: "list_all2 (\<lambda>k a. asserted (List.find (\<lambda>s. snapshot_key s = k) snaps)
      (filter (\<lambda>r. reference_key r = k) refs) k a) (all_keys snaps refs) (bar_assertions res)"
    using assert_balance_targets_ok [OF assms(1,2)] assms(3) by auto
  note a = asserted_member [OF pw assms(4)]
  have "dval (ba_difference a) = dval (or_zero (ba_snapshot_quantity a)) - dval (or_zero (ba_reference_quantity a))"
    if "fits (dval (or_zero (ba_snapshot_quantity a)) - dval (or_zero (ba_reference_quantity a)))"
    using a that by (simp add: asserted_def d_sub_exact)
  then show ?thesis
    using asserted_matched [OF a] asserted_drift [OF a] unfolding dval_or_zero Let_def by blast
qed

section \<open>Witnesses\<close>

definition sample_target :: "nat \<Rightarrow> balance_target" where
  "sample_target d =
     \<lparr>bt_source = ''kraken'', bt_location_id = ''kraken:spot'', bt_instrument_id = ''symbol:BTC'',
      bt_balance_kind = ''available'', bt_target_at = DateTime 2024 3 d 0 0 0 0 (Some 0),
      bt_target_precision = DATE\<rparr>"

definition sample_snapshot :: "nat \<Rightarrow> decimal \<Rightarrow> balance_snapshot" where
  "sample_snapshot d q =
     \<lparr>bs_target = sample_target d, bs_quantity = q, bs_snapshot_basis = ''fact_delta_sum'', bs_notes = []\<rparr>"

definition sample_reference :: "nat \<Rightarrow> decimal \<Rightarrow> balance_reference" where
  "sample_reference d q =
     \<lparr>br_target = sample_target d, br_quantity = q, br_reference_kind = SOURCE_DOCUMENT,
      br_observed_at = DateTime 2024 3 d 6 0 0 0 (Some 0), br_observed_precision = TIMESTAMP,
      br_support_ref = ''statement.pdf'', br_provider_family = [], br_provider_locator = [],
      br_provider_block_ref = [], br_reviewed_by = [], br_reviewed_at = None, br_notes = []\<rparr>"

lemma sample_valid:
  "valid_target (sample_target d)" "valid_reference (sample_reference d q)"
proof -
  have "require_location_id ''kraken:spot'' [] = Inr ''kraken:spot''"
    "normalize_balance_kind ''available'' = ''available''" "strip ''statement.pdf'' = ''statement.pdf''"
    by code_simp+
  then show "valid_target (sample_target d)" "valid_reference (sample_reference d q)"
    by (simp_all add: valid_reference_def valid_target_iff sample_reference_def sample_target_def
        midnight_def mk_balance_reference_iff strip_reference_def reference_problem_def Let_def)
qed

definition sample_snapshots :: "balance_snapshot list" where
  "sample_snapshots = [sample_snapshot 9 (Decimal 15 (-1)), sample_snapshot 8 (Decimal 2 0)]"

definition sample_references :: "balance_reference list" where
  "sample_references = [sample_reference 8 (Decimal 20 (-1)), sample_reference 9 (Decimal 16 (-1))]"

lemma samples_valid:
  "\<forall>s \<in> set sample_snapshots. valid_target (bs_target s)"
  "\<forall>r \<in> set sample_references. valid_reference r"
  by (simp_all add: sample_snapshots_def sample_references_def sample_snapshot_def sample_valid)

theorem assert_balance_targets_complete_witness:
  "\<exists>res. assert_balance_targets sample_snapshots sample_references = Inr res \<and>
    map (balance_target_match_key \<circ> ba_target) (bar_assertions res) =
      sorted_distinct (map snapshot_key sample_snapshots @ map reference_key sample_references) \<and>
    (\<forall>a \<in> set (bar_assertions res).
       let k = balance_target_match_key (ba_target a) in
       ba_status a = spec_status (List.find (\<lambda>s. snapshot_key s = k) sample_snapshots)
         (filter (\<lambda>r. reference_key r = k) sample_references))"
  by (rule assert_balance_targets_complete) (rule samples_valid)+

theorem assert_balance_targets_issues_witness:
  "case assert_balance_targets sample_snapshots sample_references of
      Inl e \<Rightarrow> False
    | Inr res \<Rightarrow> bar_issues res = [] \<longleftrightarrow> distinct (map snapshot_key sample_snapshots) \<and>
        (\<forall>a \<in> set (bar_assertions res). ba_status a = MATCHED)"
  by (rule assert_balance_targets_issues) (rule samples_valid)+

theorem assertion_difference_witness:
  "\<exists>res a. assert_balance_targets sample_snapshots sample_references = Inr res \<and>
    a \<in> set (bar_assertions res) \<and>
    (ba_status a = MATCHED \<longrightarrow> dval (ba_difference a) = 0) \<and>
    (ba_status a = DRIFT \<longrightarrow> dval (ba_difference a) \<noteq> 0) \<and>
    (let exact = (case ba_snapshot_quantity a of None \<Rightarrow> 0 | Some d \<Rightarrow> dval d) -
        (case ba_reference_quantity a of None \<Rightarrow> 0 | Some d \<Rightarrow> dval d)
     in fits exact \<longrightarrow> dval (ba_difference a) = exact)"
proof -
  obtain res where res: "assert_balance_targets sample_snapshots sample_references = Inr res"
    and pw: "list_all2 (\<lambda>k a. asserted (List.find (\<lambda>s. snapshot_key s = k) sample_snapshots)
      (filter (\<lambda>r. reference_key r = k) sample_references) k a)
      (all_keys sample_snapshots sample_references) (bar_assertions res)"
    using assert_balance_targets_ok [OF samples_valid] by blast
  have "set (all_keys sample_snapshots sample_references) \<noteq> {}"
    by (simp add: all_keys_def sample_snapshots_def)
  then obtain a where a: "a \<in> set (bar_assertions res)"
    using list_all2_lengthD [OF pw] by (cases "bar_assertions res") auto
  show ?thesis using res a assertion_difference [OF samples_valid res a] by blast
qed

text \<open>
  The id of an assertion's issue names the target without its instant: the same drift at two
  instants gives two issues with one id.
\<close>

lemma assertion_issue_id_forgets_instant:
  assumes "assertion_issue a = Inr i" and "assertion_issue b = Inr j"
    and "target_id_parts (ba_target a) = target_id_parts (ba_target b)" and "ba_status a = ba_status b"
  shows "iss_issue_id i = iss_issue_id j"
  using assms by (auto simp: assertion_issue_def balance_issue_def result_simps Let_def)

end
