(* ===== verification/Py_Json.thy ===== *)
theory Py_Json
  imports Py_Text
begin

text \<open>
  The part of Python's \<open>json\<close> module the identifiers, fingerprints and CSV cells go through:
  values without floats, \<open>dumps\<close> with the compact separators and ASCII escapes, \<open>sort_keys\<close>,
  and \<open>loads\<close>. A decimal point or exponent in a number, and an escape beyond code point 255,
  are \<open>OutsideModel\<close>. The main lemma is the round trip, from which \<open>dumps\<close> is injective.
\<close>

datatype json =
    JNull
  | JBool bool
  | JInt int
  | JString string
  | JArray "json list"
  | JObject "(string \<times> json) list"

abbreviation quote_char :: char where "quote_char \<equiv> CHR 0x22"
abbreviation backslash :: char where "backslash \<equiv> CHR 0x5C"

section \<open>Writing\<close>

definition json_escape :: "char \<Rightarrow> string" where
  "json_escape c =
     (let n = of_char c :: nat in
      if c = quote_char \<or> c = backslash then [backslash, c]
      else if n = 8 then [backslash, CHR ''b'']
      else if n = 9 then [backslash, CHR ''t'']
      else if n = 10 then [backslash, CHR ''n'']
      else if n = 12 then [backslash, CHR ''f'']
      else if n = 13 then [backslash, CHR ''r'']
      else if 32 \<le> n \<and> n \<le> 126 then [c]
      else [backslash, CHR ''u'', CHR ''0'', CHR ''0'', hex_char (n div 16), hex_char (n mod 16)])"

definition json_string :: "string \<Rightarrow> string" where
  "json_string s = [quote_char] @ concat (map json_escape s) @ [quote_char]"

primrec dumps :: "json \<Rightarrow> string" where
  "dumps JNull = ''null''"
| "dumps (JBool b) = (if b then ''true'' else ''false'')"
| "dumps (JInt i) = int_text i"
| "dumps (JString s) = json_string s"
| "dumps (JArray js) = ''['' @ join '','' (map dumps js) @ '']''"
| "dumps (JObject kvs) =
     ''{'' @ join '','' (map (\<lambda>(k, v). json_string k @ '':'' @ v) (map (map_prod id dumps) kvs)) @ ''}''"

text \<open>\<open>sort_keys=True\<close>.\<close>

primrec sort_json :: "json \<Rightarrow> json" where
  "sort_json JNull = JNull"
| "sort_json (JBool b) = JBool b"
| "sort_json (JInt i) = JInt i"
| "sort_json (JString s) = JString s"
| "sort_json (JArray js) = JArray (map sort_json js)"
| "sort_json (JObject kvs) = JObject (sort_key fst (map (map_prod id sort_json) kvs))"

definition dumps_sorted :: "json \<Rightarrow> string" where
  "dumps_sorted j = dumps (sort_json j)"

section \<open>Reading\<close>

definition json_error :: py_error where
  "json_error = ValueError ''json''"

definition json_space :: "char \<Rightarrow> bool" where
  "json_space c = (let n = of_char c :: nat in n = 32 \<or> n = 9 \<or> n = 10 \<or> n = 13)"

definition skip_ws :: "string \<Rightarrow> string" where
  "skip_ws s = dropWhile json_space s"

definition hex_val :: "char \<Rightarrow> nat option" where
  "hex_val c =
     (let n = of_char c :: nat in
      if 48 \<le> n \<and> n \<le> 57 then Some (n - 48)
      else if 97 \<le> n \<and> n \<le> 102 then Some (n - 87)
      else if 65 \<le> n \<and> n \<le> 70 then Some (n - 55)
      else None)"

definition unescape :: "char \<Rightarrow> char option" where
  "unescape c =
     (if c = quote_char \<or> c = backslash \<or> c = CHR ''/'' then Some c
      else if c = CHR ''b'' then Some (char_of (8::nat))
      else if c = CHR ''f'' then Some (char_of (12::nat))
      else if c = CHR ''n'' then Some (char_of (10::nat))
      else if c = CHR ''r'' then Some (char_of (13::nat))
      else if c = CHR ''t'' then Some (char_of (9::nat))
      else None)"

definition read_hex4 :: "string \<Rightarrow> (char \<times> string) result" where
  "read_hex4 s =
     (case map hex_val (take 4 s) of
        [Some a, Some b, Some c, Some d] \<Rightarrow>
          if a = 0 \<and> b = 0 then Inr (char_of (16 * c + d), drop 4 s)
          else Inl (OutsideModel ''unicode escape'')
      | _ \<Rightarrow> Inl json_error)"

fun read_chars :: "nat \<Rightarrow> string \<Rightarrow> (string \<times> string) result" where
  "read_chars 0 s = Inl json_error"
| "read_chars (Suc n) s =
     (case s of [] \<Rightarrow> Inl json_error
      | c # r \<Rightarrow>
        if c = quote_char then Inr ([], r)
        else if c = backslash then
          (case r of [] \<Rightarrow> Inl json_error
           | d # q \<Rightarrow>
             r_bind (if d = CHR ''u'' then read_hex4 q
                     else case unescape d of None \<Rightarrow> Inl json_error | Some x \<Rightarrow> Inr (x, q))
               (\<lambda>(x, q). r_bind (read_chars n q) (\<lambda>(xs, t). Inr (x # xs, t))))
        else if (of_char c :: nat) < 32 then Inl json_error
        else r_bind (read_chars n r) (\<lambda>(xs, t). Inr (c # xs, t)))"

definition read_string :: "string \<Rightarrow> (string \<times> string) result" where
  "read_string s = read_chars (length s) s"

definition read_int :: "string \<Rightarrow> (json \<times> string) result" where
  "read_int s =
     (let neg = (s \<noteq> [] \<and> hd s = CHR ''-''); u = (if neg then tl s else s);
          ds = takeWhile is_digit u; r = dropWhile is_digit u
      in if ds = [] \<or> (1 < length ds \<and> hd ds = CHR ''0'') then Inl json_error
         else if r \<noteq> [] \<and> hd r \<in> {CHR ''.'', CHR ''e'', CHR ''E''} then Inl (OutsideModel ''float'')
         else Inr (JInt (if neg then - int (text_nat ds) else int (text_nat ds)), r))"

definition read_word :: "string \<Rightarrow> (json \<times> string) result" where
  "read_word s =
     (if starts_with s ''null'' then Inr (JNull, drop 4 s)
      else if starts_with s ''true'' then Inr (JBool True, drop 4 s)
      else if starts_with s ''false'' then Inr (JBool False, drop 5 s)
      else read_int s)"

definition expect :: "char \<Rightarrow> string \<Rightarrow> string result" where
  "expect c s = (case skip_ws s of [] \<Rightarrow> Inl json_error | d # r \<Rightarrow> if d = c then Inr r else Inl json_error)"

fun read_value :: "nat \<Rightarrow> string \<Rightarrow> (json \<times> string) result"
  and read_items :: "nat \<Rightarrow> string \<Rightarrow> (json list \<times> string) result"
  and read_members :: "nat \<Rightarrow> string \<Rightarrow> ((string \<times> json) list \<times> string) result" where
  "read_value 0 s = Inl json_error"
| "read_value (Suc n) s =
     (case skip_ws s of [] \<Rightarrow> Inl json_error
      | c # r \<Rightarrow>
        if c = quote_char then r_bind (read_string r) (\<lambda>(x, t). Inr (JString x, t))
        else if c = CHR ''['' then
          (case skip_ws r of
             d # t \<Rightarrow> if d = CHR '']'' then Inr (JArray [], t)
                     else r_bind (read_items n r) (\<lambda>(js, t). Inr (JArray js, t))
           | [] \<Rightarrow> Inl json_error)
        else if c = CHR ''{'' then
          (case skip_ws r of
             d # t \<Rightarrow> if d = CHR ''}'' then Inr (JObject [], t)
                     else r_bind (read_members n r) (\<lambda>(kvs, t). Inr (JObject kvs, t))
           | [] \<Rightarrow> Inl json_error)
        else read_word (c # r))"
| "read_items 0 s = Inl json_error"
| "read_items (Suc n) s =
     r_bind (read_value n s) (\<lambda>(j, r).
       case skip_ws r of [] \<Rightarrow> Inl json_error
       | c # t \<Rightarrow>
         if c = CHR '','' then r_bind (read_items n t) (\<lambda>(js, u). Inr (j # js, u))
         else if c = CHR '']'' then Inr ([j], t)
         else Inl json_error)"
| "read_members 0 s = Inl json_error"
| "read_members (Suc n) s =
     r_bind (expect quote_char s) (\<lambda>r. r_bind (read_string r) (\<lambda>(k, r).
       r_bind (expect (CHR '':'') r) (\<lambda>r. r_bind (read_value n r) (\<lambda>(j, r).
         case skip_ws r of [] \<Rightarrow> Inl json_error
         | c # t \<Rightarrow>
           if c = CHR '','' then
             r_bind (read_members n t) (\<lambda>(kvs, u). Inr ((k, j) # kvs, u))
           else if c = CHR ''}'' then Inr ([(k, j)], t)
           else Inl json_error))))"

text \<open>Repeated keys: the last value stays, at the place of the first.\<close>

primrec dedupe_keys :: "json \<Rightarrow> json" where
  "dedupe_keys JNull = JNull"
| "dedupe_keys (JBool b) = JBool b"
| "dedupe_keys (JInt i) = JInt i"
| "dedupe_keys (JString s) = JString s"
| "dedupe_keys (JArray js) = JArray (map dedupe_keys js)"
| "dedupe_keys (JObject kvs) =
     JObject (fold (\<lambda>(k, v). AList.update k v) (map (map_prod id dedupe_keys) kvs) [])"

definition loads :: "string \<Rightarrow> json result" where
  "loads s =
     r_bind (read_value (Suc (length s)) s) (\<lambda>(j, r).
       if skip_ws r = [] then Inr (dedupe_keys j) else Inl json_error)"

section \<open>The round trip\<close>

primrec wf_json :: "json \<Rightarrow> bool" where
  "wf_json JNull = True"
| "wf_json (JBool b) = True"
| "wf_json (JInt i) = True"
| "wf_json (JString s) = True"
| "wf_json (JArray js) = list_all (\<lambda>b. b) (map wf_json js)"
| "wf_json (JObject kvs) =
     (distinct (map fst kvs) \<and> list_all snd (map (map_prod id wf_json) kvs))"

lemma of_char_less: "(of_char c :: nat) < 256"
  by (rule nat_of_char_less_256)

lemma hex_val_hex_char: "d < 16 \<Longrightarrow> hex_val (hex_char d) = Some d"
  by (auto simp: hex_val_def hex_char_def Let_def of_char_of)

lemma read_hex4_escape:
  "read_hex4 (CHR ''0'' # CHR ''0'' # hex_char (of_char c div 16) # hex_char (of_char c mod 16) # s) =
     Inr (c, s)"
proof -
  have "(of_char c :: nat) div 16 < 16" using of_char_less [of c] by (simp add: div_less_iff_less_mult)
  then have "hex_val (hex_char (of_char c div 16)) = Some (of_char c div 16)"
    by (rule hex_val_hex_char)
  moreover have "hex_val (hex_char (of_char c mod 16)) = Some (of_char c mod 16)"
    by (rule hex_val_hex_char) simp
  moreover have "hex_val (CHR ''0'') = Some 0" by (simp add: hex_val_def Let_def)
  ultimately show ?thesis by (simp add: read_hex4_def char_of_nat)
qed

lemma char_by_code: "(of_char c :: nat) = n \<Longrightarrow> c = char_of n"
  by auto

lemma read_chars_escape:
  "read_chars (Suc n) (json_escape c @ s) = r_bind (read_chars n s) (\<lambda>(xs, t). Inr (c # xs, t))"
proof -
  have u: "unescape quote_char = Some quote_char" "unescape backslash = Some backslash"
    "unescape (CHR ''b'') = Some (char_of (8::nat))" "unescape (CHR ''t'') = Some (char_of (9::nat))"
    "unescape (CHR ''n'') = Some (char_of (10::nat))" "unescape (CHR ''f'') = Some (char_of (12::nat))"
    "unescape (CHR ''r'') = Some (char_of (13::nat))"
    by (simp_all add: unescape_def)
  show ?thesis
    by (auto simp: json_escape_def Let_def u read_hex4_escape dest!: char_by_code)
qed

lemma read_chars_json_string:
  "length s < n \<Longrightarrow> read_chars n (concat (map json_escape s) @ quote_char # r) = Inr (s, r)"
proof (induction s arbitrary: n)
  case Nil
  then show ?case by (cases n) simp_all
next
  case (Cons c s)
  then obtain m where n: "n = Suc m" "length s < m" by (cases n) auto
  show ?case
    using Cons.IH [OF n(2)] read_chars_escape [of m c "concat (map json_escape s) @ quote_char # r"]
    by (simp add: n)
qed

lemma json_escape_length: "1 \<le> length (json_escape c)"
  by (simp add: json_escape_def Let_def)

lemma escaped_length: "length s \<le> length (concat (map json_escape s))"
proof (induction s)
  case (Cons c s)
  then show ?case using json_escape_length [of c] by simp
qed simp

lemma read_string_json_string:
  "json_string s = quote_char # tl (json_string s)"
  "read_string (tl (json_string s) @ r) = Inr (s, r)"
proof -
  show "json_string s = quote_char # tl (json_string s)" by (simp add: json_string_def)
  show "read_string (tl (json_string s) @ r) = Inr (s, r)"
    unfolding read_string_def json_string_def
    using escaped_length [of s] read_chars_json_string
    by (simp add: less_Suc_eq_le trans_le_add1 del: length_concat read_chars.simps)
qed

definition json_end :: "string \<Rightarrow> bool" where
  "json_end r \<longleftrightarrow> r = [] \<or> json_space (hd r) \<or> hd r \<in> {CHR '','', CHR '']'', CHR ''}''}"

definition json_start :: "char \<Rightarrow> bool" where
  "json_start c \<longleftrightarrow> \<not> json_space c \<and> c \<notin> {CHR '']'', CHR ''}''}"

lemma json_start_digit: "is_digit c \<Longrightarrow> json_start c"
  by (auto simp: json_start_def json_space_def is_digit_def Let_def)

lemma int_text_start: "\<exists>c r. int_text i = c # r \<and> (is_digit c \<or> c = CHR ''-'')"
proof -
  have "\<exists>c r. nat_text n = c # r \<and> is_digit c" for n
    using nat_text_digits [of _ n] nat_text_nonempty [of n] by (cases "nat_text n") auto
  from this [of "nat i"] show ?thesis by (cases "i < 0") (auto simp: int_text_def)
qed

lemma dumps_start: "\<exists>c r. dumps j = c # r \<and> json_start c"
proof (cases j)
  case (JInt i)
  then show ?thesis
    using int_text_start [of i] json_start_digit by (auto simp: json_start_def json_space_def Let_def)
qed (auto simp: json_start_def json_space_def json_string_def Let_def)

lemma skip_ws_dumps: "skip_ws (dumps j @ r) = dumps j @ r"
  using dumps_start [of j] by (auto simp: skip_ws_def json_start_def)

lemma read_int_text: "json_end r \<Longrightarrow> read_int (int_text i @ r) = Inr (JInt i, r)"
proof -
  assume r: "json_end r"
  have fin: "r = [] \<or> \<not> is_digit (hd r)" "r = [] \<or> hd r \<notin> {CHR ''.'', CHR ''e'', CHR ''E''}"
    using r by (auto simp: json_end_def json_space_def is_digit_def Let_def)
  have d: "takeWhile is_digit (nat_text n @ r) = nat_text n" "dropWhile is_digit (nat_text n @ r) = r"
    for n using takeWhile_digits [of "nat_text n" r] fin nat_text_digits by auto
  have z: "\<not> (1 < length (nat_text n) \<and> hd (nat_text n) = CHR ''0'')" for n
  proof (induction n rule: nat_text.induct)
    case (1 n)
    show ?case
    proof (cases "n < 10")
      case True
      then show ?thesis by (subst nat_text.simps) simp
    next
      case False
      then have hd: "hd (nat_text n) = hd (nat_text (n div 10))"
        by (subst nat_text.simps) simp
      show ?thesis
      proof (cases "n div 10 < 10")
        case True
        then have "hd (nat_text (n div 10)) = digit_char (n div 10)"
          by (subst nat_text.simps) simp
        moreover have "0 < n div 10" using False by (simp add: div_greater_zero_iff)
        ultimately show ?thesis
          using hd True digit_char_inj [of "n div 10" 0] by (simp add: digit_char_eval)
      next
        case b: False
        have "1 < length (nat_text (n div 10))"
          using b nat_text_nonempty by (subst nat_text.simps) (simp del: nat_text_nonempty)
        then show ?thesis using "1.IH" [OF False] hd by simp
      qed
    qed
  qed
  have m: "hd (nat_text n @ r) \<noteq> CHR ''-''" for n
    using nat_text_digits [of "hd (nat_text n)" n] by (auto simp: is_digit_def Let_def)
  show ?thesis
  proof (cases "i < 0")
    case True
    then show ?thesis
      using d z fin by (auto simp: read_int_def int_text_def Let_def)
  next
    case False
    then show ?thesis
      using d z fin m [of "nat i"] by (auto simp: read_int_def int_text_def Let_def)
  qed
qed

lemma read_value_start:
  "json_start c \<Longrightarrow> skip_ws (c # s) = c # s"
  by (simp add: skip_ws_def json_start_def)

definition reads_back :: "json \<Rightarrow> bool" where
  "reads_back j \<longleftrightarrow> (\<forall>n r. length (dumps j) < n \<longrightarrow> json_end r \<longrightarrow> read_value n (dumps j @ r) = Inr (j, r))"

lemma reads_backD:
  "reads_back j \<Longrightarrow> length (dumps j) < n \<Longrightarrow> json_end r \<Longrightarrow> read_value n (dumps j @ r) = Inr (j, r)"
  by (simp add: reads_back_def)

lemma delimiter_simps:
  "json_end (CHR '','' # r)" "json_end (CHR '']'' # r)" "json_end (CHR ''}'' # r)"
  "skip_ws (CHR '','' # r) = CHR '','' # r" "skip_ws (CHR '']'' # r) = CHR '']'' # r"
  "skip_ws (CHR ''}'' # r) = CHR ''}'' # r" "skip_ws (CHR '':'' # r) = CHR '':'' # r"
  "skip_ws (quote_char # r) = quote_char # r"
  by (simp_all add: json_end_def skip_ws_def json_space_def Let_def)

lemma read_items_dumps:
  assumes "\<forall>j \<in> set js. reads_back j" and "js \<noteq> []"
    and "length (join '','' (map dumps js)) + 1 < n"
  shows "read_items n (join '','' (map dumps js) @ CHR '']'' # r) = Inr (js, r)"
  using assms
proof (induction js arbitrary: n)
  case Nil
  then show ?case by simp
next
  case (Cons j js)
  obtain m where n: "n = Suc m" using Cons.prems(3) by (cases n) auto
  have rj: "reads_back j" using Cons.prems(1) by simp
  show ?case
  proof (cases "js = []")
    case True
    have "read_value m (dumps j @ CHR '']'' # r) = Inr (j, CHR '']'' # r)"
      by (rule reads_backD [OF rj]) (use Cons.prems(3) True n in \<open>simp_all add: delimiter_simps\<close>)
    then show ?thesis by (simp add: n True delimiter_simps)
  next
    case False
    let ?rest = "join '','' (map dumps js) @ CHR '']'' # r"
    have tx: "join '','' (map dumps (j # js)) = dumps j @ '','' @ join '','' (map dumps js)"
      using False by (simp add: join_Cons)
    have "read_value m (dumps j @ CHR '','' # ?rest) = Inr (j, CHR '','' # ?rest)"
      by (rule reads_backD [OF rj])
        (use Cons.prems(3) tx n in \<open>simp_all add: delimiter_simps\<close>)
    moreover have "read_items m ?rest = Inr (js, r)"
      by (rule Cons.IH) (use Cons.prems False tx n in simp_all)
    ultimately show ?thesis by (simp add: n join_Cons False delimiter_simps)
  qed
qed

definition member_text :: "string \<times> json \<Rightarrow> string" where
  "member_text kv = json_string (fst kv) @ '':'' @ dumps (snd kv)"

lemma read_member_head:
  assumes "reads_back j" and "length (member_text (k, j)) < n"
    and "json_end (c # r)" and "skip_ws (c # r) = c # r"
  shows "r_bind (expect quote_char (member_text (k, j) @ c # r)) (\<lambda>r. r_bind (read_string r)
    (\<lambda>(k, r). r_bind (expect (CHR '':'') r) (\<lambda>r. r_bind (read_value n r) (\<lambda>(j, r). f k j r)))) =
    f k j (c # r)"
proof -
  have "expect quote_char (member_text (k, j) @ c # r) =
      Inr (tl (json_string k) @ CHR '':'' # dumps j @ c # r)"
    using read_string_json_string(1) [of k]
    by (simp add: expect_def member_text_def json_string_def delimiter_simps)
  moreover have "read_value n (dumps j @ c # r) = Inr (j, c # r)"
    by (rule reads_backD) (use assms in \<open>simp_all add: member_text_def\<close>)
  ultimately show ?thesis
    by (simp add: read_string_json_string(2) expect_def delimiter_simps)
qed

lemma read_members_dumps:
  assumes "\<forall>kv \<in> set kvs. reads_back (snd kv)" and "kvs \<noteq> []"
    and "length (join '','' (map member_text kvs)) + 1 < n"
  shows "read_members n (join '','' (map member_text kvs) @ CHR ''}'' # r) = Inr (kvs, r)"
  using assms
proof (induction kvs arbitrary: n)
  case Nil
  then show ?case by simp
next
  case (Cons kv kvs)
  obtain m where n: "n = Suc m" using Cons.prems(3) by (cases n) auto
  obtain k j where kv: "kv = (k, j)" by (cases kv)
  have rj: "reads_back j" using Cons.prems(1) kv by simp
  show ?case
  proof (cases "kvs = []")
    case True
    have "length (member_text (k, j)) < m" using Cons.prems(3) True n kv by simp
    note head = read_member_head [OF rj this, of "CHR ''}''" r]
    show ?thesis by (simp add: n True kv delimiter_simps head)
  next
    case False
    let ?rest = "join '','' (map member_text kvs) @ CHR ''}'' # r"
    have tx: "join '','' (map member_text (kv # kvs)) =
        member_text (k, j) @ '','' @ join '','' (map member_text kvs)"
      using False by (simp add: join_Cons kv)
    have "length (member_text (k, j)) < m" using Cons.prems(3) n tx by simp
    note head = read_member_head [OF rj this, of "CHR '',''" ?rest]
    have "read_members m ?rest = Inr (kvs, r)"
      by (rule Cons.IH) (use Cons.prems False tx n in simp_all)
    then show ?thesis using False by (simp add: n kv join_Cons delimiter_simps head)
  qed
qed

lemma hd_join:
  "xs \<noteq> [] \<Longrightarrow> hd xs = c # s \<Longrightarrow> \<exists>t. join sep xs = c # t"
  by (cases xs; cases "tl xs") auto

lemma reads_back_all: "reads_back j"
proof (induction j)
  case (JArray js)
  show ?case unfolding reads_back_def
  proof (intro allI impI)
    fix n r assume n: "length (dumps (JArray js)) < n"
    then obtain m where m: "n = Suc m" by (cases n) auto
    show "read_value n (dumps (JArray js) @ r) = Inr (JArray js, r)"
    proof (cases "js = []")
      case True
      then show ?thesis by (simp add: m skip_ws_def json_space_def Let_def)
    next
      case False
      then obtain c s where "dumps (hd js) = c # s" "json_start c" using dumps_start by blast
      then obtain t where t: "join '','' (map dumps js) = c # t" "json_start c"
        using hd_join [of "map dumps js" c s "'',''"] False by (auto simp: hd_map)
      have "read_items m (join '','' (map dumps js) @ CHR '']'' # r) = Inr (js, r)"
        by (rule read_items_dumps) (use JArray False n m in simp_all)
      then show ?thesis
        using t by (simp add: m skip_ws_def json_space_def json_start_def Let_def)
    qed
  qed
next
  case (JObject kvs)
  have tx: "map (\<lambda>(k, v). json_string k @ '':'' @ v) (map (map_prod id dumps) kvs) =
      map member_text kvs"
    by (simp add: member_text_def case_prod_unfold)
  show ?case unfolding reads_back_def
  proof (intro allI impI)
    fix n r assume n: "length (dumps (JObject kvs)) < n"
    then obtain m where m: "n = Suc m" by (cases n) auto
    show "read_value n (dumps (JObject kvs) @ r) = Inr (JObject kvs, r)"
    proof (cases "kvs = []")
      case True
      then show ?thesis by (simp add: m skip_ws_def json_space_def Let_def)
    next
      case False
      obtain s where "member_text (hd kvs) = quote_char # s"
        by (auto simp: member_text_def json_string_def)
      then obtain t where t: "join '','' (map member_text kvs) = quote_char # t"
        using hd_join [of "map member_text kvs" quote_char s "'',''"] False by (auto simp: hd_map)
      have len: "length (join '','' (map member_text kvs)) + 1 < m"
        using n unfolding dumps.simps tx m by simp
      have rb: "\<forall>kv \<in> set kvs. reads_back (snd kv)" using JObject by (auto simp: snds.simps)
      have "read_members m (join '','' (map member_text kvs) @ CHR ''}'' # r) = Inr (kvs, r)"
        by (rule read_members_dumps) (use rb False len in simp_all)
      then show ?thesis
        unfolding dumps.simps tx m using t by (simp add: skip_ws_def json_space_def Let_def)
    qed
  qed
next
  case (JInt i)
  show ?case unfolding reads_back_def
  proof (intro allI impI)
    fix n r assume n: "length (dumps (JInt i)) < n" and r: "json_end r"
    then obtain m where m: "n = Suc m" by (cases n) auto
    obtain c s where c: "int_text i = c # s" "is_digit c \<or> c = CHR ''-''"
      using int_text_start by blast
    then have "c \<notin> {quote_char, CHR ''['', CHR ''{'', CHR ''n'', CHR ''t'', CHR ''f''}"
      by (auto simp: is_digit_def Let_def)
    moreover have "skip_ws (int_text i @ r) = int_text i @ r" using skip_ws_dumps [of "JInt i" r] by simp
    moreover have "read_word (int_text i @ r) = read_int (int_text i @ r)"
      using calculation(1) c by (auto simp: read_word_def)
    ultimately show "read_value n (dumps (JInt i) @ r) = Inr (JInt i, r)"
      using read_int_text [OF r, of i] c by (simp add: m)
  qed
next
  case (JString s)
  show ?case unfolding reads_back_def
  proof (intro allI impI)
    fix n r assume "length (dumps (JString s)) < n"
    then obtain m where m: "n = Suc m" by (cases n) auto
    have *: "dumps (JString s) @ r = quote_char # (tl (json_string s) @ r)"
      using read_string_json_string(1) [of s] by (metis append_Cons dumps.simps(4))
    show "read_value n (dumps (JString s) @ r) = Inr (JString s, r)"
      unfolding * by (simp add: m delimiter_simps read_string_json_string(2))
  qed
next
  case JNull
  show ?case unfolding reads_back_def
    by (auto simp: skip_ws_def json_space_def Let_def read_word_def elim!: less_natE)
next
  case (JBool b)
  show ?case unfolding reads_back_def
    by (auto simp: skip_ws_def json_space_def Let_def read_word_def elim!: less_natE)
qed

lemma dedupe_distinct:
  "distinct (map fst kvs) \<Longrightarrow> set (map fst kvs) \<inter> set (map fst acc) = {} \<Longrightarrow>
     fold (\<lambda>(k, v). AList.update k v) kvs acc = acc @ kvs"
proof (induction kvs arbitrary: acc)
  case (Cons kv kvs)
  obtain k v where kv: "kv = (k, v)" by (cases kv)
  have "AList.update k v acc = acc @ [(k, v)]"
    using Cons.prems(2) kv by (induction acc) auto
  then show ?case using Cons kv by auto
qed simp

lemma dedupe_wf: "wf_json j \<Longrightarrow> dedupe_keys j = j"
proof (induction j)
  case (JArray js)
  then show ?case by (simp add: list_all_iff map_idI)
next
  case (JObject kvs)
  have *: "map (map_prod id dedupe_keys) kvs = kvs"
  proof (rule map_idI)
    fix kv assume kv: "kv \<in> set kvs"
    then have "wf_json (snd kv)" using JObject.prems by (auto simp: list_all_iff)
    then have "dedupe_keys (snd kv) = snd kv" using JObject.IH kv by (auto simp: snds.simps)
    then show "map_prod id dedupe_keys kv = kv" by (cases kv) simp
  qed
  then show ?case using JObject.prems dedupe_distinct [of kvs "[]"] by simp
qed simp_all

lemma loads_dumps: "wf_json j \<Longrightarrow> loads (dumps j) = Inr j"
  using reads_backD [OF reads_back_all, of j "Suc (length (dumps j))" "[]"]
  by (simp add: loads_def json_end_def skip_ws_def dedupe_wf)

lemma dumps_inj: "dumps j = dumps k \<longleftrightarrow> j = k"
proof
  have "read_value (Suc (length (dumps j))) (dumps j @ []) = Inr (j, [])" for j
    by (rule reads_backD [OF reads_back_all]) (simp_all add: json_end_def)
  then show "dumps j = dumps k \<Longrightarrow> j = k" by (metis Pair_inject sum.inject(2))
qed simp

end
