(* ===== verification/Sha256.thy ===== *)
theory Sha256
  imports Py_Text "HOL-Library.Word"
begin

text \<open>
  \<open>hashlib.sha256(text.encode("utf-8")).hexdigest()\<close> on ASCII text, which is what the code
  hashes (the JSON it hashes is written with ASCII escapes). Arithmetic is on 32-bit words. The
  correctness lemmas of the development use the function only through the fact that it is a
  function of the text; its value is fixed here so that the identifiers are the ones of the
  program.
\<close>

unbundle bit_operations_syntax

type_synonym u32 = "32 word"

definition rotr :: "nat \<Rightarrow> u32 \<Rightarrow> u32" where
  "rotr n x = (drop_bit n x) OR (push_bit (32 - n) x)"

definition sha_k :: "u32 list" where
  "sha_k =
    [1116352408, 1899447441, 3049323471, 3921009573, 961987163, 1508970993, 2453635748,
     2870763221, 3624381080, 310598401, 607225278, 1426881987, 1925078388, 2162078206,
     2614888103, 3248222580, 3835390401, 4022224774, 264347078, 604807628, 770255983,
     1249150122, 1555081692, 1996064986, 2554220882, 2821834349, 2952996808, 3210313671,
     3336571891, 3584528711, 113926993, 338241895, 666307205, 773529912, 1294757372,
     1396182291, 1695183700, 1986661051, 2177026350, 2456956037, 2730485921, 2820302411,
     3259730800, 3345764771, 3516065817, 3600352804, 4094571909, 275423344, 430227734,
     506948616, 659060556, 883997877, 958139571, 1322822218, 1537002063, 1747873779,
     1955562222, 2024104815, 2227730452, 2361852424, 2428436474, 2756734187, 3204031479,
     3329325298]"

definition sha_init :: "u32 list" where
  "sha_init =
    [1779033703, 3144134277, 1013904242, 2773480762, 1359893119, 2600822924, 528734635,
     1541459225]"

definition sha_pad :: "nat list \<Rightarrow> nat list" where
  "sha_pad bs =
     (let n = length bs; z = (119 - n mod 64) mod 64; bits = 8 * int n in
      bs @ [128] @ replicate z 0 @ map (\<lambda>i. nat (bits div 256 ^ (7 - i) mod 256)) [0 ..< 8])"

fun be_words :: "nat list \<Rightarrow> u32 list" where
  "be_words (a # b # c # d # r) = word_of_int (int a * 16777216 + int b * 65536 + int c * 256 + int d) # be_words r"
| "be_words _ = []"

fun blocks :: "nat \<Rightarrow> u32 list \<Rightarrow> u32 list list" where
  "blocks 0 ws = []"
| "blocks (Suc n) ws = take 16 ws # blocks n (drop 16 ws)"

definition schedule_step :: "u32 list \<Rightarrow> u32 list" where
  "schedule_step w =
     (let n = length w; w15 = w ! (n - 15); w2 = w ! (n - 2);
          s0 = rotr 7 w15 XOR rotr 18 w15 XOR drop_bit 3 w15;
          s1 = rotr 17 w2 XOR rotr 19 w2 XOR drop_bit 10 w2
      in w @ [w ! (n - 16) + s0 + w ! (n - 7) + s1])"

definition schedule :: "u32 list \<Rightarrow> u32 list" where
  "schedule b = (schedule_step ^^ 48) b"

fun sha_round :: "u32 list \<Rightarrow> u32 \<times> u32 \<Rightarrow> u32 list" where
  "sha_round [a, b, c, d, e, f, g, h] (k, w) =
     (let s1 = rotr 6 e XOR rotr 11 e XOR rotr 25 e;
          ch = (e AND f) XOR (NOT e AND g);
          t1 = h + s1 + ch + k + w;
          s0 = rotr 2 a XOR rotr 13 a XOR rotr 22 a;
          maj = (a AND b) XOR (a AND c) XOR (b AND c);
          t2 = s0 + maj
      in [t1 + t2, a, b, c, d + t1, e, f, g])"
| "sha_round s _ = s"

definition sha_block :: "u32 list \<Rightarrow> u32 list \<Rightarrow> u32 list" where
  "sha_block h b = map2 (+) h (foldl sha_round h (zip sha_k (schedule b)))"

definition hex8 :: "u32 \<Rightarrow> string" where
  "hex8 w = map (\<lambda>i. hex_char (nat (uint (drop_bit (28 - 4 * i) w) mod 16))) [0 ..< 8]"

definition sha256_hex :: "string \<Rightarrow> string" where
  "sha256_hex s =
     (let padded = sha_pad (map of_char s) in
      concat (map hex8 (foldl sha_block sha_init (blocks (length padded div 64) (be_words padded)))))"

section \<open>The shape of a digest\<close>

lemma sha_round_length: "length (sha_round s p) = length s"
  by (induction s p rule: sha_round.induct) (auto simp: Let_def)

lemma sha_rounds_length: "length (foldl sha_round h ps) = length h"
  by (induction ps arbitrary: h) (simp_all add: sha_round_length)

lemma sha_blocks_length: "length (foldl sha_block h bs) = length h"
  by (induction bs arbitrary: h) (simp_all add: sha_block_def sha_rounds_length)

lemma concat_same_length: "(\<And>x. x \<in> set xs \<Longrightarrow> length (f x) = n) \<Longrightarrow> length (concat (map f xs)) = n * length xs"
  by (induction xs) simp_all

lemma sha256_hex_length: "length (sha256_hex s) = 64"
proof -
  have "length (sha256_hex s) = 8 * length (foldl sha_block sha_init
      (blocks (length (sha_pad (map of_char s)) div 64) (be_words (sha_pad (map of_char s)))))"
    unfolding sha256_hex_def Let_def by (rule concat_same_length) (simp add: hex8_def)
  then show ?thesis by (simp add: sha_blocks_length sha_init_def)
qed

lemma sha256_hex_chars:
  assumes "c \<in> set (sha256_hex s)"
  shows "\<exists>i < 16. c = hex_char i"
proof -
  obtain w i where "c = hex_char (nat (uint (drop_bit (28 - 4 * i) (w :: u32)) mod 16))"
    using assms by (auto simp: sha256_hex_def hex8_def Let_def)
  moreover have "nat (uint (drop_bit (28 - 4 * i) w) mod 16) < 16" by (simp add: nat_less_iff)
  ultimately show ?thesis by blast
qed

end
