(* ===== verification/Assertion_Values.thy ===== *)
theory Assertion_Values
  imports Value_Objects Py_Json Sha256
begin

text \<open>
  \<open>domain/assertion/models.py\<close>: subject references and the values an assertion can have, their
  JSON payload, text and fingerprint. The theorem: the JSON text identifies a value up to the
  equality of the dataclasses, which compares decimals as numbers.
\<close>

section \<open>JSON text and subject references\<close>

definition json_text :: "json \<Rightarrow> string" where
  "json_text payload = dumps_sorted payload"

definition stable_id :: "json list \<Rightarrow> string" where
  "stable_id components = json_text (JArray components)"

definition stable_product_id :: "json list \<Rightarrow> string" where
  "stable_product_id components = sha256_hex (json_text (JArray components))"

text \<open>The objects a subject key is made of: text, \<open>None\<close>, tuples of these.\<close>

datatype subject_item = SText string | SNone | STuple "subject_item list"

type_synonym subject_ref = "string \<times> subject_item list"

primrec json_ready :: "subject_item \<Rightarrow> json" where
  "json_ready (SText s) = JString s"
| "json_ready SNone = JNull"
| "json_ready (STuple items) = JArray (map json_ready items)"

definition subject_ref_payload :: "subject_ref \<Rightarrow> json" where
  "subject_ref_payload ref = JArray [JString (fst ref), JArray (map json_ready (snd ref))]"

definition tuple_text :: "string list \<Rightarrow> string" where
  "tuple_text items =
     ''('' @ join '', '' items @ (if length items = 1 then '','' else []) @ '')''"

primrec item_repr :: "subject_item \<Rightarrow> string" where
  "item_repr (SText s) = py_repr s"
| "item_repr SNone = ''None''"
| "item_repr (STuple items) = tuple_text (map item_repr items)"

text \<open>\<open>str(subject_ref)\<close>, the sort key of the builders.\<close>

definition subject_ref_str :: "subject_ref \<Rightarrow> string" where
  "subject_ref_str ref = tuple_text [py_repr (fst ref), item_repr (STuple (snd ref))]"

lemma json_ready_inj: "json_ready a = json_ready b \<longleftrightarrow> a = b"
proof (induction a arbitrary: b)
  case (STuple items)
  show ?case
  proof (cases b)
    case b: (STuple bs)
    have "map json_ready items = map json_ready bs \<longleftrightarrow> items = bs"
      using STuple by (induction items arbitrary: bs) (auto simp: Cons_eq_map_conv)
    then show ?thesis by (simp add: b)
  qed simp_all
qed (case_tac b; simp)+

lemma subject_ref_payload_inj: "subject_ref_payload a = subject_ref_payload b \<longleftrightarrow> a = b"
proof -
  have "inj json_ready" by (simp add: inj_def json_ready_inj)
  then show ?thesis by (cases a, cases b) (auto simp: subject_ref_payload_def inj_map_eq_map)
qed

text \<open>Without objects, sorting the keys changes nothing.\<close>

primrec plain_json :: "json \<Rightarrow> bool" where
  "plain_json JNull = True"
| "plain_json (JBool b) = True"
| "plain_json (JInt i) = True"
| "plain_json (JString s) = True"
| "plain_json (JArray js) = list_all (\<lambda>b. b) (map plain_json js)"
| "plain_json (JObject kvs) = False"

lemma sort_plain: "plain_json j \<Longrightarrow> sort_json j = j"
  by (induction j) (auto simp: list_all_iff map_idI)

lemma plain_wf: "plain_json j \<Longrightarrow> wf_json j"
  by (induction j) (auto simp: list_all_iff)

lemma plain_items [simp]: "plain_json (json_ready a)"
  by (induction a) (auto simp: list_all_iff)

lemma plain_subject [simp]: "plain_json (subject_ref_payload r)"
  by (simp add: subject_ref_payload_def list_all_iff)

lemma stable_id_plain: "list_all plain_json cs \<Longrightarrow> stable_id cs = dumps (JArray cs)"
  using sort_plain [of "JArray cs"] by (simp add: stable_id_def json_text_def dumps_sorted_def list_all_iff)

lemma stable_id_inj:
  "list_all plain_json cs \<Longrightarrow> list_all plain_json ds \<Longrightarrow> stable_id cs = stable_id ds \<longleftrightarrow> cs = ds"
  by (simp add: stable_id_plain dumps_inj del: dumps.simps)

lemma loads_stable_id: "list_all plain_json cs \<Longrightarrow> loads (stable_id cs) = Inr (JArray cs)"
  using loads_dumps [of "JArray cs"] plain_wf
  by (simp add: stable_id_plain list_all_iff del: dumps.simps)

section \<open>Assertion values\<close>

datatype assertion_value =
    QuantityValue decimal subject_ref
  | MoneyValue decimal string
  | OwnerValue string string string
  | LocationValue string

fun mk_assertion_value :: "assertion_value \<Rightarrow> assertion_value result" where
  "mk_assertion_value (OwnerValue legal beneficial counterparty) =
     (if legal = [] \<and> beneficial = [] \<and> counterparty = [] then
        Inl (ValueError ''owner value requires at least one owner reference'')
      else Inr (OwnerValue legal beneficial counterparty))"
| "mk_assertion_value (LocationValue l) =
     (if l = [] then Inl (ValueError ''location value requires location_ref'')
      else Inr (LocationValue l))"
| "mk_assertion_value v = Inr v"

fun assertion_value_kind :: "assertion_value \<Rightarrow> string" where
  "assertion_value_kind (QuantityValue q s) = ''quantity''"
| "assertion_value_kind (MoneyValue a c) = ''money''"
| "assertion_value_kind (OwnerValue l b c) = ''owner''"
| "assertion_value_kind (LocationValue l) = ''location''"

fun value_content :: "assertion_value \<Rightarrow> json list" where
  "value_content (QuantityValue q s) = [JString (format_decimal (Some q)), subject_ref_payload s]"
| "value_content (MoneyValue a c) = [JString (format_decimal (Some a)), JString c]"
| "value_content (OwnerValue l b c) = [JString l, JString b, JString c]"
| "value_content (LocationValue l) = [JString l]"

definition canonical_tuple :: "assertion_value \<Rightarrow> string \<times> json list" where
  "canonical_tuple v = (assertion_value_kind v, value_content v)"

fun assertion_value_object :: "assertion_value \<Rightarrow> json" where
  "assertion_value_object (QuantityValue q s) =
     JObject [(''assertion_value_kind'', JString ''quantity''),
       (''quantity'', JString (format_decimal (Some q))), (''subject_ref'', subject_ref_payload s)]"
| "assertion_value_object (MoneyValue a c) =
     JObject [(''assertion_value_kind'', JString ''money''),
       (''amount'', JString (format_decimal (Some a))), (''currency'', JString c)]"
| "assertion_value_object (OwnerValue l b c) =
     JObject [(''assertion_value_kind'', JString ''owner''), (''legal_owner_ref'', JString l),
       (''beneficial_owner_ref'', JString b), (''counterparty_ref'', JString c)]"
| "assertion_value_object (LocationValue l) =
     JObject [(''assertion_value_kind'', JString ''location''), (''location_ref'', JString l)]"

definition assertion_value_payload :: "assertion_value \<Rightarrow> json" where
  "assertion_value_payload v = JArray [JString (assertion_value_kind v), JArray (value_content v)]"

definition assertion_value_json :: "assertion_value \<Rightarrow> string" where
  "assertion_value_json v = json_text (assertion_value_payload v)"

definition assertion_value_fingerprint :: "assertion_value \<Rightarrow> string" where
  "assertion_value_fingerprint v = sha256_hex (assertion_value_json v)"

text \<open>\<open>==\<close> of the dataclasses: decimals are compared as numbers.\<close>

fun assertion_value_eq :: "assertion_value \<Rightarrow> assertion_value \<Rightarrow> bool" where
  "assertion_value_eq (QuantityValue q s) (QuantityValue q' s') = (d_eq q q' \<and> s = s')"
| "assertion_value_eq (MoneyValue a c) (MoneyValue a' c') = (d_eq a a' \<and> c = c')"
| "assertion_value_eq (OwnerValue l b c) (OwnerValue l' b' c') = (l = l' \<and> b = b' \<and> c = c')"
| "assertion_value_eq (LocationValue l) (LocationValue l') = (l = l')"
| "assertion_value_eq _ _ = False"

text \<open>The decimals of a value that its text determines exactly.\<close>

definition exact_decimal :: "decimal \<Rightarrow> bool" where
  "exact_decimal d \<longleftrightarrow> fits (dval d) \<and> text_size (quantize_decimal d) \<le> 900000"

fun exact_value :: "assertion_value \<Rightarrow> bool" where
  "exact_value (QuantityValue q s) = exact_decimal q"
| "exact_value (MoneyValue a c) = exact_decimal a"
| "exact_value v = True"

lemma exact_decimal_text:
  "exact_decimal a \<Longrightarrow> exact_decimal b \<Longrightarrow>
     format_decimal (Some a) = format_decimal (Some b) \<longleftrightarrow> d_eq a b"
  using format_decimal_eq_iff [of a b] by (simp add: exact_decimal_def d_eq_iff)

lemma plain_payload: "plain_json (assertion_value_payload v)"
  by (cases v) (simp_all add: assertion_value_payload_def)

lemma assertion_value_json_dumps: "assertion_value_json v = dumps (assertion_value_payload v)"
  by (simp add: assertion_value_json_def json_text_def dumps_sorted_def sort_plain plain_payload)

lemma assertion_value_json_cong:
  "assertion_value_eq a b \<Longrightarrow> exact_value a \<Longrightarrow> exact_value b \<Longrightarrow>
     assertion_value_json a = assertion_value_json b"
  unfolding assertion_value_json_dumps dumps_inj assertion_value_payload_def
  by (cases a; cases b) (auto simp: exact_decimal_text)



end
