(* ===== verification/Balance_Merge.thy ===== *)
theory Balance_Merge
  imports Balance_Assertions Assertion_Values
begin

text \<open>
  \<open>application/balances/merge.py\<close>: the semantic keys of balance rows and records, merging of
  submitted records into existing ones, and the deduplication and conflict report of the CSV
  assembly. The contract of a merge (the last record of a key wins, the result is ordered by the
  key) is the locale \<open>keyed_merge\<close>, interpreted for snapshots and for references. Files are a
  parameter: \<open>read_rows\<close> gives the rows of a file of a root, \<open>None\<close> when there is no such file.
\<close>

section \<open>The contract of a merge\<close>

text \<open>
  \<open>{key(item): item for item in (*existing, *submitted)}\<close> in the order of the sorted keys.
\<close>

definition merge_by_key :: "('a \<Rightarrow> 'k::linorder result) \<Rightarrow> 'a list \<Rightarrow> 'a list \<Rightarrow> 'a list result" where
  "merge_by_key key existing submitted =
     r_bind (r_map (keyed key) (existing @ submitted)) (\<lambda>items.
       Inr (map (\<lambda>p. snd (snd p)) (sort_key fst (index_by fst items))))"

definition last_with :: "('a \<Rightarrow> 'k result) \<Rightarrow> 'k \<Rightarrow> 'a list \<Rightarrow> 'a" where
  "last_with key k xs = last (filter (\<lambda>x. key x = Inr k) xs)"

lemma list_from_keys:
  assumes "map key zs = map Inr ks" and "\<And>z k. z \<in> set zs \<Longrightarrow> key z = Inr k \<Longrightarrow> z = g k"
  shows "zs = map g ks"
proof (rule nth_equalityI)
  show len: "length zs = length (map g ks)" using assms(1) by (metis length_map)
  fix i assume i: "i < length zs"
  then have "key (zs ! i) = Inr (ks ! i)" using assms(1) len by (metis length_map nth_map)
  from assms(2) [OF nth_mem [OF i] this] show "zs ! i = map g ks ! i" using i len by simp
qed

locale keyed_merge =
  fixes key :: "'a \<Rightarrow> 'k::linorder result"
    and merge :: "'a list \<Rightarrow> 'a list \<Rightarrow> 'a list result"
  assumes merge_ok: "is_ok (merge xs ys) \<longleftrightarrow> (\<forall>x \<in> set (xs @ ys). is_ok (key x))"
    and merge_keys: "merge xs ys = Inr zs \<Longrightarrow>
      \<exists>ks. map key zs = map Inr ks \<and> sorted_wrt (<) ks \<and> Inr ` set ks = key ` set (xs @ ys)"
    and merge_last: "merge xs ys = Inr zs \<Longrightarrow> z \<in> set zs \<Longrightarrow> key z = Inr k \<Longrightarrow>
      z = last_with key k (xs @ ys)"
begin

lemma key_in_result:
  assumes "merge xs ys = Inr zs" and "x \<in> set (xs @ ys)"
  shows "\<exists>k. key x = Inr k \<and> last_with key k (xs @ ys) \<in> set zs"
proof -
  obtain ks where ks: "map key zs = map Inr ks" "Inr ` set ks = key ` set (xs @ ys)"
    using merge_keys [OF assms(1)] by blast
  then obtain k where k: "key x = Inr k" "k \<in> set ks" using assms(2) by (metis imageE imageI)
  then have "Inr k \<in> key ` set zs" by (metis ks(1) image_eqI list.set_map)
  then obtain z where z: "z \<in> set zs" "key z = Inr k" by auto
  with merge_last [OF assms(1) z] k(1) show ?thesis by metis
qed

lemma keys_determine_result:
  assumes "merge xs ys = Inr zs" and "merge xs' ys' = Inr zs'"
    and "key ` set (xs @ ys) = key ` set (xs' @ ys')"
    and "\<And>k. Inr k \<in> key ` set (xs @ ys) \<Longrightarrow> last_with key k (xs @ ys) = last_with key k (xs' @ ys')"
  shows "zs = zs'"
proof -
  obtain ks where ks: "map key zs = map Inr ks" "sorted_wrt (<) ks" "Inr ` set ks = key ` set (xs @ ys)"
    using merge_keys [OF assms(1)] by blast
  obtain ks' where ks': "map key zs' = map Inr ks'" "sorted_wrt (<) ks'"
      "Inr ` set ks' = key ` set (xs' @ ys')"
    using merge_keys [OF assms(2)] by blast
  have "(Inr ` set ks :: 'k result set) = Inr ` set ks'" using ks(3) ks'(3) assms(3) by metis
  then have "set ks = set ks'" by (simp add: inj_image_eq_iff)
  then have same: "ks = ks'"
    using ks(2) ks'(2) strict_sorted_equal by blast
  have out: "zs = map (\<lambda>k. last_with key k (xs @ ys)) ks"
    by (rule list_from_keys [OF ks(1)]) (rule merge_last [OF assms(1)])
  have out': "zs' = map (\<lambda>k. last_with key k (xs' @ ys')) ks'"
    by (rule list_from_keys [OF ks'(1)]) (rule merge_last [OF assms(2)])
  have "last_with key k (xs @ ys) = last_with key k (xs' @ ys')" if "k \<in> set ks'" for k
  proof (rule assms(4))
    show "Inr k \<in> key ` set (xs @ ys)" using that ks(3) same by (metis imageI)
  qed
  then show ?thesis unfolding out out' same by (rule map_cong [OF refl])
qed

lemma last_with_mem:
  assumes "Inr k \<in> key ` set xs"
  shows "last_with key k xs \<in> set xs \<and> key (last_with key k xs) = Inr k"
proof -
  have "filter (\<lambda>x. key x = Inr k) xs \<noteq> []" using assms by (force simp: filter_empty_conv)
  from last_in_set [OF this] show ?thesis by (simp add: last_with_def)
qed

lemma last_with_append:
  "last_with key k (xs @ ys) = (if Inr k \<in> key ` set ys then last_with key k ys else last_with key k xs)"
proof (cases "Inr k \<in> key ` set ys")
  case True
  then have "filter (\<lambda>x. key x = Inr k) ys \<noteq> []" by (auto simp: filter_empty_conv)
  then show ?thesis using True by (simp add: last_with_def)
next
  case False
  then have none: "filter (\<lambda>x. key x = Inr k) ys = []" by (force simp: filter_empty_conv)
  show ?thesis unfolding last_with_def filter_append none using False by simp
qed

text \<open>Submitting the same records again changes nothing.\<close>

lemma merge_again:
  assumes "merge xs ys = Inr zs"
  shows "merge zs ys = Inr zs"
proof -
  obtain ks where ks: "map key zs = map Inr ks" "sorted_wrt (<) ks" "Inr ` set ks = key ` set (xs @ ys)"
    using merge_keys [OF assms] by blast
  have keys: "key ` set zs = key ` set (xs @ ys)" using ks(1,3) by (metis list.set_map)
  have "\<forall>x \<in> set (zs @ ys). is_ok (key x)"
  proof
    fix x assume "x \<in> set (zs @ ys)"
    then have "key x \<in> key ` set (xs @ ys)" using keys by auto
    then show "is_ok (key x)" using ks(3) by (metis (no_types) imageE is_ok_simps(1))
  qed
  then obtain ws where ws: "merge zs ys = Inr ws" using merge_ok by (metis is_ok_iff)
  have "zs = ws"
  proof (rule keys_determine_result [OF assms ws])
    show "key ` set (xs @ ys) = key ` set (zs @ ys)" using keys by auto
    fix k assume k: "Inr k \<in> key ` set (xs @ ys)"
    show "last_with key k (xs @ ys) = last_with key k (zs @ ys)"
    proof (cases "Inr k \<in> key ` set ys")
      case True
      then show ?thesis by (simp add: last_with_append)
    next
      case False
      then have "Inr k \<in> key ` set zs" using keys k by simp
      then have z: "last_with key k zs \<in> set zs" "key (last_with key k zs) = Inr k"
        using last_with_mem by blast+
      have "last_with key k zs = last_with key k (xs @ ys)" by (rule merge_last [OF assms z])
      then show ?thesis unfolding last_with_append [of k zs ys] using False by simp
    qed
  qed
  with ws show ?thesis by simp
qed

end

section \<open>The merge of the code meets the contract\<close>

lemma is_ok_bind_Inr: "is_ok (r_bind m (\<lambda>x. Inr (f x))) = is_ok m"
  by (cases m) simp_all

lemma is_ok_keyed: "is_ok (r_map (keyed key) us) \<longleftrightarrow> (\<forall>x \<in> set us. is_ok (key x))"
  by (induction us) (auto simp: is_ok_iff keyed_def r_bind_Inr_iff)

lemma keyed_items:
  assumes "r_map (keyed key) us = Inr qs"
  shows "(\<forall>p \<in> set qs. key (snd p) = Inr (fst p)) \<and> map snd qs = us"
proof
  show "\<forall>p \<in> set qs. key (snd p) = Inr (fst p)"
    using r_map_set [OF assms] by (fastforce simp: keyed_def result_simps)
  show "map snd qs = us"
    using assms by (induction us arbitrary: qs) (auto simp: keyed_def result_simps)
qed

lemma merge_by_key_run:
  assumes "merge_by_key key xs ys = Inr zs"
  obtains ps where "zs = map (\<lambda>p. snd (snd p)) (sort_key fst (index_by fst ps))"
    and "\<forall>p \<in> set ps. key (snd p) = Inr (fst p)" and "map snd ps = xs @ ys"
  using assms keyed_items that by (fastforce simp: merge_by_key_def result_simps)

lemma merge_by_key_keys:
  assumes "merge_by_key key xs ys = Inr zs"
  shows "\<exists>ks. map key zs = map Inr ks \<and> sorted_wrt (<) ks \<and> Inr ` set ks = key ` set (xs @ ys)"
proof -
  obtain ps where ps: "zs = map (\<lambda>p. snd (snd p)) (sort_key fst (index_by fst ps))"
      "\<forall>p \<in> set ps. key (snd p) = Inr (fst p)" "map snd ps = xs @ ys"
    using merge_by_key_run [OF assms] .
  let ?ks = "map fst (sort_key fst (index_by fst ps))"
  have "key (snd (snd p)) = Inr (fst p)" if "p \<in> set (index_by fst ps)" for p
    using index_by_entry(1,2) [OF that] ps(2) by auto
  then have "map key zs = map Inr ?ks" by (simp add: ps(1))
  moreover have "sorted_wrt (<) ?ks"
    using distinct_index_by [of fst ps] by (simp add: strict_sorted_iff distinct_map)
  moreover have "Inr ` set ?ks = key ` set (xs @ ys)"
  proof -
    have "set ?ks = fst ` set ps" using keys_index_by [of fst ps] by simp
    moreover have "Inr ` fst ` set ps = (\<lambda>p. key (snd p)) ` set ps" using ps(2) by force
    ultimately show ?thesis unfolding ps(3) [symmetric] by (simp add: image_image)
  qed
  ultimately show ?thesis by blast
qed

lemma merge_by_key_last:
  assumes "merge_by_key key xs ys = Inr zs" and "z \<in> set zs" and "key z = Inr k"
  shows "z = last_with key k (xs @ ys)"
proof -
  obtain ps where ps: "zs = map (\<lambda>p. snd (snd p)) (sort_key fst (index_by fst ps))"
      "\<forall>p \<in> set ps. key (snd p) = Inr (fst p)" "map snd ps = xs @ ys"
    using merge_by_key_run [OF assms(1)] .
  from assms(2) obtain p where p: "p \<in> set (index_by fst ps)" "z = snd (snd p)" by (auto simp: ps(1))
  note e = index_by_entry [OF p(1)]
  have k: "k = fst p" using ps(2) p(2) assms(3) e(1,2) by force
  have "filter (\<lambda>x. key x = Inr k) (map snd ps) = map snd (filter (\<lambda>q. fst q = k) ps)"
    using ps(2) by (induction ps) auto
  moreover have "filter (\<lambda>q. fst q = k) ps \<noteq> []"
    using e(1,2) k by (auto simp: filter_empty_conv)
  ultimately show ?thesis
    unfolding last_with_def ps(3) [symmetric] p(2) using e(3) k by (simp add: last_map)
qed

lemma merge_by_key_laws: "keyed_merge key (merge_by_key key)"
proof
  show "is_ok (merge_by_key key xs ys) \<longleftrightarrow> (\<forall>x \<in> set (xs @ ys). is_ok (key x))" for xs ys
    unfolding merge_by_key_def is_ok_bind_Inr is_ok_keyed ..
qed (rule merge_by_key_keys merge_by_key_last; assumption)+

section \<open>Semantic keys\<close>

definition row_text :: "row \<Rightarrow> string \<Rightarrow> string" where
  "row_text r k = strip (dict_get r k [])"

definition kind_or_available :: "string \<Rightarrow> string" where
  "kind_or_available k = (if k = [] then ''available'' else k)"

definition target_key_texts :: "balance_target \<Rightarrow> string list result" where
  "target_key_texts t =
     r_bind (format_temporal_value (bt_target_at t) (bt_target_precision t)
         ''balance target target_at'') (\<lambda>moment.
       Inr [strip (bt_source t), strip (bt_location_id t), strip (bt_instrument_id t),
         kind_or_available (strip (bt_balance_kind t)), moment,
         temporal_precision_text (bt_target_precision t)])"

definition snapshot_semantic_key :: "balance_snapshot \<Rightarrow> string list result" where
  "snapshot_semantic_key s = target_key_texts (bs_target s)"

definition snapshot_row_semantic_key :: "row \<Rightarrow> string list" where
  "snapshot_row_semantic_key r =
     [row_text r ''source'', row_text r ''location_id'', row_text r ''instrument_id'',
      kind_or_available (row_text r ''balance_kind''), row_text r ''target_at'',
      row_text r ''target_precision'']"

definition snapshot_conflict_key :: "balance_snapshot \<Rightarrow> string" where
  "snapshot_conflict_key s = format_decimal (Some (bs_quantity s))"

definition row_conflict_key :: "row \<Rightarrow> string" where
  "row_conflict_key r = row_text r ''quantity''"

definition reference_semantic_key :: "balance_reference \<Rightarrow> string list result" where
  "reference_semantic_key r =
     r_bind (target_key_texts (br_target r)) (\<lambda>target.
     r_bind (format_temporal_value (br_observed_at r) (br_observed_precision r)
         ''balance reference observed_at'') (\<lambda>observed.
     r_bind (format_optional_timestamp (br_reviewed_at r)) (\<lambda>reviewed.
       Inr (target @ [reference_kind_text (br_reference_kind r), observed,
         temporal_precision_text (br_observed_precision r), br_support_ref r, br_provider_family r,
         br_provider_locator r, br_provider_block_ref r, br_reviewed_by r, reviewed]))))"

definition reference_row_semantic_key :: "row \<Rightarrow> string list" where
  "reference_row_semantic_key r =
     snapshot_row_semantic_key r @
     [row_text r ''reference_kind'', row_text r ''observed_at'', row_text r ''observed_precision'',
      row_text r ''support_ref'', row_text r ''provider_family'', row_text r ''provider_locator'',
      row_text r ''provider_block_ref'', row_text r ''reviewed_by'', row_text r ''reviewed_at'']"

definition reference_conflict_key :: "balance_reference \<Rightarrow> string" where
  "reference_conflict_key r = format_decimal (Some (br_quantity r))"

section \<open>Merging records\<close>

definition merge_balance_snapshots ::
    "balance_snapshot list \<Rightarrow> balance_snapshot list \<Rightarrow> balance_snapshot list result" where
  "merge_balance_snapshots existing submitted = merge_by_key snapshot_semantic_key existing submitted"

definition merge_balance_references ::
    "balance_reference list \<Rightarrow> balance_reference list \<Rightarrow> balance_reference list result" where
  "merge_balance_references existing submitted = merge_by_key reference_semantic_key existing submitted"

interpretation snapshots: keyed_merge snapshot_semantic_key merge_balance_snapshots
  unfolding merge_balance_snapshots_def [abs_def] by (rule merge_by_key_laws)

interpretation references: keyed_merge reference_semantic_key merge_balance_references
  unfolding merge_balance_references_def [abs_def] by (rule merge_by_key_laws)

section \<open>Assembling CSV rows\<close>

definition BALANCE_SNAPSHOT_FILENAME :: string where
  "BALANCE_SNAPSHOT_FILENAME = ''balance_snapshots.csv''"

definition BALANCE_REFERENCE_FILENAME :: string where
  "BALANCE_REFERENCE_FILENAME = ''balance_references.csv''"

definition BALANCE_SNAPSHOT_HEADER :: "string list" where
  "BALANCE_SNAPSHOT_HEADER =
     [''source'', ''location_id'', ''instrument_id'', ''balance_kind'', ''target_at'',
      ''target_precision'', ''quantity'', ''snapshot_basis'', ''notes'']"

definition BALANCE_REFERENCE_HEADER :: "string list" where
  "BALANCE_REFERENCE_HEADER =
     [''source'', ''location_id'', ''instrument_id'', ''balance_kind'', ''target_at'',
      ''target_precision'', ''quantity'', ''reference_kind'', ''observed_at'',
      ''observed_precision'', ''support_ref'', ''provider_family'', ''provider_locator'',
      ''provider_block_ref'', ''reviewed_by'', ''reviewed_at'', ''notes'']"

record csv_merge_spec =
  cms_read_rows :: "string \<Rightarrow> string \<Rightarrow> row list option"
  cms_roots :: "string list"
  cms_source :: string
  cms_filename :: string
  cms_header :: "string list"
  cms_semantic_key :: "row \<Rightarrow> string list"
  cms_conflict_key :: "row \<Rightarrow> string"
  cms_conflict_message :: string

definition row_tuple :: "string list \<Rightarrow> row \<Rightarrow> string list" where
  "row_tuple header r = map (\<lambda>c. dict_get r c []) header"

definition dedupe_rows :: "string list \<Rightarrow> row list \<Rightarrow> row list" where
  "dedupe_rows header rows =
     map snd (index_first (row_tuple header) (sort_key (row_tuple header) rows))"

definition conflict_values :: "csv_merge_spec \<Rightarrow> row list \<Rightarrow> (string list, string list) dict" where
  "conflict_values spec rows =
     map (\<lambda>(k, rs). (k, remdups (map (cms_conflict_key spec) rs)))
       (group_by (cms_semantic_key spec) (filter (\<lambda>r. cms_semantic_key spec r \<noteq> []) rows))"

definition semantic_conflict_issue :: "csv_merge_spec \<Rightarrow> nat \<Rightarrow> string list \<Rightarrow> issue_record" where
  "semantic_conflict_issue spec index k =
     \<lparr>iss_issue_id = ''assembly:'' @ cms_source spec @ '':'' @ cms_filename spec @ '':'' @ nat_text index,
      iss_source = cms_source spec, iss_adapter_id = ''source_assembly'', iss_severity = ''high'',
      iss_kind = ''assembly_semantic_conflict'', iss_message = cms_conflict_message spec,
      iss_context_timestamp = [], iss_raw_file = cms_filename spec, iss_raw_provenance = None,
      iss_raw_row_ref = tuple_text (map py_repr k), iss_status = ''open''\<rparr>"

definition conflict_issues :: "csv_merge_spec \<Rightarrow> row list \<Rightarrow> issue_record list" where
  "conflict_issues spec rows =
     (let items = sort_key fst (conflict_values spec rows) in
      map (\<lambda>(index, k, values). semantic_conflict_issue spec index k)
        (filter (\<lambda>(index, k, values). 1 < length values) (zip [1 ..< Suc (length items)] items)))"

definition merge_balance_csv_rows ::
    "csv_merge_spec \<Rightarrow> row list \<times> issue_record list" where
  "merge_balance_csv_rows spec =
     (let rows = concat (List.map_filter (\<lambda>root. cms_read_rows spec root (cms_filename spec)) (cms_roots spec));
          merged = dedupe_rows (cms_header spec) rows
      in (merged, conflict_issues spec merged))"

definition merge_balance_snapshot_rows ::
    "(string \<Rightarrow> string \<Rightarrow> row list option) \<Rightarrow> string list \<Rightarrow> string \<Rightarrow> row list \<times> issue_record list" where
  "merge_balance_snapshot_rows read_rows roots source =
     merge_balance_csv_rows
       \<lparr>cms_read_rows = read_rows, cms_roots = roots, cms_source = source,
        cms_filename = BALANCE_SNAPSHOT_FILENAME,
        cms_header = BALANCE_SNAPSHOT_HEADER, cms_semantic_key = snapshot_row_semantic_key,
        cms_conflict_key = row_conflict_key,
        cms_conflict_message = ''Source assembly found conflicting balance snapshot rows for the same semantic key.''\<rparr>"

definition merge_balance_reference_rows ::
    "(string \<Rightarrow> string \<Rightarrow> row list option) \<Rightarrow> string list \<Rightarrow> string \<Rightarrow> row list \<times> issue_record list" where
  "merge_balance_reference_rows read_rows roots source =
     merge_balance_csv_rows
       \<lparr>cms_read_rows = read_rows, cms_roots = roots, cms_source = source,
        cms_filename = BALANCE_REFERENCE_FILENAME,
        cms_header = BALANCE_REFERENCE_HEADER, cms_semantic_key = reference_row_semantic_key,
        cms_conflict_key = row_conflict_key,
        cms_conflict_message = ''Source assembly found conflicting balance reference rows for the same semantic key.''\<rparr>"

section \<open>Merging records: properties\<close>

text \<open>
  C25: Submitted balances replace existing ones with the same semantic key: the merge has one
  record per key of either side, in the order of the sorted keys, the record of a key is the last
  one that carries it (submitted after existing), and merging the same submission again changes
  nothing.
\<close>

theorem merge_snapshots_upsert:
  assumes "merge_balance_snapshots existing submitted = Inr merged"
  shows "(\<exists>ks. map snapshot_semantic_key merged = map Inr ks \<and> sorted_wrt (<) ks \<and>
      Inr ` set ks = snapshot_semantic_key ` set (existing @ submitted)) \<and>
    (\<forall>s \<in> set merged. \<forall>k. snapshot_semantic_key s = Inr k \<longrightarrow>
      s = last_with snapshot_semantic_key k (existing @ submitted)) \<and>
    merge_balance_snapshots merged submitted = Inr merged"
  using snapshots.merge_keys [OF assms] snapshots.merge_last [OF assms] snapshots.merge_again [OF assms]
  by blast

text \<open>
  The same holds for references, whose key also names how, when and by whom the reference was
  observed: when every instant can be written the merge succeeds, keeps the last record of each
  key, and is stable under resubmission.
\<close>

lemma merge_references_upsert:
  assumes "\<forall>r \<in> set (existing @ submitted). is_ok (reference_semantic_key r)"
  shows "\<exists>merged. merge_balance_references existing submitted = Inr merged \<and>
    (\<forall>r \<in> set (existing @ submitted). \<exists>k. reference_semantic_key r = Inr k \<and>
      last_with reference_semantic_key k (existing @ submitted) \<in> set merged) \<and>
    merge_balance_references merged submitted = Inr merged"
proof -
  obtain merged where m: "merge_balance_references existing submitted = Inr merged"
    using references.merge_ok [of existing submitted] assms unfolding is_ok_iff by blast
  show ?thesis
    by (rule exI [of _ merged], intro conjI ballI m references.merge_again [OF m])
      (rule references.key_in_result [OF m])
qed

section \<open>Rows and records have the same keys\<close>

lemma strip_moment:
  "format_temporal_value t p label = Inr s \<Longrightarrow> strip s = s"
  by (auto simp: format_temporal_value_def result_simps strip_strftime split: if_splits)

lemma strip_optional_timestamp: "format_optional_timestamp t = Inr s \<Longrightarrow> strip s = s"
  by (auto simp: format_optional_timestamp_def format_timestamp_def result_simps strip_strftime
      split: option.splits)

lemma strip_precision: "strip (temporal_precision_text p) = temporal_precision_text p"
  by (induction p; code_simp)

lemma strip_reference_kind: "strip (reference_kind_text k) = reference_kind_text k"
  by (induction k; code_simp)

lemma strip_format_decimal: "strip (format_decimal (Some q)) = format_decimal (Some q)"
  by (simp add: format_decimal_def format_f_no_space)

lemma target_row_key:
  assumes "target_to_row t = Inr r"
  shows "target_key_texts t = Inr (snapshot_row_semantic_key (r @ rest))"
  using assms
  by (auto simp: target_to_row_def target_key_texts_def snapshot_row_semantic_key_def row_text_def
      dict_get_def result_simps strip_moment strip_precision)

lemma snapshot_row_keys:
  assumes "snapshot_to_row s = Inr r"
  shows "snapshot_semantic_key s = Inr (snapshot_row_semantic_key r)"
    and "snapshot_conflict_key s = row_conflict_key r"
  using assms target_row_key [of "bs_target s"]
  by (auto simp: snapshot_to_row_def snapshot_semantic_key_def snapshot_conflict_key_def
      row_conflict_key_def row_text_def dict_get_def result_simps target_to_row_def strip_format_decimal)

lemma reference_row_keys:
  assumes "valid_reference x" and "reference_to_row x = Inr r"
  shows "reference_semantic_key x = Inr (reference_row_semantic_key r)"
    and "reference_conflict_key x = row_conflict_key r"
proof -
  have s: "strip_reference x = x" using assms(1) by (simp add: valid_reference_def mk_balance_reference_iff)
  have f: "strip (br_support_ref x) = br_support_ref x" "strip (br_provider_family x) = br_provider_family x"
    "strip (br_provider_locator x) = br_provider_locator x"
    "strip (br_provider_block_ref x) = br_provider_block_ref x" "strip (br_reviewed_by x) = br_reviewed_by x"
    using s by (cases x; simp add: strip_reference_def)+
  show "reference_semantic_key x = Inr (reference_row_semantic_key r)"
    using assms(2) target_row_key [of "br_target x"]
    by (auto simp: reference_to_row_def reference_semantic_key_def reference_row_semantic_key_def
        row_text_def dict_get_def result_simps target_to_row_def strip_moment strip_precision
        strip_reference_kind strip_optional_timestamp f)
  show "reference_conflict_key x = row_conflict_key r"
    using assms(2)
    by (auto simp: reference_to_row_def reference_conflict_key_def row_conflict_key_def
        row_text_def dict_get_def result_simps target_to_row_def strip_format_decimal)
qed

section \<open>The assembled rows\<close>

lemma index_first_entries:
  "map snd (index_first f xs) = map (\<lambda>k. the (List.find (\<lambda>x. f x = k) xs)) (map fst (index_first f xs))"
proof -
  have "snd p = the (List.find (\<lambda>x. f x = fst p) xs)" if "p \<in> set (index_first f xs)" for p
    using map_of_is_SomeI [OF distinct_index_first, of "fst p" "snd p" f xs] that
    by (simp add: map_of_index_first)
  then show ?thesis by simp
qed

lemma find_key: "k \<in> f ` set xs \<Longrightarrow> \<exists>x. List.find (\<lambda>x. f x = k) xs = Some x \<and> x \<in> set xs \<and> f x = k"
  by (cases "List.find (\<lambda>x. f x = k) xs") (auto simp: find_None_iff find_Some_iff)

lemma index_first_values:
  "set (map snd (index_first f xs)) \<subseteq> set xs"
  "map f (map snd (index_first f xs)) = map fst (index_first f xs)"
proof -
  have k: "\<exists>x. List.find (\<lambda>x. f x = fst p) xs = Some x \<and> x \<in> set xs \<and> f x = fst p"
    if "p \<in> set (index_first f xs)" for p
  proof (rule find_key)
    show "fst p \<in> f ` set xs" using that keys_index_first [of f xs] by auto
  qed
  have v: "snd p \<in> set xs \<and> f (snd p) = fst p" if p: "p \<in> set (index_first f xs)" for p
    using k [OF p] map_of_is_SomeI [OF distinct_index_first, of "fst p" "snd p" f xs] p
    by (auto simp: map_of_index_first)
  show "set (map snd (index_first f xs)) \<subseteq> set xs" using v by auto
  show "map f (map snd (index_first f xs)) = map fst (index_first f xs)" using v by simp
qed

lemma sorted_index_first: "sorted (map f xs) \<Longrightarrow> sorted (map fst (index_first f xs))"
proof (induction xs rule: rev_induct)
  case (snoc x xs)
  have "set (map fst (index_first f xs)) = f ` set xs" by (rule keys_index_first)
  then show ?case
    using snoc by (auto simp: index_first_snoc sorted_append split: option.split)
qed (simp add: index_first_def)

lemma dedupe_rows_tuples: "map (row_tuple header) (dedupe_rows header rows) = sorted_distinct (map (row_tuple header) rows)"
  (is "?l = ?r")
proof -
  let ?d = "index_first (row_tuple header) (sort_key (row_tuple header) rows)"
  have l: "?l = map fst ?d" unfolding dedupe_rows_def by (rule index_first_values(2))
  have "sorted ?l" unfolding l by (rule sorted_index_first) simp
  moreover have "distinct ?l" unfolding l by (rule distinct_index_first)
  moreover have "set ?l = set (map (row_tuple header) rows)"
    unfolding l keys_index_first by simp
  ultimately show ?thesis by (intro sorted_distinct_set_unique) simp_all
qed

lemma dedupe_rows_subset: "set (dedupe_rows header rows) \<subseteq> set rows"
  unfolding dedupe_rows_def using index_first_values(1) [of "row_tuple header" "sort_key (row_tuple header) rows"]
  by simp

text \<open>A dictionary of the sets of quantities per key.\<close>

definition disputed :: "csv_merge_spec \<Rightarrow> row list \<Rightarrow> string list \<Rightarrow> bool" where
  "disputed spec rows k \<longleftrightarrow>
     (\<exists>r \<in> set rows. \<exists>r' \<in> set rows. cms_semantic_key spec r = k \<and> cms_semantic_key spec r' = k \<and>
        cms_conflict_key spec r \<noteq> cms_conflict_key spec r')"

lemma more_than_one_value: "1 < length (remdups xs) \<longleftrightarrow> (\<exists>x \<in> set xs. \<exists>y \<in> set xs. x \<noteq> y)"
proof
  assume "1 < length (remdups xs)"
  then have "1 < card (set xs)" by (simp add: length_remdups_card_conv)
  then show "\<exists>x \<in> set xs. \<exists>y \<in> set xs. x \<noteq> y" by (auto simp: card_le_Suc0_iff_eq linorder_not_le [symmetric])
next
  assume "\<exists>x \<in> set xs. \<exists>y \<in> set xs. x \<noteq> y"
  then have "\<not> card (set xs) \<le> Suc 0" by (simp add: card_le_Suc0_iff_eq)
  then show "1 < length (remdups xs)" by (simp add: length_remdups_card_conv)
qed

lemma conflict_values_disputed:
  assumes "(k, values) \<in> set (conflict_values spec rows)"
  shows "1 < length values \<longleftrightarrow> disputed spec rows k"
    and "k \<noteq> []"
proof -
  let ?rows = "filter (\<lambda>r. cms_semantic_key spec r \<noteq> []) rows"
  obtain rs where rs: "(k, rs) \<in> set (group_by (cms_semantic_key spec) ?rows)"
      "values = remdups (map (cms_conflict_key spec) rs)"
    using assms by (auto simp: conflict_values_def)
  note g = mem_group_byD [OF rs(1)]
  show "k \<noteq> []" using g(2) by auto
  then have "set rs = {r \<in> set rows. cms_semantic_key spec r = k}" using g(1) by auto
  then show "1 < length values \<longleftrightarrow> disputed spec rows k"
    unfolding rs(2) more_than_one_value set_map disputed_def by blast
qed

lemma conflict_values_keys:
  "fst ` set (conflict_values spec rows) = {k \<in> cms_semantic_key spec ` set rows. k \<noteq> []}"
proof -
  have star: "fst ` (\<lambda>(k, rs). (k, remdups (map (cms_conflict_key spec) rs))) ` A = fst ` A" for A
    by (auto simp: image_image split_def)
  have "fst ` set (conflict_values spec rows) =
      cms_semantic_key spec ` set (filter (\<lambda>r. cms_semantic_key spec r \<noteq> []) rows)"
    by (simp only: conflict_values_def set_map keys_group_by_image star)
  then show ?thesis by auto
qed

lemma conflict_issue_refs:
  "map iss_raw_row_ref (conflict_issues spec rows) =
     map (\<lambda>k. tuple_text (map py_repr k))
       (filter (disputed spec rows) (map fst (sort_key fst (conflict_values spec rows))))"
proof -
  have aux: "map iss_raw_row_ref (map (\<lambda>(index, k, values). semantic_conflict_issue spec index k)
      (filter (\<lambda>(index, k, values). 1 < length values) (zip [n ..< n + length items] items))) =
    map (\<lambda>k. tuple_text (map py_repr k)) (filter (disputed spec rows) (map fst items))"
    if "set items \<subseteq> set (conflict_values spec rows)" for n items
    using that
  proof (induction items arbitrary: n)
    case (Cons p items)
    have u: "[n ..< n + length (p # items)] = n # [Suc n ..< Suc n + length items]"
      by (simp add: upt_rec)
    have "1 < length (snd p) \<longleftrightarrow> disputed spec rows (fst p)"
      using conflict_values_disputed(1) [of "fst p" "snd p"] Cons.prems by simp
    then show ?case
      using Cons.IH [of "Suc n"] Cons.prems unfolding u
      by (simp add: semantic_conflict_issue_def split_def)
  qed simp
  let ?items = "sort_key fst (conflict_values spec rows)"
  have s: "set ?items \<subseteq> set (conflict_values spec rows)" by simp
  show ?thesis using aux [OF s, of 1] unfolding conflict_issues_def Let_def by simp
qed

lemma disputed_keys:
  assumes "\<And>r. cms_semantic_key spec r \<noteq> []"
  shows "set (filter (disputed spec rows) (map fst (sort_key fst (conflict_values spec rows)))) =
    {k. disputed spec rows k}"
  using conflict_values_keys [of spec rows] assms
  by (auto simp: disputed_def image_iff)

definition assembled_rows :: "(string \<Rightarrow> string \<Rightarrow> row list option) \<Rightarrow> string list \<Rightarrow> string \<Rightarrow> row list" where
  "assembled_rows read_rows roots filename =
     concat (List.map_filter (\<lambda>root. read_rows root filename) roots)"

lemma merge_csv_spec:
  assumes "\<And>r. cms_semantic_key spec r \<noteq> []"
    and "merge_balance_csv_rows spec = (merged, issues)"
  shows "map (row_tuple (cms_header spec)) merged =
      sorted_distinct (map (row_tuple (cms_header spec)) (assembled_rows (cms_read_rows spec) (cms_roots spec) (cms_filename spec))) \<and>
    set merged \<subseteq> set (assembled_rows (cms_read_rows spec) (cms_roots spec) (cms_filename spec)) \<and>
    iss_raw_row_ref ` set issues = (\<lambda>k. tuple_text (map py_repr k)) ` {k. disputed spec merged k}"
proof -
  let ?rows = "assembled_rows (cms_read_rows spec) (cms_roots spec) (cms_filename spec)"
  have m: "merged = dedupe_rows (cms_header spec) ?rows" and i: "issues = conflict_issues spec merged"
    using assms(2) by (auto simp: merge_balance_csv_rows_def assembled_rows_def Let_def)
  have "set (map iss_raw_row_ref issues) = (\<lambda>k. tuple_text (map py_repr k)) ` {k. disputed spec merged k}"
    unfolding i conflict_issue_refs set_map disputed_keys [OF assms(1)] ..
  then show ?thesis using dedupe_rows_tuples dedupe_rows_subset unfolding m by simp
qed


text \<open>
  The key a record is merged under is the key its CSV row is assembled under, and the
  quantities they are compared by agree, so the two merge paths never disagree about which
  balances are the same.
\<close>

lemma reference_keys_agree:
  assumes "valid_reference x" and "reference_to_row x = Inr r" and "snapshot_to_row s = Inr r'"
  shows "reference_semantic_key x = Inr (reference_row_semantic_key r) \<and>
    reference_conflict_key x = row_conflict_key r \<and>
    snapshot_semantic_key s = Inr (snapshot_row_semantic_key r') \<and>
    snapshot_conflict_key s = row_conflict_key r'"
  using reference_row_keys [OF assms(1,2)] snapshot_row_keys [OF assms(3)] by blast

section \<open>Witnesses\<close>

lemma valid_snapshot_key: "valid_target (bs_target s) \<Longrightarrow> is_ok (snapshot_semantic_key s)"
  using valid_target_format [of "bs_target s"]
  by (fastforce simp: snapshot_semantic_key_def target_key_texts_def is_ok_iff result_simps)

lemma valid_reference_key: "valid_reference r \<Longrightarrow> is_ok (reference_semantic_key r)"
  by (auto simp: reference_semantic_key_def target_key_texts_def is_ok_iff valid_reference_def
      valid_target_iff mk_balance_reference_iff format_temporal_value_def format_optional_timestamp_def
      format_timestamp_def result_simps split: option.splits)

theorem merge_snapshots_upsert_witness:
  "\<exists>merged. merge_balance_snapshots sample_snapshots [sample_snapshot 8 (Decimal 3 0)] = Inr merged \<and>
    (\<exists>ks. map snapshot_semantic_key merged = map Inr ks \<and> sorted_wrt (<) ks \<and>
      Inr ` set ks = snapshot_semantic_key ` set (sample_snapshots @ [sample_snapshot 8 (Decimal 3 0)])) \<and>
    (\<forall>s \<in> set merged. \<forall>k. snapshot_semantic_key s = Inr k \<longrightarrow>
      s = last_with snapshot_semantic_key k (sample_snapshots @ [sample_snapshot 8 (Decimal 3 0)])) \<and>
    merge_balance_snapshots merged [sample_snapshot 8 (Decimal 3 0)] = Inr merged"
proof -
  have "\<forall>s \<in> set (sample_snapshots @ [sample_snapshot 8 (Decimal 3 0)]). is_ok (snapshot_semantic_key s)"
    using samples_valid(1) by (auto intro: valid_snapshot_key simp: sample_snapshot_def sample_valid)
  then obtain merged where
    m: "merge_balance_snapshots sample_snapshots [sample_snapshot 8 (Decimal 3 0)] = Inr merged"
    using snapshots.merge_ok [of sample_snapshots "[sample_snapshot 8 (Decimal 3 0)]"]
    unfolding is_ok_iff by blast
  show ?thesis by (rule exI [of _ merged], rule conjI [OF m merge_snapshots_upsert [OF m]])
qed

lemma merge_references_upsert_witness:
  "\<exists>merged. merge_balance_references sample_references [sample_reference 8 (Decimal 3 0)] = Inr merged \<and>
    (\<forall>r \<in> set (sample_references @ [sample_reference 8 (Decimal 3 0)]). \<exists>k.
      reference_semantic_key r = Inr k \<and> last_with reference_semantic_key k
        (sample_references @ [sample_reference 8 (Decimal 3 0)]) \<in> set merged) \<and>
    merge_balance_references merged [sample_reference 8 (Decimal 3 0)] = Inr merged"
proof (rule merge_references_upsert)
  show "\<forall>r \<in> set (sample_references @ [sample_reference 8 (Decimal 3 0)]). is_ok (reference_semantic_key r)"
    using samples_valid(2) by (auto intro: valid_reference_key simp: sample_valid)
qed

definition sample_rows :: "string \<Rightarrow> string \<Rightarrow> row list option" where
  "sample_rows dir filename =
     (if dir = ''a'' then Some [[(''source'', ''kraken''), (''quantity'', ''1'')]]
      else if dir = ''b'' then Some [[(''source'', ''kraken''), (''quantity'', ''2'')],
        [(''source'', ''kraken''), (''quantity'', ''1'')]]
      else None)"


lemma reference_keys_agree_witness:
  "\<exists>r r'. reference_to_row (sample_reference 8 (Decimal 2 0)) = Inr r \<and>
    reference_semantic_key (sample_reference 8 (Decimal 2 0)) = Inr (reference_row_semantic_key r) \<and>
    reference_conflict_key (sample_reference 8 (Decimal 2 0)) = row_conflict_key r \<and>
    snapshot_semantic_key (sample_snapshot 8 (Decimal 2 0)) = Inr (snapshot_row_semantic_key r') \<and>
    snapshot_conflict_key (sample_snapshot 8 (Decimal 2 0)) = row_conflict_key r'"
proof -
  obtain r where r: "reference_to_row (sample_reference 8 (Decimal 2 0)) = Inr r"
    by (auto simp: reference_to_row_def target_to_row_def sample_reference_def sample_target_def
        format_temporal_value_def require_temporal_datetime_def format_optional_timestamp_def midnight_def)
  obtain r' where r': "snapshot_to_row (sample_snapshot 8 (Decimal 2 0)) = Inr r'"
    by (auto simp: snapshot_to_row_def target_to_row_def sample_snapshot_def sample_target_def
        format_temporal_value_def require_temporal_datetime_def midnight_def)
  show ?thesis
    by (intro exI [of _ r] exI [of _ r'], rule conjI [OF r reference_keys_agree [OF sample_valid(2) r r']])
qed

end
