(* ===== verification/Instruments.thy ===== *)
theory Instruments
  imports Regex_Match
begin

text \<open>
  \<open>domain/instruments\<close>: instrument and identifier records with their validation, the asset
  claims of the adapters and the resolution of a group of claims to one instrument. The
  theorems: resolution never fails on validated claims, and what it decides depends on the set of
  normalised claims only.
\<close>

section \<open>Records\<close>

datatype instrument_kind = IK_UNKNOWN | IK_CRYPTO | IK_FIAT | IK_EQUITY | IK_DERIVATIVE

fun instrument_kind_text :: "instrument_kind \<Rightarrow> string" where
  "instrument_kind_text IK_UNKNOWN = ''unknown''"
| "instrument_kind_text IK_CRYPTO = ''crypto''"
| "instrument_kind_text IK_FIAT = ''fiat''"
| "instrument_kind_text IK_EQUITY = ''equity''"
| "instrument_kind_text IK_DERIVATIVE = ''derivative''"

definition scheme_first :: "char \<Rightarrow> bool" where
  "scheme_first c \<longleftrightarrow> (97::nat) \<le> of_char c \<and> (of_char c :: nat) \<le> 122"

definition scheme_char :: "char \<Rightarrow> bool" where
  "scheme_char c \<longleftrightarrow> scheme_first c \<or> is_digit c \<or> c = CHR ''_''"

definition IDENTIFIER_SCHEME_PATTERN :: rexp where
  "IDENTIFIER_SCHEME_PATTERN = RSeq (RRun 1 (Some 1) scheme_first) (RRun 0 None scheme_char)"

definition validate_identifier_scheme :: "string \<Rightarrow> unit result" where
  "validate_identifier_scheme v =
     r_require (fullmatch IDENTIFIER_SCHEME_PATTERN v)
       (ValueError ''instrument identifier scheme must be lowercase snake_case'')"

definition negative_int :: "int option \<Rightarrow> bool" where
  "negative_int p = (case p of None \<Rightarrow> False | Some n \<Rightarrow> n < 0)"

record instrument_record =
  ir_instrument_id :: string
  ir_kind :: instrument_kind
  ir_display_name :: string
  ir_precision :: "int option"

definition mk_instrument_record :: "instrument_record \<Rightarrow> instrument_record result" where
  "mk_instrument_record r =
     (if ir_instrument_id r = [] then Inl (ValueError ''instrument_id must not be blank'')
      else if strip (ir_display_name r) = [] then
        Inl (ValueError ''instrument display_name must not be blank'')
      else if negative_int (ir_precision r) then
        Inl (ValueError ''instrument precision must be non-negative'')
      else Inr r)"

record instrument_identifier_record =
  ii_instrument_id :: string
  ii_scheme :: string
  ii_value :: string
  ii_venue :: "string option"

definition mk_instrument_identifier_record ::
    "instrument_identifier_record \<Rightarrow> instrument_identifier_record result" where
  "mk_instrument_identifier_record r =
     (if ii_instrument_id r = [] then
        Inl (ValueError ''instrument identifier instrument_id must not be blank'')
      else r_bind (validate_identifier_scheme (ii_scheme r)) (\<lambda>_.
        if strip (ii_value r) = [] then
          Inl (ValueError ''instrument identifier value must not be blank'')
        else Inr r))"

record instrument_identity_claim =
  ic_scheme :: string
  ic_value :: string
  ic_venue :: "string option"
  ic_kind_hint :: instrument_kind
  ic_display_name :: string
  ic_precision_hint :: "int option"

definition mk_instrument_identity_claim ::
    "instrument_identity_claim \<Rightarrow> instrument_identity_claim result" where
  "mk_instrument_identity_claim c =
     r_bind (validate_identifier_scheme (ic_scheme c)) (\<lambda>_.
       if strip (ic_value c) = [] then
         Inl (ValueError ''instrument identity claim value must not be blank'')
       else if negative_int (ic_precision_hint c) then
         Inl (ValueError ''instrument identity claim precision_hint must be non-negative'')
       else Inr c)"

section \<open>Asset claims\<close>

definition asset_claim :: "string \<Rightarrow> string \<Rightarrow> int option \<Rightarrow> instrument_identity_claim result" where
  "asset_claim asset_path display_name precision_hint =
     (let normalized_path = lower (strip asset_path) in
      if normalized_path = [] then Inl (ValueError ''asset claim path must not be blank'')
      else mk_instrument_identity_claim
        \<lparr>ic_scheme = ''asset'', ic_value = normalized_path, ic_venue = None,
         ic_kind_hint = IK_CRYPTO, ic_display_name = strip display_name,
         ic_precision_hint = precision_hint\<rparr>)"

definition or_else :: "string \<Rightarrow> string \<Rightarrow> string" where
  "or_else a b = (if a = [] then b else a)"

definition evm_native_asset_claim ::
    "string \<Rightarrow> string \<Rightarrow> int option \<Rightarrow> instrument_identity_claim result" where
  "evm_native_asset_claim network display_name precision_hint =
     (let normalized_network = lower (strip network) in
      if normalized_network = [] then
        Inl (ValueError ''evm native asset claim network must not be blank'')
      else asset_claim (''evm:'' @ normalized_network @ '':native'')
        (or_else display_name (upper normalized_network)) precision_hint)"

definition evm_erc20_asset_claim ::
    "string \<Rightarrow> string \<Rightarrow> string \<Rightarrow> int option \<Rightarrow> instrument_identity_claim result" where
  "evm_erc20_asset_claim network contract_address display_name precision_hint =
     (let normalized_network = lower (strip network);
          normalized_contract = lower (strip contract_address) in
      if normalized_network = [] then
        Inl (ValueError ''evm erc20 asset claim network must not be blank'')
      else if normalized_contract = [] then
        Inl (ValueError ''evm erc20 asset claim contract_address must not be blank'')
      else asset_claim (''evm:'' @ normalized_network @ '':erc20:'' @ normalized_contract)
        (or_else display_name normalized_contract) precision_hint)"

definition near_native_asset_claim ::
    "string \<Rightarrow> int option \<Rightarrow> instrument_identity_claim result" where
  "near_native_asset_claim display_name precision_hint =
     asset_claim ''near:native'' display_name precision_hint"

section \<open>Resolution\<close>

record resolved_instrument =
  ri_instrument :: instrument_record
  ri_identifiers :: "instrument_identifier_record list"

definition normalize_claim :: "instrument_identity_claim \<Rightarrow> instrument_identity_claim result" where
  "normalize_claim c =
     (let v = strip (ic_value c);
          normalized_value = (if ic_scheme c = ''symbol'' then upper v else v);
          normalized_venue =
            (case ic_venue c of None \<Rightarrow> None
             | Some w \<Rightarrow> if strip w = [] then None else Some (lower (strip w)))
      in mk_instrument_identity_claim
        \<lparr>ic_scheme = strip (ic_scheme c), ic_value = normalized_value, ic_venue = normalized_venue,
         ic_kind_hint = ic_kind_hint c, ic_display_name = strip (ic_display_name c),
         ic_precision_hint = ic_precision_hint c\<rparr>)"

definition claim_key :: "instrument_identity_claim \<Rightarrow> string \<times> string \<times> string" where
  "claim_key c = (ic_scheme c, ic_value c, case ic_venue c of None \<Rightarrow> [] | Some v \<Rightarrow> v)"

definition instrument_id_text :: "instrument_identity_claim \<Rightarrow> string" where
  "instrument_id_text c =
     ic_scheme c @ '':'' @ ic_value c @
     (case ic_venue c of None \<Rightarrow> [] | Some v \<Rightarrow> ''@'' @ v)"

definition claim_kinds :: "instrument_identity_claim list \<Rightarrow> instrument_kind list" where
  "claim_kinds cs = remdups (filter (\<lambda>k. k \<noteq> IK_UNKNOWN) (map ic_kind_hint cs))"

definition claim_precisions :: "instrument_identity_claim list \<Rightarrow> int list" where
  "claim_precisions cs = remdups (List.map_filter ic_precision_hint cs)"

definition resolve_instrument_identity ::
    "instrument_identity_claim list \<Rightarrow> resolved_instrument option result" where
  "resolve_instrument_identity claims =
     r_bind (r_map normalize_claim claims) (\<lambda>normalized.
       let unique_keys = remdups (map claim_key normalized);
           kinds = claim_kinds normalized;
           precisions = claim_precisions normalized
       in if length unique_keys \<noteq> 1 then Inr None
          else if 1 < length kinds then Inr None
          else if 1 < length precisions then Inr None
          else
            let representative = hd normalized;
                instrument_id = instrument_id_text representative;
                display_name =
                  (case List.find (\<lambda>c. ic_display_name c \<noteq> []) normalized of
                     Some c \<Rightarrow> ic_display_name c | None \<Rightarrow> ic_value representative)
            in r_bind (mk_instrument_record
                 \<lparr>ir_instrument_id = instrument_id,
                  ir_kind = (case kinds of [] \<Rightarrow> IK_UNKNOWN | k # _ \<Rightarrow> k),
                  ir_display_name = display_name,
                  ir_precision = (case precisions of [] \<Rightarrow> None | p # _ \<Rightarrow> Some p)\<rparr>) (\<lambda>ins.
               r_bind (r_map (\<lambda>c. mk_instrument_identifier_record
                   \<lparr>ii_instrument_id = instrument_id, ii_scheme = ic_scheme c,
                    ii_value = ic_value c, ii_venue = ic_venue c\<rparr>) normalized) (\<lambda>ids.
               Inr (Some \<lparr>ri_instrument = ins, ri_identifiers = ids\<rparr>))))"

section \<open>Validated claims\<close>

definition valid_claim :: "instrument_identity_claim \<Rightarrow> bool" where
  "valid_claim c \<longleftrightarrow> mk_instrument_identity_claim c = Inr c"

definition normal_claim :: "instrument_identity_claim \<Rightarrow> instrument_identity_claim" where
  "normal_claim c =
     c\<lparr>ic_value := (if ic_scheme c = ''symbol'' then upper (strip (ic_value c)) else strip (ic_value c)),
       ic_venue := (case ic_venue c of None \<Rightarrow> None
             | Some w \<Rightarrow> if strip w = [] then None else Some (lower (strip w))),
       ic_display_name := strip (ic_display_name c)\<rparr>"

lemma valid_claim_iff:
  "valid_claim c \<longleftrightarrow> fullmatch IDENTIFIER_SCHEME_PATTERN (ic_scheme c) \<and> strip (ic_value c) \<noteq> [] \<and>
     \<not> negative_int (ic_precision_hint c)"
  by (simp add: valid_claim_def mk_instrument_identity_claim_def validate_identifier_scheme_def
      r_require_def)

lemma scheme_shape:
  "fullmatch IDENTIFIER_SCHEME_PATTERN s \<Longrightarrow> s \<noteq> [] \<and> strip s = s"
proof -
  assume "fullmatch IDENTIFIER_SCHEME_PATTERN s"
  then obtain u v where s: "s = u @ v" "length u = 1" "list_all scheme_first u" "list_all scheme_char v"
    by (auto simp: fullmatch_iff IDENTIFIER_SCHEME_PATTERN_def)
  have "\<not> is_space c" if "scheme_char c" for c
    using that
    by (auto simp: scheme_char_def scheme_first_def is_digit_def is_space_def Let_def)
  then have "strip s = s"
    using s by (intro strip_no_space) (auto simp: list_all_iff scheme_char_def)
  then show ?thesis using s by auto
qed

lemma normalize_valid:
  assumes "valid_claim c"
  shows "normalize_claim c = Inr (normal_claim c)" and "valid_claim (normal_claim c)"
proof -
  have s: "strip (ic_scheme c) = ic_scheme c" "strip (ic_value c) \<noteq> []"
    using assms scheme_shape by (auto simp: valid_claim_iff)
  show v: "valid_claim (normal_claim c)"
    using assms s by (simp add: valid_claim_iff normal_claim_def strip_upper)
  have "normalize_claim c = mk_instrument_identity_claim (normal_claim c)"
    using s(1) by (cases c) (auto simp: normalize_claim_def normal_claim_def Let_def)
  then show "normalize_claim c = Inr (normal_claim c)" using v by (simp add: valid_claim_def)
qed

section \<open>What resolution decides\<close>

definition claims_agree :: "instrument_identity_claim list \<Rightarrow> bool" where
  "claims_agree cs \<longleftrightarrow> cs \<noteq> [] \<and>
     (\<forall>c \<in> set cs. \<forall>d \<in> set cs. claim_key c = claim_key d \<and>
        (ic_kind_hint c \<noteq> IK_UNKNOWN \<and> ic_kind_hint d \<noteq> IK_UNKNOWN \<longrightarrow> ic_kind_hint c = ic_kind_hint d) \<and>
        (\<forall>p q. ic_precision_hint c = Some p \<and> ic_precision_hint d = Some q \<longrightarrow> p = q))"

lemma length_remdups_1: "length (remdups xs) = 1 \<longleftrightarrow> xs \<noteq> [] \<and> (\<forall>x \<in> set xs. \<forall>y \<in> set xs. x = y)"
proof -
  have "length (remdups xs) = card (set xs)" by (simp add: length_remdups_card_conv)
  then have "length (remdups xs) = 1 \<longleftrightarrow> (\<exists>x. set xs = {x})" by (simp add: card_1_singleton_iff)
  also have "\<dots> \<longleftrightarrow> xs \<noteq> [] \<and> (\<forall>x \<in> set xs. \<forall>y \<in> set xs. x = y)"
  proof
    assume "\<exists>x. set xs = {x}"
    then show "xs \<noteq> [] \<and> (\<forall>x \<in> set xs. \<forall>y \<in> set xs. x = y)" by force
  next
    assume "xs \<noteq> [] \<and> (\<forall>x \<in> set xs. \<forall>y \<in> set xs. x = y)"
    then have "set xs = {hd xs}" using hd_in_set [of xs] by blast
    then show "\<exists>x. set xs = {x}" ..
  qed
  finally show ?thesis .
qed

lemma length_remdups_le_1: "\<not> 1 < length (remdups xs) \<longleftrightarrow> (\<forall>x \<in> set xs. \<forall>y \<in> set xs. x = y)"
proof (cases "xs = []")
  case False
  then have "length (remdups xs) \<noteq> 0" by simp
  then have "\<not> 1 < length (remdups xs) \<longleftrightarrow> length (remdups xs) = 1" by linarith
  with False length_remdups_1 [of xs] show ?thesis by simp
qed simp

lemma set_map_filter: "set (List.map_filter f xs) = {y. \<exists>x \<in> set xs. f x = Some y}"
  by (induction xs) (auto simp: List.map_filter_simps split: option.splits)

lemma agree_iff:
  "claims_agree cs \<longleftrightarrow> length (remdups (map claim_key cs)) = 1 \<and>
     \<not> 1 < length (claim_kinds cs) \<and> \<not> 1 < length (claim_precisions cs)"
proof -
  have keys: "length (remdups (map claim_key cs)) = 1 \<longleftrightarrow>
      cs \<noteq> [] \<and> (\<forall>c \<in> set cs. \<forall>d \<in> set cs. claim_key c = claim_key d)"
    unfolding length_remdups_1 by simp
  have kinds: "\<not> 1 < length (claim_kinds cs) \<longleftrightarrow> (\<forall>c \<in> set cs. \<forall>d \<in> set cs.
      ic_kind_hint c \<noteq> IK_UNKNOWN \<and> ic_kind_hint d \<noteq> IK_UNKNOWN \<longrightarrow> ic_kind_hint c = ic_kind_hint d)"
    unfolding claim_kinds_def length_remdups_le_1 by auto
  have precs: "\<not> 1 < length (claim_precisions cs) \<longleftrightarrow> (\<forall>c \<in> set cs. \<forall>d \<in> set cs.
      \<forall>p q. ic_precision_hint c = Some p \<and> ic_precision_hint d = Some q \<longrightarrow> p = q)"
    unfolding claim_precisions_def length_remdups_le_1 set_map_filter by blast
  show ?thesis unfolding keys kinds precs claims_agree_def by blast
qed

lemma claim_key_id:
  assumes "claim_key c = claim_key d" and "ic_venue c \<noteq> Some []" and "ic_venue d \<noteq> Some []"
  shows "instrument_id_text c = instrument_id_text d"
  using assms by (auto simp: claim_key_def instrument_id_text_def split: option.splits)

lemma normal_venue: "ic_venue (normal_claim c) \<noteq> Some []"
  by (auto simp: normal_claim_def split: option.splits)

lemma resolve_validated:
  assumes "\<forall>c \<in> set claims. valid_claim c"
  defines "ns \<equiv> map normal_claim claims"
  shows "resolve_instrument_identity claims =
    (if claims_agree ns then
       Inr (Some \<lparr>ri_instrument =
           \<lparr>ir_instrument_id = instrument_id_text (hd ns),
            ir_kind = (case claim_kinds ns of [] \<Rightarrow> IK_UNKNOWN | k # _ \<Rightarrow> k),
            ir_display_name = (case List.find (\<lambda>c. ic_display_name c \<noteq> []) ns of
               Some c \<Rightarrow> ic_display_name c | None \<Rightarrow> ic_value (hd ns)),
            ir_precision = (case claim_precisions ns of [] \<Rightarrow> None | p # _ \<Rightarrow> Some p)\<rparr>,
         ri_identifiers = map (\<lambda>c. \<lparr>ii_instrument_id = instrument_id_text (hd ns),
            ii_scheme = ic_scheme c, ii_value = ic_value c, ii_venue = ic_venue c\<rparr>) ns\<rparr>)
     else Inr None)"
proof -
  have norm: "r_map normalize_claim claims = Inr ns"
    unfolding ns_def using assms(1) by (intro r_map_all_ok) (simp add: normalize_valid)
  have valid: "valid_claim c" if "c \<in> set ns" for c
    using that assms(1) by (auto simp: ns_def normalize_valid)
  show ?thesis
  proof (cases "claims_agree ns")
    case False
    then have "length (remdups (map claim_key ns)) \<noteq> 1 \<or> 1 < length (claim_kinds ns) \<or>
        1 < length (claim_precisions ns)" using agree_iff by blast
    then show ?thesis
      unfolding resolve_instrument_identity_def norm r_bind.simps Let_def using False by auto
  next
    case True
    then have ne: "ns \<noteq> []" by (simp add: claims_agree_def)
    let ?id = "instrument_id_text (hd ns)"
    let ?name = "case List.find (\<lambda>c. ic_display_name c \<noteq> []) ns of
               Some c \<Rightarrow> ic_display_name c | None \<Rightarrow> ic_value (hd ns)"
    let ?prec = "case claim_precisions ns of [] \<Rightarrow> None | p # _ \<Rightarrow> Some p"
    have id: "?id \<noteq> []" by (simp add: instrument_id_text_def)
    have name: "strip ?name \<noteq> []"
    proof (cases "List.find (\<lambda>c. ic_display_name c \<noteq> []) ns")
      case None
      then show ?thesis using valid [of "hd ns"] ne by (simp add: valid_claim_iff)
    next
      case (Some c)
      then have "c \<in> set ns" "ic_display_name c \<noteq> []" by (auto simp: find_Some_iff)
      moreover from this have "strip (ic_display_name c) = ic_display_name c"
        by (auto simp: ns_def normal_claim_def)
      ultimately show ?thesis using Some by simp
    qed
    have "\<not> p < 0" if "p \<in> set (claim_precisions ns)" for p
    proof -
      from that obtain c where c: "c \<in> set ns" "ic_precision_hint c = Some p"
        by (auto simp: claim_precisions_def set_map_filter)
      from valid [OF c(1)] c(2) show ?thesis by (simp add: valid_claim_iff negative_int_def)
    qed
    then have prec: "\<not> negative_int ?prec"
      by (cases "claim_precisions ns") (auto simp: negative_int_def)
    have ids: "r_map (\<lambda>c. mk_instrument_identifier_record
         \<lparr>ii_instrument_id = ?id, ii_scheme = ic_scheme c, ii_value = ic_value c,
          ii_venue = ic_venue c\<rparr>) ns =
       Inr (map (\<lambda>c. \<lparr>ii_instrument_id = ?id, ii_scheme = ic_scheme c,
          ii_value = ic_value c, ii_venue = ic_venue c\<rparr>) ns)"
      using valid id by (intro r_map_all_ok)
        (simp add: mk_instrument_identifier_record_def valid_claim_iff validate_identifier_scheme_def)
    show ?thesis
      using True [unfolded agree_iff] id name prec ids True
      by (simp add: resolve_instrument_identity_def norm Let_def mk_instrument_record_def)
  qed
qed

text \<open>
  C27: On validated claims \<open>resolve_instrument_identity\<close> never raises. It returns an instrument
  exactly when the normalised claims agree: there is one, all have the same scheme, value and
  venue, and no two give different known kinds or different precisions. The instrument then has
  the id of every claim, the known kind and the precision wherever a claim has one, and one
  identifier per claim in their order.
\<close>

theorem resolve_instrument_identity_spec:
  assumes "\<forall>c \<in> set claims. valid_claim c"
  shows "case resolve_instrument_identity claims of
      Inl e \<Rightarrow> False
    | Inr None \<Rightarrow> \<not> claims_agree (map normal_claim claims)
    | Inr (Some r) \<Rightarrow> claims_agree (map normal_claim claims) \<and>
        map ii_value (ri_identifiers r) = map (ic_value \<circ> normal_claim) claims \<and>
        (\<forall>c \<in> set claims. ir_instrument_id (ri_instrument r) = instrument_id_text (normal_claim c) \<and>
           (ic_kind_hint c \<noteq> IK_UNKNOWN \<longrightarrow> ir_kind (ri_instrument r) = ic_kind_hint c) \<and>
           (ic_precision_hint c \<noteq> None \<longrightarrow> ir_precision (ri_instrument r) = ic_precision_hint c))"
proof (cases "claims_agree (map normal_claim claims)")
  case False
  then show ?thesis using resolve_validated [OF assms] by simp
next
  case True
  define ns where "ns = map normal_claim claims"
  have agree: "claim_key c = claim_key d"
    "ic_kind_hint c \<noteq> IK_UNKNOWN \<Longrightarrow> ic_kind_hint d \<noteq> IK_UNKNOWN \<Longrightarrow> ic_kind_hint c = ic_kind_hint d"
    "ic_precision_hint c = Some p \<Longrightarrow> ic_precision_hint d = Some q \<Longrightarrow> p = q"
    if "c \<in> set ns" "d \<in> set ns" for c d p q
    using True that unfolding ns_def [symmetric] claims_agree_def by metis+
  have ne: "ns \<noteq> []" using True by (simp add: claims_agree_def ns_def)
  have venue: "ic_venue c \<noteq> Some []" if "c \<in> set ns" for c
    using that normal_venue by (metis (no_types, lifting) ex_map_conv ns_def)
  have id: "instrument_id_text (hd ns) = instrument_id_text c" if "c \<in> set ns" for c
    using agree(1) [OF hd_in_set [OF ne] that] venue [OF hd_in_set [OF ne]] venue [OF that]
    by (rule claim_key_id)
  have kind: "(case claim_kinds ns of [] \<Rightarrow> IK_UNKNOWN | k # _ \<Rightarrow> k) = ic_kind_hint c"
    if c: "c \<in> set ns" "ic_kind_hint c \<noteq> IK_UNKNOWN" for c
  proof -
    have "ic_kind_hint c \<in> set (claim_kinds ns)" using c by (auto simp: claim_kinds_def)
    then obtain k ks where ks: "claim_kinds ns = k # ks" by (cases "claim_kinds ns") auto
    have "k = ic_kind_hint c" if "k \<in> set (claim_kinds ns)" for k
    proof -
      from that obtain d where "d \<in> set ns" "k = ic_kind_hint d" "k \<noteq> IK_UNKNOWN"
        by (auto simp: claim_kinds_def)
      then show ?thesis using agree(2) [of d c] c by simp
    qed
    from this [of k] show ?thesis by (simp add: ks)
  qed
  have prec: "(case claim_precisions ns of [] \<Rightarrow> None | p # _ \<Rightarrow> Some p) = ic_precision_hint c"
    if c: "c \<in> set ns" "ic_precision_hint c = Some p" for c p
  proof -
    have "p \<in> set (claim_precisions ns)" using c by (auto simp: claim_precisions_def set_map_filter)
    then obtain q qs where qs: "claim_precisions ns = q # qs" by (cases "claim_precisions ns") auto
    have "q = p" if "q \<in> set (claim_precisions ns)" for q
    proof -
      from that obtain d where "d \<in> set ns" "ic_precision_hint d = Some q"
        by (auto simp: claim_precisions_def set_map_filter)
      then show ?thesis using agree(3) [of d c] c by simp
    qed
    from this [of q] show ?thesis using c by (simp add: qs)
  qed
  have hints: "ic_kind_hint (normal_claim c) = ic_kind_hint c"
    "ic_precision_hint (normal_claim c) = ic_precision_hint c" for c
    by (simp_all add: normal_claim_def)
  have mem: "normal_claim c \<in> set ns" if "c \<in> set claims" for c using that by (simp add: ns_def)
  have res: "resolve_instrument_identity claims = Inr (Some \<lparr>ri_instrument =
           \<lparr>ir_instrument_id = instrument_id_text (hd ns),
            ir_kind = (case claim_kinds ns of [] \<Rightarrow> IK_UNKNOWN | k # _ \<Rightarrow> k),
            ir_display_name = (case List.find (\<lambda>c. ic_display_name c \<noteq> []) ns of
               Some c \<Rightarrow> ic_display_name c | None \<Rightarrow> ic_value (hd ns)),
            ir_precision = (case claim_precisions ns of [] \<Rightarrow> None | p # _ \<Rightarrow> Some p)\<rparr>,
         ri_identifiers = map (\<lambda>c. \<lparr>ii_instrument_id = instrument_id_text (hd ns),
            ii_scheme = ic_scheme c, ii_value = ic_value c, ii_venue = ic_venue c\<rparr>) ns\<rparr>)"
    using True resolve_validated [OF assms] unfolding ns_def by simp
  show ?thesis
    unfolding res sum.case option.case resolved_instrument.simps instrument_record.simps
  proof (intro conjI ballI impI)
    show "claims_agree (map normal_claim claims)" by (rule True)
    show "map ii_value (map (\<lambda>c. \<lparr>ii_instrument_id = instrument_id_text (hd ns),
            ii_scheme = ic_scheme c, ii_value = ic_value c, ii_venue = ic_venue c\<rparr>) ns) =
        map (ic_value \<circ> normal_claim) claims" by (simp add: ns_def)
  next
    fix c assume "c \<in> set claims"
    then show "instrument_id_text (hd ns) = instrument_id_text (normal_claim c)" by (rule id [OF mem])
  next
    fix c assume "c \<in> set claims" "ic_kind_hint c \<noteq> IK_UNKNOWN"
    then show "(case claim_kinds ns of [] \<Rightarrow> IK_UNKNOWN | k # _ \<Rightarrow> k) = ic_kind_hint c"
      using kind [OF mem] by (simp add: hints)
  next
    fix c assume "c \<in> set claims" "ic_precision_hint c \<noteq> None"
    then show "(case claim_precisions ns of [] \<Rightarrow> None | p # _ \<Rightarrow> Some p) = ic_precision_hint c"
      using prec [OF mem] by (auto simp: hints)
  qed
qed

definition two_claims :: "instrument_identity_claim list" where
  "two_claims =
     [\<lparr>ic_scheme = ''symbol'', ic_value = '' btc'', ic_venue = Some ''Coinbase'',
       ic_kind_hint = IK_UNKNOWN, ic_display_name = [], ic_precision_hint = None\<rparr>,
      \<lparr>ic_scheme = ''symbol'', ic_value = ''BTC'', ic_venue = Some ''coinbase '',
       ic_kind_hint = IK_CRYPTO, ic_display_name = ''Bitcoin'', ic_precision_hint = Some 8\<rparr>]"

theorem resolve_instrument_identity_spec_witness:
  "case resolve_instrument_identity two_claims of
      Inl e \<Rightarrow> False
    | Inr None \<Rightarrow> \<not> claims_agree (map normal_claim two_claims)
    | Inr (Some r) \<Rightarrow> claims_agree (map normal_claim two_claims) \<and>
        map ii_value (ri_identifiers r) = map (ic_value \<circ> normal_claim) two_claims \<and>
        (\<forall>c \<in> set two_claims.
           ir_instrument_id (ri_instrument r) = instrument_id_text (normal_claim c) \<and>
           (ic_kind_hint c \<noteq> IK_UNKNOWN \<longrightarrow> ir_kind (ri_instrument r) = ic_kind_hint c) \<and>
           (ic_precision_hint c \<noteq> None \<longrightarrow> ir_precision (ri_instrument r) = ic_precision_hint c))"
proof (rule resolve_instrument_identity_spec)
  have "fullmatch IDENTIFIER_SCHEME_PATTERN ''symbol''" "strip '' btc'' \<noteq> []" "strip ''BTC'' \<noteq> []"
    by code_simp+
  then show "\<forall>c \<in> set two_claims. valid_claim c"
    by (simp add: two_claims_def valid_claim_iff negative_int_def)
qed

end
