(* ===== verification/Transactions.thy ===== *)
theory Transactions
  imports Value_Objects Location_Ids Instruments Provenance Py_Json
begin

text \<open>
  \<open>domain/transactions\<close>: the semantics enumerations and their parsers, leg shape limits and
  policies, legs and transaction facts with the validation of their constructors, and the CSV row.
  The theorems: the constructor of a fact accepts exactly the well-formed facts, stated without the
  counting loops; what the shared policies allow; and that the parsers read back the enumerations.
\<close>

definition FACT_SCHEMA_VERSION :: int where "FACT_SCHEMA_VERSION = 2"

section \<open>Enumerations\<close>

datatype economic_kind =
    ASSET_CONVERSION | ASSET_DEPOSIT | ASSET_MIGRATION | ASSET_SWAP | ASSET_WITHDRAWAL
  | CASH_EXPENSE | CASH_WITHDRAWAL | CHAIN_TRANSFER_IN | DERIVATIVE_LOSS
  | DERIVATIVE_PROFIT | FIAT_DEPOSIT | EK_INTEREST_INCOME | P2P_TRADE | PLATFORM_REWARD
  | SPOT_TRADE | STAKING_REWARD | STAKING_TRANSFER_IN | STAKING_TRANSFER_OUT

fun economic_kind_text :: "economic_kind \<Rightarrow> string" where
  "economic_kind_text ASSET_CONVERSION = ''asset_conversion''"
| "economic_kind_text ASSET_DEPOSIT = ''asset_deposit''"
| "economic_kind_text ASSET_MIGRATION = ''asset_migration''"
| "economic_kind_text ASSET_SWAP = ''asset_swap''"
| "economic_kind_text ASSET_WITHDRAWAL = ''asset_withdrawal''"
| "economic_kind_text CASH_EXPENSE = ''cash_expense''"
| "economic_kind_text CASH_WITHDRAWAL = ''cash_withdrawal''"
| "economic_kind_text CHAIN_TRANSFER_IN = ''chain_transfer_in''"
| "economic_kind_text DERIVATIVE_LOSS = ''derivative_realized_loss''"
| "economic_kind_text DERIVATIVE_PROFIT = ''derivative_realized_profit''"
| "economic_kind_text FIAT_DEPOSIT = ''fiat_deposit''"
| "economic_kind_text EK_INTEREST_INCOME = ''interest_income''"
| "economic_kind_text P2P_TRADE = ''p2p_trade''"
| "economic_kind_text PLATFORM_REWARD = ''platform_reward''"
| "economic_kind_text SPOT_TRADE = ''spot_trade''"
| "economic_kind_text STAKING_REWARD = ''staking_reward''"
| "economic_kind_text STAKING_TRANSFER_IN = ''staking_transfer_in''"
| "economic_kind_text STAKING_TRANSFER_OUT = ''staking_transfer_out''"

definition economic_kinds :: "economic_kind list" where
  "economic_kinds =
     [ASSET_CONVERSION, ASSET_DEPOSIT, ASSET_MIGRATION, ASSET_SWAP, ASSET_WITHDRAWAL, CASH_EXPENSE,
      CASH_WITHDRAWAL, CHAIN_TRANSFER_IN, DERIVATIVE_LOSS, DERIVATIVE_PROFIT, FIAT_DEPOSIT,
      EK_INTEREST_INCOME, P2P_TRADE, PLATFORM_REWARD, SPOT_TRADE, STAKING_REWARD,
      STAKING_TRANSFER_IN, STAKING_TRANSFER_OUT]"

datatype projection_hint =
    DEPOSIT | DERIVATIVES_FUTURES_LOSS | DERIVATIVES_FUTURES_PROFIT | EXPENSE_NON_TAXABLE
  | PH_INTEREST_INCOME | REWARD_BONUS | STAKING | SWAP_NON_TAXABLE | TRADE | WITHDRAWAL

fun projection_hint_text :: "projection_hint \<Rightarrow> string" where
  "projection_hint_text DEPOSIT = ''deposit''"
| "projection_hint_text DERIVATIVES_FUTURES_LOSS = ''derivatives_futures_loss''"
| "projection_hint_text DERIVATIVES_FUTURES_PROFIT = ''derivatives_futures_profit''"
| "projection_hint_text EXPENSE_NON_TAXABLE = ''expense_non_taxable''"
| "projection_hint_text PH_INTEREST_INCOME = ''interest_income''"
| "projection_hint_text REWARD_BONUS = ''reward_bonus''"
| "projection_hint_text STAKING = ''staking''"
| "projection_hint_text SWAP_NON_TAXABLE = ''swap_non_taxable''"
| "projection_hint_text TRADE = ''trade''"
| "projection_hint_text WITHDRAWAL = ''withdrawal''"

definition projection_hints :: "projection_hint list" where
  "projection_hints =
     [DEPOSIT, DERIVATIVES_FUTURES_LOSS, DERIVATIVES_FUTURES_PROFIT, EXPENSE_NON_TAXABLE,
      PH_INTEREST_INCOME, REWARD_BONUS, STAKING, SWAP_NON_TAXABLE, TRADE, WITHDRAWAL]"

datatype accounting_intent_hint =
  ASSET_EXCHANGE | EXPENSE_RECOGNITION | FUNDING_INFLOW | FUNDING_OUTFLOW | INCOME_RECOGNITION

fun accounting_intent_text :: "accounting_intent_hint \<Rightarrow> string" where
  "accounting_intent_text ASSET_EXCHANGE = ''asset_exchange''"
| "accounting_intent_text EXPENSE_RECOGNITION = ''expense_recognition''"
| "accounting_intent_text FUNDING_INFLOW = ''funding_inflow''"
| "accounting_intent_text FUNDING_OUTFLOW = ''funding_outflow''"
| "accounting_intent_text INCOME_RECOGNITION = ''income_recognition''"

definition accounting_intents :: "accounting_intent_hint list" where
  "accounting_intents =
     [ASSET_EXCHANGE, EXPENSE_RECOGNITION, FUNDING_INFLOW, FUNDING_OUTFLOW, INCOME_RECOGNITION]"

datatype tax_treatment_hint =
    CAPITAL_EXCHANGE | DERIVATIVE_REALIZED_GAIN | DERIVATIVE_REALIZED_LOSS
  | NON_TAXABLE_ASSET_MIGRATION | NON_TAXABLE_EXPENSE | NON_TAXABLE_TRANSFER_IN
  | NON_TAXABLE_TRANSFER_OUT | ORDINARY_INCOME | STAKING_INCOME

fun tax_treatment_text :: "tax_treatment_hint \<Rightarrow> string" where
  "tax_treatment_text CAPITAL_EXCHANGE = ''capital_exchange''"
| "tax_treatment_text DERIVATIVE_REALIZED_GAIN = ''derivative_realized_gain''"
| "tax_treatment_text DERIVATIVE_REALIZED_LOSS = ''derivative_realized_loss''"
| "tax_treatment_text NON_TAXABLE_ASSET_MIGRATION = ''non_taxable_asset_migration''"
| "tax_treatment_text NON_TAXABLE_EXPENSE = ''non_taxable_expense''"
| "tax_treatment_text NON_TAXABLE_TRANSFER_IN = ''non_taxable_transfer_in''"
| "tax_treatment_text NON_TAXABLE_TRANSFER_OUT = ''non_taxable_transfer_out''"
| "tax_treatment_text ORDINARY_INCOME = ''ordinary_income''"
| "tax_treatment_text STAKING_INCOME = ''staking_income''"

definition tax_treatments :: "tax_treatment_hint list" where
  "tax_treatments =
     [CAPITAL_EXCHANGE, DERIVATIVE_REALIZED_GAIN, DERIVATIVE_REALIZED_LOSS,
      NON_TAXABLE_ASSET_MIGRATION, NON_TAXABLE_EXPENSE, NON_TAXABLE_TRANSFER_IN,
      NON_TAXABLE_TRANSFER_OUT, ORDINARY_INCOME, STAKING_INCOME]"

definition parse_optional_enum ::
    "string \<Rightarrow> ('e \<Rightarrow> string) \<Rightarrow> 'e list \<Rightarrow> string \<Rightarrow> 'e option result" where
  "parse_optional_enum type_name label members v =
     (let stripped = strip v in
      if stripped = [] then Inr None
      else case List.find (\<lambda>e. label e = stripped) members of
        Some e \<Rightarrow> Inr (Some e)
      | None \<Rightarrow> Inl (ValueError (''Unsupported '' @ type_name @ '': '' @ stripped)))"

definition parse_economic_kind :: "string \<Rightarrow> economic_kind option result" where
  "parse_economic_kind = parse_optional_enum ''EconomicKind'' economic_kind_text economic_kinds"

definition parse_projection_hint :: "string \<Rightarrow> projection_hint option result" where
  "parse_projection_hint = parse_optional_enum ''ProjectionHint'' projection_hint_text projection_hints"

definition parse_accounting_intent_hint :: "string \<Rightarrow> accounting_intent_hint option result" where
  "parse_accounting_intent_hint =
     parse_optional_enum ''AccountingIntentHint'' accounting_intent_text accounting_intents"

definition parse_tax_treatment_hint :: "string \<Rightarrow> tax_treatment_hint option result" where
  "parse_tax_treatment_hint = parse_optional_enum ''TaxTreatmentHint'' tax_treatment_text tax_treatments"

datatype leg_kind =
  PRIMARY | CHARGE | REBATE | COLLATERAL | SETTLEMENT | FINANCING | WITHHOLDING | ADJUSTMENT

fun leg_kind_text :: "leg_kind \<Rightarrow> string" where
  "leg_kind_text PRIMARY = ''primary''"
| "leg_kind_text CHARGE = ''charge''"
| "leg_kind_text REBATE = ''rebate''"
| "leg_kind_text COLLATERAL = ''collateral''"
| "leg_kind_text SETTLEMENT = ''settlement''"
| "leg_kind_text FINANCING = ''financing''"
| "leg_kind_text WITHHOLDING = ''withholding''"
| "leg_kind_text ADJUSTMENT = ''adjustment''"

lemma leg_kind_text_inj [simp]: "leg_kind_text j = leg_kind_text k \<longleftrightarrow> j = k"
  by (cases j; cases k) auto

section \<open>Limits and policies\<close>

record leg_shape_limit =
  lim_kind :: leg_kind
  lim_max_count :: int
  lim_min_count :: int
  lim_max_positive_count :: "int option"
  lim_min_positive_count :: "int option"
  lim_max_negative_count :: "int option"
  lim_min_negative_count :: "int option"

definition validate_non_negative_count :: "int \<Rightarrow> string \<Rightarrow> unit result" where
  "validate_non_negative_count v label =
     (if v < 0 then Inl (ValueError (''leg shape limit '' @ label @ '' must be non-negative''))
      else Inr ())"

definition validate_optional_non_negative_count :: "int option \<Rightarrow> string \<Rightarrow> unit result" where
  "validate_optional_non_negative_count v label =
     (case v of None \<Rightarrow> Inr () | Some n \<Rightarrow> validate_non_negative_count n label)"

definition validate_optional_within_max :: "int option \<Rightarrow> string \<Rightarrow> int \<Rightarrow> unit result" where
  "validate_optional_within_max v label max_count =
     (case v of None \<Rightarrow> Inr ()
      | Some n \<Rightarrow> if n > max_count then
          Inl (ValueError (''leg shape limit '' @ label @ '' must not exceed max_count''))
        else Inr ())"

definition validate_optional_min_max ::
    "int option \<Rightarrow> int option \<Rightarrow> string \<Rightarrow> string \<Rightarrow> unit result" where
  "validate_optional_min_max minimum maximum min_label max_label =
     (case (minimum, maximum) of
        (Some a, Some b) \<Rightarrow> if a > b then
          Inl (ValueError (''leg shape limit '' @ min_label @ '' must not exceed '' @ max_label))
          else Inr ()
      | _ \<Rightarrow> Inr ())"

definition validate_leg_shape_counts :: "leg_shape_limit \<Rightarrow> unit result" where
  "validate_leg_shape_counts l =
     r_bind (validate_optional_non_negative_count (lim_min_positive_count l) ''min_positive_count'') (\<lambda>_.
     r_bind (validate_optional_non_negative_count (lim_max_positive_count l) ''max_positive_count'') (\<lambda>_.
     r_bind (validate_optional_non_negative_count (lim_min_negative_count l) ''min_negative_count'') (\<lambda>_.
     r_bind (validate_optional_non_negative_count (lim_max_negative_count l) ''max_negative_count'') (\<lambda>_.
     r_bind (validate_optional_within_max (lim_min_positive_count l) ''min_positive_count'' (lim_max_count l)) (\<lambda>_.
     r_bind (validate_optional_within_max (lim_max_positive_count l) ''max_positive_count'' (lim_max_count l)) (\<lambda>_.
     r_bind (validate_optional_within_max (lim_min_negative_count l) ''min_negative_count'' (lim_max_count l)) (\<lambda>_.
     r_bind (validate_optional_within_max (lim_max_negative_count l) ''max_negative_count'' (lim_max_count l)) (\<lambda>_.
     r_bind (validate_optional_min_max (lim_min_positive_count l) (lim_max_positive_count l)
       ''min_positive_count'' ''max_positive_count'') (\<lambda>_.
     r_bind (validate_optional_min_max (lim_min_negative_count l) (lim_max_negative_count l)
       ''min_negative_count'' ''max_negative_count'') (\<lambda>_.
     case (lim_min_positive_count l, lim_min_negative_count l) of
       (Some p, Some n) \<Rightarrow> if p + n > lim_max_count l then
           Inl (ValueError ''leg shape limit signed minimum counts must not exceed max_count'')
         else Inr ()
     | _ \<Rightarrow> Inr ()))))))))))"

definition mk_leg_shape_limit :: "leg_shape_limit \<Rightarrow> leg_shape_limit result" where
  "mk_leg_shape_limit l =
     r_bind (validate_non_negative_count (lim_min_count l) ''min_count'') (\<lambda>_.
     r_bind (validate_non_negative_count (lim_max_count l) ''max_count'') (\<lambda>_.
     if lim_min_count l > lim_max_count l then
       Inl (ValueError ''leg shape limit min_count must not exceed max_count'')
     else r_bind (validate_leg_shape_counts l) (\<lambda>_. Inr l)))"

type_synonym fact_leg_policy = "leg_shape_limit list"

definition mk_fact_leg_policy :: "leg_shape_limit list \<Rightarrow> fact_leg_policy result" where
  "mk_fact_leg_policy limits =
     (if limits = [] then
        Inl (ValueError ''fact leg policy must declare at least one supported leg kind'')
      else r_bind (r_fold (\<lambda>l seen_kinds.
          if lim_kind l \<in> set seen_kinds then
            Inl (ValueError (''fact leg policy duplicates kind '' @ leg_kind_text (lim_kind l)))
          else Inr (lim_kind l # seen_kinds)) limits []) (\<lambda>_. Inr limits))"

definition limit_for :: "fact_leg_policy \<Rightarrow> leg_kind \<Rightarrow> leg_shape_limit option" where
  "limit_for policy kind = List.find (\<lambda>l. lim_kind l = kind) policy"

section \<open>Legs\<close>

record economic_leg =
  el_leg_id :: string
  el_kind :: leg_kind
  el_instrument_id :: string
  el_quantity :: decimal
  el_subtype :: "string option"
  el_attributed_to_leg_id :: "string option"
  el_location_id :: "string option"

definition LEG_ID_PATTERN :: rexp where
  "LEG_ID_PATTERN = RSeq (RRun 1 (Some 1) scheme_first) (RRun 0 None scheme_char)"

definition LEG_SUBTYPE_PATTERN :: rexp where
  "LEG_SUBTYPE_PATTERN = RSeq (RRun 1 (Some 1) scheme_first) (RRun 0 None scheme_char)"

definition validate_leg_id :: "string \<Rightarrow> string \<Rightarrow> unit result" where
  "validate_leg_id v label =
     r_require (fullmatch LEG_ID_PATTERN v) (ValueError (label @ '' must be lowercase snake_case''))"

definition located_leg :: "economic_leg \<Rightarrow> economic_leg result" where
  "located_leg l =
     (case el_location_id l of
        None \<Rightarrow> Inr l
      | Some loc \<Rightarrow> r_bind (require_location_id loc ''fact leg location_id'') (\<lambda>norm.
          Inr (l\<lparr>el_location_id := Some norm\<rparr>)))"

definition mk_economic_leg :: "economic_leg \<Rightarrow> economic_leg result" where
  "mk_economic_leg l =
     r_bind (validate_leg_id (el_leg_id l) ''fact leg_id'') (\<lambda>_.
     if el_instrument_id l = [] then Inl (ValueError ''fact leg instrument_id must not be blank'')
     else if d_eq (el_quantity l) d_zero then Inl (ValueError ''fact leg quantity must not be zero'')
     else r_bind (located_leg l) (\<lambda>l.
       if el_kind l = PRIMARY \<and> el_attributed_to_leg_id l \<noteq> None then
         Inl (ValueError ''primary legs must not declare attributed_to_leg_id'')
       else r_bind (case el_attributed_to_leg_id l of
           None \<Rightarrow> Inr () | Some a \<Rightarrow> validate_leg_id a ''fact leg attributed_to_leg_id'') (\<lambda>_.
         case el_subtype l of
           None \<Rightarrow> Inr l
         | Some s \<Rightarrow> if fullmatch LEG_SUBTYPE_PATTERN s then Inr l
             else Inl (ValueError ''fact leg subtype must be lowercase snake_case''))))"

section \<open>Counting legs\<close>

definition validate_policy_kind_allowed :: "fact_leg_policy \<Rightarrow> leg_kind \<Rightarrow> unit result" where
  "validate_policy_kind_allowed policy kind =
     r_require (\<exists>l \<in> set policy. lim_kind l = kind)
       (ValueError (''transaction fact leg kind '' @ leg_kind_text kind @
          '' is not allowed by declared leg policy''))"

text \<open>The dictionaries \<open>counts_by_kind\<close>, \<open>signed_counts\<close>, \<open>leg_ids_by_kind\<close> and the set of ids.\<close>

record leg_counts =
  lc_counts_by_kind :: "(string, int) dict"
  lc_signed_counts :: "(string \<times> string, int) dict"
  lc_leg_ids_by_kind :: "(string, string) dict"
  lc_seen_leg_ids :: "string list"

definition bump :: "'k \<Rightarrow> ('k, int) dict \<Rightarrow> ('k, int) dict" where
  "bump k d = AList.update k (dict_get d k 0 + 1) d"

definition leg_sign :: "economic_leg \<Rightarrow> string" where
  "leg_sign l = (if d_lt d_zero (el_quantity l) then ''positive'' else ''negative'')"

definition count_leg :: "fact_leg_policy \<Rightarrow> economic_leg \<Rightarrow> leg_counts \<Rightarrow> leg_counts result" where
  "count_leg policy l s =
     r_bind (validate_policy_kind_allowed policy (el_kind l)) (\<lambda>_.
     let kind_key = leg_kind_text (el_kind l) in
     if el_leg_id l \<in> set (lc_seen_leg_ids s) then
       Inl (ValueError (''transaction fact duplicates leg_id '' @ el_leg_id l))
     else Inr
       \<lparr>lc_counts_by_kind = bump kind_key (lc_counts_by_kind s),
        lc_signed_counts = bump (kind_key, leg_sign l) (lc_signed_counts s),
        lc_leg_ids_by_kind = (if kind_key = ''primary''
          then AList.update (el_leg_id l) kind_key (lc_leg_ids_by_kind s) else lc_leg_ids_by_kind s),
        lc_seen_leg_ids = el_leg_id l # lc_seen_leg_ids s\<rparr>)"

definition no_counts :: leg_counts where
  "no_counts = \<lparr>lc_counts_by_kind = [], lc_signed_counts = [], lc_leg_ids_by_kind = [], lc_seen_leg_ids = []\<rparr>"

definition fact_leg_counts :: "economic_leg list \<Rightarrow> fact_leg_policy \<Rightarrow> leg_counts result" where
  "fact_leg_counts legs policy = r_fold (count_leg policy) legs no_counts"

definition validate_fact_total_count :: "leg_shape_limit \<Rightarrow> int \<Rightarrow> unit result" where
  "validate_fact_total_count l n =
     (if n < lim_min_count l then
        Inl (ValueError (''transaction fact '' @ leg_kind_text (lim_kind l) @
          '' legs fall below declared leg policy''))
      else if n > lim_max_count l then
        Inl (ValueError (''transaction fact '' @ leg_kind_text (lim_kind l) @
          '' legs exceed declared leg policy''))
      else Inr ())"

definition validate_fact_signed_count :: "leg_shape_limit \<Rightarrow> string \<Rightarrow> int \<Rightarrow> unit result" where
  "validate_fact_signed_count l sign n =
     (let min_count = (if sign = ''positive'' then lim_min_positive_count l else lim_min_negative_count l);
          max_count = (if sign = ''positive'' then lim_max_positive_count l else lim_max_negative_count l);
          label = (if sign = ''positive'' then ''positive'' else ''negative'')
      in if (case min_count of None \<Rightarrow> False | Some m \<Rightarrow> n < m) then
           Inl (ValueError (''transaction fact '' @ label @ '' '' @ leg_kind_text (lim_kind l) @
             '' legs fall below declared leg policy''))
         else if (case max_count of None \<Rightarrow> False | Some m \<Rightarrow> n > m) then
           Inl (ValueError (''transaction fact '' @ label @ '' '' @ leg_kind_text (lim_kind l) @
             '' legs exceed declared leg policy''))
         else Inr ())"

definition validate_fact_counts :: "fact_leg_policy \<Rightarrow> leg_counts \<Rightarrow> unit result" where
  "validate_fact_counts policy s =
     r_fold (\<lambda>l _.
       let kind_key = leg_kind_text (lim_kind l) in
       r_bind (validate_fact_total_count l (dict_get (lc_counts_by_kind s) kind_key 0)) (\<lambda>_.
       r_bind (validate_fact_signed_count l ''positive''
         (dict_get (lc_signed_counts s) (kind_key, ''positive'') 0)) (\<lambda>_.
       validate_fact_signed_count l ''negative''
         (dict_get (lc_signed_counts s) (kind_key, ''negative'') 0)))) policy ()"

definition validate_fact_leg_attribution :: "economic_leg list \<Rightarrow> (string, string) dict \<Rightarrow> unit result" where
  "validate_fact_leg_attribution legs leg_ids_by_kind =
     r_fold (\<lambda>l _.
       case el_attributed_to_leg_id l of
         None \<Rightarrow> Inr ()
       | Some a \<Rightarrow> r_require (a \<in> fst ` set leg_ids_by_kind) (ValueError
           ''transaction fact attributed_to_leg_id must reference one primary leg in the same fact''))
       legs ()"

section \<open>Facts\<close>

record fact_semantics =
  fs_economic_kind :: economic_kind
  fs_accounting_intent_hint :: accounting_intent_hint
  fs_tax_treatment_hint :: tax_treatment_hint
  fs_projection_hint :: "projection_hint option"

record transaction_fact =
  tf_fact_id :: string
  tf_source :: string
  tf_adapter_id :: string
  tf_timestamp :: datetime
  tf_location_id :: string
  tf_semantics :: fact_semantics
  tf_legs :: "economic_leg list"
  tf_leg_policy :: fact_leg_policy
  tf_description :: string
  tf_provider_operation_key :: string
  tf_operation_group_id :: string
  tf_tx_hash :: "string option"
  tf_raw_file :: string
  tf_raw_row_ref :: string
  tf_confidence :: string
  tf_status :: string
  tf_effective_at :: "datetime option"
  tf_effective_precision :: "temporal_precision option"

definition checked_effective_at :: "transaction_fact \<Rightarrow> transaction_fact result" where
  "checked_effective_at f =
     (case tf_effective_at f of
        None \<Rightarrow>
          if tf_effective_precision f \<noteq> None then
            Inl (ValueError ''transaction fact effective_precision requires effective_at'')
          else Inr f
      | Some t \<Rightarrow>
          (case tf_effective_precision f of
             None \<Rightarrow> Inl (ValueError ''transaction fact effective_at requires effective_precision'')
           | Some p \<Rightarrow>
               r_bind (require_temporal_datetime t p ''transaction fact effective_at'') (\<lambda>t.
                 Inr (f\<lparr>tf_effective_at := Some t\<rparr>))))"

definition mk_transaction_fact :: "transaction_fact \<Rightarrow> transaction_fact result" where
  "mk_transaction_fact f =
     r_bind (require_utc_datetime (tf_timestamp f) ''transaction fact timestamp'') (\<lambda>timestamp.
     r_bind (require_location_id (tf_location_id f) ''transaction fact location_id'') (\<lambda>loc.
     r_bind (checked_effective_at (f\<lparr>tf_timestamp := timestamp, tf_location_id := loc\<rparr>)) (\<lambda>f.
     if tf_legs f = [] then Inl (ValueError ''transaction fact must include at least one leg'')
     else
       r_bind (fact_leg_counts (tf_legs f) (tf_leg_policy f)) (\<lambda>counts.
       r_bind (validate_fact_counts (tf_leg_policy f) counts) (\<lambda>_.
       r_bind (validate_fact_leg_attribution (tf_legs f) (lc_leg_ids_by_kind counts)) (\<lambda>_.
         Inr f))))))"

definition leg_json :: "economic_leg \<Rightarrow> json" where
  "leg_json l = JObject
     [(''leg_id'', JString (el_leg_id l)), (''kind'', JString (leg_kind_text (el_kind l))),
      (''subtype'', JString (case el_subtype l of None \<Rightarrow> [] | Some s \<Rightarrow> s)),
      (''instrument_id'', JString (el_instrument_id l)),
      (''quantity'', JString (format_decimal (Some (el_quantity l)))),
      (''attributed_to_leg_id'', JString (case el_attributed_to_leg_id l of None \<Rightarrow> [] | Some s \<Rightarrow> s)),
      (''location_id'', JString (case el_location_id l of None \<Rightarrow> [] | Some s \<Rightarrow> s))]"

definition optional_int_json :: "int option \<Rightarrow> json" where
  "optional_int_json n = (case n of None \<Rightarrow> JNull | Some i \<Rightarrow> JInt i)"

definition leg_policy_json :: "fact_leg_policy \<Rightarrow> json list" where
  "leg_policy_json policy =
     map (\<lambda>l. JObject
       [(''kind'', JString (leg_kind_text (lim_kind l))), (''min_count'', JInt (lim_min_count l)),
        (''max_count'', JInt (lim_max_count l)),
        (''min_positive_count'', optional_int_json (lim_min_positive_count l)),
        (''max_positive_count'', optional_int_json (lim_max_positive_count l)),
        (''min_negative_count'', optional_int_json (lim_min_negative_count l)),
        (''max_negative_count'', optional_int_json (lim_max_negative_count l))])
       (sort_key (\<lambda>l. leg_kind_text (lim_kind l)) policy)"

definition fact_json_text :: "json list \<Rightarrow> string" where
  "fact_json_text payload = dumps (JArray payload)"

definition fact_to_row :: "transaction_fact \<Rightarrow> row result" where
  "fact_to_row f =
     r_bind (format_timestamp (tf_timestamp f)) (\<lambda>timestamp.
     r_bind (case (tf_effective_at f, tf_effective_precision f) of
         (Some t, Some p) \<Rightarrow> format_temporal_value t p ''transaction fact effective_at''
       | _ \<Rightarrow> Inr []) (\<lambda>effective_at.
       Inr [(''schema_version'', int_text FACT_SCHEMA_VERSION), (''fact_id'', tf_fact_id f),
         (''source'', tf_source f), (''adapter_id'', tf_adapter_id f), (''timestamp'', timestamp),
         (''effective_at'', effective_at),
         (''effective_precision'', case tf_effective_precision f of
            None \<Rightarrow> [] | Some p \<Rightarrow> temporal_precision_text p),
         (''location_id'', tf_location_id f),
         (''economic_kind'', economic_kind_text (fs_economic_kind (tf_semantics f))),
         (''projection_hint'', case fs_projection_hint (tf_semantics f) of
            None \<Rightarrow> [] | Some h \<Rightarrow> projection_hint_text h),
         (''accounting_intent_hint'', accounting_intent_text (fs_accounting_intent_hint (tf_semantics f))),
         (''tax_treatment_hint'', tax_treatment_text (fs_tax_treatment_hint (tf_semantics f))),
         (''description'', tf_description f),
         (''provider_operation_key'', tf_provider_operation_key f),
         (''operation_group_id'', tf_operation_group_id f),
         (''tx_hash'', case tf_tx_hash f of None \<Rightarrow> [] | Some h \<Rightarrow> h),
         (''raw_file'', tf_raw_file f), (''raw_row_ref'', tf_raw_row_ref f),
         (''confidence'', tf_confidence f), (''status'', tf_status f),
         (''legs'', fact_json_text (map leg_json (tf_legs f))),
         (''leg_policy'', fact_json_text (leg_policy_json (tf_leg_policy f)))]))"

section \<open>Shared policies\<close>

definition SINGLE_PRIMARY_ACTIVITY_POLICY :: fact_leg_policy where
  "SINGLE_PRIMARY_ACTIVITY_POLICY =
     [\<lparr>lim_kind = PRIMARY, lim_max_count = 1, lim_min_count = 1, lim_max_positive_count = Some 1,
       lim_min_positive_count = None, lim_max_negative_count = Some 1, lim_min_negative_count = None\<rparr>]"

definition TWO_SIDED_PRIMARY_EXCHANGE_POLICY :: fact_leg_policy where
  "TWO_SIDED_PRIMARY_EXCHANGE_POLICY =
     [\<lparr>lim_kind = PRIMARY, lim_max_count = 2, lim_min_count = 2, lim_max_positive_count = Some 1,
       lim_min_positive_count = Some 1, lim_max_negative_count = Some 1,
       lim_min_negative_count = Some 1\<rparr>]"

definition TWO_SIDED_PRIMARY_EXCHANGE_WITH_SINGLE_CHARGE_POLICY :: fact_leg_policy where
  "TWO_SIDED_PRIMARY_EXCHANGE_WITH_SINGLE_CHARGE_POLICY =
     [\<lparr>lim_kind = PRIMARY, lim_max_count = 2, lim_min_count = 2, lim_max_positive_count = Some 1,
       lim_min_positive_count = Some 1, lim_max_negative_count = Some 1,
       lim_min_negative_count = Some 1\<rparr>,
      \<lparr>lim_kind = CHARGE, lim_max_count = 1, lim_min_count = 0, lim_max_positive_count = Some 0,
       lim_min_positive_count = None, lim_max_negative_count = Some 1, lim_min_negative_count = None\<rparr>]"

section \<open>Well-formed facts\<close>

definition in_bounds :: "int option \<Rightarrow> int \<Rightarrow> int option \<Rightarrow> bool" where
  "in_bounds lo n hi \<longleftrightarrow> (\<forall>m. lo = Some m \<longrightarrow> m \<le> n) \<and> (\<forall>m. hi = Some m \<longrightarrow> n \<le> m)"

definition legs_of_kind :: "economic_leg list \<Rightarrow> leg_kind \<Rightarrow> economic_leg list" where
  "legs_of_kind legs k = filter (\<lambda>l. el_kind l = k) legs"

definition inflow :: "economic_leg \<Rightarrow> bool" where
  "inflow l \<longleftrightarrow> 0 < dval (el_quantity l)"

definition limit_respected :: "economic_leg list \<Rightarrow> leg_shape_limit \<Rightarrow> bool" where
  "limit_respected legs m \<longleftrightarrow>
     (let ls = legs_of_kind legs (lim_kind m) in
      lim_min_count m \<le> int (length ls) \<and> int (length ls) \<le> lim_max_count m \<and>
      in_bounds (lim_min_positive_count m) (int (length (filter inflow ls))) (lim_max_positive_count m) \<and>
      in_bounds (lim_min_negative_count m) (int (length (filter (\<lambda>l. \<not> inflow l) ls))) (lim_max_negative_count m))"

definition well_formed_legs :: "fact_leg_policy \<Rightarrow> economic_leg list \<Rightarrow> bool" where
  "well_formed_legs policy legs \<longleftrightarrow>
     legs \<noteq> [] \<and> el_kind ` set legs \<subseteq> lim_kind ` set policy \<and> distinct (map el_leg_id legs) \<and>
     (\<forall>m \<in> set policy. limit_respected legs m) \<and>
     (\<forall>l \<in> set legs. \<forall>a. el_attributed_to_leg_id l = Some a \<longrightarrow>
       (\<exists>p \<in> set legs. el_kind p = PRIMARY \<and> el_leg_id p = a))"

lemma r_fold_unit: "r_fold (\<lambda>x _. g x) xs () = Inr u \<longleftrightarrow> (\<forall>x \<in> set xs. g x = Inr ())"
  by (induction xs) (auto simp: result_simps)

lemma dict_get_bump:
  "dict_get (bump k d) j 0 = dict_get d j 0 + (if j = k then 1 else 0)"
  by (simp add: dict_get_def bump_def update_conv' split: option.split)

lemma validate_policy_kind_allowed_iff:
  "validate_policy_kind_allowed policy k = Inr u \<longleftrightarrow> k \<in> lim_kind ` set policy"
  by (auto simp: validate_policy_kind_allowed_def result_simps)

lemma leg_sign_iff: "leg_sign l = ''positive'' \<longleftrightarrow> inflow l" "leg_sign l = ''negative'' \<longleftrightarrow> \<not> inflow l"
  by (simp_all add: leg_sign_def inflow_def d_lt_iff)

lemma update_key_set: "fst ` set (AList.update k v d) = insert k (fst ` set d)"
  using dom_update [of k v d] by (simp add: dom_map_of_conv_image_fst)

lemma count_leg_iff:
  "count_leg policy l s = Inr s' \<longleftrightarrow>
     el_kind l \<in> lim_kind ` set policy \<and> el_leg_id l \<notin> set (lc_seen_leg_ids s) \<and>
     s' = \<lparr>lc_counts_by_kind = bump (leg_kind_text (el_kind l)) (lc_counts_by_kind s),
        lc_signed_counts = bump (leg_kind_text (el_kind l), leg_sign l) (lc_signed_counts s),
        lc_leg_ids_by_kind = (if el_kind l = PRIMARY
          then AList.update (el_leg_id l) ''primary'' (lc_leg_ids_by_kind s) else lc_leg_ids_by_kind s),
        lc_seen_leg_ids = el_leg_id l # lc_seen_leg_ids s\<rparr>"
  using leg_kind_text_inj [of "el_kind l" PRIMARY]
  by (auto simp: count_leg_def r_bind_Inr_iff validate_policy_kind_allowed_iff Let_def simp del: leg_kind_text_inj)

definition counted :: "economic_leg list \<Rightarrow> leg_counts \<Rightarrow> bool" where
  "counted legs s \<longleftrightarrow>
     set (lc_seen_leg_ids s) = el_leg_id ` set legs \<and>
     fst ` set (lc_leg_ids_by_kind s) = el_leg_id ` set (legs_of_kind legs PRIMARY) \<and>
     (\<forall>k. dict_get (lc_counts_by_kind s) (leg_kind_text k) 0 = int (length (legs_of_kind legs k)) \<and>
       dict_get (lc_signed_counts s) (leg_kind_text k, ''positive'') 0 =
         int (length (filter inflow (legs_of_kind legs k))) \<and>
       dict_get (lc_signed_counts s) (leg_kind_text k, ''negative'') 0 =
         int (length (filter (\<lambda>l. \<not> inflow l) (legs_of_kind legs k))))"

lemma counted_step:
  assumes "counted legs s" and "count_leg policy l s = Inr s'"
  shows "counted (legs @ [l]) s'"
  using assms
  by (auto simp: counted_def count_leg_iff dict_get_bump legs_of_kind_def update_key_set leg_sign_def
      inflow_def d_lt_iff split: if_splits)

lemma fact_leg_counts_Inr:
  "fact_leg_counts legs policy = Inr s \<Longrightarrow> counted legs s"
proof (induction legs arbitrary: s rule: rev_induct)
  case Nil
  then have "s = no_counts" by (simp add: fact_leg_counts_def)
  then show ?case by (simp add: no_counts_def counted_def legs_of_kind_def dict_get_def)
next
  case (snoc l legs)
  then obtain s0 where "fact_leg_counts legs policy = Inr s0" "count_leg policy l s0 = Inr s"
    by (auto simp: fact_leg_counts_def r_fold_append result_simps)
  then show ?case using snoc.IH counted_step by blast
qed

lemma fact_leg_counts_ok:
  "is_ok (fact_leg_counts legs policy) \<longleftrightarrow>
     el_kind ` set legs \<subseteq> lim_kind ` set policy \<and> distinct (map el_leg_id legs)"
proof (induction legs rule: rev_induct)
  case Nil
  show ?case by (simp add: fact_leg_counts_def)
next
  case (snoc l legs)
  have "is_ok (fact_leg_counts (legs @ [l]) policy) \<longleftrightarrow>
      (\<exists>s. fact_leg_counts legs policy = Inr s \<and> el_kind l \<in> lim_kind ` set policy \<and>
        el_leg_id l \<notin> set (lc_seen_leg_ids s))"
    by (auto simp: fact_leg_counts_def r_fold_append is_ok_iff r_bind_Inr_iff count_leg_iff)
  also have "\<dots> \<longleftrightarrow> is_ok (fact_leg_counts legs policy) \<and> el_kind l \<in> lim_kind ` set policy \<and>
      el_leg_id l \<notin> el_leg_id ` set legs"
    using fact_leg_counts_Inr [of legs policy] by (auto simp: is_ok_iff counted_def)
  finally show ?case using snoc.IH by auto
qed

lemma validate_counts_iff:
  assumes "counted legs s"
  shows "validate_fact_counts policy s = Inr u \<longleftrightarrow> (\<forall>m \<in> set policy. limit_respected legs m)"
proof -
  have total: "validate_fact_total_count m n = Inr v \<longleftrightarrow> lim_min_count m \<le> n \<and> n \<le> lim_max_count m"
    for m n v by (auto simp: validate_fact_total_count_def)
  have pos: "validate_fact_signed_count m ''positive'' n = Inr v \<longleftrightarrow>
      in_bounds (lim_min_positive_count m) n (lim_max_positive_count m)" for m n v
    by (auto simp: validate_fact_signed_count_def in_bounds_def Let_def split: option.splits)
  have neg: "validate_fact_signed_count m ''negative'' n = Inr v \<longleftrightarrow>
      in_bounds (lim_min_negative_count m) n (lim_max_negative_count m)" for m n v
    by (auto simp: validate_fact_signed_count_def in_bounds_def Let_def split: option.splits)
  show ?thesis
    using assms
    by (simp add: validate_fact_counts_def r_fold_unit Let_def r_bind_Inr_iff total pos neg counted_def
        limit_respected_def)
qed

lemma validate_attribution_iff:
  assumes "counted legs s"
  shows "validate_fact_leg_attribution legs (lc_leg_ids_by_kind s) = Inr u \<longleftrightarrow>
    (\<forall>l \<in> set legs. \<forall>a. el_attributed_to_leg_id l = Some a \<longrightarrow>
      (\<exists>p \<in> set legs. el_kind p = PRIMARY \<and> el_leg_id p = a))"
proof -
  have ids: "a \<in> fst ` set (lc_leg_ids_by_kind s) \<longleftrightarrow> (\<exists>p \<in> set legs. el_kind p = PRIMARY \<and> el_leg_id p = a)"
    for a
    using assms by (auto simp: counted_def legs_of_kind_def)
  show ?thesis
    unfolding validate_fact_leg_attribution_def r_fold_unit ids
    by (auto simp: r_require_Inr_iff split: option.splits)
qed

section \<open>Properties\<close>

definition effective_ok :: "transaction_fact \<Rightarrow> bool" where
  "effective_ok f \<longleftrightarrow>
     (case (tf_effective_at f, tf_effective_precision f) of
        (None, None) \<Rightarrow> True
      | (Some t, Some p) \<Rightarrow> utcoffset t = Some 0 \<and> (p = DATE \<longrightarrow> midnight t)
      | _ \<Rightarrow> False)"

lemma checked_effective_at_iff: "checked_effective_at f = Inr f' \<longleftrightarrow> effective_ok f \<and> f' = f"
  by (cases f) (auto simp: checked_effective_at_def effective_ok_def result_simps split: option.splits)

lemma legs_validated_iff:
  "(\<exists>counts. fact_leg_counts legs policy = Inr counts \<and> validate_fact_counts policy counts = Inr () \<and>
      validate_fact_leg_attribution legs (lc_leg_ids_by_kind counts) = Inr ()) \<and> legs \<noteq> [] \<longleftrightarrow>
   well_formed_legs policy legs"
proof (cases "fact_leg_counts legs policy")
  case (Inl e)
  then show ?thesis
    using fact_leg_counts_ok [of legs policy] by (auto simp: well_formed_legs_def)
next
  case (Inr s)
  then have c: "counted legs s" by (rule fact_leg_counts_Inr)
  show ?thesis
    using fact_leg_counts_ok [of legs policy] validate_counts_iff [OF c] validate_attribution_iff [OF c]
    by (auto simp: Inr well_formed_legs_def)
qed

lemma mk_transaction_fact_iff:
  "mk_transaction_fact f = Inr f' \<longleftrightarrow>
     utcoffset (tf_timestamp f) = Some 0 \<and>
     (\<exists>loc. require_location_id (tf_location_id f) ''transaction fact location_id'' = Inr loc \<and>
       f' = f\<lparr>tf_location_id := loc\<rparr>) \<and>
     effective_ok f \<and> well_formed_legs (tf_leg_policy f) (tf_legs f)"
proof -
  have "effective_ok (f\<lparr>tf_location_id := loc\<rparr>) = effective_ok f" for loc by (simp add: effective_ok_def)
  then show ?thesis
    unfolding mk_transaction_fact_def legs_validated_iff [symmetric]
    by (auto simp: r_bind_Inr_iff require_utc_iff checked_effective_at_iff)
qed

text \<open>
  C23: The constructor of a transaction fact accepts exactly the well-formed facts and only
  normalises the location: a UTC timestamp, a supported location, an effective time with its
  precision or neither, at least one leg, leg ids distinct, every kind of leg allowed by the
  policy, for each limit of the policy the number of legs of its kind, and of those that flow in
  and out, within the bounds, and every attribution to a primary leg of the fact.
\<close>

theorem fact_accepted_iff:
  "mk_transaction_fact f = Inr f' \<longleftrightarrow>
     utcoffset (tf_timestamp f) = Some 0 \<and>
     (\<exists>loc. require_location_id (tf_location_id f) ''transaction fact location_id'' = Inr loc \<and>
       f' = f\<lparr>tf_location_id := loc\<rparr>) \<and>
     effective_ok f \<and> well_formed_legs (tf_leg_policy f) (tf_legs f)"
  by (rule mk_transaction_fact_iff)

lemma exchange_shape:
  assumes "well_formed_legs TWO_SIDED_PRIMARY_EXCHANGE_WITH_SINGLE_CHARGE_POLICY legs"
  shows "length (filter inflow (legs_of_kind legs PRIMARY)) = 1"
    and "length (filter (\<lambda>l. \<not> inflow l) (legs_of_kind legs PRIMARY)) = 1"
    and "length (legs_of_kind legs CHARGE) \<le> 1"
    and "filter inflow (legs_of_kind legs CHARGE) = []"
    and "el_kind ` set legs \<subseteq> {PRIMARY, CHARGE}"
  using assms
  by (auto simp: well_formed_legs_def TWO_SIDED_PRIMARY_EXCHANGE_WITH_SINGLE_CHARGE_POLICY_def
      limit_respected_def in_bounds_def Let_def)

text \<open>
  C35: A fact accepted under the exchange policy with one charge has exactly one primary leg in and
  one out, no other legs but at most one charge, and a charge never flows in.
\<close>

theorem exchange_fact_shape:
  assumes "mk_transaction_fact f = Inr f'"
    and "tf_leg_policy f = TWO_SIDED_PRIMARY_EXCHANGE_WITH_SINGLE_CHARGE_POLICY"
  shows "\<exists>received given. filter inflow (legs_of_kind (tf_legs f') PRIMARY) = [received] \<and>
    filter (\<lambda>l. \<not> inflow l) (legs_of_kind (tf_legs f') PRIMARY) = [given] \<and>
    length (tf_legs f') \<le> 3 \<and>
    (\<forall>l \<in> set (tf_legs f') - {received, given}. el_kind l = CHARGE \<and> \<not> inflow l)"
proof -
  have wf: "well_formed_legs TWO_SIDED_PRIMARY_EXCHANGE_WITH_SINGLE_CHARGE_POLICY (tf_legs f)"
    and legs: "tf_legs f' = tf_legs f"
    using assms by (auto simp: mk_transaction_fact_iff)
  note shape = exchange_shape [OF wf]
  from shape(1) obtain received where r: "filter inflow (legs_of_kind (tf_legs f) PRIMARY) = [received]"
    by (auto simp: length_Suc_conv)
  from shape(2) obtain given where g: "filter (\<lambda>l. \<not> inflow l) (legs_of_kind (tf_legs f) PRIMARY) = [given]"
    by (auto simp: length_Suc_conv)
  have charge: "el_kind l = CHARGE \<and> \<not> inflow l" if "l \<in> set (tf_legs f) - {received, given}" for l
  proof -
    have "l \<notin> set (filter inflow (legs_of_kind (tf_legs f) PRIMARY))"
      "l \<notin> set (filter (\<lambda>l. \<not> inflow l) (legs_of_kind (tf_legs f) PRIMARY))"
      using that by (simp_all add: r g)
    then have "el_kind l = CHARGE" using that shape(5) by (auto simp: legs_of_kind_def)
    moreover have "l \<notin> set (filter inflow (legs_of_kind (tf_legs f) CHARGE))" by (simp add: shape(4))
    ultimately show ?thesis using that by (auto simp: legs_of_kind_def)
  qed
  have "length (tf_legs f) = length (legs_of_kind (tf_legs f) PRIMARY) +
      length (filter (\<lambda>l. el_kind l \<noteq> PRIMARY) (tf_legs f))"
    by (simp add: legs_of_kind_def sum_length_filter_compl)
  moreover have "filter (\<lambda>l. el_kind l \<noteq> PRIMARY) (tf_legs f) = legs_of_kind (tf_legs f) CHARGE"
    using shape(5) by (auto simp: legs_of_kind_def intro!: filter_cong)
  moreover have "length (legs_of_kind (tf_legs f) PRIMARY) = 2"
    using sum_length_filter_compl [of inflow "legs_of_kind (tf_legs f) PRIMARY"] shape(1,2) by simp
  ultimately have "length (tf_legs f) \<le> 3" using shape(3) by simp
  then show ?thesis using charge r g unfolding legs by blast
qed

text \<open>
  Every enumeration value is read back from its text by the parser of its type, and blank text
  is no value.
\<close>

lemma enum_parsers_round_trip:
  "parse_economic_kind (economic_kind_text k) = Inr (Some k) \<and>
   parse_projection_hint (projection_hint_text h) = Inr (Some h) \<and>
   parse_accounting_intent_hint (accounting_intent_text i) = Inr (Some i) \<and>
   parse_tax_treatment_hint (tax_treatment_text t) = Inr (Some t) \<and>
   parse_economic_kind '' '' = Inr None"
proof (intro conjI)
  show "parse_economic_kind (economic_kind_text k) = Inr (Some k)" by (induction k; code_simp)
  show "parse_projection_hint (projection_hint_text h) = Inr (Some h)" by (induction h; code_simp)
  show "parse_accounting_intent_hint (accounting_intent_text i) = Inr (Some i)" by (induction i; code_simp)
  show "parse_tax_treatment_hint (tax_treatment_text t) = Inr (Some t)" by (induction t; code_simp)
  show "parse_economic_kind '' '' = Inr None" by code_simp
qed

section \<open>Witnesses\<close>

definition sample_fact_leg :: "string \<Rightarrow> leg_kind \<Rightarrow> int \<Rightarrow> economic_leg" where
  "sample_fact_leg i k q =
     \<lparr>el_leg_id = i, el_kind = k, el_instrument_id = ''symbol:BTC'', el_quantity = Decimal q 0,
      el_subtype = None, el_attributed_to_leg_id = None, el_location_id = None\<rparr>"

definition sample_fact :: transaction_fact where
  "sample_fact =
     \<lparr>tf_fact_id = ''f'', tf_source = ''coinbase'', tf_adapter_id = ''coinbase.retail'',
      tf_timestamp = DateTime 2024 3 4 5 6 7 0 (Some 0), tf_location_id = ''coinbase:retail'',
      tf_semantics = \<lparr>fs_economic_kind = SPOT_TRADE, fs_accounting_intent_hint = ASSET_EXCHANGE,
        fs_tax_treatment_hint = CAPITAL_EXCHANGE, fs_projection_hint = Some TRADE\<rparr>,
      tf_legs = [sample_fact_leg ''a'' PRIMARY 5, sample_fact_leg ''b'' PRIMARY (-7),
        sample_fact_leg ''c'' CHARGE (-1)],
      tf_leg_policy = TWO_SIDED_PRIMARY_EXCHANGE_WITH_SINGLE_CHARGE_POLICY,
      tf_description = [], tf_provider_operation_key = [], tf_operation_group_id = [],
      tf_tx_hash = None, tf_raw_file = [], tf_raw_row_ref = [], tf_confidence = ''high'',
      tf_status = ''mapped'', tf_effective_at = None, tf_effective_precision = None\<rparr>"

lemma sample_fact_ok: "mk_transaction_fact sample_fact = Inr sample_fact"
proof -
  have "require_location_id ''coinbase:retail'' ''transaction fact location_id'' = Inr ''coinbase:retail''"
    by code_simp
  then show ?thesis
    unfolding mk_transaction_fact_iff
    by (simp add: sample_fact_def sample_fact_leg_def effective_ok_def well_formed_legs_def
        TWO_SIDED_PRIMARY_EXCHANGE_WITH_SINGLE_CHARGE_POLICY_def limit_respected_def in_bounds_def
        legs_of_kind_def inflow_def dval_def Let_def)
qed

theorem exchange_fact_shape_witness:
  "\<exists>received given. filter inflow (legs_of_kind (tf_legs sample_fact) PRIMARY) = [received] \<and>
    filter (\<lambda>l. \<not> inflow l) (legs_of_kind (tf_legs sample_fact) PRIMARY) = [given] \<and>
    length (tf_legs sample_fact) \<le> 3"
proof -
  have "tf_leg_policy sample_fact = TWO_SIDED_PRIMARY_EXCHANGE_WITH_SINGLE_CHARGE_POLICY"
    by (simp add: sample_fact_def)
  from exchange_fact_shape [OF sample_fact_ok this] show ?thesis by blast
qed

end
