(* ===== verification/Balance_Derivation.thy ===== *)
theory Balance_Derivation
  imports Balance_Assertions Transactions
begin

text \<open>
  \<open>application/balances/snapshots.py\<close>, the fact-driven half of \<open>targets.py\<close> and
  \<open>planning.py\<close>: which balances a set of transaction facts calls for, and the quantity the facts
  give for a balance at its instant. \<open>posted\<close> is the declarative reading of the nested loops of
  \<open>derive_balance_snapshots\<close>: the quantities of the legs of the target's source, location and
  instrument up to its instant, in the order of the facts.
\<close>

section \<open>Legs and balances\<close>

text \<open>\<open>leg.location_id or fact.location_id\<close>.\<close>

definition leg_location :: "transaction_fact \<Rightarrow> economic_leg \<Rightarrow> string" where
  "leg_location f leg =
     (case el_location_id leg of
        None \<Rightarrow> tf_location_id f
      | Some loc \<Rightarrow> if loc = [] then tf_location_id f else loc)"

definition leg_hits_target :: "balance_target \<Rightarrow> transaction_fact \<Rightarrow> economic_leg \<Rightarrow> bool" where
  "leg_hits_target target f leg \<longleftrightarrow>
     leg_location f leg = bt_location_id target \<and> el_instrument_id leg = bt_instrument_id target"

section \<open>Snapshots at a cutoff\<close>

definition add_fact :: "balance_target \<Rightarrow> transaction_fact \<Rightarrow> decimal \<Rightarrow> decimal" where
  "add_fact target f quantity =
     (if tf_timestamp f > bt_target_at target then quantity
      else fold (\<lambda>leg q. if leg_hits_target target f leg then d_add q (el_quantity leg) else q)
        (tf_legs f) quantity)"

definition missing_facts_issue :: "balance_target \<Rightarrow> issue_record result" where
  "missing_facts_issue target =
     r_bind (format_temporal_value (bt_target_at target) (bt_target_precision target)
         ''missing facts balance target_at'') (\<lambda>context.
       Inr (balance_issue (target_id_parts target @ [''missing_facts_for_balance_target''])
         (bt_source target) ''missing_facts_for_balance_target''
         ''No facts were available to derive the requested balance target.'' context []))"

type_synonym snapshot_state = "balance_snapshot list \<times> issue_record list"

definition derive_step ::
    "(string, transaction_fact list) dict \<Rightarrow> balance_target \<Rightarrow> snapshot_state \<Rightarrow> snapshot_state result" where
  "derive_step grouped_facts target st =
     (let source_facts = dict_get grouped_facts (bt_source target) [];
          quantity = fold (add_fact target) source_facts d_zero
      in r_bind (mk_balance_snapshot \<lparr>bs_target = target, bs_quantity = quantity,
             bs_snapshot_basis = ''fact_cutoff'', bs_notes = []\<rparr>) (\<lambda>snapshot.
         if source_facts = [] then
           r_bind (missing_facts_issue target) (\<lambda>issue.
             Inr (fst st @ [snapshot], snd st @ [issue]))
         else Inr (fst st @ [snapshot], snd st)))"

definition derive_balance_snapshots ::
    "transaction_fact list \<Rightarrow> balance_target list \<Rightarrow> snapshot_state result" where
  "derive_balance_snapshots facts targets =
     r_fold (derive_step (group_by tf_source facts)) targets ([], [])"

section \<open>Targets from facts\<close>

type_synonym balance_key = "string \<times> string \<times> string \<times> string"

definition leg_target_key :: "transaction_fact \<Rightarrow> economic_leg \<Rightarrow> balance_key" where
  "leg_target_key f leg =
     (tf_source f, leg_location f leg, el_instrument_id leg, ''available'')"

definition keep_latest :: "balance_key \<times> datetime \<Rightarrow> (balance_key, datetime) dict \<Rightarrow> (balance_key, datetime) dict" where
  "keep_latest = (\<lambda>(key, timestamp) latest.
     AList.update key (case map_of latest key of None \<Rightarrow> timestamp | Some current \<Rightarrow> max current timestamp)
       latest)"

definition leg_times :: "transaction_fact list \<Rightarrow> (balance_key \<times> datetime) list" where
  "leg_times facts =
     concat (map (\<lambda>f. map (\<lambda>leg. (leg_target_key f leg, tf_timestamp f)) (tf_legs f)) facts)"

definition latest_by_key :: "transaction_fact list \<Rightarrow> (balance_key, datetime) dict" where
  "latest_by_key facts = fold keep_latest (leg_times facts) []"

definition target_of_key :: "balance_key \<Rightarrow> datetime \<Rightarrow> temporal_precision \<Rightarrow> balance_target" where
  "target_of_key key moment precision =
     (case key of (source, location_id, instrument_id, balance_kind) \<Rightarrow>
       \<lparr>bt_source = source, bt_location_id = location_id, bt_instrument_id = instrument_id,
        bt_balance_kind = balance_kind, bt_target_at = moment, bt_target_precision = precision\<rparr>)"

definition latest_balance_targets :: "transaction_fact list \<Rightarrow> balance_target list result" where
  "latest_balance_targets facts =
     r_map (\<lambda>(key, moment). mk_balance_target (target_of_key key moment TIMESTAMP))
       (sort_key fst (latest_by_key facts))"

definition targets_for_as_of_values ::
    "transaction_fact list \<Rightarrow> (datetime \<times> temporal_precision) list \<Rightarrow> balance_target list result" where
  "targets_for_as_of_values facts requested_times =
     r_map (\<lambda>(key, moment, precision). mk_balance_target (target_of_key key moment precision))
       (concat (map (\<lambda>key. map (\<lambda>requested. (key, requested)) requested_times)
         (sorted_distinct (map fst (leg_times facts)))))"

section \<open>Planning\<close>

definition select_targets_for_requested_times ::
    "balance_target list \<Rightarrow> (datetime \<times> temporal_precision) list \<Rightarrow> balance_target list" where
  "select_targets_for_requested_times targets requested_times =
     filter (\<lambda>target. \<exists>(target_at, precision) \<in> set requested_times. bt_target_at target = target_at) targets"

definition has_fact_coverage_for_target :: "transaction_fact list \<Rightarrow> balance_target \<Rightarrow> bool" where
  "has_fact_coverage_for_target facts target \<longleftrightarrow>
     (\<exists>f \<in> set facts. \<not> (tf_source f \<noteq> bt_source target \<or> tf_timestamp f > bt_target_at target) \<and>
        (\<exists>leg \<in> set (tf_legs f). leg_hits_target target f leg))"

definition missing_fact_coverage_issue :: "balance_target \<Rightarrow> issue_record result" where
  "missing_fact_coverage_issue target =
     r_bind (format_temporal_value (bt_target_at target) (bt_target_precision target)
         ''missing fact coverage balance target_at'') (\<lambda>context.
       Inr (balance_issue (target_id_parts target @ [''missing_fact_coverage_for_reference_target''])
         (bt_source target) ''missing_fact_coverage_for_reference_target''
         (''A statement-backed balance target was selected, but no exact fact '' @
          ''coverage exists for that source, location, instrument, and target_at. '' @
          ''This source gap must be resolved explicitly rather than inferred.'')
         context []))"

definition missing_fact_coverage_issues ::
    "transaction_fact list \<Rightarrow> balance_target list \<Rightarrow> issue_record list result" where
  "missing_fact_coverage_issues facts targets =
     r_map missing_fact_coverage_issue
       (filter (\<lambda>target. \<not> has_fact_coverage_for_target facts target) targets)"

section \<open>The cutoff quantity\<close>

definition posted :: "transaction_fact list \<Rightarrow> balance_target \<Rightarrow> decimal list" where
  "posted facts target =
     concat (map (\<lambda>f. map el_quantity (filter (leg_hits_target target f) (tf_legs f)))
       (filter (\<lambda>f. tf_source f = bt_source target \<and> tf_timestamp f \<le> bt_target_at target) facts))"

lemma fold_hits:
  "fold (\<lambda>leg q. if P leg then d_add q (el_quantity leg) else q) legs q =
     foldl d_add q (map el_quantity (filter P legs))"
  by (induction legs arbitrary: q) simp_all

lemma add_fact_hits:
  "add_fact t f q = foldl d_add q
     (if tf_timestamp f \<le> bt_target_at t then map el_quantity (filter (leg_hits_target t f) (tf_legs f)) else [])"
  by (cases "tf_timestamp f \<le> bt_target_at t") (simp_all add: add_fact_def fold_hits not_le [symmetric])

lemma cutoff_quantity:
  "fold (add_fact t) (filter (\<lambda>f. tf_source f = bt_source t) facts) q = foldl d_add q (posted facts t)"
  by (induction facts arbitrary: q) (auto simp: posted_def add_fact_hits)

definition cutoff_snapshot :: "transaction_fact list \<Rightarrow> balance_target \<Rightarrow> balance_snapshot" where
  "cutoff_snapshot facts t =
     \<lparr>bs_target = t, bs_quantity = d_sum (posted facts t), bs_snapshot_basis = ''fact_cutoff'', bs_notes = []\<rparr>"

definition unsourced :: "transaction_fact list \<Rightarrow> balance_target \<Rightarrow> bool" where
  "unsourced facts t \<longleftrightarrow> bt_source t \<notin> tf_source ` set facts"

lemma derive_step_ok:
  "derive_step (group_by tf_source facts) t st =
     r_bind (if unsourced facts t then r_map missing_facts_issue [t] else Inr []) (\<lambda>issues.
       Inr (fst st @ [cutoff_snapshot facts t], snd st @ issues))"
proof -
  have none: "filter (\<lambda>f. tf_source f = bt_source t) facts = [] \<longleftrightarrow> unsourced facts t"
    unfolding unsourced_def by (rule filter_key_empty)
  have basis: "strip ''fact_cutoff'' \<noteq> []" by code_simp
  show ?thesis
    unfolding derive_step_def dict_get_group_by Let_def cutoff_quantity none d_sum_def [symmetric]
    by (cases "missing_facts_issue t") (simp_all add: mk_balance_snapshot_def basis cutoff_snapshot_def)
qed

lemma derive_run:
  assumes "\<forall>t \<in> set targets. \<exists>i. missing_facts_issue t = Inr i"
  shows "\<exists>issues. derive_balance_snapshots facts targets = Inr (map (cutoff_snapshot facts) targets, issues) \<and>
    r_map missing_facts_issue (filter (unsourced facts) targets) = Inr issues"
proof -
  have "\<exists>issues. r_fold (derive_step (group_by tf_source facts)) targets (ss, is) =
      Inr (ss @ map (cutoff_snapshot facts) targets, is @ issues) \<and>
      r_map missing_facts_issue (filter (unsourced facts) targets) = Inr issues" for ss "is"
    using assms
  proof (induction targets arbitrary: ss "is")
    case (Cons t targets)
    then obtain i where i: "missing_facts_issue t = Inr i" by auto
    have rest: "\<exists>issues. r_fold (derive_step (group_by tf_source facts)) targets (ss', is') =
        Inr (ss' @ map (cutoff_snapshot facts) targets, is' @ issues) \<and>
        r_map missing_facts_issue (filter (unsourced facts) targets) = Inr issues" for ss' is'
      using Cons.IH [of ss' is'] Cons.prems by simp
    show ?case
    proof (cases "unsourced facts t")
      case True
      then show ?thesis using rest [of "ss @ [cutoff_snapshot facts t]" "is @ [i]"]
        by (auto simp: derive_step_ok [of facts t] i)
    next
      case False
      then show ?thesis using rest [of "ss @ [cutoff_snapshot facts t]" "is"]
        by (auto simp: derive_step_ok [of facts t])
    qed
  qed simp
  from this [of "[]" "[]"] show ?thesis by (simp add: derive_balance_snapshots_def)
qed

lemma target_issue_ok: "valid_target t \<Longrightarrow> \<exists>i. missing_facts_issue t = Inr i"
  using valid_target_format [of t "''missing facts balance target_at''"]
  by (auto simp: missing_facts_issue_def)

lemma missing_facts_issue_id:
  "missing_facts_issue t = Inr i \<Longrightarrow>
     iss_issue_id i = join '':'' (target_id_parts t @ [''missing_facts_for_balance_target''])"
  by (auto simp: missing_facts_issue_def balance_issue_def result_simps)


text \<open>
When the posted legs have a common grid (a number of decimal places) and their absolute
  values add up to less than \<open>10\<^sup>2\<^sup>8\<close> grid units, the derived balance is their exact sum: the
  decimal context never rounds.
\<close>

lemma derived_quantity_exact:
  assumes "\<forall>t \<in> set targets. valid_target t"
    and "derive_balance_snapshots facts targets = Inr (snapshots, issues)" and "s \<in> set snapshots"
    and "\<forall>q \<in> set (posted facts (bs_target s)). on_grid g (dval q)"
    and "(\<Sum>q\<leftarrow>posted facts (bs_target s). \<bar>dval q\<bar>) < 10 ^ 28 * 10 powi g"
  shows "dval (bs_quantity s) = (\<Sum>q\<leftarrow>posted facts (bs_target s). dval q)"
proof -
  have "snapshots = map (cutoff_snapshot facts) targets"
    using derive_run [of targets facts] assms(1,2) target_issue_ok by fastforce
  then have "bs_quantity s = d_sum (posted facts (bs_target s))"
    using assms(3) by (auto simp: cutoff_snapshot_def)
  then show ?thesis using d_sum_exact [OF assms(4,5)] by simp
qed

section \<open>The latest balances\<close>

definition times_of :: "'k \<Rightarrow> ('k \<times> 't) list \<Rightarrow> 't list" where
  "times_of k ps = map snd (filter (\<lambda>p. fst p = k) ps)"

lemma keep_latest_fold:
  "distinct (map fst (fold keep_latest ps [])) \<and> set (map fst (fold keep_latest ps [])) = fst ` set ps \<and>
   map_of (fold keep_latest ps []) k =
     (if times_of k ps = [] then None else Some (Max (set (times_of k ps))))"
proof (induction ps arbitrary: k rule: rev_induct)
  case Nil
  show ?case by (simp add: times_of_def)
next
  case (snoc p ps)
  obtain j t where p: "p = (j, t)" by (cases p)
  have step: "fold keep_latest (ps @ [p]) [] = AList.update j
      (case map_of (fold keep_latest ps []) j of None \<Rightarrow> t | Some c \<Rightarrow> max c t) (fold keep_latest ps [])"
    by (simp add: p keep_latest_def)
  have upd: "set (map fst (AList.update j v d)) = insert j (set (map fst d))" for v and d :: "(balance_key, datetime) dict"
    using update_key_set [of j v d] by simp
  have times: "times_of k (ps @ [p]) = times_of k ps @ (if j = k then [t] else [])"
    by (simp add: times_of_def p)
  have "map_of (fold keep_latest ps []) j =
      (if times_of j ps = [] then None else Some (Max (set (times_of j ps))))"
    and "map_of (fold keep_latest ps []) k =
      (if times_of k ps = [] then None else Some (Max (set (times_of k ps))))"
    using snoc.IH by blast+
  then have "map_of (fold keep_latest (ps @ [p]) []) k =
      (if times_of k (ps @ [p]) = [] then None else Some (Max (set (times_of k (ps @ [p])))))"
    unfolding step update_conv' times by (simp add: max.commute)
  then show ?case unfolding step upd using snoc.IH [of k] by (auto simp: p distinct_update)
qed

lemma latest_entry:
  assumes "(k, t) \<in> set (latest_by_key facts)"
  shows "(k, t) \<in> set (leg_times facts)" and "(k, t') \<in> set (leg_times facts) \<Longrightarrow> t' \<le> t"
proof -
  let ?ts = "times_of k (leg_times facts)"
  have "map_of (latest_by_key facts) k = Some t"
    using keep_latest_fold [of "leg_times facts" k] assms unfolding latest_by_key_def
    by (metis map_of_is_SomeI)
  then have t: "?ts \<noteq> []" "t = Max (set ?ts)"
    using keep_latest_fold [of "leg_times facts" k] unfolding latest_by_key_def by (auto split: if_splits)
  then have "t \<in> set ?ts" using Max_in [of "set ?ts"] by simp
  then show "(k, t) \<in> set (leg_times facts)" by (auto simp: times_of_def)
  assume "(k, t') \<in> set (leg_times facts)"
  then have "t' \<in> set ?ts" by (force simp: times_of_def)
  then show "t' \<le> t" unfolding t(2) by simp
qed

definition target_key_of :: "balance_target \<Rightarrow> balance_key" where
  "target_key_of t = (bt_source t, bt_location_id t, bt_instrument_id t, bt_balance_kind t)"

lemma target_of_key_simps [simp]:
  "target_key_of (target_of_key k moment p) = k" "bt_target_at (target_of_key k moment p) = moment"
  "bt_target_precision (target_of_key k moment p) = p"
  by (cases k; simp add: target_of_key_def target_key_of_def)+

lemma leg_times_mem:
  "(k, t) \<in> set (leg_times facts) \<longleftrightarrow>
     (\<exists>f \<in> set facts. \<exists>leg \<in> set (tf_legs f). k = leg_target_key f leg \<and> t = tf_timestamp f)"
  by (auto simp: leg_times_def)

text \<open>Facts and legs as their constructors leave them.\<close>

definition valid_fact :: "transaction_fact \<Rightarrow> bool" where
  "valid_fact f \<longleftrightarrow> mk_transaction_fact f = Inr f \<and> (\<forall>leg \<in> set (tf_legs f). mk_economic_leg leg = Inr leg)"

lemma mk_economic_leg_located:
  assumes "mk_economic_leg l = Inr l'"
  shows "located_leg l = Inr l' \<and> el_instrument_id l \<noteq> []"
  using assms by (simp add: mk_economic_leg_def r_bind_Inr_iff split: if_splits option.splits) blast+

lemma valid_leg_location:
  assumes "valid_fact f" and "leg \<in> set (tf_legs f)"
  shows "require_location_id (leg_location f leg) [] = Inr (leg_location f leg)"
    and "el_instrument_id leg \<noteq> []"
proof -
  have "mk_transaction_fact f = Inr f" using assms(1) by (simp add: valid_fact_def)
  then obtain n where n: "require_location_id (tf_location_id f) ''transaction fact location_id'' = Inr n"
      "f = f\<lparr>tf_location_id := n\<rparr>"
    unfolding mk_transaction_fact_iff by blast
  have f: "require_location_id (tf_location_id f) [] = Inr (tf_location_id f)"
    using require_location_id_idem [OF n(1)] arg_cong [OF n(2), of tf_location_id] by simp
  have l: "mk_economic_leg leg = Inr leg" using assms by (simp add: valid_fact_def)
  then show "el_instrument_id leg \<noteq> []" using mk_economic_leg_located by blast
  have "require_location_id loc [] = Inr loc" if loc: "el_location_id leg = Some loc" for loc
  proof -
    obtain n where n: "require_location_id loc ''fact leg location_id'' = Inr n"
        "leg\<lparr>el_location_id := Some n\<rparr> = leg"
      using mk_economic_leg_located [OF l] loc by (auto simp: located_leg_def r_bind_Inr_iff)
    have "el_location_id leg = Some n" using arg_cong [OF n(2), of el_location_id] by simp
    then show ?thesis using require_location_id_idem [OF n(1)] loc by simp
  qed
  then show "require_location_id (leg_location f leg) [] = Inr (leg_location f leg)"
    using f by (auto simp: leg_location_def split: option.split)
qed

lemma require_location_label:
  "require_location_id v label = Inr l \<longleftrightarrow> require_location_id v [] = Inr l"
  by (simp add: require_location_id_iff)

lemma available_kind: "normalize_balance_kind ''available'' = ''available''"
  by code_simp

lemma key_target_valid:
  assumes "\<forall>f \<in> set facts. valid_fact f" and "k \<in> fst ` set (leg_times facts)"
    and "utcoffset moment = Some 0" and "p = DATE \<longrightarrow> midnight moment"
  shows "mk_balance_target (target_of_key k moment p) = Inr (target_of_key k moment p)"
proof -
  obtain f leg where f: "f \<in> set facts" "leg \<in> set (tf_legs f)" "k = leg_target_key f leg"
    using assms(2) by (auto simp: leg_times_mem)
  have "valid_target (target_of_key k moment p)"
    unfolding valid_target_iff f(3) leg_target_key_def target_of_key_def
    using valid_leg_location [of f leg] f assms by (simp add: available_kind)
  then show ?thesis by (simp add: valid_target_def)
qed

lemma valid_fact_utc: "valid_fact f \<Longrightarrow> utcoffset (tf_timestamp f) = Some 0"
  by (simp add: valid_fact_def mk_transaction_fact_iff)

lemma latest_targets_run:
  assumes "\<forall>f \<in> set facts. valid_fact f"
  shows "latest_balance_targets facts =
    Inr (map (\<lambda>(k, t). target_of_key k t TIMESTAMP) (sort_key fst (latest_by_key facts)))"
  unfolding latest_balance_targets_def
proof (rule r_map_all_ok)
  fix p assume p: "p \<in> set (sort_key fst (latest_by_key facts))"
  obtain k t where kt: "p = (k, t)" by (cases p)
  have e: "(k, t) \<in> set (leg_times facts)" using latest_entry(1) p by (simp add: kt)
  then have "utcoffset t = Some 0" using assms valid_fact_utc by (auto simp: leg_times_mem)
  moreover have "k \<in> fst ` set (leg_times facts)" using e by force
  ultimately show "(case p of (key, moment) \<Rightarrow> mk_balance_target (target_of_key key moment TIMESTAMP)) =
      Inr (case p of (k, t) \<Rightarrow> target_of_key k t TIMESTAMP)"
    using key_target_valid [OF assms] by (simp add: kt)
qed

lemma latest_targets_props:
  assumes "\<forall>f \<in> set facts. valid_fact f" and "latest_balance_targets facts = Inr targets"
  shows "map target_key_of targets = sorted_distinct (map fst (leg_times facts))"
    and "\<forall>t \<in> set targets. valid_target t \<and> bt_target_precision t = TIMESTAMP \<and>
      (target_key_of t, bt_target_at t) \<in> set (leg_times facts) \<and>
      (\<forall>moment. (target_key_of t, moment) \<in> set (leg_times facts) \<longrightarrow> moment \<le> bt_target_at t)"
proof -
  have ts: "targets = map (\<lambda>(k, t). target_of_key k t TIMESTAMP) (sort_key fst (latest_by_key facts))"
    using assms latest_targets_run by simp
  have d: "distinct (map fst (latest_by_key facts))" "set (map fst (latest_by_key facts)) = fst ` set (leg_times facts)"
    using keep_latest_fold [of "leg_times facts"] unfolding latest_by_key_def by blast+
  have "map target_key_of targets = map fst (sort_key fst (latest_by_key facts))"
    by (simp add: ts split_def)
  also have "\<dots> = sorted_distinct (map fst (leg_times facts))"
    by (rule sorted_distinct_set_unique) (use d in \<open>simp_all add: distinct_map\<close>)
  finally show "map target_key_of targets = sorted_distinct (map fst (leg_times facts))" .
  have "valid_target t" if "t \<in> set targets" for t
  proof -
    have "t \<in> set targets" "r_map (\<lambda>(key, moment). mk_balance_target (target_of_key key moment TIMESTAMP))
       (sort_key fst (latest_by_key facts)) = Inr targets"
      using that assms(2) by (simp_all add: latest_balance_targets_def)
    then obtain k moment where "mk_balance_target (target_of_key k moment TIMESTAMP) = Inr t"
      using r_map_set by (metis (no_types, lifting) case_prod_conv surj_pair)
    then show ?thesis by (rule mk_balance_target_valid)
  qed
  moreover have "bt_target_precision t = TIMESTAMP \<and>
      (target_key_of t, bt_target_at t) \<in> set (leg_times facts) \<and>
      (\<forall>moment. (target_key_of t, moment) \<in> set (leg_times facts) \<longrightarrow> moment \<le> bt_target_at t)"
    if t: "t \<in> set targets" for t
  proof -
    obtain k m where "(k, m) \<in> set (latest_by_key facts)" "t = target_of_key k m TIMESTAMP"
      using t by (auto simp: ts)
    then show ?thesis using latest_entry [of k m facts] by simp
  qed
  ultimately show "\<forall>t \<in> set targets. valid_target t \<and> bt_target_precision t = TIMESTAMP \<and>
      (target_key_of t, bt_target_at t) \<in> set (leg_times facts) \<and>
      (\<forall>moment. (target_key_of t, moment) \<in> set (leg_times facts) \<longrightarrow> moment \<le> bt_target_at t)"
    by blast
qed

text \<open>
  The latest targets of valid facts always exist: one valid target per source, location and
  instrument that a leg names, in sorted order, at the greatest timestamp of the facts with such
  a leg.
\<close>

lemma latest_targets_cover:
  assumes "\<forall>f \<in> set facts. valid_fact f"
  shows "\<exists>targets. latest_balance_targets facts = Inr targets \<and>
    map target_key_of targets = sorted_distinct (map fst (leg_times facts)) \<and>
    (\<forall>t \<in> set targets. valid_target t \<and> (target_key_of t, bt_target_at t) \<in> set (leg_times facts) \<and>
      (\<forall>moment. (target_key_of t, moment) \<in> set (leg_times facts) \<longrightarrow> moment \<le> bt_target_at t))"
proof -
  obtain targets where t: "latest_balance_targets facts = Inr targets"
    using latest_targets_run [OF assms] by blast
  show ?thesis using t latest_targets_props [OF assms t] by blast
qed

text \<open>All quantities of a key, whatever their time.\<close>

definition all_posted :: "transaction_fact list \<Rightarrow> balance_key \<Rightarrow> decimal list" where
  "all_posted facts k =
     concat (map (\<lambda>f. map el_quantity (filter (\<lambda>leg. leg_target_key f leg = k) (tf_legs f))) facts)"

lemma hits_iff_key:
  assumes "bt_balance_kind t = ''available''"
  shows "leg_target_key f leg = target_key_of t \<longleftrightarrow> tf_source f = bt_source t \<and> leg_hits_target t f leg"
  using assms by (auto simp: leg_target_key_def target_key_of_def leg_hits_target_def)

lemma posted_all:
  assumes "bt_balance_kind t = ''available''"
    and "\<And>moment. (target_key_of t, moment) \<in> set (leg_times facts) \<Longrightarrow> moment \<le> bt_target_at t"
  shows "posted facts t = all_posted facts (target_key_of t)"
  using assms(2)
proof (induction facts)
  case (Cons f facts)
  have IH: "posted facts t = all_posted facts (target_key_of t)"
    by (rule Cons.IH) (rule Cons.prems, auto simp: leg_times_def)
  note h = hits_iff_key [OF assms(1)]
  have "filter (\<lambda>leg. leg_target_key f leg = target_key_of t) (tf_legs f) = []"
    if "\<not> (tf_source f = bt_source t \<and> tf_timestamp f \<le> bt_target_at t)"
    unfolding filter_empty_conv
  proof
    fix leg assume leg: "leg \<in> set (tf_legs f)"
    have "tf_timestamp f \<le> bt_target_at t" if "leg_target_key f leg = target_key_of t"
      by (rule Cons.prems) (use leg that in \<open>force simp: leg_times_mem\<close>)
    then show "leg_target_key f leg \<noteq> target_key_of t"
      using that h by blast
  qed
  moreover have "filter (leg_hits_target t f) (tf_legs f) =
      filter (\<lambda>leg. leg_target_key f leg = target_key_of t) (tf_legs f)" if "tf_source f = bt_source t"
    using that h by simp
  ultimately show ?case using IH by (simp add: posted_def all_posted_def)
qed (simp add: posted_def all_posted_def)

lemma coverage_iff_posted: "has_fact_coverage_for_target facts t \<longleftrightarrow> posted facts t \<noteq> []"
  unfolding has_fact_coverage_for_target_def posted_def
  by (auto simp: not_less filter_empty_conv)

lemma leg_times_key_kind: "(k, m) \<in> set (leg_times facts) \<Longrightarrow> snd (snd (snd k)) = ''available''"
  by (auto simp: leg_times_mem leg_target_key_def)


lemma coverage_issue_run:
  assumes "valid_target t"
  shows "\<exists>i. missing_fact_coverage_issue t = Inr i \<and>
    iss_issue_id i = join '':'' (target_id_parts t @ [''missing_fact_coverage_for_reference_target''])"
  using valid_target_format [OF assms, of "''missing fact coverage balance target_at''"]
  by (auto simp: missing_fact_coverage_issue_def balance_issue_def)

text \<open>
Fact coverage is reported missing for exactly the targets that no leg was posted to by
  their instant, that is for the targets whose derived balance is an unsupported zero.
\<close>

lemma missing_coverage_exact:
  assumes "\<forall>t \<in> set targets. valid_target t"
  shows "\<exists>issues. missing_fact_coverage_issues facts targets = Inr issues \<and>
    map iss_issue_id issues =
      map (\<lambda>t. join '':'' (target_id_parts t @ [''missing_fact_coverage_for_reference_target'']))
        (filter (\<lambda>t. posted facts t = []) targets)"
proof -
  have "\<exists>issues. r_map missing_fact_coverage_issue ts = Inr issues \<and> map iss_issue_id issues =
      map (\<lambda>t. join '':'' (target_id_parts t @ [''missing_fact_coverage_for_reference_target''])) ts"
    if "\<forall>t \<in> set ts. valid_target t" for ts
    using that
  proof (induction ts)
    case (Cons t ts)
    obtain i where "missing_fact_coverage_issue t = Inr i"
        "iss_issue_id i = join '':'' (target_id_parts t @ [''missing_fact_coverage_for_reference_target''])"
      using coverage_issue_run Cons.prems by auto
    with Cons show ?case by auto
  qed simp
  from this [of "filter (\<lambda>t. posted facts t = []) targets"] assms show ?thesis
    by (simp add: missing_fact_coverage_issues_def coverage_iff_posted)
qed

text \<open>
The targets for requested instants are the cross product: for every source, location and
  instrument that a leg names, in sorted order, one target per requested instant, in the order of
  the request; selecting them by those instants keeps them all.
\<close>

lemma as_of_targets_cross_product:
  assumes "\<forall>f \<in> set facts. valid_fact f"
    and "\<forall>(moment, p) \<in> set requested. utcoffset moment = Some 0 \<and> (p = DATE \<longrightarrow> midnight moment)"
  shows "\<exists>targets. targets_for_as_of_values facts requested = Inr targets \<and>
    map (\<lambda>t. (target_key_of t, bt_target_at t, bt_target_precision t)) targets =
      List.product (sorted_distinct (map fst (leg_times facts))) requested \<and>
    select_targets_for_requested_times targets requested = targets"
proof -
  let ?ps = "List.product (sorted_distinct (map fst (leg_times facts))) requested"
  let ?f = "\<lambda>(key, moment, precision). target_of_key key moment precision"
  have prod: "List.product ks rs = concat (map (\<lambda>k. map (\<lambda>r. (k, r)) rs) ks)" for ks :: "'a list" and rs :: "'b list"
    by (induction ks) simp_all
  have run: "targets_for_as_of_values facts requested = Inr (map ?f ?ps)"
    unfolding targets_for_as_of_values_def prod [symmetric]
  proof (rule r_map_all_ok)
    fix x assume x: "x \<in> set ?ps"
    obtain k m p where kmp: "x = (k, m, p)" by (cases x)
    have "k \<in> fst ` set (leg_times facts)" "(m, p) \<in> set requested" using x by (auto simp: kmp)
    with assms(2) show "(case x of (key, moment, precision) \<Rightarrow> mk_balance_target (target_of_key key moment precision)) =
        Inr (?f x)"
      using key_target_valid [OF assms(1), of k m p] by (auto simp: kmp)
  qed
  have keys: "map (\<lambda>t. (target_key_of t, bt_target_at t, bt_target_precision t)) (map ?f ?ps) = ?ps"
    by (simp add: split_def comp_def)
  have "select_targets_for_requested_times (map ?f ?ps) requested = map ?f ?ps"
    unfolding select_targets_for_requested_times_def filter_id_conv by auto
  then show ?thesis using run keys by blast
qed

section \<open>Witnesses\<close>

lemma sample_valid_fact: "valid_fact sample_fact"
proof -
  have "validate_leg_id ''a'' ''fact leg_id'' = Inr ()" "validate_leg_id ''b'' ''fact leg_id'' = Inr ()"
    "validate_leg_id ''c'' ''fact leg_id'' = Inr ()"
    by code_simp+
  moreover have "\<not> d_eq (Decimal 5 0) d_zero" "\<not> d_eq (Decimal (-7) 0) d_zero" "\<not> d_eq (Decimal (-1) 0) d_zero"
    by code_simp+
  ultimately have "\<forall>leg \<in> set (tf_legs sample_fact). mk_economic_leg leg = Inr leg"
    by (simp add: sample_fact_def sample_fact_leg_def mk_economic_leg_def located_leg_def)
  then show ?thesis using sample_fact_ok by (simp add: valid_fact_def)
qed

definition sample_cutoff :: balance_target where
  "sample_cutoff =
     \<lparr>bt_source = ''coinbase'', bt_location_id = ''coinbase:retail'', bt_instrument_id = ''symbol:BTC'',
      bt_balance_kind = ''available'', bt_target_at = DateTime 2024 3 5 0 0 0 0 (Some 0),
      bt_target_precision = DATE\<rparr>"

lemma sample_cutoff_valid: "valid_target sample_cutoff"
proof -
  have "require_location_id ''coinbase:retail'' [] = Inr ''coinbase:retail''" by code_simp
  then show ?thesis by (simp add: valid_target_iff sample_cutoff_def available_kind midnight_def)
qed

lemma sample_cutoff_posted: "posted [sample_fact] sample_cutoff = [Decimal 5 0, Decimal (-7) 0, Decimal (-1) 0]"
  by (simp add: posted_def sample_fact_def sample_fact_leg_def sample_cutoff_def leg_hits_target_def
      leg_location_def less_eq_datetime_def dt_key_def)


lemma derived_quantity_exact_witness:
  "\<exists>snapshots issues s. derive_balance_snapshots [sample_fact] [sample_cutoff] = Inr (snapshots, issues) \<and>
    s \<in> set snapshots \<and> dval (bs_quantity s) = (\<Sum>q\<leftarrow>posted [sample_fact] sample_cutoff. dval q)"
proof -
  have v: "\<forall>t \<in> set [sample_cutoff]. valid_target t" by (simp add: sample_cutoff_valid)
  obtain issues where d: "derive_balance_snapshots [sample_fact] [sample_cutoff] =
      Inr ([cutoff_snapshot [sample_fact] sample_cutoff], issues)"
    using derive_run [of "[sample_cutoff]" "[sample_fact]"] v target_issue_ok by auto
  have t: "bs_target (cutoff_snapshot [sample_fact] sample_cutoff) = sample_cutoff"
    by (simp add: cutoff_snapshot_def)
  have g: "\<forall>q \<in> set (posted [sample_fact] sample_cutoff). on_grid 0 (dval q)"
    unfolding sample_cutoff_posted using on_grid_dval [of "Decimal _ 0"] by simp
  have "dval (bs_quantity (cutoff_snapshot [sample_fact] sample_cutoff)) =
      (\<Sum>q\<leftarrow>posted [sample_fact] (bs_target (cutoff_snapshot [sample_fact] sample_cutoff)). dval q)"
    by (rule derived_quantity_exact [OF v d, where g = 0])
      (simp_all add: t g, simp add: sample_cutoff_posted dval_def)
  then show ?thesis unfolding t using d by (metis list.set_intros(1))
qed

lemma latest_targets_cover_witness:
  "\<exists>targets. latest_balance_targets [sample_fact] = Inr targets \<and>
    map target_key_of targets = sorted_distinct (map fst (leg_times [sample_fact])) \<and>
    (\<forall>t \<in> set targets. valid_target t \<and> (target_key_of t, bt_target_at t) \<in> set (leg_times [sample_fact]) \<and>
      (\<forall>moment. (target_key_of t, moment) \<in> set (leg_times [sample_fact]) \<longrightarrow> moment \<le> bt_target_at t))"
  by (rule latest_targets_cover) (simp add: sample_valid_fact)


lemma missing_coverage_exact_witness:
  "\<exists>issues. missing_fact_coverage_issues [sample_fact] [sample_cutoff, sample_target 5] = Inr issues \<and>
    map iss_issue_id issues =
      map (\<lambda>t. join '':'' (target_id_parts t @ [''missing_fact_coverage_for_reference_target'']))
        (filter (\<lambda>t. posted [sample_fact] t = []) [sample_cutoff, sample_target 5])"
  by (rule missing_coverage_exact) (simp add: sample_cutoff_valid sample_valid)

lemma as_of_targets_cross_product_witness:
  "\<exists>targets. targets_for_as_of_values [sample_fact] [(DateTime 2024 3 5 0 0 0 0 (Some 0), TIMESTAMP)] = Inr targets \<and>
    map (\<lambda>t. (target_key_of t, bt_target_at t, bt_target_precision t)) targets =
      List.product (sorted_distinct (map fst (leg_times [sample_fact])))
        [(DateTime 2024 3 5 0 0 0 0 (Some 0), TIMESTAMP)] \<and>
    select_targets_for_requested_times targets [(DateTime 2024 3 5 0 0 0 0 (Some 0), TIMESTAMP)] = targets"
  by (rule as_of_targets_cross_product) (simp_all add: sample_valid_fact)

end
