(* ===== verification/Balance_References.thy ===== *)
theory Balance_References
  imports Balance_Derivation Location_Ids
begin

text \<open>
  \<open>application/balances/references.py\<close> with the providers it asks: the registry of
  \<open>infrastructure/discovery/balance_providers/registry.py\<close> and the two provider stubs under
  \<open>adapters/balance_providers/providers/\<close>. A provider is a value of a type \<open>'p\<close> that the
  registry gives a family, a support test and a fetch function. What the resolver needs of the
  providers is the locale \<open>provider_contract\<close> (one answer per request, in order); the stubs meet
  it. Distances between instants are exact microseconds: the float seconds of the code order
  differences below \<open>2\<^sup>3\<^sup>3\<close> seconds (272 years) the same way.
\<close>

section \<open>Missing references\<close>

text \<open>\<open>min(xs, key=f)\<close>: the first of the smallest elements.\<close>

definition min_first :: "('a \<Rightarrow> 'b::linorder) \<Rightarrow> 'a list \<Rightarrow> 'a" where
  "min_first key xs = fold (\<lambda>y best. if key y < key best then y else best) (tl xs) (hd xs)"

definition same_subject :: "balance_target \<Rightarrow> balance_reference \<Rightarrow> bool" where
  "same_subject target r \<longleftrightarrow>
     bt_source (br_target r) = bt_source target \<and>
     bt_location_id (br_target r) = bt_location_id target \<and>
     bt_instrument_id (br_target r) = bt_instrument_id target \<and>
     bt_balance_kind (br_target r) = bt_balance_kind target"

definition target_distance :: "balance_target \<Rightarrow> balance_reference \<Rightarrow> int" where
  "target_distance target r =
     \<bar>unix_microseconds (bt_target_at (br_target r)) - unix_microseconds (bt_target_at target)\<bar>"

definition nearest_reference :: "balance_target \<Rightarrow> balance_reference list \<Rightarrow> balance_reference option" where
  "nearest_reference target references =
     (let matching = filter (same_subject target) references in
      if matching = [] then None else Some (min_first (target_distance target) matching))"

definition missing_reference_issue ::
    "balance_reference list \<Rightarrow> string \<Rightarrow> balance_target \<Rightarrow> issue_record result" where
  "missing_reference_issue existing_references kind target =
     r_bind
       (case nearest_reference target existing_references of
          None \<Rightarrow> Inr ''No balance reference satisfied the requested target.''
        | Some nearest \<Rightarrow>
            r_bind (format_temporal_value (bt_target_at (br_target nearest))
                (bt_target_precision (br_target nearest)) ''nearest balance reference target_at'') (\<lambda>target_at.
              Inr (''No balance reference satisfied the requested target. Closest available '' @
                spaces_for_underscores (reference_kind_text (br_reference_kind nearest)) @
                '' reference target_at is '' @ target_at @ ''.'')))
       (\<lambda>message.
          r_bind (format_temporal_value (bt_target_at target) (bt_target_precision target)
              ''missing balance reference target_at'') (\<lambda>context.
            Inr (balance_issue (target_id_parts target @ [kind]) (bt_source target) kind
              message context [])))"

section \<open>Providers\<close>

record balance_provider_request =
  brq_target :: balance_target

record 'p balance_provider_registry =
  reg_providers :: "'p list"
  reg_supports_target :: "'p \<Rightarrow> balance_provider_request \<Rightarrow> bool"
  reg_fetch_references :: "'p \<Rightarrow> balance_provider_request list \<Rightarrow> balance_provider_result list"

definition provider_for_requests ::
    "'p balance_provider_registry \<Rightarrow> balance_provider_request list \<Rightarrow> 'p option" where
  "provider_for_requests registry requests =
     (if requests = [] then None
      else List.find (\<lambda>p. \<forall>r \<in> set requests. reg_supports_target registry p r) (reg_providers registry))"

text \<open>The providers of a package: no family twice, ordered by family.\<close>

definition validate_unique_provider_families :: "string list \<Rightarrow> unit result" where
  "validate_unique_provider_families families =
     r_bind (r_fold (\<lambda>family seen.
         if family \<in> set seen then
           Inl (ValueError (''duplicate balance provider_family discovered: '' @ family))
         else Inr (family # seen)) families []) (\<lambda>_. Inr ())"

definition collect_balance_providers :: "('p \<Rightarrow> string) \<Rightarrow> 'p list \<Rightarrow> 'p list result" where
  "collect_balance_providers family discovered =
     r_bind (validate_unique_provider_families (map family discovered)) (\<lambda>_.
       Inr (sort_key family discovered))"

fun split_max :: "char \<Rightarrow> nat \<Rightarrow> string \<Rightarrow> string list" where
  "split_max sep 0 s = [s]"
| "split_max sep (Suc n) s =
     (if sep \<in> set s
      then takeWhile (\<lambda>c. c \<noteq> sep) s # split_max sep n (tl (dropWhile (\<lambda>c. c \<noteq> sep) s))
      else [s])"

definition evm_supports_target :: "balance_provider_request \<Rightarrow> bool" where
  "evm_supports_target request =
     (let location_id = bt_location_id (brq_target request);
          parts = split_max (CHR '':'') 2 location_id;
          instrument_id = bt_instrument_id (brq_target request)
      in if \<not> starts_with location_id ''evm:'' then False
         else if length parts \<noteq> 3 then False
         else
           (let network = lower (strip (parts ! 1)) in
            if network = [] then False
            else if instrument_id = ''asset:evm:'' @ network @ '':native'' then True
            else
              (let erc20_prefix = ''asset:evm:'' @ network @ '':erc20:'' in
               if \<not> starts_with instrument_id erc20_prefix then False
               else fullmatch EVM_ADDRESS_PATTERN (drop (length erc20_prefix) instrument_id))))"

definition near_supports_target :: "balance_provider_request \<Rightarrow> bool" where
  "near_supports_target request =
     (let location_id = bt_location_id (brq_target request) in
      if \<not> starts_with location_id ''near:'' then False
      else if strip (drop 5 location_id) = [] then False
      else bt_instrument_id (brq_target request) = ''asset:near:native'')"

definition evm_fetch_references :: "balance_provider_request list \<Rightarrow> balance_provider_result list" where
  "evm_fetch_references requests =
     map (\<lambda>request. \<lparr>bpr_target = brq_target request, bpr_reference = None,
       bpr_issue_kind = ''balance_provider_unavailable'',
       bpr_issue_message = ''Historical balance lookup is not yet implemented for the EVM JSON-RPC provider family.''\<rparr>)
       requests"

definition near_fetch_references :: "balance_provider_request list \<Rightarrow> balance_provider_result list" where
  "near_fetch_references requests =
     map (\<lambda>request. \<lparr>bpr_target = brq_target request, bpr_reference = None,
       bpr_issue_kind = ''balance_provider_unavailable'',
       bpr_issue_message = ''Historical balance lookup is not yet implemented for the NEAR RPC provider family.''\<rparr>)
       requests"

datatype provider_stub = EVM_JSON_RPC | NEAR_RPC

fun stub_family :: "provider_stub \<Rightarrow> string" where
  "stub_family EVM_JSON_RPC = ''evm_json_rpc''"
| "stub_family NEAR_RPC = ''near_rpc''"

fun stub_supports :: "provider_stub \<Rightarrow> balance_provider_request \<Rightarrow> bool" where
  "stub_supports EVM_JSON_RPC = evm_supports_target"
| "stub_supports NEAR_RPC = near_supports_target"

fun stub_fetch :: "provider_stub \<Rightarrow> balance_provider_request list \<Rightarrow> balance_provider_result list" where
  "stub_fetch EVM_JSON_RPC = evm_fetch_references"
| "stub_fetch NEAR_RPC = near_fetch_references"

definition build_balance_provider_registry :: "provider_stub list \<Rightarrow> provider_stub balance_provider_registry result" where
  "build_balance_provider_registry discovered =
     r_bind (collect_balance_providers stub_family discovered) (\<lambda>providers.
       Inr \<lparr>reg_providers = providers, reg_supports_target = stub_supports, reg_fetch_references = stub_fetch\<rparr>)"

section \<open>The resolver\<close>

type_synonym resolution = "balance_reference list \<times> issue_record list"

definition unresolved_issue :: "balance_provider_result \<Rightarrow> issue_record result" where
  "unresolved_issue res =
     (let kind = (if bpr_issue_kind res = [] then ''balance_reference_unresolved'' else bpr_issue_kind res);
          message = (if bpr_issue_message res = [] then ''Balance reference could not be resolved.''
            else bpr_issue_message res);
          target = bpr_target res
      in r_bind (format_temporal_value (bt_target_at target) (bt_target_precision target)
           ''balance provider unresolved target_at'') (\<lambda>context.
         Inr (balance_issue (target_id_parts target @ [kind]) (bt_source target) kind message context [])))"

definition take_result :: "balance_provider_result \<Rightarrow> resolution \<Rightarrow> resolution result" where
  "take_result res st =
     (case bpr_reference res of
        Some reference \<Rightarrow> Inr (fst st @ [reference], snd st)
      | None \<Rightarrow> r_bind (unresolved_issue res) (\<lambda>issue. Inr (fst st, snd st @ [issue])))"

definition provider_groups ::
    "'p balance_provider_registry \<Rightarrow> balance_target list \<Rightarrow> ('p, balance_provider_request list) dict" where
  "provider_groups registry targets =
     map (\<lambda>(provider, pairs). (provider, map snd pairs))
       (group_by fst (List.map_filter (\<lambda>target.
         map_option (\<lambda>provider. (provider, \<lparr>brq_target = target\<rparr>))
           (provider_for_requests registry [\<lparr>brq_target = target\<rparr>])) targets))"

definition hydrate :: "'p balance_provider_registry \<Rightarrow> balance_target list \<Rightarrow> resolution result" where
  "hydrate registry targets =
     (let unsupported_targets =
        filter (\<lambda>target. provider_for_requests registry [\<lparr>brq_target = target\<rparr>] = None) targets
      in r_bind (r_map (missing_reference_issue [] ''unsupported_balance_provider'') unsupported_targets) (\<lambda>issues.
         r_fold (\<lambda>(provider, requests). r_fold take_result (reg_fetch_references registry provider requests))
           (provider_groups registry targets) ([], issues)))"

definition resolve_references ::
    "'p balance_provider_registry option \<Rightarrow> balance_reference list \<Rightarrow> balance_target list \<Rightarrow> bool \<Rightarrow>
      resolution result" where
  "resolve_references providers existing_references targets hydrate_missing =
     (let by_target = group_by (\<lambda>r. balance_target_match_key (br_target r)) existing_references;
          matching = (\<lambda>target. dict_get by_target (balance_target_match_key target) []);
          matched = concat (map matching targets);
          unresolved = filter (\<lambda>target. matching target = []) targets;
          give_up = r_bind (r_map (missing_reference_issue existing_references ''missing_balance_reference'') unresolved)
            (\<lambda>issues. Inr (matched, issues))
      in if \<not> hydrate_missing \<or> unresolved = [] then give_up
         else case providers of
             None \<Rightarrow> give_up
           | Some registry \<Rightarrow>
               r_bind (hydrate registry unresolved) (\<lambda>(hydrated, hydration_issues).
                 Inr (matched @ hydrated, hydration_issues)))"

section \<open>The nearest reference\<close>

lemma min_first_props:
  assumes "xs \<noteq> []"
  shows "min_first key xs \<in> set xs \<and> (\<forall>x \<in> set xs. key (min_first key xs) \<le> key x)"
proof -
  have fold: "fold (\<lambda>y best. if key y < key best then y else best) ys b \<in> insert b (set ys) \<and>
      (\<forall>x \<in> insert b (set ys). key (fold (\<lambda>y best. if key y < key best then y else best) ys b) \<le> key x)"
    for ys b
  proof (induction ys arbitrary: b)
    case (Cons y ys)
    show ?case
    proof (cases "key y < key b")
      case True
      then show ?thesis using Cons.IH [of y] by fastforce
    next
      case False
      then show ?thesis using Cons.IH [of b] by fastforce
    qed
  qed simp
  obtain b ys where "xs = b # ys" using assms by (cases xs) auto
  then show ?thesis using fold [of ys b] by (simp add: min_first_def)
qed

lemma nearest_reference_Some:
  assumes "nearest_reference t refs = Some r"
  shows "r \<in> set refs \<and> same_subject t r \<and>
    (\<forall>r' \<in> set refs. same_subject t r' \<longrightarrow> target_distance t r \<le> target_distance t r')"
  using assms min_first_props [of "filter (same_subject t) refs" "target_distance t"]
  by (auto simp: nearest_reference_def Let_def split: if_splits)

lemma nearest_reference_None: "nearest_reference t refs = None \<longleftrightarrow> (\<forall>r \<in> set refs. \<not> same_subject t r)"
  by (simp add: nearest_reference_def Let_def filter_empty_conv)

definition reports :: "string \<Rightarrow> balance_target \<Rightarrow> string" where
  "reports kind t = join '':'' (target_id_parts t @ [kind])"

lemma missing_reference_issue_ok:
  assumes "valid_target t" and "\<forall>r \<in> set refs. valid_target (br_target r)"
  shows "\<exists>i. missing_reference_issue refs kind t = Inr i \<and> iss_issue_id i = reports kind t"
proof -
  obtain c where c: "format_temporal_value (bt_target_at t) (bt_target_precision t)
      ''missing balance reference target_at'' = Inr c"
    using valid_target_format [OF assms(1)] by blast
  show ?thesis
  proof (cases "nearest_reference t refs")
    case None
    then show ?thesis by (simp add: missing_reference_issue_def c balance_issue_def reports_def)
  next
    case (Some r)
    have "valid_target (br_target r)" using nearest_reference_Some [OF Some] assms(2) by blast
    from valid_target_format [OF this, of "''nearest balance reference target_at''"] Some
    show ?thesis by (auto simp: missing_reference_issue_def c balance_issue_def reports_def)
  qed
qed

lemma missing_reference_issues_ok:
  assumes "\<forall>t \<in> set ts. valid_target t" and "\<forall>r \<in> set refs. valid_target (br_target r)"
  shows "\<exists>issues. r_map (missing_reference_issue refs kind) ts = Inr issues \<and>
    map iss_issue_id issues = map (reports kind) ts"
  using assms(1)
proof (induction ts)
  case (Cons t ts)
  have "valid_target t" using Cons.prems by simp
  then obtain i where "missing_reference_issue refs kind t = Inr i" "iss_issue_id i = reports kind t"
    using missing_reference_issue_ok [OF _ assms(2)] by blast
  with Cons show ?case by auto
qed simp

section \<open>The contract of the providers\<close>

definition all_results ::
    "'p balance_provider_registry \<Rightarrow> balance_target list \<Rightarrow> balance_provider_result list" where
  "all_results registry targets =
     concat (map (\<lambda>(provider, requests). reg_fetch_references registry provider requests)
       (provider_groups registry targets))"

definition supported :: "'p balance_provider_registry \<Rightarrow> balance_target \<Rightarrow> bool" where
  "supported registry t \<longleftrightarrow> provider_for_requests registry [\<lparr>brq_target = t\<rparr>] \<noteq> None"

locale provider_contract =
  fixes fetch :: "'p \<Rightarrow> balance_provider_request list \<Rightarrow> balance_provider_result list"
  assumes answers: "map bpr_target (fetch p requests) = map brq_target requests"
begin

lemma all_results_targets:
  assumes "reg_fetch_references registry = fetch"
  shows "mset (map bpr_target (all_results registry targets)) = mset (filter (supported registry) targets)"
proof -
  define pairs where "pairs = List.map_filter (\<lambda>target.
      map_option (\<lambda>provider. (provider, \<lparr>brq_target = target\<rparr>))
        (provider_for_requests registry [\<lparr>brq_target = target\<rparr>])) targets"
  have "map bpr_target (all_results registry targets) =
      concat (map (\<lambda>(provider, requests). map brq_target requests) (provider_groups registry targets))"
    by (simp add: all_results_def assms map_concat comp_def split_def answers)
  also have "\<dots> = map (\<lambda>q. brq_target (snd q)) (concat (map snd (group_by fst pairs)))"
    by (simp add: provider_groups_def pairs_def map_concat comp_def split_def)
  finally have "mset (map bpr_target (all_results registry targets)) =
      image_mset (\<lambda>q. brq_target (snd q)) (mset (concat (map snd (group_by fst pairs))))"
    unfolding mset_map [symmetric] by (rule arg_cong)
  also have "\<dots> = mset (map (\<lambda>q. brq_target (snd q)) pairs)"
    unfolding mset_group_by mset_map ..
  also have "map (\<lambda>q. brq_target (snd q)) pairs = filter (supported registry) targets"
    unfolding pairs_def by (induction targets) (auto simp: map_filter_simps supported_def split: option.split)
  finally show ?thesis .
qed

end

lemma r_fold_concat:
  "r_fold (\<lambda>(p, qs). r_fold f (g p qs)) groups s = r_fold f (concat (map (\<lambda>(p, qs). g p qs) groups)) s"
proof (induction groups arbitrary: s)
  case (Cons pq groups)
  then show ?case by (cases pq) (simp add: r_fold_append, cases "r_fold f (g (fst pq) (snd pq)) s"; simp)
qed simp

lemma hydrate_flat:
  "hydrate registry targets =
     r_bind (r_map (missing_reference_issue [] ''unsupported_balance_provider'')
       (filter (\<lambda>t. \<not> supported registry t) targets)) (\<lambda>issues.
       r_fold take_result (all_results registry targets) ([], issues))"
  by (simp add: hydrate_def r_fold_concat all_results_def supported_def)

interpretation stubs: provider_contract stub_fetch
proof
  show "map bpr_target (stub_fetch p requests) = map brq_target requests" for p requests
    by (cases p) (simp_all add: evm_fetch_references_def near_fetch_references_def)
qed

section \<open>Resolving\<close>

definition matching_references :: "balance_reference list \<Rightarrow> balance_target \<Rightarrow> balance_reference list" where
  "matching_references refs t =
     filter (\<lambda>r. balance_target_match_key (br_target r) = balance_target_match_key t) refs"

lemma resolve_references_flat:
  "resolve_references providers existing targets hydrate_missing =
     (let matched = concat (map (matching_references existing) targets);
          unresolved = filter (\<lambda>t. matching_references existing t = []) targets;
          give_up = r_bind (r_map (missing_reference_issue existing ''missing_balance_reference'') unresolved)
            (\<lambda>issues. Inr (matched, issues))
      in if \<not> hydrate_missing \<or> unresolved = [] then give_up
         else case providers of None \<Rightarrow> give_up
           | Some registry \<Rightarrow> r_bind (hydrate registry unresolved) (\<lambda>(hydrated, hydration_issues).
               Inr (matched @ hydrated, hydration_issues)))"
  unfolding resolve_references_def dict_get_group_by matching_references_def Let_def ..

text \<open>
  Without hydration, resolving valid targets never raises: it returns, target by target, all
  existing references of exactly that instant, and one missing-reference issue for each target
  that has none.
\<close>

lemma resolve_without_hydration:
  assumes "\<forall>t \<in> set targets. valid_target t" and "\<forall>r \<in> set existing. valid_target (br_target r)"
  shows "\<exists>issues. resolve_references providers existing targets False =
      Inr (concat (map (matching_references existing) targets), issues) \<and>
    map iss_issue_id issues = map (reports ''missing_balance_reference'')
      (filter (\<lambda>t. matching_references existing t = []) targets)"
proof -
  have "\<forall>t \<in> set (filter (\<lambda>t. matching_references existing t = []) targets). valid_target t"
    using assms(1) by simp
  from missing_reference_issues_ok [OF this assms(2), of "''missing_balance_reference''"]
  show ?thesis by (auto simp: resolve_references_flat)
qed

definition unavailable :: "balance_provider_result \<Rightarrow> bool" where
  "unavailable res \<longleftrightarrow> bpr_reference res = None \<and> bpr_issue_kind res = ''balance_provider_unavailable'' \<and>
     valid_target (bpr_target res)"

lemma take_unavailable:
  assumes "\<forall>res \<in> set rs. unavailable res"
  shows "\<exists>issues. r_fold take_result rs (refs, is) = Inr (refs, is @ issues) \<and>
    map iss_issue_id issues = map (\<lambda>res. reports ''balance_provider_unavailable'' (bpr_target res)) rs"
  using assms
proof (induction rs arbitrary: "is")
  case (Cons res rs)
  have res: "unavailable res" and rest: "\<forall>res \<in> set rs. unavailable res" using Cons.prems by simp_all
  then obtain c where c: "format_temporal_value (bt_target_at (bpr_target res))
      (bt_target_precision (bpr_target res)) ''balance provider unresolved target_at'' = Inr c"
    using valid_target_format unfolding unavailable_def by blast
  then obtain i where i: "unresolved_issue res = Inr i"
      "iss_issue_id i = reports ''balance_provider_unavailable'' (bpr_target res)"
    using res by (auto simp: unresolved_issue_def unavailable_def balance_issue_def reports_def Let_def)
  have step: "take_result res (refs, is) = Inr (refs, is @ [i])"
    using res i(1) by (simp add: take_result_def unavailable_def)
  obtain issues where "r_fold take_result rs (refs, is @ [i]) = Inr (refs, (is @ [i]) @ issues)"
      "map iss_issue_id issues = map (\<lambda>res. reports ''balance_provider_unavailable'' (bpr_target res)) rs"
    using Cons.IH [OF rest, of "is @ [i]"] by blast
  then show ?case using i(2) by (intro exI [of _ "i # issues"]) (simp add: step)
qed simp

lemma stub_results:
  assumes "res \<in> set (stub_fetch p requests)"
  shows "bpr_reference res = None" "bpr_issue_kind res = ''balance_provider_unavailable''"
  using assms by (cases p; auto simp: evm_fetch_references_def near_fetch_references_def)+

lemma registry_supported:
  assumes "build_balance_provider_registry discovered = Inr registry"
  shows "reg_fetch_references registry = stub_fetch"
    and "supported registry t \<longleftrightarrow> (\<exists>p \<in> set discovered. stub_supports p \<lparr>brq_target = t\<rparr>)"
  using assms
  by (auto simp: build_balance_provider_registry_def collect_balance_providers_def result_simps
      supported_def provider_for_requests_def find_None_iff)

text \<open>What hydration with the stubs reports for a target.\<close>

definition stub_report :: "provider_stub list \<Rightarrow> balance_target \<Rightarrow> string" where
  "stub_report discovered t = reports
     (if \<exists>p \<in> set discovered. stub_supports p \<lparr>brq_target = t\<rparr>
      then ''balance_provider_unavailable'' else ''unsupported_balance_provider'') t"

lemma mset_split_map: "mset (map f (filter P xs)) + mset (map g (filter (\<lambda>x. \<not> P x) xs)) =
    mset (map (\<lambda>x. if P x then f x else g x) xs)"
  by (induction xs) simp_all

lemma hydrate_stubs:
  assumes reg: "build_balance_provider_registry discovered = Inr registry"
    and targets: "\<forall>t \<in> set targets. valid_target t"
  shows "\<exists>issues. hydrate registry targets = Inr ([], issues) \<and>
    mset (map iss_issue_id issues) = mset (map (stub_report discovered) targets)"
proof -
  note sup = registry_supported [OF reg]
  have "\<forall>t \<in> set (filter (\<lambda>t. \<not> supported registry t) targets). valid_target t" using targets by simp
  then obtain i1 where i1: "r_map (missing_reference_issue [] ''unsupported_balance_provider'')
        (filter (\<lambda>t. \<not> supported registry t) targets) = Inr i1"
      "map iss_issue_id i1 = map (reports ''unsupported_balance_provider'') (filter (\<lambda>t. \<not> supported registry t) targets)"
    using missing_reference_issues_ok [of "filter (\<lambda>t. \<not> supported registry t) targets" "[]"
        "''unsupported_balance_provider''"] by auto
  have ts: "mset (map bpr_target (all_results registry targets)) = mset (filter (supported registry) targets)"
    by (rule stubs.all_results_targets [OF sup(1)])
  have "\<forall>res \<in> set (all_results registry targets). unavailable res"
  proof
    fix res assume res: "res \<in> set (all_results registry targets)"
    then have "bpr_target res \<in> set (map bpr_target (all_results registry targets))" by simp
    then have "bpr_target res \<in> set (filter (supported registry) targets)"
      using mset_eq_setD [OF ts] by simp
    moreover obtain p requests where "res \<in> set (stub_fetch p requests)"
      using res by (auto simp: all_results_def sup(1))
    ultimately show "unavailable res" using stub_results targets by (simp add: unavailable_def)
  qed
  from take_unavailable [OF this, of "[]" i1] obtain i2 where
    i2: "r_fold take_result (all_results registry targets) ([], i1) = Inr ([], i1 @ i2)"
      "map iss_issue_id i2 = map (\<lambda>res. reports ''balance_provider_unavailable'' (bpr_target res)) (all_results registry targets)"
    by blast
  have "mset (map iss_issue_id i2) =
      image_mset (reports ''balance_provider_unavailable'') (mset (map bpr_target (all_results registry targets)))"
    unfolding i2(2) by (simp add: multiset.map_comp comp_def)
  then have "mset (map iss_issue_id i2) =
      mset (map (reports ''balance_provider_unavailable'') (filter (supported registry) targets))"
    by (simp only: ts mset_map [of "reports ''balance_provider_unavailable''"])
  then have "mset (map iss_issue_id (i1 @ i2)) =
      mset (map (reports ''balance_provider_unavailable'') (filter (supported registry) targets)) +
      mset (map (reports ''unsupported_balance_provider'') (filter (\<lambda>t. \<not> supported registry t) targets))"
    unfolding map_append mset_append i1(2) by (simp only: add.commute)
  also have "\<dots> = mset (map (stub_report discovered) targets)"
    unfolding mset_split_map by (simp add: stub_report_def [abs_def] sup(2) if_distrib [of "\<lambda>k. reports k _"])
  finally show ?thesis using i1(1) i2(1) by (simp add: hydrate_flat)
qed

text \<open>
  C19: With the registry of the provider stubs, resolving valid targets never raises: it returns
  the existing references of each target and reports every other target exactly once, as
  unavailable when a discovered provider supports it and as unsupported when none does; no
  reference is ever invented.
\<close>

theorem resolve_with_stubs:
  assumes "build_balance_provider_registry discovered = Inr registry"
    and "\<forall>t \<in> set targets. valid_target t" and "\<forall>r \<in> set existing. valid_target (br_target r)"
  shows "\<exists>issues. resolve_references (Some registry) existing targets True =
      Inr (concat (map (matching_references existing) targets), issues) \<and>
    mset (map iss_issue_id issues) = mset (map (stub_report discovered)
      (filter (\<lambda>t. matching_references existing t = []) targets))"
proof (cases "filter (\<lambda>t. matching_references existing t = []) targets = []")
  case True
  then show ?thesis by (simp add: resolve_references_flat)
next
  case False
  have "\<forall>t \<in> set (filter (\<lambda>t. matching_references existing t = []) targets). valid_target t"
    using assms(2) by simp
  from hydrate_stubs [OF assms(1) this] False show ?thesis
    by (auto simp: resolve_references_flat Let_def)
qed

text \<open>
  The nearest reference quoted in a missing-reference message is one of the same source,
  location, instrument and kind, no other such reference is closer in time, and none is quoted
  only when there is none.
\<close>

lemma nearest_reference_minimal:
  "case nearest_reference t refs of
      None \<Rightarrow> \<forall>r \<in> set refs. \<not> same_subject t r
    | Some r \<Rightarrow> r \<in> set refs \<and> same_subject t r \<and>
        (\<forall>r' \<in> set refs. same_subject t r' \<longrightarrow> target_distance t r \<le> target_distance t r')"
  using nearest_reference_Some [of t refs] nearest_reference_None [of t refs]
  by (cases "nearest_reference t refs") simp_all

text \<open>No target has two providers, so the order of the registry does not matter.\<close>

lemma stubs_disjoint: "\<not> (evm_supports_target request \<and> near_supports_target request)"
  by (auto simp: evm_supports_target_def near_supports_target_def Let_def starts_with_iff)

section \<open>Witnesses\<close>

definition sample_near :: balance_target where
  "sample_near =
     \<lparr>bt_source = ''near'', bt_location_id = ''near:a.near'', bt_instrument_id = ''asset:near:native'',
      bt_balance_kind = ''available'', bt_target_at = DateTime 2024 3 5 0 0 0 0 (Some 0),
      bt_target_precision = DATE\<rparr>"

lemma sample_near_valid: "valid_target sample_near"
proof -
  have "require_location_id ''near:a.near'' [] = Inr ''near:a.near''" by code_simp
  then show ?thesis by (simp add: valid_target_iff sample_near_def available_kind midnight_def)
qed

lemma sample_targets_valid:
  "\<forall>t \<in> set [sample_near, sample_target 8, sample_cutoff]. valid_target t"
  "\<forall>r \<in> set sample_references. valid_target (br_target r)"
  using samples_valid(2) by (auto simp: sample_near_valid sample_valid sample_cutoff_valid valid_reference_def)

lemma resolve_without_hydration_witness:
  "\<exists>issues. resolve_references (None :: unit balance_provider_registry option) sample_references
      [sample_near, sample_target 8, sample_cutoff] False =
      Inr (concat (map (matching_references sample_references) [sample_near, sample_target 8, sample_cutoff]), issues) \<and>
    map iss_issue_id issues = map (reports ''missing_balance_reference'')
      (filter (\<lambda>t. matching_references sample_references t = []) [sample_near, sample_target 8, sample_cutoff])"
  by (rule resolve_without_hydration [OF sample_targets_valid])

theorem resolve_with_stubs_witness:
  "\<exists>registry issues. build_balance_provider_registry [NEAR_RPC, EVM_JSON_RPC] = Inr registry \<and>
    resolve_references (Some registry) sample_references [sample_near, sample_target 8, sample_cutoff] True =
      Inr (concat (map (matching_references sample_references) [sample_near, sample_target 8, sample_cutoff]), issues) \<and>
    mset (map iss_issue_id issues) = mset (map (stub_report [NEAR_RPC, EVM_JSON_RPC])
      (filter (\<lambda>t. matching_references sample_references t = []) [sample_near, sample_target 8, sample_cutoff]))"
proof -
  obtain registry where r: "build_balance_provider_registry [NEAR_RPC, EVM_JSON_RPC] = Inr registry"
    by (auto simp: build_balance_provider_registry_def collect_balance_providers_def
        validate_unique_provider_families_def)
  show ?thesis using r resolve_with_stubs [OF r sample_targets_valid] by blast
qed

lemma nearest_reference_minimal_witness:
  "\<exists>r. nearest_reference (sample_target 10) sample_references = Some r \<and>
    (\<forall>r' \<in> set sample_references. same_subject (sample_target 10) r' \<longrightarrow>
      target_distance (sample_target 10) r \<le> target_distance (sample_target 10) r')"
proof -
  have "same_subject (sample_target 10) (sample_reference 8 (Decimal 20 (-1)))"
    by (simp add: same_subject_def sample_reference_def sample_target_def)
  then have "nearest_reference (sample_target 10) sample_references \<noteq> None"
    unfolding nearest_reference_None by (simp add: sample_references_def)
  then show ?thesis using nearest_reference_minimal [where t = "sample_target 10" and refs = sample_references] by auto
qed

end
