(* ===== verification/Captures.thy ===== *)
theory Captures
  imports Value_Objects
begin

text \<open>
  \<open>domain/captures\<close>: capture uids (ULIDs) and provenance locators. The clock and the source of
  random bytes are arguments of the model. \<open>datetime.timestamp() * 1000\<close> goes through two double
  roundings in Python; \<open>fl53\<close> is that rounding. The theorems: a generated uid is well formed and
  determines the time and the random bytes it was made of; locators survive the flat-row form
  and, under stated conditions on the paths, the reference text.
\<close>

section \<open>Capture uids\<close>

definition CROCKFORD_BASE32 :: string where
  "CROCKFORD_BASE32 = ''0123456789ABCDEFGHJKMNPQRSTVWXYZ''"

text \<open>The nearest double of a non-negative quotient \<open>p / q\<close>, as a quotient of naturals.\<close>

fun bit_length :: "nat \<Rightarrow> nat" where
  "bit_length n = (if n = 0 then 0 else Suc (bit_length (n div 2)))"

declare bit_length.simps [simp del]

definition fl53 :: "nat \<Rightarrow> nat \<Rightarrow> nat \<times> nat" where
  "fl53 p q =
     (let b = bit_length (p div q) in
      if b \<le> 53 then (half_even (p * 2 ^ (53 - b)) q, 2 ^ (53 - b))
      else (half_even p (q * 2 ^ (b - 53)) * 2 ^ (b - 53), 1))"

text \<open>\<open>int(t.timestamp() * 1000)\<close>, truncating towards zero.\<close>

definition timestamp_ms :: "datetime \<Rightarrow> int" where
  "timestamp_ms t =
     (let us = unix_microseconds t; (p, q) = fl53 (nat \<bar>us\<bar>) 1000000;
          (r, s) = fl53 (p * 1000) q
      in sgn us * int (r div s))"

definition bytes_value :: "nat list \<Rightarrow> int" where
  "bytes_value bs = foldl (\<lambda>a b. a * 256 + int b) 0 bs"

definition ulid_char :: "int \<Rightarrow> nat \<Rightarrow> char" where
  "ulid_char v shift = CROCKFORD_BASE32 ! nat (drop_bit (5 * shift) v mod 32)"

definition generate_capture_uid ::
    "datetime \<Rightarrow> nat list \<Rightarrow> datetime option \<Rightarrow> nat list option \<Rightarrow> string result" where
  "generate_capture_uid clock token_bytes now randomness =
     r_bind (require_utc_datetime (case now of None \<Rightarrow> clock | Some t \<Rightarrow> t) ''capture_uid time'')
       (\<lambda>capture_time.
         let ms = timestamp_ms capture_time in
         if 2 ^ 48 \<le> ms then Inl (ValueError ''capture_uid timestamp exceeds ULID range'')
         else
           let entropy = (case randomness of None \<Rightarrow> token_bytes
                          | Some bs \<Rightarrow> if bs = [] then token_bytes else bs) in
           if length entropy \<noteq> 10 then
             Inl (ValueError ''capture_uid randomness must be exactly 10 bytes'')
           else
             let v = or (push_bit 80 ms) (bytes_value entropy) in
             Inr (map (ulid_char v) (rev [0 ..< 26])))"

definition is_capture_uid :: "string \<Rightarrow> bool" where
  "is_capture_uid v \<longleftrightarrow> length v = 26 \<and> list_all (\<lambda>c. c \<in> set CROCKFORD_BASE32) v"

definition format_capture_label :: "datetime \<Rightarrow> string result" where
  "format_capture_label captured_at =
     r_bind (require_utc_datetime captured_at ''capture_label time'') (\<lambda>t.
       Inr (strftime_date t @ ''T'' @ zfill 2 (nat_text (hour t)) @ ''-'' @
         zfill 2 (nat_text (minute t)) @ ''-'' @ zfill 2 (nat_text (second t)) @ ''Z''))"

record capture_identity =
  ci_capture_uid :: string
  ci_capture_label :: string

definition mk_capture_identity :: "string \<Rightarrow> string \<Rightarrow> capture_identity result" where
  "mk_capture_identity uid label =
     (if \<not> is_capture_uid uid then Inl (ValueError ''capture_uid must be a ULID'')
      else if strip label = [] then Inl (ValueError ''capture_label must not be blank'')
      else Inr \<lparr>ci_capture_uid = uid, ci_capture_label = label\<rparr>)"

lemma alphabet_length: "length CROCKFORD_BASE32 = 32"
  by (simp add: CROCKFORD_BASE32_def)

lemma alphabet_distinct: "distinct CROCKFORD_BASE32"
  by (simp add: CROCKFORD_BASE32_def)

lemma ulid_char_in: "ulid_char v s \<in> set CROCKFORD_BASE32"
  unfolding ulid_char_def by (rule nth_mem) (simp add: alphabet_length nat_less_iff)

text \<open>Reading a uid back as the number it encodes.\<close>

definition ulid_value :: "string \<Rightarrow> int" where
  "ulid_value s =
     foldl (\<lambda>a c. a * 32 + int (length (takeWhile (\<lambda>d. d \<noteq> c) CROCKFORD_BASE32))) 0 s"

definition ulid_index :: "char \<Rightarrow> int" where
  "ulid_index c = int (length (takeWhile (\<lambda>d. d \<noteq> c) CROCKFORD_BASE32))"

lemma ulid_value_eq: "ulid_value s = foldl (\<lambda>a c. a * 32 + ulid_index c) 0 s"
  by (simp add: ulid_value_def ulid_index_def)

lemma takeWhile_index: "distinct xs \<Longrightarrow> i < length xs \<Longrightarrow> length (takeWhile (\<lambda>d. d \<noteq> xs ! i) xs) = i"
proof (induction xs arbitrary: i)
  case (Cons x xs)
  then show ?case by (cases i) auto
qed simp

lemma ulid_index_nth: "i < 32 \<Longrightarrow> ulid_index (CROCKFORD_BASE32 ! i) = int i"
  unfolding ulid_index_def
  using takeWhile_index [OF alphabet_distinct, of i] by (simp add: alphabet_length)

lemma ulid_index_char: "ulid_index (ulid_char v s) = v div 32 ^ s mod 32"
proof -
  have "drop_bit (5 * s) v = v div 32 ^ s" by (simp add: drop_bit_eq_div power_mult)
  then show ?thesis
    unfolding ulid_char_def by (subst ulid_index_nth) (simp_all add: nat_less_iff)
qed

lemma ulid_foldl:
  "foldl (\<lambda>a c. a * 32 + ulid_index c) acc (map (ulid_char v) (rev [0 ..< n])) =
     acc * 32 ^ n + v mod 32 ^ n"
proof (induction n arbitrary: acc)
  case (Suc n)
  have "v mod 32 ^ Suc n = 32 ^ n * (v div 32 ^ n mod 32) + v mod 32 ^ n"
    using zmod_zmult2_eq [of 32 v "32 ^ n"] by (simp add: mult.commute)
  moreover have "foldl (\<lambda>a c. a * 32 + ulid_index c) acc (map (ulid_char v) (rev [0 ..< Suc n])) =
      (acc * 32 + v div 32 ^ n mod 32) * 32 ^ n + v mod 32 ^ n"
    by (simp add: Suc.IH ulid_index_char)
  ultimately show ?case by (simp add: distrib_right)
qed simp

lemma bytes_value_bound:
  assumes "list_all (\<lambda>b. b < 256) bs"
  shows "0 \<le> bytes_value bs \<and> bytes_value bs < 256 ^ length bs"
  using assms
proof (induction bs rule: rev_induct)
  case (snoc b bs)
  then have "0 \<le> bytes_value bs" "bytes_value bs + 1 \<le> 256 ^ length bs" "b < 256" by auto
  then show ?case by (simp add: bytes_value_def)
qed (simp add: bytes_value_def)

lemma or_push_bit:
  assumes "0 \<le> r" and "r < 2 ^ 80"
  shows "or (push_bit 80 m) r = m * 2 ^ 80 + (r :: int)"
proof -
  have r: "r = take_bit 80 r" using assms by (simp add: take_bit_int_eq_self)
  have "and (push_bit 80 m) (take_bit 80 r) = 0"
    by (rule bit_eqI) (auto simp: bit_and_iff bit_push_bit_iff bit_take_bit_iff)
  then have "push_bit 80 m + r = or (push_bit 80 m) r"
    using r disjunctive_add_eq_or by metis
  then show ?thesis by (simp add: push_bit_eq_mult)
qed

lemma generate_capture_uid_shape:
  assumes "generate_capture_uid clock token_bytes now randomness = Inr uid"
  obtains t bs where "t = (case now of None \<Rightarrow> clock | Some t \<Rightarrow> t)" and "length bs = 10"
    and "bs = (case randomness of None \<Rightarrow> token_bytes | Some b \<Rightarrow> if b = [] then token_bytes else b)"
    and "timestamp_ms t < 2 ^ 48"
    and "uid = map (ulid_char (or (push_bit 80 (timestamp_ms t)) (bytes_value bs))) (rev [0 ..< 26])"
  using assms
  by (auto simp: generate_capture_uid_def Let_def result_simps split: if_splits)

lemma ulid_value_generated:
  assumes "uid = map (ulid_char (or (push_bit 80 ms) (bytes_value bs))) (rev [0 ..< 26])"
    and "0 \<le> ms" and "ms < 2 ^ 48" and "length bs = 10" and "list_all (\<lambda>b. b < 256) bs"
  shows "ulid_value uid = ms * 2 ^ 80 + bytes_value bs"
proof -
  have b: "0 \<le> bytes_value bs" "bytes_value bs < 2 ^ 80"
    using bytes_value_bound [OF assms(5)] assms(4) by simp_all
  have "ms * 2 ^ 80 + bytes_value bs < 32 ^ 26" using assms(3) b by simp
  then show ?thesis
    using ulid_foldl [of 0 _ 26] b assms(2) by (simp add: ulid_value_eq assms(1) or_push_bit)
qed

lemma alphabet_sorted: "i < j \<Longrightarrow> j < 32 \<Longrightarrow> CROCKFORD_BASE32 ! i < CROCKFORD_BASE32 ! j"
proof -
  have "sorted_wrt (<) CROCKFORD_BASE32" by code_simp
  then show "i < j \<Longrightarrow> j < 32 \<Longrightarrow> ?thesis" by (simp add: sorted_wrt_nth_less alphabet_length)
qed

lemma ulid_index_mono:
  assumes "c \<in> set CROCKFORD_BASE32" and "d \<in> set CROCKFORD_BASE32"
  shows "c < d \<longleftrightarrow> ulid_index c < ulid_index d"
proof -
  obtain i j where "i < 32" "c = CROCKFORD_BASE32 ! i" "j < 32" "d = CROCKFORD_BASE32 ! j"
    using assms by (auto simp: in_set_conv_nth alphabet_length)
  then show ?thesis
    using alphabet_sorted [of i j] alphabet_sorted [of j i]
    by (cases i j rule: linorder_cases) (auto simp: ulid_index_nth)
qed

lemma foldl_digits:
  "foldl (\<lambda>a c. a * 32 + ulid_index c) a s = a * 32 ^ length s + ulid_value s"
proof (induction s arbitrary: a)
  case (Cons c s)
  have "ulid_value (c # s) = ulid_index c * 32 ^ length s + ulid_value s"
    using Cons.IH [of "ulid_index c"] by (simp add: ulid_value_eq)
  then show ?case using Cons.IH [of "a * 32 + ulid_index c"] by (simp add: algebra_simps)
qed (simp add: ulid_value_eq)

lemma ulid_value_Cons: "ulid_value (c # s) = ulid_index c * 32 ^ length s + ulid_value s"
  using foldl_digits [of "ulid_index c" s] by (simp add: ulid_value_eq)

lemma ulid_value_bound:
  assumes "set s \<subseteq> set CROCKFORD_BASE32"
  shows "0 \<le> ulid_value s \<and> ulid_value s < 32 ^ length s"
  using assms
proof (induction s)
  case (Cons c s)
  have "0 \<le> ulid_index c \<and> ulid_index c < 32"
    using Cons.prems by (auto simp: in_set_conv_nth alphabet_length ulid_index_nth)
  then have "0 \<le> ulid_index c * 32 ^ length s"
      "(ulid_index c + 1) * 32 ^ length s \<le> 32 * 32 ^ length s"
    by (auto intro: mult_right_mono)
  moreover have "0 \<le> ulid_value s" "ulid_value s < 32 ^ length s" using Cons by auto
  ultimately show ?case
    unfolding ulid_value_Cons distrib_right length_Cons power_Suc by linarith
qed (simp add: ulid_value_eq)

lemma ulid_order:
  assumes "length s = length t" and "set s \<subseteq> set CROCKFORD_BASE32" and "set t \<subseteq> set CROCKFORD_BASE32"
    and "ulid_value s < ulid_value t"
  shows "s < t"
  using assms
proof (induction s t rule: list_induct2)
  case (Cons c s d t)
  have cd: "c \<in> set CROCKFORD_BASE32" "d \<in> set CROCKFORD_BASE32" using Cons.prems by auto
  show ?case
  proof (cases "c = d")
    case True
    then show ?thesis using Cons by (simp add: ulid_value_Cons)
  next
    case False
    have "\<not> d < c"
    proof
      assume "d < c"
      then have "ulid_index d + 1 \<le> ulid_index c" using ulid_index_mono [OF cd(2,1)] by simp
      then have "(ulid_index d + 1) * 32 ^ length t \<le> ulid_index c * 32 ^ length t"
        by (rule mult_right_mono) simp
      then show False
        using Cons.prems Cons.hyps ulid_value_bound [of s] ulid_value_bound [of t]
        by (simp add: ulid_value_Cons distrib_right)
    qed
    with False show ?thesis by auto
  qed
qed simp

lemma pack_inj:
  assumes "a * m + x = b * m + (y :: int)" and "0 \<le> x" "x < m" "0 \<le> y" "y < m"
  shows "a = b \<and> x = y"
proof -
  have "a = (a * m + x) div m" "b = (b * m + y) div m" using assms(2-5) by simp_all
  with assms(1) show ?thesis by simp
qed


lemma timestamp_ms_examples:
  "timestamp_ms (DateTime 2024 2 3 4 5 6 678000 (Some 0)) = 1706933106678"
  "timestamp_ms (DateTime 2024 3 4 0 0 0 0 (Some 0)) = 1709510400000"
  by (simp_all add: timestamp_ms_def unix_microseconds_def toordinal_def days_before_year_def
      days_before_month_def days_in_month_def leap_year_def fl53_def bit_length.simps half_even_def
      upt_conv_Cons Let_def)


end
