(* ===== verification/Checkpoints.thy ===== *)
theory Checkpoints
  imports Assertion_Values
begin

text \<open>
  \<open>domain/checkpoint/models.py\<close>: checkpoints, their records and assertions, with validation,
  payloads, ids, canonical order and fingerprint.
\<close>

definition CHECKPOINT_SCHEMA_VERSION :: int where "CHECKPOINT_SCHEMA_VERSION = 1"

datatype checkpoint_value_kind = POSITION_QUANTITY

fun checkpoint_value_kind_text :: "checkpoint_value_kind \<Rightarrow> string" where
  "checkpoint_value_kind_text POSITION_QUANTITY = ''position_quantity''"

datatype trust_level = FILING_READY | ANALYSIS_READY

fun trust_level_text :: "trust_level \<Rightarrow> string" where
  "trust_level_text FILING_READY = ''filing_ready''"
| "trust_level_text ANALYSIS_READY = ''analysis_ready''"

datatype assertion_basis = DOCUMENT_SUPPORT | RECONCILED_CONTINUITY

fun assertion_basis_text :: "assertion_basis \<Rightarrow> string" where
  "assertion_basis_text DOCUMENT_SUPPORT = ''document_support''"
| "assertion_basis_text RECONCILED_CONTINUITY = ''reconciled_continuity''"

datatype support_shape = DOCUMENT_OBSERVATION

fun support_shape_text :: "support_shape \<Rightarrow> string" where
  "support_shape_text DOCUMENT_OBSERVATION = ''document_observation''"

datatype continuity_kind = OBSERVED_CONTINUITY | RECONCILED_ROLLFORWARD

fun continuity_kind_text :: "continuity_kind \<Rightarrow> string" where
  "continuity_kind_text OBSERVED_CONTINUITY = ''observed_continuity''"
| "continuity_kind_text RECONCILED_ROLLFORWARD = ''reconciled_rollforward''"

record checkpoint_record =
  cr_checkpoint_id :: string
  cr_as_of :: datetime
  cr_assertion_ids :: "string list"
  cr_proposal_refs :: "string list"

definition mk_checkpoint_record :: "checkpoint_record \<Rightarrow> checkpoint_record result" where
  "mk_checkpoint_record r =
     r_bind (require_utc_datetime (cr_as_of r) ''checkpoint record as_of'') (\<lambda>t. Inr (r\<lparr>cr_as_of := t\<rparr>))"

definition checkpoint_record_payload :: "checkpoint_record \<Rightarrow> json result" where
  "checkpoint_record_payload r =
     r_bind (format_temporal_value (cr_as_of r) TIMESTAMP ''checkpoint record as_of'') (\<lambda>t.
       Inr (JObject
         [(''checkpoint_id'', JString (cr_checkpoint_id r)), (''as_of'', JString t),
          (''assertion_ids'', JArray (map JString (cr_assertion_ids r))),
          (''proposal_refs'', JArray (map JString (sort (cr_proposal_refs r))))]))"

record checkpoint_assertion_record =
  ca_assertion_id :: string
  ca_checkpoint_id :: string
  ca_subject_ref :: subject_ref
  ca_kind :: checkpoint_value_kind
  ca_as_of :: datetime
  ca_accepted_value :: assertion_value
  ca_trust_level :: trust_level
  ca_basis :: assertion_basis
  ca_support_shape :: support_shape
  ca_continuity_kind :: continuity_kind

definition mk_checkpoint_assertion_record ::
    "checkpoint_assertion_record \<Rightarrow> checkpoint_assertion_record result" where
  "mk_checkpoint_assertion_record a =
     r_bind (require_utc_datetime (ca_as_of a) ''checkpoint assertion as_of'') (\<lambda>t.
       Inr (a\<lparr>ca_as_of := t\<rparr>))"

definition checkpoint_assertion_payload :: "checkpoint_assertion_record \<Rightarrow> json result" where
  "checkpoint_assertion_payload a =
     r_bind (format_temporal_value (ca_as_of a) TIMESTAMP ''checkpoint assertion as_of'') (\<lambda>t.
       Inr (JObject
         [(''assertion_id'', JString (ca_assertion_id a)),
          (''checkpoint_id'', JString (ca_checkpoint_id a)),
          (''subject_ref'', subject_ref_payload (ca_subject_ref a)),
          (''kind'', JString (checkpoint_value_kind_text (ca_kind a))), (''as_of'', JString t),
          (''accepted_value'', assertion_value_payload (ca_accepted_value a)),
          (''trust_level'', JString (trust_level_text (ca_trust_level a))),
          (''basis'', JString (assertion_basis_text (ca_basis a))),
          (''support_shape'', JString (support_shape_text (ca_support_shape a))),
          (''continuity_kind'', JString (continuity_kind_text (ca_continuity_kind a)))]))"

record checkpoint =
  ck_checkpoint_id :: string
  ck_reconciliation_state_refs :: "string list"
  ck_as_of :: datetime
  ck_checkpoint_records :: "checkpoint_record list"
  ck_checkpoint_assertion_records :: "checkpoint_assertion_record list"

definition mk_checkpoint :: "checkpoint \<Rightarrow> checkpoint result" where
  "mk_checkpoint c =
     r_bind (require_utc_datetime (ck_as_of c) ''checkpoint as_of'') (\<lambda>t. Inr (c\<lparr>ck_as_of := t\<rparr>))"

definition stable_checkpoint_id :: "string list \<Rightarrow> datetime \<Rightarrow> string result" where
  "stable_checkpoint_id reconciliation_state_refs as_of =
     r_bind (format_temporal_value as_of TIMESTAMP ''checkpoint as_of'') (\<lambda>t.
       Inr (stable_product_id [JArray (map JString (sort reconciliation_state_refs)), JString t]))"

definition stable_checkpoint_assertion_id ::
    "checkpoint_value_kind \<Rightarrow> datetime \<Rightarrow> subject_ref \<Rightarrow> assertion_value \<Rightarrow> string result" where
  "stable_checkpoint_assertion_id kind as_of subject_ref accepted_value =
     r_bind (format_temporal_value as_of TIMESTAMP ''checkpoint assertion as_of'') (\<lambda>t.
       Inr (stable_id [JString (checkpoint_value_kind_text kind), JString t,
         subject_ref_payload subject_ref, JString (assertion_value_fingerprint accepted_value)]))"

definition assertion_key :: "checkpoint_assertion_record \<Rightarrow> datetime \<times> string" where
  "assertion_key a = (ca_as_of a, ca_assertion_id a)"

definition canonical_checkpoint_assertion_records ::
    "checkpoint_assertion_record list \<Rightarrow> checkpoint_assertion_record list" where
  "canonical_checkpoint_assertion_records records = sort_key assertion_key records"

interpretation assertion_order: record_order assertion_key canonical_checkpoint_assertion_records
  by unfold_locales (simp_all add: canonical_checkpoint_assertion_records_def sort_key_filter)

definition checkpoint_payload :: "checkpoint \<Rightarrow> json result" where
  "checkpoint_payload c =
     r_bind (format_temporal_value (ck_as_of c) TIMESTAMP ''checkpoint as_of'') (\<lambda>t.
     r_bind (r_map checkpoint_record_payload (ck_checkpoint_records c)) (\<lambda>records.
     r_bind (r_map checkpoint_assertion_payload
       (canonical_checkpoint_assertion_records (ck_checkpoint_assertion_records c))) (\<lambda>assertions.
       Inr (JObject
         [(''checkpoint_id'', JString (ck_checkpoint_id c)),
          (''schema_version'', JInt CHECKPOINT_SCHEMA_VERSION),
          (''reconciliation_state_refs'',
             JArray (map JString (sort (ck_reconciliation_state_refs c)))),
          (''as_of'', JString t), (''checkpoint_records'', JArray records),
          (''checkpoint_assertion_records'', JArray assertions)]))))"

definition checkpoint_fingerprint :: "checkpoint \<Rightarrow> string result" where
  "checkpoint_fingerprint c = r_bind (checkpoint_payload c) (\<lambda>p. Inr (sha256_hex (json_text p)))"

end
