(* ===== verification/Reconciliation.thy ===== *)
theory Reconciliation
  imports Assertion_Values
begin

text \<open>
  \<open>domain/reconciliation/models.py\<close>: continuity segments, event links, balance targets and
  checkpoint proposals of a reconciliation state, their validation, payloads, ids, canonical
  orders and fingerprint. The theorem: what each id determines. Ids hold timestamps, so they are
  blind to the sub-second part of an instant.
\<close>

definition RECONCILIATION_STATE_SCHEMA_VERSION :: int where
  "RECONCILIATION_STATE_SCHEMA_VERSION = 1"

datatype continuity_segment_status = CSS_COMPLETE | CSS_PARTIAL

fun continuity_segment_status_text :: "continuity_segment_status \<Rightarrow> string" where
  "continuity_segment_status_text CSS_COMPLETE = ''complete''"
| "continuity_segment_status_text CSS_PARTIAL = ''partial''"

datatype balance_target_kind = EXACT_BALANCE

fun balance_target_kind_text :: "balance_target_kind \<Rightarrow> string" where
  "balance_target_kind_text EXACT_BALANCE = ''exact_balance''"

datatype observation_status = OBSERVED | UNOBSERVED

fun observation_status_text :: "observation_status \<Rightarrow> string" where
  "observation_status_text OBSERVED = ''observed''"
| "observation_status_text UNOBSERVED = ''unobserved''"

datatype comparison_outcome = MATCHED | MISMATCHED

fun comparison_outcome_text :: "comparison_outcome \<Rightarrow> string" where
  "comparison_outcome_text MATCHED = ''matched''"
| "comparison_outcome_text MISMATCHED = ''mismatched''"

datatype proposal_status = PS_READY | PS_PARTIAL | PS_BLOCKED

fun proposal_status_text :: "proposal_status \<Rightarrow> string" where
  "proposal_status_text PS_READY = ''ready''"
| "proposal_status_text PS_PARTIAL = ''partial''"
| "proposal_status_text PS_BLOCKED = ''blocked''"

section \<open>Records\<close>

record continuity_segment_record =
  seg_segment_id :: string
  seg_subject_ref :: subject_ref
  seg_segment_start_at :: datetime
  seg_segment_end_at :: datetime
  seg_status :: continuity_segment_status
  seg_as_of :: datetime

definition mk_continuity_segment_record ::
    "continuity_segment_record \<Rightarrow> continuity_segment_record result" where
  "mk_continuity_segment_record s =
     r_bind (require_utc_datetime (seg_segment_start_at s) ''continuity segment segment_start_at'') (\<lambda>first.
     r_bind (require_utc_datetime (seg_segment_end_at s) ''continuity segment segment_end_at'') (\<lambda>final.
     r_bind (require_utc_datetime (seg_as_of s) ''continuity segment as_of'') (\<lambda>as_of.
       Inr (s\<lparr>seg_segment_start_at := first, seg_segment_end_at := final, seg_as_of := as_of\<rparr>))))"

definition segment_payload :: "continuity_segment_record \<Rightarrow> json result" where
  "segment_payload s =
     r_bind (format_temporal_value (seg_segment_start_at s) TIMESTAMP
       ''continuity segment segment_start_at'') (\<lambda>first.
     r_bind (format_temporal_value (seg_segment_end_at s) TIMESTAMP
       ''continuity segment segment_end_at'') (\<lambda>final.
     r_bind (format_temporal_value (seg_as_of s) TIMESTAMP ''continuity segment as_of'') (\<lambda>as_of.
       Inr (JObject
         [(''segment_id'', JString (seg_segment_id s)),
          (''subject_ref'', subject_ref_payload (seg_subject_ref s)),
          (''segment_start_at'', JString first), (''segment_end_at'', JString final),
          (''status'', JString (continuity_segment_status_text (seg_status s))),
          (''as_of'', JString as_of)]))))"

record event_link_record =
  lnk_event_link_id :: string
  lnk_segment_id :: string
  lnk_kind :: string
  lnk_left_event_ref :: string
  lnk_right_event_ref :: string
  lnk_status :: string

definition event_link_payload :: "event_link_record \<Rightarrow> json" where
  "event_link_payload l = JObject
     [(''event_link_id'', JString (lnk_event_link_id l)), (''segment_id'', JString (lnk_segment_id l)),
      (''kind'', JString (lnk_kind l)), (''left_event_ref'', JString (lnk_left_event_ref l)),
      (''right_event_ref'', JString (lnk_right_event_ref l)), (''status'', JString (lnk_status l))]"

record balance_target_record =
  bt_target_id :: string
  bt_segment_id :: string
  bt_subject_ref :: subject_ref
  bt_kind :: balance_target_kind
  bt_as_of :: datetime
  bt_expected_value :: assertion_value
  bt_observed_value :: "assertion_value option"
  bt_observation_status :: observation_status
  bt_comparison_outcome :: "comparison_outcome option"

definition mk_balance_target_record :: "balance_target_record \<Rightarrow> balance_target_record result" where
  "mk_balance_target_record t =
     r_bind (require_utc_datetime (bt_as_of t) ''balance target as_of'') (\<lambda>as_of.
       if bt_observation_status t = OBSERVED then
         (if bt_observed_value t = None
          then Inl (ValueError ''observed balance targets require observed_value'')
          else Inr (t\<lparr>bt_as_of := as_of\<rparr>))
       else if bt_comparison_outcome t \<noteq> None then
         Inl (ValueError ''unobserved balance targets must not set comparison_outcome'')
       else Inr (t\<lparr>bt_as_of := as_of\<rparr>))"

definition balance_target_payload :: "balance_target_record \<Rightarrow> json result" where
  "balance_target_payload t =
     r_bind (format_temporal_value (bt_as_of t) TIMESTAMP ''balance target as_of'') (\<lambda>as_of.
       Inr (JObject
         [(''target_id'', JString (bt_target_id t)), (''segment_id'', JString (bt_segment_id t)),
          (''subject_ref'', subject_ref_payload (bt_subject_ref t)),
          (''kind'', JString (balance_target_kind_text (bt_kind t))), (''as_of'', JString as_of),
          (''expected_value'', assertion_value_payload (bt_expected_value t)),
          (''observed_value'', case bt_observed_value t of
             None \<Rightarrow> JNull | Some v \<Rightarrow> assertion_value_payload v),
          (''observation_status'', JString (observation_status_text (bt_observation_status t))),
          (''comparison_outcome'', case bt_comparison_outcome t of
             None \<Rightarrow> JNull | Some c \<Rightarrow> JString (comparison_outcome_text c))]))"

record checkpoint_proposal_record =
  cp_proposal_id :: string
  cp_segment_id :: string
  cp_subject_ref :: subject_ref
  cp_as_of :: datetime
  cp_status :: proposal_status
  cp_superseding_proposal_ref :: string
  cp_target_refs :: "string list"
  cp_evidence_refs :: "string list"

definition mk_checkpoint_proposal_record ::
    "checkpoint_proposal_record \<Rightarrow> checkpoint_proposal_record result" where
  "mk_checkpoint_proposal_record p =
     r_bind (require_utc_datetime (cp_as_of p) ''checkpoint proposal as_of'') (\<lambda>as_of.
       Inr (p\<lparr>cp_as_of := as_of\<rparr>))"

definition checkpoint_proposal_payload :: "checkpoint_proposal_record \<Rightarrow> json result" where
  "checkpoint_proposal_payload p =
     r_bind (format_temporal_value (cp_as_of p) TIMESTAMP ''checkpoint proposal as_of'') (\<lambda>as_of.
       Inr (JObject
         [(''proposal_id'', JString (cp_proposal_id p)), (''segment_id'', JString (cp_segment_id p)),
          (''subject_ref'', subject_ref_payload (cp_subject_ref p)), (''as_of'', JString as_of),
          (''status'', JString (proposal_status_text (cp_status p))),
          (''superseding_proposal_ref'', JString (cp_superseding_proposal_ref p)),
          (''target_refs'', JArray (map JString (sort (cp_target_refs p)))),
          (''evidence_refs'', JArray (map JString (sort (cp_evidence_refs p))))]))"

record reconciliation_state =
  rs_reconciliation_state_id :: string
  rs_economic_facts_ref :: string
  rs_continuity_segment_records :: "continuity_segment_record list"
  rs_event_link_records :: "event_link_record list"
  rs_balance_target_records :: "balance_target_record list"
  rs_checkpoint_proposal_records :: "checkpoint_proposal_record list"

section \<open>Ids\<close>

definition stable_continuity_segment_id :: "subject_ref \<Rightarrow> datetime \<Rightarrow> datetime \<Rightarrow> string result" where
  "stable_continuity_segment_id subject_ref segment_start_at segment_end_at =
     r_bind (format_temporal_value segment_start_at TIMESTAMP
       ''continuity segment segment_start_at'') (\<lambda>first.
     r_bind (format_temporal_value segment_end_at TIMESTAMP
       ''continuity segment segment_end_at'') (\<lambda>final.
       Inr (stable_id [subject_ref_payload subject_ref, JString first, JString final])))"

definition stable_reconciliation_state_id :: "string \<Rightarrow> string \<Rightarrow> string" where
  "stable_reconciliation_state_id economic_facts_ref segment_id =
     stable_product_id [JString economic_facts_ref, JString segment_id]"

definition stable_balance_target_id ::
    "string \<Rightarrow> subject_ref \<Rightarrow> balance_target_kind \<Rightarrow> datetime \<Rightarrow> assertion_value \<Rightarrow> string result" where
  "stable_balance_target_id segment_id subject_ref kind as_of expected_value =
     r_bind (format_temporal_value as_of TIMESTAMP ''balance target as_of'') (\<lambda>stamp.
       Inr (stable_id [JString segment_id, subject_ref_payload subject_ref,
         JString (balance_target_kind_text kind), JString stamp,
         JString (assertion_value_fingerprint expected_value)]))"

definition stable_checkpoint_proposal_id ::
    "string \<Rightarrow> subject_ref \<Rightarrow> datetime \<Rightarrow> string list \<Rightarrow> string result" where
  "stable_checkpoint_proposal_id segment_id subject_ref as_of target_refs =
     r_bind (format_temporal_value as_of TIMESTAMP ''checkpoint proposal as_of'') (\<lambda>stamp.
       Inr (stable_id [JString segment_id, subject_ref_payload subject_ref, JString stamp,
         JArray (map JString (sort target_refs))]))"

section \<open>Canonical orders and fingerprint\<close>

definition segment_key :: "continuity_segment_record \<Rightarrow> datetime \<times> string" where
  "segment_key s = (seg_as_of s, seg_segment_id s)"

definition canonical_continuity_segment_records ::
    "continuity_segment_record list \<Rightarrow> continuity_segment_record list" where
  "canonical_continuity_segment_records records = sort_key segment_key records"

definition target_key :: "balance_target_record \<Rightarrow> string \<times> datetime \<times> string" where
  "target_key t = (bt_segment_id t, bt_as_of t, bt_target_id t)"

definition canonical_balance_target_records ::
    "balance_target_record list \<Rightarrow> balance_target_record list" where
  "canonical_balance_target_records records = sort_key target_key records"

definition proposal_key :: "checkpoint_proposal_record \<Rightarrow> datetime \<times> string \<times> string" where
  "proposal_key p = (cp_as_of p, cp_segment_id p, cp_proposal_id p)"

definition canonical_checkpoint_proposal_records ::
    "checkpoint_proposal_record list \<Rightarrow> checkpoint_proposal_record list" where
  "canonical_checkpoint_proposal_records records = sort_key proposal_key records"

interpretation segment_order: record_order segment_key canonical_continuity_segment_records
  by unfold_locales (simp_all add: canonical_continuity_segment_records_def sort_key_filter)

interpretation target_order: record_order target_key canonical_balance_target_records
  by unfold_locales (simp_all add: canonical_balance_target_records_def sort_key_filter)

interpretation proposal_order: record_order proposal_key canonical_checkpoint_proposal_records
  by unfold_locales (simp_all add: canonical_checkpoint_proposal_records_def sort_key_filter)

definition reconciliation_state_payload :: "reconciliation_state \<Rightarrow> json result" where
  "reconciliation_state_payload s =
     r_bind (r_map segment_payload
       (canonical_continuity_segment_records (rs_continuity_segment_records s))) (\<lambda>segments.
     r_bind (r_map balance_target_payload
       (canonical_balance_target_records (rs_balance_target_records s))) (\<lambda>targets.
     r_bind (r_map checkpoint_proposal_payload
       (canonical_checkpoint_proposal_records (rs_checkpoint_proposal_records s))) (\<lambda>proposals.
       Inr (JObject
         [(''reconciliation_state_id'', JString (rs_reconciliation_state_id s)),
          (''schema_version'', JInt RECONCILIATION_STATE_SCHEMA_VERSION),
          (''economic_facts_ref'', JString (rs_economic_facts_ref s)),
          (''continuity_segment_records'', JArray segments),
          (''event_link_records'', JArray (map event_link_payload (rs_event_link_records s))),
          (''balance_target_records'', JArray targets),
          (''checkpoint_proposal_records'', JArray proposals)]))))"

definition reconciliation_state_fingerprint :: "reconciliation_state \<Rightarrow> string result" where
  "reconciliation_state_fingerprint s =
     r_bind (reconciliation_state_payload s) (\<lambda>p. Inr (sha256_hex (json_text p)))"

section \<open>What the ids determine\<close>

lemma strftime_timestamp_iff:
  assumes "valid_datetime a" "valid_datetime b" "utcoffset a = utcoffset b"
  shows "strftime_timestamp a = strftime_timestamp b \<longleftrightarrow> whole_second a = whole_second b"
proof
  assume "strftime_timestamp a = strftime_timestamp b"
  then have "strptime_timestamp (strftime_timestamp a) = strptime_timestamp (strftime_timestamp b)"
    by simp
  then show "whole_second a = whole_second b"
    using assms by (simp add: strptime_strftime_timestamp whole_second_def)
next
  assume "whole_second a = whole_second b"
  then show "strftime_timestamp a = strftime_timestamp b"
    by (simp add: whole_second_def strftime_timestamp_def strftime_date_def)
qed

lemma format_timestamp_utc:
  "format_temporal_value t TIMESTAMP label =
     (if utcoffset t = Some 0 then Inr (strftime_timestamp t)
      else Inl (ValueError (label @ '' must be timezone-aware UTC'')))"
  by (simp add: format_temporal_value_def require_temporal_datetime_def require_utc_datetime_def
      split: option.split)

lemma target_id_second:
  assumes "stable_balance_target_id g s k t v = Inr i" "stable_balance_target_id g' s' k' t' v' = Inr i"
    and "valid_datetime t" "valid_datetime t'"
  shows "whole_second t = whole_second t'"
  using assms
  by (auto simp: stable_balance_target_id_def format_timestamp_utc stable_id_inj list_all_iff
      strftime_timestamp_iff result_simps split: if_splits)

lemma sort_eq_iff: "sort xs = sort ys \<longleftrightarrow> mset xs = mset ys"
proof
  assume "sort xs = sort ys"
  then show "mset xs = mset ys" using mset_sort [of id xs] mset_sort [of id ys] by (simp add: id_def)
next
  assume "mset xs = mset ys"
  then show "sort xs = sort ys" by (intro properties_for_sort) simp_all
qed

lemma strings_json_inj: "map JString xs = map JString ys \<longleftrightarrow> xs = ys"
  by (rule inj_map_eq_map) (simp add: inj_def)

text \<open>
  The ids of segments, targets and proposals are faithful. Two proposals share an id exactly
  when they have the same segment, subject, instant to the second and targets in any order; two
  targets when segment, subject and instant to the second agree and their expected values have
  one fingerprint; two segments when subject and both bounds to the second agree.
\<close>

lemma reconciliation_ids_faithful:
  assumes "valid_datetime t" "valid_datetime t'" "utcoffset t = Some 0" "utcoffset t' = Some 0"
    and "valid_datetime u" "valid_datetime u'" "utcoffset u = Some 0" "utcoffset u' = Some 0"
  shows "(stable_checkpoint_proposal_id g s t rs = stable_checkpoint_proposal_id g' s' t' rs' \<longleftrightarrow>
      g = g' \<and> s = s' \<and> whole_second t = whole_second t' \<and> mset rs = mset rs') \<and>
    (stable_balance_target_id g s k t v = stable_balance_target_id g' s' k' t' v' \<longleftrightarrow>
      g = g' \<and> s = s' \<and> whole_second t = whole_second t' \<and>
      assertion_value_fingerprint v = assertion_value_fingerprint v') \<and>
    (stable_continuity_segment_id s t u = stable_continuity_segment_id s' t' u' \<longleftrightarrow>
      s = s' \<and> whole_second t = whole_second t' \<and> whole_second u = whole_second u')"
proof -
  have k: "k = k'" by (cases k; cases k') simp
  show ?thesis
    using assms
    by (auto simp: stable_checkpoint_proposal_id_def stable_balance_target_id_def k
        stable_continuity_segment_id_def format_timestamp_utc stable_id_inj list_all_iff
        subject_ref_payload_inj strftime_timestamp_iff sort_eq_iff strings_json_inj)
qed

definition sample_instant :: "nat \<Rightarrow> datetime" where
  "sample_instant s = DateTime 2024 3 4 5 6 s 0 (Some 0)"

lemma sample_instant_valid [simp]:
  "s < 60 \<Longrightarrow> valid_datetime (sample_instant s)" "utcoffset (sample_instant s) = Some 0"
  by (simp_all add: sample_instant_def valid_datetime_def valid_date_def days_in_month_def)

lemma sample_instant_order [simp]:
  "sample_instant s \<le> sample_instant r \<longleftrightarrow> s \<le> r" "sample_instant s < sample_instant r \<longleftrightarrow> s < r"
  "sample_instant s = sample_instant r \<longleftrightarrow> s = r"
  by (auto simp: less_eq_datetime_def less_datetime_def dt_key_def sample_instant_def)

lemma reconciliation_ids_faithful_witness:
  "stable_checkpoint_proposal_id ''g'' (''position'', []) (sample_instant 7) [''a'', ''b''] =
     stable_checkpoint_proposal_id ''g'' (''position'', []) (sample_instant 7) [''b'', ''a''] \<and>
   stable_checkpoint_proposal_id ''g'' (''position'', []) (sample_instant 7) [''a'', ''b''] \<noteq>
     stable_checkpoint_proposal_id ''g'' (''position'', []) (sample_instant 8) [''a'', ''b'']"
proof -
  have d: "whole_second (sample_instant 7) \<noteq> whole_second (sample_instant 8)"
    by (simp add: whole_second_def sample_instant_def)
  note f = reconciliation_ids_faithful [of "sample_instant 7" _ "sample_instant 7" "sample_instant 7"
      "''g''" "(''position'', [])" "[''a'', ''b'']"]
  show ?thesis
    using f [of "sample_instant 7" "''g''" "(''position'', [])" "[''b'', ''a'']"]
      f [of "sample_instant 8" "''g''" "(''position'', [])" "[''a'', ''b'']"] d
    by simp
qed

end
