(* ===== verification/Economics.thy ===== *)
theory Economics
  imports Assertion_Values
begin

text \<open>
  \<open>domain/economics/models.py\<close>: economic events, legs and valuations, their validation,
  payloads, ids, canonical orders and fingerprint. A leg's slot is read back from its id, which
  is JSON text.
\<close>

datatype event_kind =
    EK_ASSET_MOVEMENT | EK_CASH_MOVEMENT | EK_OBLIGATION_OR_RIGHT | EK_SETTLEMENT
  | EK_COLLATERAL_CHANGE | EK_FINANCING_FLOW | EK_FEE_OR_REBATE | EK_WITHHOLDING
  | EK_LIFECYCLE_RESTRUCTURE | EK_CORRECTION

fun event_kind_text :: "event_kind \<Rightarrow> string" where
  "event_kind_text EK_ASSET_MOVEMENT = ''asset_movement''"
| "event_kind_text EK_CASH_MOVEMENT = ''cash_movement''"
| "event_kind_text EK_OBLIGATION_OR_RIGHT = ''obligation_or_right''"
| "event_kind_text EK_SETTLEMENT = ''settlement''"
| "event_kind_text EK_COLLATERAL_CHANGE = ''collateral_change''"
| "event_kind_text EK_FINANCING_FLOW = ''financing_flow''"
| "event_kind_text EK_FEE_OR_REBATE = ''fee_or_rebate''"
| "event_kind_text EK_WITHHOLDING = ''withholding''"
| "event_kind_text EK_LIFECYCLE_RESTRUCTURE = ''lifecycle_restructure''"
| "event_kind_text EK_CORRECTION = ''correction''"

datatype settlement_status = SETTLED

datatype lifecycle_event = CREATED | MIGRATED

fun lifecycle_event_text :: "lifecycle_event \<Rightarrow> string" where
  "lifecycle_event_text CREATED = ''created''"
| "lifecycle_event_text MIGRATED = ''migrated''"

datatype leg_role =
    HOLDING_CHANGE | CASH_CHANGE | OBLIGATION_CHANGE | SETTLEMENT_CHANGE | COLLATERAL_CHANGE
  | FINANCING_CHANGE | FEE | REBATE | WITHHOLDING

fun leg_role_text :: "leg_role \<Rightarrow> string" where
  "leg_role_text HOLDING_CHANGE = ''holding_change''"
| "leg_role_text CASH_CHANGE = ''cash_change''"
| "leg_role_text OBLIGATION_CHANGE = ''obligation_change''"
| "leg_role_text SETTLEMENT_CHANGE = ''settlement_change''"
| "leg_role_text COLLATERAL_CHANGE = ''collateral_change''"
| "leg_role_text FINANCING_CHANGE = ''financing_change''"
| "leg_role_text FEE = ''fee''"
| "leg_role_text REBATE = ''rebate''"
| "leg_role_text WITHHOLDING = ''withholding''"

definition ECONOMIC_FACTS_SCHEMA_VERSION :: int where "ECONOMIC_FACTS_SCHEMA_VERSION = 1"

section \<open>Records\<close>

record economic_event_record =
  ev_event_id :: string
  ev_claim_bundle_id :: string
  ev_claim_bundle_decision_id :: string
  ev_kind :: event_kind
  ev_effective_at :: datetime
  ev_recorded_at :: datetime
  ev_settlement_status :: settlement_status
  ev_lifecycle_event :: lifecycle_event
  ev_legal_owner_ref :: string
  ev_beneficial_owner_ref :: string
  ev_counterparty_ref :: string
  ev_supersedes_event_id :: string

definition mk_economic_event_record :: "economic_event_record \<Rightarrow> economic_event_record result" where
  "mk_economic_event_record e =
     r_bind (require_utc_datetime (ev_effective_at e) ''economic event effective_at'') (\<lambda>eff.
     r_bind (require_utc_datetime (ev_recorded_at e) ''economic event recorded_at'') (\<lambda>rec.
       Inr (e\<lparr>ev_effective_at := eff, ev_recorded_at := rec\<rparr>)))"

definition event_payload :: "economic_event_record \<Rightarrow> json result" where
  "event_payload e =
     r_bind (format_temporal_value (ev_effective_at e) TIMESTAMP ''economic event effective_at'') (\<lambda>eff.
     r_bind (format_temporal_value (ev_recorded_at e) TIMESTAMP ''economic event recorded_at'') (\<lambda>rec.
       Inr (JObject
         [(''event_id'', JString (ev_event_id e)),
          (''claim_bundle_id'', JString (ev_claim_bundle_id e)),
          (''claim_bundle_decision_id'', JString (ev_claim_bundle_decision_id e)),
          (''kind'', JString (event_kind_text (ev_kind e))), (''effective_at'', JString eff),
          (''recorded_at'', JString rec), (''settlement_status'', JString ''settled''),
          (''lifecycle_event'', JString (lifecycle_event_text (ev_lifecycle_event e))),
          (''legal_owner_ref'', JString (ev_legal_owner_ref e)),
          (''beneficial_owner_ref'', JString (ev_beneficial_owner_ref e)),
          (''counterparty_ref'', JString (ev_counterparty_ref e)),
          (''supersedes_event_id'', JString (ev_supersedes_event_id e))])))"

record economic_leg_record =
  leg_leg_id :: string
  leg_event_id :: string
  leg_role_of :: leg_role
  leg_subject_ref :: subject_ref
  leg_instrument_ref :: "string list"
  leg_location_ref :: "string list"
  leg_quantity :: decimal
  leg_valuation_ref :: string

definition mk_economic_leg_record :: "economic_leg_record \<Rightarrow> economic_leg_record result" where
  "mk_economic_leg_record l =
     (if leg_instrument_ref l = [] then
        Inl (ValueError ''economic leg instrument_ref must not be empty'')
      else if leg_location_ref l = [] then
        Inl (ValueError ''economic leg location_ref must not be empty'')
      else if d_eq (leg_quantity l) d_zero then
        Inl (ValueError ''economic leg quantity must not be zero'')
      else Inr l)"

definition leg_payload :: "economic_leg_record \<Rightarrow> json" where
  "leg_payload l = JObject
     [(''leg_id'', JString (leg_leg_id l)), (''event_id'', JString (leg_event_id l)),
      (''role'', JString (leg_role_text (leg_role_of l))),
      (''subject_ref'', subject_ref_payload (leg_subject_ref l)),
      (''instrument_ref'', JArray (map JString (leg_instrument_ref l))),
      (''location_ref'', JArray (map JString (leg_location_ref l))),
      (''quantity'', JString (format_decimal (Some (leg_quantity l)))),
      (''valuation_ref'', JString (leg_valuation_ref l))]"

record valuation_record =
  val_valuation_id :: string
  val_origin_ref :: "string \<times> string"
  val_purpose :: string
  val_amount :: decimal
  val_currency :: string
  val_valued_at :: datetime
  val_precision :: temporal_precision
  val_provenance_refs :: "string list"
  val_confidence :: string

definition mk_valuation_record :: "valuation_record \<Rightarrow> valuation_record result" where
  "mk_valuation_record v =
     r_bind (require_utc_datetime (val_valued_at v) ''valuation valued_at'') (\<lambda>t.
       Inr (v\<lparr>val_valued_at := t\<rparr>))"

definition valuation_payload :: "valuation_record \<Rightarrow> json result" where
  "valuation_payload v =
     r_bind (format_temporal_value (val_valued_at v) (val_precision v) ''valuation valued_at'') (\<lambda>t.
       Inr (JObject
         [(''valuation_id'', JString (val_valuation_id v)),
          (''origin_ref'', JArray [JString (fst (val_origin_ref v)), JString (snd (val_origin_ref v))]),
          (''purpose'', JString (val_purpose v)),
          (''amount'', JString (format_decimal (Some (val_amount v)))),
          (''currency'', JString (val_currency v)), (''valued_at'', JString t),
          (''precision'', JString (temporal_precision_text (val_precision v))),
          (''provenance_refs'', JArray (map JString (sort (val_provenance_refs v)))),
          (''confidence'', JString (val_confidence v))]))"

record economic_facts =
  ef_economic_facts_id :: string
  ef_claim_set_refs :: "string list"
  ef_economic_event_records :: "economic_event_record list"
  ef_economic_leg_records :: "economic_leg_record list"
  ef_valuation_records :: "valuation_record list"

section \<open>Ids\<close>

definition stable_economic_facts_id :: "string list \<Rightarrow> string" where
  "stable_economic_facts_id claim_set_refs = stable_product_id (map JString (sort claim_set_refs))"

definition stable_event_id :: "string \<Rightarrow> int \<Rightarrow> string" where
  "stable_event_id claim_bundle_id event_slot = stable_id [JString claim_bundle_id, JInt event_slot]"

definition stable_leg_id :: "string \<Rightarrow> leg_role \<Rightarrow> subject_ref \<Rightarrow> int \<Rightarrow> string" where
  "stable_leg_id event_id role subject_ref leg_slot =
     stable_id [JString event_id, JString (leg_role_text role), subject_ref_payload subject_ref,
       JInt leg_slot]"

text \<open>
  \<open>json.loads(leg_id)[3]\<close>, which must be an integer (\<open>True\<close> and \<open>False\<close> are). Indexing
  anything but a list or a string is a \<open>TypeError\<close> or \<open>KeyError\<close> the model does not follow.
\<close>

definition leg_slot :: "string \<Rightarrow> int result" where
  "leg_slot leg_id =
     r_bind (loads leg_id) (\<lambda>payload.
       case payload of
         JArray js \<Rightarrow>
           if length js \<le> 3 then Inl (IndexError ''list index out of range'')
           else (case js ! 3 of
               JInt i \<Rightarrow> Inr i
             | JBool b \<Rightarrow> Inr (if b then 1 else 0)
             | _ \<Rightarrow> Inl (ValueError (''invalid economic leg_id: '' @ leg_id)))
       | JString s \<Rightarrow>
           if length s \<le> 3 then Inl (IndexError ''string index out of range'')
           else Inl (ValueError (''invalid economic leg_id: '' @ leg_id))
       | _ \<Rightarrow> Inl (OutsideModel ''not subscriptable''))"

section \<open>Canonical orders\<close>

definition event_key :: "economic_event_record \<Rightarrow> datetime \<times> datetime \<times> string" where
  "event_key e = (ev_effective_at e, ev_recorded_at e, ev_event_id e)"

definition canonical_economic_event_records ::
    "economic_event_record list \<Rightarrow> economic_event_record list" where
  "canonical_economic_event_records records = sort_key event_key records"

definition leg_key :: "economic_leg_record \<Rightarrow> (string \<times> int \<times> string) result" where
  "leg_key l = r_bind (leg_slot (leg_leg_id l)) (\<lambda>s. Inr (leg_event_id l, s, leg_leg_id l))"

definition canonical_economic_leg_records ::
    "economic_leg_record list \<Rightarrow> economic_leg_record list result" where
  "canonical_economic_leg_records records = sort_by_result leg_key records"

definition valuation_key :: "valuation_record \<Rightarrow> string \<times> datetime \<times> string" where
  "valuation_key v = (val_purpose v, val_valued_at v, val_valuation_id v)"

definition canonical_valuation_records :: "valuation_record list \<Rightarrow> valuation_record list" where
  "canonical_valuation_records records = sort_key valuation_key records"

interpretation event_order: record_order event_key canonical_economic_event_records
  by unfold_locales (simp_all add: canonical_economic_event_records_def sort_key_filter)

interpretation valuation_order: record_order valuation_key canonical_valuation_records
  by unfold_locales (simp_all add: canonical_valuation_records_def sort_key_filter)

definition economic_facts_payload :: "economic_facts \<Rightarrow> json result" where
  "economic_facts_payload f =
     r_bind (r_map event_payload (canonical_economic_event_records (ef_economic_event_records f))) (\<lambda>events.
     r_bind (canonical_economic_leg_records (ef_economic_leg_records f)) (\<lambda>legs.
     r_bind (r_map valuation_payload (canonical_valuation_records (ef_valuation_records f))) (\<lambda>vals.
       Inr (JObject
         [(''economic_facts_id'', JString (ef_economic_facts_id f)),
          (''schema_version'', JInt ECONOMIC_FACTS_SCHEMA_VERSION),
          (''claim_set_refs'', JArray (map JString (ef_claim_set_refs f))),
          (''economic_event_records'', JArray events),
          (''economic_leg_records'', JArray (map leg_payload legs)),
          (''valuation_records'', JArray vals)]))))"

definition economic_facts_fingerprint :: "economic_facts \<Rightarrow> string result" where
  "economic_facts_fingerprint f = r_bind (economic_facts_payload f) (\<lambda>p. Inr (sha256_hex (json_text p)))"

section \<open>Lemmas on ids\<close>

lemma leg_role_text_inj: "leg_role_text r = leg_role_text s \<longleftrightarrow> r = s"
  by (cases r; cases s) auto

lemma stable_event_id_iff: "stable_event_id b i = stable_event_id c j \<longleftrightarrow> b = c \<and> i = j"
  by (simp add: stable_event_id_def stable_id_inj)

lemma stable_leg_id_iff:
  "stable_leg_id e r s i = stable_leg_id e' r' s' i' \<longleftrightarrow> e = e' \<and> r = r' \<and> s = s' \<and> i = i'"
  by (auto simp: stable_leg_id_def stable_id_inj leg_role_text_inj subject_ref_payload_inj)

lemma leg_slot_stable: "leg_slot (stable_leg_id e r s i) = Inr i"
proof -
  have "loads (stable_leg_id e r s i) =
      Inr (JArray [JString e, JString (leg_role_text r), subject_ref_payload s, JInt i])"
    unfolding stable_leg_id_def by (rule loads_stable_id) simp
  then show ?thesis by (simp add: leg_slot_def numeral_3_eq_3)
qed

text \<open>
  The id of a leg determines its event, role, subject and slot, and the slot the canonical
  order reads back from the id is the one it was made with; event ids determine bundle and slot.
\<close>

lemma stable_leg_id_faithful:
  "leg_slot (stable_leg_id e r s i) = Inr i \<and>
   (stable_leg_id e r s i = stable_leg_id e' r' s' i' \<longleftrightarrow> e = e' \<and> r = r' \<and> s = s' \<and> i = i') \<and>
   (stable_event_id b j = stable_event_id c k \<longleftrightarrow> b = c \<and> j = k)"
  by (simp add: leg_slot_stable stable_leg_id_iff stable_event_id_iff)

end
