(* ===== verification/Claims.thy ===== *)
theory Claims
  imports Value_Objects Py_Json Sha256
begin

text \<open>
  \<open>domain/claim/models.py\<close>: claim records with the field rules of each kind, bundles, decisions,
  the claim set, its canonical orders, ids and fingerprint. The claims of a set reach the economic
  facts and the reconciliation through these records only.
\<close>

definition CLAIM_SET_SCHEMA_VERSION :: int where "CLAIM_SET_SCHEMA_VERSION = 1"

datatype claim_kind = CK_ACTIVITY | CK_BALANCE | CK_INSTRUMENT | CK_LOCATION | CK_BENEFICIAL_OWNER | CK_VALUATION

fun claim_kind_text :: "claim_kind \<Rightarrow> string" where
  "claim_kind_text CK_ACTIVITY = ''activity''"
| "claim_kind_text CK_BALANCE = ''balance''"
| "claim_kind_text CK_INSTRUMENT = ''instrument''"
| "claim_kind_text CK_LOCATION = ''location''"
| "claim_kind_text CK_BENEFICIAL_OWNER = ''beneficial_owner''"
| "claim_kind_text CK_VALUATION = ''valuation''"

datatype claim_record_status = CS_ASSERTED | CS_SUPERSEDED

fun claim_status_text :: "claim_record_status \<Rightarrow> string" where
  "claim_status_text CS_ASSERTED = ''asserted''"
| "claim_status_text CS_SUPERSEDED = ''superseded''"

datatype decision_outcome = DO_ACCEPTED | DO_BLOCKED | DO_DEFERRED | DO_SUPERSEDED

fun decision_outcome_text :: "decision_outcome \<Rightarrow> string" where
  "decision_outcome_text DO_ACCEPTED = ''accepted''"
| "decision_outcome_text DO_BLOCKED = ''blocked''"
| "decision_outcome_text DO_DEFERRED = ''deferred''"
| "decision_outcome_text DO_SUPERSEDED = ''superseded''"

datatype decision_basis =
    DB_SINGLE_BUNDLE | DB_INSUFFICIENT_IDENTITY | DB_INSUFFICIENT_TEMPORAL_PRECISION
  | DB_CONFLICTING_CLAIMS | DB_UPSTREAM_GAP | DB_POLICY_DECISION_REQUIRED | DB_LATER_BUNDLE_SELECTED

fun decision_basis_text :: "decision_basis \<Rightarrow> string" where
  "decision_basis_text DB_SINGLE_BUNDLE = ''single_bundle''"
| "decision_basis_text DB_INSUFFICIENT_IDENTITY = ''insufficient_identity''"
| "decision_basis_text DB_INSUFFICIENT_TEMPORAL_PRECISION = ''insufficient_temporal_precision''"
| "decision_basis_text DB_CONFLICTING_CLAIMS = ''conflicting_claims''"
| "decision_basis_text DB_UPSTREAM_GAP = ''upstream_gap''"
| "decision_basis_text DB_POLICY_DECISION_REQUIRED = ''policy_decision_required''"
| "decision_basis_text DB_LATER_BUNDLE_SELECTED = ''later_bundle_selected''"

definition hash_payload :: "json \<Rightarrow> string" where
  "hash_payload payload = sha256_hex (dumps_sorted payload)"

definition optional_temporal ::
    "datetime option \<Rightarrow> temporal_precision option \<Rightarrow> string \<Rightarrow> string result" where
  "optional_temporal v precision label =
     (case (v, precision) of
        (Some t, Some p) \<Rightarrow> format_temporal_value t p label
      | _ \<Rightarrow> Inr [])"

definition strings_json :: "string list \<Rightarrow> json" where
  "strings_json ss = JArray (map JString ss)"

definition sorted_texts :: "string list \<Rightarrow> json" where
  "sorted_texts vs = strings_json (sort vs)"

section \<open>Claim records\<close>

record claim_leg_spec =
  ls_slot :: int
  ls_role :: string
  ls_quantity :: decimal
  ls_instrument_claim_refs :: "string list"
  ls_location_claim_ref :: string
  ls_subtype :: string
  ls_attributed_to_slot :: "int option"

definition leg_spec_payload :: "claim_leg_spec \<Rightarrow> json" where
  "leg_spec_payload s = JObject
     [(''slot'', JInt (ls_slot s)), (''role'', JString (ls_role s)),
      (''quantity'', JString (format_decimal (Some (ls_quantity s)))),
      (''instrument_claim_refs'', sorted_texts (ls_instrument_claim_refs s)),
      (''location_claim_ref'', JString (ls_location_claim_ref s)),
      (''subtype'', JString (ls_subtype s)),
      (''attributed_to_slot'', case ls_attributed_to_slot s of None \<Rightarrow> JNull | Some i \<Rightarrow> JInt i)]"

record claim_record =
  clm_claim_set_id :: string
  clm_scope_id :: string
  clm_bundle_id :: string
  clm_claim_id :: string
  clm_kind :: claim_kind
  clm_status :: claim_record_status
  clm_key :: "string list"
  clm_member_refs :: "string list"
  clm_observation_refs :: "string list"
  clm_effective_at :: "datetime option"
  clm_precision :: "temporal_precision option"
  clm_provenance_refs :: "string list"
  clm_activity_label :: string
  clm_location_claim_ref :: string
  clm_leg_specs :: "claim_leg_spec list"
  clm_instrument_claim_refs :: "string list"
  clm_balance_kind :: string
  clm_quantity :: "decimal option"
  clm_observed_at :: "datetime option"
  clm_scheme :: string
  clm_value :: string
  clm_venue :: string
  clm_instrument_kind :: string
  clm_name :: string
  clm_location_ref :: string
  clm_location_group_label :: string
  clm_location_label :: string
  clm_beneficial_owner_ref :: string
  clm_purpose :: string
  clm_amount :: "decimal option"
  clm_currency :: string
  clm_valued_at :: "datetime option"

text \<open>The fields of the other kinds, set or not (\<open>_is_set\<close>).\<close>

definition balance_fields_set :: "claim_record \<Rightarrow> bool" where
  "balance_fields_set c \<longleftrightarrow>
     clm_instrument_claim_refs c \<noteq> [] \<or> clm_balance_kind c \<noteq> [] \<or> clm_quantity c \<noteq> None \<or>
     clm_observed_at c \<noteq> None"

definition instrument_fields_set :: "claim_record \<Rightarrow> bool" where
  "instrument_fields_set c \<longleftrightarrow>
     clm_scheme c \<noteq> [] \<or> clm_value c \<noteq> [] \<or> clm_venue c \<noteq> [] \<or> clm_instrument_kind c \<noteq> [] \<or>
     clm_name c \<noteq> []"

definition location_fields_set :: "claim_record \<Rightarrow> bool" where
  "location_fields_set c \<longleftrightarrow>
     clm_location_ref c \<noteq> [] \<or> clm_location_group_label c \<noteq> [] \<or> clm_location_label c \<noteq> []"

definition valuation_fields_set :: "claim_record \<Rightarrow> bool" where
  "valuation_fields_set c \<longleftrightarrow>
     clm_purpose c \<noteq> [] \<or> clm_amount c \<noteq> None \<or> clm_currency c \<noteq> [] \<or> clm_valued_at c \<noteq> None"

definition claim_field_problem :: "claim_record \<Rightarrow> string option" where
  "claim_field_problem c =
     (if clm_effective_at c \<noteq> None \<and> clm_precision c = None then
        Some ''claim effective_at requires precision''
      else if clm_valued_at c \<noteq> None \<and> clm_precision c = None \<and> clm_kind c \<noteq> CK_VALUATION then
        Some ''claim valued_at requires precision''
      else if clm_kind c = CK_ACTIVITY \<and>
          \<not> (clm_activity_label c \<noteq> [] \<and> clm_location_claim_ref c \<noteq> [] \<and> clm_leg_specs c \<noteq> []) then
        Some ''activity claims require activity_label, location_claim_ref, and leg_specs''
      else if clm_kind c = CK_ACTIVITY \<and>
          (balance_fields_set c \<or> instrument_fields_set c \<or> location_fields_set c \<or>
           clm_beneficial_owner_ref c \<noteq> [] \<or> valuation_fields_set c) then
        Some ''activity claims must not set balance fields''
      else if clm_kind c = CK_BALANCE \<and>
          \<not> (clm_location_claim_ref c \<noteq> [] \<and> clm_instrument_claim_refs c \<noteq> [] \<and>
             clm_balance_kind c \<noteq> [] \<and> clm_quantity c \<noteq> None \<and> clm_observed_at c \<noteq> None \<and>
             clm_precision c \<noteq> None) then
        Some ''balance claims require location, instrument, quantity, observed_at, and precision''
      else if clm_kind c = CK_INSTRUMENT \<and>
          \<not> (clm_scheme c \<noteq> [] \<and> clm_value c \<noteq> [] \<and> clm_instrument_kind c \<noteq> []) then
        Some ''instrument claims require scheme, value, and instrument_kind''
      else if clm_kind c = CK_LOCATION \<and>
          \<not> (clm_location_ref c \<noteq> [] \<and> clm_location_group_label c \<noteq> [] \<and> clm_location_label c \<noteq> []) then
        Some ''location claims require location_ref, location_group_label, and location_label''
      else if clm_kind c = CK_BENEFICIAL_OWNER \<and> clm_beneficial_owner_ref c = [] then
        Some ''beneficial_owner claims require beneficial_owner_ref''
      else if clm_kind c = CK_VALUATION \<and>
          \<not> (clm_purpose c \<noteq> [] \<and> clm_amount c \<noteq> None \<and> clm_currency c \<noteq> [] \<and>
             clm_valued_at c \<noteq> None \<and> clm_precision c \<noteq> None \<and> clm_location_claim_ref c \<noteq> [] \<and>
             clm_instrument_claim_refs c \<noteq> []) then
        Some ''valuation claims require purpose, amount, currency, valued_at, precision, location, and instruments''
      else None)"

definition mk_claim_record :: "claim_record \<Rightarrow> claim_record result" where
  "mk_claim_record c =
     (case claim_field_problem c of Some message \<Rightarrow> Inl (ValueError message) | None \<Rightarrow> Inr c)"

definition valid_claim_record :: "claim_record \<Rightarrow> bool" where
  "valid_claim_record c \<longleftrightarrow> claim_field_problem c = None"

lemma mk_claim_record_iff [result_simps]:
  "mk_claim_record c = Inr d \<longleftrightarrow> d = c \<and> valid_claim_record c"
  by (auto simp: mk_claim_record_def valid_claim_record_def split: option.split)

definition kind_payload :: "claim_record \<Rightarrow> (string \<times> json) list result" where
  "kind_payload c =
     (case clm_kind c of
        CK_ACTIVITY \<Rightarrow> Inr
          [(''activity_label'', JString (clm_activity_label c)),
           (''location_claim_ref'', JString (clm_location_claim_ref c)),
           (''leg_specs'', JArray (map leg_spec_payload (sort_key ls_slot (clm_leg_specs c))))]
      | CK_BALANCE \<Rightarrow>
          r_bind (optional_temporal (clm_observed_at c) (clm_precision c) ''claim observed_at'') (\<lambda>t.
            Inr [(''location_claim_ref'', JString (clm_location_claim_ref c)),
              (''instrument_claim_refs'', sorted_texts (clm_instrument_claim_refs c)),
              (''balance_kind'', JString (clm_balance_kind c)),
              (''quantity'', JString (format_decimal (clm_quantity c))),
              (''observed_at'', JString t)])
      | CK_INSTRUMENT \<Rightarrow> Inr
          [(''scheme'', JString (clm_scheme c)), (''value'', JString (clm_value c)),
           (''venue'', JString (clm_venue c)),
           (''instrument_kind'', JString (clm_instrument_kind c)), (''name'', JString (clm_name c))]
      | CK_LOCATION \<Rightarrow> Inr
          [(''location_ref'', JString (clm_location_ref c)),
           (''location_group_label'', JString (clm_location_group_label c)),
           (''location_label'', JString (clm_location_label c))]
      | CK_BENEFICIAL_OWNER \<Rightarrow> Inr
          [(''beneficial_owner_ref'', JString (clm_beneficial_owner_ref c))]
      | CK_VALUATION \<Rightarrow>
          r_bind (optional_temporal (clm_valued_at c) (clm_precision c) ''claim valued_at'') (\<lambda>t.
            Inr [(''purpose'', JString (clm_purpose c)),
              (''amount'', JString (format_decimal (clm_amount c))),
              (''currency'', JString (clm_currency c)), (''valued_at'', JString t),
              (''location_claim_ref'', JString (clm_location_claim_ref c)),
              (''instrument_claim_refs'', sorted_texts (clm_instrument_claim_refs c))]))"

definition claim_semantic_payload :: "claim_record \<Rightarrow> (string \<times> json) list result" where
  "claim_semantic_payload c =
     r_bind (optional_temporal (clm_effective_at c) (clm_precision c) ''claim effective_at'') (\<lambda>t.
     r_bind (kind_payload c) (\<lambda>extra.
       Inr ([(''kind'', JString (claim_kind_text (clm_kind c))),
         (''status'', JString (claim_status_text (clm_status c))),
         (''key'', strings_json (clm_key c)), (''member_refs'', sorted_texts (clm_member_refs c)),
         (''observation_refs'', sorted_texts (clm_observation_refs c)),
         (''effective_at'', JString t),
         (''precision'', JString (case clm_precision c of None \<Rightarrow> [] | Some p \<Rightarrow> temporal_precision_text p)),
         (''provenance_refs'', sorted_texts (clm_provenance_refs c))] @ extra)))"

definition claim_payload :: "claim_record \<Rightarrow> json result" where
  "claim_payload c =
     r_bind (claim_semantic_payload c) (\<lambda>p.
       Inr (JObject ([(''claim_set_id'', JString (clm_claim_set_id c)),
         (''scope_id'', JString (clm_scope_id c)), (''bundle_id'', JString (clm_bundle_id c)),
         (''claim_id'', JString (clm_claim_id c))] @ p)))"

section \<open>Bundles and decisions\<close>

record claim_bundle_record =
  cb_claim_set_id :: string
  cb_scope_id :: string
  cb_bundle_id :: string
  cb_key :: string
  cb_scope_key :: "string list"
  cb_claim_refs :: "string list"

definition bundle_payload :: "claim_bundle_record \<Rightarrow> json" where
  "bundle_payload b = JObject
     [(''claim_set_id'', JString (cb_claim_set_id b)), (''scope_id'', JString (cb_scope_id b)),
      (''bundle_id'', JString (cb_bundle_id b)), (''key'', JString (cb_key b)),
      (''scope_key'', strings_json (cb_scope_key b)), (''claim_refs'', sorted_texts (cb_claim_refs b))]"

record claim_bundle_decision_record =
  cd_claim_set_id :: string
  cd_scope_id :: string
  cd_decision_id :: string
  cd_outcome :: decision_outcome
  cd_accepted_bundle_ref :: string
  cd_rejected_bundle_refs :: "string list"
  cd_deferred_bundle_refs :: "string list"
  cd_basis :: decision_basis
  cd_blocking_gap_refs :: "string list"

definition decision_payload :: "claim_bundle_decision_record \<Rightarrow> json" where
  "decision_payload d = JObject
     [(''claim_set_id'', JString (cd_claim_set_id d)), (''scope_id'', JString (cd_scope_id d)),
      (''decision_id'', JString (cd_decision_id d)),
      (''outcome'', JString (decision_outcome_text (cd_outcome d))),
      (''accepted_bundle_ref'', JString (cd_accepted_bundle_ref d)),
      (''rejected_bundle_refs'', sorted_texts (cd_rejected_bundle_refs d)),
      (''deferred_bundle_refs'', sorted_texts (cd_deferred_bundle_refs d)),
      (''basis'', JString (decision_basis_text (cd_basis d))),
      (''blocking_gap_refs'', sorted_texts (cd_blocking_gap_refs d))]"

section \<open>Canonical orders\<close>

text \<open>The text of the effective time is part of a claim's key, so ordering claims can fail.\<close>

definition claim_sort_key :: "claim_record \<Rightarrow> string list result" where
  "claim_sort_key c =
     r_bind (optional_temporal (clm_effective_at c) (clm_precision c) ''claim sort'') (\<lambda>t.
       Inr [clm_bundle_id c, claim_kind_text (clm_kind c), t,
         (case clm_precision c of None \<Rightarrow> [] | Some p \<Rightarrow> temporal_precision_text p), clm_claim_id c])"

definition canonical_claim_records :: "claim_record list \<Rightarrow> claim_record list result" where
  "canonical_claim_records records = sort_by_result claim_sort_key records"

definition bundle_key :: "claim_bundle_record \<Rightarrow> string \<times> string \<times> string" where
  "bundle_key b = (cb_scope_id b, cb_key b, cb_bundle_id b)"

definition canonical_claim_bundle_records :: "claim_bundle_record list \<Rightarrow> claim_bundle_record list" where
  "canonical_claim_bundle_records records = sort_key bundle_key records"

definition decision_key :: "claim_bundle_decision_record \<Rightarrow> string \<times> string" where
  "decision_key d = (cd_scope_id d, cd_decision_id d)"

definition canonical_claim_bundle_decision_records ::
    "claim_bundle_decision_record list \<Rightarrow> claim_bundle_decision_record list" where
  "canonical_claim_bundle_decision_records records = sort_key decision_key records"

interpretation bundle_order: record_order bundle_key canonical_claim_bundle_records
  by unfold_locales (simp_all add: canonical_claim_bundle_records_def sort_key_filter)

interpretation decision_order: record_order decision_key canonical_claim_bundle_decision_records
  by unfold_locales (simp_all add: canonical_claim_bundle_decision_records_def sort_key_filter)

section \<open>Claim sets\<close>

record claim_set =
  cset_claim_set_id :: string
  cset_evidence_set_ref :: string
  cset_emitter_id :: string
  cset_claim_records :: "claim_record list"
  cset_claim_bundle_records :: "claim_bundle_record list"
  cset_claim_bundle_decision_records :: "claim_bundle_decision_record list"

definition claim_set_payload :: "claim_set \<Rightarrow> json result" where
  "claim_set_payload s =
     r_bind (canonical_claim_records (cset_claim_records s)) (\<lambda>claims.
     r_bind (r_map claim_payload claims) (\<lambda>payloads.
       Inr (JObject
         [(''claim_set_id'', JString (cset_claim_set_id s)),
          (''schema_version'', JInt CLAIM_SET_SCHEMA_VERSION),
          (''evidence_set_ref'', JString (cset_evidence_set_ref s)),
          (''emitter_id'', JString (cset_emitter_id s)),
          (''claim_records'', JArray payloads),
          (''claim_bundle_records'', JArray (map bundle_payload
             (canonical_claim_bundle_records (cset_claim_bundle_records s)))),
          (''claim_bundle_decision_records'', JArray (map decision_payload
             (canonical_claim_bundle_decision_records (cset_claim_bundle_decision_records s))))])))"

definition stable_claim_set_id :: "string \<Rightarrow> string \<Rightarrow> string" where
  "stable_claim_set_id evidence_set_id emitter_id = join '':'' [evidence_set_id, emitter_id]"

definition stable_claim_scope_id :: "string \<Rightarrow> string list \<Rightarrow> string" where
  "stable_claim_scope_id claim_set_id scope_key = join '':'' (claim_set_id # scope_key)"

definition stable_claim_bundle_id :: "string \<Rightarrow> string \<Rightarrow> string" where
  "stable_claim_bundle_id scope_id key = join '':'' [scope_id, key]"

definition stable_claim_id :: "string \<Rightarrow> claim_kind \<Rightarrow> string list \<Rightarrow> string" where
  "stable_claim_id bundle_id kind key = join '':'' (bundle_id # claim_kind_text kind # key)"

definition stable_claim_bundle_decision_id :: "string \<Rightarrow> string" where
  "stable_claim_bundle_decision_id scope_id = scope_id"

definition claim_set_fingerprint :: "claim_set \<Rightarrow> string result" where
  "claim_set_fingerprint s = r_bind (claim_set_payload s) (\<lambda>p. Inr (hash_payload p))"

text \<open>The key of a claim whose effective time can be printed.\<close>

definition claim_order_key :: "claim_record \<Rightarrow> string list" where
  "claim_order_key c = (case claim_sort_key c of Inl e \<Rightarrow> [] | Inr k \<Rightarrow> k)"

lemma claim_order_key_id: "is_ok (claim_sort_key c) \<Longrightarrow> last (claim_order_key c) = clm_claim_id c"
  by (auto simp: is_ok_iff claim_order_key_def claim_sort_key_def result_simps)

lemma canonical_claims_perm:
  assumes "mset cs = mset ds" and "distinct (map clm_claim_id cs)"
    and ok: "\<forall>c \<in> set cs. is_ok (claim_sort_key c)"
  shows "canonical_claim_records cs = canonical_claim_records ds"
proof -
  have same: "set cs = set ds" using assms(1) by (metis set_mset_mset)
  have inj: "inj_on claim_order_key (set cs)"
  proof (rule inj_onI)
    fix c d assume "c \<in> set cs" "d \<in> set cs" "claim_order_key c = claim_order_key d"
    then have "clm_claim_id c = clm_claim_id d" using claim_order_key_id ok by metis
    with \<open>c \<in> set cs\<close> \<open>d \<in> set cs\<close> show "c = d"
      using assms(2) by (auto simp: distinct_map dest: inj_onD)
  qed
  have key: "claim_sort_key c = Inr (claim_order_key c)" if "c \<in> set cs" for c
    using that ok by (auto simp: is_ok_iff claim_order_key_def)
  have "canonical_claim_records cs = Inr (sort_key claim_order_key cs)"
    "canonical_claim_records ds = Inr (sort_key claim_order_key ds)"
    unfolding canonical_claim_records_def by (rule sort_by_result_ok; simp add: key same [symmetric])+
  then show ?thesis using sort_key_perm_inj [OF assms(1) inj] by simp
qed

text \<open>
  The fingerprint of a claim set does not depend on the order in which its claims, bundles
  and decisions were found, when the claims have distinct ids and printable effective times, the
  bundles distinct keys and the decisions distinct ids.
\<close>

lemma claim_set_fingerprint_order:
  assumes "mset (cset_claim_records s) = mset cs" and "distinct (map clm_claim_id cs)"
    and "\<forall>c \<in> set cs. is_ok (claim_sort_key c)"
    and "mset (cset_claim_bundle_records s) = mset bs" and "inj_on bundle_key (set bs)"
    and "mset (cset_claim_bundle_decision_records s) = mset ds" and "inj_on decision_key (set ds)"
  shows "claim_set_fingerprint (s\<lparr>cset_claim_records := cs, cset_claim_bundle_records := bs,
      cset_claim_bundle_decision_records := ds\<rparr>) = claim_set_fingerprint s"
  using canonical_claims_perm [OF assms(1) [symmetric] assms(2,3)]
    bundle_order.canonical_perm [OF assms(4) [symmetric] assms(5)]
    decision_order.canonical_perm [OF assms(6) [symmetric] assms(7)]
  by (simp add: claim_set_fingerprint_def claim_set_payload_def)

definition blank_claim :: "string \<Rightarrow> string \<Rightarrow> claim_kind \<Rightarrow> claim_record" where
  "blank_claim bundle_id claim_id kind =
     \<lparr>clm_claim_set_id = ''cs'', clm_scope_id = ''cs:a'', clm_bundle_id = bundle_id,
      clm_claim_id = claim_id, clm_kind = kind, clm_status = CS_ASSERTED, clm_key = [],
      clm_member_refs = [], clm_observation_refs = [], clm_effective_at = None,
      clm_precision = None, clm_provenance_refs = [], clm_activity_label = [],
      clm_location_claim_ref = [], clm_leg_specs = [], clm_instrument_claim_refs = [],
      clm_balance_kind = [], clm_quantity = None, clm_observed_at = None, clm_scheme = [],
      clm_value = [], clm_venue = [], clm_instrument_kind = [], clm_name = [],
      clm_location_ref = [], clm_location_group_label = [], clm_location_label = [],
      clm_beneficial_owner_ref = [], clm_purpose = [], clm_amount = None, clm_currency = [],
      clm_valued_at = None\<rparr>"

definition two_claim_set :: claim_set where
  "two_claim_set =
     \<lparr>cset_claim_set_id = ''cs'', cset_evidence_set_ref = ''ev'', cset_emitter_id = ''em'',
      cset_claim_records = [blank_claim ''b'' ''2'' CK_LOCATION, blank_claim ''b'' ''1'' CK_LOCATION],
      cset_claim_bundle_records = [], cset_claim_bundle_decision_records = []\<rparr>"

lemma claim_set_fingerprint_order_witness:
  "claim_set_fingerprint (two_claim_set\<lparr>cset_claim_records :=
        [blank_claim ''b'' ''1'' CK_LOCATION, blank_claim ''b'' ''2'' CK_LOCATION],
      cset_claim_bundle_records := [], cset_claim_bundle_decision_records := []\<rparr>) =
    claim_set_fingerprint two_claim_set"
  by (rule claim_set_fingerprint_order)
    (simp_all add: two_claim_set_def blank_claim_def claim_sort_key_def optional_temporal_def)

end
