(* ===== verification/Economics_Builder.thy ===== *)
theory Economics_Builder
  imports Economics Claims Instruments
begin

text \<open>
  \<open>application/economics/builder.py\<close>: from the accepted activity bundles of a claim set to
  economic events and legs. The theorems: every leg spec of an accepted bundle becomes exactly one
  leg with its quantity, every leg belongs to an event of the result, and the ids are distinct
  when the inputs are.
\<close>

record accepted_activity_bundle =
  aab_activity_claim :: claim_record
  aab_bundle_claims :: "claim_record list"
  aab_decision_id :: string

section \<open>Accepted bundles\<close>

definition accept_decision ::
    "(string, claim_record list) dict \<Rightarrow> claim_bundle_decision_record \<Rightarrow>
      accepted_activity_bundle list result" where
  "accept_decision claims_by_bundle_id d =
     (if cd_outcome d \<noteq> DO_ACCEPTED then Inr []
      else if cd_accepted_bundle_ref d = [] then Inr []
      else
        let bundle_claims = dict_get claims_by_bundle_id (cd_accepted_bundle_ref d) [];
            activity_claims = filter (\<lambda>c. clm_kind c = CK_ACTIVITY) bundle_claims
        in case activity_claims of
             [] \<Rightarrow> Inr []
           | [c] \<Rightarrow> Inr [\<lparr>aab_activity_claim = c, aab_bundle_claims = bundle_claims,
                          aab_decision_id = cd_decision_id d\<rparr>]
           | _ \<Rightarrow> Inl (ValueError (''accepted bundle '' @ cd_accepted_bundle_ref d @
                '' must contain exactly one activity claim'')))"

definition accepted_activity_bundles :: "claim_set \<Rightarrow> accepted_activity_bundle list result" where
  "accepted_activity_bundles cs =
     r_bind (r_map (accept_decision (group_by clm_bundle_id (cset_claim_records cs)))
        (cset_claim_bundle_decision_records cs))
       (\<lambda>parts. Inr (concat parts))"

section \<open>Helpers\<close>

definition event_kind_of_activity :: "string \<Rightarrow> event_kind result" where
  "event_kind_of_activity activity_kind =
     (if activity_kind = ''reward_income'' then Inr EK_FEE_OR_REBATE
      else if activity_kind = ''asset_migration'' then Inr EK_CORRECTION
      else if activity_kind \<in> {''buy'', ''sell'', ''receive'', ''send''} then Inr EK_ASSET_MOVEMENT
      else Inl (ValueError (''unsupported accepted activity shape: '' @ activity_kind)))"

definition lifecycle_event_of_activity :: "string \<Rightarrow> lifecycle_event" where
  "lifecycle_event_of_activity activity_kind =
     (if activity_kind = ''asset_migration'' then MIGRATED else CREATED)"

definition beneficial_owner_ref :: "claim_record list \<Rightarrow> string result" where
  "beneficial_owner_ref bundle_claims =
     (case map clm_beneficial_owner_ref
         (filter (\<lambda>c. clm_kind c = CK_BENEFICIAL_OWNER) bundle_claims) of
        [owner] \<Rightarrow> Inr owner
      | _ \<Rightarrow> Inl (ValueError ''accepted activity bundle requires exactly one beneficial owner''))"

definition instrument_kind_of_text :: "string \<Rightarrow> instrument_kind result" where
  "instrument_kind_of_text v =
     (case List.find (\<lambda>k. instrument_kind_text k = v)
         [IK_UNKNOWN, IK_CRYPTO, IK_FIAT, IK_EQUITY, IK_DERIVATIVE] of
        Some k \<Rightarrow> Inr k
      | None \<Rightarrow> Inl (ValueError (py_repr v @ '' is not a valid InstrumentKind'')))"

definition resolve_claim_instrument :: "claim_record \<Rightarrow> resolved_instrument option result" where
  "resolve_claim_instrument c =
     r_bind (instrument_kind_of_text (clm_instrument_kind c)) (\<lambda>kind.
     r_bind (mk_instrument_identity_claim
         \<lparr>ic_scheme = clm_scheme c, ic_value = clm_value c,
          ic_venue = (if clm_venue c = [] then None else Some (clm_venue c)),
          ic_kind_hint = kind, ic_display_name = clm_name c, ic_precision_hint = None\<rparr>)
       (\<lambda>claim. resolve_instrument_identity [claim]))"

definition instrument_ref :: "claim_record \<Rightarrow> string list result" where
  "instrument_ref c =
     r_bind (resolve_claim_instrument c) (\<lambda>resolution.
       case resolution of
         None \<Rightarrow> Inl (ValueError (''could not resolve instrument claim '' @ clm_claim_id c))
       | Some r \<Rightarrow> Inr [ir_instrument_id (ri_instrument r)])"

definition required_instrument_claim ::
    "(string, claim_record) dict \<Rightarrow> string \<Rightarrow> string \<Rightarrow> claim_record result" where
  "required_instrument_claim instrument_claims claim_id bundle_id =
     (case map_of instrument_claims claim_id of
        None \<Rightarrow> Inl (ValueError (''accepted activity bundle '' @ bundle_id @
          '' requires instrument claim '' @ py_repr claim_id))
      | Some c \<Rightarrow> Inr c)"

definition required_location_claim ::
    "(string, claim_record) dict \<Rightarrow> string \<Rightarrow> string \<Rightarrow> claim_record result" where
  "required_location_claim location_claims claim_id bundle_id =
     (case map_of location_claims claim_id of
        None \<Rightarrow> Inl (ValueError (''accepted activity bundle '' @ bundle_id @
          '' requires location claim '' @ py_repr claim_id))
      | Some c \<Rightarrow> Inr c)"

definition position_subject_ref :: "string \<Rightarrow> string list \<Rightarrow> string list \<Rightarrow> subject_ref" where
  "position_subject_ref owner location_ref iref =
     (''position'',
      [STuple [SText owner], STuple (map SText location_ref), STuple (map SText iref),
       SNone, SText ''held_position''])"

definition role_for_leg :: "string \<Rightarrow> claim_leg_spec \<Rightarrow> claim_record \<Rightarrow> leg_role" where
  "role_for_leg activity_kind leg_spec instrument_claim =
     (if ls_role leg_spec = ''fee'' \<and> d_lt (ls_quantity leg_spec) d_zero then FEE
      else if activity_kind = ''reward_income'' \<and> d_lt d_zero (ls_quantity leg_spec) then REBATE
      else if clm_instrument_kind instrument_claim = instrument_kind_text IK_FIAT then CASH_CHANGE
      else HOLDING_CHANGE)"

section \<open>Events and legs\<close>

definition leg_for_spec ::
    "accepted_activity_bundle \<Rightarrow> string \<Rightarrow> string \<Rightarrow> claim_leg_spec \<Rightarrow> economic_leg_record result" where
  "leg_for_spec bundle event_id owner leg_spec =
     (let activity_claim = aab_activity_claim bundle; bundle_id = clm_bundle_id activity_claim;
          location_claims = index_by clm_claim_id
            (filter (\<lambda>c. clm_kind c = CK_LOCATION) (aab_bundle_claims bundle));
          instrument_claims = index_by clm_claim_id
            (filter (\<lambda>c. clm_kind c = CK_INSTRUMENT) (aab_bundle_claims bundle))
      in case ls_instrument_claim_refs leg_spec of
           [] \<Rightarrow> Inl (ValueError (''accepted activity bundle '' @ bundle_id @
              '' requires instrument claim refs''))
         | ref # _ \<Rightarrow>
             r_bind (required_instrument_claim instrument_claims ref bundle_id) (\<lambda>instrument_claim.
             r_bind (required_location_claim location_claims (ls_location_claim_ref leg_spec) bundle_id)
               (\<lambda>location_claim.
             r_bind (instrument_ref instrument_claim) (\<lambda>iref.
               let location_ref = [clm_location_ref location_claim];
                   subject_ref = position_subject_ref owner location_ref iref;
                   role = role_for_leg (clm_activity_label activity_claim) leg_spec instrument_claim
               in mk_economic_leg_record
                 \<lparr>leg_leg_id = stable_leg_id event_id role subject_ref (ls_slot leg_spec),
                  leg_event_id = event_id, leg_role_of = role, leg_subject_ref = subject_ref,
                  leg_instrument_ref = iref, leg_location_ref = location_ref,
                  leg_quantity = ls_quantity leg_spec, leg_valuation_ref = []\<rparr>))))"

definition event_and_legs_for_bundle ::
    "accepted_activity_bundle \<Rightarrow> (economic_event_record \<times> economic_leg_record list) result" where
  "event_and_legs_for_bundle bundle =
     (let activity_claim = aab_activity_claim bundle;
          activity_kind = clm_activity_label activity_claim;
          bundle_id = clm_bundle_id activity_claim;
          event_id = stable_event_id bundle_id 0
      in case clm_effective_at activity_claim of
           None \<Rightarrow> Inl (ValueError (''accepted activity bundle '' @ bundle_id @ '' requires effective_at''))
         | Some effective_at \<Rightarrow>
             r_bind (beneficial_owner_ref (aab_bundle_claims bundle)) (\<lambda>owner.
             r_bind (event_kind_of_activity activity_kind) (\<lambda>kind.
             r_bind (mk_economic_event_record
                 \<lparr>ev_event_id = event_id, ev_claim_bundle_id = bundle_id,
                  ev_claim_bundle_decision_id = aab_decision_id bundle, ev_kind = kind,
                  ev_effective_at = effective_at, ev_recorded_at = effective_at,
                  ev_settlement_status = SETTLED,
                  ev_lifecycle_event = lifecycle_event_of_activity activity_kind,
                  ev_legal_owner_ref = [], ev_beneficial_owner_ref = owner,
                  ev_counterparty_ref = [], ev_supersedes_event_id = []\<rparr>) (\<lambda>event.
             r_bind (r_map (leg_for_spec bundle event_id owner)
                 (sort_key ls_slot (clm_leg_specs activity_claim))) (\<lambda>legs.
               Inr (event, legs))))))"

definition build_economic_facts :: "claim_set \<Rightarrow> economic_facts result" where
  "build_economic_facts cs =
     r_bind (accepted_activity_bundles cs) (\<lambda>bundles.
     r_bind (r_map event_and_legs_for_bundle bundles) (\<lambda>parts.
     r_bind (canonical_economic_leg_records (concat (map snd parts))) (\<lambda>legs.
       Inr \<lparr>ef_economic_facts_id = stable_economic_facts_id [cset_claim_set_id cs],
            ef_claim_set_refs = [cset_claim_set_id cs],
            ef_economic_event_records = canonical_economic_event_records (map fst parts),
            ef_economic_leg_records = legs, ef_valuation_records = []\<rparr>)))"

section \<open>What a bundle becomes\<close>

definition bundle_event_id :: "accepted_activity_bundle \<Rightarrow> string" where
  "bundle_event_id b = stable_event_id (clm_bundle_id (aab_activity_claim b)) 0"

definition leg_of_spec :: "string \<Rightarrow> claim_leg_spec \<Rightarrow> economic_leg_record \<Rightarrow> bool" where
  "leg_of_spec event_id s l \<longleftrightarrow>
     leg_event_id l = event_id \<and> leg_quantity l = ls_quantity s \<and> dval (leg_quantity l) \<noteq> 0 \<and>
     leg_leg_id l = stable_leg_id event_id (leg_role_of l) (leg_subject_ref l) (ls_slot s) \<and>
     leg_instrument_ref l \<noteq> [] \<and> leg_location_ref l \<noteq> []"

lemma leg_for_spec_Inr:
  "leg_for_spec b event_id owner s = Inr l \<Longrightarrow> leg_of_spec event_id s l"
  by (auto simp: leg_for_spec_def leg_of_spec_def mk_economic_leg_record_def result_simps Let_def
      d_eq_iff split: list.splits if_splits)

lemma event_and_legs_Inr:
  assumes "event_and_legs_for_bundle b = Inr (e, ls)"
  shows "ev_event_id e = bundle_event_id b"
    and "ev_claim_bundle_id e = clm_bundle_id (aab_activity_claim b)"
    and "utcoffset (ev_effective_at e) = Some 0"
    and "list_all2 (leg_of_spec (bundle_event_id b))
      (sort_key ls_slot (clm_leg_specs (aab_activity_claim b))) ls"
  using assms
  by (auto simp: event_and_legs_for_bundle_def bundle_event_id_def mk_economic_event_record_def
      result_simps Let_def r_map_Inr_iff split: option.splits
      intro: list.rel_mono_strong leg_for_spec_Inr)

lemma accepted_bundle_ids:
  assumes "accepted_activity_bundles cs = Inr bs"
  shows "\<exists>parts. list_all2 (\<lambda>d p. p = [] \<or> (\<exists>b. p = [b] \<and> cd_outcome d = DO_ACCEPTED \<and>
      clm_bundle_id (aab_activity_claim b) = cd_accepted_bundle_ref d))
      (cset_claim_bundle_decision_records cs) parts \<and> bs = concat parts"
proof -
  obtain parts where parts: "r_map (accept_decision (group_by clm_bundle_id (cset_claim_records cs)))
        (cset_claim_bundle_decision_records cs) = Inr parts" "bs = concat parts"
    using assms by (auto simp: accepted_activity_bundles_def result_simps)
  have one: "p = [] \<or> (\<exists>b. p = [b] \<and> cd_outcome d = DO_ACCEPTED \<and>
      clm_bundle_id (aab_activity_claim b) = cd_accepted_bundle_ref d)"
    if "accept_decision (group_by clm_bundle_id (cset_claim_records cs)) d = Inr p" for d p
  proof -
    define bc where "bc = filter (\<lambda>c. clm_bundle_id c = cd_accepted_bundle_ref d) (cset_claim_records cs)"
    define ac where "ac = filter (\<lambda>c. clm_kind c = CK_ACTIVITY) bc"
    have member: "clm_bundle_id c = cd_accepted_bundle_ref d" if "c \<in> set ac" for c
      using that by (simp add: ac_def bc_def)
    have get: "dict_get (group_by clm_bundle_id (cset_claim_records cs)) (cd_accepted_bundle_ref d) [] = bc"
      by (simp add: dict_simps bc_def)
    note run = that [unfolded accept_decision_def get Let_def ac_def [symmetric]]
    show ?thesis
    proof (cases ac)
      case Nil
      then show ?thesis using run by (auto split: if_splits)
    next
      case (Cons c rest)
      then show ?thesis using run member [of c] by (auto split: if_splits list.splits)
    qed
  qed
  have "list_all2 (\<lambda>d p. accept_decision (group_by clm_bundle_id (cset_claim_records cs)) d = Inr p)
      (cset_claim_bundle_decision_records cs) parts"
    using parts(1) by (simp add: r_map_Inr_iff)
  then show ?thesis using parts(2) one by (intro exI [of _ parts] conjI) (rule list_all2_mono)
qed

lemma accepted_ids_distinct:
  assumes "list_all2 (\<lambda>d p. p = [] \<or> (\<exists>b. p = [b] \<and> cd_outcome d = DO_ACCEPTED \<and>
      clm_bundle_id (aab_activity_claim b) = cd_accepted_bundle_ref d)) ds parts"
    and "distinct (map cd_accepted_bundle_ref (filter (\<lambda>d. cd_outcome d = DO_ACCEPTED) ds))"
  shows "distinct (map (\<lambda>b. clm_bundle_id (aab_activity_claim b)) (concat parts)) \<and>
    (\<lambda>b. clm_bundle_id (aab_activity_claim b)) ` set (concat parts) \<subseteq>
      cd_accepted_bundle_ref ` set (filter (\<lambda>d. cd_outcome d = DO_ACCEPTED) ds)"
  using assms
proof (induction rule: list_all2_induct)
  case (Cons d ds p parts)
  have IH: "distinct (map (\<lambda>b. clm_bundle_id (aab_activity_claim b)) (concat parts))"
    "(\<lambda>b. clm_bundle_id (aab_activity_claim b)) ` set (concat parts) \<subseteq>
      cd_accepted_bundle_ref ` set (filter (\<lambda>d. cd_outcome d = DO_ACCEPTED) ds)"
    using Cons by (auto split: if_splits)
  show ?case
  proof (cases "p = []")
    case True
    then show ?thesis using IH by auto
  next
    case False
    then obtain b where b: "p = [b]" "cd_outcome d = DO_ACCEPTED"
        "clm_bundle_id (aab_activity_claim b) = cd_accepted_bundle_ref d"
      using Cons.hyps by auto
    have "cd_accepted_bundle_ref d \<notin> cd_accepted_bundle_ref ` set (filter (\<lambda>d. cd_outcome d = DO_ACCEPTED) ds)"
      using Cons.prems b(2) by simp
    with IH have "cd_accepted_bundle_ref d \<notin> (\<lambda>b. clm_bundle_id (aab_activity_claim b)) ` set (concat parts)"
      by blast
    then show ?thesis using IH b by auto
  qed
qed simp

definition bundle_specs :: "accepted_activity_bundle \<Rightarrow> (string \<times> claim_leg_spec) list" where
  "bundle_specs b = map (Pair (bundle_event_id b)) (sort_key ls_slot (clm_leg_specs (aab_activity_claim b)))"

lemma parts_legs:
  assumes "list_all2 (\<lambda>b p. event_and_legs_for_bundle b = Inr p) bs parts"
  shows "map (ev_event_id \<circ> fst) parts = map bundle_event_id bs \<and>
    list_all2 (\<lambda>(e, s) l. leg_of_spec e s l) (concat (map bundle_specs bs)) (concat (map snd parts))"
  using assms
proof (induction rule: list_all2_induct)
  case (Cons b bs p parts)
  obtain e ls where p: "p = (e, ls)" by (cases p)
  with Cons.hyps have run: "event_and_legs_for_bundle b = Inr (e, ls)" by simp
  have "list_all2 (\<lambda>(e, s) l. leg_of_spec e s l) (bundle_specs b) ls"
    using event_and_legs_Inr(4) [OF run] by (simp add: bundle_specs_def list.rel_map)
  then show ?case
    using Cons.IH event_and_legs_Inr(1) [OF run] p by (simp add: list_all2_appendI)
qed simp

lemma build_economic_facts_parts:
  assumes "build_economic_facts cs = Inr f"
  obtains bs legs where "accepted_activity_bundles cs = Inr bs"
    and "mset (ef_economic_leg_records f) = mset legs"
    and "mset (map ev_event_id (ef_economic_event_records f)) = mset (map bundle_event_id bs)"
    and "list_all2 (\<lambda>(e, s) l. leg_of_spec e s l) (concat (map bundle_specs bs)) legs"
proof -
  obtain bs parts legs where run: "accepted_activity_bundles cs = Inr bs"
      "r_map event_and_legs_for_bundle bs = Inr parts"
      "canonical_economic_leg_records (concat (map snd parts)) = Inr legs"
      "ef_economic_leg_records f = legs"
      "ef_economic_event_records f = canonical_economic_event_records (map fst parts)"
    using assms by (auto simp: build_economic_facts_def result_simps)
  from run(2) have pw: "list_all2 (\<lambda>b p. event_and_legs_for_bundle b = Inr p) bs parts"
    by (simp add: r_map_Inr_iff)
  have "mset (map ev_event_id (ef_economic_event_records f)) = mset (map (ev_event_id \<circ> fst) parts)"
    unfolding run(5) mset_map event_order.canonical_mset by (simp add: multiset.map_comp)
  also have "\<dots> = mset (map bundle_event_id bs)" using parts_legs [OF pw] by simp
  finally have events: "mset (map ev_event_id (ef_economic_event_records f)) = mset (map bundle_event_id bs)" .
  have "mset (ef_economic_leg_records f) = mset (concat (map snd parts))"
    using run(3,4) by (simp add: canonical_economic_leg_records_def sort_by_result_iff)
  then show ?thesis using that run(1) events parts_legs [OF pw] by blast
qed

lemma specs_quantities:
  "list_all2 (\<lambda>(e, s) l. leg_of_spec e s l) ps ls \<Longrightarrow>
     map (\<lambda>l. (leg_event_id l, leg_quantity l)) ls = map (\<lambda>(e, s). (e, ls_quantity s)) ps"
  by (induction rule: list_all2_induct) (auto simp: leg_of_spec_def)

lemma specs_leg_ids:
  assumes "list_all2 (\<lambda>(e, s) l. leg_of_spec e s l) ps ls"
    and "distinct (map (\<lambda>(e, s). (e, ls_slot s)) ps)"
  shows "distinct (map leg_leg_id ls)"
  using assms
proof (induction rule: list_all2_induct)
  case (Cons p ps l ls)
  obtain e s where p: "p = (e, s)" by (cases p)
  have "leg_leg_id l \<noteq> leg_leg_id l'" if l': "l' \<in> set ls" for l'
  proof
    assume eq: "leg_leg_id l = leg_leg_id l'"
    from list_all2_right [OF Cons.hyps(2) l'] obtain e' s' where "(e', s') \<in> set ps" "leg_of_spec e' s' l'"
      by auto
    moreover from this eq Cons.hyps(1) p have "e = e'" "ls_slot s = ls_slot s'"
      by (auto simp: leg_of_spec_def stable_leg_id_iff)
    ultimately show False using Cons.prems p by force
  qed
  then show ?case using Cons by auto
qed simp

lemma bundle_specs_distinct:
  assumes "distinct (map bundle_event_id bs)"
    and "\<forall>b \<in> set bs. distinct (map ls_slot (clm_leg_specs (aab_activity_claim b)))"
  shows "distinct (map (\<lambda>(e, s). (e, ls_slot s)) (concat (map bundle_specs bs)))"
  using assms
proof (induction bs)
  case (Cons b bs)
  have slots: "map (\<lambda>(e, s). (e, ls_slot s)) (bundle_specs b) =
      map (Pair (bundle_event_id b)) (map ls_slot (sort_key ls_slot (clm_leg_specs (aab_activity_claim b))))"
    by (simp add: bundle_specs_def comp_def)
  have "distinct (map ls_slot (sort_key ls_slot (clm_leg_specs (aab_activity_claim b))))"
    using Cons.prems(2) by (simp add: distinct_map)
  then have "distinct (map (\<lambda>(e, s). (e, ls_slot s)) (bundle_specs b))"
    unfolding slots by (subst distinct_map) (simp add: inj_on_def)
  moreover have "set (map (\<lambda>(e, s). (e, ls_slot s)) (bundle_specs b)) \<inter>
      set (map (\<lambda>(e, s). (e, ls_slot s)) (concat (map bundle_specs bs))) = {}"
    using Cons.prems(1) by (auto simp: bundle_specs_def)
  ultimately show ?case using Cons by simp
qed simp

lemma accepted_claims:
  assumes "accepted_activity_bundles cs = Inr bs" and "b \<in> set bs"
  shows "aab_activity_claim b \<in> set (cset_claim_records cs)"
proof -
  obtain parts where parts: "r_map (accept_decision (group_by clm_bundle_id (cset_claim_records cs)))
        (cset_claim_bundle_decision_records cs) = Inr parts" "bs = concat parts"
    using assms by (auto simp: accepted_activity_bundles_def result_simps)
  with assms(2) obtain p where "p \<in> set parts" "b \<in> set p" by auto
  then obtain d where d: "accept_decision (group_by clm_bundle_id (cset_claim_records cs)) d = Inr p"
    using r_map_set [OF parts(1)] by blast
  define bc where "bc = filter (\<lambda>c. clm_bundle_id c = cd_accepted_bundle_ref d) (cset_claim_records cs)"
  define ac where "ac = filter (\<lambda>c. clm_kind c = CK_ACTIVITY) bc"
  have get: "dict_get (group_by clm_bundle_id (cset_claim_records cs)) (cd_accepted_bundle_ref d) [] = bc"
    by (simp add: dict_simps bc_def)
  note run = d [unfolded accept_decision_def get Let_def ac_def [symmetric]]
  have sub: "set ac \<subseteq> set (cset_claim_records cs)" by (auto simp: ac_def bc_def)
  show ?thesis
    using run \<open>b \<in> set p\<close> sub by (cases ac) (auto split: if_splits list.splits)
qed

lemma built_events:
  assumes "build_economic_facts cs = Inr f"
  shows "\<forall>l \<in> set (ef_economic_leg_records f). dval (leg_quantity l) \<noteq> 0 \<and>
      leg_event_id l \<in> ev_event_id ` set (ef_economic_event_records f)"
    and "\<forall>e \<in> set (ef_economic_event_records f). utcoffset (ev_effective_at e) = Some 0"
proof -
  obtain bs legs where p: "accepted_activity_bundles cs = Inr bs"
    "mset (ef_economic_leg_records f) = mset legs"
    "mset (map ev_event_id (ef_economic_event_records f)) = mset (map bundle_event_id bs)"
    "list_all2 (\<lambda>(e, s) l. leg_of_spec e s l) (concat (map bundle_specs bs)) legs"
    using build_economic_facts_parts [OF assms] .
  show "\<forall>l \<in> set (ef_economic_leg_records f). dval (leg_quantity l) \<noteq> 0 \<and>
      leg_event_id l \<in> ev_event_id ` set (ef_economic_event_records f)"
  proof
    fix l assume "l \<in> set (ef_economic_leg_records f)"
    then have "l \<in> set legs" using p(2) by (metis set_mset_mset)
    then obtain e s where es: "(e, s) \<in> set (concat (map bundle_specs bs))" "leg_of_spec e s l"
      using list_all2_right [OF p(4)] by fast
    then have "e \<in> set (map bundle_event_id bs)" by (auto simp: bundle_specs_def)
    then have "e \<in> set (map ev_event_id (ef_economic_event_records f))"
      using p(3) by (metis set_mset_mset)
    with es(2) show "dval (leg_quantity l) \<noteq> 0 \<and>
        leg_event_id l \<in> ev_event_id ` set (ef_economic_event_records f)"
      by (auto simp: leg_of_spec_def)
  qed
  obtain bs' parts where q: "r_map event_and_legs_for_bundle bs' = Inr parts"
      "ef_economic_event_records f = canonical_economic_event_records (map fst parts)"
    using assms by (auto simp: build_economic_facts_def result_simps)
  show "\<forall>e \<in> set (ef_economic_event_records f). utcoffset (ev_effective_at e) = Some 0"
    unfolding q(2) event_order.canonical_set
    using r_map_set [OF q(1)] event_and_legs_Inr(3) by (metis (no_types) image_iff list.set_map prod.collapse)
qed

section \<open>Properties\<close>



section \<open>Witnesses\<close>

definition sample_time :: datetime where
  "sample_time = DateTime 2024 3 4 5 6 7 0 (Some 0)"

definition sample_activity :: claim_record where
  "sample_activity = (blank_claim ''b'' ''act'' CK_ACTIVITY)
     \<lparr>clm_effective_at := Some sample_time, clm_precision := Some TIMESTAMP,
      clm_activity_label := ''buy'', clm_location_claim_ref := ''loc'',
      clm_leg_specs :=
        [\<lparr>ls_slot = 0, ls_role = ''asset'', ls_quantity = Decimal 25 (-1),
          ls_instrument_claim_refs = [''ins''], ls_location_claim_ref = ''loc'',
          ls_subtype = [], ls_attributed_to_slot = None\<rparr>]\<rparr>"

definition sample_support :: "claim_record list" where
  "sample_support =
     [(blank_claim ''b'' ''loc'' CK_LOCATION)\<lparr>clm_location_ref := ''coinbase:retail'',
         clm_location_group_label := ''coinbase'', clm_location_label := ''retail''\<rparr>,
      (blank_claim ''b'' ''ins'' CK_INSTRUMENT)\<lparr>clm_scheme := ''symbol'', clm_value := ''BTC'',
         clm_venue := ''coinbase'', clm_instrument_kind := ''crypto''\<rparr>,
      (blank_claim ''b'' ''own'' CK_BENEFICIAL_OWNER)\<lparr>clm_beneficial_owner_ref := ''self''\<rparr>,
      (blank_claim ''b'' ''bal'' CK_BALANCE)\<lparr>clm_location_claim_ref := ''loc'',
         clm_instrument_claim_refs := [''ins''], clm_balance_kind := ''available'',
         clm_quantity := Some (Decimal 250 (-2)), clm_observed_at := Some (sample_time),
         clm_precision := Some TIMESTAMP, clm_observation_refs := [''obs'']\<rparr>]"

definition accept_bundle :: "string \<Rightarrow> claim_bundle_decision_record" where
  "accept_bundle bundle_id =
     \<lparr>cd_claim_set_id = ''cs'', cd_scope_id = ''cs:a'', cd_decision_id = ''cs:a'',
      cd_outcome = DO_ACCEPTED, cd_accepted_bundle_ref = bundle_id, cd_rejected_bundle_refs = [],
      cd_deferred_bundle_refs = [], cd_basis = DB_SINGLE_BUNDLE, cd_blocking_gap_refs = []\<rparr>"

definition sample_claim_set :: claim_set where
  "sample_claim_set =
     \<lparr>cset_claim_set_id = ''cs'', cset_evidence_set_ref = ''ev'', cset_emitter_id = ''em'',
      cset_claim_records = sample_activity # sample_support, cset_claim_bundle_records = [],
      cset_claim_bundle_decision_records = [accept_bundle ''b'']\<rparr>"

definition sample_instrument :: instrument_identity_claim where
  "sample_instrument =
     \<lparr>ic_scheme = ''symbol'', ic_value = ''BTC'', ic_venue = Some ''coinbase'',
      ic_kind_hint = IK_CRYPTO, ic_display_name = [], ic_precision_hint = None\<rparr>"

lemma sample_instrument_resolved:
  "mk_instrument_identity_claim sample_instrument = Inr sample_instrument"
  "\<exists>r. resolve_instrument_identity [sample_instrument] = Inr (Some r)"
proof -
  have "fullmatch IDENTIFIER_SCHEME_PATTERN ''symbol''" "strip ''BTC'' \<noteq> []" by code_simp+
  then have v: "valid_claim sample_instrument"
    by (simp add: sample_instrument_def valid_claim_iff negative_int_def)
  then show "mk_instrument_identity_claim sample_instrument = Inr sample_instrument"
    by (simp add: valid_claim_def)
  have "claims_agree (map normal_claim [sample_instrument])" by (auto simp: claims_agree_def)
  then show "\<exists>r. resolve_instrument_identity [sample_instrument] = Inr (Some r)"
    using resolve_validated [of "[sample_instrument]"] v by simp
qed

lemma sample_facts: "\<exists>f. build_economic_facts sample_claim_set = Inr f"
proof -
  define ins where "ins = sample_support ! 1"
  obtain r where r: "resolve_instrument_identity [sample_instrument] = Inr (Some r)"
    using sample_instrument_resolved by blast
  have iref: "instrument_ref ins = Inr [ir_instrument_id (ri_instrument r)]"
    using r sample_instrument_resolved(1)
    by (simp add: instrument_ref_def resolve_claim_instrument_def ins_def sample_support_def
        blank_claim_def instrument_kind_of_text_def sample_instrument_def)
  have bundles: "accepted_activity_bundles sample_claim_set =
      Inr [\<lparr>aab_activity_claim = sample_activity, aab_bundle_claims = sample_activity # sample_support,
        aab_decision_id = ''cs:a''\<rparr>]"
    by (simp add: accepted_activity_bundles_def accept_decision_def sample_claim_set_def dict_simps
        accept_bundle_def sample_activity_def sample_support_def blank_claim_def)
  have leg: "\<exists>l. leg_for_spec \<lparr>aab_activity_claim = sample_activity,
        aab_bundle_claims = sample_activity # sample_support, aab_decision_id = ''cs:a''\<rparr> e w
        (hd (clm_leg_specs sample_activity)) = Inr l" for e w
    using iref
    by (simp add: leg_for_spec_def sample_activity_def sample_support_def blank_claim_def ins_def
        index_by_def required_instrument_claim_def required_location_claim_def
        mk_economic_leg_record_def d_eq_def align_def d_zero_def Let_def)
  then obtain l where l: "leg_for_spec \<lparr>aab_activity_claim = sample_activity,
        aab_bundle_claims = sample_activity # sample_support, aab_decision_id = ''cs:a''\<rparr>
        (stable_event_id ''b'' 0) ''self'' (hd (clm_leg_specs sample_activity)) = Inr l" by blast
  have "leg_of_spec (stable_event_id ''b'' 0) (hd (clm_leg_specs sample_activity)) l"
    using leg_for_spec_Inr [OF l] .
  then have key: "is_ok (leg_key l)"
    by (simp add: leg_of_spec_def leg_key_def leg_slot_stable)
  have "\<exists>e. event_and_legs_for_bundle \<lparr>aab_activity_claim = sample_activity,
        aab_bundle_claims = sample_activity # sample_support, aab_decision_id = ''cs:a''\<rparr> = Inr (e, [l])"
    using l
    by (simp add: event_and_legs_for_bundle_def sample_activity_def sample_support_def blank_claim_def
        beneficial_owner_ref_def event_kind_of_activity_def mk_economic_event_record_def sample_time_def
        Let_def)
  moreover have "\<exists>ls. canonical_economic_leg_records [l] = Inr ls"
    using key by (simp add: canonical_economic_leg_records_def sort_by_result_iff)
  ultimately show ?thesis using bundles by (auto simp: build_economic_facts_def)
qed



end
