(* ===== verification/Evidence.thy ===== *)
theory Evidence
  imports Claims
begin

text \<open>
  \<open>domain/evidence/models.py\<close>: observations, members and selections of an evidence set, their
  payloads, ids and fingerprints. The theorem: the selection fingerprint, from which the id of
  the evidence set is made, does not depend on the order in which the records were collected.
\<close>

definition EVIDENCE_SET_SCHEMA_VERSION :: int where "EVIDENCE_SET_SCHEMA_VERSION = 1"

datatype selection_basis =
  SB_SINGLE_MEMBER | SB_DUPLICATE | SB_COVERAGE | SB_FRESHNESS | SB_AMBIGUOUS_OVERLAP | SB_UPSTREAM_GAP

fun selection_basis_text :: "selection_basis \<Rightarrow> string" where
  "selection_basis_text SB_SINGLE_MEMBER = ''single_member''"
| "selection_basis_text SB_DUPLICATE = ''duplicate''"
| "selection_basis_text SB_COVERAGE = ''coverage''"
| "selection_basis_text SB_FRESHNESS = ''freshness''"
| "selection_basis_text SB_AMBIGUOUS_OVERLAP = ''ambiguous_overlap''"
| "selection_basis_text SB_UPSTREAM_GAP = ''upstream_gap''"

datatype member_status = MS_SELECTED | MS_SUPERSEDED | MS_BLOCKED

fun member_status_text :: "member_status \<Rightarrow> string" where
  "member_status_text MS_SELECTED = ''selected''"
| "member_status_text MS_SUPERSEDED = ''superseded''"
| "member_status_text MS_BLOCKED = ''blocked''"

datatype member_kind = MK_RETAIL_ACTIVITY_EXPORT_FILE | MK_STATEMENT_DOCUMENT_FILE

fun member_kind_text :: "member_kind \<Rightarrow> string" where
  "member_kind_text MK_RETAIL_ACTIVITY_EXPORT_FILE = ''retail_activity_export_file''"
| "member_kind_text MK_STATEMENT_DOCUMENT_FILE = ''statement_document_file''"

datatype observation_kind = OK_STATEMENT_DOCUMENT | OK_STATEMENT_BALANCE_ROW

fun observation_kind_text :: "observation_kind \<Rightarrow> string" where
  "observation_kind_text OK_STATEMENT_DOCUMENT = ''statement_document''"
| "observation_kind_text OK_STATEMENT_BALANCE_ROW = ''statement_balance_row''"

definition optional_precision_text :: "temporal_precision option \<Rightarrow> string" where
  "optional_precision_text p = (case p of None \<Rightarrow> [] | Some q \<Rightarrow> temporal_precision_text q)"

definition refs_json :: "string list list \<Rightarrow> json" where
  "refs_json refs = JArray (map strings_json refs)"

section \<open>Records\<close>

record evidence_observation_record =
  eo_evidence_set_id :: string
  eo_member_id :: string
  eo_observation_id :: string
  eo_kind :: observation_kind
  eo_key :: "string list"
  eo_observed_at :: "datetime option"
  eo_precision :: "temporal_precision option"
  eo_provenance_refs :: "string list list"
  eo_statement_kind :: string
  eo_document_effective_at :: "datetime option"
  eo_document_effective_precision :: "temporal_precision option"
  eo_statement_as_of :: "datetime option"
  eo_statement_as_of_precision :: "temporal_precision option"
  eo_location_group_label :: string
  eo_location_label :: string
  eo_balance_kind :: string
  eo_instrument_symbol :: string
  eo_quantity :: "decimal option"
  eo_notes :: string
  eo_staked_quantity_text :: string
  eo_value_amount_text :: string
  eo_value_currency :: string
  eo_price_amount_text :: string
  eo_price_currency :: string

definition observation_semantic_payload :: "evidence_observation_record \<Rightarrow> (string \<times> json) list result" where
  "observation_semantic_payload o1 =
     r_bind (optional_temporal (eo_observed_at o1) (eo_precision o1)
       ''evidence observation observed_at'') (\<lambda>observed.
     r_bind (optional_temporal (eo_document_effective_at o1) (eo_document_effective_precision o1)
       ''evidence observation document_effective_at'') (\<lambda>effective.
     r_bind (optional_temporal (eo_statement_as_of o1) (eo_statement_as_of_precision o1)
       ''evidence observation statement_as_of'') (\<lambda>as_of.
       Inr [(''kind'', JString (observation_kind_text (eo_kind o1))),
         (''key'', strings_json (eo_key o1)), (''observed_at'', JString observed),
         (''precision'', JString (optional_precision_text (eo_precision o1))),
         (''provenance_refs'', refs_json (sort (eo_provenance_refs o1))),
         (''statement_kind'', JString (eo_statement_kind o1)),
         (''document_effective_at'', JString effective),
         (''document_effective_precision'',
            JString (optional_precision_text (eo_document_effective_precision o1))),
         (''statement_as_of'', JString as_of),
         (''statement_as_of_precision'',
            JString (optional_precision_text (eo_statement_as_of_precision o1))),
         (''location_group_label'', JString (eo_location_group_label o1)),
         (''location_label'', JString (eo_location_label o1)),
         (''balance_kind'', JString (eo_balance_kind o1)),
         (''instrument_symbol'', JString (eo_instrument_symbol o1)),
         (''quantity'', JString (format_decimal (eo_quantity o1))),
         (''notes'', JString (eo_notes o1)),
         (''staked_quantity_text'', JString (eo_staked_quantity_text o1)),
         (''value_amount_text'', JString (eo_value_amount_text o1)),
         (''value_currency'', JString (eo_value_currency o1)),
         (''price_amount_text'', JString (eo_price_amount_text o1)),
         (''price_currency'', JString (eo_price_currency o1))])))"

definition observation_payload :: "evidence_observation_record \<Rightarrow> json result" where
  "observation_payload o1 =
     r_bind (observation_semantic_payload o1) (\<lambda>p.
       Inr (JObject ([(''evidence_set_id'', JString (eo_evidence_set_id o1)),
         (''member_id'', JString (eo_member_id o1)),
         (''observation_id'', JString (eo_observation_id o1))] @ p)))"

record evidence_member_record =
  em_evidence_set_id :: string
  em_selection_id :: string
  em_member_id :: string
  em_source_slug :: string
  em_adapter_id :: string
  em_capture_uid :: string
  em_kind :: member_kind
  em_locator :: "string list"
  em_status :: member_status
  em_capture_manifest_fingerprint :: string

definition member_semantic_payload :: "evidence_member_record \<Rightarrow> (string \<times> json) list" where
  "member_semantic_payload m =
     [(''source_slug'', JString (em_source_slug m)), (''adapter_id'', JString (em_adapter_id m)),
      (''capture_uid'', JString (em_capture_uid m)),
      (''kind'', JString (member_kind_text (em_kind m))), (''locator'', strings_json (em_locator m)),
      (''status'', JString (member_status_text (em_status m))),
      (''capture_manifest_fingerprint'', JString (em_capture_manifest_fingerprint m))]"

definition member_payload :: "evidence_member_record \<Rightarrow> json" where
  "member_payload m = JObject
     ([(''evidence_set_id'', JString (em_evidence_set_id m)),
       (''selection_id'', JString (em_selection_id m)), (''member_id'', JString (em_member_id m))] @
      member_semantic_payload m)"

record evidence_selection_record =
  es_evidence_set_id :: string
  es_selection_id :: string
  es_key :: "string list"
  es_fingerprint :: string
  es_basis :: selection_basis
  es_blocking_gap_refs :: "string list"

definition selection_semantic_payload :: "evidence_selection_record \<Rightarrow> (string \<times> json) list" where
  "selection_semantic_payload s =
     [(''key'', strings_json (es_key s)), (''fingerprint'', JString (es_fingerprint s)),
      (''basis'', JString (selection_basis_text (es_basis s))),
      (''blocking_gap_refs'', sorted_texts (es_blocking_gap_refs s))]"

definition selection_payload :: "evidence_selection_record \<Rightarrow> json" where
  "selection_payload s = JObject
     ([(''evidence_set_id'', JString (es_evidence_set_id s)),
       (''selection_id'', JString (es_selection_id s))] @ selection_semantic_payload s)"

record evidence_set =
  eset_evidence_set_id :: string
  eset_selection_fingerprint :: string
  eset_capture_manifest_fingerprint :: string
  eset_evidence_selection_records :: "evidence_selection_record list"
  eset_evidence_member_records :: "evidence_member_record list"
  eset_evidence_observation_records :: "evidence_observation_record list"

definition evidence_set_payload :: "evidence_set \<Rightarrow> json result" where
  "evidence_set_payload s =
     r_bind (r_map observation_payload (eset_evidence_observation_records s)) (\<lambda>observations.
       Inr (JObject
         [(''capture_manifest_fingerprint'', JString (eset_capture_manifest_fingerprint s)),
          (''evidence_member_records'', JArray (map member_payload (eset_evidence_member_records s))),
          (''evidence_observation_records'', JArray observations),
          (''evidence_selection_records'',
             JArray (map selection_payload (eset_evidence_selection_records s))),
          (''evidence_set_id'', JString (eset_evidence_set_id s)),
          (''schema_version'', JInt EVIDENCE_SET_SCHEMA_VERSION),
          (''selection_fingerprint'', JString (eset_selection_fingerprint s))]))"

section \<open>Ids\<close>

definition stable_evidence_set_id :: "string \<Rightarrow> string \<Rightarrow> string \<Rightarrow> string \<Rightarrow> string" where
  "stable_evidence_set_id source_slug adapter_id capture_uid selection_fingerprint =
     join '':'' [source_slug, adapter_id, capture_uid, selection_fingerprint]"

definition stable_selection_id :: "string \<Rightarrow> string list \<Rightarrow> string" where
  "stable_selection_id evidence_set_id key = join '':'' (evidence_set_id # key)"

definition stable_member_id :: "string \<Rightarrow> member_kind \<Rightarrow> string list \<Rightarrow> string" where
  "stable_member_id evidence_set_id kind locator =
     join '':'' (evidence_set_id # member_kind_text kind # locator)"

definition stable_observation_id :: "string \<Rightarrow> observation_kind \<Rightarrow> string list \<Rightarrow> string" where
  "stable_observation_id member_id kind key =
     join '':'' (member_id # observation_kind_text kind # key)"

section \<open>Fingerprints\<close>

definition member_sort_key :: "evidence_member_record \<Rightarrow> string \<times> string list" where
  "member_sort_key m = (member_status_text (em_status m), em_locator m)"

definition observation_sort_key :: "evidence_observation_record \<Rightarrow> string \<times> string list" where
  "observation_sort_key o1 = (observation_kind_text (eo_kind o1), eo_key o1)"

definition observations_of_member ::
    "evidence_observation_record list \<Rightarrow> evidence_member_record \<Rightarrow> evidence_observation_record list" where
  "observations_of_member observations m =
     filter (\<lambda>o1. eo_member_id o1 = em_member_id m \<or>
       (eo_member_id o1 = [] \<and> eo_evidence_set_id o1 = em_evidence_set_id m)) observations"

definition member_semantics ::
    "evidence_observation_record list \<Rightarrow> evidence_member_record \<Rightarrow> json result" where
  "member_semantics observations m =
     r_bind (r_map (\<lambda>o1. r_bind (observation_semantic_payload o1) (\<lambda>p. Inr (JObject p)))
         (sort_key observation_sort_key (observations_of_member observations m))) (\<lambda>os.
       Inr (JObject (member_semantic_payload m @ [(''observations'', JArray os)])))"

definition selection_semantics_payload ::
    "evidence_selection_record \<Rightarrow> evidence_member_record list \<Rightarrow> evidence_observation_record list \<Rightarrow>
      json result" where
  "selection_semantics_payload selection members observations =
     r_bind (r_map (member_semantics observations) (sort_key member_sort_key members)) (\<lambda>ms.
       Inr (JObject
         [(''basis'', JString (selection_basis_text (es_basis selection))),
          (''blocking_gap_refs'', sorted_texts (es_blocking_gap_refs selection)),
          (''key'', strings_json (es_key selection)), (''members'', JArray ms)]))"

definition members_of_selection ::
    "evidence_member_record list \<Rightarrow> evidence_selection_record \<Rightarrow> evidence_member_record list" where
  "members_of_selection members selection =
     filter (\<lambda>m. em_selection_id m = es_selection_id selection \<or>
       (em_selection_id m = [] \<and> em_evidence_set_id m = es_evidence_set_id selection \<and>
        em_selection_id m = [])) members"

definition selection_fingerprint_for_records ::
    "evidence_selection_record list \<Rightarrow> evidence_member_record list \<Rightarrow>
      evidence_observation_record list \<Rightarrow> string result" where
  "selection_fingerprint_for_records selections members observations =
     r_bind (r_map (\<lambda>s. selection_semantics_payload s (members_of_selection members s) observations)
         (sort_key es_key selections)) (\<lambda>payloads.
       Inr (hash_payload (JArray payloads)))"

definition selection_record_fingerprints ::
    "evidence_selection_record list \<Rightarrow> evidence_member_record list \<Rightarrow>
      evidence_observation_record list \<Rightarrow> (string, string) dict result" where
  "selection_record_fingerprints selections members observations =
     r_fold (\<lambda>s d.
       r_bind (selection_semantics_payload s
           (filter (\<lambda>m. em_selection_id m = es_selection_id s) members) observations) (\<lambda>p.
         Inr (AList.update (es_selection_id s) (hash_payload p) d)))
       selections []"

lemma sort_key_filter_perm:
  assumes "mset xs = mset ys" and "inj_on f (set xs)"
  shows "sort_key f (filter P xs) = sort_key f (filter P ys)"
proof (rule sort_key_perm_inj)
  show "mset (filter P xs) = mset (filter P ys)" using assms(1) by (simp add: mset_filter)
  show "inj_on f (set (filter P xs))" using assms(2) by (auto simp: inj_on_def)
qed

text \<open>
  The selection fingerprint of an evidence set depends on its records, not on the order in
  which they were collected, when selections have distinct keys, members distinct status and
  locator, and observations distinct kind and key.
\<close>

lemma selection_fingerprint_order:
  assumes "mset ss = mset ss'" and "inj_on es_key (set ss)"
    and "mset ms = mset ms'" and "inj_on member_sort_key (set ms)"
    and "mset obs = mset obs'" and "inj_on observation_sort_key (set obs)"
  shows "selection_fingerprint_for_records ss ms obs = selection_fingerprint_for_records ss' ms' obs'"
proof -
  have member: "member_semantics obs = member_semantics obs'"
  proof (rule ext)
    fix m
    have "sort_key observation_sort_key (observations_of_member obs m) =
        sort_key observation_sort_key (observations_of_member obs' m)"
      unfolding observations_of_member_def by (rule sort_key_filter_perm [OF assms(5,6)])
    then show "member_semantics obs m = member_semantics obs' m" by (simp add: member_semantics_def)
  qed
  have members: "sort_key member_sort_key (members_of_selection ms s) =
      sort_key member_sort_key (members_of_selection ms' s)" for s
    unfolding members_of_selection_def by (rule sort_key_filter_perm [OF assms(3,4)])
  have "selection_semantics_payload s (members_of_selection ms s) obs =
      selection_semantics_payload s (members_of_selection ms' s) obs'" for s
    unfolding selection_semantics_payload_def member members ..
  then show ?thesis
    using sort_key_perm_inj [OF assms(1,2)] by (simp add: selection_fingerprint_for_records_def)
qed

definition sample_member :: "string \<Rightarrow> evidence_member_record" where
  "sample_member path =
     \<lparr>em_evidence_set_id = ''e'', em_selection_id = ''s'', em_member_id = path,
      em_source_slug = ''coinbase'', em_adapter_id = ''coinbase.retail'', em_capture_uid = ''u'',
      em_kind = MK_RETAIL_ACTIVITY_EXPORT_FILE, em_locator = [path], em_status = MS_SELECTED,
      em_capture_manifest_fingerprint = ''f''\<rparr>"

definition sample_selection :: "evidence_selection_record" where
  "sample_selection =
     \<lparr>es_evidence_set_id = ''e'', es_selection_id = ''s'', es_key = [''k''], es_fingerprint = ''f'',
      es_basis = SB_COVERAGE, es_blocking_gap_refs = []\<rparr>"

lemma selection_fingerprint_order_witness:
  "selection_fingerprint_for_records [sample_selection] [sample_member ''b'', sample_member ''a''] [] =
   selection_fingerprint_for_records [sample_selection] [sample_member ''a'', sample_member ''b''] []"
  by (rule selection_fingerprint_order)
    (simp_all add: sample_member_def member_sort_key_def inj_on_def)

end
