(* ===== verification/Reconciliation_Builder.thy ===== *)
theory Reconciliation_Builder
  imports Reconciliation Economics_Builder Evidence
begin

text \<open>
  \<open>application/reconciliation/builder.py\<close>: from economic facts, balance claims and observations
  to one reconciliation state per subject. The theorems: which subjects get a state, what every
  target expects and when a proposal is ready, and that facts built from the same claim set never
  make the builder fail.
\<close>

record timed_economic_leg =
  tl_record :: economic_leg_record
  tl_effective_at :: datetime

section \<open>Accepted balance claims and their subjects\<close>

definition accepted_bundle_refs :: "claim_set \<Rightarrow> string list" where
  "accepted_bundle_refs cs =
     map cd_accepted_bundle_ref
       (filter (\<lambda>d. cd_outcome d = DO_ACCEPTED \<and> cd_accepted_bundle_ref d \<noteq> [])
         (cset_claim_bundle_decision_records cs))"

definition accepted_balance_claims :: "claim_set \<Rightarrow> claim_record list" where
  "accepted_balance_claims cs =
     filter (\<lambda>c. clm_kind c = CK_BALANCE \<and> clm_bundle_id c \<in> set (accepted_bundle_refs cs))
       (cset_claim_records cs)"

text \<open>\<open>next((item for item in items if P item), None)\<close>, or an error.\<close>

definition first_or :: "py_error \<Rightarrow> ('a \<Rightarrow> bool) \<Rightarrow> 'a list \<Rightarrow> 'a result" where
  "first_or e P xs = (case List.find P xs of None \<Rightarrow> Inl e | Some x \<Rightarrow> Inr x)"

definition subject_ref_for_balance_claim :: "claim_set \<Rightarrow> claim_record \<Rightarrow> subject_ref result" where
  "subject_ref_for_balance_claim cs c =
     (let bundle_claims = filter (\<lambda>i. clm_bundle_id i = clm_bundle_id c) (cset_claim_records cs);
          prefix = ''balance claim bundle '' @ clm_bundle_id c
      in
       r_bind (first_or (ValueError (prefix @ '' requires beneficial owner claim''))
         (\<lambda>i. clm_kind i = CK_BENEFICIAL_OWNER) bundle_claims) (\<lambda>owner_claim.
       r_bind (first_or (ValueError (prefix @ '' requires location claim '' @
           py_repr (clm_location_claim_ref c)))
         (\<lambda>i. clm_claim_id i = clm_location_claim_ref c) bundle_claims) (\<lambda>location_claim.
       case clm_instrument_claim_refs c of
         [] \<Rightarrow> Inl (IndexError ''tuple index out of range'')
       | ref # _ \<Rightarrow>
           r_bind (first_or (ValueError (prefix @ '' requires instrument claim '' @ py_repr ref))
             (\<lambda>i. clm_claim_id i = ref) bundle_claims) (\<lambda>instrument_claim.
           r_bind (resolve_claim_instrument instrument_claim) (\<lambda>resolution.
             case resolution of
               None \<Rightarrow> Inl (ValueError (''could not resolve balance-claim instrument '' @
                 clm_claim_id instrument_claim))
             | Some r \<Rightarrow> Inr (position_subject_ref (clm_beneficial_owner_ref owner_claim)
                 [clm_location_ref location_claim] [ir_instrument_id (ri_instrument r)]))))))"

section \<open>One subject\<close>

definition bounded_times :: "timed_economic_leg list \<Rightarrow> claim_record list \<Rightarrow> datetime list" where
  "bounded_times legs balance_claims =
     map tl_effective_at legs @ List.map_filter clm_observed_at balance_claims"

definition segment_bounds ::
    "timed_economic_leg list \<Rightarrow> claim_record list \<Rightarrow> (datetime \<times> datetime) result" where
  "segment_bounds legs balance_claims =
     (case bounded_times legs balance_claims of
        [] \<Rightarrow> Inl (ValueError ''reconciliation subject requires at least one bounded time'')
      | t # ts \<Rightarrow> Inr (fold min ts t, fold max ts t))"

definition expected_quantity :: "timed_economic_leg list \<Rightarrow> datetime \<Rightarrow> decimal" where
  "expected_quantity legs as_of =
     fold (\<lambda>leg quantity.
       if tl_effective_at leg > as_of then quantity
       else d_add quantity (leg_quantity (tl_record leg))) legs d_zero"

definition proposal_status_of :: "balance_target_record \<Rightarrow> string list \<Rightarrow> proposal_status" where
  "proposal_status_of target evidence_refs =
     (if bt_observation_status target \<noteq> OBSERVED then PS_PARTIAL
      else if bt_comparison_outcome target = Some MATCHED then
        (if evidence_refs \<noteq> [] then PS_READY else PS_PARTIAL)
      else PS_BLOCKED)"

definition claim_as_of :: "datetime \<Rightarrow> claim_record \<Rightarrow> datetime" where
  "claim_as_of segment_end_at c =
     (case clm_observed_at c of None \<Rightarrow> segment_end_at | Some t \<Rightarrow> t)"

definition target_for_claim ::
    "subject_ref \<Rightarrow> string \<Rightarrow> timed_economic_leg list \<Rightarrow> datetime \<Rightarrow> claim_record \<Rightarrow>
      balance_target_record result" where
  "target_for_claim subject_ref segment_id legs as_of c =
     (let expected_value = QuantityValue (expected_quantity legs as_of) subject_ref;
          observed_value = map_option (\<lambda>q. QuantityValue q subject_ref) (clm_quantity c);
          observation_status = (if observed_value \<noteq> None then OBSERVED else UNOBSERVED);
          comparison_outcome = map_option (\<lambda>v.
            if assertion_value_eq v expected_value then MATCHED else MISMATCHED) observed_value
      in r_bind (stable_balance_target_id segment_id subject_ref EXACT_BALANCE as_of expected_value)
        (\<lambda>target_id.
          mk_balance_target_record
            \<lparr>bt_target_id = target_id, bt_segment_id = segment_id, bt_subject_ref = subject_ref,
             bt_kind = EXACT_BALANCE, bt_as_of = as_of, bt_expected_value = expected_value,
             bt_observed_value = observed_value, bt_observation_status = observation_status,
             bt_comparison_outcome = comparison_outcome\<rparr>))"

definition target_and_proposal ::
    "subject_ref \<Rightarrow> string \<Rightarrow> timed_economic_leg list \<Rightarrow> datetime \<Rightarrow> string set \<Rightarrow> claim_record \<Rightarrow>
      (balance_target_record \<times> checkpoint_proposal_record) result" where
  "target_and_proposal subject_ref segment_id legs segment_end_at valid_observation_refs c =
     (let as_of = claim_as_of segment_end_at c in
      r_bind (target_for_claim subject_ref segment_id legs as_of c) (\<lambda>target.
      let evidence_refs = sort (filter (\<lambda>r. r \<in> valid_observation_refs) (clm_observation_refs c)) in
      r_bind (stable_checkpoint_proposal_id segment_id subject_ref as_of [bt_target_id target])
        (\<lambda>proposal_id.
      r_bind (mk_checkpoint_proposal_record
        \<lparr>cp_proposal_id = proposal_id, cp_segment_id = segment_id, cp_subject_ref = subject_ref,
         cp_as_of = as_of, cp_status = proposal_status_of target evidence_refs,
         cp_superseding_proposal_ref = [], cp_target_refs = [bt_target_id target],
         cp_evidence_refs = evidence_refs\<rparr>) (\<lambda>proposal.
        Inr (target, proposal)))))"

definition state_for_subject ::
    "subject_ref \<Rightarrow> string \<Rightarrow> timed_economic_leg list \<Rightarrow> claim_record list \<Rightarrow> string set \<Rightarrow>
      reconciliation_state result" where
  "state_for_subject subject_ref economic_facts_ref legs balance_claims valid_observation_refs =
     r_bind (segment_bounds legs balance_claims) (\<lambda>(segment_start_at, segment_end_at).
     r_bind (stable_continuity_segment_id subject_ref segment_start_at segment_end_at) (\<lambda>segment_id.
     r_bind (r_map (target_and_proposal subject_ref segment_id legs segment_end_at valid_observation_refs)
       (sort_key (claim_as_of segment_end_at) balance_claims)) (\<lambda>pairs.
     r_bind (mk_continuity_segment_record
       \<lparr>seg_segment_id = segment_id, seg_subject_ref = subject_ref,
        seg_segment_start_at = segment_start_at, seg_segment_end_at = segment_end_at,
        seg_status = (if balance_claims \<noteq> [] then CSS_COMPLETE else CSS_PARTIAL),
        seg_as_of = fold max (map (\<lambda>p. bt_as_of (fst p)) pairs) segment_end_at\<rparr>) (\<lambda>segment.
       Inr \<lparr>rs_reconciliation_state_id = stable_reconciliation_state_id economic_facts_ref segment_id,
            rs_economic_facts_ref = economic_facts_ref,
            rs_continuity_segment_records = [segment], rs_event_link_records = [],
            rs_balance_target_records = canonical_balance_target_records (map fst pairs),
            rs_checkpoint_proposal_records = canonical_checkpoint_proposal_records (map snd pairs)\<rparr>))))"

section \<open>All subjects\<close>

definition timed_leg ::
    "economic_event_record list \<Rightarrow> economic_leg_record \<Rightarrow> timed_economic_leg result" where
  "timed_leg events l =
     (case map_of (index_by ev_event_id events) (leg_event_id l) of
        None \<Rightarrow> Inl (ValueError (''economic leg '' @ leg_leg_id l @ '' references unknown event_id''))
      | Some e \<Rightarrow> Inr \<lparr>tl_record = l, tl_effective_at = ev_effective_at e\<rparr>)"

definition with_subject :: "claim_set \<Rightarrow> claim_record \<Rightarrow> (subject_ref \<times> claim_record) result" where
  "with_subject cs c = r_bind (subject_ref_for_balance_claim cs c) (\<lambda>s. Inr (s, c))"

definition tl_subject :: "timed_economic_leg \<Rightarrow> subject_ref" where
  "tl_subject l = leg_subject_ref (tl_record l)"

definition build_reconciliation_states ::
    "economic_facts \<Rightarrow> claim_set \<Rightarrow> evidence_set \<Rightarrow> reconciliation_state list result" where
  "build_reconciliation_states facts cs es =
     (let valid_observation_refs = eo_observation_id ` set (eset_evidence_observation_records es) in
      r_bind (r_map (timed_leg (ef_economic_event_records facts)) (ef_economic_leg_records facts)) (\<lambda>timed.
      r_bind (r_map (with_subject cs) (accepted_balance_claims cs)) (\<lambda>subject_claims.
        let legs_by_subject = group_by tl_subject timed;
            balance_claims_by_subject = group_by fst subject_claims;
            all_subjects = sort_key subject_ref_str
              (remdups (map fst legs_by_subject @ map fst balance_claims_by_subject))
        in r_bind (r_map (\<lambda>s.
             let legs = dict_get legs_by_subject s [];
                 balance_claims = map snd (dict_get balance_claims_by_subject s [])
             in if legs = [] \<and> balance_claims = [] then Inr []
                else r_bind (state_for_subject s (ef_economic_facts_id facts) legs balance_claims
                       valid_observation_refs) (\<lambda>st. Inr [st]))
             all_subjects) (\<lambda>states. Inr (concat states)))))"

section \<open>Lemmas\<close>

lemma expected_quantity_sum:
  "expected_quantity legs as_of =
     d_sum (map (\<lambda>l. leg_quantity (tl_record l)) (filter (\<lambda>l. tl_effective_at l \<le> as_of) legs))"
proof -
  have "fold (\<lambda>leg quantity. if tl_effective_at leg > as_of then quantity
        else d_add quantity (leg_quantity (tl_record leg))) legs a =
      foldl d_add a (map (\<lambda>l. leg_quantity (tl_record l)) (filter (\<lambda>l. tl_effective_at l \<le> as_of) legs))"
    for a
    by (induction legs arbitrary: a) auto
  then show ?thesis by (simp add: expected_quantity_def d_sum_def)
qed

lemma fold_min_le: "fold min ts (t::datetime) \<le> t \<and> (\<forall>u \<in> set ts. fold min ts t \<le> u)"
proof (induction ts arbitrary: t)
  case (Cons a ts)
  from Cons [of "min a t"] show ?case by (auto simp: min_def split: if_splits)
qed simp

lemma fold_max_ge: "t \<le> fold max ts (t::datetime) \<and> (\<forall>u \<in> set ts. u \<le> fold max ts t)"
proof (induction ts arbitrary: t)
  case (Cons a ts)
  from Cons [of "max a t"] show ?case by (auto simp: max_def split: if_splits)
qed simp

lemma fold_min_mem: "fold min ts (t::datetime) \<in> insert t (set ts)"
proof (induction ts arbitrary: t)
  case (Cons a ts)
  from Cons [of "min a t"] show ?case by (auto simp: min_def split: if_splits)
qed simp

lemma fold_max_mem: "fold max ts (t::datetime) \<in> insert t (set ts)"
proof (induction ts arbitrary: t)
  case (Cons a ts)
  from Cons [of "max a t"] show ?case by (auto simp: max_def split: if_splits)
qed simp

lemma segment_bounds_Inr:
  assumes "segment_bounds legs cs = Inr (a, b)"
  shows "a \<in> set (bounded_times legs cs)" and "b \<in> set (bounded_times legs cs)"
    and "\<forall>t \<in> set (bounded_times legs cs). a \<le> t \<and> t \<le> b"
proof -
  obtain t ts where ts: "bounded_times legs cs = t # ts" "a = fold min ts t" "b = fold max ts t"
    using assms by (auto simp: segment_bounds_def split: list.splits)
  then show "a \<in> set (bounded_times legs cs)" and "b \<in> set (bounded_times legs cs)"
    using fold_min_mem [of ts t] fold_max_mem [of ts t] by auto
  show "\<forall>t \<in> set (bounded_times legs cs). a \<le> t \<and> t \<le> b"
    using ts fold_min_le [of ts t] fold_max_ge [where ts = ts and t = t] by auto
qed

lemma bounded_times_iff:
  "t \<in> set (bounded_times legs cs) \<longleftrightarrow>
     (\<exists>l \<in> set legs. t = tl_effective_at l) \<or> (\<exists>c \<in> set cs. clm_observed_at c = Some t)"
  unfolding bounded_times_def set_append Un_iff set_map image_iff
  by (induction cs) (auto simp: List.map_filter_simps split: option.splits)

text \<open>What the target and the proposal of one balance claim are, as the documentation states it.\<close>

definition reconciled ::
    "subject_ref \<Rightarrow> timed_economic_leg list \<Rightarrow> datetime \<Rightarrow> string set \<Rightarrow>
      claim_record \<times> balance_target_record \<times> checkpoint_proposal_record \<Rightarrow> bool" where
  "reconciled s legs segment_end_at refs = (\<lambda>(c, t, p).
     let as_of = claim_as_of segment_end_at c;
         expected = d_sum (map (\<lambda>l. leg_quantity (tl_record l))
           (filter (\<lambda>l. tl_effective_at l \<le> as_of) legs))
     in utcoffset as_of = Some 0 \<and>
        stable_balance_target_id (bt_segment_id t) s EXACT_BALANCE as_of (QuantityValue expected s) =
          Inr (bt_target_id t) \<and>
        bt_subject_ref t = s \<and> cp_subject_ref p = s \<and> bt_as_of t = as_of \<and> cp_as_of p = as_of \<and>
        bt_expected_value t = QuantityValue expected s \<and>
        bt_observed_value t = map_option (\<lambda>q. QuantityValue q s) (clm_quantity c) \<and>
        (bt_observation_status t = OBSERVED \<longleftrightarrow> clm_quantity c \<noteq> None) \<and>
        (bt_comparison_outcome t = Some MATCHED \<longleftrightarrow>
          (\<exists>q. clm_quantity c = Some q \<and> dval q = dval expected)) \<and>
        cp_target_refs p = [bt_target_id t] \<and>
        cp_evidence_refs p = sort (filter (\<lambda>r. r \<in> refs) (clm_observation_refs c)) \<and>
        (cp_status p = PS_READY \<longleftrightarrow>
          bt_comparison_outcome t = Some MATCHED \<and> cp_evidence_refs p \<noteq> []) \<and>
        (cp_status p = PS_BLOCKED \<longleftrightarrow>
          (\<exists>q. clm_quantity c = Some q \<and> dval q \<noteq> dval expected)))"

lemma target_and_proposal_Inr:
  assumes "target_and_proposal s g legs e refs c = Inr (t, p)"
  shows "reconciled s legs e refs (c, t, p)"
  using assms
  by (auto simp: target_and_proposal_def target_for_claim_def mk_balance_target_record_def
      mk_checkpoint_proposal_record_def reconciled_def expected_quantity_sum proposal_status_of_def
      result_simps Let_def d_eq_iff split: if_splits option.splits)

lemma reconciled_as_of: "reconciled s legs e refs (c, t, p) \<Longrightarrow> bt_as_of t = claim_as_of e c"
  by (simp add: reconciled_def Let_def)

lemma target_and_proposal_ok:
  assumes "utcoffset (claim_as_of e c) = Some 0"
  shows "\<exists>t p. target_and_proposal s g legs e refs c = Inr (t, p)"
  using assms
  by (auto simp: target_and_proposal_def target_for_claim_def mk_balance_target_record_def Let_def
      mk_checkpoint_proposal_record_def stable_balance_target_id_def format_timestamp_utc
      stable_checkpoint_proposal_id_def split: option.split)

lemma sorted_targets:
  "sorted (map target_key ts) \<Longrightarrow> \<forall>t \<in> set ts. bt_segment_id t = g \<Longrightarrow> sorted (map bt_as_of ts)"
  by (induction ts) (auto simp: target_key_def less_eq_prod_def)

lemma state_for_subject_Inr:
  assumes "state_for_subject s fid legs cs refs = Inr st"
  obtains a b seg ctps where "segment_bounds legs cs = Inr (a, b)"
    and "rs_continuity_segment_records st = [seg]" and "seg_subject_ref seg = s"
    and "seg_segment_start_at seg = a" and "seg_segment_end_at seg = b"
    and "seg_status seg = (if cs \<noteq> [] then CSS_COMPLETE else CSS_PARTIAL)"
    and "mset (map fst ctps) = mset cs"
    and "mset (rs_balance_target_records st) = mset (map (\<lambda>x. fst (snd x)) ctps)"
    and "mset (rs_checkpoint_proposal_records st) = mset (map (\<lambda>x. snd (snd x)) ctps)"
    and "\<forall>x \<in> set ctps. reconciled s legs b refs x"
    and "sorted (map bt_as_of (rs_balance_target_records st))"
proof -
  obtain a b g pairs seg where run: "segment_bounds legs cs = Inr (a, b)"
      "stable_continuity_segment_id s a b = Inr g"
      "r_map (target_and_proposal s g legs b refs) (sort_key (claim_as_of b) cs) = Inr pairs"
      "rs_continuity_segment_records st = [seg]" "seg_subject_ref seg = s"
      "seg_segment_start_at seg = a" "seg_segment_end_at seg = b"
      "seg_status seg = (if cs \<noteq> [] then CSS_COMPLETE else CSS_PARTIAL)"
      "rs_balance_target_records st = canonical_balance_target_records (map fst pairs)"
      "rs_checkpoint_proposal_records st = canonical_checkpoint_proposal_records (map snd pairs)"
    using assms
    by (auto simp: state_for_subject_def mk_continuity_segment_record_def result_simps
        split: prod.splits)
  have pw: "list_all2 (\<lambda>c p. target_and_proposal s g legs b refs c = Inr p)
      (sort_key (claim_as_of b) cs) pairs"
    using run(3) by (simp add: r_map_Inr_iff)
  define ctps where "ctps = zip (sort_key (claim_as_of b) cs) pairs"
  have len: "length (sort_key (claim_as_of b) cs) = length pairs" using pw by (rule list_all2_lengthD)
  have fst: "map fst ctps = sort_key (claim_as_of b) cs" and snd: "map snd ctps = pairs"
    using len by (simp_all add: ctps_def)
  have all: "\<forall>x \<in> set ctps. reconciled s legs b refs x"
    using pw target_and_proposal_Inr by (fastforce simp: ctps_def list_all2_iff)
  have targets: "\<forall>t \<in> set (map fst pairs). bt_segment_id t = g"
  proof
    fix t assume "t \<in> set (map fst pairs)"
    then obtain p where "(t, p) \<in> set pairs" by auto
    from list_all2_right [OF pw this] obtain c where "target_and_proposal s g legs b refs c = Inr (t, p)"
      by blast
    then show "bt_segment_id t = g"
      by (auto simp: target_and_proposal_def target_for_claim_def mk_balance_target_record_def
          result_simps Let_def split: if_splits)
  qed
  have sorted: "sorted (map bt_as_of (rs_balance_target_records st))"
  proof -
    have "sorted (map target_key (rs_balance_target_records st))"
      unfolding run(9) by (rule target_order.canonical_sorted)
    moreover have "\<forall>t \<in> set (rs_balance_target_records st). bt_segment_id t = g"
      using targets unfolding run(9) target_order.canonical_set .
    ultimately show ?thesis by (rule sorted_targets)
  qed
  show ?thesis
  proof (rule that [OF run(1,4-8) _ _ _ all sorted])
    show "mset (map fst ctps) = mset cs" unfolding fst by simp
    show "mset (rs_balance_target_records st) = mset (map (\<lambda>x. fst (snd x)) ctps)"
      unfolding run(9) target_order.canonical_mset snd [symmetric] by (simp add: comp_def)
    show "mset (rs_checkpoint_proposal_records st) = mset (map (\<lambda>x. snd (snd x)) ctps)"
      unfolding run(10) proposal_order.canonical_mset snd [symmetric] by (simp add: comp_def)
  qed
qed

lemma r_map_skip:
  assumes "r_map (\<lambda>s. if P s then Inr [] else r_bind (f s) (\<lambda>st. Inr [st])) xs = Inr parts"
    and "\<forall>x \<in> set xs. \<not> P x"
  shows "list_all2 (\<lambda>s st. f s = Inr st) xs (concat parts)"
  using assms
proof (induction xs arbitrary: parts)
  case (Cons x xs)
  then obtain y ps where "f x = Inr y" "parts = [y] # ps"
      "r_map (\<lambda>s. if P s then Inr [] else r_bind (f s) (\<lambda>st. Inr [st])) xs = Inr ps"
    by (auto simp: result_simps)
  then show ?case using Cons by simp
qed simp

definition subject_claims :: "claim_set \<Rightarrow> subject_ref \<Rightarrow> claim_record list" where
  "subject_claims cs s =
     filter (\<lambda>c. subject_ref_for_balance_claim cs c = Inr s) (accepted_balance_claims cs)"

lemma with_subject_filter:
  "r_map (with_subject cs) claims = Inr sc \<Longrightarrow>
     map snd (filter (\<lambda>p. fst p = s) sc) =
       filter (\<lambda>c. subject_ref_for_balance_claim cs c = Inr s) claims"
  by (induction claims arbitrary: sc) (auto simp: with_subject_def result_simps)

definition time_of_leg :: "economic_facts \<Rightarrow> timed_economic_leg \<Rightarrow> bool" where
  "time_of_leg facts l \<longleftrightarrow> (\<exists>e \<in> set (ef_economic_event_records facts).
     ev_event_id e = leg_event_id (tl_record l) \<and> tl_effective_at l = ev_effective_at e)"

lemma timed_legs:
  assumes "r_map (timed_leg (ef_economic_event_records facts)) legs = Inr timed"
  shows "map tl_record timed = legs \<and> (\<forall>l \<in> set timed. time_of_leg facts l)"
  using assms
proof (induction legs arbitrary: timed)
  case (Cons l legs)
  then obtain t ts where ts: "timed_leg (ef_economic_event_records facts) l = Inr t" "timed = t # ts"
      "r_map (timed_leg (ef_economic_event_records facts)) legs = Inr ts"
    by (auto simp: result_simps)
  then obtain e where e: "map_of (index_by ev_event_id (ef_economic_event_records facts)) (leg_event_id l) = Some e"
      "t = \<lparr>tl_record = l, tl_effective_at = ev_effective_at e\<rparr>"
    by (auto simp: timed_leg_def split: option.splits)
  from index_by_SomeD [OF e(1)] have "time_of_leg facts t" using e(2) by (auto simp: time_of_leg_def)
  then show ?case using Cons.IH [OF ts(3)] ts(2) e(2) by simp
qed simp

lemma build_states_parts:
  assumes "build_reconciliation_states facts cs es = Inr states"
  obtains timed subjects where "map tl_record timed = ef_economic_leg_records facts"
    and "\<forall>l \<in> set timed. time_of_leg facts l"
    and "sorted (map subject_ref_str subjects)" and "distinct subjects"
    and "set subjects = leg_subject_ref ` set (ef_economic_leg_records facts) \<union>
      {s. subject_claims cs s \<noteq> []}"
    and "list_all2 (\<lambda>s st. state_for_subject s (ef_economic_facts_id facts)
        (filter (\<lambda>l. tl_subject l = s) timed) (subject_claims cs s)
        (eo_observation_id ` set (eset_evidence_observation_records es)) = Inr st) subjects states"
proof -
  let ?refs = "eo_observation_id ` set (eset_evidence_observation_records es)"
  obtain timed sc parts where run:
      "r_map (timed_leg (ef_economic_event_records facts)) (ef_economic_leg_records facts) = Inr timed"
      "r_map (with_subject cs) (accepted_balance_claims cs) = Inr sc"
      "r_map (\<lambda>s. if dict_get (group_by tl_subject timed) s [] = [] \<and>
             map snd (dict_get (group_by fst sc) s []) = [] then Inr []
           else r_bind (state_for_subject s (ef_economic_facts_id facts)
             (dict_get (group_by tl_subject timed) s []) (map snd (dict_get (group_by fst sc) s [])) ?refs)
             (\<lambda>st. Inr [st]))
         (sort_key subject_ref_str (remdups (map fst (group_by tl_subject timed) @ map fst (group_by fst sc))))
         = Inr parts"
      "states = concat parts"
    using assms by (auto simp: build_reconciliation_states_def result_simps Let_def)
  define subjects where "subjects =
    sort_key subject_ref_str (remdups (map fst (group_by tl_subject timed) @ map fst (group_by fst sc)))"
  note timed = timed_legs [OF run(1)]
  have claims: "map snd (filter (\<lambda>p. fst p = s) sc) = subject_claims cs s" for s
    using with_subject_filter [OF run(2), of s] by (simp add: subject_claims_def)
  have keys: "set subjects = tl_subject ` set timed \<union> fst ` set sc"
    unfolding subjects_def by (simp add: keys_group_by_image)
  have claim_keys: "s \<in> fst ` set sc \<longleftrightarrow> subject_claims cs s \<noteq> []" for s
    unfolding claims [symmetric] by (auto simp: filter_empty_conv)
  have leg_keys: "tl_subject ` set timed = leg_subject_ref ` set (ef_economic_leg_records facts)"
    unfolding conjunct1 [OF timed, symmetric] by (force simp: tl_subject_def)
  have sets: "set subjects = leg_subject_ref ` set (ef_economic_leg_records facts) \<union>
      {s. subject_claims cs s \<noteq> []}"
    unfolding keys leg_keys using claim_keys by blast
  have some: "\<forall>s \<in> set subjects. \<not> (filter (\<lambda>l. tl_subject l = s) timed = [] \<and> subject_claims cs s = [])"
  proof
    fix s assume "s \<in> set subjects"
    then have "s \<in> tl_subject ` set timed \<or> subject_claims cs s \<noteq> []" using keys claim_keys by blast
    then show "\<not> (filter (\<lambda>l. tl_subject l = s) timed = [] \<and> subject_claims cs s = [])"
      unfolding filter_key_empty by blast
  qed
  have "list_all2 (\<lambda>s st. state_for_subject s (ef_economic_facts_id facts)
        (filter (\<lambda>l. tl_subject l = s) timed) (subject_claims cs s) ?refs = Inr st) subjects states"
    unfolding run(4)
    using r_map_skip [OF run(3) [folded subjects_def, unfolded dict_get_group_by claims] some] .
  moreover have "sorted (map subject_ref_str subjects)" "distinct subjects"
    by (simp_all add: subjects_def)
  ultimately show ?thesis using that timed sets by blast
qed

definition state_segment :: "reconciliation_state \<Rightarrow> continuity_segment_record" where
  "state_segment st = hd (rs_continuity_segment_records st)"

section \<open>Properties\<close>


definition state_targets_spec ::
    "economic_facts \<Rightarrow> claim_set \<Rightarrow> string set \<Rightarrow> reconciliation_state \<Rightarrow>
      (claim_record \<times> balance_target_record \<times> checkpoint_proposal_record) list \<Rightarrow> bool" where
  "state_targets_spec facts cs refs st ctps \<longleftrightarrow>
     (let s = seg_subject_ref (state_segment st) in
      rs_continuity_segment_records st = [state_segment st] \<and>
      mset (map fst ctps) = mset (subject_claims cs s) \<and>
      mset (rs_balance_target_records st) = mset (map (\<lambda>x. fst (snd x)) ctps) \<and>
      mset (rs_checkpoint_proposal_records st) = mset (map (\<lambda>x. snd (snd x)) ctps) \<and>
      sorted (map bt_as_of (rs_balance_target_records st)) \<and>
      (\<exists>legs. map tl_record legs = filter (\<lambda>l. leg_subject_ref l = s) (ef_economic_leg_records facts) \<and>
        (\<forall>l \<in> set legs. time_of_leg facts l) \<and>
        (\<forall>x \<in> set ctps. reconciled s legs (seg_segment_end_at (state_segment st)) refs x)))"

lemma built_state_targets:
  assumes "build_reconciliation_states facts cs es = Inr states" and "st \<in> set states"
  shows "\<exists>ctps. state_targets_spec facts cs
    (eo_observation_id ` set (eset_evidence_observation_records es)) st ctps"
proof -
  let ?refs = "eo_observation_id ` set (eset_evidence_observation_records es)"
  obtain timed subjects where p: "map tl_record timed = ef_economic_leg_records facts"
      "\<forall>l \<in> set timed. time_of_leg facts l" "sorted (map subject_ref_str subjects)" "distinct subjects"
      "set subjects = leg_subject_ref ` set (ef_economic_leg_records facts) \<union> {s. subject_claims cs s \<noteq> []}"
      "list_all2 (\<lambda>s st. state_for_subject s (ef_economic_facts_id facts)
        (filter (\<lambda>l. tl_subject l = s) timed) (subject_claims cs s) ?refs = Inr st) subjects states"
    using build_states_parts [OF assms(1)] .
  from list_all2_right [OF p(6) assms(2)] obtain s where
    run: "state_for_subject s (ef_economic_facts_id facts)
        (filter (\<lambda>l. tl_subject l = s) timed) (subject_claims cs s) ?refs = Inr st" by blast
  obtain a b seg ctps where q: "rs_continuity_segment_records st = [seg]" "seg_subject_ref seg = s"
      "seg_segment_end_at seg = b" "mset (map fst ctps) = mset (subject_claims cs s)"
      "mset (rs_balance_target_records st) = mset (map (\<lambda>x. fst (snd x)) ctps)"
      "mset (rs_checkpoint_proposal_records st) = mset (map (\<lambda>x. snd (snd x)) ctps)"
      "\<forall>x \<in> set ctps. reconciled s (filter (\<lambda>l. tl_subject l = s) timed) b ?refs x"
      "sorted (map bt_as_of (rs_balance_target_records st))"
    by (rule state_for_subject_Inr [OF run], rule that)
  have "map tl_record (filter (\<lambda>l. tl_subject l = s) timed) =
      filter (\<lambda>l. leg_subject_ref l = s) (ef_economic_leg_records facts)"
    unfolding p(1) [symmetric] by (simp add: filter_map tl_subject_def comp_def)
  then show ?thesis
    using q p(2) by (auto simp: state_targets_spec_def state_segment_def Let_def
        intro!: exI [of _ ctps] exI [of _ "filter (\<lambda>l. tl_subject l = s) timed"])
qed

text \<open>
  C5: Every accepted balance claim of a subject becomes exactly one target and one proposal of the
  state of that subject. The target expects the sum of the legs of the subject effective at or
  before the claim and compares it with the claimed quantity as a number; the proposal refers to
  that target, cites the claim's observations that exist, and is ready exactly when the quantities
  agree and there is such an observation, blocked exactly when they differ.
\<close>

theorem reconciliation_targets_sound:
  assumes "build_reconciliation_states facts cs es = Inr states" and "st \<in> set states"
  shows "\<exists>ctps. state_targets_spec facts cs
    (eo_observation_id ` set (eset_evidence_observation_records es)) st ctps"
  using assms by (rule built_state_targets)

text \<open>
  C34: When the legs of a subject have a common grid (a number of decimal places) and their
  absolute values add up to less than \<open>10\<^sup>2\<^sup>8\<close> grid units, the expected quantity is the exact sum
  of the legs effective at or before the instant: the decimal context never rounds.
\<close>

theorem expected_quantity_exact:
  assumes "\<forall>l \<in> set legs. on_grid g (dval (leg_quantity (tl_record l)))"
    and "(\<Sum>l\<leftarrow>legs. \<bar>dval (leg_quantity (tl_record l))\<bar>) < 10 ^ 28 * 10 powi g"
  shows "dval (expected_quantity legs as_of) =
    (\<Sum>l\<leftarrow>filter (\<lambda>l. tl_effective_at l \<le> as_of) legs. dval (leg_quantity (tl_record l)))"
proof -
  let ?ls = "filter (\<lambda>l. tl_effective_at l \<le> as_of) legs"
  have le: "(\<Sum>l\<leftarrow>?ls. \<bar>dval (leg_quantity (tl_record l))\<bar>) \<le>
      (\<Sum>l\<leftarrow>legs. \<bar>dval (leg_quantity (tl_record l))\<bar>)"
    by (induction legs) auto
  have "dval (d_sum (map (\<lambda>l. leg_quantity (tl_record l)) ?ls)) =
      sum_list (map dval (map (\<lambda>l. leg_quantity (tl_record l)) ?ls))"
    by (rule d_sum_exact [of _ g]) (use assms le in \<open>auto simp: comp_def\<close>)
  then show ?thesis by (simp add: expected_quantity_sum comp_def)
qed

lemma state_for_subject_ok:
  assumes "bounded_times legs cs \<noteq> []" and "\<forall>t \<in> set (bounded_times legs cs). utcoffset t = Some 0"
  shows "\<exists>st. state_for_subject s fid legs cs refs = Inr st"
proof -
  obtain a b where ab: "segment_bounds legs cs = Inr (a, b)"
    using assms(1) by (cases "bounded_times legs cs") (auto simp: segment_bounds_def)
  have utc: "utcoffset a = Some 0" "utcoffset b = Some 0"
    using segment_bounds_Inr [OF ab] assms(2) by blast+
  have as_of: "utcoffset (claim_as_of b c) = Some 0" if "c \<in> set cs" for c
    using that assms(2) utc by (auto simp: claim_as_of_def bounded_times_iff split: option.split)
  then have "\<exists>p. target_and_proposal s g legs b refs c = Inr p" if "c \<in> set cs" for c g
    using that target_and_proposal_ok by fast
  then have "\<exists>pairs. r_map (target_and_proposal s g legs b refs) (sort_key (claim_as_of b) cs) = Inr pairs"
    for g
    by (intro r_map_exists_ok) simp
  moreover obtain g where g: "stable_continuity_segment_id s a b = Inr g"
    using utc by (simp add: stable_continuity_segment_id_def format_timestamp_utc)
  ultimately obtain pairs where
    pairs: "r_map (target_and_proposal s g legs b refs) (sort_key (claim_as_of b) cs) = Inr pairs" by blast
  have "utcoffset (bt_as_of (fst p)) = Some 0" if "p \<in> set pairs" for p
  proof -
    from r_map_set [OF pairs that] obtain c where c: "c \<in> set cs"
      "target_and_proposal s g legs b refs c = Inr (fst p, snd p)" by auto
    have "bt_as_of (fst p) = claim_as_of b c"
      by (rule reconciled_as_of [OF target_and_proposal_Inr [OF c(2)]])
    with as_of [OF c(1)] show ?thesis by simp
  qed
  then have "utcoffset (fold max (map (\<lambda>p. bt_as_of (fst p)) pairs) b) = Some 0"
    using fold_max_mem [of "map (\<lambda>p. bt_as_of (fst p)) pairs" b] utc(2) by auto
  then show ?thesis
    using ab g pairs utc by (simp add: state_for_subject_def mk_continuity_segment_record_def)
qed

lemma mem_map_filter: "y \<in> set (List.map_filter f xs) \<longleftrightarrow> (\<exists>x \<in> set xs. f x = Some y)"
  by (induction xs) (auto simp: List.map_filter_simps split: option.splits)

lemma reconciliation_total:
  assumes "build_economic_facts cs = Inr facts"
    and "\<forall>c \<in> set (accepted_balance_claims cs). valid_claim_record c \<and>
      is_ok (subject_ref_for_balance_claim cs c) \<and>
      (\<forall>t. clm_observed_at c = Some t \<longrightarrow> utcoffset t = Some 0)"
  shows "\<exists>states. build_reconciliation_states facts cs es = Inr states"
proof -
  have "\<exists>t. timed_leg (ef_economic_event_records facts) l = Inr t"
    if "l \<in> set (ef_economic_leg_records facts)" for l
    using built_events(1) [OF assms(1)] that by (auto simp: timed_leg_def map_of_index_by)
  then obtain timed where
    timed: "r_map (timed_leg (ef_economic_event_records facts)) (ef_economic_leg_records facts) = Inr timed"
    using r_map_exists_ok by blast
  have "\<exists>p. with_subject cs c = Inr p" if "c \<in> set (accepted_balance_claims cs)" for c
    using assms(2) that by (auto simp: with_subject_def is_ok_iff result_simps)
  then obtain sc where sc: "r_map (with_subject cs) (accepted_balance_claims cs) = Inr sc"
    using r_map_exists_ok by blast
  have leg_utc: "utcoffset (tl_effective_at l) = Some 0" if "l \<in> set timed" for l
    using timed_legs [OF timed] built_events(2) [OF assms(1)] that by (fastforce simp: time_of_leg_def)
  have claim_utc: "\<exists>t. clm_observed_at c = Some t \<and> utcoffset t = Some 0" if "c \<in> snd ` set sc" for c
  proof -
    from that r_map_set [OF sc] have "c \<in> set (accepted_balance_claims cs)"
      by (auto simp: with_subject_def result_simps)
    then have "valid_claim_record c" "clm_kind c = CK_BALANCE"
      "\<forall>t. clm_observed_at c = Some t \<longrightarrow> utcoffset t = Some 0"
      using assms(2) by (auto simp: accepted_balance_claims_def)
    then show ?thesis
      by (cases "clm_observed_at c")
        (auto simp: valid_claim_record_def claim_field_problem_def split: if_splits)
  qed
  have "\<exists>st. state_for_subject s fid (filter (\<lambda>l. tl_subject l = s) timed)
      (map snd (filter (\<lambda>p. fst p = s) sc)) refs = Inr st"
    if ne: "\<not> (filter (\<lambda>l. tl_subject l = s) timed = [] \<and> map snd (filter (\<lambda>p. fst p = s) sc) = [])"
    for s fid refs
  proof (rule state_for_subject_ok)
    let ?ts = "bounded_times (filter (\<lambda>l. tl_subject l = s) timed) (map snd (filter (\<lambda>p. fst p = s) sc))"
    show "\<forall>t \<in> set ?ts. utcoffset t = Some 0"
      using leg_utc claim_utc by (fastforce simp: bounded_times_iff)
    show "?ts \<noteq> []"
    proof (cases "filter (\<lambda>l. tl_subject l = s) timed")
      case Nil
      with ne obtain p where "p \<in> set sc" "fst p = s" by (auto simp: filter_empty_conv)
      moreover from this obtain t where "clm_observed_at (snd p) = Some t" using claim_utc by blast
      moreover from calculation have "snd p \<in> set (map snd (filter (\<lambda>q. fst q = s) sc))" by force
      ultimately have "t \<in> set ?ts" unfolding bounded_times_iff by blast
      then show ?thesis by auto
    qed (simp add: bounded_times_def)
  qed
  then show ?thesis
    by (auto simp: build_reconciliation_states_def timed sc Let_def dict_get_group_by result_simps
        intro!: r_map_exists_ok)
qed

text \<open>
  C21: Economic facts built from a claim set always reconcile against it: when every accepted
  balance claim is a validated record with a UTC observation time and resolves to a subject, the
  builder returns states. In particular no leg refers to an unknown event and every subject has a
  bounded time.
\<close>

theorem reconciliation_succeeds:
  assumes "build_economic_facts cs = Inr facts"
    and "\<forall>c \<in> set (accepted_balance_claims cs). valid_claim_record c \<and>
      is_ok (subject_ref_for_balance_claim cs c) \<and>
      (\<forall>t. clm_observed_at c = Some t \<longrightarrow> utcoffset t = Some 0)"
  shows "\<exists>states. build_reconciliation_states facts cs es = Inr states"
  using assms by (rule reconciliation_total)

section \<open>Witnesses\<close>

definition sample_observation :: evidence_observation_record where
  "sample_observation =
     \<lparr>eo_evidence_set_id = ''ev'', eo_member_id = ''m'', eo_observation_id = ''obs'',
      eo_kind = OK_STATEMENT_BALANCE_ROW, eo_key = [''row''], eo_observed_at = Some sample_time,
      eo_precision = Some TIMESTAMP, eo_provenance_refs = [], eo_statement_kind = [],
      eo_document_effective_at = None, eo_document_effective_precision = None,
      eo_statement_as_of = None, eo_statement_as_of_precision = None, eo_location_group_label = [],
      eo_location_label = [], eo_balance_kind = [], eo_instrument_symbol = ''BTC'',
      eo_quantity = Some (Decimal 25 (-1)), eo_notes = [], eo_staked_quantity_text = [],
      eo_value_amount_text = [], eo_value_currency = [], eo_price_amount_text = [],
      eo_price_currency = []\<rparr>"

definition sample_evidence_set :: evidence_set where
  "sample_evidence_set =
     \<lparr>eset_evidence_set_id = ''ev'', eset_selection_fingerprint = ''f'',
      eset_capture_manifest_fingerprint = ''f'', eset_evidence_selection_records = [],
      eset_evidence_member_records = [], eset_evidence_observation_records = [sample_observation]\<rparr>"

definition sample_balance :: claim_record where
  "sample_balance = sample_support ! 3"

lemma sample_accepted: "accepted_balance_claims sample_claim_set = [sample_balance]"
  by (simp add: accepted_balance_claims_def accepted_bundle_refs_def sample_claim_set_def
      accept_bundle_def sample_activity_def sample_support_def blank_claim_def sample_balance_def)

lemma sample_balance_subject:
  "\<exists>r. resolve_instrument_identity [sample_instrument] = Inr (Some r) \<and>
     subject_ref_for_balance_claim sample_claim_set sample_balance =
       Inr (position_subject_ref ''self'' [''coinbase:retail''] [ir_instrument_id (ri_instrument r)])"
proof -
  obtain r where r: "resolve_instrument_identity [sample_instrument] = Inr (Some r)"
    using sample_instrument_resolved by blast
  have "resolve_claim_instrument (sample_support ! 1) = Inr (Some r)"
    using r sample_instrument_resolved(1)
    by (simp add: resolve_claim_instrument_def sample_support_def blank_claim_def
        instrument_kind_of_text_def sample_instrument_def)
  then show ?thesis
    using r
    by (simp add: subject_ref_for_balance_claim_def sample_claim_set_def sample_balance_def
        sample_activity_def sample_support_def blank_claim_def first_or_def Let_def)
qed

lemma sample_balance_checked:
  "\<forall>c \<in> set (accepted_balance_claims sample_claim_set). valid_claim_record c \<and>
    is_ok (subject_ref_for_balance_claim sample_claim_set c) \<and>
    (\<forall>t. clm_observed_at c = Some t \<longrightarrow> utcoffset t = Some 0)"
proof -
  have "is_ok (subject_ref_for_balance_claim sample_claim_set sample_balance)"
    using sample_balance_subject by auto
  moreover have "valid_claim_record sample_balance" "clm_observed_at sample_balance = Some sample_time"
    by (simp_all add: valid_claim_record_def claim_field_problem_def sample_balance_def
        sample_support_def blank_claim_def)
  ultimately show ?thesis by (simp add: sample_accepted sample_time_def)
qed

lemma sample_reconciles:
  "\<exists>f states. build_economic_facts sample_claim_set = Inr f \<and>
     build_reconciliation_states f sample_claim_set sample_evidence_set = Inr states \<and> states \<noteq> []"
proof -
  obtain f where f: "build_economic_facts sample_claim_set = Inr f" using sample_facts by blast
  from reconciliation_total [OF f sample_balance_checked] obtain states where
    states: "build_reconciliation_states f sample_claim_set sample_evidence_set = Inr states" by blast
  obtain s where "subject_ref_for_balance_claim sample_claim_set sample_balance = Inr s"
    using sample_balance_subject by blast
  then have some: "subject_claims sample_claim_set s \<noteq> []"
    by (simp add: subject_claims_def sample_accepted)
  have "states \<noteq> []"
  proof
    assume empty: "states = []"
    from states obtain subjects where sets: "set subjects =
        leg_subject_ref ` set (ef_economic_leg_records f) \<union> {s. subject_claims sample_claim_set s \<noteq> []}"
      and "length subjects = length states"
      by (rule build_states_parts) (auto dest: list_all2_lengthD)
    with empty have "subjects = []" by simp
    moreover have "s \<in> set subjects" unfolding sets using some by blast
    ultimately show False by simp
  qed
  with f states show ?thesis by blast
qed


theorem reconciliation_targets_sound_witness:
  "\<exists>f states ctps. build_economic_facts sample_claim_set = Inr f \<and>
     build_reconciliation_states f sample_claim_set sample_evidence_set = Inr states \<and> states \<noteq> [] \<and>
     state_targets_spec f sample_claim_set {''obs''} (hd states) ctps"
proof -
  obtain f states where fs: "build_economic_facts sample_claim_set = Inr f"
      "build_reconciliation_states f sample_claim_set sample_evidence_set = Inr states" "states \<noteq> []"
    using sample_reconciles by blast
  have "eo_observation_id ` set (eset_evidence_observation_records sample_evidence_set) = {''obs''}"
    by (simp add: sample_evidence_set_def sample_observation_def)
  with reconciliation_targets_sound [OF fs(2), of "hd states"] fs show ?thesis by auto
qed

definition sample_leg :: "int \<Rightarrow> nat \<Rightarrow> timed_economic_leg" where
  "sample_leg n s =
     \<lparr>tl_record = \<lparr>leg_leg_id = ''l'', leg_event_id = ''e'', leg_role_of = HOLDING_CHANGE,
        leg_subject_ref = (''position'', []), leg_instrument_ref = [''i''], leg_location_ref = [''l''],
        leg_quantity = Decimal n (-2), leg_valuation_ref = []\<rparr>,
      tl_effective_at = sample_instant s\<rparr>"

theorem expected_quantity_exact_witness:
  "dval (expected_quantity [sample_leg 150 1, sample_leg (-25) 2, sample_leg 7 3] (sample_instant 2)) =
     125 / 100"
proof -
  have grid: "\<forall>l \<in> set [sample_leg 150 1, sample_leg (-25) 2, sample_leg 7 3].
      on_grid (-2) (dval (leg_quantity (tl_record l)))"
    using on_grid_dval [of "Decimal 150 (-2)"] on_grid_dval [of "Decimal (-25) (-2)"]
      on_grid_dval [of "Decimal 7 (-2)"]
    by (simp add: sample_leg_def)
  have "dval (expected_quantity [sample_leg 150 1, sample_leg (-25) 2, sample_leg 7 3] (sample_instant 2)) =
      (\<Sum>l\<leftarrow>filter (\<lambda>l. tl_effective_at l \<le> sample_instant 2)
        [sample_leg 150 1, sample_leg (-25) 2, sample_leg 7 3]. dval (leg_quantity (tl_record l)))"
    by (rule expected_quantity_exact [OF grid]) (simp add: sample_leg_def dval_def power_int_minus)
  then show ?thesis by (simp add: sample_leg_def dval_def power_int_minus)
qed

theorem reconciliation_succeeds_witness:
  "\<exists>f states. build_economic_facts sample_claim_set = Inr f \<and>
     build_reconciliation_states f sample_claim_set sample_evidence_set = Inr states"
proof -
  obtain f where f: "build_economic_facts sample_claim_set = Inr f" using sample_facts by blast
  with reconciliation_succeeds [OF f sample_balance_checked] show ?thesis by blast
qed

end
