(* ===== verification/Checkpoint_Builder.thy ===== *)
theory Checkpoint_Builder
  imports Checkpoints Reconciliation_Builder
begin

text \<open>
  \<open>application/checkpoint/builder.py\<close>: the ready proposals of all states, grouped by instant, one
  checkpoint each. The theorems: checkpoints come in order of time and every ready proposal is in
  exactly one of them; reconciled states with distinct target ids never make the builder fail, and
  an accepted value is the observed one, equal to the expected one. Two balance claims of a subject
  at one instant share a target id, and the lookup by id then answers with the last of them.
\<close>

record ready_checkpoint_row =
  rr_state :: reconciliation_state
  rr_proposal :: checkpoint_proposal_record
  rr_segment :: continuity_segment_record
  rr_target :: balance_target_record

definition continuity_kind_of ::
    "continuity_segment_record \<Rightarrow> decimal \<Rightarrow> datetime \<Rightarrow> continuity_kind" where
  "continuity_kind_of segment expected as_of =
     (if seg_segment_start_at segment < as_of \<or> \<not> d_eq expected d_zero
      then RECONCILED_ROLLFORWARD else OBSERVED_CONTINUITY)"

definition ready_row ::
    "reconciliation_state \<Rightarrow> (string, balance_target_record) dict \<Rightarrow> continuity_segment_record \<Rightarrow>
      checkpoint_proposal_record \<Rightarrow> ready_checkpoint_row result" where
  "ready_row state targets_by_id segment proposal =
     (case cp_target_refs proposal of
        [] \<Rightarrow> Inl (IndexError ''tuple index out of range'')
      | ref # _ \<Rightarrow>
          (case map_of targets_by_id ref of
             None \<Rightarrow> Inl (KeyError ref)
           | Some target \<Rightarrow> Inr \<lparr>rr_state = state, rr_proposal = proposal, rr_segment = segment,
                                  rr_target = target\<rparr>))"

definition ready_rows_of_state :: "reconciliation_state \<Rightarrow> ready_checkpoint_row list result" where
  "ready_rows_of_state state =
     (let targets_by_id = index_by bt_target_id (rs_balance_target_records state)
      in case rs_continuity_segment_records state of
           [] \<Rightarrow> Inl (IndexError ''tuple index out of range'')
         | segment # _ \<Rightarrow>
             r_map (ready_row state targets_by_id segment)
               (filter (\<lambda>p. cp_status p = PS_READY) (rs_checkpoint_proposal_records state)))"

definition assertion_of_row ::
    "string \<Rightarrow> datetime \<Rightarrow> ready_checkpoint_row \<Rightarrow> checkpoint_assertion_record result" where
  "assertion_of_row checkpoint_id as_of row =
     (let target = rr_target row in
      case bt_observed_value target of
        Some (QuantityValue observed s) \<Rightarrow>
          (case bt_expected_value target of
             QuantityValue expected s' \<Rightarrow>
               if bt_observation_status target \<noteq> OBSERVED then
                 Inl (ValueError ''ready checkpoint proposals require observed balance targets'')
               else if bt_comparison_outcome target \<noteq> Some MATCHED then
                 Inl (ValueError ''ready checkpoint proposals require matched balance targets'')
               else
                 r_bind (stable_checkpoint_assertion_id POSITION_QUANTITY as_of
                     (bt_subject_ref target) (QuantityValue observed s)) (\<lambda>assertion_id.
                   mk_checkpoint_assertion_record
                     \<lparr>ca_assertion_id = assertion_id, ca_checkpoint_id = checkpoint_id,
                      ca_subject_ref = bt_subject_ref target, ca_kind = POSITION_QUANTITY,
                      ca_as_of = as_of, ca_accepted_value = QuantityValue observed s,
                      ca_trust_level = FILING_READY, ca_basis = DOCUMENT_SUPPORT,
                      ca_support_shape = DOCUMENT_OBSERVATION,
                      ca_continuity_kind = continuity_kind_of (rr_segment row) expected as_of\<rparr>)
           | _ \<Rightarrow> Inl (ValueError ''ready checkpoint proposals require expected QuantityValue''))
      | _ \<Rightarrow> Inl (ValueError ''ready checkpoint proposals require observed QuantityValue''))"

definition checkpoint_of_rows :: "datetime \<times> ready_checkpoint_row list \<Rightarrow> checkpoint result" where
  "checkpoint_of_rows = (\<lambda>(as_of, rows).
     let state_refs = sorted_distinct (map (\<lambda>r. rs_reconciliation_state_id (rr_state r)) rows) in
     r_bind (stable_checkpoint_id state_refs as_of) (\<lambda>checkpoint_id.
     r_bind (r_map (assertion_of_row checkpoint_id as_of) rows) (\<lambda>assertions.
     let ordered = canonical_checkpoint_assertion_records assertions in
     r_bind (mk_checkpoint_record
       \<lparr>cr_checkpoint_id = checkpoint_id, cr_as_of = as_of,
        cr_assertion_ids = map ca_assertion_id ordered,
        cr_proposal_refs = sort (map (\<lambda>r. cp_proposal_id (rr_proposal r)) rows)\<rparr>) (\<lambda>record.
     mk_checkpoint
       \<lparr>ck_checkpoint_id = checkpoint_id, ck_reconciliation_state_refs = state_refs,
        ck_as_of = as_of, ck_checkpoint_records = [record],
        ck_checkpoint_assertion_records = ordered\<rparr>))))"

definition build_checkpoints :: "reconciliation_state list \<Rightarrow> checkpoint list result" where
  "build_checkpoints states =
     r_bind (r_map ready_rows_of_state states) (\<lambda>rows.
       r_map checkpoint_of_rows
         (sort_key fst (group_by (\<lambda>r. cp_as_of (rr_proposal r)) (concat rows))))"

section \<open>Lemmas\<close>

definition ready_proposals :: "reconciliation_state list \<Rightarrow> checkpoint_proposal_record list" where
  "ready_proposals states =
     filter (\<lambda>p. cp_status p = PS_READY) (concat (map rs_checkpoint_proposal_records states))"

lemma ready_rows_proposals:
  "ready_rows_of_state st = Inr rows \<Longrightarrow>
     map rr_proposal rows = filter (\<lambda>p. cp_status p = PS_READY) (rs_checkpoint_proposal_records st)"
proof -
  have row: "ready_row st d seg p = Inr r \<Longrightarrow> rr_proposal r = p" for d seg p r
    by (auto simp: ready_row_def split: list.splits option.splits)
  have "list_all2 (\<lambda>p r. ready_row st d seg p = Inr r) ps rs \<Longrightarrow> map rr_proposal rs = ps" for d seg ps rs
    by (induction rule: list_all2_induct) (auto dest: row)
  then show "ready_rows_of_state st = Inr rows \<Longrightarrow> ?thesis"
    by (auto simp: ready_rows_of_state_def r_map_Inr_iff Let_def split: list.splits)
qed

lemma all_rows_proposals:
  "r_map ready_rows_of_state states = Inr rows \<Longrightarrow> map rr_proposal (concat rows) = ready_proposals states"
  by (induction states arbitrary: rows)
    (auto simp: result_simps ready_proposals_def dest: ready_rows_proposals)

lemma assertion_of_row_Inr:
  assumes "assertion_of_row cid as_of row = Inr a"
  shows "ca_as_of a = as_of" and "ca_checkpoint_id a = cid"
    and "ca_subject_ref a = bt_subject_ref (rr_target row)"
    and "bt_observed_value (rr_target row) = Some (ca_accepted_value a)"
    and "bt_comparison_outcome (rr_target row) = Some MATCHED"
  using assms
  by (auto simp: assertion_of_row_def mk_checkpoint_assertion_record_def result_simps Let_def
      split: option.splits assertion_value.splits if_splits)

lemma checkpoint_of_rows_Inr:
  assumes "checkpoint_of_rows (as_of, rows) = Inr c"
  shows "ck_as_of c = as_of"
    and "\<exists>r. ck_checkpoint_records c = [r] \<and> cr_as_of r = as_of \<and>
      cr_proposal_refs r = sort (map (\<lambda>r. cp_proposal_id (rr_proposal r)) rows) \<and>
      cr_assertion_ids r = map ca_assertion_id (ck_checkpoint_assertion_records c)"
    and "length (ck_checkpoint_assertion_records c) = length rows"
    and "a \<in> set (ck_checkpoint_assertion_records c) \<Longrightarrow>
      \<exists>row \<in> set rows. assertion_of_row (ck_checkpoint_id c) as_of row = Inr a"
proof -
  obtain cid as where run: "r_map (assertion_of_row cid as_of) rows = Inr as"
      "ck_checkpoint_assertion_records c = canonical_checkpoint_assertion_records as"
      "ck_as_of c = as_of" "ck_checkpoint_id c = cid"
      "ck_checkpoint_records c = [\<lparr>cr_checkpoint_id = cid, cr_as_of = as_of,
        cr_assertion_ids = map ca_assertion_id (ck_checkpoint_assertion_records c),
        cr_proposal_refs = sort (map (\<lambda>r. cp_proposal_id (rr_proposal r)) rows)\<rparr>]"
    using assms
    by (auto simp: checkpoint_of_rows_def mk_checkpoint_record_def mk_checkpoint_def result_simps Let_def)
  then show "ck_as_of c = as_of"
    and "\<exists>r. ck_checkpoint_records c = [r] \<and> cr_as_of r = as_of \<and>
      cr_proposal_refs r = sort (map (\<lambda>r. cp_proposal_id (rr_proposal r)) rows) \<and>
      cr_assertion_ids r = map ca_assertion_id (ck_checkpoint_assertion_records c)"
    by simp_all
  show "length (ck_checkpoint_assertion_records c) = length rows"
    using run(1) by (simp add: run(2) assertion_order.canonical_length r_map_length)
  show "\<exists>row \<in> set rows. assertion_of_row (ck_checkpoint_id c) as_of row = Inr a"
    if "a \<in> set (ck_checkpoint_assertion_records c)"
    using r_map_set [OF run(1)] that run(2,4) assertion_order.canonical_set by simp
qed

lemma build_checkpoints_parts:
  assumes "build_checkpoints states = Inr cps"
  obtains rows where "r_map ready_rows_of_state states = Inr rows"
    and "sorted_wrt (<) (map ck_as_of cps)"
    and "set (map ck_as_of cps) = cp_as_of ` set (ready_proposals states)"
    and "\<forall>c \<in> set cps. checkpoint_of_rows (ck_as_of c,
      filter (\<lambda>r. cp_as_of (rr_proposal r) = ck_as_of c) (concat rows)) = Inr c"
proof -
  obtain rows where run: "r_map ready_rows_of_state states = Inr rows"
      "r_map checkpoint_of_rows
         (sort_key fst (group_by (\<lambda>r. cp_as_of (rr_proposal r)) (concat rows))) = Inr cps"
    using assms by (auto simp: build_checkpoints_def result_simps)
  let ?groups = "sort_key fst (group_by (\<lambda>r. cp_as_of (rr_proposal r)) (concat rows))"
  have pw: "list_all2 (\<lambda>g c. checkpoint_of_rows g = Inr c) ?groups cps"
    using run(2) by (simp add: r_map_Inr_iff)
  have times: "map ck_as_of cps = map fst ?groups"
    using pw
  proof (induction rule: list_all2_induct)
    case (Cons g gs c cs)
    then show ?case using checkpoint_of_rows_Inr(1) [of "fst g" "snd g" c] by simp
  qed simp
  have "set (map ck_as_of cps) = (\<lambda>r. cp_as_of (rr_proposal r)) ` set (concat rows)"
    unfolding times by (simp add: keys_group_by_image)
  also have "\<dots> = cp_as_of ` set (ready_proposals states)"
    unfolding all_rows_proposals [OF run(1), symmetric] set_map image_image ..
  finally have "set (map ck_as_of cps) = cp_as_of ` set (ready_proposals states)" .
  moreover have "sorted_wrt (<) (map ck_as_of cps)" unfolding times by (rule sorted_group_by)
  moreover have "\<forall>c \<in> set cps. checkpoint_of_rows (ck_as_of c,
      filter (\<lambda>r. cp_as_of (rr_proposal r) = ck_as_of c) (concat rows)) = Inr c"
  proof
    fix c assume "c \<in> set cps"
    from list_all2_right [OF pw this] obtain t rs where g: "(t, rs) \<in> set ?groups"
      "checkpoint_of_rows (t, rs) = Inr c" by auto
    from g(1) have "rs = filter (\<lambda>r. cp_as_of (rr_proposal r) = t) (concat rows)"
      using mem_group_byD(1) [of t rs "\<lambda>r. cp_as_of (rr_proposal r)" "concat rows"] by simp
    then show "checkpoint_of_rows (ck_as_of c,
        filter (\<lambda>r. cp_as_of (rr_proposal r) = ck_as_of c) (concat rows)) = Inr c"
      using g(2) checkpoint_of_rows_Inr(1) [OF g(2)] by simp
  qed
  ultimately show ?thesis using that run(1) by blast
qed

text \<open>A proposal whose target answers to its id, as the reconciliation builder makes them.\<close>

definition row_matched :: "ready_checkpoint_row \<Rightarrow> bool" where
  "row_matched r \<longleftrightarrow>
     (\<exists>q e s s'. bt_observed_value (rr_target r) = Some (QuantityValue q s) \<and>
       bt_expected_value (rr_target r) = QuantityValue e s') \<and>
     bt_observation_status (rr_target r) = OBSERVED \<and>
     bt_comparison_outcome (rr_target r) = Some MATCHED \<and>
     utcoffset (cp_as_of (rr_proposal r)) = Some 0"

lemma assertion_of_row_ok:
  assumes "row_matched r" and "utcoffset t = Some 0"
  shows "\<exists>a. assertion_of_row cid t r = Inr a"
  using assms
  by (auto simp: row_matched_def assertion_of_row_def stable_checkpoint_assertion_id_def
      format_timestamp_utc mk_checkpoint_assertion_record_def Let_def)

lemma checkpoint_of_rows_ok:
  assumes "\<forall>r \<in> set rows. row_matched r" and "utcoffset t = Some 0"
  shows "\<exists>c. checkpoint_of_rows (t, rows) = Inr c"
proof -
  obtain cid where cid: "stable_checkpoint_id
      (sorted_distinct (map (\<lambda>r. rs_reconciliation_state_id (rr_state r)) rows)) t = Inr cid"
    using assms(2) by (simp add: stable_checkpoint_id_def format_timestamp_utc)
  have "\<exists>as. r_map (assertion_of_row cid t) rows = Inr as"
    using assms assertion_of_row_ok by (intro r_map_exists_ok) blast
  then show ?thesis
    using cid assms(2)
    by (auto simp: checkpoint_of_rows_def mk_checkpoint_record_def mk_checkpoint_def Let_def)
qed

lemma distinct_target_ids:
  assumes "\<forall>x \<in> set ctps. reconciled s legs e refs x"
    and "\<forall>x \<in> set ctps. \<exists>t. clm_observed_at (fst x) = Some t \<and> valid_datetime t"
    and "distinct (map (\<lambda>x. map_option whole_second (clm_observed_at (fst x))) ctps)"
  shows "distinct (map (\<lambda>x. bt_target_id (fst (snd x))) ctps)"
proof -
  have "map_option whole_second (clm_observed_at (fst x)) = map_option whole_second (clm_observed_at (fst y))"
    if x: "x \<in> set ctps" and y: "y \<in> set ctps"
      and eq: "bt_target_id (fst (snd x)) = bt_target_id (fst (snd y))" for x y
  proof -
    have id: "\<exists>g v. stable_balance_target_id g s EXACT_BALANCE t v = Inr (bt_target_id (fst (snd z)))"
      if "z \<in> set ctps" "clm_observed_at (fst z) = Some t" for z t
      using assms(1) that by (fastforce simp: reconciled_def claim_as_of_def Let_def split: prod.splits)
    from assms(2) x y obtain t u where tu: "clm_observed_at (fst x) = Some t" "valid_datetime t"
      "clm_observed_at (fst y) = Some u" "valid_datetime u" by blast
    from id [OF x tu(1)] id [OF y tu(3)] eq obtain g v g' v' where
      "stable_balance_target_id g s EXACT_BALANCE t v = Inr (bt_target_id (fst (snd y)))"
      "stable_balance_target_id g' s EXACT_BALANCE u v' = Inr (bt_target_id (fst (snd y)))" by auto
    from target_id_second [OF this tu(2,4)] tu show ?thesis by simp
  qed
  then show ?thesis using assms(3) unfolding distinct_map inj_on_def by blast
qed

lemma ready_rows_ok:
  assumes spec: "state_targets_spec facts cs refs st ctps"
    and seg: "rs_continuity_segment_records st = [seg]"
    and ids: "distinct (map (\<lambda>x. bt_target_id (fst (snd x))) ctps)"
  shows "\<exists>rows. ready_rows_of_state st = Inr rows \<and>
    (\<forall>r \<in> set rows. row_matched r \<and> rr_target r \<in> set (rs_balance_target_records st) \<and>
      bt_as_of (rr_target r) = cp_as_of (rr_proposal r))"
proof -
  let ?d = "index_by bt_target_id (rs_balance_target_records st)"
  have targets: "mset (rs_balance_target_records st) = mset (map (\<lambda>x. fst (snd x)) ctps)"
    and proposals: "mset (rs_checkpoint_proposal_records st) = mset (map (\<lambda>x. snd (snd x)) ctps)"
    using spec by (auto simp: state_targets_spec_def Let_def)
  obtain s legs where rec: "\<forall>x \<in> set ctps.
      reconciled s legs (seg_segment_end_at (state_segment st)) refs x"
    using spec unfolding state_targets_spec_def Let_def by blast
  have "mset (map bt_target_id (rs_balance_target_records st)) =
      mset (map (\<lambda>x. bt_target_id (fst (snd x))) ctps)"
    using targets by (simp add: multiset.map_comp comp_def)
  then have "distinct (map bt_target_id (rs_balance_target_records st))"
    using ids by (metis mset_eq_imp_distinct_iff)
  then have inj: "inj_on bt_target_id (set (rs_balance_target_records st))" by (simp add: distinct_map)
  have row: "\<exists>r. ready_row st ?d seg p = Inr r \<and> row_matched r \<and>
      rr_target r \<in> set (rs_balance_target_records st) \<and> bt_as_of (rr_target r) = cp_as_of (rr_proposal r)"
    if "p \<in> set (rs_checkpoint_proposal_records st)" "cp_status p = PS_READY" for p
  proof -
    have "p \<in> set (map (\<lambda>x. snd (snd x)) ctps)" using that(1) proposals by (metis set_mset_mset)
    then obtain c t where x: "(c, t, p) \<in> set ctps" by auto
    then have "t \<in> set (map (\<lambda>x. fst (snd x)) ctps)" by force
    then have t: "t \<in> set (rs_balance_target_records st)" using targets by (metis set_mset_mset)
    have "reconciled s legs (seg_segment_end_at (state_segment st)) refs (c, t, p)" using rec x by blast
    then have "cp_target_refs p = [bt_target_id t]" "bt_as_of t = cp_as_of p"
      "row_matched \<lparr>rr_state = st, rr_proposal = p, rr_segment = seg, rr_target = t\<rparr>"
      using that(2) by (auto simp: reconciled_def row_matched_def Let_def)
    then show ?thesis using index_by_unique [OF t inj] t by (simp add: ready_row_def)
  qed
  have "\<exists>rows. r_map (ready_row st ?d seg)
      (filter (\<lambda>p. cp_status p = PS_READY) (rs_checkpoint_proposal_records st)) = Inr rows"
    by (rule r_map_exists_ok) (use row in auto)
  then obtain rows where rows: "r_map (ready_row st ?d seg)
      (filter (\<lambda>p. cp_status p = PS_READY) (rs_checkpoint_proposal_records st)) = Inr rows" by blast
  have "row_matched r \<and> rr_target r \<in> set (rs_balance_target_records st) \<and>
      bt_as_of (rr_target r) = cp_as_of (rr_proposal r)" if "r \<in> set rows" for r
    using r_map_set [OF rows that] row by fastforce
  then show ?thesis using rows seg by (simp add: ready_rows_of_state_def)
qed

lemma states_rows_ok:
  assumes "build_reconciliation_states facts cs es = Inr states"
    and "\<forall>c \<in> set (accepted_balance_claims cs). \<exists>t. clm_observed_at c = Some t \<and> valid_datetime t"
    and "\<forall>s. distinct (map (\<lambda>c. map_option whole_second (clm_observed_at c)) (subject_claims cs s))"
    and "st \<in> set states"
  shows "\<exists>rows. ready_rows_of_state st = Inr rows \<and>
    (\<forall>r \<in> set rows. row_matched r \<and> rr_target r \<in> set (rs_balance_target_records st) \<and>
      bt_as_of (rr_target r) = cp_as_of (rr_proposal r))"
proof -
  let ?refs = "eo_observation_id ` set (eset_evidence_observation_records es)"
  obtain ctps where spec: "state_targets_spec facts cs ?refs st ctps"
    using built_state_targets [OF assms(1,4)] by blast
  let ?s = "seg_subject_ref (state_segment st)"
  obtain legs where rec: "\<forall>x \<in> set ctps. reconciled ?s legs (seg_segment_end_at (state_segment st)) ?refs x"
    and claims: "mset (map fst ctps) = mset (subject_claims cs ?s)"
    and seg: "rs_continuity_segment_records st = [state_segment st]"
    using spec unfolding state_targets_spec_def Let_def by blast
  have "mset (map (\<lambda>x. map_option whole_second (clm_observed_at (fst x))) ctps) =
      image_mset (\<lambda>c. map_option whole_second (clm_observed_at c)) (mset (map fst ctps))"
    by (simp add: multiset.map_comp comp_def)
  also have "\<dots> = mset (map (\<lambda>c. map_option whole_second (clm_observed_at c)) (subject_claims cs ?s))"
    unfolding claims by simp
  finally have "distinct (map (\<lambda>x. map_option whole_second (clm_observed_at (fst x))) ctps)"
    using assms(3) by (metis mset_eq_imp_distinct_iff)
  moreover have "\<forall>x \<in> set ctps. \<exists>t. clm_observed_at (fst x) = Some t \<and> valid_datetime t"
  proof
    fix x assume "x \<in> set ctps"
    then have "fst x \<in> set (map fst ctps)" by simp
    then have "fst x \<in> set (subject_claims cs ?s)" using claims by (metis set_mset_mset)
    then show "\<exists>t. clm_observed_at (fst x) = Some t \<and> valid_datetime t"
      using assms(2) by (simp add: subject_claims_def)
  qed
  ultimately have "distinct (map (\<lambda>x. bt_target_id (fst (snd x))) ctps)"
    using distinct_target_ids [OF rec] by blast
  then show ?thesis by (rule ready_rows_ok [OF spec seg])
qed

lemma matched_rows_ok:
  assumes rows: "r_map ready_rows_of_state states = Inr rows"
    and row: "\<forall>r \<in> set (concat rows). row_matched r"
  shows "\<exists>cps. build_checkpoints states = Inr cps"
proof -
  have group: "\<exists>c. checkpoint_of_rows g = Inr c"
    if g: "g \<in> set (sort_key fst (group_by (\<lambda>r. cp_as_of (rr_proposal r)) (concat rows)))" for g
  proof -
    obtain t rs where trs: "g = (t, rs)" by (cases g)
    with g have "(t, rs) \<in> set (group_by (\<lambda>r. cp_as_of (rr_proposal r)) (concat rows))" by simp
    from mem_group_byD [OF this] have rs: "rs = filter (\<lambda>r. cp_as_of (rr_proposal r) = t) (concat rows)"
      "rs \<noteq> []" by simp_all
    then obtain r where "r \<in> set (concat rows)" "cp_as_of (rr_proposal r) = t"
      by (auto simp: filter_empty_conv)
    with row have "utcoffset t = Some 0" by (auto simp: row_matched_def)
    moreover have "\<forall>r \<in> set rs. row_matched r" using row rs(1) by auto
    ultimately show ?thesis unfolding trs by (intro checkpoint_of_rows_ok)
  qed
  show ?thesis
    unfolding build_checkpoints_def rows r_bind.simps by (rule r_map_exists_ok) (rule group)
qed

section \<open>Properties\<close>

text \<open>
  C22: Checkpoints are in strictly increasing order of their instants, which are the instants of
  the ready proposals of all states, and the one record of a checkpoint lists exactly the ready
  proposals of its instant, with one assertion for each.
\<close>

theorem checkpoints_cover_ready:
  assumes "build_checkpoints states = Inr cps"
  shows "sorted_wrt (<) (map ck_as_of cps) \<and>
    set (map ck_as_of cps) = cp_as_of ` set (ready_proposals states) \<and>
    (\<forall>c \<in> set cps. let ready = filter (\<lambda>p. cp_as_of p = ck_as_of c) (ready_proposals states) in
      (\<exists>r. ck_checkpoint_records c = [r] \<and> mset (cr_proposal_refs r) = mset (map cp_proposal_id ready)) \<and>
      length (ck_checkpoint_assertion_records c) = length ready)"
proof -
  obtain rows where p: "r_map ready_rows_of_state states = Inr rows"
      "sorted_wrt (<) (map ck_as_of cps)"
      "set (map ck_as_of cps) = cp_as_of ` set (ready_proposals states)"
      "\<forall>c \<in> set cps. checkpoint_of_rows (ck_as_of c,
        filter (\<lambda>r. cp_as_of (rr_proposal r) = ck_as_of c) (concat rows)) = Inr c"
    using build_checkpoints_parts [OF assms] .
  have ready: "map rr_proposal (filter (\<lambda>r. cp_as_of (rr_proposal r) = t) (concat rows)) =
      filter (\<lambda>p. cp_as_of p = t) (ready_proposals states)" for t
    unfolding all_rows_proposals [OF p(1), symmetric] by (simp add: filter_map comp_def)
  have len: "length (filter (\<lambda>r. cp_as_of (rr_proposal r) = t) (concat rows)) =
      length (filter (\<lambda>p. cp_as_of p = t) (ready_proposals states))" for t
    unfolding ready [symmetric] by simp
  have ids: "map (\<lambda>r. cp_proposal_id (rr_proposal r))
        (filter (\<lambda>r. cp_as_of (rr_proposal r) = t) (concat rows)) =
      map cp_proposal_id (filter (\<lambda>p. cp_as_of p = t) (ready_proposals states))" for t
    unfolding ready [symmetric] by simp
  have "(\<exists>r. ck_checkpoint_records c = [r] \<and> mset (cr_proposal_refs r) =
        mset (map cp_proposal_id (filter (\<lambda>p. cp_as_of p = ck_as_of c) (ready_proposals states)))) \<and>
      length (ck_checkpoint_assertion_records c) =
        length (filter (\<lambda>p. cp_as_of p = ck_as_of c) (ready_proposals states))"
    if "c \<in> set cps" for c
    using checkpoint_of_rows_Inr(2,3) [OF p(4) [rule_format, OF that]] unfolding ids len
    by (metis mset_sort)
  then show ?thesis using p(2,3) by (simp add: Let_def)
qed

text \<open>
  C4: When no two accepted balance claims of a subject are observed in the same second, the
  checkpoints of a reconciled claim set are always built, and every assertion accepts the observed
  value of a target of its subject and instant whose comparison with the expected value matched.
\<close>

theorem checkpoints_succeed:
  assumes "build_reconciliation_states facts cs es = Inr states"
    and "\<forall>c \<in> set (accepted_balance_claims cs). \<exists>t. clm_observed_at c = Some t \<and> valid_datetime t"
    and "\<forall>s. distinct (map (\<lambda>c. map_option whole_second (clm_observed_at c)) (subject_claims cs s))"
  shows "\<exists>cps. build_checkpoints states = Inr cps \<and>
    (\<forall>c \<in> set cps. \<forall>a \<in> set (ck_checkpoint_assertion_records c). \<exists>st \<in> set states.
      \<exists>t \<in> set (rs_balance_target_records st). ca_subject_ref a = bt_subject_ref t \<and>
        ca_as_of a = bt_as_of t \<and> bt_observed_value t = Some (ca_accepted_value a) \<and>
        bt_comparison_outcome t = Some MATCHED)"
proof -
  note ok = states_rows_ok [OF assms]
  have "\<exists>rows. r_map ready_rows_of_state states = Inr rows"
    by (rule r_map_exists_ok) (use ok in blast)
  then obtain rows where rows: "r_map ready_rows_of_state states = Inr rows" by blast
  have row: "row_matched r \<and> bt_as_of (rr_target r) = cp_as_of (rr_proposal r) \<and>
      (\<exists>st \<in> set states. rr_target r \<in> set (rs_balance_target_records st))"
    if r: "r \<in> set (concat rows)" for r
  proof -
    from r obtain rs where "rs \<in> set rows" "r \<in> set rs" by auto
    moreover from r_map_set [OF rows this(1)] obtain st where
      "st \<in> set states" "ready_rows_of_state st = Inr rs" by blast
    ultimately show ?thesis using ok [of st] by auto
  qed
  have "\<forall>r \<in> set (concat rows). row_matched r" using row by blast
  from matched_rows_ok [OF rows this] obtain cps where cps: "build_checkpoints states = Inr cps" by blast
  obtain rows' where "r_map ready_rows_of_state states = Inr rows'"
    and built: "\<forall>c \<in> set cps. checkpoint_of_rows (ck_as_of c,
      filter (\<lambda>r. cp_as_of (rr_proposal r) = ck_as_of c) (concat rows')) = Inr c"
    by (rule build_checkpoints_parts [OF cps], rule that)
  with rows have built: "\<forall>c \<in> set cps. checkpoint_of_rows (ck_as_of c,
      filter (\<lambda>r. cp_as_of (rr_proposal r) = ck_as_of c) (concat rows)) = Inr c" by simp
  have "\<exists>st \<in> set states. \<exists>t \<in> set (rs_balance_target_records st). ca_subject_ref a = bt_subject_ref t \<and>
      ca_as_of a = bt_as_of t \<and> bt_observed_value t = Some (ca_accepted_value a) \<and>
      bt_comparison_outcome t = Some MATCHED"
    if c: "c \<in> set cps" and a: "a \<in> set (ck_checkpoint_assertion_records c)" for c a
  proof -
    from checkpoint_of_rows_Inr(4) [OF built [rule_format, OF c] a] obtain r where
      r: "r \<in> set (concat rows)" "cp_as_of (rr_proposal r) = ck_as_of c"
        "assertion_of_row (ck_checkpoint_id c) (ck_as_of c) r = Inr a" by auto
    from row [OF r(1)] obtain st where "st \<in> set states"
      "rr_target r \<in> set (rs_balance_target_records st)" "bt_as_of (rr_target r) = cp_as_of (rr_proposal r)"
      by blast
    then show ?thesis
      using assertion_of_row_Inr [OF r(3)] r(2)
      by (intro bexI [of _ st] bexI [of _ "rr_target r"]) simp_all
  qed
  with cps show ?thesis by blast
qed

section \<open>Two claims at one instant\<close>

lemma claim_target_and_proposal:
  assumes "utcoffset t = Some 0" and "clm_observed_at c = Some t" and "clm_quantity c = Some q"
  shows "\<exists>T P. target_and_proposal s g legs e refs c = Inr (T, P) \<and>
    stable_balance_target_id g s EXACT_BALANCE t (QuantityValue (expected_quantity legs t) s) =
      Inr (bt_target_id T) \<and>
    stable_checkpoint_proposal_id g s t [bt_target_id T] = Inr (cp_proposal_id P) \<and>
    bt_segment_id T = g \<and> bt_as_of T = t \<and> cp_segment_id P = g \<and> cp_as_of P = t \<and>
    cp_target_refs P = [bt_target_id T] \<and> bt_observed_value T = Some (QuantityValue q s) \<and>
    bt_expected_value T = QuantityValue (expected_quantity legs t) s \<and>
    bt_observation_status T = OBSERVED \<and>
    bt_comparison_outcome T = Some (if dval q = dval (expected_quantity legs t) then MATCHED else MISMATCHED) \<and>
    cp_status P = (if dval q = dval (expected_quantity legs t)
      then if filter (\<lambda>r. r \<in> refs) (clm_observation_refs c) \<noteq> [] then PS_READY else PS_PARTIAL
      else PS_BLOCKED)"
  using assms
  by (simp add: target_and_proposal_def target_for_claim_def claim_as_of_def Let_def d_eq_iff
      stable_balance_target_id_def stable_checkpoint_proposal_id_def format_timestamp_utc
      mk_balance_target_record_def mk_checkpoint_proposal_record_def proposal_status_of_def
      flip: set_empty)

text \<open>
  C24: The id of a target does not mention the observed value, so two balance claims of a subject at
  one instant have targets with one id, and the lookup by id keeps the last: when the first claim
  agrees with the expected quantity and the second does not, the ready proposal of the first
  resolves to the target of the second and the whole build raises a \<open>ValueError\<close>.
\<close>

theorem ready_proposal_shadowed:
  assumes "state_for_subject s fid legs [c1, c2] refs = Inr st"
    and c1: "clm_observed_at c1 = Some t" "clm_quantity c1 = Some q"
      "dval q = dval (expected_quantity legs t)"
      "filter (\<lambda>r. r \<in> refs) (clm_observation_refs c1) \<noteq> []"
    and c2: "clm_observed_at c2 = Some t" "clm_quantity c2 = Some q'"
      "dval q' \<noteq> dval (expected_quantity legs t)"
  shows "build_checkpoints [st] =
    Inl (ValueError ''ready checkpoint proposals require matched balance targets'')"
proof -
  obtain a b g pairs seg where run: "r_map (target_and_proposal s g legs b refs)
        (sort_key (claim_as_of b) [c1, c2]) = Inr pairs"
      "rs_continuity_segment_records st = [seg]"
      "rs_balance_target_records st = canonical_balance_target_records (map fst pairs)"
      "rs_checkpoint_proposal_records st = canonical_checkpoint_proposal_records (map snd pairs)"
    using assms(1)
    by (auto simp: state_for_subject_def mk_continuity_segment_record_def result_simps
        split: prod.splits)
  have order: "sort_key (claim_as_of b) [c1, c2] = [c1, c2]" using c1 c2 by (simp add: claim_as_of_def)
  have utc: "utcoffset t = Some 0"
    using run(1) c1(1) unfolding order
    by (auto simp: target_and_proposal_def target_for_claim_def claim_as_of_def result_simps Let_def
        stable_balance_target_id_def format_timestamp_utc split: if_splits)
  obtain T1 P1 where one: "target_and_proposal s g legs b refs c1 = Inr (T1, P1)"
      "stable_balance_target_id g s EXACT_BALANCE t (QuantityValue (expected_quantity legs t) s) =
        Inr (bt_target_id T1)"
      "stable_checkpoint_proposal_id g s t [bt_target_id T1] = Inr (cp_proposal_id P1)"
      "bt_segment_id T1 = g" "bt_as_of T1 = t" "cp_segment_id P1 = g" "cp_as_of P1 = t"
      "cp_target_refs P1 = [bt_target_id T1]" "cp_status P1 = PS_READY"
    using claim_target_and_proposal [OF utc c1(1,2), of s g legs b refs] c1(3,4) by auto
  obtain T2 P2 where two: "target_and_proposal s g legs b refs c2 = Inr (T2, P2)"
      "stable_balance_target_id g s EXACT_BALANCE t (QuantityValue (expected_quantity legs t) s) =
        Inr (bt_target_id T2)"
      "stable_checkpoint_proposal_id g s t [bt_target_id T2] = Inr (cp_proposal_id P2)"
      "bt_segment_id T2 = g" "bt_as_of T2 = t" "cp_segment_id P2 = g" "cp_as_of P2 = t"
      "bt_observed_value T2 = Some (QuantityValue q' s)"
      "bt_expected_value T2 = QuantityValue (expected_quantity legs t) s"
      "bt_observation_status T2 = OBSERVED" "bt_comparison_outcome T2 = Some MISMATCHED"
      "cp_status P2 = PS_BLOCKED"
    using claim_target_and_proposal [OF utc c2(1,2), of s g legs b refs] c2(3) by auto
  have same: "bt_target_id T2 = bt_target_id T1" "cp_proposal_id P2 = cp_proposal_id P1"
    using one(2,3) two(2,3) by auto
  have pairs: "pairs = [(T1, P1), (T2, P2)]" using run(1) one(1) two(1) unfolding order by simp
  have "rs_balance_target_records st = [T1, T2]" "rs_checkpoint_proposal_records st = [P1, P2]"
    using run(3,4) same one(4-7) two(4-7)
    by (simp_all add: pairs canonical_balance_target_records_def target_key_def
        canonical_checkpoint_proposal_records_def proposal_key_def)
  then have rows: "ready_rows_of_state st =
      Inr [\<lparr>rr_state = st, rr_proposal = P1, rr_segment = seg, rr_target = T2\<rparr>]"
    using run(2) same(1) one(8,9) two(12)
    by (simp add: ready_rows_of_state_def ready_row_def index_by_def)
  show ?thesis
    using two(8-11) one(7) utc
    by (simp add: build_checkpoints_def rows group_by_def dict_append_def checkpoint_of_rows_def
        stable_checkpoint_id_def format_timestamp_utc assertion_of_row_def)
qed

section \<open>Witnesses\<close>

definition sample_state :: reconciliation_state where
  "sample_state =
     \<lparr>rs_reconciliation_state_id = ''state'', rs_economic_facts_ref = ''facts'',
      rs_continuity_segment_records =
        [\<lparr>seg_segment_id = ''g'', seg_subject_ref = (''position'', []),
          seg_segment_start_at = sample_instant 1, seg_segment_end_at = sample_instant 7,
          seg_status = CSS_COMPLETE, seg_as_of = sample_instant 7\<rparr>],
      rs_event_link_records = [],
      rs_balance_target_records =
        [\<lparr>bt_target_id = ''t'', bt_segment_id = ''g'', bt_subject_ref = (''position'', []),
          bt_kind = EXACT_BALANCE, bt_as_of = sample_instant 7,
          bt_expected_value = QuantityValue (Decimal 5 0) (''position'', []),
          bt_observed_value = Some (QuantityValue (Decimal 5 0) (''position'', [])),
          bt_observation_status = OBSERVED, bt_comparison_outcome = Some MATCHED\<rparr>],
      rs_checkpoint_proposal_records =
        [\<lparr>cp_proposal_id = ''p'', cp_segment_id = ''g'', cp_subject_ref = (''position'', []),
          cp_as_of = sample_instant 7, cp_status = PS_READY, cp_superseding_proposal_ref = [],
          cp_target_refs = [''t''], cp_evidence_refs = [''obs'']\<rparr>]\<rparr>"

theorem checkpoints_cover_ready_witness:
  "\<exists>cps. build_checkpoints [sample_state] = Inr cps \<and> set (map ck_as_of cps) = {sample_instant 7}"
proof -
  define row where "row = \<lparr>rr_state = sample_state,
    rr_proposal = hd (rs_checkpoint_proposal_records sample_state),
    rr_segment = hd (rs_continuity_segment_records sample_state),
    rr_target = hd (rs_balance_target_records sample_state)\<rparr>"
  have rows: "r_map ready_rows_of_state [sample_state] = Inr [[row]]"
    by (simp add: ready_rows_of_state_def sample_state_def ready_row_def index_by_def row_def)
  have "row_matched row" by (simp add: row_matched_def row_def sample_state_def)
  then obtain cps where cps: "build_checkpoints [sample_state] = Inr cps"
    using matched_rows_ok [OF rows] by auto
  have "set (map ck_as_of cps) = {sample_instant 7}"
    using checkpoints_cover_ready [OF cps] by (simp add: ready_proposals_def sample_state_def)
  with cps show ?thesis by blast
qed

theorem checkpoints_succeed_witness:
  "\<exists>f states cps. build_economic_facts sample_claim_set = Inr f \<and>
     build_reconciliation_states f sample_claim_set sample_evidence_set = Inr states \<and>
     build_checkpoints states = Inr cps"
proof -
  obtain f states where fs: "build_economic_facts sample_claim_set = Inr f"
      "build_reconciliation_states f sample_claim_set sample_evidence_set = Inr states"
    using sample_reconciles by blast
  have "\<forall>c \<in> set (accepted_balance_claims sample_claim_set).
      \<exists>t. clm_observed_at c = Some t \<and> valid_datetime t"
    by (simp add: sample_accepted sample_balance_def sample_support_def blank_claim_def sample_time_def
        valid_datetime_def valid_date_def days_in_month_def)
  moreover have "\<forall>s. distinct (map (\<lambda>c. map_option whole_second (clm_observed_at c))
      (subject_claims sample_claim_set s))"
    by (simp add: subject_claims_def sample_accepted)
  ultimately show ?thesis using checkpoints_succeed [OF fs(2)] fs by blast
qed

definition sample_reading :: "int \<Rightarrow> claim_record" where
  "sample_reading q = (blank_claim ''b'' ''bal'' CK_BALANCE)
     \<lparr>clm_quantity := Some (Decimal q 0), clm_observed_at := Some (sample_instant 7),
      clm_observation_refs := [''obs'']\<rparr>"

theorem ready_proposal_shadowed_witness:
  "\<exists>st. state_for_subject (''position'', []) ''facts'' [] [sample_reading 0, sample_reading 5] {''obs''} =
      Inr st \<and>
    build_checkpoints [st] =
      Inl (ValueError ''ready checkpoint proposals require matched balance targets'')"
proof -
  have "\<exists>st. state_for_subject (''position'', []) ''facts'' [] [sample_reading 0, sample_reading 5] {''obs''} =
      Inr st"
    by (rule state_for_subject_ok)
      (simp_all add: bounded_times_def sample_reading_def List.map_filter_simps)
  then obtain st where st: "state_for_subject (''position'', []) ''facts'' []
      [sample_reading 0, sample_reading 5] {''obs''} = Inr st" by blast
  have "build_checkpoints [st] =
      Inl (ValueError ''ready checkpoint proposals require matched balance targets'')"
    by (rule ready_proposal_shadowed [OF st, where t = "sample_instant 7" and q = "Decimal 0 0" and
          q' = "Decimal 5 0"])
      (simp_all add: sample_reading_def blank_claim_def expected_quantity_def dval_def d_zero_def)
  with st show ?thesis by blast
qed

end
