(* ===== verification/Assessments.thy ===== *)
theory Assessments
  imports Claims Provenance Evidence
begin

text \<open>
  \<open>domain/assessment/models.py\<close> and \<open>application/claim/assessment.py\<close>: gaps and reviews of a stage with
  their explanations, payloads, ids and canonical orders, and how an unsupported row or a review of
  a translation is mapped to the scope of its claims.
\<close>

definition ASSESSMENT_SCHEMA_VERSION :: int where "ASSESSMENT_SCHEMA_VERSION = 1"

section \<open>Enumerations\<close>

datatype scope_kind =
    SK_SUBJECT | SK_SELECTION | SK_CLAIM_SCOPE | SK_CONTINUITY_SEGMENT | SK_BALANCE_TARGET
  | SK_CHECKPOINT_PROPOSAL | SK_KERNEL_SCOPE

fun scope_kind_text :: "scope_kind \<Rightarrow> string" where
  "scope_kind_text SK_SUBJECT = ''subject''"
| "scope_kind_text SK_SELECTION = ''selection''"
| "scope_kind_text SK_CLAIM_SCOPE = ''claim_scope''"
| "scope_kind_text SK_CONTINUITY_SEGMENT = ''continuity_segment''"
| "scope_kind_text SK_BALANCE_TARGET = ''balance_target''"
| "scope_kind_text SK_CHECKPOINT_PROPOSAL = ''checkpoint_proposal''"
| "scope_kind_text SK_KERNEL_SCOPE = ''kernel_scope''"

definition scope_kinds :: "scope_kind list" where
  "scope_kinds =
     [SK_SUBJECT, SK_SELECTION, SK_CLAIM_SCOPE, SK_CONTINUITY_SEGMENT, SK_BALANCE_TARGET,
      SK_CHECKPOINT_PROPOSAL, SK_KERNEL_SCOPE]"

datatype gap_kind =
    GK_MISSING_EVIDENCE | GK_UNRESOLVED_IDENTITY | GK_UNRESOLVED_LINKAGE | GK_CONTRADICTION
  | GK_POLICY_DECISION_REQUIRED | GK_MANUAL_DECISION_REQUIRED

fun gap_kind_text :: "gap_kind \<Rightarrow> string" where
  "gap_kind_text GK_MISSING_EVIDENCE = ''missing_evidence''"
| "gap_kind_text GK_UNRESOLVED_IDENTITY = ''unresolved_identity''"
| "gap_kind_text GK_UNRESOLVED_LINKAGE = ''unresolved_linkage''"
| "gap_kind_text GK_CONTRADICTION = ''contradiction''"
| "gap_kind_text GK_POLICY_DECISION_REQUIRED = ''policy_decision_required''"
| "gap_kind_text GK_MANUAL_DECISION_REQUIRED = ''manual_decision_required''"

datatype gap_status = GS_OPEN | GS_RESOLVED | GS_SUPERSEDED

fun gap_status_text :: "gap_status \<Rightarrow> string" where
  "gap_status_text GS_OPEN = ''open''"
| "gap_status_text GS_RESOLVED = ''resolved''"
| "gap_status_text GS_SUPERSEDED = ''superseded''"

datatype gap_materiality = GM_MATERIAL | GM_SUPPORTING | GM_INFORMATIONAL

fun gap_materiality_text :: "gap_materiality \<Rightarrow> string" where
  "gap_materiality_text GM_MATERIAL = ''material''"
| "gap_materiality_text GM_SUPPORTING = ''supporting''"
| "gap_materiality_text GM_INFORMATIONAL = ''informational''"

datatype gap_confidence = GC_HIGH | GC_MEDIUM | GC_LOW

fun gap_confidence_text :: "gap_confidence \<Rightarrow> string" where
  "gap_confidence_text GC_HIGH = ''high''"
| "gap_confidence_text GC_MEDIUM = ''medium''"
| "gap_confidence_text GC_LOW = ''low''"

datatype review_status = RS_OPEN | RS_ACKNOWLEDGED | RS_RESOLVED | RS_SUPERSEDED

fun review_status_text :: "review_status \<Rightarrow> string" where
  "review_status_text RS_OPEN = ''open''"
| "review_status_text RS_ACKNOWLEDGED = ''acknowledged''"
| "review_status_text RS_RESOLVED = ''resolved''"
| "review_status_text RS_SUPERSEDED = ''superseded''"

datatype review_confidence = RC_HIGH | RC_MEDIUM | RC_LOW

fun review_confidence_text :: "review_confidence \<Rightarrow> string" where
  "review_confidence_text RC_HIGH = ''high''"
| "review_confidence_text RC_MEDIUM = ''medium''"
| "review_confidence_text RC_LOW = ''low''"

definition stage_order :: "(string \<times> int) list" where
  "stage_order =
     [(''claim'', 0), (''economics'', 1), (''reconciliation'', 2), (''checkpoint'', 3), (''journal'', 4),
      (''tax'', 5)]"

definition stage_sort_key :: "string \<Rightarrow> int \<times> string" where
  "stage_sort_key stage = (dict_get stage_order stage (int (length stage_order)), stage)"

text \<open>A scope kind is given as the enumeration or as its text, and kept as the enumeration.\<close>

datatype scope_kind_argument = ScopeText string | ScopeEnum scope_kind

definition scope_kind_enum :: "scope_kind_argument \<Rightarrow> scope_kind result" where
  "scope_kind_enum v =
     (case v of
        ScopeEnum k \<Rightarrow> Inr k
      | ScopeText s \<Rightarrow>
          (case List.find (\<lambda>k. scope_kind_text k = s) scope_kinds of
             Some k \<Rightarrow> Inr k
           | None \<Rightarrow> Inl (ValueError (py_repr s @ '' is not a valid ScopeKind''))))"

section \<open>Records\<close>

record gap_record =
  gap_gap_id :: string
  gap_owner_stage :: string
  gap_blocking_stages :: "string list"
  gap_scope_kind :: scope_kind
  gap_scope_ref :: "string option"
  gap_subject_ref :: "string list option"
  gap_kind_of :: gap_kind
  gap_gap_key :: string
  gap_status_of :: gap_status
  gap_materiality_of :: gap_materiality
  gap_confidence_of :: gap_confidence

definition blank_ref :: "string option \<Rightarrow> bool" where
  "blank_ref r \<longleftrightarrow> r = None \<or> r = Some []"

text \<open>The checks of \<open>__post_init__\<close>; the message names what is checked.\<close>

definition scope_problem :: "string \<Rightarrow> scope_kind \<Rightarrow> string option \<Rightarrow> string list option \<Rightarrow> string option" where
  "scope_problem noun kind scope_ref subject_ref =
     (if kind = SK_SUBJECT then
        (if subject_ref = None then Some (''subject '' @ noun @ '' records require subject_ref'')
         else if \<not> blank_ref scope_ref then Some (''subject '' @ noun @ '' records require scope_ref=None'')
         else None)
      else if blank_ref scope_ref then
        Some (scope_kind_text kind @ '' '' @ noun @ '' records require scope_ref'')
      else if subject_ref \<noteq> None then
        Some (scope_kind_text kind @ '' '' @ noun @ '' records require subject_ref=None'')
      else None)"

definition mk_gap_record :: "scope_kind_argument \<Rightarrow> gap_record \<Rightarrow> gap_record result" where
  "mk_gap_record scope_kind g =
     r_bind (scope_kind_enum scope_kind) (\<lambda>k.
       case scope_problem ''gap'' k (gap_scope_ref g) (gap_subject_ref g) of
         Some message \<Rightarrow> Inl (ValueError message)
       | None \<Rightarrow> Inr (g\<lparr>gap_scope_kind := k\<rparr>))"

definition optional_text_json :: "string option \<Rightarrow> json" where
  "optional_text_json v = (case v of None \<Rightarrow> JNull | Some s \<Rightarrow> JString s)"

definition optional_strings_json :: "string list option \<Rightarrow> json" where
  "optional_strings_json v = (case v of None \<Rightarrow> JNull | Some ss \<Rightarrow> strings_json ss)"

definition gap_payload :: "gap_record \<Rightarrow> json" where
  "gap_payload g =
     JObject
       [(''gap_id'', JString (gap_gap_id g)), (''owner_stage'', JString (gap_owner_stage g)),
        (''blocking_stages'', strings_json (sort_key stage_sort_key (gap_blocking_stages g))),
        (''scope_kind'', JString (scope_kind_text (gap_scope_kind g))),
        (''scope_ref'', optional_text_json (gap_scope_ref g)),
        (''subject_ref'', optional_strings_json (gap_subject_ref g)),
        (''gap_kind'', JString (gap_kind_text (gap_kind_of g))), (''gap_key'', JString (gap_gap_key g)),
        (''status'', JString (gap_status_text (gap_status_of g))),
        (''materiality'', JString (gap_materiality_text (gap_materiality_of g))),
        (''confidence'', JString (gap_confidence_text (gap_confidence_of g)))]"

record gap_explanation =
  gx_gap_id :: string
  gx_known_facts :: "string list"
  gx_missing_inputs :: "string list"
  gx_possible_meanings :: "string list"
  gx_required_evidence :: "string list"
  gx_resolution_options :: "string list"
  gx_next_action :: string
  gx_provenance_refs :: "string list"

definition gap_explanation_payload :: "gap_explanation \<Rightarrow> json" where
  "gap_explanation_payload x =
     JObject
       [(''gap_id'', JString (gx_gap_id x)), (''known_facts'', strings_json (gx_known_facts x)),
        (''missing_inputs'', strings_json (gx_missing_inputs x)),
        (''possible_meanings'', strings_json (gx_possible_meanings x)),
        (''required_evidence'', strings_json (gx_required_evidence x)),
        (''resolution_options'', strings_json (gx_resolution_options x)),
        (''next_action'', JString (gx_next_action x)),
        (''provenance_refs'', strings_json (sort (gx_provenance_refs x)))]"

record review_record =
  rev_review_id :: string
  rev_owner_stage :: string
  rev_scope_kind :: scope_kind
  rev_scope_ref :: "string option"
  rev_subject_ref :: "string list option"
  rev_review_kind :: string
  rev_review_key :: string
  rev_status :: review_status
  rev_confidence :: review_confidence
  rev_gap_ids :: "string list"

definition mk_review_record :: "scope_kind_argument \<Rightarrow> review_record \<Rightarrow> review_record result" where
  "mk_review_record scope_kind r =
     r_bind (scope_kind_enum scope_kind) (\<lambda>k.
       case scope_problem ''review'' k (rev_scope_ref r) (rev_subject_ref r) of
         Some message \<Rightarrow> Inl (ValueError message)
       | None \<Rightarrow> Inr (r\<lparr>rev_scope_kind := k\<rparr>))"

definition review_payload :: "review_record \<Rightarrow> json" where
  "review_payload r =
     JObject
       [(''review_id'', JString (rev_review_id r)), (''owner_stage'', JString (rev_owner_stage r)),
        (''scope_kind'', JString (scope_kind_text (rev_scope_kind r))),
        (''scope_ref'', optional_text_json (rev_scope_ref r)),
        (''subject_ref'', optional_strings_json (rev_subject_ref r)),
        (''review_kind'', JString (rev_review_kind r)), (''review_key'', JString (rev_review_key r)),
        (''status'', JString (review_status_text (rev_status r))),
        (''confidence'', JString (review_confidence_text (rev_confidence r))),
        (''gap_ids'', strings_json (sort (rev_gap_ids r)))]"

record review_explanation =
  rx_review_id :: string
  rx_headline :: string
  rx_known_facts :: "string list"
  rx_follow_up :: "string list"
  rx_provenance_refs :: "string list"

definition review_explanation_payload :: "review_explanation \<Rightarrow> json" where
  "review_explanation_payload x =
     JObject
       [(''review_id'', JString (rx_review_id x)), (''headline'', JString (rx_headline x)),
        (''known_facts'', strings_json (rx_known_facts x)), (''follow_up'', strings_json (rx_follow_up x)),
        (''provenance_refs'', strings_json (sort (rx_provenance_refs x)))]"

section \<open>Ids and orders\<close>

definition stable_gap_id :: "string \<Rightarrow> string \<Rightarrow> string \<Rightarrow> gap_kind \<Rightarrow> string \<Rightarrow> string" where
  "stable_gap_id owner_stage scope_kind scope_ref kind gap_key =
     join '':'' [owner_stage, scope_kind, scope_ref, gap_kind_text kind, gap_key]"

definition stable_review_id :: "string \<Rightarrow> string \<Rightarrow> string \<Rightarrow> string \<Rightarrow> string \<Rightarrow> string" where
  "stable_review_id owner_stage scope_kind scope_ref review_kind review_key =
     join '':'' [owner_stage, scope_kind, scope_ref, review_kind, review_key]"

definition or_empty :: "'a list option \<Rightarrow> 'a list" where
  "or_empty v = (case v of None \<Rightarrow> [] | Some xs \<Rightarrow> xs)"

definition gap_key :: "gap_record \<Rightarrow> string \<times> string \<times> string list \<times> string \<times> string \<times> string" where
  "gap_key g =
     (gap_owner_stage g, scope_kind_text (gap_scope_kind g), or_empty (gap_subject_ref g),
      or_empty (gap_scope_ref g), gap_kind_text (gap_kind_of g), gap_gap_id g)"

definition canonical_gap_records :: "gap_record list \<Rightarrow> gap_record list" where
  "canonical_gap_records records = sort_key gap_key records"

definition review_key :: "review_record \<Rightarrow> string \<times> string \<times> string list \<times> string \<times> string \<times> string" where
  "review_key r =
     (rev_owner_stage r, scope_kind_text (rev_scope_kind r), or_empty (rev_subject_ref r),
      or_empty (rev_scope_ref r), rev_review_kind r, rev_review_id r)"

definition canonical_review_records :: "review_record list \<Rightarrow> review_record list" where
  "canonical_review_records records = sort_key review_key records"

interpretation gap_order: record_order gap_key canonical_gap_records
  by unfold_locales (simp_all add: canonical_gap_records_def sort_key_filter)

interpretation review_order: record_order review_key canonical_review_records
  by unfold_locales (simp_all add: canonical_review_records_def sort_key_filter)

definition gap_records_payload :: "gap_record list \<Rightarrow> json list" where
  "gap_records_payload records = map gap_payload (canonical_gap_records records)"

definition gap_explanations_payload :: "gap_explanation list \<Rightarrow> json list" where
  "gap_explanations_payload explanations = map gap_explanation_payload (sort_key gx_gap_id explanations)"

definition review_records_payload :: "review_record list \<Rightarrow> json list" where
  "review_records_payload records = map review_payload (canonical_review_records records)"

definition review_explanations_payload :: "review_explanation list \<Rightarrow> json list" where
  "review_explanations_payload explanations =
     map review_explanation_payload (sort_key rx_review_id explanations)"

text \<open>The sidecars do not depend on the order in which gaps and reviews were found.\<close>

lemma inj_by_ident:
  "distinct (map ident xs) \<Longrightarrow> (\<And>x y. key x = key y \<Longrightarrow> ident x = ident y) \<Longrightarrow> inj_on key (set xs)"
  by (meson distinct_map inj_onI inj_on_contraD)

lemma gap_records_payload_order:
  assumes "mset gs = mset gs'" and "distinct (map gap_gap_id gs)"
  shows "gap_records_payload gs = gap_records_payload gs'"
proof -
  have "inj_on gap_key (set gs)" by (rule inj_by_ident [OF assms(2)]) (simp add: gap_key_def)
  then show ?thesis using gap_order.canonical_perm [OF assms(1)] by (simp add: gap_records_payload_def)
qed

lemma review_records_payload_order:
  assumes "mset rs = mset rs'" and "distinct (map rev_review_id rs)"
  shows "review_records_payload rs = review_records_payload rs'"
proof -
  have "inj_on review_key (set rs)" by (rule inj_by_ident [OF assms(2)]) (simp add: review_key_def)
  then show ?thesis using review_order.canonical_perm [OF assms(1)] by (simp add: review_records_payload_def)
qed

section \<open>The claim stage\<close>

record claim_issue_assessment =
  cia_scope_id :: string
  cia_bundle_decision :: claim_bundle_decision_record
  cia_gap_record :: gap_record
  cia_gap_explanation :: gap_explanation
  cia_compatibility_issue :: issue_record

record claim_review_assessment =
  cra_scope_id :: string
  cra_review_record :: review_record
  cra_review_explanation :: review_explanation
  cra_compatibility_review :: normalization_review_record

definition map_claim_issue_to_scope ::
    "issue_record \<Rightarrow> string \<Rightarrow> string \<Rightarrow> claim_issue_assessment option result" where
  "map_claim_issue_to_scope issue claim_set_id retail_member_id =
     (if iss_kind issue \<noteq> ''unsupported_row'' \<or> iss_raw_row_ref issue = [] then Inr None
      else
        let scope_id = stable_claim_scope_id claim_set_id [retail_member_id, iss_raw_row_ref issue];
            key = iss_kind issue @ '':'' @ iss_raw_row_ref issue
        in r_bind (mk_gap_record (ScopeText ''claim_scope'')
          \<lparr>gap_gap_id = stable_gap_id ''claim'' ''claim_scope'' scope_id GK_MANUAL_DECISION_REQUIRED key,
           gap_owner_stage = ''claim'', gap_blocking_stages = [''claim'', ''economics''],
           gap_scope_kind = SK_CLAIM_SCOPE, gap_scope_ref = Some scope_id, gap_subject_ref = None,
           gap_kind_of = GK_MANUAL_DECISION_REQUIRED, gap_gap_key = key, gap_status_of = GS_OPEN,
           gap_materiality_of = GM_MATERIAL, gap_confidence_of = GC_HIGH\<rparr>) (\<lambda>gap.
        Inr (Some
          \<lparr>cia_scope_id = scope_id,
           cia_bundle_decision =
             \<lparr>cd_claim_set_id = claim_set_id, cd_scope_id = scope_id,
              cd_decision_id = stable_claim_bundle_decision_id scope_id, cd_outcome = DO_BLOCKED,
              cd_accepted_bundle_ref = [], cd_rejected_bundle_refs = [], cd_deferred_bundle_refs = [],
              cd_basis = DB_UPSTREAM_GAP, cd_blocking_gap_refs = [gap_gap_id gap]\<rparr>,
           cia_gap_record = gap,
           cia_gap_explanation =
             \<lparr>gx_gap_id = gap_gap_id gap, gx_known_facts = [iss_message issue], gx_missing_inputs = [],
              gx_possible_meanings = [], gx_required_evidence = [],
              gx_resolution_options = [''model the unsupported retail row''],
              gx_next_action = ''review the unsupported retail row before continuing claim emission'',
              gx_provenance_refs = [retail_member_id]\<rparr>,
           cia_compatibility_issue = issue\<rparr>)))"

definition map_claim_review_to_scope ::
    "normalization_review_record \<Rightarrow> string \<Rightarrow> string \<Rightarrow> claim_review_assessment option result" where
  "map_claim_review_to_scope review claim_set_id retail_member_id =
     (if nrr_raw_row_ref review = [] then Inr None
      else
        let scope_id = stable_claim_scope_id claim_set_id [retail_member_id, nrr_raw_row_ref review];
            key = (if nrr_field_name review \<noteq> [] then nrr_field_name review @ '':'' @ nrr_raw_row_ref review
              else nrr_raw_row_ref review)
        in r_bind (mk_review_record (ScopeText ''claim_scope'')
          \<lparr>rev_review_id = stable_review_id ''claim'' ''claim_scope'' scope_id (nrr_kind review) key,
           rev_owner_stage = ''claim'', rev_scope_kind = SK_CLAIM_SCOPE, rev_scope_ref = Some scope_id,
           rev_subject_ref = None, rev_review_kind = nrr_kind review, rev_review_key = key,
           rev_status = RS_OPEN, rev_confidence = RC_MEDIUM, rev_gap_ids = []\<rparr>) (\<lambda>rev.
        Inr (Some
          \<lparr>cra_scope_id = scope_id, cra_review_record = rev,
           cra_review_explanation =
             \<lparr>rx_review_id = rev_review_id rev, rx_headline = nrr_message review,
              rx_known_facts = filter (\<lambda>v. v \<noteq> []) [nrr_original_value review, nrr_normalized_value review],
              rx_follow_up = [''review the advisory normalization note during claim emission''],
              rx_provenance_refs = [retail_member_id]\<rparr>,
           cra_compatibility_review = review\<rparr>)))"

text \<open>The guards of the two mappings are their only way not to give an assessment.\<close>

lemma scope_id_nonempty: "stable_claim_scope_id c [a, b] \<noteq> []"
  by (simp add: stable_claim_scope_id_def)

lemma scope_kind_read [simp]: "scope_kind_enum (ScopeText (scope_kind_text k)) = Inr k"
  by (cases k) (simp_all add: scope_kind_enum_def scope_kinds_def)

lemma claim_scope_read [simp]: "scope_kind_enum (ScopeText ''claim_scope'') = Inr SK_CLAIM_SCOPE"
  using scope_kind_read [of SK_CLAIM_SCOPE] by simp

lemma issue_mapped:
  assumes "iss_kind issue = ''unsupported_row''" and "iss_raw_row_ref issue \<noteq> []"
  shows "\<exists>a. map_claim_issue_to_scope issue cs m = Inr (Some a) \<and>
    cd_outcome (cia_bundle_decision a) = DO_BLOCKED \<and>
    cd_scope_id (cia_bundle_decision a) = stable_claim_scope_id cs [m, iss_raw_row_ref issue] \<and>
    cd_accepted_bundle_ref (cia_bundle_decision a) = [] \<and>
    cd_decision_id (cia_bundle_decision a) = stable_claim_scope_id cs [m, iss_raw_row_ref issue] \<and>
    cd_blocking_gap_refs (cia_bundle_decision a) = [gap_gap_id (cia_gap_record a)] \<and>
    gx_gap_id (cia_gap_explanation a) = gap_gap_id (cia_gap_record a) \<and>
    gx_known_facts (cia_gap_explanation a) = [iss_message issue] \<and>
    gx_provenance_refs (cia_gap_explanation a) = [m] \<and>
    gap_gap_key (cia_gap_record a) = ''unsupported_row:'' @ iss_raw_row_ref issue \<and>
    cia_compatibility_issue a = issue"
  using assms by (simp add: map_claim_issue_to_scope_def mk_gap_record_def scope_problem_def blank_ref_def
      scope_id_nonempty Let_def stable_claim_bundle_decision_id_def)

lemma review_mapped:
  assumes "nrr_raw_row_ref review \<noteq> []"
  shows "\<exists>a. map_claim_review_to_scope review cs m = Inr (Some a) \<and>
    rx_review_id (cra_review_explanation a) = rev_review_id (cra_review_record a) \<and>
    cra_compatibility_review a = review"
  using assms by (simp add: map_claim_review_to_scope_def mk_review_record_def scope_problem_def blank_ref_def
      scope_id_nonempty Let_def)

end
