(* ===== verification/Translation_Inputs.thy ===== *)
theory Translation_Inputs
  imports Value_Objects Py_Json Sha256 Provenance
begin

text \<open>
  The data of translation input planning (\<open>ports/translation_inputs.py\<close>) and the fields it reads
  of a file inventory entry and of a source profile. Instants are compared as Python compares
  datetimes: two aware values by the instant they denote, two naive ones by their fields;
  ordering a naive value against an aware one is a \<open>TypeError\<close>.
\<close>

section \<open>Comparing instants\<close>

definition aware :: "datetime \<Rightarrow> bool" where
  "aware t \<longleftrightarrow> utcoffset t \<noteq> None"

definition instant :: "datetime \<Rightarrow> int" where
  "instant t =
     unix_microseconds t - (case utcoffset t of None \<Rightarrow> 0 | Some offset \<Rightarrow> offset * 1000000)"

definition mixed_error :: py_error where
  "mixed_error = TypeError ''cannot compare offset-naive and offset-aware datetimes''"

definition later :: "datetime \<Rightarrow> datetime \<Rightarrow> bool result" where
  "later a b = (if aware a \<noteq> aware b then Inl mixed_error else Inr (instant a > instant b))"

definition same_moment :: "datetime \<Rightarrow> datetime \<Rightarrow> bool" where
  "same_moment a b \<longleftrightarrow> aware a = aware b \<and> instant a = instant b"

section \<open>Candidates\<close>

datatype coverage_mode = BOUNDED | UNBOUNDED_START | UNBOUNDED_END | COVERAGE_UNKNOWN

datatype selection_mode = APPENDABLE_RANGE | REPLACEABLE_RANGE | EXCLUSIVE_SNAPSHOT

fun selection_mode_text :: "selection_mode \<Rightarrow> string" where
  "selection_mode_text APPENDABLE_RANGE = ''appendable_range''"
| "selection_mode_text REPLACEABLE_RANGE = ''replaceable_range''"
| "selection_mode_text EXCLUSIVE_SNAPSHOT = ''exclusive_snapshot''"

datatype freshness_kind = EXPORT_TIMESTAMP | CAPTURE_COMPLETED_AT | ADAPTER_RANK | FRESHNESS_UNKNOWN

fun freshness_kind_text :: "freshness_kind \<Rightarrow> string" where
  "freshness_kind_text EXPORT_TIMESTAMP = ''export_timestamp''"
| "freshness_kind_text CAPTURE_COMPLETED_AT = ''capture_completed_at''"
| "freshness_kind_text ADAPTER_RANK = ''adapter_rank''"
| "freshness_kind_text FRESHNESS_UNKNOWN = ''unknown''"

datatype plan_status =
    SELECTED
  | SUPERSEDED_IDENTICAL
  | SUPERSEDED_REPLACED
  | BLOCKED_PARTIAL_OVERLAP
  | BLOCKED_AMBIGUOUS_FRESHNESS
  | BLOCKED_UNKNOWN_COVERAGE
  | BLOCKED_INCOMPARABLE_CANDIDATES
  | BLOCKED_INVALID_CANDIDATE

fun plan_status_text :: "plan_status \<Rightarrow> string" where
  "plan_status_text SELECTED = ''selected''"
| "plan_status_text SUPERSEDED_IDENTICAL = ''superseded_identical''"
| "plan_status_text SUPERSEDED_REPLACED = ''superseded_replaced''"
| "plan_status_text BLOCKED_PARTIAL_OVERLAP = ''blocked_partial_overlap''"
| "plan_status_text BLOCKED_AMBIGUOUS_FRESHNESS = ''blocked_ambiguous_freshness''"
| "plan_status_text BLOCKED_UNKNOWN_COVERAGE = ''blocked_unknown_coverage''"
| "plan_status_text BLOCKED_INCOMPARABLE_CANDIDATES = ''blocked_incomparable_candidates''"
| "plan_status_text BLOCKED_INVALID_CANDIDATE = ''blocked_invalid_candidate''"

definition blocked_status :: "plan_status \<Rightarrow> bool" where
  "blocked_status s = starts_with (plan_status_text s) ''blocked''"

record coverage_window =
  cw_start_at :: "datetime option"
  cw_start_precision :: "temporal_precision option"
  cw_end_at :: "datetime option"
  cw_end_precision :: "temporal_precision option"
  cw_mode :: coverage_mode

record freshness =
  fr_kind :: freshness_kind
  fr_timestamp :: "datetime option"
  fr_rank :: "int option"

record candidate =
  cand_id :: string
  cand_selection_group :: string
  cand_family_id :: string
  cand_member_paths :: "string list"
  cand_selection_mode :: selection_mode
  cand_coverage :: coverage_window
  cand_freshness :: freshness
  cand_content_fingerprint :: string
  cand_comparison_key :: string
  cand_description :: string
  cand_comparable :: bool
  cand_notes :: "string list"

record plan_decision =
  dec_candidate_id :: string
  dec_status :: plan_status
  dec_reason :: string
  dec_replaces :: "string list"
  dec_conflicts_with :: "string list"

record translation_input_plan =
  plan_selected_candidate_ids :: "string list"
  plan_decisions :: "plan_decision list"
  plan_blocked :: bool

section \<open>The inventory of a profile\<close>

text \<open>The fields of \<open>FileInventoryEntry\<close> and \<open>SourceProfile\<close> that planning reads.\<close>

record inventory_entry =
  inv_relative_path :: string
  inv_sha256 :: string
  inv_min_timestamp :: string
  inv_max_timestamp :: string
  inv_timestamp_resolution :: string

record planning_profile =
  prof_source :: string
  prof_adapter_id :: string
  prof_file_inventory :: "inventory_entry list"

definition parse_inventory_timestamp :: "string \<Rightarrow> datetime option" where
  "parse_inventory_timestamp v =
     (let text = strip v in
      if text = [] then None
      else case r_bind (parse_timestamp text) (\<lambda>t. require_utc_datetime t ''inventory timestamp'') of
          Inl _ \<Rightarrow> None
        | Inr t \<Rightarrow> Some t)"

definition coverage_bounds_from_inventory_entry ::
    "inventory_entry \<Rightarrow> datetime option \<times> datetime option \<times> temporal_precision option" where
  "coverage_bounds_from_inventory_entry entry =
     (let precision =
        (if inv_timestamp_resolution entry = ''date_only'' then Some DATE
         else if inv_min_timestamp entry \<noteq> [] \<or> inv_max_timestamp entry \<noteq> [] then Some TIMESTAMP
         else None)
      in (parse_inventory_timestamp (inv_min_timestamp entry),
          parse_inventory_timestamp (inv_max_timestamp entry), precision))"

definition coverage_from_inventory_entry :: "inventory_entry \<Rightarrow> coverage_window" where
  "coverage_from_inventory_entry entry =
     (let (start_at, end_at, precision) = coverage_bounds_from_inventory_entry entry in
      if start_at = None \<and> end_at = None then
        \<lparr>cw_start_at = None, cw_start_precision = None, cw_end_at = None, cw_end_precision = None,
         cw_mode = COVERAGE_UNKNOWN\<rparr>
      else if start_at = None then
        \<lparr>cw_start_at = None, cw_start_precision = None, cw_end_at = end_at,
         cw_end_precision = precision, cw_mode = UNBOUNDED_START\<rparr>
      else if end_at = None then
        \<lparr>cw_start_at = start_at, cw_start_precision = precision, cw_end_at = None,
         cw_end_precision = None, cw_mode = UNBOUNDED_END\<rparr>
      else
        \<lparr>cw_start_at = start_at, cw_start_precision = precision, cw_end_at = end_at,
         cw_end_precision = precision, cw_mode = BOUNDED\<rparr>)"

definition content_fingerprint :: "string list \<Rightarrow> string \<Rightarrow> string \<Rightarrow> selection_mode \<Rightarrow> string" where
  "content_fingerprint member_sha256s family_id selection_group selection_mode =
     sha256_hex (dumps_sorted (JObject
       [(''family_id'', JString family_id),
        (''member_sha256s'', JArray (map JString (sort member_sha256s))),
        (''selection_group'', JString selection_group),
        (''selection_mode'', JString (selection_mode_text selection_mode))]))"

text \<open>\<open>NormalizationTranslationMetrics\<close>: what the planner did, in numbers.\<close>

record translation_metrics =
  tm_candidate_count :: nat
  tm_selected_count :: nat
  tm_superseded_count :: nat
  tm_blocked_count :: nat
  tm_planner_used :: bool

end
