(* ===== verification/Json_Files.thy ===== *)
theory Json_Files
  imports Py_Json
begin

text \<open>
  \<open>infrastructure/serialization/json_io.py\<close>: the text of a JSON file, \<open>json.dumps\<close> with two spaces of
  indentation and sorted keys and a final line feed, and that \<open>json.loads\<close> reads it back.
\<close>

section \<open>The text of a file\<close>

definition newline_indent :: "nat \<Rightarrow> string" where
  "newline_indent l = char_of (10::nat) # replicate (2 * l) (CHR '' '')"

primrec dumps_indent :: "json \<Rightarrow> nat \<Rightarrow> string" where
  "dumps_indent JNull l = ''null''"
| "dumps_indent (JBool b) l = (if b then ''true'' else ''false'')"
| "dumps_indent (JInt i) l = int_text i"
| "dumps_indent (JString s) l = json_string s"
| "dumps_indent (JArray js) l =
     (if js = [] then ''[]''
      else ''['' @ newline_indent (Suc l) @
        join ('','' @ newline_indent (Suc l)) (map (\<lambda>f. f (Suc l)) (map dumps_indent js)) @
        newline_indent l @ '']'')"
| "dumps_indent (JObject kvs) l =
     (if kvs = [] then ''{}''
      else ''{'' @ newline_indent (Suc l) @
        join ('','' @ newline_indent (Suc l))
          (map (\<lambda>(k, f). json_string k @ '': '' @ f (Suc l)) (map (map_prod id dumps_indent) kvs)) @
        newline_indent l @ ''}'')"

definition json_file_text :: "json \<Rightarrow> string" where
  "json_file_text payload = dumps_indent (sort_json payload) 0 @ [char_of (10::nat)]"

section \<open>Reading it back\<close>

lemma newline_space: "list_all json_space (newline_indent l)"
  by (simp add: newline_indent_def json_space_def list_all_iff Let_def)

lemma skip_ws_newline: "skip_ws (newline_indent l @ s) = skip_ws s"
  using newline_space [of l] by (simp add: skip_ws_def list_all_iff dropWhile_append2)

lemma read_value_newline: "read_value n (newline_indent l @ s) = read_value n s"
  by (cases n) (simp_all add: skip_ws_newline)

lemma newline_end: "json_end (newline_indent l @ s)"
  by (simp add: json_end_def newline_indent_def json_space_def Let_def)

definition indent_back :: "json \<Rightarrow> bool" where
  "indent_back j \<longleftrightarrow>
     (\<forall>l n r. length (dumps_indent j l) < n \<longrightarrow> json_end r \<longrightarrow> read_value n (dumps_indent j l @ r) = Inr (j, r))"

lemma indent_backD:
  "indent_back j \<Longrightarrow> length (dumps_indent j l) < n \<Longrightarrow> json_end r \<Longrightarrow>
     read_value n (dumps_indent j l @ r) = Inr (j, r)"
  by (simp add: indent_back_def)

lemma indent_start: "\<exists>c r. dumps_indent j l = c # r \<and> json_start c"
proof (cases j)
  case (JInt i)
  then show ?thesis using dumps_start [of j] by simp
qed (auto simp: json_start_def json_space_def json_string_def Let_def)

lemma read_items_indent:
  assumes "\<forall>j \<in> set js. indent_back j" and "js \<noteq> []"
    and "length (join (CHR '','' # newline_indent l) (map (\<lambda>j. dumps_indent j l) js)) + 1 < n"
  shows "read_items n (newline_indent l @ join (CHR '','' # newline_indent l) (map (\<lambda>j. dumps_indent j l) js) @
      newline_indent m @ CHR '']'' # r) = Inr (js, r)"
  using assms
proof (induction js arbitrary: n)
  case Nil
  then show ?case by simp
next
  case (Cons j js)
  obtain k where n: "n = Suc k" using Cons.prems(3) by (cases n) auto
  have rj: "indent_back j" using Cons.prems(1) by simp
  show ?case
  proof (cases "js = []")
    case True
    have "read_value k (dumps_indent j l @ newline_indent m @ CHR '']'' # r) =
        Inr (j, newline_indent m @ CHR '']'' # r)"
      by (rule indent_backD [OF rj]) (use Cons.prems(3) True n newline_end in simp_all)
    then show ?thesis by (simp add: n True read_value_newline skip_ws_newline delimiter_simps)
  next
    case False
    let ?rest = "newline_indent l @ join (CHR '','' # newline_indent l) (map (\<lambda>j. dumps_indent j l) js) @
      newline_indent m @ CHR '']'' # r"
    have tx: "join (CHR '','' # newline_indent l) (map (\<lambda>j. dumps_indent j l) (j # js)) =
        dumps_indent j l @ CHR '','' # newline_indent l @ join (CHR '','' # newline_indent l) (map (\<lambda>j. dumps_indent j l) js)"
      using False by (simp add: join_Cons)
    have "read_value k (dumps_indent j l @ CHR '','' # ?rest) = Inr (j, CHR '','' # ?rest)"
      by (rule indent_backD [OF rj]) (use Cons.prems(3) tx n in \<open>simp_all add: delimiter_simps\<close>)
    moreover have "read_items k ?rest = Inr (js, r)"
      by (rule Cons.IH) (use Cons.prems False tx n in simp_all)
    ultimately show ?thesis by (simp add: n join_Cons False read_value_newline delimiter_simps)
  qed
qed

definition indent_member :: "nat \<Rightarrow> string \<times> json \<Rightarrow> string" where
  "indent_member l kv = json_string (fst kv) @ '': '' @ dumps_indent (snd kv) l"

lemma read_indent_head:
  assumes "indent_back j" and "length (indent_member l (k, j)) < n" and "json_end r"
  shows "r_bind (expect quote_char (newline_indent l @ indent_member l (k, j) @ r)) (\<lambda>r. r_bind (read_string r)
    (\<lambda>(k, r). r_bind (expect (CHR '':'') r) (\<lambda>r. r_bind (read_value n r) (\<lambda>(j, r). f k j r)))) =
    f k j r"
proof -
  have e: "expect quote_char (newline_indent l @ indent_member l (k, j) @ r) =
      Inr (tl (json_string k) @ CHR '':'' # CHR '' '' # dumps_indent j l @ r)"
    using read_string_json_string(1) [of k]
    by (simp add: expect_def indent_member_def json_string_def skip_ws_newline delimiter_simps)
  have "read_value n (dumps_indent j l @ r) = Inr (j, r)"
    by (rule indent_backD) (use assms in \<open>simp_all add: indent_member_def\<close>)
  moreover have "read_value n (CHR '' '' # s) = read_value n s" for s
    by (cases n) (simp_all add: skip_ws_def json_space_def Let_def)
  moreover have "expect (CHR '':'') (CHR '':'' # s) = Inr s" for s
    by (simp add: expect_def delimiter_simps)
  ultimately show ?thesis
    by (simp add: e read_string_json_string(2))
qed

lemma read_members_indent:
  assumes "\<forall>kv \<in> set kvs. indent_back (snd kv)" and "kvs \<noteq> []"
    and "length (join (CHR '','' # newline_indent l) (map (indent_member l) kvs)) + 1 < n"
  shows "read_members n (newline_indent l @ join (CHR '','' # newline_indent l) (map (indent_member l) kvs) @
      newline_indent m @ CHR ''}'' # r) = Inr (kvs, r)"
  using assms
proof (induction kvs arbitrary: n)
  case Nil
  then show ?case by simp
next
  case (Cons kv kvs)
  obtain i where n: "n = Suc i" using Cons.prems(3) by (cases n) auto
  obtain k j where kv: "kv = (k, j)" by (cases kv)
  have rj: "indent_back j" using Cons.prems(1) kv by simp
  show ?case
  proof (cases "kvs = []")
    case True
    have "length (indent_member l (k, j)) < i" using Cons.prems(3) True n kv by simp
    note head = read_indent_head [OF rj this newline_end]
    show ?thesis by (simp add: n True kv skip_ws_newline delimiter_simps head)
  next
    case False
    let ?rest = "newline_indent l @ join (CHR '','' # newline_indent l) (map (indent_member l) kvs) @
      newline_indent m @ CHR ''}'' # r"
    have tx: "join (CHR '','' # newline_indent l) (map (indent_member l) (kv # kvs)) =
        indent_member l (k, j) @ CHR '','' # newline_indent l @ join (CHR '','' # newline_indent l) (map (indent_member l) kvs)"
      using False by (simp add: join_Cons kv)
    have "length (indent_member l (k, j)) < i" using Cons.prems(3) n tx by simp
    note head = read_indent_head [OF rj this, of "CHR '','' # ?rest"]
    have "read_members i ?rest = Inr (kvs, r)"
      by (rule Cons.IH) (use Cons.prems False tx n in simp_all)
    then show ?thesis using False by (simp add: n kv join_Cons delimiter_simps head)
  qed
qed

lemma skip_ws_start: "json_start c \<Longrightarrow> skip_ws (newline_indent l @ c # s) = c # s"
  by (simp add: skip_ws_newline read_value_start)

lemma indent_back_scalar: "(\<And>l. dumps_indent j l = dumps j) \<Longrightarrow> indent_back j"
  unfolding indent_back_def using reads_backD [OF reads_back_all] by simp

lemma indent_back_all: "indent_back j"
proof (induction j)
  case (JArray js)
  show ?case unfolding indent_back_def
  proof (intro allI impI)
    fix l n r assume n: "length (dumps_indent (JArray js) l) < n"
    then obtain m where m: "n = Suc m" by (cases n) auto
    show "read_value n (dumps_indent (JArray js) l @ r) = Inr (JArray js, r)"
    proof (cases "js = []")
      case True
      then show ?thesis by (simp add: m skip_ws_def json_space_def Let_def)
    next
      case False
      let ?items = "join (CHR '','' # newline_indent (Suc l)) (map (\<lambda>j. dumps_indent j (Suc l)) js)"
      obtain c s where "dumps_indent (hd js) (Suc l) = c # s" "json_start c" using indent_start by blast
      then obtain t where t: "?items = c # t" "json_start c"
        using hd_join [of "map (\<lambda>j. dumps_indent j (Suc l)) js" c s "CHR '','' # newline_indent (Suc l)"] False
        by (auto simp: hd_map)
      have tx: "dumps_indent (JArray js) l =
          CHR ''['' # newline_indent (Suc l) @ ?items @ newline_indent l @ '']''"
        using False by (simp add: comp_def)
      have len: "length ?items + 1 < m" using n unfolding tx m by simp
      have "read_items m (newline_indent (Suc l) @ ?items @ newline_indent l @ CHR '']'' # r) = Inr (js, r)"
        by (rule read_items_indent) (use JArray False len in simp_all)
      moreover have "skip_ws (newline_indent (Suc l) @ ?items @ newline_indent l @ CHR '']'' # r) =
          c # t @ newline_indent l @ CHR '']'' # r"
        using t skip_ws_start by simp
      moreover have "c \<noteq> CHR '']''" using t(2) by (auto simp: json_start_def)
      moreover have "skip_ws (CHR ''['' # s) = CHR ''['' # s" for s
        by (simp add: skip_ws_def json_space_def Let_def)
      ultimately show ?thesis unfolding tx by (simp add: m)
    qed
  qed
next
  case (JObject kvs)
  show ?case unfolding indent_back_def
  proof (intro allI impI)
    fix l n r assume n: "length (dumps_indent (JObject kvs) l) < n"
    then obtain m where m: "n = Suc m" by (cases n) auto
    show "read_value n (dumps_indent (JObject kvs) l @ r) = Inr (JObject kvs, r)"
    proof (cases "kvs = []")
      case True
      then show ?thesis by (simp add: m skip_ws_def json_space_def Let_def)
    next
      case False
      let ?members = "join (CHR '','' # newline_indent (Suc l)) (map (indent_member (Suc l)) kvs)"
      obtain s where "indent_member (Suc l) (hd kvs) = quote_char # s"
        by (auto simp: indent_member_def json_string_def)
      then obtain t where t: "?members = quote_char # t"
        using hd_join [of "map (indent_member (Suc l)) kvs" quote_char s] False by (auto simp: hd_map)
      have "(\<lambda>(k, f). json_string k @ '': '' @ f (Suc l)) \<circ> map_prod id dumps_indent = indent_member (Suc l)"
        by (auto simp: indent_member_def fun_eq_iff)
      then have tx: "dumps_indent (JObject kvs) l =
          CHR ''{'' # newline_indent (Suc l) @ ?members @ newline_indent l @ ''}''"
        using False by simp
      have len: "length ?members + 1 < m" using n unfolding tx m by simp
      have rb: "\<forall>kv \<in> set kvs. indent_back (snd kv)" using JObject by (auto simp: snds.simps)
      have "read_members m (newline_indent (Suc l) @ ?members @ newline_indent l @ CHR ''}'' # r) = Inr (kvs, r)"
        by (rule read_members_indent) (use rb False len in simp_all)
      moreover have "skip_ws (newline_indent (Suc l) @ ?members @ newline_indent l @ CHR ''}'' # r) =
          quote_char # t @ newline_indent l @ CHR ''}'' # r"
        using t by (simp add: skip_ws_newline delimiter_simps)
      moreover have "skip_ws (CHR ''{'' # s) = CHR ''{'' # s" for s
        by (simp add: skip_ws_def json_space_def Let_def)
      ultimately show ?thesis unfolding tx by (simp add: m)
    qed
  qed
qed (rule indent_back_scalar, simp)+

lemma loads_file_text: "wf_json (sort_json j) \<Longrightarrow> loads (json_file_text j) = Inr (sort_json j)"
proof -
  assume wf: "wf_json (sort_json j)"
  let ?lf = "[char_of (10::nat)]"
  have e: "json_end ?lf" "skip_ws ?lf = []" by (simp_all add: json_end_def json_space_def skip_ws_def Let_def)
  have "read_value (Suc (length (json_file_text j))) (json_file_text j) = Inr (sort_json j, ?lf)"
    unfolding json_file_text_def by (rule indent_backD [OF indent_back_all _ e(1)]) simp
  then show ?thesis using e(2) wf by (simp only: loads_def r_bind.simps prod.case dedupe_wf refl if_True)
qed

end
