(* ===== verification/Execution_Plans.thy ===== *)
theory Execution_Plans
  imports Json_Files
begin

text \<open>
  \<open>models.py\<close>, \<open>planning.py\<close> and the plan payload of \<open>payloads.py\<close> under
  \<open>application/normalization/target_products\<close>: which products a normalization run reuses, rebuilds
  or refreshes, how the plan is written to the summary of the run and read back by the next one.
  The three product kinds have candidates and decisions with the same fields under different
  names; one record stands for the three classes, and the names are functions of the kind. A
  file is absent, readable or damaged (reading it raises).
\<close>

section \<open>Modes, actions, kinds\<close>

datatype update_mode = AUTO | FULL_UPDATE | REBUILD

fun update_mode_text :: "update_mode \<Rightarrow> string" where
  "update_mode_text AUTO = ''auto''"
| "update_mode_text FULL_UPDATE = ''full-update''"
| "update_mode_text REBUILD = ''rebuild''"

datatype stage_action = REUSED | REBUILT | REFRESHED | PRUNED

fun stage_action_text :: "stage_action \<Rightarrow> string" where
  "stage_action_text REUSED = ''reused''"
| "stage_action_text REBUILT = ''rebuilt''"
| "stage_action_text REFRESHED = ''refreshed''"
| "stage_action_text PRUNED = ''pruned''"

definition stage_action_of_text :: "string \<Rightarrow> stage_action result" where
  "stage_action_of_text s =
     (case filter (\<lambda>a. stage_action_text a = s) [REUSED, REBUILT, REFRESHED, PRUNED] of
        a # _ \<Rightarrow> Inr a
      | [] \<Rightarrow> Inl (ValueError (py_repr s @ '' is not a valid TargetProductStageAction'')))"

lemma stage_action_round_trip [simp]: "stage_action_of_text (stage_action_text a) = Inr a"
  by (cases a) (simp_all add: stage_action_of_text_def)

definition SIGNATURE_VERSION :: string where
  "SIGNATURE_VERSION = ''normalization-target-products-v1''"

datatype product_kind = ECONOMIC_FACTS | RECONCILIATION_STATE | CHECKPOINT

fun product_name :: "product_kind \<Rightarrow> string" where
  "product_name ECONOMIC_FACTS = ''economic_facts''"
| "product_name RECONCILIATION_STATE = ''reconciliation_state''"
| "product_name CHECKPOINT = ''checkpoint''"

fun detail_name :: "product_kind \<Rightarrow> string" where
  "detail_name ECONOMIC_FACTS = ''compatibility''"
| "detail_name RECONCILIATION_STATE = ''snapshot''"
| "detail_name CHECKPOINT = ''reference''"

datatype 'a stored_file = Readable 'a | Damaged

section \<open>Candidates, decisions, plans\<close>

record execution_candidate =
  xc_id :: string
  xc_ref :: string
  xc_fingerprint :: string
  xc_signature :: string
  xc_kernel_path :: string
  xc_detail_paths :: "string list"
  xc_kernel_valid :: bool

record execution_decision =
  xd_id :: string
  xd_ref :: string
  xd_fingerprint :: string
  xd_kernel_action :: stage_action
  xd_detail_action :: stage_action
  xd_signature :: string

record execution_plan =
  xp_signature_version :: string
  xp_update_mode_requested :: string
  xp_update_mode_effective :: string
  xp_claim_set_fingerprint :: string
  xp_economic_facts :: "execution_decision option"
  xp_reconciliation_states :: "execution_decision list"
  xp_checkpoints :: "execution_decision list"
  xp_pruned_reconciliation_state_refs :: "string list"
  xp_pruned_checkpoint_refs :: "string list"

record execution_summary =
  xs_reused_count :: nat
  xs_rebuilt_count :: nat
  xs_pruned_count :: nat
  xs_refreshed_count :: nat

section \<open>The payload of a plan\<close>

definition texts_json :: "string list \<Rightarrow> json" where
  "texts_json ss = JArray (map JString ss)"

definition execution_decision_payload :: "product_kind \<Rightarrow> execution_decision \<Rightarrow> json" where
  "execution_decision_payload kind d =
     JObject
       [(product_name kind @ ''_id'', JString (xd_id d)),
        (product_name kind @ ''_ref'', JString (xd_ref d)),
        (''fingerprint'', JString (xd_fingerprint d)),
        (''kernel_action'', JString (stage_action_text (xd_kernel_action d))),
        (detail_name kind @ ''_action'', JString (stage_action_text (xd_detail_action d))),
        (detail_name kind @ ''_signature'', JString (xd_signature d))]"

definition execution_plan_payload :: "execution_plan \<Rightarrow> json" where
  "execution_plan_payload p =
     JObject
       [(''signature_version'', JString (xp_signature_version p)),
        (''update_mode_requested'', JString (xp_update_mode_requested p)),
        (''update_mode_effective'', JString (xp_update_mode_effective p)),
        (''claim_set_fingerprint'', JString (xp_claim_set_fingerprint p)),
        (''economic_facts'',
           (case xp_economic_facts p of None \<Rightarrow> JNull
            | Some d \<Rightarrow> execution_decision_payload ECONOMIC_FACTS d)),
        (''reconciliation_states'',
           JArray (map (execution_decision_payload RECONCILIATION_STATE) (xp_reconciliation_states p))),
        (''checkpoints'', JArray (map (execution_decision_payload CHECKPOINT) (xp_checkpoints p))),
        (''pruned_reconciliation_state_refs'', texts_json (xp_pruned_reconciliation_state_refs p)),
        (''pruned_checkpoint_refs'', texts_json (xp_pruned_checkpoint_refs p))]"

text \<open>\<open>str(value)\<close> of a JSON value: text stays as it is, inside a container it is \<open>repr\<close>.\<close>

primrec repr_json :: "json \<Rightarrow> string" where
  "repr_json JNull = ''None''"
| "repr_json (JBool b) = (if b then ''True'' else ''False'')"
| "repr_json (JInt i) = int_text i"
| "repr_json (JString s) = py_repr s"
| "repr_json (JArray js) = ''['' @ join '', '' (map repr_json js) @ '']''"
| "repr_json (JObject kvs) =
     ''{'' @ join '', '' (map (\<lambda>(k, v). py_repr k @ '': '' @ v) (map (map_prod id repr_json) kvs)) @ ''}''"

definition str_json :: "json \<Rightarrow> string" where
  "str_json j = (case j of JString s \<Rightarrow> s | _ \<Rightarrow> repr_json j)"

definition field_text :: "(string \<times> json) list \<Rightarrow> string \<Rightarrow> string \<Rightarrow> string" where
  "field_text payload key default_text =
     (case map_of payload key of None \<Rightarrow> default_text | Some j \<Rightarrow> str_json j)"

definition decision_of_fields ::
    "product_kind \<Rightarrow> (string \<times> json) list \<Rightarrow> execution_decision result" where
  "decision_of_fields kind raw =
     r_bind (stage_action_of_text (field_text raw ''kernel_action'' ''rebuilt'')) (\<lambda>kernel_action.
     r_bind (stage_action_of_text (field_text raw (detail_name kind @ ''_action'') ''refreshed'')) (\<lambda>detail_action.
       Inr \<lparr>xd_id = field_text raw (product_name kind @ ''_id'') [],
         xd_ref = field_text raw (product_name kind @ ''_ref'') [],
         xd_fingerprint = field_text raw ''fingerprint'' [],
         xd_kernel_action = kernel_action, xd_detail_action = detail_action,
         xd_signature = field_text raw (detail_name kind @ ''_signature'') []\<rparr>))"

definition decision_of_payload :: "product_kind \<Rightarrow> json \<Rightarrow> execution_decision result" where
  "decision_of_payload kind payload =
     (case payload of
        JObject raw \<Rightarrow> decision_of_fields kind raw
      | _ \<Rightarrow> Inl (AttributeError ''object has no attribute get''))"

definition economic_facts_of_payload :: "json option \<Rightarrow> execution_decision option result" where
  "economic_facts_of_payload payload =
     (case payload of
        Some (JObject raw) \<Rightarrow> r_bind (decision_of_fields ECONOMIC_FACTS raw) (\<lambda>d. Inr (Some d))
      | _ \<Rightarrow> Inr None)"

definition required_list :: "(string \<times> json) list \<Rightarrow> string \<Rightarrow> json list" where
  "required_list payload key = (case map_of payload key of Some (JArray js) \<Rightarrow> js | _ \<Rightarrow> [])"

definition string_tuple :: "json option \<Rightarrow> string list" where
  "string_tuple v =
     (case v of
        Some (JArray js) \<Rightarrow> List.map_filter (\<lambda>j. case j of JString s \<Rightarrow> Some s | _ \<Rightarrow> None) js
      | _ \<Rightarrow> [])"

definition plan_of_payload :: "(string \<times> json) list \<Rightarrow> execution_plan result" where
  "plan_of_payload payload =
     r_bind (economic_facts_of_payload (map_of payload ''economic_facts'')) (\<lambda>economic.
     r_bind (r_map (decision_of_payload RECONCILIATION_STATE) (required_list payload ''reconciliation_states'')) (\<lambda>states.
     r_bind (r_map (decision_of_payload CHECKPOINT) (required_list payload ''checkpoints'')) (\<lambda>checkpoints.
       Inr \<lparr>xp_signature_version = field_text payload ''signature_version'' [],
         xp_update_mode_requested = field_text payload ''update_mode_requested'' [],
         xp_update_mode_effective = field_text payload ''update_mode_effective'' [],
         xp_claim_set_fingerprint = field_text payload ''claim_set_fingerprint'' [],
         xp_economic_facts = economic, xp_reconciliation_states = states, xp_checkpoints = checkpoints,
         xp_pruned_reconciliation_state_refs =
           string_tuple (map_of payload ''pruned_reconciliation_state_refs''),
         xp_pruned_checkpoint_refs = string_tuple (map_of payload ''pruned_checkpoint_refs'')\<rparr>)))"

text \<open>
  The summary file of the previous run. Text that is not JSON counts as no summary; \<open>OutsideModel\<close>
  (a float in the summary) is passed on.
\<close>

definition read_summary_payload :: "string stored_file option \<Rightarrow> (string \<times> json) list option result" where
  "read_summary_payload summary =
     (case summary of
        Some (Readable text) \<Rightarrow>
          (case loads text of
             Inr (JObject payload) \<Rightarrow> Inr (Some payload)
           | Inr _ \<Rightarrow> Inr None
           | Inl (OutsideModel m) \<Rightarrow> Inl (OutsideModel m)
           | Inl _ \<Rightarrow> Inr None)
      | _ \<Rightarrow> Inr None)"

definition plan_of_payload_or_none :: "(string \<times> json) list \<Rightarrow> execution_plan option" where
  "plan_of_payload_or_none payload =
     (case plan_of_payload payload of Inr plan \<Rightarrow> Some plan | Inl _ \<Rightarrow> None)"

definition load_prior_target_product_execution :: "string stored_file option \<Rightarrow> execution_plan option result" where
  "load_prior_target_product_execution summary =
     r_bind (read_summary_payload summary) (\<lambda>raw_payload.
       Inr (case raw_payload of None \<Rightarrow> None
         | Some payload \<Rightarrow>
             (case map_of payload ''target_product_execution'' of
                Some (JObject execution) \<Rightarrow>
                  (case plan_of_payload_or_none execution of None \<Rightarrow> None
                   | Some plan \<Rightarrow> if xp_signature_version plan = SIGNATURE_VERSION then Some plan else None)
              | _ \<Rightarrow> None)))"

section \<open>Planning\<close>

definition decide_kernel_action ::
    "update_mode \<Rightarrow> string option \<Rightarrow> string \<Rightarrow> bool \<Rightarrow> bool \<Rightarrow> stage_action" where
  "decide_kernel_action update_mode prior_fingerprint current_fingerprint kernel_reusable upstream_changed =
     (if update_mode = REBUILD then REBUILT
      else if upstream_changed \<or> \<not> kernel_reusable \<or> prior_fingerprint \<noteq> Some current_fingerprint then REBUILT
      else REUSED)"

text \<open>\<open>is_file\<close> is \<open>Path.is_file\<close> on the paths of the workspace.\<close>

definition decide_detail_action ::
    "(string \<Rightarrow> bool) \<Rightarrow> update_mode \<Rightarrow> stage_action \<Rightarrow> string option \<Rightarrow> string \<Rightarrow> string list \<Rightarrow> stage_action" where
  "decide_detail_action is_file update_mode kernel_action prior_signature current_signature detail_paths =
     (if update_mode \<in> {FULL_UPDATE, REBUILD} then REFRESHED
      else if kernel_action = REBUILT then REFRESHED
      else if prior_signature \<noteq> Some current_signature then REFRESHED
      else if detail_paths \<noteq> [] \<and> \<not> list_all is_file detail_paths then REFRESHED
      else REUSED)"

record planning_request =
  pq_update_mode :: update_mode
  pq_claim_set_fingerprint :: string
  pq_economic_facts :: "execution_candidate option"
  pq_reconciliation_states :: "execution_candidate list"
  pq_checkpoints :: "execution_candidate list"

definition plan_candidate ::
    "(string \<Rightarrow> bool) \<Rightarrow> update_mode \<Rightarrow> execution_decision option \<Rightarrow> bool \<Rightarrow> execution_candidate \<Rightarrow> execution_decision" where
  "plan_candidate is_file update_mode prior upstream_changed c =
     (let kernel_action = decide_kernel_action update_mode (map_option xd_fingerprint prior) (xc_fingerprint c)
            (xc_kernel_valid c \<and> is_file (xc_kernel_path c)) upstream_changed;
          detail_action = decide_detail_action is_file update_mode kernel_action
            (map_option xd_signature prior) (xc_signature c) (xc_detail_paths c)
      in \<lparr>xd_id = xc_id c, xd_ref = xc_ref c, xd_fingerprint = xc_fingerprint c,
           xd_kernel_action = kernel_action, xd_detail_action = detail_action,
           xd_signature = xc_signature c\<rparr>)"

definition plan_economic_facts ::
    "(string \<Rightarrow> bool) \<Rightarrow> update_mode \<Rightarrow> execution_plan option \<Rightarrow> execution_candidate option \<Rightarrow> execution_decision option" where
  "plan_economic_facts is_file update_mode prior_plan current =
     map_option (plan_candidate is_file update_mode (Option.bind prior_plan xp_economic_facts) False) current"

definition plan_products ::
    "(string \<Rightarrow> bool) \<Rightarrow> update_mode \<Rightarrow> execution_decision list \<Rightarrow> execution_candidate list \<Rightarrow> bool \<Rightarrow>
      execution_decision list" where
  "plan_products is_file update_mode prior_decisions current upstream_changed =
     (let prior_by_ref = index_by xd_ref prior_decisions in
      map (\<lambda>c. plan_candidate is_file update_mode (map_of prior_by_ref (xc_ref c)) upstream_changed c) current)"

definition prior_states :: "execution_plan option \<Rightarrow> execution_decision list" where
  "prior_states prior_plan = (case prior_plan of None \<Rightarrow> [] | Some p \<Rightarrow> xp_reconciliation_states p)"

definition prior_checkpoints :: "execution_plan option \<Rightarrow> execution_decision list" where
  "prior_checkpoints prior_plan = (case prior_plan of None \<Rightarrow> [] | Some p \<Rightarrow> xp_checkpoints p)"

definition plan_reconciliation_states where
  "plan_reconciliation_states is_file update_mode prior_plan current upstream_changed =
     plan_products is_file update_mode (prior_states prior_plan) current upstream_changed"

definition plan_checkpoints where
  "plan_checkpoints is_file update_mode prior_plan current upstream_changed =
     plan_products is_file update_mode (prior_checkpoints prior_plan) current upstream_changed"

definition economic_facts_changed :: "execution_plan option \<Rightarrow> execution_candidate option \<Rightarrow> bool" where
  "economic_facts_changed prior_plan current =
     (case current of
        None \<Rightarrow> Option.bind prior_plan xp_economic_facts \<noteq> None
      | Some c \<Rightarrow>
          (case Option.bind prior_plan xp_economic_facts of
             None \<Rightarrow> True
           | Some d \<Rightarrow> xd_ref d \<noteq> xc_ref c \<or> xd_fingerprint d \<noteq> xc_fingerprint c))"

definition reconciliation_states_changed :: "execution_plan option \<Rightarrow> execution_decision list \<Rightarrow> bool" where
  "reconciliation_states_changed prior_plan current =
     (let prior = prior_states prior_plan; prior_by_ref = index_by xd_ref prior in
      if length prior \<noteq> length current then True
      else if set (map xd_ref current) \<noteq> set (map fst prior_by_ref) then True
      else list_ex (\<lambda>d. map_option xd_fingerprint (map_of prior_by_ref (xd_ref d)) \<noteq> Some (xd_fingerprint d))
        current)"

definition pruned_refs :: "string list \<Rightarrow> string list \<Rightarrow> string list" where
  "pruned_refs prior_refs current_refs =
     sorted_distinct (filter (\<lambda>r. r \<notin> set current_refs) prior_refs)"

definition plan_target_product_execution ::
    "(string \<Rightarrow> bool) \<Rightarrow> string stored_file option \<Rightarrow> planning_request \<Rightarrow> execution_plan result" where
  "plan_target_product_execution is_file summary q =
     r_bind (load_prior_target_product_execution summary) (\<lambda>prior_plan.
     let mode = pq_update_mode q;
         economic = plan_economic_facts is_file mode prior_plan (pq_economic_facts q);
         states = plan_reconciliation_states is_file mode prior_plan (pq_reconciliation_states q)
           (economic_facts_changed prior_plan (pq_economic_facts q));
         checkpoints = plan_checkpoints is_file mode prior_plan (pq_checkpoints q)
           (reconciliation_states_changed prior_plan states)
     in Inr \<lparr>xp_signature_version = SIGNATURE_VERSION, xp_update_mode_requested = update_mode_text mode,
          xp_update_mode_effective = update_mode_text mode,
          xp_claim_set_fingerprint = pq_claim_set_fingerprint q,
          xp_economic_facts = economic, xp_reconciliation_states = states, xp_checkpoints = checkpoints,
          xp_pruned_reconciliation_state_refs =
            pruned_refs (map xd_ref (prior_states prior_plan)) (map xd_ref states),
          xp_pruned_checkpoint_refs =
            pruned_refs (map xd_ref (prior_checkpoints prior_plan)) (map xd_ref checkpoints)\<rparr>)"

section \<open>The summary of a plan\<close>

definition plan_decisions_all :: "execution_plan \<Rightarrow> execution_decision list" where
  "plan_decisions_all p =
     (case xp_economic_facts p of None \<Rightarrow> [] | Some d \<Rightarrow> [d]) @ xp_reconciliation_states p @ xp_checkpoints p"

definition kernel_actions :: "execution_plan \<Rightarrow> stage_action list" where
  "kernel_actions p = map xd_kernel_action (plan_decisions_all p)"

definition detail_actions :: "execution_plan \<Rightarrow> stage_action list" where
  "detail_actions p = map xd_detail_action (plan_decisions_all p)"

definition summarize_target_product_execution :: "execution_plan \<Rightarrow> execution_summary" where
  "summarize_target_product_execution p =
     \<lparr>xs_reused_count = length (filter (\<lambda>a. a = REUSED) (kernel_actions p)),
      xs_rebuilt_count = length (filter (\<lambda>a. a = REBUILT) (kernel_actions p)),
      xs_pruned_count = length (xp_pruned_reconciliation_state_refs p) + length (xp_pruned_checkpoint_refs p),
      xs_refreshed_count = length (filter (\<lambda>a. a = REFRESHED) (detail_actions p))\<rparr>"

section \<open>Writing a plan and reading it back\<close>

lemma distinct_sorted_keys: "distinct (map fst (sort_key fst kvs)) = distinct (map fst kvs)"
  using mset_eq_imp_distinct_iff [of "map fst (sort_key fst kvs)" "map fst kvs"] by simp

lemma map_of_sorted_keys: "distinct (map fst kvs) \<Longrightarrow> map_of (sort_key fst kvs) = map_of kvs"
  by (rule map_of_inject_set [THEN iffD2]) (simp_all add: distinct_sorted_keys)

lemma map_of_sort_json:
  assumes "distinct (map fst kvs)"
  shows "map_of (sort_key fst (map (map_prod id sort_json) kvs)) k = map_option sort_json (map_of kvs k)"
proof -
  have "distinct (map fst (map (map_prod id sort_json) kvs))" using assms by (simp add: comp_def)
  from map_of_sorted_keys [OF this]
  show ?thesis by (simp add: map_prod_def map_of_map)
qed

lemma wf_sort_json: "wf_json j \<Longrightarrow> wf_json (sort_json j)"
proof (induction j)
  case (JObject kvs)
  have "distinct (map fst (sort_key fst (map (map_prod id sort_json) kvs)))"
    using JObject.prems by (simp add: distinct_sorted_keys comp_def)
  moreover have "wf_json (sort_json v)" if "(k, v) \<in> set kvs" for k v
    using JObject that by (fastforce simp: list_all_iff)
  ultimately show ?case by (auto simp: list_all_iff)
qed (auto simp: list_all_iff)

lemma decision_fields_distinct: "distinct (map fst (case execution_decision_payload kind d of JObject kvs \<Rightarrow> kvs | _ \<Rightarrow> []))"
  by (cases kind) (simp_all add: execution_decision_payload_def)

lemma decision_read_back [simp]:
  "decision_of_payload kind (sort_json (execution_decision_payload kind d)) = Inr d"
proof -
  let ?kvs = "case execution_decision_payload kind d of JObject kvs \<Rightarrow> kvs | _ \<Rightarrow> []"
  let ?raw = "sort_key fst (map (map_prod id sort_json) ?kvs)"
  have p: "sort_json (execution_decision_payload kind d) = JObject ?raw"
    by (simp add: execution_decision_payload_def)
  have m: "map_of ?raw k = map_option sort_json (map_of ?kvs k)" for k
    by (rule map_of_sort_json) (rule decision_fields_distinct)
  have f: "field_text ?raw k s = (case map_of ?kvs k of None \<Rightarrow> s | Some j \<Rightarrow> str_json (sort_json j))" for k s
    by (simp add: field_text_def m split: option.split)
  show ?thesis
    unfolding p decision_of_payload_def json.case decision_of_fields_def f
    by (cases kind) (simp_all add: execution_decision_payload_def str_json_def)
qed

lemma economic_read_back:
  "economic_facts_of_payload (Some (sort_json (execution_decision_payload ECONOMIC_FACTS d))) = Inr (Some d)"
  using decision_read_back [of ECONOMIC_FACTS d]
  by (simp add: economic_facts_of_payload_def decision_of_payload_def execution_decision_payload_def)

lemma texts_read_back: "string_tuple (Some (sort_json (texts_json ss))) = ss"
  unfolding string_tuple_def texts_json_def by (induction ss) (simp_all add: map_filter_simps)

lemma decisions_read_back:
  "r_map (decision_of_payload kind) (map sort_json (map (execution_decision_payload kind) ds)) = Inr ds"
  by (induction ds) simp_all

lemma plan_read_back:
  "\<exists>kvs. sort_json (execution_plan_payload p) = JObject kvs \<and> plan_of_payload kvs = Inr p"
proof -
  let ?kvs = "case execution_plan_payload p of JObject kvs \<Rightarrow> kvs | _ \<Rightarrow> []"
  let ?raw = "sort_key fst (map (map_prod id sort_json) ?kvs)"
  have s: "sort_json (execution_plan_payload p) = JObject ?raw"
    by (simp add: execution_plan_payload_def)
  have m: "map_of ?raw k = map_option sort_json (map_of ?kvs k)" for k
    by (rule map_of_sort_json) (simp add: execution_plan_payload_def)
  have e: "economic_facts_of_payload (map_of ?raw ''economic_facts'') = Inr (xp_economic_facts p)"
    unfolding m using economic_read_back
    by (cases "xp_economic_facts p") (simp_all add: execution_plan_payload_def economic_facts_of_payload_def)
  have r: "required_list ?raw ''reconciliation_states'' =
      map sort_json (map (execution_decision_payload RECONCILIATION_STATE) (xp_reconciliation_states p))"
    "required_list ?raw ''checkpoints'' =
      map sort_json (map (execution_decision_payload CHECKPOINT) (xp_checkpoints p))"
    unfolding required_list_def m by (simp_all add: execution_plan_payload_def)
  have t: "string_tuple (map_of ?raw ''pruned_reconciliation_state_refs'') = xp_pruned_reconciliation_state_refs p"
    "string_tuple (map_of ?raw ''pruned_checkpoint_refs'') = xp_pruned_checkpoint_refs p"
    unfolding m using texts_read_back by (simp_all add: execution_plan_payload_def)
  have f: "field_text ?raw ''signature_version'' [] = xp_signature_version p"
    "field_text ?raw ''update_mode_requested'' [] = xp_update_mode_requested p"
    "field_text ?raw ''update_mode_effective'' [] = xp_update_mode_effective p"
    "field_text ?raw ''claim_set_fingerprint'' [] = xp_claim_set_fingerprint p"
    unfolding field_text_def m by (simp_all add: execution_plan_payload_def str_json_def)
  have "plan_of_payload ?raw = Inr p"
    unfolding plan_of_payload_def e r decisions_read_back t f by simp
  then show ?thesis using s by blast
qed

lemma summary_fields:
  assumes "wf_json (JObject members)"
  shows "\<exists>raw. read_summary_payload (Some (Readable (json_file_text (JObject members)))) = Inr (Some raw) \<and>
    (\<forall>k. map_of raw k = map_option sort_json (map_of members k))"
  using assms map_of_sort_json [of members] loads_file_text [OF wf_sort_json [OF assms]]
  by (simp add: read_summary_payload_def)

lemma summary_plan:
  assumes "wf_json (JObject members)" and "xp_signature_version p = SIGNATURE_VERSION"
    and "map_of members ''target_product_execution'' = Some (execution_plan_payload p)"
  shows "load_prior_target_product_execution (Some (Readable (json_file_text (JObject members)))) = Inr (Some p)"
proof -
  obtain raw where raw: "read_summary_payload (Some (Readable (json_file_text (JObject members)))) = Inr (Some raw)"
      "map_of raw ''target_product_execution'' = Some (sort_json (execution_plan_payload p))"
    using summary_fields [OF assms(1)] assms(3) by auto
  obtain kvs where "sort_json (execution_plan_payload p) = JObject kvs" "plan_of_payload kvs = Inr p"
    using plan_read_back by blast
  then show ?thesis
    unfolding load_prior_target_product_execution_def raw(1) using raw(2) assms(2)
    by (simp add: plan_of_payload_or_none_def)
qed

text \<open>
  C3: A plan that a run writes into its summary is the plan the next run reads: from the text of a
  summary whose \<open>target_product_execution\<close> is the payload of a plan of the current signature
  version, \<open>load_prior_target_product_execution\<close> returns exactly this plan, whatever its decisions
  and whatever else the summary holds.
\<close>

theorem summary_read_back:
  assumes "wf_json (JObject members)" and "xp_signature_version p = SIGNATURE_VERSION"
    and "map_of members ''target_product_execution'' = Some (execution_plan_payload p)"
  shows "load_prior_target_product_execution (Some (Readable (json_file_text (JObject members)))) = Inr (Some p)"
  using assms by (rule summary_plan)

definition sample_decision :: "stage_action \<Rightarrow> execution_decision" where
  "sample_decision a =
     \<lparr>xd_id = ''1'', xd_ref = ''working/products/checkpoints/1/checkpoint.json'', xd_fingerprint = ''ab'',
      xd_kernel_action = a, xd_detail_action = REFRESHED, xd_signature = ''cd''\<rparr>"

definition sample_plan :: execution_plan where
  "sample_plan =
     \<lparr>xp_signature_version = SIGNATURE_VERSION, xp_update_mode_requested = ''auto'',
      xp_update_mode_effective = ''auto'', xp_claim_set_fingerprint = ''00'',
      xp_economic_facts = Some (sample_decision REUSED), xp_reconciliation_states = [],
      xp_checkpoints = [sample_decision REBUILT, sample_decision REUSED],
      xp_pruned_reconciliation_state_refs = [''old''], xp_pruned_checkpoint_refs = []\<rparr>"

theorem summary_read_back_witness:
  "load_prior_target_product_execution (Some (Readable (json_file_text (JObject
     [(''source'', JString ''coinbase''), (''target_product_execution'', execution_plan_payload sample_plan)])))) =
     Inr (Some sample_plan)"
  by (rule summary_read_back)
    (simp_all add: sample_plan_def sample_decision_def execution_plan_payload_def execution_decision_payload_def
      texts_json_def)

end
