(* ===== verification/Effects.thy ===== *)
theory Effects
  imports Prelude
begin

text \<open>
  Code that reads and writes stored files: a function from the store to a result and the store
  it leaves, also when it raises. \<open>io_bind\<close> runs two parts in order and stops at the first
  exception, keeping what was written before it.
\<close>

named_theorems io_simps "unfolding of effects that return"

type_synonym ('s, 'a) io = "'s \<Rightarrow> 'a result \<times> 's"

definition io_return :: "'a \<Rightarrow> ('s, 'a) io" where
  "io_return x s = (Inr x, s)"

definition io_lift :: "'a result \<Rightarrow> ('s, 'a) io" where
  "io_lift r s = (r, s)"

definition io_bind :: "('s, 'a) io \<Rightarrow> ('a \<Rightarrow> ('s, 'b) io) \<Rightarrow> ('s, 'b) io" where
  "io_bind m f s = (case m s of (Inl e, s') \<Rightarrow> (Inl e, s') | (Inr x, s') \<Rightarrow> f x s')"

definition io_update :: "('s \<Rightarrow> 's) \<Rightarrow> ('s, unit) io" where
  "io_update g s = (Inr (), g s)"

definition io_get :: "('s \<Rightarrow> 'a) \<Rightarrow> ('s, 'a) io" where
  "io_get g s = (Inr (g s), s)"

fun io_fold :: "('x \<Rightarrow> 'a \<Rightarrow> ('s, 'a) io) \<Rightarrow> 'x list \<Rightarrow> 'a \<Rightarrow> ('s, 'a) io" where
  "io_fold f [] acc = io_return acc"
| "io_fold f (x # xs) acc = io_bind (f x acc) (io_fold f xs)"

text \<open>An effect on one part of a larger store.\<close>

definition io_on :: "('t \<Rightarrow> 's) \<Rightarrow> ('s \<Rightarrow> 't \<Rightarrow> 't) \<Rightarrow> ('s, 'a) io \<Rightarrow> ('t, 'a) io" where
  "io_on part put m t = (case m (part t) of (r, s) \<Rightarrow> (r, put s t))"

lemma io_return_iff [io_simps]: "io_return x s = (Inr y, s') \<longleftrightarrow> y = x \<and> s' = s"
  by (auto simp: io_return_def)

lemma io_lift_iff [io_simps]: "io_lift r s = (Inr y, s') \<longleftrightarrow> r = Inr y \<and> s' = s"
  by (auto simp: io_lift_def)

lemma io_bind_iff [io_simps]:
  "io_bind m f s = (Inr y, s'') \<longleftrightarrow> (\<exists>x s'. m s = (Inr x, s') \<and> f x s' = (Inr y, s''))"
  by (auto simp: io_bind_def split: prod.splits sum.splits)

lemma io_update_iff [io_simps]: "io_update g s = (Inr u, s') \<longleftrightarrow> s' = g s"
  by (auto simp: io_update_def)

lemma io_get_iff [io_simps]: "io_get g s = (Inr y, s') \<longleftrightarrow> y = g s \<and> s' = s"
  by (auto simp: io_get_def)

lemma io_on_iff [io_simps]:
  "io_on part put m t = (Inr y, t') \<longleftrightarrow> (\<exists>s. m (part t) = (Inr y, s) \<and> t' = put s t)"
  by (auto simp: io_on_def split: prod.splits)

lemma io_bind_run: "m s = (Inr x, s') \<Longrightarrow> io_bind m f s = f x s'"
  by (simp add: io_bind_def)

text \<open>
  Rules for invariants of a loop: what holds of the accumulator and the store at the start and is
  kept by every element holds at the end.
\<close>

lemma io_fold_append: "io_fold f (xs @ ys) acc = io_bind (io_fold f xs acc) (io_fold f ys)"
proof (induction xs arbitrary: acc)
  case Nil
  show ?case by (simp add: io_bind_def io_return_def fun_eq_iff)
next
  case (Cons x xs)
  then show ?case by (auto simp: fun_eq_iff io_bind_def split: prod.splits sum.splits)
qed

lemma io_fold_inv:
  assumes "io_fold f xs acc s = (Inr acc', s')" and "I [] acc s"
    and "\<And>ys x zs a t a' t'. xs = ys @ x # zs \<Longrightarrow> I ys a t \<Longrightarrow> f x a t = (Inr a', t') \<Longrightarrow> I (ys @ [x]) a' t'"
  shows "I xs acc' s'"
proof -
  have "I (pre @ xs) acc' s'"
    if "io_fold f xs acc s = (Inr acc', s')" "I pre acc s"
      "\<And>ys x zs a t a' t'. pre @ xs = ys @ x # zs \<Longrightarrow> I ys a t \<Longrightarrow> f x a t = (Inr a', t') \<Longrightarrow> I (ys @ [x]) a' t'"
    for pre
    using that
  proof (induction xs arbitrary: pre acc s)
    case Nil
    then show ?case by (simp add: io_simps)
  next
    case (Cons x xs)
    obtain a t where a: "f x acc s = (Inr a, t)" "io_fold f xs a t = (Inr acc', s')"
      using Cons.prems(1) by (auto simp: io_simps)
    have "I (pre @ [x]) a t" by (rule Cons.prems(3) [OF refl Cons.prems(2) a(1)])
    from Cons.IH [OF a(2) this] Cons.prems(3) show ?case by simp
  qed
  from this [of "[]"] assms show ?thesis by simp
qed

text \<open>What an effect keeps whether it returns or raises.\<close>

definition io_keeps :: "('s \<Rightarrow> bool) \<Rightarrow> ('s, 'a) io \<Rightarrow> bool" where
  "io_keeps P m \<longleftrightarrow> (\<forall>s r s'. P s \<longrightarrow> m s = (r, s') \<longrightarrow> P s')"

named_theorems keeps_intros "rules for what an effect keeps"

lemma io_keepsD: "io_keeps P m \<Longrightarrow> P s \<Longrightarrow> m s = (r, s') \<Longrightarrow> P s'"
  unfolding io_keeps_def by blast

lemma keeps_return [keeps_intros]: "io_keeps P (io_return x)"
  by (auto simp: io_keeps_def io_return_def)

lemma keeps_lift [keeps_intros]: "io_keeps P (io_lift r)"
  by (auto simp: io_keeps_def io_lift_def)

lemma keeps_get [keeps_intros]: "io_keeps P (io_get g)"
  by (auto simp: io_keeps_def io_get_def)

lemma keeps_update: "(\<And>s. P s \<Longrightarrow> P (g s)) \<Longrightarrow> io_keeps P (io_update g)"
  by (auto simp: io_keeps_def io_update_def)

lemma keeps_bind:
  assumes "io_keeps P m" and "\<And>x s s'. P s \<Longrightarrow> m s = (Inr x, s') \<Longrightarrow> io_keeps P (f x)"
  shows "io_keeps P (io_bind m f)"
  unfolding io_keeps_def
proof (intro allI impI)
  fix s r s' assume "P s" "io_bind m f s = (r, s')"
  moreover obtain r1 s1 where m: "m s = (r1, s1)" by (cases "m s")
  moreover have "P s1" using io_keepsD [OF assms(1) \<open>P s\<close> m] .
  ultimately show "P s'"
    using assms(2) io_keepsD by (fastforce simp: io_bind_def split: sum.splits)
qed

lemma keeps_bind_any [keeps_intros]:
  "io_keeps P m \<Longrightarrow> (\<And>x. io_keeps P (f x)) \<Longrightarrow> io_keeps P (io_bind m f)"
  by (rule keeps_bind)

lemma keeps_fold:
  "(\<And>x acc. x \<in> set xs \<Longrightarrow> io_keeps P (f x acc)) \<Longrightarrow> io_keeps P (io_fold f xs acc)"
  by (induction xs arbitrary: acc) (simp_all add: keeps_return keeps_bind_any)

lemma keeps_on:
  assumes "io_keeps Q m" and "\<And>t. P t \<Longrightarrow> Q (part t)" and "\<And>s t. P t \<Longrightarrow> Q s \<Longrightarrow> P (put s t)"
  shows "io_keeps P (io_on part put m)"
  unfolding io_keeps_def
proof (intro allI impI)
  fix t r t' assume t: "P t" "io_on part put m t = (r, t')"
  obtain s where s: "m (part t) = (r, s)" "t' = put s t" using t(2) by (auto simp: io_on_def split: prod.splits)
  have "Q s" using io_keepsD [OF assms(1) assms(2) [OF t(1)] s(1)] .
  then show "P t'" using assms(3) t(1) s(2) by simp
qed

end
