(* ===== verification/Balance_Projections.thy ===== *)
theory Balance_Projections
  imports Reconciliation Checkpoints Evidence Balances
begin

text \<open>
  \<open>application/compatibility/reconciliation_states.py\<close> and \<open>checkpoints.py\<close>: the balance snapshots a
  reconciliation state stands for and the balance references a checkpoint stands for, the rows
  written beside the products. \<open>PurePath(p).name\<close> is the last part of a POSIX path.
\<close>

section \<open>Paths\<close>

fun split_at :: "char \<Rightarrow> string \<Rightarrow> string list" where
  "split_at c [] = [[]]"
| "split_at c (x # xs) =
     (if x = c then [] # split_at c xs
      else (case split_at c xs of [] \<Rightarrow> [[x]] | s # ss \<Rightarrow> (x # s) # ss))"

text \<open>The parts of a relative POSIX path: empty parts and \<open>.\<close> are dropped.\<close>

definition posix_parts :: "string \<Rightarrow> string list" where
  "posix_parts p = filter (\<lambda>s. s \<noteq> [] \<and> s \<noteq> ''.'') (split_at (CHR ''/'') p)"

definition pure_path_name :: "string \<Rightarrow> string" where
  "pure_path_name p = (case rev (posix_parts p) of [] \<Rightarrow> [] | s # _ \<Rightarrow> s)"

section \<open>Snapshots of a reconciliation state\<close>

definition position_ref_error :: "string \<Rightarrow> py_error" where
  "position_ref_error label = ValueError (label @ '' compatibility requires position subject refs'')"

definition subject_ref_text :: "string \<Rightarrow> subject_item list \<Rightarrow> nat \<Rightarrow> string result" where
  "subject_ref_text label subject_key i =
     (if length subject_key \<le> i then Inl (IndexError ''tuple index out of range'')
      else (case subject_key ! i of
          STuple [SText s] \<Rightarrow> Inr s
        | _ \<Rightarrow> Inl (position_ref_error label)))"

definition position_target :: "string \<Rightarrow> subject_ref \<Rightarrow> (string \<times> string) result" where
  "position_target label subject_ref =
     r_bind (subject_ref_text label (snd subject_ref) 1) (\<lambda>location_ref.
     r_bind (subject_ref_text label (snd subject_ref) 2) (\<lambda>instrument_ref.
       Inr (location_ref, instrument_ref)))"

definition coinbase_target :: "string \<Rightarrow> string \<Rightarrow> datetime \<Rightarrow> balance_target result" where
  "coinbase_target location_ref instrument_ref as_of =
     mk_balance_target
       \<lparr>bt_source = ''coinbase'', bt_location_id = location_ref, bt_instrument_id = instrument_ref,
        bt_balance_kind = ''available'', bt_target_at = as_of, bt_target_precision = TIMESTAMP\<rparr>"

definition snapshot_of_target :: "balance_target_record \<Rightarrow> balance_snapshot result" where
  "snapshot_of_target t =
     (case bt_expected_value t of
        QuantityValue quantity _ \<Rightarrow>
          r_bind (position_target ''balance snapshot'' (bt_subject_ref t)) (\<lambda>(location_ref, instrument_ref).
          r_bind (coinbase_target location_ref instrument_ref (bt_as_of t)) (\<lambda>target.
            mk_balance_snapshot
              \<lparr>bs_target = target, bs_quantity = quantity, bs_snapshot_basis = ''fact_cutoff'', bs_notes = []\<rparr>))
      | _ \<Rightarrow> Inl (ValueError ''balance snapshot compatibility requires QuantityValue''))"

definition project_balance_snapshots_from_reconciliation_state ::
    "reconciliation_state \<Rightarrow> balance_snapshot list result" where
  "project_balance_snapshots_from_reconciliation_state state =
     r_bind (r_map snapshot_of_target (rs_balance_target_records state)) (\<lambda>snapshots.
       Inr (sort_key (\<lambda>s. balance_target_match_key (bs_target s)) snapshots))"

section \<open>Observation details\<close>

record observation_detail =
  od_support_ref :: string
  od_note :: string

definition observation_details_from_evidence_set :: "evidence_set \<Rightarrow> (string, observation_detail) dict" where
  "observation_details_from_evidence_set es =
     (let member_path_by_id = map (\<lambda>(i, m). (i, pure_path_name (hd (em_locator m))))
            (index_by em_member_id (filter (\<lambda>m. em_locator m \<noteq> []) (eset_evidence_member_records es)));
          path = (\<lambda>eo. dict_get member_path_by_id (eo_member_id eo) [])
      in map (\<lambda>(i, eo). (i, \<lparr>od_support_ref = path eo, od_note = eo_notes eo\<rparr>))
           (index_by eo_observation_id
             (filter (\<lambda>eo. path eo \<noteq> []) (eset_evidence_observation_records es))))"

definition detail_key :: "observation_detail \<Rightarrow> string \<times> string" where
  "detail_key d = (od_support_ref d, od_note d)"

definition first_detail :: "observation_detail list \<Rightarrow> observation_detail result" where
  "first_detail ds =
     (case sort_key detail_key ds of [] \<Rightarrow> Inl (IndexError ''list index out of range'') | d # _ \<Rightarrow> Inr d)"

definition support_detail_for_evidence_refs ::
    "(string, observation_detail) dict \<Rightarrow> string list \<Rightarrow> observation_detail result" where
  "support_detail_for_evidence_refs details evidence_refs =
     (let resolved = map (\<lambda>r. dict_get details r \<lparr>od_support_ref = r, od_note = []\<rparr>) evidence_refs;
          noted = filter (\<lambda>d. od_note d \<noteq> []) resolved;
          anchored = filter (\<lambda>d. CHR ''#'' \<in> set (od_support_ref d)) resolved
      in if noted \<noteq> [] then first_detail noted
         else if anchored \<noteq> [] then first_detail anchored
         else first_detail resolved)"

type_synonym support_details = "(subject_ref \<times> datetime, observation_detail) dict"

definition add_support ::
    "(string, observation_detail) dict \<Rightarrow> (string, balance_target_record) dict \<Rightarrow> checkpoint_proposal_record \<Rightarrow>
      support_details \<Rightarrow> support_details result" where
  "add_support details targets_by_id p found =
     (case cp_target_refs p of
        [] \<Rightarrow> Inr found
      | target_ref # _ \<Rightarrow>
          if cp_evidence_refs p = [] then Inr found
          else
            (case map_of targets_by_id target_ref of
               None \<Rightarrow> Inl (KeyError target_ref)
             | Some t \<Rightarrow>
                 r_bind (support_detail_for_evidence_refs details (cp_evidence_refs p)) (\<lambda>d.
                   Inr (AList.update (bt_subject_ref t, bt_as_of t) d found))))"

definition support_details_by_subject ::
    "reconciliation_state list \<Rightarrow> (string, observation_detail) dict \<Rightarrow> support_details result" where
  "support_details_by_subject states details =
     r_fold (\<lambda>state. r_fold (add_support details (index_by bt_target_id (rs_balance_target_records state)))
       (rs_checkpoint_proposal_records state)) states []"

section \<open>References of a checkpoint\<close>

definition two_digits :: "nat \<Rightarrow> string" where
  "two_digits n = zfill 2 (nat_text n)"

definition utc_offset_text :: "int \<Rightarrow> string" where
  "utc_offset_text offset =
     (let n = nat \<bar>offset\<bar> in
      (if offset < 0 then ''-'' else ''+'') @ two_digits (n div 3600) @ '':'' @ two_digits (n div 60 mod 60) @
      (if n mod 60 = 0 then [] else '':'' @ two_digits (n mod 60)))"

text \<open>\<open>str(datetime)\<close>.\<close>

definition datetime_str :: "datetime \<Rightarrow> string" where
  "datetime_str t =
     zfill 4 (nat_text (year t)) @ ''-'' @ two_digits (month t) @ ''-'' @ two_digits (day t) @ '' '' @
     two_digits (hour t) @ '':'' @ two_digits (minute t) @ '':'' @ two_digits (second t) @
     (if microsecond t = 0 then [] else ''.'' @ zfill 6 (nat_text (microsecond t))) @
     (case utcoffset t of None \<Rightarrow> [] | Some offset \<Rightarrow> utc_offset_text offset)"

definition reference_of_assertion :: "support_details \<Rightarrow> checkpoint_assertion_record \<Rightarrow> balance_reference result" where
  "reference_of_assertion support a =
     (case ca_accepted_value a of
        QuantityValue quantity _ \<Rightarrow>
          r_bind (position_target ''checkpoint'' (ca_subject_ref a)) (\<lambda>(location_ref, instrument_ref).
          case map_of support (ca_subject_ref a, ca_as_of a) of
            None \<Rightarrow> Inl (ValueError (''checkpoint compatibility requires support detail for subject '' @
              subject_ref_str (ca_subject_ref a) @ '' at '' @ datetime_str (ca_as_of a)))
          | Some d \<Rightarrow>
              r_bind (coinbase_target location_ref instrument_ref (ca_as_of a)) (\<lambda>target.
                mk_balance_reference
                  \<lparr>br_target = target, br_quantity = quantity, br_reference_kind = SOURCE_DOCUMENT,
                   br_observed_at = ca_as_of a, br_observed_precision = TIMESTAMP,
                   br_support_ref = od_support_ref d, br_provider_family = [], br_provider_locator = [],
                   br_provider_block_ref = [], br_reviewed_by = [], br_reviewed_at = None,
                   br_notes = od_note d\<rparr>))
      | _ \<Rightarrow> Inl (ValueError ''checkpoint compatibility requires QuantityValue assertions''))"

definition referenced_state ::
    "(string, reconciliation_state) dict \<Rightarrow> string \<Rightarrow> reconciliation_state result" where
  "referenced_state states_by_id ref =
     (case map_of states_by_id ref of
        None \<Rightarrow> Inl (ValueError (''checkpoint compatibility requires referenced reconciliation state '' @ py_repr ref))
      | Some state \<Rightarrow> Inr state)"

definition reference_order_key :: "balance_reference \<Rightarrow> match_key \<times> string" where
  "reference_order_key r = (balance_target_match_key (br_target r), br_support_ref r)"

definition project_balance_references_from_checkpoint ::
    "checkpoint \<Rightarrow> reconciliation_state list \<Rightarrow> (string, observation_detail) dict \<Rightarrow> balance_reference list result" where
  "project_balance_references_from_checkpoint c states details =
     r_bind (r_map (referenced_state (index_by rs_reconciliation_state_id states))
       (ck_reconciliation_state_refs c)) (\<lambda>selected.
     r_bind (support_details_by_subject selected details) (\<lambda>support.
     r_bind (r_map (reference_of_assertion support) (ck_checkpoint_assertion_records c)) (\<lambda>references.
       Inr (sort_key reference_order_key references))))"

end
