(* ===== verification/Fact_Projections.thy ===== *)
theory Fact_Projections
  imports Balance_Projections Economics Claims Transactions
begin

text \<open>
  \<open>application/compatibility/economic_facts.py\<close> with the projection fields of
  \<open>application/claim/contracts.py\<close> and the annotations of \<open>application/normalization/annotations.py\<close>:
  the transaction facts and annotations that the events and legs of economic facts stand for. An
  index into a tuple may be negative, as in Python.
\<close>

section \<open>Data\<close>

record adapter_metadata =
  am_namespace :: string
  am_values :: "(string \<times> json) list"

record projection_fields =
  pf_claim_bundle_id :: string
  pf_economic_kind :: string
  pf_projection_hint :: string
  pf_accounting_intent_hint :: string
  pf_tax_treatment_hint :: string
  pf_description :: string
  pf_tx_hash :: string
  pf_operation_group_id :: string
  pf_confidence :: string
  pf_status :: string
  pf_draft_order :: int
  pf_review_markers :: "string list"
  pf_adapter_metadata :: "adapter_metadata list"

record fact_annotation =
  fa_fact_id :: string
  fa_provenance_refs :: "string list"
  fa_review_markers :: "string list"
  fa_adapter_metadata :: "adapter_metadata list"

definition metadata_to_json :: "adapter_metadata \<Rightarrow> json" where
  "metadata_to_json m =
     JObject [(''namespace'', JString (am_namespace m)), (''values'', JObject (am_values m))]"

definition annotation_to_json :: "fact_annotation \<Rightarrow> json" where
  "annotation_to_json a =
     JObject
       [(''fact_id'', JString (fa_fact_id a)), (''provenance_refs'', strings_json (fa_provenance_refs a)),
        (''review_markers'', strings_json (fa_review_markers a)),
        (''adapter_metadata'', JArray (map metadata_to_json (fa_adapter_metadata a)))]"

record fact_artifacts =
  art_facts :: "transaction_fact list"
  art_annotations :: "fact_annotation list"

section \<open>Legs\<close>

definition py_index :: "'a list \<Rightarrow> int \<Rightarrow> 'a result" where
  "py_index xs i =
     (let n = int (length xs); j = (if i < 0 then i + n else i) in
      if 0 \<le> j \<and> j < n then Inr (xs ! nat j) else Inl (IndexError ''tuple index out of range''))"

definition leg_slot_from_id :: "string \<Rightarrow> int result" where
  "leg_slot_from_id leg_id =
     r_bind (loads leg_id) (\<lambda>payload.
       case payload of
         JArray js \<Rightarrow>
           if length js \<noteq> 4 then Inl (ValueError (''invalid compatibility leg_id: '' @ leg_id))
           else (case js ! 3 of
               JInt i \<Rightarrow> Inr i
             | JBool b \<Rightarrow> Inr (if b then 1 else 0)
             | _ \<Rightarrow> Inl (ValueError (''invalid compatibility leg_id: '' @ leg_id)))
       | JString s \<Rightarrow> Inl (ValueError (''invalid compatibility leg_id: '' @ leg_id))
       | JObject kvs \<Rightarrow>
           if length kvs \<noteq> 4 then Inl (ValueError (''invalid compatibility leg_id: '' @ leg_id))
           else Inl (KeyError ''3'')
       | _ \<Rightarrow> Inl (TypeError ''object has no len()''))"

definition kind_of_role :: "leg_role \<Rightarrow> leg_kind" where
  "kind_of_role role =
     (if role = FEE then CHARGE else if role = leg_role.REBATE then PRIMARY else PRIMARY)"

definition claim_instrument_id :: "claim_record \<Rightarrow> string" where
  "claim_instrument_id c =
     (if clm_venue c = [] then clm_value c else clm_scheme c @ '':'' @ clm_value c @ ''@'' @ clm_venue c)"

definition attributed_role :: "claim_record \<Rightarrow> claim_leg_spec \<Rightarrow> string option result" where
  "attributed_role activity_claim s =
     (case ls_attributed_to_slot s of
        None \<Rightarrow> Inr None
      | Some slot \<Rightarrow> r_bind (py_index (clm_leg_specs activity_claim) slot) (\<lambda>other. Inr (Some (ls_role other))))"

definition compatibility_leg ::
    "claim_record \<Rightarrow> (string, claim_record) dict \<Rightarrow> economic_leg_record \<Rightarrow> economic_leg result" where
  "compatibility_leg activity_claim instrument_claims l =
     r_bind (leg_slot_from_id (leg_leg_id l)) (\<lambda>slot.
     if int (length (clm_leg_specs activity_claim)) \<le> slot then
       Inl (ValueError (''economic facts compatibility leg slot '' @ int_text slot @ '' exceeds activity leg spec count''))
     else r_bind (py_index (clm_leg_specs activity_claim) slot) (\<lambda>matching_spec.
       case ls_instrument_claim_refs matching_spec of
         [] \<Rightarrow> Inl (ValueError ''economic facts compatibility requires instrument claim refs'')
       | ref # _ \<Rightarrow>
           (case map_of instrument_claims ref of
              None \<Rightarrow> Inl (ValueError (''economic facts compatibility could not resolve instrument claim '' @ py_repr ref))
            | Some instrument_claim \<Rightarrow>
                r_bind (attributed_role activity_claim matching_spec) (\<lambda>attributed.
                  mk_economic_leg
                    \<lparr>el_leg_id = ls_role matching_spec, el_kind = kind_of_role (leg_role_of l),
                     el_instrument_id = claim_instrument_id instrument_claim, el_quantity = leg_quantity l,
                     el_subtype = (if ls_subtype matching_spec = [] then None else Some (ls_subtype matching_spec)),
                     el_attributed_to_leg_id = attributed, el_location_id = None\<rparr>))))"

section \<open>Facts\<close>

definition provider_operation_key :: "string \<Rightarrow> string" where
  "provider_operation_key activity_label =
     (if activity_label = ''reward_income'' then ''reward income'' else activity_label)"

definition projection_fields_for_bundle ::
    "(string, projection_fields) dict \<Rightarrow> string \<Rightarrow> projection_fields result" where
  "projection_fields_for_bundle records_by_bundle_id claim_bundle_id =
     (case map_of records_by_bundle_id claim_bundle_id of
        None \<Rightarrow> Inl (ValueError (''economic facts compatibility requires draft projection fields for claim bundle '' @
          py_repr claim_bundle_id))
      | Some r \<Rightarrow> Inr r)"

definition require_bundle_claim :: "claim_record list \<Rightarrow> string \<Rightarrow> claim_kind \<Rightarrow> claim_record result" where
  "require_bundle_claim bundle_claims claim_bundle_id kind =
     (case filter (\<lambda>c. clm_kind c = kind) bundle_claims of
        [] \<Rightarrow> Inl (ValueError (''economic facts compatibility requires '' @ py_repr (claim_kind_text kind) @
          '' claim in bundle '' @ py_repr claim_bundle_id))
      | c # _ \<Rightarrow> Inr c)"

definition activity_id :: "string \<Rightarrow> string \<Rightarrow> string result" where
  "activity_id activity_label raw_row_ref =
     (if activity_label = ''asset_migration'' then
        (if CHR ''|'' \<in> set raw_row_ref then
           Inr (''coinbase-asset-migration-'' @ takeWhile (\<lambda>c. c \<noteq> CHR ''|'') raw_row_ref @ ''-'' @
             tl (dropWhile (\<lambda>c. c \<noteq> CHR ''|'') raw_row_ref))
         else Inl (ValueError ''not enough values to unpack (expected 2, got 1)''))
      else Inr (''coinbase-retail-'' @ raw_row_ref))"

definition leg_policy_for_activity :: "string \<Rightarrow> fact_leg_policy" where
  "leg_policy_for_activity activity_label =
     (if activity_label \<in> {''buy'', ''sell''} then TWO_SIDED_PRIMARY_EXCHANGE_WITH_SINGLE_CHARGE_POLICY
      else if activity_label = ''asset_migration'' then TWO_SIDED_PRIMARY_EXCHANGE_POLICY
      else SINGLE_PRIMARY_ACTIVITY_POLICY)"

definition member_error :: "string \<Rightarrow> py_error" where
  "member_error member_id = ValueError (''could not resolve member_id '' @ py_repr member_id)"

definition raw_file_for_member_id :: "evidence_set \<Rightarrow> string \<Rightarrow> string result" where
  "raw_file_for_member_id es member_id =
     (case filter (\<lambda>m. em_member_id m = member_id) (eset_evidence_member_records es) of
        [] \<Rightarrow> Inl (member_error member_id)
      | m # _ \<Rightarrow> r_bind (py_index (em_locator m) 0) (\<lambda>p. Inr (pure_path_name p)))"

definition source_slug_for_member_id :: "evidence_set \<Rightarrow> string \<Rightarrow> string result" where
  "source_slug_for_member_id es member_id =
     (case filter (\<lambda>m. em_member_id m = member_id \<and> em_kind m = MK_RETAIL_ACTIVITY_EXPORT_FILE)
         (eset_evidence_member_records es) of
        [] \<Rightarrow> Inl (member_error member_id)
      | m # _ \<Rightarrow> Inr (em_source_slug m))"

text \<open>\<open>EconomicKind(text)\<close> and the like: the text must be the value of a member.\<close>

definition enum_of_text :: "string \<Rightarrow> ('e \<Rightarrow> string) \<Rightarrow> 'e list \<Rightarrow> string \<Rightarrow> 'e result" where
  "enum_of_text type_name to_text values s =
     (case filter (\<lambda>e. to_text e = s) values of
        [] \<Rightarrow> Inl (ValueError (py_repr s @ '' is not a valid '' @ type_name))
      | e # _ \<Rightarrow> Inr e)"

definition semantics_of_fields :: "projection_fields \<Rightarrow> fact_semantics result" where
  "semantics_of_fields pf =
     r_bind (enum_of_text ''EconomicKind'' economic_kind_text economic_kinds (pf_economic_kind pf)) (\<lambda>kind.
     r_bind (enum_of_text ''AccountingIntentHint'' accounting_intent_text accounting_intents
       (pf_accounting_intent_hint pf)) (\<lambda>intent.
     r_bind (enum_of_text ''TaxTreatmentHint'' tax_treatment_text tax_treatments
       (pf_tax_treatment_hint pf)) (\<lambda>treatment.
     r_bind (if pf_projection_hint pf = [] then Inr None
         else r_bind (enum_of_text ''ProjectionHint'' projection_hint_text projection_hints
           (pf_projection_hint pf)) (\<lambda>h. Inr (Some h))) (\<lambda>hint.
       Inr \<lparr>fs_economic_kind = kind, fs_accounting_intent_hint = intent,
         fs_tax_treatment_hint = treatment, fs_projection_hint = hint\<rparr>))))"

definition fact_of_event ::
    "claim_record list \<Rightarrow> (string, projection_fields) dict \<Rightarrow> (string, economic_leg_record list) dict \<Rightarrow>
      evidence_set \<Rightarrow> economic_event_record \<Rightarrow> (transaction_fact \<times> fact_annotation) result" where
  "fact_of_event bundle_claims records_by_bundle_id legs_by_event_id es e =
     (let bundle_id = ev_claim_bundle_id e in
      if bundle_claims = [] then
        Inl (ValueError (''economic facts compatibility requires claim bundle '' @ py_repr bundle_id))
      else
      r_bind (require_bundle_claim bundle_claims bundle_id CK_ACTIVITY) (\<lambda>activity_claim.
      r_bind (require_bundle_claim bundle_claims bundle_id CK_LOCATION) (\<lambda>location_claim.
      r_bind (projection_fields_for_bundle records_by_bundle_id bundle_id) (\<lambda>pf.
      r_bind (py_index (clm_key activity_claim) 1) (\<lambda>raw_row_ref.
      r_bind (activity_id (clm_activity_label activity_claim) raw_row_ref) (\<lambda>fact_id.
      r_bind (sort_by_result (\<lambda>l. leg_slot_from_id (leg_leg_id l))
        (dict_get legs_by_event_id (ev_event_id e) [])) (\<lambda>leg_records.
      r_bind (r_map (compatibility_leg activity_claim (index_by clm_claim_id
        (filter (\<lambda>c. clm_kind c = CK_INSTRUMENT) bundle_claims))) leg_records) (\<lambda>legs.
      r_bind (py_index (clm_member_refs activity_claim) 0) (\<lambda>member_id.
      r_bind (source_slug_for_member_id es member_id) (\<lambda>source.
      r_bind (semantics_of_fields pf) (\<lambda>semantics.
      r_bind (raw_file_for_member_id es member_id) (\<lambda>raw_file.
      r_bind (mk_transaction_fact
        \<lparr>tf_fact_id = fact_id, tf_source = source, tf_adapter_id = ''coinbase'',
         tf_timestamp = ev_effective_at e, tf_location_id = clm_location_ref location_claim,
         tf_semantics = semantics, tf_legs = legs,
         tf_leg_policy = leg_policy_for_activity (clm_activity_label activity_claim),
         tf_description = pf_description pf,
         tf_provider_operation_key = provider_operation_key (clm_activity_label activity_claim),
         tf_operation_group_id = pf_operation_group_id pf,
         tf_tx_hash = (if pf_tx_hash pf = [] then None else Some (pf_tx_hash pf)),
         tf_raw_file = raw_file, tf_raw_row_ref = raw_row_ref,
         tf_confidence = pf_confidence pf, tf_status = pf_status pf,
         tf_effective_at = Some (ev_effective_at e),
         tf_effective_precision = clm_precision activity_claim\<rparr>) (\<lambda>f.
        Inr (f, \<lparr>fa_fact_id = fact_id, fa_provenance_refs = clm_provenance_refs activity_claim,
          fa_review_markers = pf_review_markers pf, fa_adapter_metadata = pf_adapter_metadata pf\<rparr>))))))))))))))"

definition project_compatibility_artifacts_from_economic_facts ::
    "economic_facts \<Rightarrow> claim_set \<Rightarrow> evidence_set \<Rightarrow> projection_fields list \<Rightarrow> fact_artifacts result" where
  "project_compatibility_artifacts_from_economic_facts facts cs es records =
     (if cset_claim_set_id cs \<notin> set (ef_claim_set_refs facts) then
        Inl (ValueError ''economic facts compatibility requires matching claim_set lineage'')
      else
        let records_by_bundle_id = index_by pf_claim_bundle_id records;
            claims_by_bundle_id = group_by clm_bundle_id (cset_claim_records cs);
            legs_by_event_id = group_by leg_event_id (ef_economic_leg_records facts)
        in
        r_bind (sort_by_result (\<lambda>e. r_bind (projection_fields_for_bundle records_by_bundle_id
            (ev_claim_bundle_id e)) (\<lambda>pf. Inr (pf_draft_order pf))) (ef_economic_event_records facts)) (\<lambda>ordered_events.
        r_bind (r_map (\<lambda>e. fact_of_event (dict_get claims_by_bundle_id (ev_claim_bundle_id e) [])
            records_by_bundle_id legs_by_event_id es e) ordered_events) (\<lambda>pairs.
          Inr \<lparr>art_facts = map fst pairs, art_annotations = map snd pairs\<rparr>)))"

end
