(* ===== verification/Target_Products.thy ===== *)
theory Target_Products
  imports Translation_Inputs Execution_Plans Effects Fact_Projections Economics_Builder Reconciliation_Builder Checkpoint_Builder
begin

text \<open>
  \<open>kernel_reuse.py\<close>, \<open>runtime.py\<close>, \<open>detail_outputs.py\<close>, \<open>signatures.py\<close>, \<open>cleanup.py\<close> and \<open>service.py\<close> under
  \<open>application/normalization/target_products\<close> with the product paths of \<open>application/capture_paths.py\<close>:
  one execution of the target products over the stored files of a workspace. Reconciliation states
  and checkpoints go through the same steps in the code, line by line; here they are two values of
  the record \<open>stage\<close>. A stored file holds the value that reading it returns; paths are relative to
  the workspace root, without symbolic links.
\<close>

section \<open>Paths\<close>

fun product_family :: "product_kind \<Rightarrow> string" where
  "product_family ECONOMIC_FACTS = ''economic_facts''"
| "product_family RECONCILIATION_STATE = ''reconciliation_states''"
| "product_family CHECKPOINT = ''checkpoints''"

definition product_root :: "product_kind \<Rightarrow> string \<Rightarrow> string" where
  "product_root kind product_id = ''working/products/'' @ product_family kind @ ''/'' @ product_id"

definition product_ref :: "product_kind \<Rightarrow> string \<Rightarrow> string" where
  "product_ref kind product_id = product_root kind product_id @ ''/'' @ product_name kind @ ''.json''"

definition facts_path :: "string \<Rightarrow> string" where
  "facts_path product_id = product_root ECONOMIC_FACTS product_id @ ''/compatibility/facts.csv''"

definition annotations_path :: "string \<Rightarrow> string" where
  "annotations_path product_id = product_root ECONOMIC_FACTS product_id @ ''/compatibility/fact_annotations.json''"

definition rows_path :: "product_kind \<Rightarrow> string \<Rightarrow> string" where
  "rows_path kind product_id = product_root kind product_id @
     (if kind = CHECKPOINT then ''/compatibility/balance_references.csv'' else ''/compatibility/balance_snapshots.csv'')"

definition ALLOWED_PRODUCT_REF_FILENAMES :: "(string, string) dict" where
  "ALLOWED_PRODUCT_REF_FILENAMES =
     [(''evidence_sets'', ''evidence_set.json''), (''claim_sets'', ''claim_set.json''),
      (''economic_facts'', ''economic_facts.json''), (''reconciliation_states'', ''reconciliation_state.json''),
      (''checkpoints'', ''checkpoint.json'')]"

definition product_root_from_ref :: "string \<Rightarrow> string option" where
  "product_root_from_ref ref =
     (let parts = posix_parts ref in
      if starts_with ref ''/'' \<or> ''..'' \<in> set parts \<or> length parts \<noteq> 5 \<or>
        take 2 parts \<noteq> [''working'', ''products''] \<or>
        map_of ALLOWED_PRODUCT_REF_FILENAMES (parts ! 2) \<noteq> Some (last parts)
      then None else Some (join ''/'' (butlast parts)))"

section \<open>Stored files\<close>

type_synonym 'a files = "(string, 'a stored_file) dict"

definition is_file :: "'a files \<Rightarrow> string \<Rightarrow> bool" where
  "is_file files p \<longleftrightarrow> map_of files p \<noteq> None"

definition write_file :: "string \<Rightarrow> 'a \<Rightarrow> 'a files \<Rightarrow> 'a files" where
  "write_file p x files = AList.update p (Readable x) files"

text \<open>\<open>shutil.rmtree\<close> of a product root; an empty directory is not told from an absent one.\<close>

definition remove_tree :: "string \<Rightarrow> 'a files \<Rightarrow> 'a files" where
  "remove_tree tree files = filter (\<lambda>(p, _). \<not> starts_with p (tree @ ''/'')) files"

record ('k, 'r) product_store =
  ps_kernels :: "'k files"
  ps_rows :: "'r list files"

record workspace =
  ws_economic_facts :: "economic_facts files"
  ws_facts :: "transaction_fact list files"
  ws_annotations :: "fact_annotation list files"
  ws_states :: "(reconciliation_state, balance_snapshot) product_store"
  ws_checkpoints :: "(checkpoint, balance_reference) product_store"
  ws_summary :: "string stored_file option"

definition prune_store :: "string \<Rightarrow> ('k, 'r) product_store \<Rightarrow> ('k, 'r) product_store" where
  "prune_store tree s =
     s\<lparr>ps_kernels := remove_tree tree (ps_kernels s), ps_rows := remove_tree tree (ps_rows s)\<rparr>"

definition prune_product_root :: "string \<Rightarrow> workspace \<Rightarrow> workspace" where
  "prune_product_root ref ws =
     (case product_root_from_ref ref of
        None \<Rightarrow> ws
      | Some tree \<Rightarrow>
          ws\<lparr>ws_economic_facts := remove_tree tree (ws_economic_facts ws),
             ws_facts := remove_tree tree (ws_facts ws),
             ws_annotations := remove_tree tree (ws_annotations ws),
             ws_states := prune_store tree (ws_states ws),
             ws_checkpoints := prune_store tree (ws_checkpoints ws)\<rparr>)"

definition prune_product_roots :: "string list \<Rightarrow> workspace \<Rightarrow> workspace" where
  "prune_product_roots refs ws = fold prune_product_root refs ws"

section \<open>Signatures\<close>

definition row_json :: "row \<Rightarrow> json" where
  "row_json r = JObject (map (\<lambda>(k, v). (k, JString v)) r)"

definition claim_set_execution_fingerprint :: "claim_set \<Rightarrow> string result" where
  "claim_set_execution_fingerprint cs =
     r_bind (claim_set_payload cs) (\<lambda>payload.
       Inr (hash_payload (JObject
         [(''signature_version'', JString ''claim-set-execution-v1''), (''claim_set'', payload),
          (''target_product_signature_version'', JString SIGNATURE_VERSION)])))"

definition artifacts_signature :: "fact_artifacts \<Rightarrow> string result" where
  "artifacts_signature projection =
     r_bind (r_map fact_to_row (art_facts projection)) (\<lambda>rows.
       Inr (hash_payload (JObject
         [(''signature_version'', JString ''economic-facts-compatibility-v1''),
          (''facts'', JArray (map row_json rows)),
          (''fact_annotations'', JArray (map annotation_to_json (art_annotations projection)))])))"

definition economic_facts_compatibility_signature ::
    "economic_facts \<Rightarrow> claim_set \<Rightarrow> evidence_set \<Rightarrow> projection_fields list \<Rightarrow> string result" where
  "economic_facts_compatibility_signature facts cs es records =
     r_bind (project_compatibility_artifacts_from_economic_facts facts cs es records) artifacts_signature"

definition rows_signature :: "string \<Rightarrow> string \<Rightarrow> ('r \<Rightarrow> row result) \<Rightarrow> 'r list \<Rightarrow> string result" where
  "rows_signature version key to_row records =
     r_bind (r_map to_row records) (\<lambda>rows.
       Inr (hash_payload (JObject
         [(''signature_version'', JString version), (key, JArray (map row_json rows))])))"

section \<open>Stages\<close>

record ('k, 'r) stage =
  sg_kind :: product_kind
  sg_id :: "'k \<Rightarrow> string"
  sg_fingerprint :: "'k \<Rightarrow> string result"
  sg_project :: "'k \<Rightarrow> 'r list result"
  sg_rows_signature :: "'r list \<Rightarrow> string result"

definition reconciliation_stage :: "(reconciliation_state, balance_snapshot) stage" where
  "reconciliation_stage =
     \<lparr>sg_kind = RECONCILIATION_STATE, sg_id = rs_reconciliation_state_id,
      sg_fingerprint = reconciliation_state_fingerprint,
      sg_project = project_balance_snapshots_from_reconciliation_state,
      sg_rows_signature = rows_signature ''reconciliation-state-snapshot-v1'' ''balance_snapshots'' snapshot_to_row\<rparr>"

definition checkpoint_stage ::
    "reconciliation_state list \<Rightarrow> evidence_set \<Rightarrow> (checkpoint, balance_reference) stage" where
  "checkpoint_stage states es =
     \<lparr>sg_kind = CHECKPOINT, sg_id = ck_checkpoint_id, sg_fingerprint = checkpoint_fingerprint,
      sg_project = (\<lambda>c. project_balance_references_from_checkpoint c states (observation_details_from_evidence_set es)),
      sg_rows_signature = rows_signature ''checkpoint-reference-v1'' ''balance_references'' reference_to_row\<rparr>"

definition stage_ref :: "('k, 'r) stage \<Rightarrow> 'k \<Rightarrow> string" where
  "stage_ref sg k = product_ref (sg_kind sg) (sg_id sg k)"

definition stage_rows_path :: "('k, 'r) stage \<Rightarrow> 'k \<Rightarrow> string" where
  "stage_rows_path sg k = rows_path (sg_kind sg) (sg_id sg k)"

text \<open>\<open>reconciliation_state_snapshot_signature\<close> and \<open>checkpoint_reference_signature\<close>.\<close>

definition stage_signature :: "('k, 'r) stage \<Rightarrow> 'k \<Rightarrow> string result" where
  "stage_signature sg k = r_bind (sg_project sg k) (sg_rows_signature sg)"

section \<open>Reuse of kernels\<close>

record kernel_validation =
  kv_unreadable :: "string set"
  kv_mismatch :: "string set"
  kv_validated :: "string set"

definition kv_empty :: kernel_validation where
  "kv_empty = \<lparr>kv_unreadable = {}, kv_mismatch = {}, kv_validated = {}\<rparr>"

definition kv_invalid :: "kernel_validation \<Rightarrow> string set" where
  "kv_invalid kv = kv_unreadable kv \<union> kv_mismatch kv"

definition read_prior_kernel ::
    "('k, 'r) stage \<Rightarrow> 'k files \<Rightarrow> execution_decision \<Rightarrow> 'k list \<times> kernel_validation \<Rightarrow>
      ('k list \<times> kernel_validation) result" where
  "read_prior_kernel sg files d acc =
     (let (kernels, kv) = acc in
      case map_of files (xd_ref d) of
        Some (Readable k) \<Rightarrow>
          r_bind (sg_fingerprint sg k) (\<lambda>fingerprint.
            if fingerprint \<noteq> xd_fingerprint d then
              Inr (kernels, kv\<lparr>kv_mismatch := insert (xd_ref d) (kv_mismatch kv)\<rparr>)
            else Inr (kernels @ [k], kv))
      | _ \<Rightarrow> Inr (kernels, kv\<lparr>kv_unreadable := insert (xd_ref d) (kv_unreadable kv)\<rparr>))"

definition resolve_kernels ::
    "('k, 'r) stage \<Rightarrow> bool \<Rightarrow> 'k files \<Rightarrow> execution_decision list \<Rightarrow> 'k list result \<Rightarrow>
      ('k list \<times> kernel_validation) result" where
  "resolve_kernels sg can_use_prior files prior_decisions build_current =
     (if \<not> can_use_prior then r_bind build_current (\<lambda>ks. Inr (ks, kv_empty))
      else
        r_bind (r_fold (read_prior_kernel sg files) prior_decisions ([], kv_empty)) (\<lambda>(kernels, kv).
        if kv_invalid kv \<noteq> {} then r_bind build_current (\<lambda>ks. Inr (ks, kv))
        else Inr (kernels, kv\<lparr>kv_validated := set (map xd_ref prior_decisions) - kv_invalid kv\<rparr>)))"

definition can_use_prior_states ::
    "update_mode \<Rightarrow> execution_plan option \<Rightarrow> string \<Rightarrow> string option \<Rightarrow> evidence_set \<Rightarrow> bool \<Rightarrow>
      reconciliation_state files \<Rightarrow> bool" where
  "can_use_prior_states mode prior_plan fingerprint prior_evidence_set_id es economic_facts_reused files \<longleftrightarrow>
     mode \<noteq> REBUILD \<and> map_option xp_claim_set_fingerprint prior_plan = Some fingerprint \<and>
     prior_evidence_set_id = Some (eset_evidence_set_id es) \<and> economic_facts_reused \<and>
     prior_states prior_plan \<noteq> [] \<and> list_all (\<lambda>d. is_file files (xd_ref d)) (prior_states prior_plan)"

definition can_use_prior_checkpoints ::
    "update_mode \<Rightarrow> execution_plan option \<Rightarrow> string \<Rightarrow> bool \<Rightarrow> checkpoint files \<Rightarrow> bool" where
  "can_use_prior_checkpoints mode prior_plan fingerprint reconciliation_states_reused files \<longleftrightarrow>
     mode \<noteq> REBUILD \<and> map_option xp_claim_set_fingerprint prior_plan = Some fingerprint \<and>
     reconciliation_states_reused \<and>
     list_all (\<lambda>d. is_file files (xd_ref d)) (prior_checkpoints prior_plan)"

definition validate_kernel_ref ::
    "('k, 'r) stage \<Rightarrow> 'k files \<Rightarrow> string \<Rightarrow> execution_decision option \<Rightarrow> kernel_validation \<Rightarrow>
      kernel_validation result" where
  "validate_kernel_ref sg files ref prior kv =
     (case prior of
        None \<Rightarrow> Inr kv
      | Some d \<Rightarrow>
          if ref \<in> kv_invalid kv \<or> ref \<in> kv_validated kv \<or> \<not> is_file files ref then Inr kv
          else
            (case map_of files ref of
               Some (Readable k) \<Rightarrow>
                 r_bind (sg_fingerprint sg k) (\<lambda>fingerprint.
                   if fingerprint \<noteq> xd_fingerprint d then Inr (kv\<lparr>kv_mismatch := insert ref (kv_mismatch kv)\<rparr>)
                   else Inr (kv\<lparr>kv_validated := insert ref (kv_validated kv)\<rparr>))
             | _ \<Rightarrow> Inr (kv\<lparr>kv_unreadable := insert ref (kv_unreadable kv)\<rparr>)))"

section \<open>Resolving a stage\<close>

type_synonym 'r stage_run = "kernel_validation \<times> 'r list \<times> execution_decision list"

definition refresh_rows :: "('k, 'r) stage \<Rightarrow> 'k \<Rightarrow> (('k, 'r) product_store, 'r list) io" where
  "refresh_rows sg k =
     io_bind (io_lift (sg_project sg k)) (\<lambda>records.
     io_bind (io_update (\<lambda>s. s\<lparr>ps_rows := write_file (stage_rows_path sg k) records (ps_rows s)\<rparr>)) (\<lambda>_.
       io_return records))"

text \<open>The rows of a product, read or refreshed, with the action that was taken in the end.\<close>

definition resolve_rows ::
    "('k, 'r) stage \<Rightarrow> 'k \<Rightarrow> stage_action \<Rightarrow> (('k, 'r) product_store, stage_action \<times> 'r list) io" where
  "resolve_rows sg k rows_action =
     (if rows_action = REFRESHED then
        io_bind (refresh_rows sg k) (\<lambda>records. io_return (REFRESHED, records))
      else io_bind (io_get (\<lambda>s. map_of (ps_rows s) (stage_rows_path sg k))) (\<lambda>stored.
        case stored of
          Some (Readable records) \<Rightarrow> io_return (rows_action, records)
        | _ \<Rightarrow> io_bind (refresh_rows sg k) (\<lambda>records. io_return (REFRESHED, records))))"

definition kernel_action_for ::
    "update_mode \<Rightarrow> 'k files \<Rightarrow> kernel_validation \<Rightarrow> string \<Rightarrow> execution_decision option \<Rightarrow> string \<Rightarrow> stage_action" where
  "kernel_action_for mode files kv ref prior current_fingerprint =
     decide_kernel_action mode
       (if ref \<in> kv_invalid kv then None else map_option xd_fingerprint prior) current_fingerprint
       (is_file files ref \<and> ref \<notin> kv_invalid kv) False"

definition resolve_kernel ::
    "('k, 'r) stage \<Rightarrow> update_mode \<Rightarrow> (string, execution_decision) dict \<Rightarrow> 'k \<Rightarrow> 'r stage_run \<Rightarrow>
      (('k, 'r) product_store, 'r stage_run) io" where
  "resolve_kernel sg mode prior_by_ref k acc =
     (let (kv, all_rows, decisions) = acc; ref = stage_ref sg k; prior = map_of prior_by_ref ref in
      io_bind (io_get ps_kernels) (\<lambda>files.
      io_bind (io_lift (validate_kernel_ref sg files ref prior kv)) (\<lambda>kv.
      io_bind (io_lift (sg_fingerprint sg k)) (\<lambda>current_fingerprint.
      let kernel_action = kernel_action_for mode files kv ref prior current_fingerprint in
      io_bind (if kernel_action = REBUILT
          then io_update (\<lambda>s. s\<lparr>ps_kernels := write_file ref k (ps_kernels s)\<rparr>) else io_return ()) (\<lambda>_.
      io_bind (io_lift (stage_signature sg k)) (\<lambda>current_signature.
      io_bind (io_get ps_rows) (\<lambda>row_files.
      let rows_action = decide_detail_action (is_file row_files) mode kernel_action
            (map_option xd_signature prior) current_signature [stage_rows_path sg k]
      in
      io_bind (resolve_rows sg k rows_action) (\<lambda>(rows_action, records).
        io_return (kv, all_rows @ records, decisions @
          [\<lparr>xd_id = sg_id sg k, xd_ref = ref, xd_fingerprint = current_fingerprint,
            xd_kernel_action = kernel_action, xd_detail_action = rows_action,
            xd_signature = current_signature\<rparr>])))))))))"

definition resolve_stage ::
    "('k, 'r) stage \<Rightarrow> update_mode \<Rightarrow> ('k files \<Rightarrow> bool) \<Rightarrow> execution_decision list \<Rightarrow> 'k list result \<Rightarrow>
      (('k, 'r) product_store, 'k list \<times> execution_decision list \<times> 'r list) io" where
  "resolve_stage sg mode can_use_prior prior_decisions build_current =
     io_bind (io_get ps_kernels) (\<lambda>files.
     io_bind (io_lift (resolve_kernels sg (can_use_prior files) files prior_decisions build_current)) (\<lambda>(kernels, kv).
     io_bind (io_fold (resolve_kernel sg mode (index_by xd_ref prior_decisions)) kernels (kv, [], [])) (\<lambda>(_, records, decisions).
       io_return (kernels, decisions, records))))"

definition resolve_reconciliation_states where
  "resolve_reconciliation_states mode prior_plan fingerprint prior_evidence_set_id cs es facts economic_facts_reused =
     resolve_stage reconciliation_stage mode
       (can_use_prior_states mode prior_plan fingerprint prior_evidence_set_id es economic_facts_reused)
       (prior_states prior_plan) (build_reconciliation_states facts cs es)"

definition resolve_checkpoints where
  "resolve_checkpoints mode prior_plan fingerprint es states reconciliation_states_reused =
     resolve_stage (checkpoint_stage states es) mode
       (can_use_prior_checkpoints mode prior_plan fingerprint reconciliation_states_reused)
       (prior_checkpoints prior_plan) (build_checkpoints states)"

section \<open>Resolving the economic facts\<close>

record economic_kernel =
  ek_facts :: economic_facts
  ek_fingerprint :: string
  ek_ref :: string
  ek_invalid :: bool
  ek_built :: bool

definition can_use_prior_facts ::
    "update_mode \<Rightarrow> execution_plan option \<Rightarrow> string \<Rightarrow> economic_facts files \<Rightarrow> bool" where
  "can_use_prior_facts mode prior_plan fingerprint files \<longleftrightarrow>
     mode \<noteq> REBUILD \<and> map_option xp_claim_set_fingerprint prior_plan = Some fingerprint \<and>
     (case Option.bind prior_plan xp_economic_facts of None \<Rightarrow> False | Some d \<Rightarrow> is_file files (xd_ref d))"

text \<open>Building from the claim set; an existing file at the new place is compared.\<close>

definition build_economic_kernel ::
    "claim_set \<Rightarrow> economic_facts files \<Rightarrow> bool \<Rightarrow> bool \<Rightarrow> economic_kernel result" where
  "build_economic_kernel cs files can_use_prior invalid =
     r_bind (build_economic_facts cs) (\<lambda>facts.
     r_bind (economic_facts_fingerprint facts) (\<lambda>fingerprint.
     let ref = product_ref ECONOMIC_FACTS (ef_economic_facts_id facts) in
     r_bind (if \<not> can_use_prior \<and> is_file files ref then
         (case map_of files ref of
            Some (Readable stored) \<Rightarrow>
              r_bind (economic_facts_fingerprint stored) (\<lambda>f. Inr (invalid \<or> f \<noteq> fingerprint))
          | _ \<Rightarrow> Inr True)
       else Inr invalid) (\<lambda>invalid.
       Inr \<lparr>ek_facts = facts, ek_fingerprint = fingerprint, ek_ref = ref, ek_invalid = invalid,
         ek_built = True\<rparr>)))"

definition resolve_economic_facts_kernel ::
    "update_mode \<Rightarrow> execution_plan option \<Rightarrow> string \<Rightarrow> claim_set \<Rightarrow> economic_facts files \<Rightarrow> economic_kernel result" where
  "resolve_economic_facts_kernel mode prior_plan fingerprint cs files =
     (case Option.bind prior_plan xp_economic_facts of
        Some d \<Rightarrow>
          if can_use_prior_facts mode prior_plan fingerprint files then
            (case map_of files (xd_ref d) of
               Some (Readable facts) \<Rightarrow>
                 r_bind (economic_facts_fingerprint facts) (\<lambda>f.
                   if f = xd_fingerprint d then
                     Inr \<lparr>ek_facts = facts, ek_fingerprint = f, ek_ref = xd_ref d, ek_invalid = False,
                       ek_built = False\<rparr>
                   else build_economic_kernel cs files True True)
             | _ \<Rightarrow> build_economic_kernel cs files True True)
          else build_economic_kernel cs files False False
      | None \<Rightarrow> build_economic_kernel cs files False False)"

definition refresh_economic_facts_compatibility ::
    "economic_facts \<Rightarrow> claim_set \<Rightarrow> evidence_set \<Rightarrow> projection_fields list \<Rightarrow> (workspace, fact_artifacts) io" where
  "refresh_economic_facts_compatibility facts cs es records =
     io_bind (io_lift (project_compatibility_artifacts_from_economic_facts facts cs es records)) (\<lambda>projection.
     io_bind (io_update (\<lambda>ws. ws\<lparr>
         ws_facts := write_file (facts_path (ef_economic_facts_id facts)) (art_facts projection) (ws_facts ws),
         ws_annotations := write_file (annotations_path (ef_economic_facts_id facts))
           (art_annotations projection) (ws_annotations ws)\<rparr>)) (\<lambda>_.
       io_return projection))"

definition resolve_compatibility ::
    "economic_facts \<Rightarrow> claim_set \<Rightarrow> evidence_set \<Rightarrow> projection_fields list \<Rightarrow> stage_action \<Rightarrow>
      (workspace, stage_action \<times> fact_artifacts) io" where
  "resolve_compatibility facts cs es records action =
     (let refresh = io_bind (refresh_economic_facts_compatibility facts cs es records)
            (\<lambda>projection. io_return (REFRESHED, projection))
      in if action = REFRESHED then refresh
         else io_bind (io_get (\<lambda>ws. (map_of (ws_facts ws) (facts_path (ef_economic_facts_id facts)),
             map_of (ws_annotations ws) (annotations_path (ef_economic_facts_id facts))))) (\<lambda>stored.
           case stored of
             (Some (Readable fs), Some (Readable annotations)) \<Rightarrow>
               io_return (action, \<lparr>art_facts = fs, art_annotations = annotations\<rparr>)
           | _ \<Rightarrow> refresh))"

definition resolve_economic_facts ::
    "update_mode \<Rightarrow> execution_plan option \<Rightarrow> string \<Rightarrow> claim_set \<Rightarrow> evidence_set \<Rightarrow> projection_fields list \<Rightarrow>
      (workspace, economic_facts \<times> execution_decision \<times> fact_artifacts) io" where
  "resolve_economic_facts mode prior_plan fingerprint cs es records =
     (let prior = Option.bind prior_plan xp_economic_facts in
      io_bind (io_get ws_economic_facts) (\<lambda>files.
      io_bind (io_lift (resolve_economic_facts_kernel mode prior_plan fingerprint cs files)) (\<lambda>ek.
      let facts = ek_facts ek; ref = ek_ref ek;
          kernel_action = decide_kernel_action mode
            (if ek_invalid ek then None else map_option xd_fingerprint prior) (ek_fingerprint ek)
            (is_file files ref \<and> \<not> ek_invalid ek) False
      in
      io_bind (if kernel_action = REBUILT then
          io_bind (io_lift (r_require (ek_built ek) (AssertionError []))) (\<lambda>_.
          io_update (\<lambda>ws. ws\<lparr>ws_economic_facts := write_file
            (product_ref ECONOMIC_FACTS (ef_economic_facts_id facts)) facts (ws_economic_facts ws)\<rparr>))
        else io_return ()) (\<lambda>_.
      io_bind (io_lift (economic_facts_compatibility_signature facts cs es records)) (\<lambda>current_signature.
      io_bind (io_get (\<lambda>ws. is_file (ws_facts ws) (facts_path (ef_economic_facts_id facts)) \<and>
          is_file (ws_annotations ws) (annotations_path (ef_economic_facts_id facts)))) (\<lambda>details_exist.
      let action = decide_detail_action (\<lambda>_. details_exist) mode kernel_action
            (case prior of None \<Rightarrow> None
             | Some d \<Rightarrow> if xd_ref d \<noteq> ref then None else Some (xd_signature d)) current_signature
            [facts_path (ef_economic_facts_id facts), annotations_path (ef_economic_facts_id facts)]
      in
      io_bind (resolve_compatibility facts cs es records action) (\<lambda>(action, projection).
        io_return (facts,
          \<lparr>xd_id = ef_economic_facts_id facts, xd_ref = ref, xd_fingerprint = ek_fingerprint ek,
           xd_kernel_action = kernel_action, xd_detail_action = action, xd_signature = current_signature\<rparr>,
          projection))))))))"

section \<open>One execution\<close>

text \<open>\<open>TranslationExecutionResult\<close> without the batch and the statement documents.\<close>

record translation_products =
  tp_metrics :: translation_metrics
  tp_evidence_set_id :: string
  tp_evidence_set_ref :: string
  tp_claim_set_id :: string
  tp_claim_set_ref :: string
  tp_evidence_set :: "evidence_set option"
  tp_claim_set :: "claim_set option"
  tp_projection_fields :: "projection_fields list"

record execution_result =
  xr_economic_facts_id :: string
  xr_economic_facts_ref :: string
  xr_reconciliation_state_ids :: "string list"
  xr_reconciliation_state_refs :: "string list"
  xr_checkpoint_ids :: "string list"
  xr_checkpoint_refs :: "string list"
  xr_facts :: "transaction_fact list"
  xr_fact_annotations :: "fact_annotation list"
  xr_balance_snapshots :: "balance_snapshot list"
  xr_balance_references :: "balance_reference list"
  xr_summary :: execution_summary
  xr_plan :: execution_plan
  xr_update_mode :: update_mode

definition pruned_economic_facts_refs :: "execution_plan option \<Rightarrow> string \<Rightarrow> string list" where
  "pruned_economic_facts_refs prior_plan current_ref =
     (case Option.bind prior_plan xp_economic_facts of
        None \<Rightarrow> []
      | Some d \<Rightarrow> if xd_ref d \<in> {[], current_ref} then [] else [xd_ref d])"

definition summary_with_economic_prunes :: "execution_summary \<Rightarrow> string list \<Rightarrow> execution_summary" where
  "summary_with_economic_prunes summary refs =
     (if refs = [] then summary else summary\<lparr>xs_pruned_count := xs_pruned_count summary + length refs\<rparr>)"

definition load_prior_summary_id :: "string stored_file option \<Rightarrow> string \<Rightarrow> string option result" where
  "load_prior_summary_id summary key =
     r_bind (read_summary_payload summary) (\<lambda>payload.
       Inr (case Option.bind payload (\<lambda>p. map_of p key) of
           Some (JString s) \<Rightarrow> if s = [] then None else Some s
         | _ \<Rightarrow> None))"

definition empty_execution_plan :: "update_mode \<Rightarrow> execution_plan option \<Rightarrow> execution_plan" where
  "empty_execution_plan mode prior_plan =
     \<lparr>xp_signature_version = SIGNATURE_VERSION, xp_update_mode_requested = update_mode_text mode,
      xp_update_mode_effective = update_mode_text mode, xp_claim_set_fingerprint = [],
      xp_economic_facts = None, xp_reconciliation_states = [], xp_checkpoints = [],
      xp_pruned_reconciliation_state_refs = map xd_ref (prior_states prior_plan),
      xp_pruned_checkpoint_refs = map xd_ref (prior_checkpoints prior_plan)\<rparr>"

definition empty_execution ::
    "update_mode \<Rightarrow> execution_plan option \<Rightarrow> (workspace, execution_result) io" where
  "empty_execution mode prior_plan =
     (let plan = empty_execution_plan mode prior_plan; facts_refs = pruned_economic_facts_refs prior_plan [] in
      io_bind (io_update (prune_product_roots (facts_refs @ xp_pruned_reconciliation_state_refs plan @
          xp_pruned_checkpoint_refs plan))) (\<lambda>_.
      io_return
        \<lparr>xr_economic_facts_id = [], xr_economic_facts_ref = [], xr_reconciliation_state_ids = [],
         xr_reconciliation_state_refs = [], xr_checkpoint_ids = [], xr_checkpoint_refs = [], xr_facts = [],
         xr_fact_annotations = [], xr_balance_snapshots = [], xr_balance_references = [],
         xr_summary = summary_with_economic_prunes (summarize_target_product_execution plan) facts_refs,
         xr_plan = plan, xr_update_mode = mode\<rparr>))"

text \<open>What the execution prunes and returns once all products are resolved.\<close>

definition finish_execution ::
    "update_mode \<Rightarrow> execution_plan option \<Rightarrow> string \<Rightarrow> economic_facts \<times> execution_decision \<times> fact_artifacts \<Rightarrow>
      reconciliation_state list \<times> execution_decision list \<times> balance_snapshot list \<Rightarrow>
      checkpoint list \<times> execution_decision list \<times> balance_reference list \<Rightarrow>
      (workspace, execution_result) io" where
  "finish_execution mode prior_plan fingerprint =
     (\<lambda>(facts, facts_decision, projection) (states, state_decisions, snapshots)
        (checkpoints, checkpoint_decisions, references).
     let state_refs = pruned_refs (map xd_ref (prior_states prior_plan)) (map xd_ref state_decisions);
         checkpoint_refs = pruned_refs (map xd_ref (prior_checkpoints prior_plan)) (map xd_ref checkpoint_decisions);
         facts_refs = pruned_economic_facts_refs prior_plan (xd_ref facts_decision);
         plan = \<lparr>xp_signature_version = SIGNATURE_VERSION, xp_update_mode_requested = update_mode_text mode,
           xp_update_mode_effective = update_mode_text mode, xp_claim_set_fingerprint = fingerprint,
           xp_economic_facts = Some facts_decision, xp_reconciliation_states = state_decisions,
           xp_checkpoints = checkpoint_decisions, xp_pruned_reconciliation_state_refs = state_refs,
           xp_pruned_checkpoint_refs = checkpoint_refs\<rparr>
     in
     io_bind (io_update (prune_product_roots (facts_refs @ state_refs @ checkpoint_refs))) (\<lambda>_.
     io_return
       \<lparr>xr_economic_facts_id = ef_economic_facts_id facts, xr_economic_facts_ref = xd_ref facts_decision,
        xr_reconciliation_state_ids = map rs_reconciliation_state_id states,
        xr_reconciliation_state_refs = map xd_ref state_decisions,
        xr_checkpoint_ids = map ck_checkpoint_id checkpoints,
        xr_checkpoint_refs = map xd_ref checkpoint_decisions,
        xr_facts = art_facts projection, xr_fact_annotations = art_annotations projection,
        xr_balance_snapshots = sort_key (\<lambda>s. balance_target_match_key (bs_target s)) snapshots,
        xr_balance_references = sort_key reference_order_key references,
        xr_summary = summary_with_economic_prunes (summarize_target_product_execution plan) facts_refs,
        xr_plan = plan, xr_update_mode = mode\<rparr>))"

definition full_execution ::
    "update_mode \<Rightarrow> execution_plan option \<Rightarrow> string option \<Rightarrow> claim_set \<Rightarrow> evidence_set \<Rightarrow> projection_fields list \<Rightarrow>
      (workspace, execution_result) io" where
  "full_execution mode prior_plan prior_evidence_set_id cs es records =
     io_bind (io_lift (claim_set_execution_fingerprint cs)) (\<lambda>fingerprint.
     io_bind (resolve_economic_facts mode prior_plan fingerprint cs es records) (\<lambda>facts_run.
     io_bind (io_on ws_states (\<lambda>s ws. ws\<lparr>ws_states := s\<rparr>)
         (resolve_reconciliation_states mode prior_plan fingerprint prior_evidence_set_id cs es (fst facts_run)
           (xd_kernel_action (fst (snd facts_run)) = REUSED))) (\<lambda>states_run.
     io_bind (io_on ws_checkpoints (\<lambda>s ws. ws\<lparr>ws_checkpoints := s\<rparr>)
         (resolve_checkpoints mode prior_plan fingerprint es (fst states_run)
           (list_all (\<lambda>d. xd_kernel_action d = REUSED) (fst (snd states_run))))) (\<lambda>checkpoints_run.
       finish_execution mode prior_plan fingerprint facts_run states_run checkpoints_run))))"

definition build_target_product_execution ::
    "update_mode \<Rightarrow> translation_products \<Rightarrow> (workspace, execution_result) io" where
  "build_target_product_execution mode translation =
     io_bind (io_get ws_summary) (\<lambda>summary.
     io_bind (io_lift (load_prior_target_product_execution summary)) (\<lambda>prior_plan.
     io_bind (io_lift (load_prior_summary_id summary ''evidence_set_id'')) (\<lambda>prior_evidence_set_id.
       case (tp_claim_set translation, tp_evidence_set translation) of
         (Some cs, Some es) \<Rightarrow>
           if tp_claim_set_ref translation = [] then empty_execution mode prior_plan
           else full_execution mode prior_plan prior_evidence_set_id cs es (tp_projection_fields translation)
       | _ \<Rightarrow> empty_execution mode prior_plan)))"

end
