(* ===== verification/Normalization_Summary.thy ===== *)
theory Normalization_Summary
  imports Target_Products Provenance Location_Ids
begin

text \<open>
  \<open>models.py\<close>, \<open>contracts.py\<close>, \<open>summary.py\<close> and \<open>window.py\<close> under \<open>application/normalization\<close>, the location
  part of \<open>annotations.py\<close> and \<open>LocationInventoryRecord\<close> of \<open>ports/evidence.py\<close>: what a normalization
  run puts out and the summary it writes.
\<close>

section \<open>Outputs\<close>

record location_inventory_record =
  li_source :: string
  li_location_id :: string
  li_location_kind :: location_kind
  li_location_label :: string
  li_identifier_kind :: string
  li_identifier_value :: string
  li_evidence_provenance :: provenance_locator
  li_parent_location_id :: "string option"
  li_location_path :: "string list"
  li_capture_uid :: string
  li_capture_label :: string
  li_capture_root_ref :: string
  li_normalized_identifier :: string
  li_display_identifier :: string
  li_network_scope :: string
  li_controller :: string
  li_parent_location_label :: string
  li_evidence_kind :: string
  li_confidence :: string
  li_notes :: string
  li_adapter_metadata :: "adapter_metadata list"

definition location_inventory_to_row :: "location_inventory_record \<Rightarrow> row" where
  "location_inventory_to_row l =
     [(''source'', li_source l), (''capture_uid'', li_capture_uid l), (''capture_label'', li_capture_label l),
      (''capture_root_ref'', li_capture_root_ref l), (''location_id'', li_location_id l),
      (''location_kind'', location_kind_text (li_location_kind l)), (''location_label'', li_location_label l),
      (''parent_location_id'', (case li_parent_location_id l of None \<Rightarrow> [] | Some p \<Rightarrow> p)),
      (''location_path'', join '' / '' (li_location_path l)), (''identifier_kind'', li_identifier_kind l),
      (''normalized_identifier'',
        if li_normalized_identifier l \<noteq> [] then li_normalized_identifier l else li_identifier_value l),
      (''display_identifier'',
        if li_display_identifier l \<noteq> [] then li_display_identifier l else li_identifier_value l),
      (''network_scope'', li_network_scope l), (''controller'', li_controller l),
      (''parent_location_label'', li_parent_location_label l), (''evidence_kind'', li_evidence_kind l)] @
     to_flat_dict ''evidence'' (li_evidence_provenance l) @
     [(''confidence'', li_confidence l), (''identifier_value'', li_identifier_value l), (''notes'', li_notes l)]"

record location_annotation =
  la_location_id :: string
  la_adapter_metadata :: "adapter_metadata list"

definition location_annotation_to_json :: "location_annotation \<Rightarrow> json" where
  "location_annotation_to_json a =
     JObject
       [(''location_id'', JString (la_location_id a)),
        (''adapter_metadata'', JArray (map metadata_to_json (la_adapter_metadata a)))]"

definition location_annotation_records :: "location_inventory_record list \<Rightarrow> location_annotation list" where
  "location_annotation_records inventory =
     map (\<lambda>l. \<lparr>la_location_id = li_location_id l, la_adapter_metadata = li_adapter_metadata l\<rparr>)
       (filter (\<lambda>l. li_adapter_metadata l \<noteq> []) inventory)"

record normalization_outputs =
  no_facts :: "transaction_fact list"
  no_fact_annotations :: "fact_annotation list"
  no_location_annotations :: "location_annotation list"
  no_balance_snapshots :: "balance_snapshot list"
  no_balance_references :: "balance_reference list"
  no_balance_reference_issues :: "issue_record list"
  no_issues :: "issue_record list"
  no_reviews :: "normalization_review_record list"
  no_location_inventory :: "location_inventory_record list"

record window_stats =
  wst_facts_outside_window :: nat
  wst_issues_outside_window :: nat
  wst_reviews_outside_window :: nat

record normalize_request =
  nr_source :: string
  nr_raw_capture_ref :: string
  nr_normalized_output_ref :: string
  nr_update_mode :: update_mode
  nr_window_start :: "string option"
  nr_window_end :: "string option"
  nr_inspect_archives :: bool

section \<open>The window of a run\<close>

definition window_bound :: "string option \<Rightarrow> datetime option result" where
  "window_bound bound =
     (case bound of
        None \<Rightarrow> Inr None
      | Some text \<Rightarrow> if text = [] then Inr None else r_bind (parse_timestamp text) (\<lambda>t. Inr (Some t)))"

definition outside_bounds :: "datetime option \<Rightarrow> datetime option \<Rightarrow> datetime \<Rightarrow> bool" where
  "outside_bounds start_dt end_dt t \<longleftrightarrow>
     (case start_dt of None \<Rightarrow> False | Some s \<Rightarrow> t < s) \<or> (case end_dt of None \<Rightarrow> False | Some e \<Rightarrow> e < t)"

definition no_window :: "string option \<Rightarrow> string option \<Rightarrow> bool" where
  "no_window window_start window_end \<longleftrightarrow> window_start \<in> {None, Some []} \<and> window_end \<in> {None, Some []}"

text \<open>
  The three filters share their shape: records outside are counted, in the order of the records; what
  \<open>keep\<close> says of a record may raise.
\<close>

fun split_window :: "('a \<Rightarrow> bool result) \<Rightarrow> 'a list \<Rightarrow> ('a list \<times> nat) result" where
  "split_window keep [] = Inr ([], 0)"
| "split_window keep (x # xs) =
     r_bind (keep x) (\<lambda>inside.
     r_bind (split_window keep xs) (\<lambda>(kept, excluded_count).
       Inr (if inside then (x # kept, excluded_count) else (kept, Suc excluded_count))))"

definition filter_by_window ::
    "(datetime option \<Rightarrow> datetime option \<Rightarrow> 'a \<Rightarrow> bool result) \<Rightarrow> string option \<Rightarrow> string option \<Rightarrow> 'a list \<Rightarrow>
      ('a list \<times> nat) result" where
  "filter_by_window keep window_start window_end records =
     (if no_window window_start window_end then Inr (records, 0)
      else
        r_bind (window_bound window_start) (\<lambda>start_dt.
        r_bind (window_bound window_end) (\<lambda>end_dt.
          split_window (keep start_dt end_dt) records)))"

definition timestamp_inside :: "datetime option \<Rightarrow> datetime option \<Rightarrow> string \<Rightarrow> bool result" where
  "timestamp_inside start_dt end_dt text =
     r_bind (parse_timestamp text) (\<lambda>t. Inr (\<not> outside_bounds start_dt end_dt t))"

definition issue_inside :: "datetime option \<Rightarrow> datetime option \<Rightarrow> issue_record \<Rightarrow> bool result" where
  "issue_inside start_dt end_dt i =
     (if iss_context_timestamp i = [] then Inr (iss_raw_file i = [] \<and> iss_raw_row_ref i = [])
      else timestamp_inside start_dt end_dt (iss_context_timestamp i))"

definition review_inside :: "datetime option \<Rightarrow> datetime option \<Rightarrow> normalization_review_record \<Rightarrow> bool result" where
  "review_inside start_dt end_dt r =
     (if nrr_scope r = ''dataset'' then Inr True
      else if nrr_context_timestamp r = [] then Inr False
      else timestamp_inside start_dt end_dt (nrr_context_timestamp r))"

definition filter_issues_by_window where
  "filter_issues_by_window = filter_by_window issue_inside"

definition filter_reviews_by_window where
  "filter_reviews_by_window = filter_by_window review_inside"

section \<open>The summary\<close>

definition review_summary :: "normalization_review_record list \<Rightarrow> json" where
  "review_summary reviews =
     JArray (map (\<lambda>(scope, kind).
         let matching = filter (\<lambda>r. nrr_scope r = scope \<and> nrr_kind r = kind) reviews in
         JObject
           [(''scope'', JString scope), (''kind'', JString kind), (''count'', JInt (int (length matching))),
            (''field_names'', texts_json (sorted_distinct (filter (\<lambda>n. n \<noteq> []) (map nrr_field_name matching)))),
            (''messages'', texts_json (sorted_distinct (map nrr_message matching)))])
       (sorted_distinct (map (\<lambda>r. (nrr_scope r, nrr_kind r)) reviews)))"

definition count_json :: "'a list \<Rightarrow> json" where
  "count_json xs = JInt (int (length xs))"

definition summary_members ::
    "normalize_request \<Rightarrow> string \<Rightarrow> normalization_outputs \<Rightarrow> window_stats \<Rightarrow> translation_products \<Rightarrow>
      execution_result \<Rightarrow> (string \<times> json) list" where
  "summary_members request adapter_id outputs stats translation r =
     [(''source'', JString (nr_source request)), (''adapter_id'', JString adapter_id),
      (''evidence_set_id'', JString (tp_evidence_set_id translation)),
      (''evidence_set_ref'', JString (tp_evidence_set_ref translation)),
      (''economic_facts_id'', JString (xr_economic_facts_id r)),
      (''economic_facts_ref'', JString (xr_economic_facts_ref r)),
      (''reconciliation_state_ids'', texts_json (xr_reconciliation_state_ids r)),
      (''reconciliation_state_refs'', texts_json (xr_reconciliation_state_refs r)),
      (''checkpoint_ids'', texts_json (xr_checkpoint_ids r)),
      (''checkpoint_refs'', texts_json (xr_checkpoint_refs r)),
      (''fact_count'', count_json (no_facts outputs)),
      (''snapshot_count'', count_json (no_balance_snapshots outputs)),
      (''reference_count'', count_json (no_balance_references outputs)),
      (''reference_issue_count'', count_json (no_balance_reference_issues outputs)),
      (''issue_count'', count_json (no_issues outputs)), (''review_count'', count_json (no_reviews outputs)),
      (''review_summary'', review_summary (no_reviews outputs)),
      (''location_count'', count_json (no_location_inventory outputs)),
      (''facts_outside_normalization_window'', JInt (int (wst_facts_outside_window stats))),
      (''issues_outside_normalization_window'', JInt (int (wst_issues_outside_window stats))),
      (''reviews_outside_normalization_window'', JInt (int (wst_reviews_outside_window stats))),
      (''normalization_window_start'', JString (case nr_window_start request of None \<Rightarrow> [] | Some s \<Rightarrow> s)),
      (''normalization_window_end'', JString (case nr_window_end request of None \<Rightarrow> [] | Some s \<Rightarrow> s)),
      (''translation_candidate_count'', JInt (int (tm_candidate_count (tp_metrics translation)))),
      (''translation_selected_count'', JInt (int (tm_selected_count (tp_metrics translation)))),
      (''translation_superseded_count'', JInt (int (tm_superseded_count (tp_metrics translation)))),
      (''translation_blocked_count'', JInt (int (tm_blocked_count (tp_metrics translation)))),
      (''translation_planner_used'', JBool (tm_planner_used (tp_metrics translation)))] @
     (if adapter_id = ''coinbase'' then
        [(''claim_set_id'', JString (tp_claim_set_id translation)), (''claim_set_ref'', JString (tp_claim_set_ref translation))]
      else [])"

definition build_normalization_summary ::
    "normalize_request \<Rightarrow> string \<Rightarrow> normalization_outputs \<Rightarrow> window_stats \<Rightarrow> translation_products \<Rightarrow>
      execution_result \<Rightarrow> json" where
  "build_normalization_summary request adapter_id outputs stats translation r =
     JObject (summary_members request adapter_id outputs stats translation r @
       [(''target_product_execution'', execution_plan_payload (xr_plan r))])"

lemma wf_texts: "wf_json (texts_json ss)"
  by (simp add: texts_json_def list_all_iff)

lemma wf_decision_payload: "wf_json (execution_decision_payload kind d)"
  by (cases kind) (simp_all add: execution_decision_payload_def)

lemma wf_plan_payload: "wf_json (execution_plan_payload p)"
  by (auto simp: execution_plan_payload_def wf_texts wf_decision_payload list_all_iff split: option.split)

lemma wf_review_summary: "wf_json (review_summary reviews)"
  by (auto simp: review_summary_def Let_def list_all_iff wf_texts)

lemma wf_summary: "wf_json (build_normalization_summary request adapter_id outputs stats translation r)"
  by (cases "adapter_id = ''coinbase''")
    (simp_all add: build_normalization_summary_def summary_members_def count_json_def wf_texts wf_plan_payload
      wf_review_summary)

text \<open>What the next run reads of the summary.\<close>

lemma summary_read:
  assumes "xp_signature_version (xr_plan r) = SIGNATURE_VERSION"
  shows "load_prior_target_product_execution (Some (Readable (json_file_text
      (build_normalization_summary request adapter_id outputs stats translation r)))) = Inr (Some (xr_plan r))"
  unfolding build_normalization_summary_def
  by (rule summary_plan [OF wf_summary [unfolded build_normalization_summary_def] assms])
    (simp add: summary_members_def)

lemma summary_evidence_id:
  "\<exists>pid. load_prior_summary_id (Some (Readable (json_file_text
      (build_normalization_summary request adapter_id outputs stats translation r)))) ''evidence_set_id'' = Inr pid"
proof -
  obtain raw where "read_summary_payload (Some (Readable (json_file_text
      (build_normalization_summary request adapter_id outputs stats translation r)))) = Inr (Some raw)"
    using summary_fields [OF wf_summary [unfolded build_normalization_summary_def]]
    unfolding build_normalization_summary_def by blast
  then show ?thesis by (simp add: load_prior_summary_id_def)
qed

end
