(* ===== verification/Activity_Drafts.thy ===== *)
theory Activity_Drafts
  imports Balance_Derivation Instruments Normalization_Summary
begin

text \<open>
  \<open>ports/source_translation.py\<close> and \<open>application/facts/compiler.py\<close> with the draft parts of
  \<open>application/normalization/window.py\<close> and \<open>annotations.py\<close>: what an adapter emits for one activity,
  and how drafts are compiled into transaction facts, or into issues and reviews when a leg does not
  resolve to one instrument.
\<close>

section \<open>Drafts\<close>

record activity_classification =
  cl_economic_kind :: economic_kind
  cl_projection_hint :: "projection_hint option"
  cl_accounting_intent_hint :: accounting_intent_hint
  cl_tax_treatment_hint :: tax_treatment_hint

record economic_leg_draft =
  ld_leg_id :: string
  ld_kind :: leg_kind
  ld_instrument_identity_claims :: "instrument_identity_claim list"
  ld_quantity :: decimal
  ld_subtype :: "string option"
  ld_attributed_to_leg_id :: "string option"
  ld_location_id :: "string option"

definition leg_of_draft :: "string \<Rightarrow> economic_leg_draft \<Rightarrow> economic_leg" where
  "leg_of_draft instrument_id l =
     \<lparr>el_leg_id = ld_leg_id l, el_kind = ld_kind l, el_instrument_id = instrument_id, el_quantity = ld_quantity l,
      el_subtype = ld_subtype l, el_attributed_to_leg_id = ld_attributed_to_leg_id l,
      el_location_id = ld_location_id l\<rparr>"

definition placeholder :: string where
  "placeholder = ''draft:placeholder''"

definition mk_economic_leg_draft :: "economic_leg_draft \<Rightarrow> economic_leg_draft result" where
  "mk_economic_leg_draft l =
     (if ld_instrument_identity_claims l = [] then
        Inl (ValueError ''draft leg must include at least one instrument identity claim'')
      else r_bind (mk_economic_leg (leg_of_draft placeholder l)) (\<lambda>_. Inr l))"

record economic_activity_draft =
  ed_activity_id :: string
  ed_source :: string
  ed_adapter_id :: string
  ed_timestamp :: datetime
  ed_location_id :: string
  ed_classification :: activity_classification
  ed_legs :: "economic_leg_draft list"
  ed_leg_policy :: fact_leg_policy
  ed_effective_at :: "datetime option"
  ed_effective_precision :: "temporal_precision option"
  ed_description :: string
  ed_raw_file :: string
  ed_raw_row_ref :: string
  ed_tx_hash :: string
  ed_provider_operation_key :: string
  ed_operation_group_id :: string
  ed_provenance_refs :: "string list"
  ed_review_markers :: "string list"
  ed_adapter_metadata :: "adapter_metadata list"
  ed_confidence :: string
  ed_status :: string

definition fact_of_draft :: "economic_activity_draft \<Rightarrow> economic_leg list \<Rightarrow> transaction_fact" where
  "fact_of_draft d legs =
     \<lparr>tf_fact_id = ed_activity_id d, tf_source = ed_source d, tf_adapter_id = ed_adapter_id d,
      tf_timestamp = ed_timestamp d, tf_location_id = ed_location_id d,
      tf_semantics = \<lparr>fs_economic_kind = cl_economic_kind (ed_classification d),
        fs_accounting_intent_hint = cl_accounting_intent_hint (ed_classification d),
        fs_tax_treatment_hint = cl_tax_treatment_hint (ed_classification d),
        fs_projection_hint = cl_projection_hint (ed_classification d)\<rparr>,
      tf_legs = legs, tf_leg_policy = ed_leg_policy d, tf_description = ed_description d,
      tf_provider_operation_key = ed_provider_operation_key d,
      tf_operation_group_id = ed_operation_group_id d,
      tf_tx_hash = (if ed_tx_hash d = [] then None else Some (ed_tx_hash d)),
      tf_raw_file = ed_raw_file d, tf_raw_row_ref = ed_raw_row_ref d, tf_confidence = ed_confidence d,
      tf_status = ed_status d, tf_effective_at = ed_effective_at d,
      tf_effective_precision = ed_effective_precision d\<rparr>"

definition validated_transaction_fact :: "economic_activity_draft \<Rightarrow> transaction_fact result" where
  "validated_transaction_fact d =
     r_bind (r_map (\<lambda>l. mk_economic_leg (leg_of_draft placeholder l)) (ed_legs d)) (\<lambda>legs.
       mk_transaction_fact (fact_of_draft d legs))"

definition checked_draft_effective :: "economic_activity_draft \<Rightarrow> economic_activity_draft result" where
  "checked_draft_effective d =
     (case ed_effective_at d of
        None \<Rightarrow>
          if ed_effective_precision d \<noteq> None then
            Inl (ValueError ''economic activity draft effective_precision requires effective_at'')
          else Inr d
      | Some t \<Rightarrow>
          (case ed_effective_precision d of
             None \<Rightarrow> Inl (ValueError ''economic activity draft effective_at requires effective_precision'')
           | Some p \<Rightarrow>
               r_bind (require_temporal_datetime t p ''economic activity draft effective_at'') (\<lambda>t.
                 Inr (d\<lparr>ed_effective_at := Some t\<rparr>))))"

definition mk_economic_activity_draft :: "economic_activity_draft \<Rightarrow> economic_activity_draft result" where
  "mk_economic_activity_draft d =
     r_bind (require_utc_datetime (ed_timestamp d) ''economic activity draft timestamp'') (\<lambda>timestamp.
     r_bind (require_location_id (ed_location_id d) ''economic activity draft location_id'') (\<lambda>loc.
     r_bind (checked_draft_effective (d\<lparr>ed_timestamp := timestamp, ed_location_id := loc\<rparr>)) (\<lambda>d.
     if ed_legs d = [] then Inl (ValueError ''draft must include at least one leg'')
     else r_bind (validated_transaction_fact d) (\<lambda>_. Inr d))))"

record activity_draft_seed =
  se_activity_id :: string
  se_timestamp :: datetime
  se_leg_policy :: fact_leg_policy
  se_effective_at :: "datetime option"
  se_effective_precision :: "temporal_precision option"
  se_description :: string
  se_raw_file :: string
  se_raw_row_ref :: string
  se_tx_hash :: string
  se_provider_operation_key :: string
  se_operation_group_id :: string
  se_provenance_refs :: "string list"
  se_review_markers :: "string list"
  se_adapter_metadata :: "adapter_metadata list"
  se_confidence :: string
  se_status :: string

definition mk_activity_draft_seed :: "activity_draft_seed \<Rightarrow> activity_draft_seed result" where
  "mk_activity_draft_seed s =
     r_bind (require_utc_datetime (se_timestamp s) ''activity draft seed timestamp'') (\<lambda>timestamp.
     let s = s\<lparr>se_timestamp := timestamp\<rparr> in
     case se_effective_at s of
       None \<Rightarrow>
         if se_effective_precision s \<noteq> None then
           Inl (ValueError ''activity draft seed effective_precision requires effective_at'')
         else Inr s
     | Some t \<Rightarrow>
         (case se_effective_precision s of
            None \<Rightarrow> Inl (ValueError ''activity draft seed effective_at requires effective_precision'')
          | Some p \<Rightarrow>
              r_bind (require_temporal_datetime t p ''activity draft seed effective_at'') (\<lambda>t.
                Inr (s\<lparr>se_effective_at := Some t\<rparr>))))"

record source_translation_batch =
  tb_drafts :: "economic_activity_draft list"
  tb_balance_references :: "balance_reference list"
  tb_balance_reference_issues :: "issue_record list"
  tb_issues :: "issue_record list"
  tb_reviews :: "normalization_review_record list"
  tb_location_inventory :: "location_inventory_record list"

record location_draft =
  lcd_location_id :: string
  lcd_location_kind :: location_kind
  lcd_label :: string
  lcd_parent_location_id :: "string option"
  lcd_path :: "string list"

definition mk_location_draft :: "location_draft \<Rightarrow> location_draft result" where
  "mk_location_draft l =
     r_bind (require_location_id (lcd_location_id l) ''location draft location_id'') (\<lambda>loc.
     let l = l\<lparr>lcd_location_id := loc\<rparr> in
     case lcd_parent_location_id l of
       None \<Rightarrow> Inr l
     | Some p \<Rightarrow> r_bind (require_location_id p ''location draft parent_location_id'') (\<lambda>p.
         Inr (l\<lparr>lcd_parent_location_id := Some p\<rparr>)))"

definition location_draft_to_record :: "location_draft \<Rightarrow> location_record result" where
  "location_draft_to_record l =
     mk_location_record
       \<lparr>lr_location_id = lcd_location_id l, lr_location_kind = lcd_location_kind l, lr_label = lcd_label l,
        lr_parent_location_id = lcd_parent_location_id l, lr_path = lcd_path l\<rparr>"

text \<open>The instrument of a leg: a symbol, one claim or several.\<close>

datatype instrument_argument =
    InstrumentSymbol string
  | InstrumentClaim instrument_identity_claim
  | InstrumentClaims "instrument_identity_claim list"

definition symbol_claim ::
    "string \<Rightarrow> string \<Rightarrow> instrument_kind \<Rightarrow> int option \<Rightarrow> string option \<Rightarrow> instrument_identity_claim result" where
  "symbol_claim v display_name kind_hint precision_hint venue =
     mk_instrument_identity_claim
       \<lparr>ic_scheme = ''symbol'', ic_value = v, ic_venue = venue, ic_kind_hint = kind_hint,
        ic_display_name = display_name, ic_precision_hint = precision_hint\<rparr>"

definition identity_claims :: "instrument_argument \<Rightarrow> instrument_identity_claim list result" where
  "identity_claims instrument =
     (case instrument of
        InstrumentClaims cs \<Rightarrow> Inr cs
      | InstrumentClaim c \<Rightarrow> Inr [c]
      | InstrumentSymbol s \<Rightarrow> r_bind (symbol_claim s [] IK_UNKNOWN None None) (\<lambda>c. Inr [c]))"

definition economic_leg_draft_of ::
    "string \<Rightarrow> leg_kind \<Rightarrow> decimal \<Rightarrow> instrument_argument \<Rightarrow> string option \<Rightarrow> string option \<Rightarrow> string option \<Rightarrow>
      economic_leg_draft result" where
  "economic_leg_draft_of leg_id kind quantity instrument subtype attributed_to_leg_id location_id =
     r_bind (identity_claims instrument) (\<lambda>claims.
       mk_economic_leg_draft
         \<lparr>ld_leg_id = leg_id, ld_kind = kind, ld_instrument_identity_claims = claims, ld_quantity = quantity,
          ld_subtype = subtype, ld_attributed_to_leg_id = attributed_to_leg_id, ld_location_id = location_id\<rparr>)"

section \<open>Drafts in a run\<close>

definition draft_inside ::
    "datetime option \<Rightarrow> datetime option \<Rightarrow> economic_activity_draft \<Rightarrow> bool result" where
  "draft_inside start_dt end_dt d = Inr (\<not> outside_bounds start_dt end_dt (ed_timestamp d))"

definition filter_drafts_by_window where
  "filter_drafts_by_window = filter_by_window draft_inside"

definition annotation_records_from_drafts :: "economic_activity_draft list \<Rightarrow> fact_annotation list" where
  "annotation_records_from_drafts drafts =
     map (\<lambda>d. \<lparr>fa_fact_id = ed_activity_id d, fa_provenance_refs = ed_provenance_refs d,
       fa_review_markers = ed_review_markers d, fa_adapter_metadata = ed_adapter_metadata d\<rparr>) drafts"

section \<open>Compilation\<close>

definition blocking_identity_issue :: "economic_activity_draft \<Rightarrow> string \<Rightarrow> issue_record result" where
  "blocking_identity_issue d leg_id =
     r_bind (format_timestamp (ed_timestamp d)) (\<lambda>stamp.
       Inr \<lparr>iss_issue_id = ed_activity_id d @ '':'' @ leg_id @ '':instrument_identity_blocked'',
         iss_source = ed_source d, iss_adapter_id = ed_adapter_id d, iss_severity = ''high'',
         iss_kind = ''instrument_identity_blocked'',
         iss_message = ''Activity '' @ ed_activity_id d @ '' could not resolve leg '' @ leg_id @
           '' to exactly one instrument.'',
         iss_context_timestamp = stamp, iss_raw_file = ed_raw_file d, iss_raw_provenance = None,
         iss_raw_row_ref = ed_raw_row_ref d, iss_status = ''open''\<rparr>)"

definition identity_claim_text :: "instrument_identity_claim \<Rightarrow> string" where
  "identity_claim_text c =
     ic_scheme c @ ''='' @ ic_value c @
     (case ic_venue c of None \<Rightarrow> [] | Some v \<Rightarrow> if v = [] then [] else ''@'' @ v)"

definition identity_review ::
    "economic_activity_draft \<Rightarrow> string \<Rightarrow> instrument_identity_claim list \<Rightarrow> normalization_review_record result" where
  "identity_review d leg_id claims =
     r_bind (format_timestamp (ed_timestamp d)) (\<lambda>stamp.
       Inr \<lparr>nrr_review_id = ed_activity_id d @ '':'' @ leg_id @ '':instrument_identity_review'',
         nrr_source = ed_source d, nrr_adapter_id = ed_adapter_id d, nrr_scope = ''activity'',
         nrr_kind = ''instrument_identity_review'',
         nrr_message = ''Review required for leg '' @ leg_id @ '' instrument identity claims.'',
         nrr_context_timestamp = stamp, nrr_raw_file = ed_raw_file d, nrr_raw_provenance = None,
         nrr_raw_row_ref = ed_raw_row_ref d, nrr_field_name = ''instrument_identity_claims'',
         nrr_original_value = join '', '' (map identity_claim_text claims), nrr_normalized_value = [],
         nrr_status = ''needs_review''\<rparr>)"

record draft_compilation =
  dc_facts :: "transaction_fact list"
  dc_issues :: "issue_record list"
  dc_reviews :: "normalization_review_record list"

definition compile_leg ::
    "economic_activity_draft \<Rightarrow> economic_leg_draft \<Rightarrow>
      issue_record list \<times> normalization_review_record list \<times> economic_leg list \<Rightarrow>
      (issue_record list \<times> normalization_review_record list \<times> economic_leg list) result" where
  "compile_leg d l acc =
     (let (issues, reviews, legs) = acc in
      r_bind (resolve_instrument_identity (ld_instrument_identity_claims l)) (\<lambda>resolution.
        case resolution of
          None \<Rightarrow>
            r_bind (blocking_identity_issue d (ld_leg_id l)) (\<lambda>issue.
            r_bind (identity_review d (ld_leg_id l) (ld_instrument_identity_claims l)) (\<lambda>review.
              Inr (issues @ [issue], reviews @ [review], legs)))
        | Some resolved \<Rightarrow>
            r_bind (mk_economic_leg (leg_of_draft (ir_instrument_id (ri_instrument resolved)) l)) (\<lambda>leg.
              Inr (issues, reviews, legs @ [leg]))))"

definition compile_activity_draft ::
    "economic_activity_draft \<Rightarrow>
      (transaction_fact option \<times> issue_record list \<times> normalization_review_record list) result" where
  "compile_activity_draft d =
     r_bind (r_fold (compile_leg d) (ed_legs d) ([], [], [])) (\<lambda>(issues, reviews, legs).
       if issues \<noteq> [] \<or> reviews \<noteq> [] then Inr (None, issues, reviews)
       else r_bind (mk_transaction_fact (fact_of_draft d legs)) (\<lambda>f. Inr (Some f, [], [])))"

definition compile_step ::
    "economic_activity_draft \<Rightarrow> draft_compilation \<Rightarrow> draft_compilation result" where
  "compile_step d acc =
     r_bind (compile_activity_draft d) (\<lambda>(compiled_fact, issues, reviews).
       Inr \<lparr>dc_facts = dc_facts acc @ (case compiled_fact of None \<Rightarrow> [] | Some f \<Rightarrow> [f]),
         dc_issues = dc_issues acc @ issues, dc_reviews = dc_reviews acc @ reviews\<rparr>)"

definition compile_activity_drafts_with_feedback ::
    "economic_activity_draft list \<Rightarrow> draft_compilation result" where
  "compile_activity_drafts_with_feedback drafts =
     r_fold compile_step drafts \<lparr>dc_facts = [], dc_issues = [], dc_reviews = []\<rparr>"

definition compile_activity_drafts :: "economic_activity_draft list \<Rightarrow> transaction_fact list result" where
  "compile_activity_drafts drafts =
     r_bind (compile_activity_drafts_with_feedback drafts) (\<lambda>c. Inr (dc_facts c))"

definition transaction_fact_from_draft :: "economic_activity_draft \<Rightarrow> transaction_fact result" where
  "transaction_fact_from_draft d =
     r_bind (compile_activity_draft d) (\<lambda>(f, issues, reviews).
       case f of
         Some f \<Rightarrow> if issues \<noteq> [] \<or> reviews \<noteq> [] then
             Inl (ValueError (''draft '' @ ed_activity_id d @ '' did not resolve to a fact''))
           else Inr f
       | None \<Rightarrow> Inl (ValueError (''draft '' @ ed_activity_id d @ '' did not resolve to a fact'')))"

definition transaction_facts_from_drafts :: "economic_activity_draft list \<Rightarrow> transaction_fact list result" where
  "transaction_facts_from_drafts drafts = r_map transaction_fact_from_draft drafts"

end
