(* ===== verification/Input_Overlap.thy ===== *)
theory Input_Overlap
  imports Translation_Inputs
begin

text \<open>
  \<open>application/normalization/translation_inputs/overlap.py\<close>: how two coverage windows relate, and
  the connected components of the overlap graph, which the code finds with an explicit stack. The
  loop terminates because every round either shortens the stack or marks a new candidate; the
  components are the classes of the reflexive transitive closure of overlapping. Only candidates
  that passed validation get here, so all bounds are UTC and the comparisons cannot raise.
\<close>

section \<open>Coverage windows\<close>

definition MIN_COVERAGE_BOUND :: datetime where
  "MIN_COVERAGE_BOUND = DateTime 1 1 1 0 0 0 0 (Some 0)"

definition MAX_COVERAGE_BOUND :: datetime where
  "MAX_COVERAGE_BOUND = DateTime 9999 12 31 23 59 59 999999 (Some 0)"

definition coverage_start :: "coverage_window \<Rightarrow> datetime" where
  "coverage_start w = (case cw_start_at w of None \<Rightarrow> MIN_COVERAGE_BOUND | Some t \<Rightarrow> t)"

definition coverage_end :: "coverage_window \<Rightarrow> datetime" where
  "coverage_end w = (case cw_end_at w of None \<Rightarrow> MAX_COVERAGE_BOUND | Some t \<Rightarrow> t)"

definition coverage_bounds :: "coverage_window \<Rightarrow> (datetime \<times> datetime) option" where
  "coverage_bounds w =
     (if cw_mode w = COVERAGE_UNKNOWN then None else Some (coverage_start w, coverage_end w))"

datatype coverage_relation_kind =
  DISJOINT | EQUAL | CONTAINS | WITHIN | PARTIAL | UNKNOWN_RELATION

definition coverage_relation :: "coverage_window \<Rightarrow> coverage_window \<Rightarrow> coverage_relation_kind" where
  "coverage_relation left right =
     (case (coverage_bounds left, coverage_bounds right) of
        (Some (left_start, left_end), Some (right_start, right_end)) \<Rightarrow>
          let ls = instant left_start; le = instant left_end;
              rs = instant right_start; re = instant right_end
          in if le < rs \<or> re < ls then DISJOINT
             else if ls = rs \<and> le = re \<and> cw_mode left = cw_mode right then EQUAL
             else if ls \<le> rs \<and> le \<ge> re then CONTAINS
             else if rs \<le> ls \<and> re \<ge> le then WITHIN
             else PARTIAL
      | _ \<Rightarrow> UNKNOWN_RELATION)"

definition winner_contains_all_candidates :: "candidate \<Rightarrow> candidate list \<Rightarrow> bool" where
  "winner_contains_all_candidates winner candidates =
     (case coverage_bounds (cand_coverage winner) of
        None \<Rightarrow> False
      | Some (winner_start, winner_end) \<Rightarrow>
          list_all (\<lambda>c. case coverage_bounds (cand_coverage c) of
              None \<Rightarrow> False
            | Some (start, stop) \<Rightarrow>
                \<not> (instant winner_start > instant start \<or> instant winner_end < instant stop))
            candidates)"

section \<open>The overlap graph\<close>

text \<open>\<open>itertools.combinations(xs, 2)\<close>.\<close>

fun pairs_of :: "'a list \<Rightarrow> ('a \<times> 'a) list" where
  "pairs_of [] = []"
| "pairs_of (x # xs) = map (Pair x) xs @ pairs_of xs"

type_synonym adjacency = "(string, string list) dict"

definition add_neighbour :: "string \<Rightarrow> string \<Rightarrow> adjacency \<Rightarrow> adjacency" where
  "add_neighbour i j adj = AList.update i (List.insert j (dict_get adj i [])) adj"

definition overlaps :: "candidate \<Rightarrow> candidate \<Rightarrow> bool" where
  "overlaps a b \<longleftrightarrow> coverage_relation (cand_coverage a) (cand_coverage b) \<noteq> DISJOINT"

definition overlap_adjacency :: "candidate list \<Rightarrow> adjacency" where
  "overlap_adjacency candidates =
     fold (\<lambda>(left, right) adj.
         if \<not> overlaps left right then adj
         else add_neighbour (cand_id right) (cand_id left) (add_neighbour (cand_id left) (cand_id right) adj))
       (pairs_of candidates) (map (\<lambda>i. (i, [])) (remdups (map cand_id candidates)))"

text \<open>
  The inner loop. The head of the list is the top of the stack: \<open>stack.extend(sorted(...))\<close>
  followed by \<open>stack.pop()\<close> takes the greatest new neighbour first.
\<close>

function component_ids ::
    "adjacency \<Rightarrow> string list \<Rightarrow> string list \<Rightarrow> string list \<Rightarrow> string list \<times> string list" where
  "component_ids adj [] seen ids = (seen, ids)"
| "component_ids adj (i # stack) seen ids =
     (if i \<in> set seen then component_ids adj stack seen ids
      else component_ids adj
        (rev (sort (filter (\<lambda>j. j \<notin> set (i # seen)) (dict_get adj i []))) @ stack) (i # seen) (ids @ [i]))"
  by pat_completeness auto

lemma unmarked_decreases:
  assumes "i \<notin> set seen"
  shows "card (fst ` set adj - set (i # seen)) < card (fst ` set adj - set seen) \<or>
    dict_get adj i [] = [] \<and> card (fst ` set adj - set (i # seen)) = card (fst ` set adj - set seen)"
proof (cases "i \<in> fst ` set adj")
  case True
  then have "fst ` set adj - set (i # seen) \<subset> fst ` set adj - set seen" using assms by auto
  then show ?thesis by (simp add: psubset_card_mono)
next
  case False
  then have "map_of adj i = None" by (simp add: map_of_eq_None_iff)
  moreover have "fst ` set adj - set (i # seen) = fst ` set adj - set seen" using False by auto
  ultimately show ?thesis by (simp add: dict_get_def)
qed

termination component_ids
proof (relation "measures [\<lambda>(adj, stack, seen, ids). card (fst ` set adj - set seen),
    \<lambda>(adj, stack, seen, ids). length stack]", goal_cases)
  case 1
  show ?case by simp
next
  case (2 adj i stack seen ids)
  then show ?case by simp
next
  case (3 adj i stack seen ids)
  then show ?case using unmarked_decreases [of i seen adj] by auto
qed

definition components_step ::
    "adjacency \<Rightarrow> (string, candidate) dict \<Rightarrow> candidate \<Rightarrow> string list \<times> candidate list list \<Rightarrow>
      string list \<times> candidate list list" where
  "components_step adj candidate_by_id c st =
     (if cand_id c \<in> set (fst st) then st
      else
        (let (seen, ids) = component_ids adj [cand_id c] (fst st) []
         in (seen, snd st @ [sort_key cand_id (List.map_filter (map_of candidate_by_id) ids)])))"

definition overlap_components :: "candidate list \<Rightarrow> candidate list list" where
  "overlap_components candidates =
     snd (fold (components_step (overlap_adjacency candidates) (index_by cand_id candidates))
       candidates ([], []))"

section \<open>The stack loop finds what is reachable\<close>

definition edges :: "adjacency \<Rightarrow> (string \<times> string) set" where
  "edges adj = {(i, j). j \<in> set (dict_get adj i [])}"

lemma component_ids_run:
  assumes "component_ids adj stack seen ids = (seen', ids')"
  shows "\<exists>new. ids' = ids @ new \<and> set seen' = set seen \<union> set new \<and> distinct new \<and>
    set new \<inter> set seen = {} \<and> set stack \<subseteq> set seen' \<and> set new \<subseteq> (edges adj)\<^sup>* `` set stack \<and>
    edges adj `` set new \<subseteq> set seen'"
  using assms
proof (induction adj stack seen ids rule: component_ids.induct)
  case (1 adj seen ids)
  then show ?case by auto
next
  case (2 adj i stack seen ids)
  show ?case
  proof (cases "i \<in> set seen")
    case True
    then have "component_ids adj stack seen ids = (seen', ids')" using "2.prems" by simp
    then obtain new where new: "ids' = ids @ new" "set seen' = set seen \<union> set new" "distinct new"
        "set new \<inter> set seen = {}" "set stack \<subseteq> set seen'" "set new \<subseteq> (edges adj)\<^sup>* `` set stack"
        "edges adj `` set new \<subseteq> set seen'"
      using "2.IH"(1) [OF True] by blast
    have "set new \<subseteq> (edges adj)\<^sup>* `` set (i # stack)" using new(6) by auto
    moreover have "set (i # stack) \<subseteq> set seen'" using new(2,5) True by auto
    ultimately show ?thesis using new(1-4,7) by (intro exI [of _ new] conjI)
  next
    case False
    let ?next = "rev (sort (filter (\<lambda>j. j \<notin> set (i # seen)) (dict_get adj i [])))"
    have "component_ids adj (?next @ stack) (i # seen) (ids @ [i]) = (seen', ids')"
      using "2.prems" False by simp
    then obtain new where new: "ids' = (ids @ [i]) @ new" "set seen' = set (i # seen) \<union> set new"
        "distinct new" "set new \<inter> set (i # seen) = {}" "set (?next @ stack) \<subseteq> set seen'"
        "set new \<subseteq> (edges adj)\<^sup>* `` set (?next @ stack)" "edges adj `` set new \<subseteq> set seen'"
      using "2.IH"(2) [OF False] by blast
    have next_edges: "set ?next \<subseteq> edges adj `` {i}" by (auto simp: edges_def)
    have reach: "(edges adj)\<^sup>* `` set (?next @ stack) \<subseteq> (edges adj)\<^sup>* `` set (i # stack)"
    proof
      fix k assume "k \<in> (edges adj)\<^sup>* `` set (?next @ stack)"
      then obtain j where j: "j \<in> set ?next \<or> j \<in> set stack" "(j, k) \<in> (edges adj)\<^sup>*" by auto
      then show "k \<in> (edges adj)\<^sup>* `` set (i # stack)"
        using next_edges by (auto intro: converse_rtrancl_into_rtrancl)
    qed
    have "edges adj `` {i} \<subseteq> set seen'"
    proof
      fix j assume "j \<in> edges adj `` {i}"
      then have "j \<in> set (i # seen) \<or> j \<in> set ?next" by (auto simp: edges_def)
      then show "j \<in> set seen'" using new(2,5) by auto
    qed
    then have "edges adj `` set (i # new) \<subseteq> set seen'" using new(7) by auto
    moreover have "set (i # new) \<subseteq> (edges adj)\<^sup>* `` set (i # stack)" using new(6) reach by auto
    ultimately show ?thesis
      using new(1-5) False by (intro exI [of _ "i # new"]) auto
  qed
qed

definition closed_under :: "('a \<times> 'a) set \<Rightarrow> 'a set \<Rightarrow> bool" where
  "closed_under r A \<longleftrightarrow> r `` A \<subseteq> A"

lemma closed_under_reach: "closed_under r A \<Longrightarrow> r\<^sup>* `` A = A"
  unfolding closed_under_def by (auto simp: Image_closed_trancl)

text \<open>From a start outside a closed set of marked nodes the loop collects one component.\<close>

lemma component_ids_component:
  assumes "component_ids adj [i] seen [] = (seen', ids)" and "i \<notin> set seen"
    and "closed_under (edges adj) (set seen)" and "sym (edges adj)"
  shows "set ids = (edges adj)\<^sup>* `` {i}" and "distinct ids" and "set seen' = set seen \<union> set ids"
    and "set ids \<inter> set seen = {}" and "closed_under (edges adj) (set seen')"
proof -
  obtain new where new: "ids = [] @ new" "set seen' = set seen \<union> set new" "distinct new"
      "set new \<inter> set seen = {}" "set [i] \<subseteq> set seen'" "set new \<subseteq> (edges adj)\<^sup>* `` set [i]"
      "edges adj `` set new \<subseteq> set seen'"
    using component_ids_run [OF assms(1)] by blast
  show "distinct ids" "set seen' = set seen \<union> set ids" "set ids \<inter> set seen = {}" using new by simp_all
  show closed: "closed_under (edges adj) (set seen')"
    using new(2,7) assms(3) unfolding closed_under_def by (auto simp: Image_Un)
  show "set ids = (edges adj)\<^sup>* `` {i}"
  proof
    show "set ids \<subseteq> (edges adj)\<^sup>* `` {i}" using new(1,6) by simp
    show "(edges adj)\<^sup>* `` {i} \<subseteq> set ids"
    proof
      fix k assume k: "k \<in> (edges adj)\<^sup>* `` {i}"
      then have "k \<in> (edges adj)\<^sup>* `` set seen'" using new(5) by auto
      then have "k \<in> set seen'" using closed_under_reach [OF closed] by simp
      moreover have "k \<notin> set seen"
      proof
        assume "k \<in> set seen"
        moreover have "(k, i) \<in> (edges adj)\<^sup>*"
          using k symD [OF sym_rtrancl [OF assms(4)]] by auto
        ultimately have "i \<in> (edges adj)\<^sup>* `` set seen" by auto
        then show False using closed_under_reach [OF assms(3)] assms(2) by simp
      qed
      ultimately show "k \<in> set ids" using new(1,2) by simp
    qed
  qed
qed

section \<open>The graph is the overlap relation\<close>

lemma pairs_of_mem: "(a, b) \<in> set (pairs_of xs) \<Longrightarrow> a \<in> set xs \<and> b \<in> set xs"
  by (induction xs) auto

lemma pairs_of_distinct: "distinct xs \<Longrightarrow> (a, b) \<in> set (pairs_of xs) \<Longrightarrow> a \<noteq> b"
  by (induction xs) (auto dest: pairs_of_mem)

lemma pairs_of_complete:
  "a \<in> set xs \<Longrightarrow> b \<in> set xs \<Longrightarrow> a \<noteq> b \<Longrightarrow> (a, b) \<in> set (pairs_of xs) \<or> (b, a) \<in> set (pairs_of xs)"
  by (induction xs) auto

lemma overlaps_sym: "overlaps a b = overlaps b a"
  by (auto simp: overlaps_def coverage_relation_def Let_def split: option.splits if_splits)

lemma edges_add_neighbour: "edges (add_neighbour i j adj) = insert (i, j) (edges adj)"
  by (auto simp: edges_def add_neighbour_def dict_get_def update_conv' split: if_splits option.splits)

lemma edges_empty: "edges (map (\<lambda>i. (i, [])) is) = {}"
proof -
  have "map_of (map (\<lambda>i. (i, [] :: string list)) is) i = (if i \<in> set is then Some [] else None)" for i
    by (induction "is") auto
  then have "dict_get (map (\<lambda>i. (i, [] :: string list)) is) i [] = []" for i
    by (simp add: dict_get_def)
  then show ?thesis by (simp add: edges_def)
qed

lemma edges_adjacency:
  "edges (overlap_adjacency candidates) =
     {(cand_id a, cand_id b) |a b. overlaps a b \<and>
        ((a, b) \<in> set (pairs_of candidates) \<or> (b, a) \<in> set (pairs_of candidates))}"
proof -
  have "edges (fold (\<lambda>(left, right) adj.
         if \<not> overlaps left right then adj
         else add_neighbour (cand_id right) (cand_id left) (add_neighbour (cand_id left) (cand_id right) adj))
       ps adj) = edges adj \<union> {(cand_id a, cand_id b) |a b. overlaps a b \<and> ((a, b) \<in> set ps \<or> (b, a) \<in> set ps)}"
    for ps adj
  proof (induction ps arbitrary: adj)
    case (Cons p ps)
    obtain l r where p: "p = (l, r)" by (cases p)
    show ?case
    proof (cases "overlaps l r")
      case True
      then have "overlaps r l" using overlaps_sym by blast
      with True show ?thesis by (auto simp: p Cons.IH edges_add_neighbour)
    next
      case False
      then have "\<not> overlaps r l" using overlaps_sym by blast
      with False show ?thesis by (auto simp: p Cons.IH)
    qed
  qed simp
  then show ?thesis by (simp add: overlap_adjacency_def edges_empty)
qed

definition overlap_edges :: "candidate list \<Rightarrow> (string \<times> string) set" where
  "overlap_edges candidates =
     {(cand_id a, cand_id b) |a b. a \<in> set candidates \<and> b \<in> set candidates \<and> a \<noteq> b \<and> overlaps a b}"

lemma edges_overlap:
  "distinct candidates \<Longrightarrow> edges (overlap_adjacency candidates) = overlap_edges candidates"
proof -
  assume d: "distinct candidates"
  have "(a, b) \<in> set (pairs_of candidates) \<or> (b, a) \<in> set (pairs_of candidates) \<longleftrightarrow>
      a \<in> set candidates \<and> b \<in> set candidates \<and> a \<noteq> b" for a b
    using pairs_of_mem pairs_of_distinct [OF d] pairs_of_complete by metis
  then show ?thesis unfolding edges_adjacency overlap_edges_def by auto
qed

lemma sym_overlap_edges: "sym (overlap_edges candidates)"
  using overlaps_sym by (auto simp: sym_def overlap_edges_def)

section \<open>The components partition the candidates\<close>

lemma map_filter_index:
  assumes "set ids \<subseteq> cand_id ` set cs"
  shows "map cand_id (List.map_filter (map_of (index_by cand_id cs)) ids) = ids \<and>
    set (List.map_filter (map_of (index_by cand_id cs)) ids) \<subseteq> set cs"
  using assms
proof (induction ids)
  case (Cons i ids)
  have "i \<in> cand_id ` set cs" using Cons.prems by simp
  then obtain c where c: "map_of (index_by cand_id cs) i = Some c"
    by (simp add: map_of_index_by)
  show ?case using Cons c index_by_SomeD [OF c] by (simp add: map_filter_simps)
qed (simp add: map_filter_simps)

definition component_class :: "(string \<times> string) set \<Rightarrow> candidate list \<Rightarrow> bool" where
  "component_class r cl \<longleftrightarrow>
     cl \<noteq> [] \<and> sorted (map cand_id cl) \<and> (\<forall>a \<in> set cl. cand_id ` set cl = r\<^sup>* `` {cand_id a})"

definition components_inv ::
    "candidate list \<Rightarrow> (string \<times> string) set \<Rightarrow> candidate list \<Rightarrow> string list \<times> candidate list list \<Rightarrow> bool" where
  "components_inv cs r done st \<longleftrightarrow>
     closed_under r (set (fst st)) \<and> cand_id ` set done \<subseteq> set (fst st) \<and>
     distinct (map cand_id (concat (snd st))) \<and> cand_id ` set (concat (snd st)) = set (fst st) \<and>
     set (concat (snd st)) \<subseteq> set cs \<and> (\<forall>cl \<in> set (snd st). component_class r cl)"

lemma reach_in_candidates:
  assumes "(i, j) \<in> (overlap_edges cs)\<^sup>*" and "i \<in> cand_id ` set cs"
  shows "j \<in> cand_id ` set cs"
  using assms by (induction rule: rtrancl_induct) (auto simp: overlap_edges_def)

lemma component_class_reach:
  assumes "sym r" and "cand_id ` set cl = r\<^sup>* `` {i}" and "cl \<noteq> []" and "sorted (map cand_id cl)"
  shows "component_class r cl"
proof -
  have "r\<^sup>* `` {i} = r\<^sup>* `` {cand_id a}" if "a \<in> set cl" for a
  proof -
    have "(i, cand_id a) \<in> r\<^sup>*" using assms(2) that by auto
    moreover then have "(cand_id a, i) \<in> r\<^sup>*" using symD [OF sym_rtrancl [OF assms(1)]] by blast
    ultimately show ?thesis by (auto intro: rtrancl_trans)
  qed
  then show ?thesis using assms(2-4) by (simp add: component_class_def)
qed

lemma components_step_inv:
  assumes inv: "components_inv cs (overlap_edges cs) done st" and d: "distinct (map cand_id cs)"
    and c: "c \<in> set cs"
  shows "components_inv cs (overlap_edges cs) (done @ [c])
    (components_step (overlap_adjacency cs) (index_by cand_id cs) c st)"
proof (cases "cand_id c \<in> set (fst st)")
  case True
  then show ?thesis using inv by (simp add: components_step_def components_inv_def)
next
  case False
  let ?r = "overlap_edges cs"
  have r: "edges (overlap_adjacency cs) = ?r" using d by (simp add: edges_overlap distinct_map)
  obtain seen ids where run: "component_ids (overlap_adjacency cs) [cand_id c] (fst st) [] = (seen, ids)"
    by (cases "component_ids (overlap_adjacency cs) [cand_id c] (fst st) []")
  have "closed_under (edges (overlap_adjacency cs)) (set (fst st))"
    using inv by (simp add: r components_inv_def)
  moreover have "sym (edges (overlap_adjacency cs))" by (simp add: r sym_overlap_edges)
  ultimately have cl: "set ids = ?r\<^sup>* `` {cand_id c}" "distinct ids" "set seen = set (fst st) \<union> set ids"
      "set ids \<inter> set (fst st) = {}" "closed_under ?r (set seen)"
    using component_ids_component [OF run False] by (simp_all add: r)
  have sub: "set ids \<subseteq> cand_id ` set cs"
    using cl(1) reach_in_candidates [of "cand_id c" _ cs] c by auto
  let ?new = "sort_key cand_id (List.map_filter (map_of (index_by cand_id cs)) ids)"
  note idx = conjunct1 [OF map_filter_index [OF sub]] conjunct2 [OF map_filter_index [OF sub]]
  have ids_new: "cand_id ` set ?new = set ids" using idx(1) by (metis list.set_map set_sort)
  have "cand_id c \<in> cand_id ` set ?new" unfolding ids_new cl(1) by auto
  then have "?new \<noteq> []" by (metis empty_iff image_empty list.set(1))
  then have cls: "component_class ?r ?new"
    using component_class_reach [OF sym_overlap_edges] ids_new cl(1) by simp
  have "mset (map cand_id ?new) = mset ids" using idx(1) by (metis mset_map mset_sort)
  then have dnew: "distinct (map cand_id ?new)" using cl(2) by (metis mset_eq_imp_distinct_iff)
  have step: "components_step (overlap_adjacency cs) (index_by cand_id cs) c st = (seen, snd st @ [?new])"
    using False run by (simp add: components_step_def)
  have old: "cand_id ` set (concat (snd st)) = set (fst st)" "distinct (map cand_id (concat (snd st)))"
      "set (concat (snd st)) \<subseteq> set cs" "cand_id ` set done \<subseteq> set (fst st)"
      "\<forall>cl \<in> set (snd st). component_class ?r cl"
    using inv by (simp_all add: components_inv_def)
  have "distinct (map cand_id (concat (snd st @ [?new])))"
  proof -
    have "set (map cand_id (concat (snd st))) \<inter> set (map cand_id ?new) = {}"
      unfolding set_map old(1) ids_new using cl(4) by auto
    then show ?thesis using old(2) dnew by (simp only: concat_append map_append distinct_append concat.simps append_Nil2 simp_thms)
  qed
  moreover have "cand_id ` set (concat (snd st @ [?new])) = set seen"
    unfolding concat_append set_append image_Un old(1) cl(3) using ids_new by simp
  moreover have "set (concat (snd st @ [?new])) \<subseteq> set cs" using old(3) idx(2) by simp
  moreover have "cand_id ` set (done @ [c]) \<subseteq> set seen" using old(4) cl(1,3) by auto
  ultimately show ?thesis
    unfolding step components_inv_def fst_conv snd_conv using cl(5) old(5) cls by simp
qed

lemma components_fold_inv:
  assumes "distinct (map cand_id cs)" and "set done \<union> set xs \<subseteq> set cs"
    and "components_inv cs (overlap_edges cs) done st"
  shows "components_inv cs (overlap_edges cs) (done @ xs)
    (fold (components_step (overlap_adjacency cs) (index_by cand_id cs)) xs st)"
  using assms(2,3)
proof (induction xs arbitrary: "done" st)
  case (Cons x xs)
  have "components_inv cs (overlap_edges cs) (done @ [x])
      (components_step (overlap_adjacency cs) (index_by cand_id cs) x st)"
    by (rule components_step_inv [OF Cons.prems(2) assms(1)]) (use Cons.prems(1) in simp)
  then show ?case using Cons.IH [of "done @ [x]"] Cons.prems(1) by simp
qed simp

lemma components_ok:
  assumes "distinct (map cand_id cs)"
  shows "mset (concat (overlap_components cs)) = mset cs"
    and "\<forall>cl \<in> set (overlap_components cs). component_class (overlap_edges cs) cl"
proof -
  define st where "st = fold (components_step (overlap_adjacency cs) (index_by cand_id cs)) cs ([], [])"
  have "components_inv cs (overlap_edges cs) [] ([], [])"
    by (simp add: components_inv_def closed_under_def)
  then have inv: "components_inv cs (overlap_edges cs) cs st"
    using components_fold_inv [OF assms, of "[]" cs "([], [])"] by (simp add: st_def)
  have oc: "overlap_components cs = snd st" by (simp add: overlap_components_def st_def)
  show "\<forall>cl \<in> set (overlap_components cs). component_class (overlap_edges cs) cl"
    using inv by (simp add: oc components_inv_def)
  have d: "distinct (map cand_id (concat (snd st)))" and sub: "set (concat (snd st)) \<subseteq> set cs"
    and ids: "cand_id ` set cs \<subseteq> cand_id ` set (concat (snd st))"
    using inv by (simp_all add: components_inv_def)
  have "set (concat (snd st)) = set cs"
  proof
    show "set cs \<subseteq> set (concat (snd st))"
    proof
      fix c assume c: "c \<in> set cs"
      then have "cand_id c \<in> cand_id ` set (concat (snd st))" using ids by blast
      then obtain c' where c': "cand_id c = cand_id c'" "c' \<in> set (concat (snd st))" by (rule imageE)
      have "inj_on cand_id (set cs)" using assms by (simp add: distinct_map)
      then have "c = c'" by (rule inj_onD [OF _ c'(1) c]) (rule subsetD [OF sub c'(2)])
      with c'(2) show "c \<in> set (concat (snd st))" by simp
    qed
  qed (rule sub)
  moreover have "distinct (concat (snd st))" using d distinct_map by blast
  moreover have "distinct cs" using assms distinct_map by blast
  ultimately show "mset (concat (overlap_components cs)) = mset cs"
    unfolding oc by (metis set_eq_iff_mset_eq_distinct)
qed

text \<open>
  C30: The stack loop of \<open>overlap_components\<close> terminates and splits candidates with distinct ids
  into the connected components of overlapping: every candidate is in exactly one component, each
  component is ordered by id, and a component holds exactly the candidates that a chain of
  overlapping windows links to any of its members.
\<close>

theorem overlap_components_partition:
  assumes "distinct (map cand_id candidates)"
  shows "mset (concat (overlap_components candidates)) = mset candidates \<and>
    (\<forall>cl \<in> set (overlap_components candidates). cl \<noteq> [] \<and> sorted (map cand_id cl) \<and>
      (\<forall>a \<in> set cl. cand_id ` set cl = (overlap_edges candidates)\<^sup>* `` {cand_id a}))"
  using components_ok [OF assms] unfolding component_class_def by blast

text \<open>Candidates of different components never overlap.\<close>

lemma components_disjoint:
  assumes "distinct (map cand_id cs)" and "cl \<in> set (overlap_components cs)"
    and "cl' \<in> set (overlap_components cs)" and "a \<in> set cl" and "b \<in> set cl'" and "b \<notin> set cl"
  shows "\<not> overlaps a b"
proof
  assume o: "overlaps a b"
  have mem: "set cl \<subseteq> set cs" "set cl' \<subseteq> set cs"
    using mset_eq_setD [OF components_ok(1) [OF assms(1)]] assms(2,3) by auto
  have inj: "inj_on cand_id (set cs)" using assms(1) by (simp add: distinct_map)
  have "a \<noteq> b" using assms(4,6) by auto
  then have "(cand_id a, cand_id b) \<in> overlap_edges cs"
    unfolding overlap_edges_def using o assms(4,5) mem by blast
  then have "cand_id b \<in> cand_id ` set cl"
    using components_ok(2) [OF assms(1)] assms(2,4) unfolding component_class_def by blast
  then obtain b' where b': "b' \<in> set cl" "cand_id b = cand_id b'" by auto
  then have "b = b'" using inj_onD [OF inj b'(2)] assms(5) mem by blast
  then show False using assms(6) b'(1) by simp
qed

section \<open>Witness\<close>

definition month_export :: "string \<Rightarrow> nat \<Rightarrow> nat \<Rightarrow> candidate" where
  "month_export i first final =
     \<lparr>cand_id = i, cand_selection_group = ''ledger'', cand_family_id = ''ledger'',
      cand_member_paths = [i], cand_selection_mode = APPENDABLE_RANGE,
      cand_coverage =
        \<lparr>cw_start_at = Some (DateTime 2024 first 1 0 0 0 0 (Some 0)), cw_start_precision = Some DATE,
         cw_end_at = Some (DateTime 2024 final 28 0 0 0 0 (Some 0)), cw_end_precision = Some DATE, cw_mode = BOUNDED\<rparr>,
      cand_freshness = \<lparr>fr_kind = FRESHNESS_UNKNOWN, fr_timestamp = None, fr_rank = None\<rparr>,
      cand_content_fingerprint = [], cand_comparison_key = ''ledger'', cand_description = ''ledger export'',
      cand_comparable = True, cand_notes = []\<rparr>"

theorem overlap_components_partition_witness:
  "mset (concat (overlap_components [month_export ''a'' 2 5, month_export ''b'' 4 7, month_export ''c'' 9 9])) =
     mset [month_export ''a'' 2 5, month_export ''b'' 4 7, month_export ''c'' 9 9]"
proof -
  have "distinct (map cand_id [month_export ''a'' 2 5, month_export ''b'' 4 7, month_export ''c'' 9 9])"
    by (simp add: month_export_def)
  from overlap_components_partition [OF this] show ?thesis by (rule conjunct1)
qed

end
