(* ===== verification/Input_Selection.thy ===== *)
theory Input_Selection
  imports Input_Overlap
begin

text \<open>
  \<open>freshness.py\<close> and \<open>selection.py\<close> under \<open>application/normalization/translation_inputs\<close>: which
  candidate of a group or of an overlap component is selected, which are superseded by it, and
  when the whole set is blocked. A freshness value is \<open>None\<close> for minus infinity, else an integer
  (microseconds or the adapter's rank): the floats of the code order instants before the year
  2242 and ranks below \<open>2\<^sup>5\<^sup>3\<close> the same way, and values of different kinds are never compared.
  A timestamp without an offset, which \<open>astimezone\<close> reads in the zone of the system, is read as UTC.
\<close>

section \<open>Freshness\<close>

fun freshness_precedence :: "freshness_kind \<Rightarrow> int" where
  "freshness_precedence EXPORT_TIMESTAMP = 3"
| "freshness_precedence CAPTURE_COMPLETED_AT = 2"
| "freshness_precedence ADAPTER_RANK = 1"
| "freshness_precedence FRESHNESS_UNKNOWN = 0"

definition freshness_value :: "freshness \<Rightarrow> int option" where
  "freshness_value f =
     (if fr_kind f \<in> {EXPORT_TIMESTAMP, CAPTURE_COMPLETED_AT} then
        (case fr_timestamp f of None \<Rightarrow> None | Some t \<Rightarrow> Some (instant t))
      else if fr_kind f = ADAPTER_RANK then fr_rank f
      else None)"

definition freshness_sort_key :: "freshness \<Rightarrow> int \<times> int option" where
  "freshness_sort_key f = (freshness_precedence (fr_kind f), freshness_value f)"

text \<open>\<open>-value\<close>, in the order of the negated numbers: plus infinity last.\<close>

definition negated_value :: "int option \<Rightarrow> bool \<times> int" where
  "negated_value v = (case v of None \<Rightarrow> (True, 0) | Some i \<Rightarrow> (False, - i))"

definition same_optional_moment :: "datetime option \<Rightarrow> datetime option \<Rightarrow> bool" where
  "same_optional_moment a b =
     (case (a, b) of (None, None) \<Rightarrow> True | (Some s, Some t) \<Rightarrow> same_moment s t | _ \<Rightarrow> False)"

definition same_coverage :: "coverage_window \<Rightarrow> coverage_window \<Rightarrow> bool" where
  "same_coverage a b \<longleftrightarrow>
     same_optional_moment (cw_start_at a) (cw_start_at b) \<and> cw_start_precision a = cw_start_precision b \<and>
     same_optional_moment (cw_end_at a) (cw_end_at b) \<and> cw_end_precision a = cw_end_precision b \<and>
     cw_mode a = cw_mode b"

definition identical_input :: "candidate \<Rightarrow> candidate \<Rightarrow> bool" where
  "identical_input a b \<longleftrightarrow>
     same_coverage (cand_coverage a) (cand_coverage b) \<and>
     cand_content_fingerprint a = cand_content_fingerprint b"

definition all_identical_candidates :: "candidate list \<Rightarrow> bool result" where
  "all_identical_candidates candidates =
     (case candidates of
        [] \<Rightarrow> Inl (IndexError ''tuple index out of range'')
      | c # rest \<Rightarrow> Inr (list_all (\<lambda>d. identical_input d c) rest))"

definition freshest_candidates :: "candidate list \<Rightarrow> candidate list" where
  "freshest_candidates candidates =
     (if candidates = [] then []
      else
        (let highest_key = Max (set (map (\<lambda>c. freshness_sort_key (cand_freshness c)) candidates))
         in filter (\<lambda>c. freshness_sort_key (cand_freshness c) = highest_key) candidates))"

definition duplicate_order_key :: "candidate \<Rightarrow> int \<times> (bool \<times> int) \<times> string" where
  "duplicate_order_key c =
     (- freshness_precedence (fr_kind (cand_freshness c)),
      negated_value (freshness_value (cand_freshness c)), cand_id c)"

definition deterministic_duplicate_winner :: "candidate list \<Rightarrow> candidate result" where
  "deterministic_duplicate_winner candidates =
     (case sort_key duplicate_order_key candidates of
        [] \<Rightarrow> Inl (IndexError ''list index out of range'')
      | c # _ \<Rightarrow> Inr c)"

section \<open>Decisions and issues\<close>

record planned_group =
  pg_decisions :: "plan_decision list"
  pg_issues :: "issue_record list"

definition other_ids :: "candidate list \<Rightarrow> string \<Rightarrow> string list" where
  "other_ids candidates i = sort (filter (\<lambda>j. j \<noteq> i) (map cand_id candidates))"

definition planning_issue ::
    "planning_profile \<Rightarrow> candidate \<Rightarrow> plan_status \<Rightarrow> string \<Rightarrow> issue_record" where
  "planning_issue profile c status message =
     \<lparr>iss_issue_id = prof_adapter_id profile @ '':'' @ cand_id c @ '':'' @ plan_status_text status,
      iss_source = prof_source profile, iss_adapter_id = prof_adapter_id profile,
      iss_severity = ''high'', iss_kind = plan_status_text status, iss_message = message,
      iss_context_timestamp = [],
      iss_raw_file = (case cand_member_paths c of [] \<Rightarrow> [] | p # _ \<Rightarrow> p),
      iss_raw_provenance = None, iss_raw_row_ref = [], iss_status = ''needs_review''\<rparr>"

definition issue_for_candidate ::
    "planning_profile \<Rightarrow> candidate \<Rightarrow> plan_status \<Rightarrow> string \<Rightarrow> string list \<Rightarrow> issue_record" where
  "issue_for_candidate profile c status reason conflicts =
     planning_issue profile c status
       (reason @ (if conflicts = [] then [] else '' Conflicts: '' @ join '', '' conflicts @ ''.''))"

definition blocked_decision :: "candidate list \<Rightarrow> plan_status \<Rightarrow> string \<Rightarrow> candidate \<Rightarrow> plan_decision" where
  "blocked_decision candidates status reason c =
     \<lparr>dec_candidate_id = cand_id c, dec_status = status, dec_reason = reason, dec_replaces = [],
      dec_conflicts_with = other_ids candidates (cand_id c)\<rparr>"

definition blocked_group ::
    "planning_profile \<Rightarrow> candidate list \<Rightarrow> plan_status \<Rightarrow> string \<Rightarrow> planned_group" where
  "blocked_group profile candidates status reason =
     \<lparr>pg_decisions = map (blocked_decision candidates status reason) candidates,
      pg_issues = map (\<lambda>c. issue_for_candidate profile c status reason (other_ids candidates (cand_id c)))
        candidates\<rparr>"

definition selected_decision :: "candidate \<Rightarrow> string \<Rightarrow> string list \<Rightarrow> plan_decision" where
  "selected_decision c reason replaced =
     \<lparr>dec_candidate_id = cand_id c, dec_status = SELECTED, dec_reason = reason, dec_replaces = replaced,
      dec_conflicts_with = []\<rparr>"

definition superseded_status :: "candidate \<Rightarrow> candidate \<Rightarrow> plan_status" where
  "superseded_status c winner =
     (if identical_input c winner then SUPERSEDED_IDENTICAL else SUPERSEDED_REPLACED)"

definition build_supersession_plan :: "candidate list \<Rightarrow> candidate \<Rightarrow> planned_group" where
  "build_supersession_plan candidates winner =
     \<lparr>pg_decisions =
        selected_decision winner ''winner selected for deterministic translation input planning''
          (other_ids candidates (cand_id winner)) #
        map (\<lambda>c. \<lparr>dec_candidate_id = cand_id c, dec_status = superseded_status c winner,
            dec_reason = ''superseded by the selected translation input candidate'',
            dec_replaces = [], dec_conflicts_with = [cand_id winner]\<rparr>)
          (filter (\<lambda>c. cand_id c \<noteq> cand_id winner) candidates),
      pg_issues = []\<rparr>"

section \<open>Planning a group\<close>

definition plan_exclusive_group :: "planning_profile \<Rightarrow> candidate list \<Rightarrow> planned_group result" where
  "plan_exclusive_group profile candidates =
     (case candidates of
        [c] \<Rightarrow> Inr \<lparr>pg_decisions =
            [selected_decision c ''exclusive snapshot group contains one candidate'' []], pg_issues = []\<rparr>
      | _ \<Rightarrow>
          let freshest = freshest_candidates candidates in
          r_bind (if length freshest \<noteq> 1 then all_identical_candidates candidates else Inr True) (\<lambda>unique.
          if \<not> unique then
            Inr (blocked_group profile candidates BLOCKED_AMBIGUOUS_FRESHNESS
              ''exclusive snapshot candidates do not have a unique freshest winner'')
          else r_bind (deterministic_duplicate_winner (if freshest = [] then candidates else freshest)) (\<lambda>winner.
            Inr (build_supersession_plan candidates winner))))"

definition incomparability_reason :: "candidate list \<Rightarrow> string option" where
  "incomparability_reason candidates =
     (if list_ex (\<lambda>c. \<not> cand_comparable c) candidates then
        Some ''overlapping candidates are marked incomparable by the adapter''
      else if length (remdups (map cand_comparison_key candidates)) \<noteq> 1 then
        Some ''overlapping candidates do not share a comparison key''
      else None)"

definition plan_appendable_component :: "planning_profile \<Rightarrow> candidate list \<Rightarrow> planned_group result" where
  "plan_appendable_component profile candidates =
     r_bind (all_identical_candidates candidates) (\<lambda>identical.
     if \<not> identical then
       Inr (blocked_group profile candidates BLOCKED_PARTIAL_OVERLAP
         ''appendable range candidates overlap and cannot be merged without an exact identical replacement'')
     else
       let freshest = freshest_candidates candidates in
       r_bind (deterministic_duplicate_winner (if freshest = [] then candidates else freshest)) (\<lambda>winner.
         Inr (build_supersession_plan candidates winner)))"

definition plan_replaceable_component :: "planning_profile \<Rightarrow> candidate list \<Rightarrow> planned_group result" where
  "plan_replaceable_component profile candidates =
     (let freshest = freshest_candidates candidates in
      r_bind (if length freshest \<noteq> 1 then all_identical_candidates candidates else Inr True) (\<lambda>unique.
      if \<not> unique then
        Inr (blocked_group profile candidates BLOCKED_AMBIGUOUS_FRESHNESS
          ''replaceable range candidates do not have a unique freshest winner'')
      else r_bind (deterministic_duplicate_winner (if freshest = [] then candidates else freshest)) (\<lambda>winner.
        if \<not> winner_contains_all_candidates winner candidates then
          Inr (blocked_group profile candidates BLOCKED_PARTIAL_OVERLAP
            ''replaceable range candidates overlap, but the freshest winner does not fully supersede the overlapping set'')
        else Inr (build_supersession_plan candidates winner))))"

definition plan_overlap_component ::
    "planning_profile \<Rightarrow> selection_mode \<Rightarrow> candidate list \<Rightarrow> planned_group result" where
  "plan_overlap_component profile selection_mode candidates =
     (case candidates of
        [c] \<Rightarrow> Inr \<lparr>pg_decisions =
            [selected_decision c ''candidate is disjoint within its selection group'' []], pg_issues = []\<rparr>
      | _ \<Rightarrow>
          (case incomparability_reason candidates of
             Some reason \<Rightarrow> Inr (blocked_group profile candidates BLOCKED_INCOMPARABLE_CANDIDATES reason)
           | None \<Rightarrow>
               if selection_mode = APPENDABLE_RANGE then plan_appendable_component profile candidates
               else plan_replaceable_component profile candidates))"

definition plan_group :: "planning_profile \<Rightarrow> candidate list \<Rightarrow> selection_mode \<Rightarrow> planned_group result" where
  "plan_group profile candidates selection_mode =
     (if selection_mode = EXCLUSIVE_SNAPSHOT then plan_exclusive_group profile candidates
      else
        r_bind (r_map (plan_overlap_component profile selection_mode) (overlap_components candidates)) (\<lambda>planned.
          Inr \<lparr>pg_decisions = concat (map pg_decisions planned), pg_issues = concat (map pg_issues planned)\<rparr>))"

section \<open>What planning a set of candidates settles\<close>

text \<open>
  The contract of every planning function: each candidate gets one decision, and either all of
  them are blocked, or one freshest candidate is selected, names all the others as replaced, and
  the others are superseded by it.
\<close>

definition superseding :: "candidate list \<Rightarrow> candidate \<Rightarrow> plan_decision \<Rightarrow> bool" where
  "superseding cs w d \<longleftrightarrow>
     (if dec_candidate_id d = cand_id w
      then dec_status d = SELECTED \<and> dec_replaces d = other_ids cs (cand_id w) \<and> dec_conflicts_with d = []
      else dec_status d \<in> {SUPERSEDED_IDENTICAL, SUPERSEDED_REPLACED} \<and> dec_conflicts_with d = [cand_id w])"

definition freshest_of :: "candidate list \<Rightarrow> candidate \<Rightarrow> bool" where
  "freshest_of cs w \<longleftrightarrow> w \<in> set cs \<and>
     (\<forall>c \<in> set cs. freshness_sort_key (cand_freshness c) \<le> freshness_sort_key (cand_freshness w))"

definition settles :: "(candidate \<Rightarrow> bool) \<Rightarrow> candidate list \<Rightarrow> planned_group \<Rightarrow> bool" where
  "settles extra cs pg \<longleftrightarrow>
     mset (map dec_candidate_id (pg_decisions pg)) = mset (map cand_id cs) \<and>
     ((\<forall>d \<in> set (pg_decisions pg). blocked_status (dec_status d)) \<or>
      (\<exists>w. freshest_of cs w \<and> extra w \<and> (\<forall>d \<in> set (pg_decisions pg). superseding cs w d)))"

lemma blocked_status_eval [simp]:
  "blocked_status BLOCKED_PARTIAL_OVERLAP" "blocked_status BLOCKED_AMBIGUOUS_FRESHNESS"
  "blocked_status BLOCKED_UNKNOWN_COVERAGE" "blocked_status BLOCKED_INCOMPARABLE_CANDIDATES"
  "blocked_status BLOCKED_INVALID_CANDIDATE" "\<not> blocked_status SELECTED"
  "\<not> blocked_status SUPERSEDED_IDENTICAL" "\<not> blocked_status SUPERSEDED_REPLACED"
  by code_simp+

lemma freshest_mem:
  assumes "w \<in> set (freshest_candidates cs)"
  shows "freshest_of cs w"
proof -
  let ?ks = "set (map (\<lambda>c. freshness_sort_key (cand_freshness c)) cs)"
  have cs: "cs \<noteq> []" using assms by (auto simp: freshest_candidates_def)
  then have w: "w \<in> set cs" "freshness_sort_key (cand_freshness w) = Max ?ks"
    using assms by (simp_all add: freshest_candidates_def Let_def)
  have "freshness_sort_key (cand_freshness c) \<le> Max ?ks" if "c \<in> set cs" for c
    by (rule Max_ge) (use that in auto)
  then show ?thesis using w by (simp add: freshest_of_def)
qed

lemma freshest_nonempty:
  assumes "cs \<noteq> []"
  shows "freshest_candidates cs \<noteq> []"
proof -
  have "Max ((\<lambda>c. freshness_sort_key (cand_freshness c)) ` set cs) \<in> (\<lambda>c. freshness_sort_key (cand_freshness c)) ` set cs"
    by (rule Max_in) (use assms in auto)
  then obtain c where "c \<in> set cs" "freshness_sort_key (cand_freshness c) =
      Max ((\<lambda>c. freshness_sort_key (cand_freshness c)) ` set cs)"
    by (metis (no_types, lifting) imageE)
  then show ?thesis using assms by (auto simp: freshest_candidates_def Let_def filter_empty_conv)
qed

lemma mset_remove_key:
  "distinct xs \<Longrightarrow> k \<in> set xs \<Longrightarrow> mset (filter (\<lambda>x. x \<noteq> k) xs) + {#k#} = mset xs"
proof (induction xs)
  case (Cons x xs)
  show ?case
  proof (cases "x = k")
    case True
    then have "filter (\<lambda>x. x \<noteq> k) xs = xs" using Cons.prems by (auto simp: filter_id_conv)
    then show ?thesis using True by simp
  next
    case False
    then show ?thesis using Cons by simp
  qed
qed simp

lemma duplicate_winner:
  assumes "cs \<noteq> []"
  shows "\<exists>w \<in> set cs. deterministic_duplicate_winner cs = Inr w"
proof -
  obtain w r where s: "sort_key duplicate_order_key cs = w # r"
    using assms by (metis length_0_conv length_sort neq_Nil_conv)
  then have "w \<in> set cs" by (metis list.set_intros(1) set_sort)
  then show ?thesis using s by (auto simp: deterministic_duplicate_winner_def)
qed

lemma freshest_winner:
  assumes "cs \<noteq> []"
  shows "\<exists>w. deterministic_duplicate_winner
      (if freshest_candidates cs = [] then cs else freshest_candidates cs) = Inr w \<and> freshest_of cs w"
  using duplicate_winner [OF freshest_nonempty [OF assms]] freshest_mem freshest_nonempty [OF assms] by auto

lemma settles_blocked:
  "blocked_status status \<Longrightarrow> settles extra cs (blocked_group profile cs status reason)"
  by (auto simp: settles_def blocked_group_def blocked_decision_def comp_def)

lemma settles_supersession:
  assumes "distinct (map cand_id cs)" and "freshest_of cs w" and "extra w"
  shows "settles extra cs (build_supersession_plan cs w)"
proof -
  have "cand_id w \<in> set (map cand_id cs)" using assms(2) by (simp add: freshest_of_def)
  from mset_remove_key [OF assms(1) this]
  have "mset (map cand_id (filter (\<lambda>c. cand_id c \<noteq> cand_id w) cs)) + {#cand_id w#} = mset (map cand_id cs)"
    by (simp add: filter_map comp_def)
  then have "mset (map dec_candidate_id (pg_decisions (build_supersession_plan cs w))) = mset (map cand_id cs)"
    by (simp add: build_supersession_plan_def selected_decision_def comp_def)
  moreover have "\<forall>d \<in> set (pg_decisions (build_supersession_plan cs w)). superseding cs w d"
    by (auto simp: build_supersession_plan_def superseding_def selected_decision_def superseded_status_def)
  ultimately show ?thesis using assms(2,3) unfolding settles_def by blast
qed

lemma settles_single:
  assumes "extra c"
  shows "settles extra [c] \<lparr>pg_decisions = [selected_decision c reason []], pg_issues = []\<rparr>"
proof -
  have "superseding [c] c (selected_decision c reason [])"
    by (simp add: superseding_def selected_decision_def other_ids_def)
  then show ?thesis
    using assms by (auto simp: settles_def selected_decision_def freshest_of_def)
qed

lemma all_identical_ok: "cs \<noteq> [] \<Longrightarrow> \<exists>b. all_identical_candidates cs = Inr b"
  by (cases cs) (simp_all add: all_identical_candidates_def)

lemma unique_test_ok:
  "cs \<noteq> [] \<Longrightarrow> \<exists>b. (if length (freshest_candidates cs) \<noteq> 1 then all_identical_candidates cs else Inr True) = Inr b"
  using all_identical_ok [of cs] by (cases "length (freshest_candidates cs) \<noteq> 1") auto

lemma plan_exclusive_settles:
  assumes "cs \<noteq> []" and "distinct (map cand_id cs)"
  shows "\<exists>pg. plan_exclusive_group profile cs = Inr pg \<and> settles (\<lambda>_. True) cs pg"
proof (cases "\<exists>c. cs = [c]")
  case True
  then show ?thesis using settles_single by (auto simp: plan_exclusive_group_def)
next
  case False
  obtain w where w: "deterministic_duplicate_winner
      (if freshest_candidates cs = [] then cs else freshest_candidates cs) = Inr w" "freshest_of cs w"
    using freshest_winner [OF assms(1)] by blast
  obtain b where b: "(if length (freshest_candidates cs) \<noteq> 1 then all_identical_candidates cs else Inr True) = Inr b"
    using unique_test_ok [OF assms(1)] by blast
  have "plan_exclusive_group profile cs =
      (if \<not> b then Inr (blocked_group profile cs BLOCKED_AMBIGUOUS_FRESHNESS
          ''exclusive snapshot candidates do not have a unique freshest winner'')
       else Inr (build_supersession_plan cs w))"
    using False b w(1) by (auto simp: plan_exclusive_group_def Let_def split: list.split)
  then show ?thesis using settles_blocked settles_supersession [OF assms(2) w(2)] by (cases b) simp_all
qed

definition covers :: "candidate list \<Rightarrow> candidate \<Rightarrow> bool" where
  "covers cs w \<longleftrightarrow> (\<forall>c \<in> set cs.
     instant (coverage_start (cand_coverage w)) \<le> instant (coverage_start (cand_coverage c)) \<and>
     instant (coverage_end (cand_coverage c)) \<le> instant (coverage_end (cand_coverage w)))"

lemma identical_bounds:
  assumes "identical_input a b"
  shows "instant (coverage_start (cand_coverage a)) = instant (coverage_start (cand_coverage b)) \<and>
    instant (coverage_end (cand_coverage a)) = instant (coverage_end (cand_coverage b))"
  using assms
  by (auto simp: identical_input_def same_coverage_def same_optional_moment_def same_moment_def
      coverage_start_def coverage_end_def split: option.splits)

lemma all_identical_covers:
  assumes "all_identical_candidates cs = Inr True" and "w \<in> set cs"
  shows "covers cs w"
proof -
  obtain c rest where cs: "cs = c # rest" using assms(2) by (cases cs) auto
  have "\<forall>d \<in> set cs. instant (coverage_start (cand_coverage d)) = instant (coverage_start (cand_coverage c)) \<and>
      instant (coverage_end (cand_coverage d)) = instant (coverage_end (cand_coverage c))"
    using assms(1) identical_bounds by (auto simp: cs all_identical_candidates_def list_all_iff)
  then show ?thesis using assms(2) by (simp add: covers_def)
qed

lemma contains_all_covers: "winner_contains_all_candidates w cs \<Longrightarrow> covers cs w"
  by (auto simp: winner_contains_all_candidates_def covers_def coverage_bounds_def list_all_iff not_less
      split: if_splits)

lemma plan_appendable_settles:
  assumes "cs \<noteq> []" and "distinct (map cand_id cs)"
  shows "\<exists>pg. plan_appendable_component profile cs = Inr pg \<and> settles (covers cs) cs pg"
proof -
  obtain w where w: "deterministic_duplicate_winner
      (if freshest_candidates cs = [] then cs else freshest_candidates cs) = Inr w" "freshest_of cs w"
    using freshest_winner [OF assms(1)] by blast
  obtain b where b: "all_identical_candidates cs = Inr b" using all_identical_ok [OF assms(1)] by blast
  show ?thesis
  proof (cases b)
    case True
    then have "covers cs w" using all_identical_covers b w(2) by (simp add: freshest_of_def)
    then show ?thesis
      using settles_supersession [OF assms(2) w(2)] True b w(1)
      by (simp add: plan_appendable_component_def Let_def)
  next
    case False
    then show ?thesis using settles_blocked b by (simp add: plan_appendable_component_def)
  qed
qed

lemma plan_replaceable_settles:
  assumes "cs \<noteq> []" and "distinct (map cand_id cs)"
  shows "\<exists>pg. plan_replaceable_component profile cs = Inr pg \<and> settles (covers cs) cs pg"
proof -
  obtain w where w: "deterministic_duplicate_winner
      (if freshest_candidates cs = [] then cs else freshest_candidates cs) = Inr w" "freshest_of cs w"
    using freshest_winner [OF assms(1)] by blast
  obtain b where b: "(if length (freshest_candidates cs) \<noteq> 1 then all_identical_candidates cs else Inr True) = Inr b"
    using unique_test_ok [OF assms(1)] by blast
  show ?thesis
  proof (cases "b \<and> winner_contains_all_candidates w cs")
    case True
    then show ?thesis
      using settles_supersession [OF assms(2) w(2) contains_all_covers] b w(1)
      by (simp add: plan_replaceable_component_def Let_def)
  next
    case False
    then show ?thesis using settles_blocked b w(1) by (auto simp: plan_replaceable_component_def Let_def)
  qed
qed

lemma plan_component_settles:
  assumes "cs \<noteq> []" and "distinct (map cand_id cs)"
  shows "\<exists>pg. plan_overlap_component profile mode cs = Inr pg \<and> settles (covers cs) cs pg"
proof (cases "\<exists>c. cs = [c]")
  case True
  then obtain c where c: "cs = [c]" by blast
  have "covers [c] c" by (simp add: covers_def)
  then show ?thesis using settles_single unfolding c by (auto simp: plan_overlap_component_def)
next
  case False
  then have "plan_overlap_component profile mode cs =
      (case incomparability_reason cs of
         Some reason \<Rightarrow> Inr (blocked_group profile cs BLOCKED_INCOMPARABLE_CANDIDATES reason)
       | None \<Rightarrow> if mode = APPENDABLE_RANGE then plan_appendable_component profile cs
           else plan_replaceable_component profile cs)"
    by (auto simp: plan_overlap_component_def split: list.split)
  then show ?thesis
    using settles_blocked plan_appendable_settles [OF assms] plan_replaceable_settles [OF assms]
    by (auto split: option.split)
qed

section \<open>A group\<close>

text \<open>
  \<open>group_planned extra cs pg\<close>: one decision per candidate; two selected candidates never overlap;
  a superseded candidate names one selected candidate that replaces it and that \<open>extra\<close> relates to
  it.
\<close>

definition decided :: "planned_group \<Rightarrow> candidate \<Rightarrow> plan_status \<Rightarrow> bool" where
  "decided pg c s \<longleftrightarrow> (\<exists>d \<in> set (pg_decisions pg). dec_candidate_id d = cand_id c \<and> dec_status d = s)"

definition within_window :: "candidate \<Rightarrow> candidate \<Rightarrow> bool" where
  "within_window w c \<longleftrightarrow>
     instant (coverage_start (cand_coverage w)) \<le> instant (coverage_start (cand_coverage c)) \<and>
     instant (coverage_end (cand_coverage c)) \<le> instant (coverage_end (cand_coverage w))"

definition group_planned :: "(candidate \<Rightarrow> candidate \<Rightarrow> bool) \<Rightarrow> candidate list \<Rightarrow> planned_group \<Rightarrow> bool" where
  "group_planned extra cs pg \<longleftrightarrow>
     mset (map dec_candidate_id (pg_decisions pg)) = mset (map cand_id cs) \<and>
     (\<forall>a \<in> set cs. \<forall>b \<in> set cs. decided pg a SELECTED \<longrightarrow> decided pg b SELECTED \<longrightarrow> a = b \<or> \<not> overlaps a b) \<and>
     (\<forall>c \<in> set cs. \<forall>s. decided pg c s \<longrightarrow> \<not> blocked_status s \<longrightarrow>
        (\<exists>w \<in> set cs. decided pg w SELECTED \<and> extra w c \<and>
           freshness_sort_key (cand_freshness c) \<le> freshness_sort_key (cand_freshness w) \<and>
           (s = SELECTED \<longrightarrow> w = c)))"

lemma settles_decisions:
  assumes "settles extra cs pg" and "distinct (map cand_id cs)"
  shows "(\<forall>c s. decided pg c s \<longrightarrow> blocked_status s) \<or>
    (\<exists>w. freshest_of cs w \<and> extra w \<and> decided pg w SELECTED \<and>
       (\<forall>c \<in> set cs. \<forall>s. decided pg c s \<longrightarrow> (if c = w then s = SELECTED else s \<noteq> SELECTED)))"
proof (cases "\<forall>d \<in> set (pg_decisions pg). blocked_status (dec_status d)")
  case True
  then show ?thesis by (auto simp: decided_def)
next
  case False
  then obtain w where w: "freshest_of cs w" "extra w" "\<forall>d \<in> set (pg_decisions pg). superseding cs w d"
    using assms(1) unfolding settles_def by blast
  have ids: "mset (map dec_candidate_id (pg_decisions pg)) = mset (map cand_id cs)"
    using assms(1) by (simp add: settles_def)
  have mem: "w \<in> set cs" using w(1) by (simp add: freshest_of_def)
  then have "cand_id w \<in> set (map dec_candidate_id (pg_decisions pg))"
    using mset_eq_setD [OF ids] by simp
  then obtain d where d: "d \<in> set (pg_decisions pg)" "dec_candidate_id d = cand_id w" by auto
  then have sel: "decided pg w SELECTED" using w(3) unfolding decided_def superseding_def by metis
  have inj: "inj_on cand_id (set cs)" using assms(2) by (simp add: distinct_map)
  have "if c = w then s = SELECTED else s \<noteq> SELECTED" if c: "c \<in> set cs" "decided pg c s" for c s
  proof -
    obtain e where e: "e \<in> set (pg_decisions pg)" "dec_candidate_id e = cand_id c" "dec_status e = s"
      using c(2) unfolding decided_def by blast
    have "cand_id c = cand_id w \<longleftrightarrow> c = w" using inj_onD [OF inj _ c(1) mem] by blast
    then show ?thesis using w(3) e unfolding superseding_def by force
  qed
  then show ?thesis using w(1,2) sel by blast
qed

lemma settles_planned:
  assumes "settles extra cs pg" and "distinct (map cand_id cs)"
    and "\<And>w c. extra w \<Longrightarrow> c \<in> set cs \<Longrightarrow> rel w c"
  shows "group_planned rel cs pg"
  unfolding group_planned_def
proof (intro conjI)
  show "mset (map dec_candidate_id (pg_decisions pg)) = mset (map cand_id cs)"
    using assms(1) by (simp add: settles_def)
  note d = settles_decisions [OF assms(1,2)]
  show "\<forall>a \<in> set cs. \<forall>b \<in> set cs. decided pg a SELECTED \<longrightarrow> decided pg b SELECTED \<longrightarrow> a = b \<or> \<not> overlaps a b"
    using d by (metis blocked_status_eval(6))
  show "\<forall>c \<in> set cs. \<forall>s. decided pg c s \<longrightarrow> \<not> blocked_status s \<longrightarrow>
      (\<exists>w \<in> set cs. decided pg w SELECTED \<and> rel w c \<and>
         freshness_sort_key (cand_freshness c) \<le> freshness_sort_key (cand_freshness w) \<and> (s = SELECTED \<longrightarrow> w = c))"
  proof (intro ballI allI impI)
    fix c s assume c: "c \<in> set cs" "decided pg c s" "\<not> blocked_status s"
    then obtain w where w: "freshest_of cs w" "extra w" "decided pg w SELECTED"
        "\<forall>c \<in> set cs. \<forall>s. decided pg c s \<longrightarrow> (if c = w then s = SELECTED else s \<noteq> SELECTED)"
      using d by blast
    have "s = SELECTED \<longrightarrow> w = c" using w(4) c(1,2) by metis
    then show "\<exists>w \<in> set cs. decided pg w SELECTED \<and> rel w c \<and>
         freshness_sort_key (cand_freshness c) \<le> freshness_sort_key (cand_freshness w) \<and> (s = SELECTED \<longrightarrow> w = c)"
      using w(1,3) assms(3) [OF w(2) c(1)] c(1) unfolding freshest_of_def by blast
  qed
qed

lemma plan_exclusive_planned:
  assumes "cs \<noteq> []" and "distinct (map cand_id cs)"
  shows "\<exists>pg. plan_group profile cs EXCLUSIVE_SNAPSHOT = Inr pg \<and> group_planned (\<lambda>_ _. True) cs pg"
  using plan_exclusive_settles [OF assms] settles_planned [OF _ assms(2)]
  by (fastforce simp: plan_group_def)

lemma zip_mset_concat:
  assumes "list_all2 (\<lambda>cl pg. mset (map f (g pg)) = mset (map h cl)) cls pgs"
  shows "mset (map f (concat (map g pgs))) = mset (map h (concat cls))"
  using assms by (induction rule: list_all2_induct) simp_all

lemma decided_concat:
  assumes "list_all2 (\<lambda>cl pg. mset (map dec_candidate_id (pg_decisions pg)) = mset (map cand_id cl)) cls pgs"
    and "distinct (map cand_id (concat cls))" and "(cl, pg) \<in> set (zip cls pgs)" and "c \<in> set cl"
  shows "decided \<lparr>pg_decisions = concat (map pg_decisions pgs), pg_issues = issues\<rparr> c s \<longleftrightarrow> decided pg c s"
  using assms
proof (induction rule: list_all2_induct)
  case (Cons x xs y ys)
  have idset: "dec_candidate_id ` set (pg_decisions y) = cand_id ` set x"
    using mset_eq_setD [OF Cons.hyps(1)] by simp
  have idrest: "dec_candidate_id ` set (concat (map pg_decisions ys)) = cand_id ` set (concat xs)"
    using mset_eq_setD [OF zip_mset_concat [OF Cons.hyps(2)]] by simp
  have disj: "cand_id ` set x \<inter> cand_id ` set (concat xs) = {}" using Cons.prems(1) by auto
  have split: "decided \<lparr>pg_decisions = concat (map pg_decisions (y # ys)), pg_issues = issues\<rparr> c s \<longleftrightarrow>
      decided y c s \<or> decided \<lparr>pg_decisions = concat (map pg_decisions ys), pg_issues = issues\<rparr> c s"
    by (auto simp: decided_def)
  show ?case
  proof (cases "(cl, pg) = (x, y)")
    case True
    then have "cand_id c \<notin> dec_candidate_id ` set (concat (map pg_decisions ys))"
      unfolding idrest using disj Cons.prems(3) by auto
    then have "\<not> decided \<lparr>pg_decisions = concat (map pg_decisions ys), pg_issues = issues\<rparr> c s"
      unfolding decided_def by (metis imageI planned_group.select_convs(1))
    then show ?thesis using split True by simp
  next
    case False
    then have z: "(cl, pg) \<in> set (zip xs ys)" using Cons.prems(2) by auto
    then have "cl \<in> set xs" by (rule set_zip_leftD)
    then have "cand_id c \<in> cand_id ` set (concat xs)" using Cons.prems(3) by auto
    then have "cand_id c \<notin> dec_candidate_id ` set (pg_decisions y)" unfolding idset using disj by auto
    then have "\<not> decided y c s" unfolding decided_def by (metis imageI planned_group.select_convs(1))
    then show ?thesis using split Cons.IH [OF _ z Cons.prems(3)] Cons.prems(1) by simp
  qed
qed simp

lemma components_well_formed:
  assumes "distinct (map cand_id cs)"
  shows "distinct (map cand_id (concat (overlap_components cs)))"
    and "cl \<in> set (overlap_components cs) \<Longrightarrow> cl \<noteq> [] \<and> distinct (map cand_id cl) \<and> set cl \<subseteq> set cs"
proof -
  have part: "mset (concat (overlap_components cs)) = mset cs" by (rule components_ok(1) [OF assms])
  show dist: "distinct (map cand_id (concat (overlap_components cs)))"
    using assms part by (metis mset_eq_imp_distinct_iff mset_map)
  assume cl: "cl \<in> set (overlap_components cs)"
  have "cl \<noteq> []" using components_ok(2) [OF assms] cl by (simp add: component_class_def)
  moreover have "distinct (map cand_id cl)"
    using dist cl unfolding map_concat by (metis distinct_concat_iff image_eqI set_map)
  moreover have "set cl \<subseteq> set cs" using mset_eq_setD [OF part] cl by auto
  ultimately show "cl \<noteq> [] \<and> distinct (map cand_id cl) \<and> set cl \<subseteq> set cs" by blast
qed

lemma component_plans:
  assumes "distinct (map cand_id cs)"
  shows "\<exists>pgs. r_map (plan_overlap_component profile mode) (overlap_components cs) = Inr pgs \<and>
    list_all2 (\<lambda>cl pg. settles (covers cl) cl pg) (overlap_components cs) pgs"
proof -
  have ok: "\<exists>pg. plan_overlap_component profile mode cl = Inr pg \<and> settles (covers cl) cl pg"
    if "cl \<in> set (overlap_components cs)" for cl
    using plan_component_settles components_well_formed(2) [OF assms that] by blast
  then obtain pgs where pgs: "r_map (plan_overlap_component profile mode) (overlap_components cs) = Inr pgs"
    using r_map_exists_ok [of "overlap_components cs" "plan_overlap_component profile mode"] by blast
  have "list_all2 (\<lambda>cl pg. plan_overlap_component profile mode cl = Inr pg) (overlap_components cs) pgs"
    using pgs by (simp add: r_map_Inr_iff)
  then have "list_all2 (\<lambda>cl pg. settles (covers cl) cl pg) (overlap_components cs) pgs"
  proof (rule list.rel_mono_strong)
    fix cl pg assume "cl \<in> set (overlap_components cs)" and run: "plan_overlap_component profile mode cl = Inr pg"
    then obtain pg' where "plan_overlap_component profile mode cl = Inr pg'" "settles (covers cl) cl pg'"
      using ok by blast
    then show "settles (covers cl) cl pg" using run by simp
  qed
  then show ?thesis using pgs by blast
qed

text \<open>Joining the plans of the components: every candidate is decided by its own component.\<close>

lemma joined_home:
  assumes "distinct (map cand_id cs)"
    and "list_all2 (\<lambda>cl pg. settles (covers cl) cl pg) (overlap_components cs) pgs" and "c \<in> set cs"
  shows "\<exists>cl pg. cl \<in> set (overlap_components cs) \<and> c \<in> set cl \<and> group_planned within_window cl pg \<and>
    (\<forall>b \<in> set cl. \<forall>s. decided \<lparr>pg_decisions = concat (map pg_decisions pgs), pg_issues = issues\<rparr> b s \<longleftrightarrow>
      decided pg b s)"
proof -
  have ids2: "list_all2 (\<lambda>cl pg. mset (map dec_candidate_id (pg_decisions pg)) = mset (map cand_id cl))
      (overlap_components cs) pgs"
    using assms(2) by (rule list_all2_mono) (simp add: settles_def)
  have "c \<in> set (concat (overlap_components cs))"
    using assms(3) mset_eq_setD [OF components_ok(1) [OF assms(1)]] by simp
  then obtain cl where cl: "cl \<in> set (overlap_components cs)" "c \<in> set cl" by auto
  then obtain pg where z: "(cl, pg) \<in> set (zip (overlap_components cs) pgs)"
    using list_all2_lengthD [OF assms(2)] by (metis in_set_impl_in_set_zip1)
  have "group_planned within_window cl pg"
  proof (rule settles_planned)
    show "settles (covers cl) cl pg" using assms(2) z unfolding list_all2_iff by blast
    show "distinct (map cand_id cl)" using components_well_formed(2) [OF assms(1) cl(1)] by blast
  qed (simp add: covers_def within_window_def)
  then show ?thesis
    using cl decided_concat [OF ids2 components_well_formed(1) [OF assms(1)] z] by blast
qed

lemma plan_range_planned:
  assumes "distinct (map cand_id cs)" and "mode \<noteq> EXCLUSIVE_SNAPSHOT"
  shows "\<exists>pg. plan_group profile cs mode = Inr pg \<and> group_planned within_window cs pg"
proof -
  obtain pgs where pgs: "r_map (plan_overlap_component profile mode) (overlap_components cs) = Inr pgs"
    and all2: "list_all2 (\<lambda>cl pg. settles (covers cl) cl pg) (overlap_components cs) pgs"
    using component_plans [OF assms(1)] by blast
  let ?pg = "\<lparr>pg_decisions = concat (map pg_decisions pgs), pg_issues = concat (map pg_issues pgs)\<rparr>"
  note home = joined_home [OF assms(1) all2, of _ "concat (map pg_issues pgs)"]
  have "group_planned within_window cs ?pg"
    unfolding group_planned_def
  proof (intro conjI ballI allI impI)
    have "list_all2 (\<lambda>cl pg. mset (map dec_candidate_id (pg_decisions pg)) = mset (map cand_id cl))
        (overlap_components cs) pgs"
      using all2 by (rule list_all2_mono) (simp add: settles_def)
    from zip_mset_concat [OF this]
    show "mset (map dec_candidate_id (pg_decisions ?pg)) = mset (map cand_id cs)"
      using components_ok(1) [OF assms(1)] by (metis mset_map planned_group.select_convs(1))
  next
    fix a b assume ab: "a \<in> set cs" "b \<in> set cs" "decided ?pg a SELECTED" "decided ?pg b SELECTED"
    obtain cl pg where cl: "cl \<in> set (overlap_components cs)" "a \<in> set cl" "group_planned within_window cl pg"
        "\<forall>b \<in> set cl. \<forall>s. decided ?pg b s \<longleftrightarrow> decided pg b s" using home [OF ab(1)] by blast
    obtain cl' where cl': "cl' \<in> set (overlap_components cs)" "b \<in> set cl'" using home [OF ab(2)] by blast
    show "a = b \<or> \<not> overlaps a b"
    proof (cases "b \<in> set cl")
      case True
      then show ?thesis using ab(3,4) cl(2-4) unfolding group_planned_def by blast
    next
      case False
      then show ?thesis using components_disjoint [OF assms(1) cl(1) cl'(1) cl(2) cl'(2)] by blast
    qed
  next
    fix c s assume c: "c \<in> set cs" "decided ?pg c s" "\<not> blocked_status s"
    obtain cl pg where cl: "cl \<in> set (overlap_components cs)" "c \<in> set cl" "group_planned within_window cl pg"
        "\<forall>b \<in> set cl. \<forall>s. decided ?pg b s \<longleftrightarrow> decided pg b s" using home [OF c(1)] by blast
    have "decided pg c s" using c(2) cl(2,4) by blast
    then obtain w where "w \<in> set cl" "decided pg w SELECTED" "within_window w c"
        "freshness_sort_key (cand_freshness c) \<le> freshness_sort_key (cand_freshness w)" "s = SELECTED \<longrightarrow> w = c"
      using cl(2,3) c(3) unfolding group_planned_def by blast
    then show "\<exists>w \<in> set cs. decided ?pg w SELECTED \<and> within_window w c \<and>
        freshness_sort_key (cand_freshness c) \<le> freshness_sort_key (cand_freshness w) \<and> (s = SELECTED \<longrightarrow> w = c)"
      using cl(4) components_well_formed(2) [OF assms(1) cl(1)] by blast
  qed
  moreover have "plan_group profile cs mode = Inr ?pg" using assms(2) pgs by (simp add: plan_group_def)
  ultimately show ?thesis by blast
qed

end
