(* ===== verification/Input_Planner.thy ===== *)
theory Input_Planner
  imports Input_Selection
begin

text \<open>
  \<open>validation.py\<close>, \<open>models.py\<close> and \<open>planner.py\<close> under
  \<open>application/normalization/translation_inputs\<close>: candidates are validated against the file
  inventory, grouped, and every group is blocked as a whole or planned by \<open>plan_group\<close>. Validation
  collects errors as texts; only comparing a naive with an aware datetime raises, in the check of
  the bounds and again when the decisions are ordered.
\<close>

section \<open>Validation\<close>

record candidate_context =
  cc_candidate :: candidate
  cc_member_entries :: "inventory_entry list"
  cc_validation_errors :: "string list"

definition cc_valid :: "candidate_context \<Rightarrow> bool" where
  "cc_valid ctx \<longleftrightarrow> cc_validation_errors ctx = []"

definition error_if :: "bool \<Rightarrow> string \<Rightarrow> string list" where
  "error_if b e = (if b then [e] else [])"

definition validate_utc_datetime :: "datetime \<Rightarrow> string \<Rightarrow> string list" where
  "validate_utc_datetime v label =
     (case require_utc_datetime v label of Inl (ValueError message) \<Rightarrow> [message] | _ \<Rightarrow> [])"

definition validate_known_coverage_mode :: "coverage_window \<Rightarrow> string list" where
  "validate_known_coverage_mode w =
     (case cw_mode w of
        BOUNDED \<Rightarrow>
          error_if (cw_start_at w = None \<or> cw_end_at w = None) ''bounded coverage requires start_at and end_at'' @
          error_if (cw_start_precision w = None \<or> cw_end_precision w = None)
            ''bounded coverage requires start_precision and end_precision''
      | UNBOUNDED_START \<Rightarrow>
          error_if (cw_start_at w \<noteq> None \<or> cw_start_precision w \<noteq> None)
            ''unbounded_start coverage cannot carry a start bound'' @
          error_if (cw_end_at w = None \<or> cw_end_precision w = None)
            ''unbounded_start coverage requires an end bound''
      | UNBOUNDED_END \<Rightarrow>
          error_if (cw_end_at w \<noteq> None \<or> cw_end_precision w \<noteq> None)
            ''unbounded_end coverage cannot carry an end bound'' @
          error_if (cw_start_at w = None \<or> cw_start_precision w = None)
            ''unbounded_end coverage requires a start bound''
      | COVERAGE_UNKNOWN \<Rightarrow> [])"

definition optional_utc_errors :: "datetime option \<Rightarrow> string \<Rightarrow> string list" where
  "optional_utc_errors v label = (case v of None \<Rightarrow> [] | Some t \<Rightarrow> validate_utc_datetime t label)"

definition validate_coverage :: "coverage_window \<Rightarrow> string list result" where
  "validate_coverage w =
     (if cw_mode w = COVERAGE_UNKNOWN then
        Inr (error_if (cw_start_at w \<noteq> None \<or> cw_start_precision w \<noteq> None \<or> cw_end_at w \<noteq> None \<or>
          cw_end_precision w \<noteq> None) ''unknown coverage cannot carry bounds or precisions'')
      else
        r_bind (case (cw_start_at w, cw_end_at w) of (Some s, Some e) \<Rightarrow> later s e | _ \<Rightarrow> Inr False) (\<lambda>reversed.
          Inr (validate_known_coverage_mode w @
            optional_utc_errors (cw_start_at w) ''coverage start_at'' @
            optional_utc_errors (cw_end_at w) ''coverage end_at'' @
            error_if reversed ''coverage start_at must not be after end_at'')))"

definition validate_freshness :: "freshness \<Rightarrow> datetime option \<Rightarrow> string list" where
  "validate_freshness f intake_completed_at =
     (let kind = freshness_kind_text (fr_kind f) in
      if fr_kind f = FRESHNESS_UNKNOWN then
        error_if (fr_timestamp f \<noteq> None \<or> fr_rank f \<noteq> None) ''unknown freshness cannot carry timestamp or rank''
      else
        (if fr_kind f \<in> {EXPORT_TIMESTAMP, CAPTURE_COMPLETED_AT} then
           error_if (fr_timestamp f = None) (kind @ '' freshness requires timestamp'') @
           error_if (fr_rank f \<noteq> None) (kind @ '' freshness cannot carry rank'') @
           optional_utc_errors (fr_timestamp f) (kind @ '' freshness timestamp'')
         else
           error_if (fr_rank f = None) ''adapter_rank freshness requires rank'' @
           error_if (fr_timestamp f \<noteq> None) ''adapter_rank freshness cannot carry timestamp'') @
        (case (fr_timestamp f, intake_completed_at) of
           (Some t, Some completed) \<Rightarrow>
             error_if (fr_kind f = CAPTURE_COMPLETED_AT \<and> \<not> same_moment t completed)
               ''capture_completed_at freshness must match the capture metadata completion time''
         | _ \<Rightarrow> []))"

definition duplicated_candidate_ids :: "candidate list \<Rightarrow> string list" where
  "duplicated_candidate_ids cs =
     map fst (filter (\<lambda>(i, same). 1 < length same) (group_by cand_id cs))"

definition member_errors :: "(string, inventory_entry) dict \<Rightarrow> candidate \<Rightarrow> string list" where
  "member_errors inventory_by_path c =
     concat (map (\<lambda>p. case map_of inventory_by_path p of
         None \<Rightarrow> [''member path '' @ py_repr p @ '' was not found in profile inventory'']
       | Some _ \<Rightarrow> []) (cand_member_paths c))"

definition validate_candidate ::
    "(string, inventory_entry) dict \<Rightarrow> datetime option \<Rightarrow> string list \<Rightarrow> candidate \<Rightarrow> candidate_context result" where
  "validate_candidate inventory_by_path intake_completed_at duplicate_candidate_ids c =
     (let member_entries = List.map_filter (map_of inventory_by_path) (cand_member_paths c);
          fingerprint_errors =
            (if strip (cand_content_fingerprint c) = [] then [''content_fingerprint must be non-empty'']
             else error_if (member_entries \<noteq> [] \<and> cand_content_fingerprint c \<noteq>
                 content_fingerprint (sort (map inv_sha256 member_entries)) (cand_family_id c)
                   (cand_selection_group c) (cand_selection_mode c))
               ''content_fingerprint does not match candidate member inventory'')
      in r_bind (validate_coverage (cand_coverage c)) (\<lambda>coverage_errors.
        Inr \<lparr>cc_candidate = c, cc_member_entries = member_entries, cc_validation_errors =
          error_if (cand_id c \<in> set duplicate_candidate_ids)
            (''candidate id '' @ py_repr (cand_id c) @ '' is duplicated'') @
          error_if (strip (cand_selection_group c) = []) ''selection_group must be a non-empty string'' @
          error_if (strip (cand_family_id c) = []) ''family_id must be a non-empty string'' @
          error_if (strip (cand_comparison_key c) = []) ''comparison_key must be a non-empty string'' @
          error_if (strip (cand_description c) = []) ''description must be a non-empty string'' @
          error_if (cand_member_paths c = []) ''candidate must include at least one member path'' @
          error_if (length (remdups (cand_member_paths c)) \<noteq> length (cand_member_paths c))
            ''candidate member paths must be unique'' @
          member_errors inventory_by_path c @ fingerprint_errors @ coverage_errors @
          validate_freshness (cand_freshness c) intake_completed_at\<rparr>))"

type_synonym contexts = "(string, candidate_context) dict"

definition validate_candidates ::
    "candidate list \<Rightarrow> (string, inventory_entry) dict \<Rightarrow> datetime option \<Rightarrow> contexts result" where
  "validate_candidates cs inventory_by_path intake_completed_at =
     r_bind (r_map (validate_candidate inventory_by_path intake_completed_at (duplicated_candidate_ids cs)) cs)
       (\<lambda>ctxs. Inr (index_by (\<lambda>ctx. cand_id (cc_candidate ctx)) ctxs))"

definition group_contexts :: "contexts \<Rightarrow> (string, candidate_context list) dict" where
  "group_contexts contexts =
     map (\<lambda>(group_id, ctxs). (group_id, sort_key (\<lambda>ctx. cand_id (cc_candidate ctx)) ctxs))
       (group_by (\<lambda>ctx. cand_selection_group (cc_candidate ctx)) (map snd contexts))"

definition has_invalid_member_overlap :: "candidate_context list \<Rightarrow> bool" where
  "has_invalid_member_overlap ctxs =
     list_ex (\<lambda>(left, right).
         set (cand_member_paths (cc_candidate left)) \<inter> set (cand_member_paths (cc_candidate right)) \<noteq> {} \<and>
         sort (cand_member_paths (cc_candidate left)) \<noteq> sort (cand_member_paths (cc_candidate right)))
       (pairs_of ctxs)"

definition group_failure :: "candidate_context list \<Rightarrow> (plan_status \<times> string) option" where
  "group_failure ctxs =
     (if list_ex (\<lambda>ctx. \<not> cc_valid ctx) ctxs then
        Some (BLOCKED_INVALID_CANDIDATE, ''candidate validation errors prevent deterministic planning'')
      else if 1 < length ctxs \<and>
          list_ex (\<lambda>ctx. cw_mode (cand_coverage (cc_candidate ctx)) = COVERAGE_UNKNOWN) ctxs then
        Some (BLOCKED_UNKNOWN_COVERAGE, ''translation input planning cannot compare multiple candidates when any candidate has unknown event-time coverage'')
      else if has_invalid_member_overlap ctxs then
        Some (BLOCKED_INVALID_CANDIDATE, ''candidate members overlap inside one selection group without an exact alternative candidate definition'')
      else None)"

definition group_failures :: "contexts \<Rightarrow> (string, plan_status \<times> string) dict" where
  "group_failures contexts =
     List.map_filter (\<lambda>(group_id, ctxs). map_option (Pair group_id) (group_failure ctxs))
       (group_contexts contexts)"

definition group_policy :: "candidate list \<Rightarrow> selection_mode option" where
  "group_policy cs =
     (let modes = remdups (map cand_selection_mode cs) in
      if EXCLUSIVE_SNAPSHOT \<in> set modes then Some EXCLUSIVE_SNAPSHOT
      else if length modes = 1 then Some (hd modes)
      else None)"

section \<open>The plan\<close>

type_synonym decisions = "(string, plan_decision) dict"

definition plan_order_key :: "candidate \<Rightarrow> int \<times> int \<times> int \<times> (bool \<times> int) \<times> string" where
  "plan_order_key c =
     (instant (coverage_start (cand_coverage c)), instant (coverage_end (cand_coverage c)),
      - freshness_precedence (fr_kind (cand_freshness c)),
      negated_value (freshness_value (cand_freshness c)), cand_id c)"

text \<open>
  Sorting by that key compares some naive bound with some aware one exactly when the starts are
  mixed, or the ends of two windows with the same start.
\<close>

definition mixed_order :: "candidate list \<Rightarrow> bool" where
  "mixed_order cs = list_ex (\<lambda>a. list_ex (\<lambda>b.
     aware (coverage_start (cand_coverage a)) \<noteq> aware (coverage_start (cand_coverage b)) \<or>
     same_moment (coverage_start (cand_coverage a)) (coverage_start (cand_coverage b)) \<and>
     aware (coverage_end (cand_coverage a)) \<noteq> aware (coverage_end (cand_coverage b))) cs) cs"

definition lookup :: "('k, 'v) dict \<Rightarrow> 'k \<Rightarrow> 'v result" where
  "lookup d k = (case map_of d k of None \<Rightarrow> Inl (KeyError []) | Some v \<Rightarrow> Inr v)"

definition build_translation_plan :: "contexts \<Rightarrow> decisions \<Rightarrow> translation_input_plan result" where
  "build_translation_plan contexts decisions =
     r_bind (r_map (\<lambda>(i, d). r_bind (lookup contexts i) (\<lambda>ctx. Inr (cc_candidate ctx, d))) decisions) (\<lambda>items.
     if mixed_order (map fst items) then Inl mixed_error
     else Inr
       \<lparr>plan_selected_candidate_ids = map (\<lambda>(c, d). cand_id c)
          (filter (\<lambda>(c, d). dec_status d = SELECTED) (sort_key (\<lambda>(c, d). plan_order_key c) items)),
        plan_decisions = map snd (sort_key fst decisions),
        plan_blocked = list_ex (\<lambda>(i, d). blocked_status (dec_status d)) decisions\<rparr>)"

definition block_all ::
    "(candidate_context \<Rightarrow> string) \<Rightarrow> plan_status \<Rightarrow> candidate_context list \<Rightarrow> decisions \<Rightarrow> decisions" where
  "block_all reason status ctxs decisions =
     fold (\<lambda>ctx. AList.update (cand_id (cc_candidate ctx))
       (blocked_decision (map cc_candidate ctxs) status (reason ctx) (cc_candidate ctx))) ctxs decisions"

definition invalid_group_issues ::
    "planning_profile \<Rightarrow> plan_status \<Rightarrow> string \<Rightarrow> candidate_context list \<Rightarrow> issue_record list" where
  "invalid_group_issues profile status reason ctxs =
     map (\<lambda>ctx. issue_for_candidate profile (cc_candidate ctx) status reason
       (other_ids (map cc_candidate ctxs) (cand_id (cc_candidate ctx)))) ctxs"

definition mixed_policy_reason :: string where
  "mixed_policy_reason = ''translation input candidates in the same selection group must share appendable_range or replaceable_range semantics, unless the group contains exclusive_snapshot candidates''"

type_synonym planner_state = "issue_record list \<times> decisions"

definition plan_group_step ::
    "planning_profile \<Rightarrow> (string, plan_status \<times> string) dict \<Rightarrow> string \<times> candidate_context list \<Rightarrow>
      planner_state \<Rightarrow> planner_state result" where
  "plan_group_step profile failures grp st =
     (let (group_id, ctxs) = grp; (issues, decisions) = st; group_candidates = map cc_candidate ctxs in
      case map_of failures group_id of
        Some (status, reason) \<Rightarrow>
          Inr (issues @ invalid_group_issues profile status reason ctxs,
            block_all (\<lambda>ctx. if cc_validation_errors ctx \<noteq> [] then join ''; '' (cc_validation_errors ctx) else reason)
              status ctxs decisions)
      | None \<Rightarrow>
          (case group_policy group_candidates of
             None \<Rightarrow>
               Inr (issues @ invalid_group_issues profile BLOCKED_INVALID_CANDIDATE mixed_policy_reason ctxs,
                 block_all (\<lambda>_. mixed_policy_reason) BLOCKED_INVALID_CANDIDATE ctxs decisions)
           | Some policy \<Rightarrow>
               r_bind (plan_group profile group_candidates policy) (\<lambda>planned.
                 Inr (issues @ pg_issues planned,
                   fold (\<lambda>d. AList.update (dec_candidate_id d) d) (pg_decisions planned) decisions))))"

record planning_result =
  pr_candidates :: "candidate list"
  pr_plan :: translation_input_plan
  pr_issues :: "issue_record list"

definition plan_translation_inputs ::
    "planning_profile \<Rightarrow> candidate list \<Rightarrow> datetime option \<Rightarrow> planning_result result" where
  "plan_translation_inputs profile candidates intake_completed_at =
     (let ordered = sort_key cand_id candidates in
      r_bind (validate_candidates ordered (index_by inv_relative_path (prof_file_inventory profile))
          intake_completed_at) (\<lambda>contexts.
      let invalid_issues = map (\<lambda>ctx. planning_issue profile (cc_candidate ctx) BLOCKED_INVALID_CANDIDATE
            (join ''; '' (cc_validation_errors ctx))) (filter (\<lambda>ctx. \<not> cc_valid ctx) (map snd contexts))
      in r_bind (r_fold (plan_group_step profile (group_failures contexts)) (group_contexts contexts)
            (invalid_issues, [])) (\<lambda>(issues, decisions).
         r_bind (build_translation_plan contexts decisions) (\<lambda>plan.
           Inr \<lparr>pr_candidates = ordered, pr_plan = plan, pr_issues = issues\<rparr>))))"

section \<open>Metrics\<close>

definition translation_metrics_from_result :: "planning_result \<Rightarrow> bool \<Rightarrow> translation_metrics" where
  "translation_metrics_from_result res planner_used =
     \<lparr>tm_candidate_count = length (pr_candidates res),
      tm_selected_count = length (plan_selected_candidate_ids (pr_plan res)),
      tm_superseded_count = length (filter (\<lambda>d. dec_status d \<in> {SUPERSEDED_IDENTICAL, SUPERSEDED_REPLACED})
        (plan_decisions (pr_plan res))),
      tm_blocked_count = length (filter (\<lambda>d. blocked_status (dec_status d)) (plan_decisions (pr_plan res))),
      tm_planner_used = planner_used\<rparr>"

section \<open>Validation keeps the candidates\<close>

definition aware_bounds :: "candidate \<Rightarrow> bool" where
  "aware_bounds c \<longleftrightarrow> aware (coverage_start (cand_coverage c)) \<and> aware (coverage_end (cand_coverage c))"

lemma aware_extremes [simp]: "aware MIN_COVERAGE_BOUND" "aware MAX_COVERAGE_BOUND"
  by (simp_all add: aware_def MIN_COVERAGE_BOUND_def MAX_COVERAGE_BOUND_def)

lemma validate_coverage_ok: "aware_bounds c \<Longrightarrow> is_ok (validate_coverage (cand_coverage c))"
  by (auto simp: validate_coverage_def aware_bounds_def coverage_start_def coverage_end_def later_def
      split: option.splits)

lemma validate_candidate_ok:
  "is_ok (validate_candidate files done_at dups c) \<longleftrightarrow> is_ok (validate_coverage (cand_coverage c))"
  by (cases "validate_coverage (cand_coverage c)") (simp_all add: validate_candidate_def Let_def)

lemma validate_candidate_candidate: "validate_candidate files done_at dups c = Inr ctx \<Longrightarrow> cc_candidate ctx = c"
  by (auto simp: validate_candidate_def Let_def result_simps)

definition ctx_id :: "candidate_context \<Rightarrow> string" where
  "ctx_id ctx = cand_id (cc_candidate ctx)"

definition contexts_for :: "candidate list \<Rightarrow> contexts \<Rightarrow> bool" where
  "contexts_for cs contexts \<longleftrightarrow>
     (\<forall>p \<in> set contexts. fst p = ctx_id (snd p) \<and> cc_candidate (snd p) \<in> set cs) \<and>
     distinct (map fst contexts) \<and> set (map fst contexts) = cand_id ` set cs"

lemma validate_candidates_contexts:
  assumes "validate_candidates cs files done_at = Inr contexts"
  shows "contexts_for cs contexts"
proof -
  obtain ctxs where ctxs: "r_map (validate_candidate files done_at (duplicated_candidate_ids cs)) cs = Inr ctxs"
      "contexts = index_by ctx_id ctxs"
    using assms by (auto simp: validate_candidates_def ctx_id_def [abs_def] result_simps)
  have "map cc_candidate ctxs = cs"
    using ctxs(1) validate_candidate_candidate unfolding r_map_Inr_iff
    by (auto simp: list_all2_conv_all_nth list_eq_iff_nth_eq)
  then have im: "cc_candidate ` set ctxs = set cs" "ctx_id ` set ctxs = cand_id ` set cs"
    unfolding ctx_id_def [abs_def] by (metis list.set_map, metis image_image list.set_map)
  show ?thesis
    unfolding contexts_for_def
  proof (intro conjI ballI)
    fix p assume p: "p \<in> set contexts"
    show "fst p = ctx_id (snd p)" using index_by_entry(1) p unfolding ctxs(2) by metis
    show "cc_candidate (snd p) \<in> set cs" using index_by_entry(2) p im(1) unfolding ctxs(2) by blast
  next
    show "distinct (map fst contexts)" unfolding ctxs(2) by (rule distinct_index_by)
    show "set (map fst contexts) = cand_id ` set cs" unfolding ctxs(2) keys_index_by by (rule im(2))
  qed
qed

lemma contexts_ids:
  assumes "contexts_for cs contexts"
  shows "map ctx_id (map snd contexts) = map fst contexts"
  using assms by (auto simp: contexts_for_def)

lemma validate_candidates_ok:
  assumes "\<forall>c \<in> set cs. aware_bounds c"
  shows "is_ok (validate_candidates cs files done_at)"
proof -
  have "\<exists>ctx. validate_candidate files done_at (duplicated_candidate_ids cs) c = Inr ctx" if "c \<in> set cs" for c
    using validate_candidate_ok [of files done_at "duplicated_candidate_ids cs" c] validate_coverage_ok assms that
    by (simp add: is_ok_iff)
  then obtain ctxs where "r_map (validate_candidate files done_at (duplicated_candidate_ids cs)) cs = Inr ctxs"
    using r_map_exists_ok [of cs] by blast
  then show ?thesis by (simp add: validate_candidates_def)
qed

section \<open>The groups\<close>

lemma mset_concat_sorted: "mset (concat (map (\<lambda>p. sort_key f (snd p)) ps)) = mset (concat (map snd ps))"
  by (induction ps) simp_all

lemma groups_mset: "mset (concat (map snd (group_contexts contexts))) = mset (map snd contexts)"
proof -
  have "map snd (group_contexts contexts) =
      map (\<lambda>p. sort_key (\<lambda>ctx. cand_id (cc_candidate ctx)) (snd p))
        (group_by (\<lambda>ctx. cand_selection_group (cc_candidate ctx)) (map snd contexts))"
    by (simp add: group_contexts_def split_def comp_def)
  then show ?thesis using mset_group_by mset_concat_sorted by metis
qed

lemma group_entry:
  assumes "(gid, ctxs) \<in> set (group_contexts contexts)"
  shows "ctxs \<noteq> [] \<and> set ctxs = {ctx \<in> snd ` set contexts. cand_selection_group (cc_candidate ctx) = gid}"
proof -
  obtain g where g: "(gid, g) \<in> set (group_by (\<lambda>ctx. cand_selection_group (cc_candidate ctx)) (map snd contexts))"
      "ctxs = sort_key (\<lambda>ctx. cand_id (cc_candidate ctx)) g"
    using assms by (auto simp: group_contexts_def)
  note m = mem_group_byD [OF g(1)]
  have "set ctxs = set g" by (simp add: g(2))
  moreover have "ctxs \<noteq> []" using m(3) g(2) by (metis length_0_conv length_sort)
  ultimately show ?thesis using m(1) by auto
qed

lemma group_ids_distinct: "distinct (map fst (group_contexts contexts))"
  using distinct_group_by [of "\<lambda>ctx. cand_selection_group (cc_candidate ctx)" "map snd contexts"]
  by (simp add: group_contexts_def split_def comp_def)

lemma group_failures_lookup:
  assumes "(gid, ctxs) \<in> set (group_contexts contexts)"
  shows "map_of (group_failures contexts) gid = group_failure ctxs"
proof -
  have "map_of (List.map_filter (\<lambda>(g, cs). map_option (Pair g) (group_failure cs)) ps) gid = group_failure ctxs"
    if "distinct (map fst ps)" and "(gid, ctxs) \<in> set ps" for ps
    using that
  proof (induction ps)
    case (Cons p ps)
    obtain g cs where p: "p = (g, cs)" by (cases p)
    show ?case
    proof (cases "g = gid")
      case True
      then have "cs = ctxs" using Cons.prems p by (force simp: image_iff)
      moreover have "map_of (List.map_filter (\<lambda>(g, cs). map_option (Pair g) (group_failure cs)) ps) gid = None"
      proof -
        have "gid \<notin> fst ` set ps" using Cons.prems(1) True p by simp
        then show ?thesis by (induction ps) (auto simp: map_filter_simps split: option.split)
      qed
      ultimately show ?thesis using True p by (auto simp: map_filter_simps split: option.split)
    next
      case False
      then show ?thesis using Cons p by (auto simp: map_filter_simps split: option.split)
    qed
  qed simp
  from this [OF group_ids_distinct assms] show ?thesis by (simp add: group_failures_def)
qed

section \<open>The outcome of a group\<close>

definition blocked_outcome ::
    "planning_profile \<Rightarrow> plan_status \<Rightarrow> string \<Rightarrow> (candidate_context \<Rightarrow> string) \<Rightarrow> candidate_context list \<Rightarrow>
      planned_group" where
  "blocked_outcome profile status issue_reason reason ctxs =
     \<lparr>pg_decisions = map (\<lambda>ctx. blocked_decision (map cc_candidate ctxs) status (reason ctx) (cc_candidate ctx)) ctxs,
      pg_issues = invalid_group_issues profile status issue_reason ctxs\<rparr>"

definition group_outcome ::
    "planning_profile \<Rightarrow> (plan_status \<times> string) option \<Rightarrow> candidate_context list \<Rightarrow> planned_group result" where
  "group_outcome profile failure ctxs =
     (case failure of
        Some (status, reason) \<Rightarrow> Inr (blocked_outcome profile status reason
          (\<lambda>ctx. if cc_validation_errors ctx \<noteq> [] then join ''; '' (cc_validation_errors ctx) else reason) ctxs)
      | None \<Rightarrow> (case group_policy (map cc_candidate ctxs) of
            None \<Rightarrow> Inr (blocked_outcome profile BLOCKED_INVALID_CANDIDATE mixed_policy_reason
              (\<lambda>_. mixed_policy_reason) ctxs)
          | Some policy \<Rightarrow> plan_group profile (map cc_candidate ctxs) policy))"

definition add_decisions :: "plan_decision list \<Rightarrow> decisions \<Rightarrow> decisions" where
  "add_decisions ds decisions = fold (\<lambda>d. AList.update (dec_candidate_id d) d) ds decisions"

lemma block_all_flat:
  "block_all reason status ctxs decisions =
     add_decisions (map (\<lambda>ctx. blocked_decision (map cc_candidate ctxs) status (reason ctx) (cc_candidate ctx)) ctxs)
       decisions"
proof -
  have "fold (\<lambda>ctx. AList.update (cand_id (cc_candidate ctx)) (blocked_decision cs status (reason ctx) (cc_candidate ctx)))
      xs decisions = add_decisions (map (\<lambda>ctx. blocked_decision cs status (reason ctx) (cc_candidate ctx)) xs) decisions"
    for cs xs by (induction xs arbitrary: decisions) (simp_all add: add_decisions_def blocked_decision_def)
  then show ?thesis by (simp add: block_all_def)
qed

lemma plan_group_step_flat:
  "plan_group_step profile failures (gid, ctxs) (issues, decisions) =
     r_bind (group_outcome profile (map_of failures gid) ctxs) (\<lambda>pg.
       Inr (issues @ pg_issues pg, add_decisions (pg_decisions pg) decisions))"
  by (auto simp: plan_group_step_def group_outcome_def blocked_outcome_def Let_def block_all_flat
      add_decisions_def split: option.split)

lemma plan_groups_flat:
  "r_fold (plan_group_step profile failures) grps (issues, decisions) =
     r_bind (r_map (\<lambda>(gid, ctxs). group_outcome profile (map_of failures gid) ctxs) grps) (\<lambda>pgs.
       Inr (issues @ concat (map pg_issues pgs), add_decisions (concat (map pg_decisions pgs)) decisions))"
proof (induction grps arbitrary: issues decisions)
  case Nil
  then show ?case by (simp add: add_decisions_def)
next
  case (Cons g grps)
  obtain gid ctxs where g: "g = (gid, ctxs)" by (cases g)
  show ?case
    by (cases "group_outcome profile (map_of failures gid) ctxs")
      (simp_all add: g plan_group_step_flat Cons.IH r_bind_assoc add_decisions_def)
qed

definition replaceable_group :: "candidate list \<Rightarrow> bool" where
  "replaceable_group cs \<longleftrightarrow> (\<forall>c \<in> set cs. cand_selection_mode c \<noteq> EXCLUSIVE_SNAPSHOT)"

text \<open>What a candidate that replaces another owes it: in a range group, its whole window.\<close>

definition replaces :: "candidate list \<Rightarrow> candidate \<Rightarrow> candidate \<Rightarrow> bool" where
  "replaces cs w c \<longleftrightarrow> (replaceable_group cs \<longrightarrow> within_window w c)"

lemma blocked_planned:
  assumes "distinct (map cand_id cs)" and "blocked_status status"
    and "map dec_candidate_id (pg_decisions pg) = map cand_id cs"
    and "\<forall>d \<in> set (pg_decisions pg). dec_status d = status"
  shows "group_planned rel cs pg"
proof (rule settles_planned [where extra = "\<lambda>_. False"])
  show "settles (\<lambda>_. False) cs pg" using assms(2-4) by (auto simp: settles_def)
qed (use assms(1) in auto)

lemma group_planned_mono:
  assumes "group_planned rel cs pg" and "\<And>w c. w \<in> set cs \<Longrightarrow> c \<in> set cs \<Longrightarrow> rel w c \<Longrightarrow> rel' w c"
  shows "group_planned rel' cs pg"
  using assms unfolding group_planned_def by blast

lemma failure_blocked: "group_failure ctxs = Some (status, reason) \<Longrightarrow> blocked_status status"
  by (auto simp: group_failure_def split: if_splits)

lemma blocked_outcome_planned:
  assumes "distinct (map ctx_id ctxs)" and "blocked_status status"
  shows "group_planned rel (map cc_candidate ctxs) (blocked_outcome profile status issue_reason reason ctxs)"
    and "decided (blocked_outcome profile status issue_reason reason ctxs) c s \<Longrightarrow> blocked_status s"
proof -
  show "group_planned rel (map cc_candidate ctxs) (blocked_outcome profile status issue_reason reason ctxs)"
    by (rule blocked_planned [OF _ assms(2)])
      (use assms(1) in \<open>auto simp: blocked_outcome_def blocked_decision_def comp_def ctx_id_def [abs_def]\<close>)
  assume "decided (blocked_outcome profile status issue_reason reason ctxs) c s"
  then show "blocked_status s"
    using assms(2) by (auto simp: decided_def blocked_outcome_def blocked_decision_def)
qed

lemma policy_mem:
  assumes "group_policy cs = Some mode"
  shows "mode \<in> cand_selection_mode ` set cs"
proof -
  define modes where "modes = remdups (map cand_selection_mode cs)"
  have "mode \<in> set modes"
  proof (cases "EXCLUSIVE_SNAPSHOT \<in> set modes")
    case True
    then show ?thesis using assms unfolding group_policy_def Let_def modes_def [symmetric] by simp
  next
    case False
    then have "length modes = 1" "mode = hd modes"
      using assms unfolding group_policy_def Let_def modes_def [symmetric] by (simp_all split: if_splits)
    then show ?thesis by (cases modes) simp_all
  qed
  then show ?thesis by (simp add: modes_def)
qed

lemma policy_planned:
  assumes "ctxs \<noteq> []" and "distinct (map ctx_id ctxs)" and "group_policy (map cc_candidate ctxs) = Some mode"
  shows "\<exists>pg. plan_group profile (map cc_candidate ctxs) mode = Inr pg \<and>
    group_planned (replaces (map cc_candidate ctxs)) (map cc_candidate ctxs) pg"
proof -
  let ?cs = "map cc_candidate ctxs"
  have cs: "?cs \<noteq> []" "distinct (map cand_id ?cs)"
    using assms(1,2) by (simp_all add: ctx_id_def [abs_def] comp_def)
  show ?thesis
  proof (cases "mode = EXCLUSIVE_SNAPSHOT")
    case True
    then have "EXCLUSIVE_SNAPSHOT \<in> cand_selection_mode ` set ?cs" using policy_mem [OF assms(3)] by simp
    then have "\<not> replaceable_group ?cs" unfolding replaceable_group_def by (metis imageE)
    then have "replaces ?cs = (\<lambda>_ _. True)" by (simp add: replaces_def fun_eq_iff)
    then show ?thesis using plan_exclusive_planned [OF cs] unfolding True by simp
  next
    case False
    have "\<exists>pg. plan_group profile ?cs mode = Inr pg \<and> group_planned within_window ?cs pg"
      by (rule plan_range_planned [OF cs(2) False])
    then show ?thesis using group_planned_mono [of within_window ?cs _ "replaces ?cs"]
      unfolding replaces_def by blast
  qed
qed

lemma group_outcome_planned:
  assumes "ctxs \<noteq> []" and "distinct (map ctx_id ctxs)"
  shows "\<exists>pg. group_outcome profile (group_failure ctxs) ctxs = Inr pg \<and>
    group_planned (replaces (map cc_candidate ctxs)) (map cc_candidate ctxs) pg \<and>
    (group_failure ctxs \<noteq> None \<longrightarrow> (\<forall>c s. decided pg c s \<longrightarrow> blocked_status s))"
proof (cases "group_failure ctxs")
  case (Some f)
  obtain status reason where f: "group_failure ctxs = Some (status, reason)" using Some by (cases f) simp
  note b = blocked_outcome_planned [OF assms(2) failure_blocked [OF f]]
  show ?thesis unfolding group_outcome_def f by (auto intro: b)
next
  case None
  show ?thesis
  proof (cases "group_policy (map cc_candidate ctxs)")
    case no_policy: None
    have "blocked_status BLOCKED_INVALID_CANDIDATE" by simp
    note b = blocked_outcome_planned [OF assms(2) this]
    show ?thesis unfolding group_outcome_def None no_policy by (auto intro: b)
  next
    case (Some mode)
    then show ?thesis using policy_planned [OF assms Some] unfolding group_outcome_def None by simp
  qed
qed

section \<open>The whole plan\<close>

definition plan_candidates :: "contexts \<Rightarrow> candidate list" where
  "plan_candidates contexts = map (\<lambda>p. cc_candidate (snd p)) contexts"

lemma group_ids_ok:
  assumes "contexts_for cs contexts" and "(gid, ctxs) \<in> set (group_contexts contexts)"
  shows "ctxs \<noteq> []" and "distinct (map ctx_id ctxs)"
proof -
  show "ctxs \<noteq> []" using group_entry [OF assms(2)] by blast
  have "distinct (map ctx_id (map snd contexts))"
    unfolding contexts_ids [OF assms(1)] using assms(1) by (simp add: contexts_for_def)
  then have "distinct (map ctx_id (concat (map snd (group_contexts contexts))))"
    using groups_mset [of contexts] by (metis mset_eq_imp_distinct_iff mset_map)
  moreover have "map ctx_id ctxs \<in> set (map (map ctx_id) (map snd (group_contexts contexts)))"
    using assms(2) by force
  ultimately show "distinct (map ctx_id ctxs)" unfolding map_concat by (metis distinct_concat_iff)
qed

lemma outcomes_exist:
  assumes "contexts_for cs contexts"
  shows "\<exists>pgs. r_map (\<lambda>(gid, ctxs). group_outcome profile (map_of (group_failures contexts) gid) ctxs)
      (group_contexts contexts) = Inr pgs \<and>
    list_all2 (\<lambda>g pg. group_planned (replaces (map cc_candidate (snd g))) (map cc_candidate (snd g)) pg \<and>
      (group_failure (snd g) \<noteq> None \<longrightarrow> (\<forall>c s. decided pg c s \<longrightarrow> blocked_status s))) (group_contexts contexts) pgs"
proof -
  let ?run = "\<lambda>(gid, ctxs). group_outcome profile (map_of (group_failures contexts) gid) ctxs"
  let ?ok = "\<lambda>g pg. group_planned (replaces (map cc_candidate (snd g))) (map cc_candidate (snd g)) pg \<and>
      (group_failure (snd g) \<noteq> None \<longrightarrow> (\<forall>c s. decided pg c s \<longrightarrow> blocked_status s))"
  have ok: "\<exists>pg. ?run g = Inr pg \<and> ?ok g pg" if "g \<in> set (group_contexts contexts)" for g
  proof -
    obtain gid ctxs where g: "g = (gid, ctxs)" by (cases g)
    then have mem: "(gid, ctxs) \<in> set (group_contexts contexts)" using that by simp
    have "map_of (group_failures contexts) gid = group_failure ctxs" by (rule group_failures_lookup [OF mem])
    then show ?thesis using group_outcome_planned [OF group_ids_ok [OF assms mem]] by (simp add: g)
  qed
  then obtain pgs where pgs: "r_map ?run (group_contexts contexts) = Inr pgs"
    using r_map_exists_ok [of "group_contexts contexts" ?run] by blast
  then have "list_all2 (\<lambda>g pg. ?run g = Inr pg) (group_contexts contexts) pgs" by (simp add: r_map_Inr_iff)
  then have "list_all2 ?ok (group_contexts contexts) pgs"
  proof (rule list.rel_mono_strong)
    fix g pg assume "g \<in> set (group_contexts contexts)" and run: "?run g = Inr pg"
    then obtain pg' where "?run g = Inr pg'" "?ok g pg'" using ok by blast
    then show "?ok g pg" using run by simp
  qed
  then show ?thesis using pgs by blast
qed

lemma group_candidates_mset:
  "mset (concat (map (\<lambda>g. map cc_candidate (snd g)) (group_contexts contexts))) = mset (plan_candidates contexts)"
proof -
  have "concat (map (\<lambda>g. map cc_candidate (snd g)) (group_contexts contexts)) =
      map cc_candidate (concat (map snd (group_contexts contexts)))"
    by (simp add: map_concat comp_def)
  then show ?thesis
    by (simp add: groups_mset plan_candidates_def multiset.map_comp comp_def)
qed

lemma plan_candidates_ids:
  assumes "contexts_for cs contexts"
  shows "map cand_id (plan_candidates contexts) = map fst contexts"
  using contexts_ids [OF assms] by (simp add: plan_candidates_def ctx_id_def comp_def)

text \<open>
  The decisions before they are ordered: one per candidate id, and the status of a candidate is the
  one its group gave it.
\<close>

lemma decisions_run:
  assumes "contexts_for cs contexts"
    and "list_all2 (\<lambda>g pg. group_planned (replaces (map cc_candidate (snd g))) (map cc_candidate (snd g)) pg \<and> rest g pg)
      (group_contexts contexts) pgs"
  shows "add_decisions (concat (map pg_decisions pgs)) [] =
      map (\<lambda>d. (dec_candidate_id d, d)) (concat (map pg_decisions pgs))"
    and "mset (map dec_candidate_id (concat (map pg_decisions pgs))) = mset (map fst contexts)"
proof -
  have "list_all2 (\<lambda>cl pg. mset (map dec_candidate_id (pg_decisions pg)) = mset (map cand_id cl))
      (map (\<lambda>g. map cc_candidate (snd g)) (group_contexts contexts)) pgs"
    unfolding list.rel_map by (rule list_all2_mono [OF assms(2)]) (simp add: group_planned_def)
  from zip_mset_concat [OF this]
  show m: "mset (map dec_candidate_id (concat (map pg_decisions pgs))) = mset (map fst contexts)"
    using group_candidates_mset [of contexts] plan_candidates_ids [OF assms(1)] by (metis mset_map)
  have "distinct (map dec_candidate_id (concat (map pg_decisions pgs)))"
    using m assms(1) unfolding contexts_for_def by (metis mset_eq_imp_distinct_iff)
  from index_by_distinct [OF this]
  show "add_decisions (concat (map pg_decisions pgs)) [] =
      map (\<lambda>d. (dec_candidate_id d, d)) (concat (map pg_decisions pgs))"
    by (simp add: add_decisions_def index_by_def)
qed

lemma plan_items:
  assumes "contexts_for cs contexts" and "set (map dec_candidate_id ds) \<subseteq> set (map fst contexts)"
  shows "\<exists>items. r_map (\<lambda>(i, d). r_bind (lookup contexts i) (\<lambda>ctx. Inr (cc_candidate ctx, d)))
      (map (\<lambda>d. (dec_candidate_id d, d)) ds) = Inr items \<and> map snd items = ds \<and>
    (\<forall>p \<in> set items. cand_id (fst p) = dec_candidate_id (snd p) \<and> fst p \<in> set (plan_candidates contexts))"
  using assms(2)
proof (induction ds)
  case (Cons d ds)
  then obtain items where items: "r_map (\<lambda>(i, d). r_bind (lookup contexts i) (\<lambda>ctx. Inr (cc_candidate ctx, d)))
      (map (\<lambda>d. (dec_candidate_id d, d)) ds) = Inr items" "map snd items = ds"
    "\<forall>p \<in> set items. cand_id (fst p) = dec_candidate_id (snd p) \<and> fst p \<in> set (plan_candidates contexts)"
    by auto
  have "dec_candidate_id d \<in> set (map fst contexts)" using Cons.prems by simp
  then obtain ctx where ctx: "map_of contexts (dec_candidate_id d) = Some ctx"
    by (metis list.set_map map_of_eq_None_iff not_Some_eq)
  have mem: "(dec_candidate_id d, ctx) \<in> set contexts" using map_of_SomeD [OF ctx] .
  then have "dec_candidate_id d = ctx_id ctx" using assms(1) unfolding contexts_for_def by fastforce
  moreover have "cc_candidate ctx \<in> set (plan_candidates contexts)"
    using mem by (force simp: plan_candidates_def)
  ultimately show ?case
    using items ctx by (intro exI [of _ "(cc_candidate ctx, d) # items"]) (simp add: lookup_def ctx_id_def)
qed simp

lemma sort_indexed: "sort_key fst (map (\<lambda>d. (f d, d)) ds) = map (\<lambda>d. (f d, d)) (sort_key f ds)"
proof (rule properties_for_sort_key)
  fix k
  have "filter (\<lambda>d. f d = fst k) (sort_key f ds) = filter (\<lambda>d. f d = fst k) ds"
    by (rule sort_key_stable)
  then show "filter (\<lambda>x. fst k = fst x) (map (\<lambda>d. (f d, d)) (sort_key f ds)) =
      filter (\<lambda>x. fst k = fst x) (map (\<lambda>d. (f d, d)) ds)"
    by (simp add: filter_map comp_def eq_commute [of "fst k"])
qed (simp_all add: comp_def)

lemma build_plan_run:
  assumes "contexts_for cs contexts" and "mset (map dec_candidate_id ds) = mset (map fst contexts)"
  shows "build_translation_plan contexts (map (\<lambda>d. (dec_candidate_id d, d)) ds) = Inl mixed_error \<and>
      mixed_order (plan_candidates contexts) \<or>
    (\<exists>plan. build_translation_plan contexts (map (\<lambda>d. (dec_candidate_id d, d)) ds) = Inr plan \<and>
      \<not> mixed_order (plan_candidates contexts) \<and>
      mset (plan_decisions plan) = mset ds \<and> sorted (map dec_candidate_id (plan_decisions plan)) \<and>
      set (plan_selected_candidate_ids plan) = {dec_candidate_id d |d. d \<in> set ds \<and> dec_status d = SELECTED} \<and>
      (plan_blocked plan \<longleftrightarrow> (\<exists>d \<in> set ds. blocked_status (dec_status d))))"
proof -
  have "set (map dec_candidate_id ds) \<subseteq> set (map fst contexts)" using mset_eq_setD [OF assms(2)] by simp
  then obtain items where items: "r_map (\<lambda>(i, d). r_bind (lookup contexts i) (\<lambda>ctx. Inr (cc_candidate ctx, d)))
      (map (\<lambda>d. (dec_candidate_id d, d)) ds) = Inr items" "map snd items = ds"
    "\<forall>p \<in> set items. cand_id (fst p) = dec_candidate_id (snd p) \<and> fst p \<in> set (plan_candidates contexts)"
    using plan_items [OF assms(1)] by blast
  have dist: "distinct (map cand_id (plan_candidates contexts))"
    using plan_candidates_ids [OF assms(1)] assms(1) by (simp add: contexts_for_def)
  have ids: "map (\<lambda>p. cand_id (fst p)) items = map dec_candidate_id ds"
    using items(2,3) by (metis (no_types, lifting) list.map_comp comp_apply map_cong)
  have same: "set (map fst items) = set (plan_candidates contexts)"
  proof
    show "set (map fst items) \<subseteq> set (plan_candidates contexts)" using items(3) by auto
    show "set (plan_candidates contexts) \<subseteq> set (map fst items)"
    proof
      fix c assume c: "c \<in> set (plan_candidates contexts)"
      then have "cand_id c \<in> set (map cand_id (plan_candidates contexts))" by simp
      then have "cand_id c \<in> set (map (\<lambda>p. cand_id (fst p)) items)"
        unfolding ids plan_candidates_ids [OF assms(1)] using mset_eq_setD [OF assms(2)] by simp
      then obtain p where p: "p \<in> set items" "cand_id (fst p) = cand_id c" by auto
      have inj: "inj_on cand_id (set (plan_candidates contexts))" using dist by (simp add: distinct_map)
      have "fst p \<in> set (plan_candidates contexts)" using items(3) p(1) by blast
      from inj_onD [OF inj p(2) this c] show "c \<in> set (map fst items)" using p(1) by force
    qed
  qed
  have mixed: "mixed_order (map fst items) = mixed_order (plan_candidates contexts)"
    unfolding mixed_order_def list_ex_iff same ..
  have dec: "map snd (sort_key fst (map (\<lambda>d. (dec_candidate_id d, d)) ds)) = sort_key dec_candidate_id ds"
    unfolding sort_indexed by (simp add: comp_def)
  have sel: "set (map (\<lambda>(c, d). cand_id c)
      (filter (\<lambda>(c, d). dec_status d = SELECTED) (sort_key (\<lambda>(c, d). plan_order_key c) items))) =
      {dec_candidate_id d |d. d \<in> set ds \<and> dec_status d = SELECTED}"
    using items(3) unfolding items(2) [symmetric] by (force simp: split_def image_iff)
  show ?thesis
    using items(1) sel by (auto simp: build_translation_plan_def mixed dec list_ex_iff)
qed

section \<open>Properties of the plan\<close>

definition planned_status :: "planning_result \<Rightarrow> candidate \<Rightarrow> plan_status \<Rightarrow> bool" where
  "planned_status res c s \<longleftrightarrow>
     (\<exists>d \<in> set (plan_decisions (pr_plan res)). dec_candidate_id d = cand_id c \<and> dec_status d = s)"

definition good_groups :: "contexts \<Rightarrow> planned_group list \<Rightarrow> bool" where
  "good_groups contexts pgs \<longleftrightarrow>
     list_all2 (\<lambda>g pg. group_planned (replaces (map cc_candidate (snd g))) (map cc_candidate (snd g)) pg \<and>
       (group_failure (snd g) \<noteq> None \<longrightarrow> (\<forall>c s. decided pg c s \<longrightarrow> blocked_status s))) (group_contexts contexts) pgs"

definition inventory_paths :: "planning_profile \<Rightarrow> (string, inventory_entry) dict" where
  "inventory_paths profile = index_by inv_relative_path (prof_file_inventory profile)"

lemma contexts_for_sorted: "contexts_for (sort_key f cs) contexts = contexts_for cs contexts"
  by (simp add: contexts_for_def)

lemma plan_run:
  assumes "validate_candidates (sort_key cand_id candidates) (inventory_paths profile) done_at = Inr contexts"
  shows "contexts_for candidates contexts"
    and "\<exists>pgs. good_groups contexts pgs \<and>
      mset (map dec_candidate_id (concat (map pg_decisions pgs))) = mset (map fst contexts) \<and>
      (let built = build_translation_plan contexts
         (map (\<lambda>d. (dec_candidate_id d, d)) (concat (map pg_decisions pgs)))
       in (\<forall>e. built = Inl e \<longrightarrow> plan_translation_inputs profile candidates done_at = Inl e) \<and>
          (\<forall>plan. built = Inr plan \<longrightarrow> (\<exists>issues. plan_translation_inputs profile candidates done_at =
             Inr \<lparr>pr_candidates = sort_key cand_id candidates, pr_plan = plan, pr_issues = issues\<rparr>)))"
proof -
  show for_cs: "contexts_for candidates contexts"
    using validate_candidates_contexts [OF assms] by (simp add: contexts_for_sorted)
  obtain pgs where pgs: "r_map (\<lambda>(gid, ctxs). group_outcome profile (map_of (group_failures contexts) gid) ctxs)
      (group_contexts contexts) = Inr pgs" and good: "good_groups contexts pgs"
    using outcomes_exist [OF for_cs] unfolding good_groups_def by blast
  note run = decisions_run [OF for_cs good [unfolded good_groups_def]]
  show "\<exists>pgs. good_groups contexts pgs \<and>
      mset (map dec_candidate_id (concat (map pg_decisions pgs))) = mset (map fst contexts) \<and>
      (let built = build_translation_plan contexts
         (map (\<lambda>d. (dec_candidate_id d, d)) (concat (map pg_decisions pgs)))
       in (\<forall>e. built = Inl e \<longrightarrow> plan_translation_inputs profile candidates done_at = Inl e) \<and>
          (\<forall>plan. built = Inr plan \<longrightarrow> (\<exists>issues. plan_translation_inputs profile candidates done_at =
             Inr \<lparr>pr_candidates = sort_key cand_id candidates, pr_plan = plan, pr_issues = issues\<rparr>)))"
    using good run(2)
    by (intro exI [of _ pgs])
      (auto simp: plan_translation_inputs_def Let_def assms [unfolded inventory_paths_def] plan_groups_flat pgs run(1))
qed

lemma plan_structure:
  assumes "plan_translation_inputs profile candidates done_at = Inr res"
  obtains contexts pgs where
    "validate_candidates (sort_key cand_id candidates) (inventory_paths profile) done_at = Inr contexts"
    and "contexts_for candidates contexts" and "good_groups contexts pgs"
    and "mset (plan_decisions (pr_plan res)) = mset (concat (map pg_decisions pgs))"
    and "mset (map dec_candidate_id (concat (map pg_decisions pgs))) = mset (map fst contexts)"
    and "sorted (map dec_candidate_id (plan_decisions (pr_plan res)))"
    and "set (plan_selected_candidate_ids (pr_plan res)) =
      {dec_candidate_id d |d. d \<in> set (plan_decisions (pr_plan res)) \<and> dec_status d = SELECTED}"
    and "plan_blocked (pr_plan res) \<longleftrightarrow> (\<exists>d \<in> set (plan_decisions (pr_plan res)). blocked_status (dec_status d))"
proof -
  obtain contexts where v: "validate_candidates (sort_key cand_id candidates) (inventory_paths profile) done_at = Inr contexts"
    using assms by (auto simp: plan_translation_inputs_def inventory_paths_def Let_def result_simps)
  note for_cs = plan_run(1) [OF v]
  obtain pgs where pgs: "good_groups contexts pgs"
      "mset (map dec_candidate_id (concat (map pg_decisions pgs))) = mset (map fst contexts)"
      and built: "\<And>e. build_translation_plan contexts
         (map (\<lambda>d. (dec_candidate_id d, d)) (concat (map pg_decisions pgs))) = Inl e \<Longrightarrow>
         plan_translation_inputs profile candidates done_at = Inl e"
      "\<And>plan. build_translation_plan contexts
         (map (\<lambda>d. (dec_candidate_id d, d)) (concat (map pg_decisions pgs))) = Inr plan \<Longrightarrow>
         \<exists>issues. plan_translation_inputs profile candidates done_at =
             Inr \<lparr>pr_candidates = sort_key cand_id candidates, pr_plan = plan, pr_issues = issues\<rparr>"
    using plan_run(2) [OF v] unfolding Let_def by blast
  let ?ds = "concat (map pg_decisions pgs)"
  have "build_translation_plan contexts (map (\<lambda>d. (dec_candidate_id d, d)) ?ds) \<noteq> Inl mixed_error"
  proof
    assume "build_translation_plan contexts (map (\<lambda>d. (dec_candidate_id d, d)) ?ds) = Inl mixed_error"
    from built(1) [OF this] assms show False by simp
  qed
  then obtain plan where plan: "build_translation_plan contexts (map (\<lambda>d. (dec_candidate_id d, d)) ?ds) = Inr plan"
      "mset (plan_decisions plan) = mset ?ds" "sorted (map dec_candidate_id (plan_decisions plan))"
      "set (plan_selected_candidate_ids plan) = {dec_candidate_id d |d. d \<in> set ?ds \<and> dec_status d = SELECTED}"
      "plan_blocked plan \<longleftrightarrow> (\<exists>d \<in> set ?ds. blocked_status (dec_status d))"
    using build_plan_run [OF for_cs pgs(2)] by blast
  have "pr_plan res = plan" using built(2) [OF plan(1)] assms by auto
  then show ?thesis using that [OF v for_cs pgs(1) _ pgs(2)] plan(2-5) mset_eq_setD [OF plan(2)] by simp
qed

lemma plan_home:
  assumes "contexts_for cs contexts" and "good_groups contexts pgs"
    and "mset (plan_decisions (pr_plan res)) = mset (concat (map pg_decisions pgs))"
    and "c \<in> set (plan_candidates contexts)"
  shows "\<exists>gid ctxs pg. (gid, ctxs) \<in> set (group_contexts contexts) \<and> c \<in> cc_candidate ` set ctxs \<and>
    group_planned (replaces (map cc_candidate ctxs)) (map cc_candidate ctxs) pg \<and>
    (group_failure ctxs \<noteq> None \<longrightarrow> (\<forall>c s. decided pg c s \<longrightarrow> blocked_status s)) \<and>
    (\<forall>b \<in> cc_candidate ` set ctxs. \<forall>s. planned_status res b s \<longleftrightarrow> decided pg b s)"
proof -
  let ?cls = "map (\<lambda>g. map cc_candidate (snd g)) (group_contexts contexts)"
  have all2: "list_all2 (\<lambda>cl pg. mset (map dec_candidate_id (pg_decisions pg)) = mset (map cand_id cl)) ?cls pgs"
    unfolding list.rel_map
    by (rule list_all2_mono [OF assms(2) [unfolded good_groups_def]]) (simp add: group_planned_def)
  have dist: "distinct (map cand_id (concat ?cls))"
  proof -
    have "distinct (map cand_id (plan_candidates contexts))"
      using plan_candidates_ids [OF assms(1)] assms(1) by (simp add: contexts_for_def)
    then show ?thesis
      using group_candidates_mset [of contexts] by (metis mset_eq_imp_distinct_iff mset_map)
  qed
  have "c \<in> set (concat ?cls)"
    using assms(4) mset_eq_setD [OF group_candidates_mset [of contexts]] by blast
  then obtain gid ctxs where g: "(gid, ctxs) \<in> set (group_contexts contexts)" "c \<in> cc_candidate ` set ctxs"
    by auto
  then obtain pg where z: "((gid, ctxs), pg) \<in> set (zip (group_contexts contexts) pgs)"
    using list_all2_lengthD [OF assms(2) [unfolded good_groups_def]] by (metis in_set_impl_in_set_zip1)
  have ok: "group_planned (replaces (map cc_candidate ctxs)) (map cc_candidate ctxs) pg \<and>
    (group_failure ctxs \<noteq> None \<longrightarrow> (\<forall>c s. decided pg c s \<longrightarrow> blocked_status s))"
    using assms(2) z unfolding good_groups_def list_all2_iff by fastforce
  have z': "(map cc_candidate ctxs, pg) \<in> set (zip ?cls pgs)"
    using z by (force simp: zip_map1 image_iff)
  have "planned_status res b s \<longleftrightarrow> decided pg b s" if b: "b \<in> cc_candidate ` set ctxs" for b s
  proof -
    have "planned_status res b s \<longleftrightarrow> decided \<lparr>pg_decisions = concat (map pg_decisions pgs), pg_issues = []\<rparr> b s"
      using mset_eq_setD [OF assms(3)] by (simp add: planned_status_def decided_def)
    also have "\<dots> \<longleftrightarrow> decided pg b s" by (rule decided_concat [OF all2 dist z']) (use b in auto)
    finally show ?thesis .
  qed
  then show ?thesis using g ok by blast
qed

lemma plan_candidates_all:
  assumes "contexts_for cs contexts" and "distinct (map cand_id cs)"
  shows "set (plan_candidates contexts) = set cs"
proof
  show sub: "set (plan_candidates contexts) \<subseteq> set cs"
    using assms(1) by (auto simp: contexts_for_def plan_candidates_def)
  show "set cs \<subseteq> set (plan_candidates contexts)"
  proof
    fix c assume c: "c \<in> set cs"
    have "set (map cand_id (plan_candidates contexts)) = set (map fst contexts)"
      unfolding plan_candidates_ids [OF assms(1)] ..
    then have "cand_id ` set (plan_candidates contexts) = cand_id ` set cs"
      using assms(1) unfolding contexts_for_def by (metis list.set_map)
    then have "cand_id c \<in> cand_id ` set (plan_candidates contexts)" using c by simp
    then obtain c' where c': "cand_id c = cand_id c'" "c' \<in> set (plan_candidates contexts)" by (rule imageE)
    have "inj_on cand_id (set cs)" using assms(2) by (simp add: distinct_map)
    then have "c = c'" by (rule inj_onD [OF _ c'(1) c]) (rule subsetD [OF sub c'(2)])
    then show "c \<in> set (plan_candidates contexts)" using c'(2) by simp
  qed
qed

text \<open>The group of a candidate: the candidates with its selection group.\<close>

lemma group_members:
  assumes "(gid, ctxs) \<in> set (group_contexts contexts)"
  shows "cc_candidate ` set ctxs = {c \<in> set (plan_candidates contexts). cand_selection_group c = gid}"
  using group_entry [OF assms] by (auto simp: plan_candidates_def)

lemma planner_total_aux:
  assumes "\<forall>c \<in> set candidates. aware_bounds c"
  shows "\<exists>res. plan_translation_inputs profile candidates done_at = Inr res"
proof -
  have "\<forall>c \<in> set (sort_key cand_id candidates). aware_bounds c" using assms by simp
  then obtain contexts where
    v: "validate_candidates (sort_key cand_id candidates) (inventory_paths profile) done_at = Inr contexts"
    using validate_candidates_ok unfolding is_ok_iff by blast
  note for_cs = plan_run(1) [OF v]
  obtain pgs where "good_groups contexts pgs"
      and pgs: "mset (map dec_candidate_id (concat (map pg_decisions pgs))) = mset (map fst contexts)"
      and "\<And>e. build_translation_plan contexts
         (map (\<lambda>d. (dec_candidate_id d, d)) (concat (map pg_decisions pgs))) = Inl e \<Longrightarrow>
         plan_translation_inputs profile candidates done_at = Inl e"
      and built: "\<And>plan. build_translation_plan contexts
         (map (\<lambda>d. (dec_candidate_id d, d)) (concat (map pg_decisions pgs))) = Inr plan \<Longrightarrow>
         \<exists>issues. plan_translation_inputs profile candidates done_at =
             Inr \<lparr>pr_candidates = sort_key cand_id candidates, pr_plan = plan, pr_issues = issues\<rparr>"
    using plan_run(2) [OF v] unfolding Let_def by blast
  have "\<forall>c \<in> set (plan_candidates contexts). aware_bounds c"
    using for_cs assms by (auto simp: contexts_for_def plan_candidates_def)
  then have "\<not> mixed_order (plan_candidates contexts)"
    by (auto simp: mixed_order_def list_ex_iff aware_bounds_def)
  then obtain plan where "build_translation_plan contexts
      (map (\<lambda>d. (dec_candidate_id d, d)) (concat (map pg_decisions pgs))) = Inr plan"
    using build_plan_run [OF for_cs pgs] by blast
  from built [OF this] show ?thesis by blast
qed




lemma no_errors_iff: "error_if b e = [] \<longleftrightarrow> \<not> b"
  by (simp add: error_if_def)

lemma list_all2_map_filter:
  "\<forall>p \<in> set ps. g p \<noteq> None \<Longrightarrow> list_all2 (\<lambda>p e. g p = Some e) ps (List.map_filter g ps)"
  by (induction ps) (auto simp: map_filter_simps)

lemma valid_candidate_facts:
  assumes "validate_candidate files done_at dups c = Inr ctx" and "cc_validation_errors ctx = []"
  shows "cand_id c \<notin> set dups \<and> cand_member_paths c \<noteq> [] \<and> distinct (cand_member_paths c) \<and>
    (\<exists>entries. list_all2 (\<lambda>p e. map_of files p = Some e) (cand_member_paths c) entries \<and>
      cand_content_fingerprint c = content_fingerprint (sort (map inv_sha256 entries)) (cand_family_id c)
        (cand_selection_group c) (cand_selection_mode c))"
proof -
  let ?entries = "List.map_filter (map_of files) (cand_member_paths c)"
  have e: "cand_id c \<notin> set dups" "cand_member_paths c \<noteq> []"
      "length (remdups (cand_member_paths c)) = length (cand_member_paths c)"
      "member_errors files c = []" "strip (cand_content_fingerprint c) \<noteq> []"
      "?entries \<noteq> [] \<longrightarrow> cand_content_fingerprint c = content_fingerprint (sort (map inv_sha256 ?entries))
        (cand_family_id c) (cand_selection_group c) (cand_selection_mode c)"
    using assms by (auto simp: validate_candidate_def Let_def result_simps no_errors_iff split: if_splits)
  have "\<forall>p \<in> set (cand_member_paths c). map_of files p \<noteq> None"
    using e(4) by (auto simp: member_errors_def split: option.splits)
  then have all2: "list_all2 (\<lambda>p e. map_of files p = Some e) (cand_member_paths c) ?entries"
    by (rule list_all2_map_filter)
  then have "?entries \<noteq> []" using e(2) by auto
  moreover have "distinct (cand_member_paths c)"
    using e(3) by (metis card_distinct length_remdups_card_conv)
  ultimately show ?thesis using e all2 by blast
qed

lemma context_origin:
  assumes "validate_candidates cs files done_at = Inr contexts" and "p \<in> set contexts"
  shows "validate_candidate files done_at (duplicated_candidate_ids cs) (cc_candidate (snd p)) = Inr (snd p)"
proof -
  obtain ctxs where ctxs: "r_map (validate_candidate files done_at (duplicated_candidate_ids cs)) cs = Inr ctxs"
      "contexts = index_by ctx_id ctxs"
    using assms(1) by (auto simp: validate_candidates_def ctx_id_def [abs_def] result_simps)
  have "snd p \<in> set ctxs" using index_by_entry(2) assms(2) unfolding ctxs(2) by metis
  from r_map_set [OF ctxs(1) this] obtain c where
    "validate_candidate files done_at (duplicated_candidate_ids cs) c = Inr (snd p)" by blast
  then show ?thesis using validate_candidate_candidate by blast
qed




section \<open>Witnesses\<close>

definition sample_entry :: "string \<Rightarrow> inventory_entry" where
  "sample_entry path =
     \<lparr>inv_relative_path = path, inv_sha256 = ''00'', inv_min_timestamp = [], inv_max_timestamp = [],
      inv_timestamp_resolution = []\<rparr>"

definition sample_profile :: planning_profile where
  "sample_profile =
     \<lparr>prof_source = ''kraken'', prof_adapter_id = ''kraken.ledger'',
      prof_file_inventory = [sample_entry ''a.csv'', sample_entry ''b.csv'']\<rparr>"

definition sample_window :: "nat \<Rightarrow> int option \<Rightarrow> coverage_window" where
  "sample_window m offset =
     \<lparr>cw_start_at = Some (DateTime 2024 m 1 0 0 0 0 offset), cw_start_precision = Some DATE,
      cw_end_at = Some (DateTime 2024 m 28 0 0 0 0 offset), cw_end_precision = Some DATE, cw_mode = BOUNDED\<rparr>"

definition sample_candidate :: "string \<Rightarrow> string \<Rightarrow> nat \<Rightarrow> int option \<Rightarrow> candidate" where
  "sample_candidate i path m offset =
     \<lparr>cand_id = i, cand_selection_group = ''ledger'', cand_family_id = ''ledger'',
      cand_member_paths = [path], cand_selection_mode = REPLACEABLE_RANGE,
      cand_coverage = sample_window m offset,
      cand_freshness = \<lparr>fr_kind = FRESHNESS_UNKNOWN, fr_timestamp = None, fr_rank = None\<rparr>,
      cand_content_fingerprint = content_fingerprint [''00''] ''ledger'' ''ledger'' REPLACEABLE_RANGE,
      cand_comparison_key = ''ledger'', cand_description = ''ledger export'', cand_comparable = True,
      cand_notes = []\<rparr>"

definition sample_inputs :: "candidate list" where
  "sample_inputs = [sample_candidate ''feb'' ''b.csv'' 2 (Some 0), sample_candidate ''mar'' ''a.csv'' 3 (Some 0)]"

lemma digest_not_blank: "strip (sha256_hex s) \<noteq> []"
proof -
  obtain c r where c: "sha256_hex s = c # r" using sha256_hex_length [of s] by (cases "sha256_hex s") auto
  then obtain i where i: "i < 16" "c = hex_char i" using sha256_hex_chars [of c s] by auto
  then have "of_char c = (if i < 10 then 48 + i else 87 + i)" by (simp add: hex_char_def)
  then have "\<not> is_space c" using i(1) by (simp add: is_space_def)
  then show ?thesis by (simp add: strip_def strip_by_Nil_iff c)
qed

lemma fingerprint_not_blank: "strip (content_fingerprint shas f g m) \<noteq> []"
  unfolding content_fingerprint_def by (rule digest_not_blank)

lemma sample_validated:
  assumes "(i, path, m) \<in> {(''feb'', ''b.csv'', 2), (''mar'', ''a.csv'', 3)}"
  shows "validate_candidate (inventory_paths sample_profile) None [] (sample_candidate i path m (Some 0)) =
    Inr \<lparr>cc_candidate = sample_candidate i path m (Some 0), cc_member_entries = [sample_entry path],
      cc_validation_errors = []\<rparr>"
proof -
  have t: "strip ''ledger'' \<noteq> []" "strip ''ledger export'' \<noteq> []" by code_simp+
  have l: "\<not> instant (DateTime 2024 m 1 0 0 0 0 (Some 0)) > instant (DateTime 2024 m 28 0 0 0 0 (Some 0))"
    by (simp add: instant_def unix_microseconds_def toordinal_def)
  have e: "map_of (inventory_paths sample_profile) path = Some (sample_entry path)"
    using assms by (auto simp: inventory_paths_def sample_profile_def index_by_def sample_entry_def)
  have "validate_coverage (sample_window m (Some 0)) = Inr []"
    using l by (simp add: validate_coverage_def sample_window_def validate_known_coverage_mode_def error_if_def
        optional_utc_errors_def validate_utc_datetime_def later_def aware_def)
  then show ?thesis
    using t e fingerprint_not_blank
    by (simp add: validate_candidate_def sample_candidate_def error_if_def member_errors_def map_filter_simps
        validate_freshness_def sample_entry_def Let_def)
qed

lemma sample_order: "sort_key cand_id sample_inputs = sample_inputs"
proof -
  have "''feb'' \<le> ''mar''" by code_simp
  then show ?thesis by (simp add: sample_inputs_def sample_candidate_def)
qed

definition sample_context :: "string \<Rightarrow> string \<Rightarrow> nat \<Rightarrow> candidate_context" where
  "sample_context i path m =
     \<lparr>cc_candidate = sample_candidate i path m (Some 0), cc_member_entries = [sample_entry path],
      cc_validation_errors = []\<rparr>"

definition sample_contexts :: contexts where
  "sample_contexts =
     [(''feb'', sample_context ''feb'' ''b.csv'' 2), (''mar'', sample_context ''mar'' ''a.csv'' 3)]"

lemma sample_contexts_run: "validate_candidates sample_inputs (inventory_paths sample_profile) None = Inr sample_contexts"
proof -
  have d: "duplicated_candidate_ids sample_inputs = []"
    by (simp add: duplicated_candidate_ids_def sample_inputs_def sample_candidate_def group_by_def dict_append_def)
  show ?thesis
    using sample_validated [of "''feb''" "''b.csv''" 2] sample_validated [of "''mar''" "''a.csv''" 3]
    unfolding validate_candidates_def d
    by (simp add: sample_inputs_def sample_contexts_def sample_context_def index_by_def) (simp add: sample_candidate_def)
qed

lemma sample_disjoint:
  "\<not> overlaps (sample_candidate ''feb'' ''b.csv'' 2 (Some 0)) (sample_candidate ''mar'' ''a.csv'' 3 (Some 0))"
proof -
  have "instant (DateTime 2024 2 28 0 0 0 0 (Some 0)) < instant (DateTime 2024 3 1 0 0 0 0 (Some 0))"
    by (simp add: instant_def unix_microseconds_def toordinal_def days_before_month_def days_in_month_def
        leap_year_def upt_conv_Cons)
  then show ?thesis
    by (simp add: overlaps_def coverage_relation_def coverage_bounds_def sample_candidate_def sample_window_def
        coverage_start_def coverage_end_def)
qed

lemma sample_ids [simp]: "cand_id (sample_candidate i path m offset) = i"
  by (simp add: sample_candidate_def)

lemma sample_components:
  "overlap_components sample_inputs =
     [[sample_candidate ''feb'' ''b.csv'' 2 (Some 0)], [sample_candidate ''mar'' ''a.csv'' 3 (Some 0)]]"
proof -
  have adj: "overlap_adjacency sample_inputs = [(''feb'', []), (''mar'', [])]"
    by (simp add: overlap_adjacency_def sample_inputs_def sample_disjoint)
  show ?thesis
    unfolding overlap_components_def adj
    by (simp add: sample_inputs_def components_step_def index_by_def dict_get_def map_filter_simps)
qed

lemma sample_group: "group_contexts sample_contexts =
    [(''ledger'', [sample_context ''feb'' ''b.csv'' 2, sample_context ''mar'' ''a.csv'' 3])]"
proof -
  have "''feb'' \<le> ''mar''" by code_simp
  moreover have "cand_selection_group (sample_candidate i path m offset) = ''ledger''" for i path m offset
    by (simp add: sample_candidate_def)
  ultimately show ?thesis
    by (simp add: group_contexts_def sample_contexts_def sample_context_def group_by_def dict_append_def)
qed

lemma sample_group_ok: "group_failure [sample_context ''feb'' ''b.csv'' 2, sample_context ''mar'' ''a.csv'' 3] = None"
  by (simp add: group_failure_def sample_context_def cc_valid_def has_invalid_member_overlap_def)
    (simp add: sample_candidate_def sample_window_def)

lemma sample_planned:
  "\<exists>res. plan_translation_inputs sample_profile sample_inputs None = Inr res \<and>
     (\<forall>c \<in> set sample_inputs. planned_status res c SELECTED)"
proof -
  have aware: "\<forall>c \<in> set sample_inputs. aware_bounds c"
    by (simp add: sample_inputs_def sample_candidate_def sample_window_def aware_bounds_def coverage_start_def
        coverage_end_def aware_def)
  have v: "validate_candidates (sort_key cand_id sample_inputs) (inventory_paths sample_profile) None = Inr sample_contexts"
    unfolding sample_order by (rule sample_contexts_run)
  have policy: "group_policy sample_inputs = Some REPLACEABLE_RANGE"
    by (simp add: group_policy_def sample_inputs_def) (simp add: sample_candidate_def)
  have cs: "map cc_candidate [sample_context ''feb'' ''b.csv'' 2, sample_context ''mar'' ''a.csv'' 3] = sample_inputs"
    by (simp add: sample_context_def sample_inputs_def)
  have failures: "group_failures sample_contexts = []"
    unfolding group_failures_def sample_group by (simp add: sample_group_ok map_filter_simps)
  let ?ds = "[selected_decision (sample_candidate ''feb'' ''b.csv'' 2 (Some 0))
        ''candidate is disjoint within its selection group'' [],
      selected_decision (sample_candidate ''mar'' ''a.csv'' 3 (Some 0))
        ''candidate is disjoint within its selection group'' []]"
  have outcome: "group_outcome sample_profile None
      [sample_context ''feb'' ''b.csv'' 2, sample_context ''mar'' ''a.csv'' 3] =
      Inr \<lparr>pg_decisions = ?ds, pg_issues = []\<rparr>"
    unfolding group_outcome_def cs policy
    by (simp add: plan_group_def sample_components plan_overlap_component_def)
  have pgs: "r_map (\<lambda>(gid, ctxs). group_outcome sample_profile (map_of (group_failures sample_contexts) gid) ctxs)
      (group_contexts sample_contexts) = Inr [\<lparr>pg_decisions = ?ds, pg_issues = []\<rparr>]"
    unfolding failures sample_group by (simp add: outcome)
  have added: "add_decisions ?ds [] = map (\<lambda>d. (dec_candidate_id d, d)) ?ds"
    by (simp add: add_decisions_def selected_decision_def)
  obtain res where res: "plan_translation_inputs sample_profile sample_inputs None = Inr res"
    using planner_total_aux [OF aware] by blast
  then obtain plan where plan: "build_translation_plan sample_contexts (map (\<lambda>d. (dec_candidate_id d, d)) ?ds) = Inr plan"
      "pr_plan res = plan"
    unfolding plan_translation_inputs_def Let_def v [unfolded inventory_paths_def] r_bind.simps
      plan_groups_flat pgs
    by (auto simp: added result_simps)
  have "plan_decisions plan = map snd (sort_key fst (map (\<lambda>d. (dec_candidate_id d, d)) ?ds))"
    using plan(1) unfolding build_translation_plan_def by (auto simp: result_simps split: if_splits)
  then have "set (plan_decisions (pr_plan res)) = set ?ds" by (simp add: plan(2)) blast
  then show ?thesis
    using res by (auto simp: planned_status_def sample_inputs_def selected_decision_def)
qed

lemma sample_distinct: "distinct (map cand_id sample_inputs)"
  by (simp add: sample_inputs_def)

lemma sample_aware: "\<forall>c \<in> set sample_inputs. aware_bounds c"
  by (simp add: sample_inputs_def sample_candidate_def sample_window_def aware_bounds_def coverage_start_def
      coverage_end_def aware_def)

abbreviation february :: candidate where "february \<equiv> sample_candidate ''feb'' ''b.csv'' 2 (Some 0)"
abbreviation march :: candidate where "march \<equiv> sample_candidate ''mar'' ''a.csv'' 3 (Some 0)"

lemma sample_members: "february \<in> set sample_inputs" "march \<in> set sample_inputs"
  by (simp_all add: sample_inputs_def)

lemma sample_distinct_months: "february \<noteq> march"
  by (simp add: sample_candidate_def)







end
