(* ===== verification/Claim_Builder.thy ===== *)
theory Claim_Builder
  imports Assessments Activity_Drafts Input_Planner
begin

text \<open>
  \<open>application/claim/coinbase_retail.py\<close>, \<open>coinbase_statements.py\<close> and \<open>coinbase_builder.py\<close>: the claims,
  bundles and decisions made of the drafts of a translation and of the statement rows of an evidence
  set, with the projection fields, gaps and reviews that go beside them.
\<close>

definition FILING_BENEFICIAL_OWNER_REF :: string where
  "FILING_BENEFICIAL_OWNER_REF = ''filing:beneficial_owner:bounded-slice''"

section \<open>Claims of a draft\<close>

text \<open>The fields every claim of a scope shares; the fields of its kind are set by the callers.\<close>

definition scope_claim ::
    "string \<Rightarrow> string \<Rightarrow> string \<Rightarrow> claim_kind \<Rightarrow> string list \<Rightarrow> string list \<Rightarrow> string list \<Rightarrow> claim_record" where
  "scope_claim claim_set_id scope_id bundle_id kind key observation_refs provenance_refs =
     \<lparr>clm_claim_set_id = claim_set_id, clm_scope_id = scope_id, clm_bundle_id = bundle_id,
      clm_claim_id = stable_claim_id bundle_id kind key, clm_kind = kind, clm_status = CS_ASSERTED,
      clm_key = key, clm_member_refs = [hd key], clm_observation_refs = observation_refs,
      clm_effective_at = None, clm_precision = None, clm_provenance_refs = provenance_refs,
      clm_activity_label = [], clm_location_claim_ref = [], clm_leg_specs = [],
      clm_instrument_claim_refs = [], clm_balance_kind = [], clm_quantity = None, clm_observed_at = None,
      clm_scheme = [], clm_value = [], clm_venue = [], clm_instrument_kind = [], clm_name = [],
      clm_location_ref = [], clm_location_group_label = [], clm_location_label = [],
      clm_beneficial_owner_ref = [], clm_purpose = [], clm_amount = None, clm_currency = [],
      clm_valued_at = None\<rparr>"

text \<open>The key of a claim: \<open>(*scope_key, kind.value, slot)\<close>.\<close>

definition claim_key_of :: "string list \<Rightarrow> claim_kind \<Rightarrow> string \<Rightarrow> string list" where
  "claim_key_of scope_key kind slot = scope_key @ [claim_kind_text kind, slot]"

definition activity_label_of :: "string \<Rightarrow> string" where
  "activity_label_of operation_key =
     map (\<lambda>c. if c = CHR '' '' then CHR ''_'' else c) (lower (strip operation_key))"

definition instrument_kind_for_symbol :: "string \<Rightarrow> instrument_kind" where
  "instrument_kind_for_symbol symbol =
     (if upper (strip symbol) \<in> {''CAD'', ''USD''} then IK_FIAT else IK_CRYPTO)"

definition slot_of_attributed_leg :: "string option \<Rightarrow> economic_leg_draft list \<Rightarrow> int option" where
  "slot_of_attributed_leg attributed_to_leg_id legs =
     (case attributed_to_leg_id of
        None \<Rightarrow> None
      | Some leg_id \<Rightarrow>
          map_of (fold (\<lambda>(i, l). AList.update (ld_leg_id l) (int i)) (enumerate 0 legs) []) leg_id)"

type_synonym identity_key = "string \<times> string \<times> string \<times> string \<times> string"

definition identity_key_of :: "instrument_identity_claim \<Rightarrow> identity_key" where
  "identity_key_of identity =
     (ic_scheme identity, ic_value identity, (case ic_venue identity of None \<Rightarrow> [] | Some v \<Rightarrow> v),
      (if ic_kind_hint identity \<noteq> IK_UNKNOWN then instrument_kind_text (ic_kind_hint identity)
       else instrument_kind_text (instrument_kind_for_symbol (ic_value identity))),
      (if ic_display_name identity \<noteq> [] then ic_display_name identity else ic_value identity))"

text \<open>The state of the loop over the legs: claims made, claim ids by identity, claim ids by leg.\<close>

type_synonym instrument_state = "claim_record list \<times> (identity_key, string) dict \<times> (string, string) dict"

definition instrument_claim_of ::
    "string \<Rightarrow> string \<Rightarrow> string \<Rightarrow> string list \<Rightarrow> string list \<Rightarrow> string \<Rightarrow> identity_key \<Rightarrow> claim_record" where
  "instrument_claim_of claim_set_id scope_id bundle_id scope_key provenance_refs slot ident =
     (case ident of (scheme, v, venue, kind, claim_name) \<Rightarrow>
       (scope_claim claim_set_id scope_id bundle_id CK_INSTRUMENT
         (claim_key_of scope_key CK_INSTRUMENT slot) [] provenance_refs)
         \<lparr>clm_scheme := scheme, clm_value := v, clm_venue := venue, clm_instrument_kind := kind,
          clm_name := claim_name\<rparr>)"

definition add_leg_instrument ::
    "string \<Rightarrow> string \<Rightarrow> string \<Rightarrow> string list \<Rightarrow> string list \<Rightarrow> economic_leg_draft \<Rightarrow> instrument_state \<Rightarrow>
      instrument_state result" where
  "add_leg_instrument claim_set_id scope_id bundle_id scope_key provenance_refs l state =
     (case state of (claims, by_identity, by_leg) \<Rightarrow>
       r_bind (py_index (ld_instrument_identity_claims l) 0) (\<lambda>identity.
         let ident = identity_key_of identity in
         case map_of by_identity ident of
           Some claim_id \<Rightarrow> Inr (claims, by_identity, AList.update (ld_leg_id l) claim_id by_leg)
         | None \<Rightarrow>
             let slot = int_text (int (length claims));
                 c = instrument_claim_of claim_set_id scope_id bundle_id scope_key provenance_refs slot ident
             in r_bind (mk_claim_record c) (\<lambda>c.
               Inr (claims @ [c], AList.update ident (clm_claim_id c) by_identity,
                 AList.update (ld_leg_id l) (clm_claim_id c) by_leg))))"

definition leg_spec_of :: "economic_leg_draft list \<Rightarrow> (string, string) dict \<Rightarrow> string \<Rightarrow> nat \<times> economic_leg_draft \<Rightarrow> claim_leg_spec" where
  "leg_spec_of legs claim_ids_by_leg_id location_claim_id indexed =
     (case indexed of (index, l) \<Rightarrow>
       \<lparr>ls_slot = int index, ls_role = ld_leg_id l, ls_quantity = ld_quantity l,
        ls_instrument_claim_refs = [dict_get claim_ids_by_leg_id (ld_leg_id l) []],
        ls_location_claim_ref = location_claim_id,
        ls_subtype = (case ld_subtype l of None \<Rightarrow> [] | Some s \<Rightarrow> s),
        ls_attributed_to_slot = slot_of_attributed_leg (ld_attributed_to_leg_id l) legs\<rparr>)"

definition claims_for_draft ::
    "string \<Rightarrow> string \<Rightarrow> string \<Rightarrow> string list \<Rightarrow> economic_activity_draft \<Rightarrow> claim_record list result" where
  "claims_for_draft claim_set_id scope_id bundle_id scope_key d =
     (let claim = (\<lambda>kind. scope_claim claim_set_id scope_id bundle_id kind (claim_key_of scope_key kind ''0'') []
            (ed_provenance_refs d));
          location_claim_id = clm_claim_id (claim CK_LOCATION)
      in
      r_bind (r_fold (add_leg_instrument claim_set_id scope_id bundle_id scope_key (ed_provenance_refs d))
        (ed_legs d) ([], [], [])) (\<lambda>(instrument_claims, _, by_leg).
      r_bind (mk_claim_record ((claim CK_ACTIVITY)
        \<lparr>clm_effective_at := Some (case ed_effective_at d of None \<Rightarrow> ed_timestamp d | Some t \<Rightarrow> t),
         clm_precision := Some (case ed_effective_precision d of None \<Rightarrow> TIMESTAMP | Some p \<Rightarrow> p),
         clm_activity_label := activity_label_of (ed_provider_operation_key d),
         clm_location_claim_ref := location_claim_id,
         clm_leg_specs := map (leg_spec_of (ed_legs d) by_leg location_claim_id) (enumerate 0 (ed_legs d))\<rparr>))
        (\<lambda>activity_claim.
      r_bind (mk_claim_record ((claim CK_BENEFICIAL_OWNER)
        \<lparr>clm_beneficial_owner_ref := FILING_BENEFICIAL_OWNER_REF\<rparr>)) (\<lambda>owner_claim.
      r_bind (mk_claim_record ((claim CK_LOCATION)
        \<lparr>clm_location_ref := ed_location_id d, clm_location_group_label := ''Coinbase'',
         clm_location_label := ''Coinbase''\<rparr>)) (\<lambda>location_claim.
        Inr (activity_claim # owner_claim # instrument_claims @ [location_claim]))))))"

section \<open>Claims of statement rows\<close>

text \<open>Comparison of case-folded text; letters outside ASCII are left alone.\<close>

definition same_folded :: "string \<Rightarrow> string \<Rightarrow> bool" where
  "same_folded a b \<longleftrightarrow> lower a = lower b"

definition statement_location_ref :: "string \<Rightarrow> string \<Rightarrow> string \<Rightarrow> string result" where
  "statement_location_ref source_slug location_group_label location_label =
     (let wallet_segment = strip location_label; account_segment = strip location_group_label in
      if wallet_segment \<noteq> [] \<and> \<not> same_folded wallet_segment (strip source_slug)
      then location_id_from_parts [source_slug, wallet_segment]
      else if account_segment \<noteq> [] \<and> \<not> same_folded account_segment (strip source_slug)
      then location_id_from_parts [source_slug, account_segment]
      else location_id_from_parts [source_slug])"

definition observation_provenance_refs :: "string list list \<Rightarrow> string list" where
  "observation_provenance_refs provenance_refs = sort (map (join '':'') provenance_refs)"

definition document_observation_ids :: "evidence_observation_record list \<Rightarrow> (string, string) dict" where
  "document_observation_ids observations =
     fold (\<lambda>v. AList.update (eo_member_id v) (eo_observation_id v))
       (filter (\<lambda>v. eo_kind v = OK_STATEMENT_DOCUMENT) observations) []"

definition accepted_decision :: "string \<Rightarrow> string \<Rightarrow> string \<Rightarrow> claim_bundle_decision_record" where
  "accepted_decision claim_set_id scope_id bundle_id =
     \<lparr>cd_claim_set_id = claim_set_id, cd_scope_id = scope_id,
      cd_decision_id = stable_claim_bundle_decision_id scope_id, cd_outcome = DO_ACCEPTED,
      cd_accepted_bundle_ref = bundle_id, cd_rejected_bundle_refs = [], cd_deferred_bundle_refs = [],
      cd_basis = DB_SINGLE_BUNDLE, cd_blocking_gap_refs = []\<rparr>"

definition default_bundle ::
    "string \<Rightarrow> string \<Rightarrow> string \<Rightarrow> string list \<Rightarrow> claim_record list \<Rightarrow> claim_bundle_record" where
  "default_bundle claim_set_id scope_id bundle_id scope_key claims =
     \<lparr>cb_claim_set_id = claim_set_id, cb_scope_id = scope_id, cb_bundle_id = bundle_id, cb_key = ''default'',
      cb_scope_key = scope_key, cb_claim_refs = map clm_claim_id claims\<rparr>"

text \<open>The records of one scope: its claims, its bundle, its decision.\<close>

type_synonym scope_records = "claim_record list \<times> claim_bundle_record list \<times> claim_bundle_decision_record list"

definition statement_row_claims ::
    "string \<Rightarrow> (string, string) dict \<Rightarrow> evidence_member_record \<Rightarrow> evidence_observation_record \<Rightarrow>
      scope_records result" where
  "statement_row_claims claim_set_id document_ids m v =
     r_bind (py_index (eo_key v) (-1)) (\<lambda>row_key.
     let scope_key = [em_member_id m, row_key];
         scope_id = stable_claim_scope_id claim_set_id scope_key;
         bundle_id = stable_claim_bundle_id scope_id ''default'';
         refs = filter (\<lambda>r. r \<noteq> []) [eo_observation_id v, dict_get document_ids (em_member_id m) []];
         claim = (\<lambda>kind. scope_claim claim_set_id scope_id bundle_id kind (claim_key_of scope_key kind ''0'')
           refs (observation_provenance_refs (eo_provenance_refs v)))
     in
     r_bind (mk_claim_record ((claim CK_BALANCE)
       \<lparr>clm_effective_at := eo_observed_at v, clm_precision := eo_precision v,
        clm_location_claim_ref := clm_claim_id (claim CK_LOCATION),
        clm_instrument_claim_refs := [clm_claim_id (claim CK_INSTRUMENT)],
        clm_balance_kind := eo_balance_kind v,
        clm_quantity := Some (case eo_quantity v of None \<Rightarrow> d_zero | Some q \<Rightarrow> q),
        clm_observed_at := eo_observed_at v\<rparr>)) (\<lambda>balance_claim.
     r_bind (mk_claim_record ((claim CK_BENEFICIAL_OWNER)
       \<lparr>clm_beneficial_owner_ref := FILING_BENEFICIAL_OWNER_REF\<rparr>)) (\<lambda>owner_claim.
     r_bind (mk_claim_record ((claim CK_INSTRUMENT)
       \<lparr>clm_scheme := ''symbol'', clm_value := eo_instrument_symbol v, clm_venue := ''coinbase'',
        clm_instrument_kind := instrument_kind_text (instrument_kind_for_symbol (eo_instrument_symbol v)),
        clm_name := eo_instrument_symbol v\<rparr>)) (\<lambda>instrument_claim.
     r_bind (statement_location_ref (em_source_slug m) (eo_location_group_label v) (eo_location_label v))
       (\<lambda>location_ref.
     r_bind (mk_claim_record ((claim CK_LOCATION)
       \<lparr>clm_location_ref := location_ref, clm_location_group_label := eo_location_group_label v,
        clm_location_label := eo_location_label v\<rparr>)) (\<lambda>location_claim.
       let claims = [balance_claim, owner_claim, instrument_claim, location_claim] in
       Inr (claims, [default_bundle claim_set_id scope_id bundle_id scope_key claims],
         [accepted_decision claim_set_id scope_id bundle_id])))))))"

definition selected_statement :: "evidence_member_record \<Rightarrow> bool" where
  "selected_statement m \<longleftrightarrow> em_kind m = MK_STATEMENT_DOCUMENT_FILE \<and> em_status m = MS_SELECTED"

definition row_observations :: "evidence_set \<Rightarrow> evidence_member_record \<Rightarrow> evidence_observation_record list" where
  "row_observations es m =
     filter (\<lambda>v. eo_member_id v = em_member_id m \<and> eo_kind v = OK_STATEMENT_BALANCE_ROW)
       (eset_evidence_observation_records es)"

definition statement_scope_claims :: "string \<Rightarrow> evidence_set \<Rightarrow> scope_records result" where
  "statement_scope_claims claim_set_id es =
     (let document_ids = document_observation_ids (eset_evidence_observation_records es) in
      r_bind (r_map (\<lambda>(m, v). statement_row_claims claim_set_id document_ids m v)
        (concat (map (\<lambda>m. map (Pair m) (row_observations es m))
          (filter selected_statement (eset_evidence_member_records es))))) (\<lambda>scopes.
      r_bind (canonical_claim_records (concat (map fst scopes))) (\<lambda>claims.
        Inr (claims, canonical_claim_bundle_records (concat (map (fst \<circ> snd) scopes)),
          canonical_claim_bundle_decision_records (concat (map (snd \<circ> snd) scopes))))))"

section \<open>The claim set\<close>

record claim_build_result =
  cbr_claim_set :: claim_set
  cbr_gap_records :: "gap_record list"
  cbr_gap_explanations :: "gap_explanation list"
  cbr_review_records :: "review_record list"
  cbr_review_explanations :: "review_explanation list"
  cbr_projection_fields :: "projection_fields list"
  cbr_compatibility_issues :: "issue_record list"
  cbr_compatibility_reviews :: "normalization_review_record list"

definition selected_retail_members :: "evidence_set \<Rightarrow> evidence_member_record list" where
  "selected_retail_members es =
     filter (\<lambda>m. em_kind m = MK_RETAIL_ACTIVITY_EXPORT_FILE \<and> em_status m = MS_SELECTED)
       (eset_evidence_member_records es)"

definition add_raw_file :: "evidence_member_record \<Rightarrow> (string, string) dict \<Rightarrow> (string, string) dict result" where
  "add_raw_file m mapping =
     r_bind (py_index (em_locator m) 0) (\<lambda>path.
       let raw_file = pure_path_name path in
       if map_of mapping raw_file \<notin> {None, Some (em_member_id m)} then
         Inl (ValueError (''claim builder found multiple selected retail members for raw_file '' @
           py_repr raw_file))
       else Inr (AList.update raw_file (em_member_id m) mapping))"

definition selected_retail_member_ids_by_raw_file :: "evidence_set \<Rightarrow> (string, string) dict result" where
  "selected_retail_member_ids_by_raw_file es = r_fold add_raw_file (selected_retail_members es) []"

definition require_selected_retail_member_id :: "(string, string) dict \<Rightarrow> string \<Rightarrow> string \<Rightarrow> string result" where
  "require_selected_retail_member_id member_ids raw_file label =
     (case map_of member_ids raw_file of
        Some m \<Rightarrow> Inr m
      | None \<Rightarrow> Inl (ValueError (''claim builder could not map '' @ label @ '' raw_file '' @ py_repr raw_file @
          '' to the selected retail evidence member'')))"

definition projection_fields_of_draft :: "string \<Rightarrow> nat \<Rightarrow> economic_activity_draft \<Rightarrow> projection_fields" where
  "projection_fields_of_draft bundle_id draft_order d =
     \<lparr>pf_claim_bundle_id = bundle_id,
      pf_economic_kind = economic_kind_text (cl_economic_kind (ed_classification d)),
      pf_projection_hint = (case cl_projection_hint (ed_classification d) of
         None \<Rightarrow> [] | Some h \<Rightarrow> projection_hint_text h),
      pf_accounting_intent_hint = accounting_intent_text (cl_accounting_intent_hint (ed_classification d)),
      pf_tax_treatment_hint = tax_treatment_text (cl_tax_treatment_hint (ed_classification d)),
      pf_description = ed_description d, pf_tx_hash = ed_tx_hash d,
      pf_operation_group_id = ed_operation_group_id d, pf_confidence = ed_confidence d,
      pf_status = ed_status d, pf_draft_order = int draft_order, pf_review_markers = ed_review_markers d,
      pf_adapter_metadata = ed_adapter_metadata d\<rparr>"

definition draft_scope ::
    "string \<Rightarrow> (string, string) dict \<Rightarrow> nat \<times> economic_activity_draft \<Rightarrow>
      (scope_records \<times> projection_fields) result" where
  "draft_scope claim_set_id member_ids indexed =
     (case indexed of (draft_order, d) \<Rightarrow>
       r_bind (require_selected_retail_member_id member_ids (ed_raw_file d) ''draft'') (\<lambda>member_id.
         let scope_key = [member_id, ed_raw_row_ref d];
             scope_id = stable_claim_scope_id claim_set_id scope_key;
             bundle_id = stable_claim_bundle_id scope_id ''default''
         in r_bind (claims_for_draft claim_set_id scope_id bundle_id scope_key d) (\<lambda>claims.
           Inr ((claims, [default_bundle claim_set_id scope_id bundle_id scope_key claims],
               [accepted_decision claim_set_id scope_id bundle_id]),
             projection_fields_of_draft bundle_id draft_order d))))"

definition unmapped_error :: "string \<Rightarrow> py_error" where
  "unmapped_error message = AssertionError message"

definition issue_scope ::
    "string \<Rightarrow> (string, string) dict \<Rightarrow> issue_record \<Rightarrow> claim_issue_assessment result" where
  "issue_scope claim_set_id member_ids issue =
     r_bind (require_selected_retail_member_id member_ids (iss_raw_file issue) ''issue'') (\<lambda>member_id.
     r_bind (map_claim_issue_to_scope issue claim_set_id member_id) (\<lambda>mapping.
       case mapping of
         None \<Rightarrow> Inl (unmapped_error ''unsupported-row issue mapping unexpectedly returned None'')
       | Some a \<Rightarrow> Inr a))"

definition review_scope ::
    "string \<Rightarrow> (string, string) dict \<Rightarrow> normalization_review_record \<Rightarrow> claim_review_assessment result" where
  "review_scope claim_set_id member_ids review =
     r_bind (require_selected_retail_member_id member_ids (nrr_raw_file review) ''review'') (\<lambda>member_id.
     r_bind (map_claim_review_to_scope review claim_set_id member_id) (\<lambda>mapping.
       case mapping of
         None \<Rightarrow> Inl (unmapped_error ''claim review mapping unexpectedly returned None'')
       | Some a \<Rightarrow> Inr a))"

definition unsupported_row_issues :: "source_translation_batch \<Rightarrow> issue_record list" where
  "unsupported_row_issues batch =
     filter (\<lambda>i. iss_kind i = ''unsupported_row'' \<and> iss_raw_row_ref i \<noteq> []) (tb_issues batch)"

definition scoped_reviews :: "source_translation_batch \<Rightarrow> normalization_review_record list" where
  "scoped_reviews batch = filter (\<lambda>r. nrr_raw_row_ref r \<noteq> []) (tb_reviews batch)"

definition build_coinbase_claim_set ::
    "planning_profile \<Rightarrow> evidence_set option \<Rightarrow> planning_result \<Rightarrow> source_translation_batch \<Rightarrow>
      claim_build_result option result" where
  "build_coinbase_claim_set profile evidence_set planning_result batch =
     (case evidence_set of
        None \<Rightarrow> Inr None
      | Some es \<Rightarrow>
          if plan_blocked (pr_plan planning_result) \<or> selected_retail_members es = [] then Inr None
          else
            let emitter_id = prof_source profile @ '':'' @ prof_adapter_id profile @ '':claim'';
                claim_set_id = stable_claim_set_id (eset_evidence_set_id es) emitter_id
            in
            r_bind (selected_retail_member_ids_by_raw_file es) (\<lambda>member_ids.
            r_bind (r_map (draft_scope claim_set_id member_ids) (enumerate 0 (tb_drafts batch))) (\<lambda>drafted.
            r_bind (statement_scope_claims claim_set_id es)
              (\<lambda>(statement_claims, statement_bundles, statement_decisions).
            r_bind (r_map (issue_scope claim_set_id member_ids) (unsupported_row_issues batch)) (\<lambda>blocked.
            r_bind (r_map (review_scope claim_set_id member_ids) (scoped_reviews batch)) (\<lambda>reviewed.
            r_bind (canonical_claim_records
              (concat (map (fst \<circ> fst) drafted) @ statement_claims)) (\<lambda>claim_records.
              Inr (Some
                \<lparr>cbr_claim_set =
                   \<lparr>cset_claim_set_id = claim_set_id, cset_evidence_set_ref = eset_evidence_set_id es,
                    cset_emitter_id = emitter_id, cset_claim_records = claim_records,
                    cset_claim_bundle_records = canonical_claim_bundle_records
                      (concat (map (fst \<circ> snd \<circ> fst) drafted) @ statement_bundles),
                    cset_claim_bundle_decision_records = canonical_claim_bundle_decision_records
                      (concat (map (snd \<circ> snd \<circ> fst) drafted) @ statement_decisions @
                       map cia_bundle_decision blocked)\<rparr>,
                 cbr_gap_records = map cia_gap_record blocked,
                 cbr_gap_explanations = map cia_gap_explanation blocked,
                 cbr_review_records = map cra_review_record reviewed,
                 cbr_review_explanations = map cra_review_explanation reviewed,
                 cbr_projection_fields = sort_key pf_draft_order (map snd drafted),
                 cbr_compatibility_issues = map cia_compatibility_issue blocked,
                 cbr_compatibility_reviews = map cra_compatibility_review reviewed\<rparr>)))))))) "

end
