(* ===== verification/Claim_Conservation.thy ===== *)
theory Claim_Conservation
  imports Claim_Builder
begin

text \<open>
  What the claim builder promises the next stage: every draft becomes one accepted bundle with one
  activity claim that has a leg spec for each leg of the draft, so that the economic facts built
  from the claim set have exactly the legs of the drafts.
\<close>

lemma r_fold_keeps:
  assumes "r_fold f xs s = Inr t" and "P s"
    and step: "\<And>x s t. x \<in> set xs \<Longrightarrow> P s \<Longrightarrow> f x s = Inr t \<Longrightarrow> P t"
  shows "P t"
  using assms
proof (induction xs arbitrary: s)
  case (Cons x xs)
  then obtain u where u: "f x s = Inr u" "r_fold f xs u = Inr t" by (auto simp: r_bind_Inr_iff)
  show ?case by (rule Cons.IH [OF u(2) Cons.prems(3) [OF _ Cons.prems(2) u(1)]]) (auto intro: Cons.prems(3))
qed simp

section \<open>The claims of one scope\<close>

lemma scope_claim_fields [simp]:
  "clm_bundle_id (scope_claim c s b k key os ps) = b" "clm_kind (scope_claim c s b k key os ps) = k"
  "clm_claim_id (scope_claim c s b k key os ps) = stable_claim_id b k key"
  "clm_key (scope_claim c s b k key os ps) = key"
  "clm_member_refs (scope_claim c s b k key os ps) = [hd key]"
  "clm_provenance_refs (scope_claim c s b k key os ps) = ps"
  by (simp_all add: scope_claim_def)

lemma instrument_claim_fields [simp]:
  "clm_bundle_id (instrument_claim_of c s b key ps slot ident) = b"
  "clm_kind (instrument_claim_of c s b key ps slot ident) = CK_INSTRUMENT"
  by (simp_all add: instrument_claim_of_def split: prod.split)

lemma instrument_claims_of_legs:
  assumes "r_fold (add_leg_instrument c s b key ps) legs ([], [], []) = Inr (claims, by_identity, by_leg)"
  shows "\<forall>x \<in> set claims. clm_kind x = CK_INSTRUMENT \<and> clm_bundle_id x = b"
proof -
  let ?P = "\<lambda>st :: instrument_state. \<forall>x \<in> set (fst st). clm_kind x = CK_INSTRUMENT \<and> clm_bundle_id x = b"
  have "?P (claims, by_identity, by_leg)"
  proof (rule r_fold_keeps [OF assms, where P = ?P])
    show "?P ([], [], [])" by simp
    show "?P t" if "?P u" "add_leg_instrument c s b key ps l u = Inr t" for l u t
      using that
      by (auto simp: add_leg_instrument_def r_bind_Inr_iff mk_claim_record_iff Let_def
          split: prod.splits option.splits)
  qed
  then show ?thesis by simp
qed

text \<open>What a draft and the activity claim made of it have in common.\<close>

definition claims_activity :: "economic_activity_draft \<Rightarrow> claim_record \<Rightarrow> bool" where
  "claims_activity d a \<longleftrightarrow>
     map (\<lambda>s. (ls_role s, ls_quantity s)) (clm_leg_specs a) = map (\<lambda>l. (ld_leg_id l, ld_quantity l)) (ed_legs d) \<and>
     map ls_slot (clm_leg_specs a) = map int [0..<length (ed_legs d)] \<and>
     clm_activity_label a = activity_label_of (ed_provider_operation_key d) \<and>
     clm_provenance_refs a = ed_provenance_refs d \<and>
     clm_effective_at a = Some (case ed_effective_at d of None \<Rightarrow> ed_timestamp d | Some t \<Rightarrow> t)"

lemma leg_specs_of_legs:
  "map (\<lambda>s. (ls_role s, ls_quantity s)) (map (leg_spec_of legs by_leg loc) (enumerate n ls)) =
     map (\<lambda>l. (ld_leg_id l, ld_quantity l)) ls"
  "map ls_slot (map (leg_spec_of legs by_leg loc) (enumerate n ls)) = map int [n..<n + length ls]"
  by (induction ls arbitrary: n) (simp_all add: leg_spec_of_def upt_rec)

lemma claims_for_draft_Inr:
  assumes "claims_for_draft c s b key d = Inr cl"
  obtains a where "filter (\<lambda>x. clm_kind x = CK_ACTIVITY) cl = [a]" and "claims_activity d a"
    and "\<forall>x \<in> set cl. clm_bundle_id x = b"
proof -
  obtain claims by_identity by_leg where legs:
      "r_fold (add_leg_instrument c s b key (ed_provenance_refs d)) (ed_legs d) ([], [], []) =
        Inr (claims, by_identity, by_leg)"
    using assms by (auto simp: claims_for_draft_def r_bind_Inr_iff Let_def)
  have ins: "filter (\<lambda>x. clm_kind x = CK_ACTIVITY) claims = []" "\<forall>x \<in> set claims. clm_bundle_id x = b"
    using instrument_claims_of_legs [OF legs] by (auto simp: filter_empty_conv)
  show ?thesis
    by (rule that)
      (use assms ins in \<open>auto simp: claims_for_draft_def r_bind_Inr_iff Let_def legs mk_claim_record_iff
        claims_activity_def leg_specs_of_legs [where n = 0, unfolded map_map add_0]\<close>)
qed

lemma statement_row_claims_Inr:
  assumes "statement_row_claims c ids m v = Inr (cl, bs, ds)"
  shows "filter (\<lambda>x. clm_kind x = CK_ACTIVITY) cl = []"
    and "\<forall>x \<in> set cl. clm_bundle_id x = cd_accepted_bundle_ref (hd ds)"
    and "length ds = 1" and "cd_outcome (hd ds) = DO_ACCEPTED" and "cd_accepted_bundle_ref (hd ds) \<noteq> []"
  using assms
  by (auto simp: statement_row_claims_def r_bind_Inr_iff Let_def mk_claim_record_iff accepted_decision_def
      stable_claim_bundle_id_def)

lemma draft_scope_Inr:
  assumes "draft_scope c ids (n, d) = Inr ((cl, bs, ds), pf)"
  obtains m a where "map_of ids (ed_raw_file d) = Some m"
    and "filter (\<lambda>x. clm_kind x = CK_ACTIVITY) cl = [a]" and "claims_activity d a"
    and "\<forall>x \<in> set cl. clm_bundle_id x = pf_claim_bundle_id pf"
    and "ds = [accepted_decision c (stable_claim_scope_id c [m, ed_raw_row_ref d]) (pf_claim_bundle_id pf)]"
    and "pf = projection_fields_of_draft (pf_claim_bundle_id pf) n d"
    and "pf_claim_bundle_id pf = stable_claim_bundle_id (stable_claim_scope_id c [m, ed_raw_row_ref d]) ''default''"
proof -
  obtain m where m: "require_selected_retail_member_id ids (ed_raw_file d) ''draft'' = Inr m"
    and cl: "claims_for_draft c (stable_claim_scope_id c [m, ed_raw_row_ref d])
      (stable_claim_bundle_id (stable_claim_scope_id c [m, ed_raw_row_ref d]) ''default'')
      [m, ed_raw_row_ref d] d = Inr cl"
    and rest: "ds = [accepted_decision c (stable_claim_scope_id c [m, ed_raw_row_ref d])
        (stable_claim_bundle_id (stable_claim_scope_id c [m, ed_raw_row_ref d]) ''default'')]"
      "pf = projection_fields_of_draft
        (stable_claim_bundle_id (stable_claim_scope_id c [m, ed_raw_row_ref d]) ''default'') n d"
    using assms by (auto simp: draft_scope_def r_bind_Inr_iff Let_def)
  obtain a where a: "filter (\<lambda>x. clm_kind x = CK_ACTIVITY) cl = [a]" "claims_activity d a"
      "\<forall>x \<in> set cl. clm_bundle_id x =
        stable_claim_bundle_id (stable_claim_scope_id c [m, ed_raw_row_ref d]) ''default''"
    using claims_for_draft_Inr [OF cl] .
  have "map_of ids (ed_raw_file d) = Some m"
    using m by (simp add: require_selected_retail_member_id_def split: option.splits)
  then show ?thesis
    by (rule that) (use a rest in \<open>simp_all add: projection_fields_of_draft_def\<close>)
qed

section \<open>The accepted bundles of a list of scopes\<close>

text \<open>A scope as the next stage sees it: the bundle id, its claims and its decision.\<close>

type_synonym bundle_scope = "string \<times> claim_record list \<times> claim_bundle_decision_record"

definition good_scope :: "bundle_scope \<Rightarrow> bool" where
  "good_scope s \<longleftrightarrow>
     (case s of (bid, cl, d) \<Rightarrow>
       (\<forall>x \<in> set cl. clm_bundle_id x = bid) \<and> length (filter (\<lambda>x. clm_kind x = CK_ACTIVITY) cl) \<le> 1 \<and>
       cd_outcome d = DO_ACCEPTED \<and> cd_accepted_bundle_ref d = bid \<and> bid \<noteq> [])"

definition scope_activities :: "bundle_scope \<Rightarrow> claim_record list" where
  "scope_activities s = filter (\<lambda>x. clm_kind x = CK_ACTIVITY) (fst (snd s))"

lemma short_list_mset: "mset xs = mset ys \<Longrightarrow> length ys \<le> 1 \<Longrightarrow> xs = ys"
  by (cases ys; cases "tl ys") auto

lemma good_scope_filter:
  assumes "good_scope s"
  shows "filter (\<lambda>x. clm_bundle_id x = fst s) (fst (snd s)) = fst (snd s)"
    and "i \<noteq> fst s \<Longrightarrow> filter (\<lambda>x. clm_bundle_id x = i) (fst (snd s)) = []"
  using assms by (auto simp: good_scope_def filter_empty_conv filter_id_conv split: prod.splits)

lemma other_scopes_filter:
  "\<forall>s \<in> set scopes. good_scope s \<Longrightarrow> i \<notin> fst ` set scopes \<Longrightarrow>
     filter (\<lambda>x. clm_bundle_id x = i) (concat (map (fst \<circ> snd) scopes)) = []"
  by (induction scopes) (auto simp: good_scope_filter(2))

lemma scopes_filter:
  assumes "\<forall>s \<in> set scopes. good_scope s" and "distinct (map fst scopes)" and "s \<in> set scopes"
  shows "filter (\<lambda>x. clm_bundle_id x = fst s) (concat (map (fst \<circ> snd) scopes)) = fst (snd s)"
  using assms
proof (induction scopes)
  case (Cons t scopes)
  show ?case
  proof (cases "s = t")
    case True
    then have "filter (\<lambda>x. clm_bundle_id x = fst s) (concat (map (fst \<circ> snd) scopes)) = []"
      by (intro other_scopes_filter) (use Cons.prems in auto)
    then show ?thesis using True Cons.prems(1) by (simp add: good_scope_filter(1) comp_def)
  next
    case False
    then have s: "s \<in> set scopes" using Cons.prems(3) by simp
    then have "fst s \<noteq> fst t" using Cons.prems(2) by (metis distinct.simps(2) image_eqI list.set_map list.simps(9))
    then show ?thesis using Cons s by (simp add: good_scope_filter(2))
  qed
qed simp

lemma accept_scope:
  assumes "\<forall>s \<in> set scopes. good_scope s" and "distinct (map fst scopes)" and "s \<in> set scopes"
    and "mset claims = mset (concat (map (fst \<circ> snd) scopes))"
  shows "\<exists>p. accept_decision (group_by clm_bundle_id claims) (snd (snd s)) = Inr p \<and>
    map aab_activity_claim p = scope_activities s \<and>
    (\<forall>b \<in> set p. mset (aab_bundle_claims b) = mset (fst (snd s)))"
proof -
  obtain bid cl d where s: "s = (bid, cl, d)" by (cases s)
  have good: "cd_outcome d = DO_ACCEPTED" "cd_accepted_bundle_ref d = bid" "bid \<noteq> []"
      "length (filter (\<lambda>x. clm_kind x = CK_ACTIVITY) cl) \<le> 1"
    using assms(1,3) by (auto simp: good_scope_def s)
  have same: "mset (filter (\<lambda>x. clm_bundle_id x = bid) claims) = mset cl"
    using scopes_filter [OF assms(1-3)] assms(4) by (metis comp_def fst_conv mset_filter s snd_conv)
  then have "mset (filter (\<lambda>x. clm_kind x = CK_ACTIVITY) (filter (\<lambda>x. clm_bundle_id x = bid) claims)) =
      mset (filter (\<lambda>x. clm_kind x = CK_ACTIVITY) cl)"
    by (simp only: mset_filter)
  then have acts: "filter (\<lambda>x. clm_kind x = CK_ACTIVITY) (filter (\<lambda>x. clm_bundle_id x = bid) claims) =
      filter (\<lambda>x. clm_kind x = CK_ACTIVITY) cl"
    using good(4) by (rule short_list_mset)
  have get: "dict_get (group_by clm_bundle_id claims) bid [] = filter (\<lambda>x. clm_bundle_id x = bid) claims"
    by (simp add: dict_simps)
  show ?thesis
    unfolding s snd_conv accept_decision_def good(2) get Let_def acts scope_activities_def fst_conv
    using good same by (cases "filter (\<lambda>x. clm_kind x = CK_ACTIVITY) cl") (auto split: list.splits)
qed

lemma mset_concat_sum: "mset (concat (map f ds)) = \<Sum>\<^sub># (image_mset (\<lambda>d. mset (f d)) (mset ds))"
  by (induction ds) simp_all

lemma mset_concat_perm: "mset ds = mset es \<Longrightarrow> mset (concat (map f ds)) = mset (concat (map f es))"
  by (simp only: mset_concat_sum)

lemma accepted_of_scopes:
  assumes "\<forall>s \<in> set scopes. good_scope s" and "distinct (map fst scopes)"
    and "mset (cset_claim_records cs) = mset (concat (map (fst \<circ> snd) scopes))"
    and "mset (cset_claim_bundle_decision_records cs) = mset (map (snd \<circ> snd) scopes @ others)"
    and "\<forall>d \<in> set others. cd_outcome d \<noteq> DO_ACCEPTED"
  shows "\<exists>bs. accepted_activity_bundles cs = Inr bs \<and>
    mset (map aab_activity_claim bs) = mset (concat (map scope_activities scopes)) \<and>
    (\<forall>b \<in> set bs. \<exists>s \<in> set scopes. mset (aab_bundle_claims b) = mset (fst (snd s)) \<and>
      aab_activity_claim b \<in> set (scope_activities s))"
proof -
  define accept where "accept = accept_decision (group_by clm_bundle_id (cset_claim_records cs))"
  define parts where "parts d = (case accept d of Inr p \<Rightarrow> p)" for d
  have scope: "accept (snd (snd s)) = Inr (parts (snd (snd s)))"
      "map aab_activity_claim (parts (snd (snd s))) = scope_activities s"
      "\<forall>b \<in> set (parts (snd (snd s))). mset (aab_bundle_claims b) = mset (fst (snd s))" if "s \<in> set scopes" for s
    using accept_scope [OF assms(1,2) that assms(3)] by (auto simp: accept_def parts_def)
  have other: "accept d = Inr []" "parts d = []" if "d \<in> set others" for d
    using assms(5) that by (simp_all add: accept_def parts_def accept_decision_def)
  have decisions: "set (cset_claim_bundle_decision_records cs) = set (map (snd \<circ> snd) scopes @ others)"
    using assms(4) by (metis set_mset_mset)
  then have "accept d = Inr (parts d)" if "d \<in> set (cset_claim_bundle_decision_records cs)" for d
    using that scope other by auto
  then have run: "accepted_activity_bundles cs = Inr (concat (map parts (cset_claim_bundle_decision_records cs)))"
    by (simp add: accepted_activity_bundles_def accept_def [symmetric] r_map_all_ok)
  have "mset (map aab_activity_claim (concat (map parts (cset_claim_bundle_decision_records cs)))) =
      mset (concat (map (\<lambda>d. map aab_activity_claim (parts d)) (cset_claim_bundle_decision_records cs)))"
    by (simp add: map_concat comp_def)
  also have "\<dots> = mset (concat (map (\<lambda>d. map aab_activity_claim (parts d)) (map (snd \<circ> snd) scopes @ others)))"
    by (rule mset_concat_perm [OF assms(4)])
  also have "concat (map (\<lambda>d. map aab_activity_claim (parts d)) (map (snd \<circ> snd) scopes @ others)) =
      concat (map scope_activities scopes)"
  proof -
    have "map (\<lambda>d. map aab_activity_claim (parts d)) (map (snd \<circ> snd) scopes) = map scope_activities scopes"
      using scope(2) by simp
    moreover have "concat (map (\<lambda>d. map aab_activity_claim (parts d)) others) = []"
      using other(2) by simp
    ultimately show ?thesis by (simp only: map_append concat_append append_Nil2)
  qed
  finally have acts: "mset (map aab_activity_claim (concat (map parts (cset_claim_bundle_decision_records cs)))) =
      mset (concat (map scope_activities scopes))" .
  have "\<exists>s \<in> set scopes. mset (aab_bundle_claims b) = mset (fst (snd s)) \<and>
      aab_activity_claim b \<in> set (scope_activities s)"
    if b: "b \<in> set (concat (map parts (cset_claim_bundle_decision_records cs)))" for b
  proof -
    obtain d where d: "d \<in> set (cset_claim_bundle_decision_records cs)" "b \<in> set (parts d)" using b by auto
    then obtain s where s: "s \<in> set scopes" "d = snd (snd s)" using decisions other(2) by fastforce
    have "aab_activity_claim b \<in> set (map aab_activity_claim (parts d))" using d(2) by simp
    then show ?thesis using scope [OF s(1)] s d(2) by (intro bexI [of _ s]) auto
  qed
  then show ?thesis using run acts by blast
qed

section \<open>The scopes of a claim set\<close>

definition scope_of_records :: "scope_records \<Rightarrow> bundle_scope" where
  "scope_of_records x =
     (case x of (cl, bs, ds) \<Rightarrow> (cd_accepted_bundle_ref (hd ds), cl, hd ds))"

lemma drafted_scope:
  assumes "draft_scope c ids (n, d) = Inr (x, pf)"
  shows "good_scope (scope_of_records x)" and "\<exists>s b key. claims_for_draft c s b key d = Inr (fst (snd (scope_of_records x)))"
    and "\<exists>a. scope_activities (scope_of_records x) = [a] \<and> claims_activity d a"
    and "snd (snd x) = [snd (snd (scope_of_records x))]"
proof -
  obtain cl bs ds where x: "x = (cl, bs, ds)" by (cases x)
  obtain m a where p: "filter (\<lambda>x. clm_kind x = CK_ACTIVITY) cl = [a]" "claims_activity d a"
      "\<forall>x \<in> set cl. clm_bundle_id x = pf_claim_bundle_id pf"
      "ds = [accepted_decision c (stable_claim_scope_id c [m, ed_raw_row_ref d]) (pf_claim_bundle_id pf)]"
      "pf_claim_bundle_id pf = stable_claim_bundle_id (stable_claim_scope_id c [m, ed_raw_row_ref d]) ''default''"
    using draft_scope_Inr [OF assms [unfolded x]] by metis
  show "good_scope (scope_of_records x)"
    using p(1,3) by (simp add: x p(4) scope_of_records_def good_scope_def accepted_decision_def p(5)
        stable_claim_bundle_id_def)
  show "\<exists>s b key. claims_for_draft c s b key d = Inr (fst (snd (scope_of_records x)))"
    using assms by (auto simp: x draft_scope_def r_bind_Inr_iff Let_def scope_of_records_def)
  show "\<exists>a. scope_activities (scope_of_records x) = [a] \<and> claims_activity d a"
    using p(1,2) by (simp add: x scope_of_records_def scope_activities_def)
  show "snd (snd x) = [snd (snd (scope_of_records x))]" by (simp add: x p(4) scope_of_records_def)
qed

lemma drafted_scopes:
  assumes "r_map (draft_scope c ids) (enumerate n ds) = Inr drafted"
  shows "(\<forall>s \<in> set (map (scope_of_records \<circ> fst) drafted). good_scope s \<and>
      (\<exists>d \<in> set ds. \<exists>sid bid key. claims_for_draft c sid bid key d = Inr (fst (snd s)))) \<and>
    (\<exists>as. map scope_activities (map (scope_of_records \<circ> fst) drafted) = map (\<lambda>a. [a]) as \<and>
      list_all2 claims_activity ds as) \<and>
    concat (map (snd \<circ> snd \<circ> fst) drafted) = map (snd \<circ> snd) (map (scope_of_records \<circ> fst) drafted)"
  using assms
proof (induction ds arbitrary: n drafted)
  case (Cons d ds)
  then obtain x pf rest where x: "draft_scope c ids (n, d) = Inr (x, pf)"
      "r_map (draft_scope c ids) (enumerate (Suc n) ds) = Inr rest" "drafted = (x, pf) # rest"
    by (auto simp: r_bind_Inr_iff)
  obtain a where a: "scope_activities (scope_of_records x) = [a]" "claims_activity d a"
    using drafted_scope(3) [OF x(1)] by blast
  obtain as where as: "map scope_activities (map (scope_of_records \<circ> fst) rest) = map (\<lambda>a. [a]) as"
      "list_all2 claims_activity ds as"
    using Cons.IH [OF x(2)] by blast
  have "map scope_activities (map (scope_of_records \<circ> fst) drafted) = map (\<lambda>a. [a]) (a # as)"
    using a as by (simp add: x(3))
  moreover have "list_all2 claims_activity (d # ds) (a # as)" using a as by simp
  moreover have "\<forall>s \<in> set (map (scope_of_records \<circ> fst) drafted). good_scope s \<and>
      (\<exists>d \<in> set (d # ds). \<exists>sid bid key. claims_for_draft c sid bid key d = Inr (fst (snd s)))"
    using Cons.IH [OF x(2)] drafted_scope(1,2) [OF x(1)] by (auto simp: x(3))
  moreover have "concat (map (snd \<circ> snd \<circ> fst) drafted) = map (snd \<circ> snd) (map (scope_of_records \<circ> fst) drafted)"
    using Cons.IH [OF x(2)] drafted_scope(4) [OF x(1)] by (simp add: x(3) comp_def)
  ultimately show ?case by blast
qed simp

lemma statement_scopes:
  assumes "r_map (\<lambda>(m, v). statement_row_claims c ids m v) rows = Inr scopes"
  shows "(\<forall>s \<in> set (map scope_of_records scopes). good_scope s) \<and>
    concat (map scope_activities (map scope_of_records scopes)) = [] \<and>
    concat (map (snd \<circ> snd) scopes) = map (snd \<circ> snd) (map scope_of_records scopes)"
  using assms
proof (induction rows arbitrary: scopes)
  case (Cons row rows)
  then obtain cl bs ds rest where x: "statement_row_claims c ids (fst row) (snd row) = Inr (cl, bs, ds)"
      "r_map (\<lambda>(m, v). statement_row_claims c ids m v) rows = Inr rest" "scopes = (cl, bs, ds) # rest"
    by (auto simp: r_bind_Inr_iff split: prod.splits)
  have ds: "ds = [hd ds]" using statement_row_claims_Inr(3) [OF x(1)] by (cases ds) auto
  have "good_scope (scope_of_records (cl, bs, ds))"
    using statement_row_claims_Inr [OF x(1)] by (simp add: scope_of_records_def good_scope_def)
  moreover have "scope_activities (scope_of_records (cl, bs, ds)) = []"
    using statement_row_claims_Inr(1) [OF x(1)] by (simp add: scope_of_records_def scope_activities_def)
  moreover have "snd (snd (scope_of_records (cl, bs, ds))) = hd ds" by (simp add: scope_of_records_def)
  ultimately show ?case using Cons.IH [OF x(2)] ds by (simp add: x(3))
qed simp

lemma canonical_claims_mset: "canonical_claim_records cs = Inr ks \<Longrightarrow> mset ks = mset cs"
  by (auto simp: canonical_claim_records_def sort_by_result_iff)

lemma claims_of_scopes: "concat (map fst (map snd (map scope_of_records xs))) = concat (map fst xs)"
  by (induction xs) (auto simp: scope_of_records_def)

lemma blocked_decisions:
  assumes "r_map (issue_scope c ids) issues = Inr blocked" and "d \<in> set (map cia_bundle_decision blocked)"
  shows "cd_outcome d = DO_BLOCKED"
proof -
  obtain b where b: "b \<in> set blocked" "d = cia_bundle_decision b" using assms(2) by auto
  then obtain i where "issue_scope c ids i = Inr b" using r_map_set [OF assms(1) b(1)] by blast
  then obtain m where m: "map_claim_issue_to_scope i c m = Inr (Some b)"
    by (auto simp: issue_scope_def r_bind_Inr_iff split: option.splits)
  then have "iss_kind i = ''unsupported_row''" "iss_raw_row_ref i \<noteq> []"
    by (auto simp: map_claim_issue_to_scope_def split: if_splits)
  then show ?thesis using issue_mapped [of i c m] m b(2) by auto
qed

lemma built_scopes:
  assumes "build_coinbase_claim_set profile es pr batch = Inr (Some r)"
  obtains drafted stated others as where "\<forall>s \<in> set (drafted @ stated). good_scope s"
    and "mset (cset_claim_records (cbr_claim_set r)) = mset (concat (map (fst \<circ> snd) (drafted @ stated)))"
    and "mset (cset_claim_bundle_decision_records (cbr_claim_set r)) =
      mset (map (snd \<circ> snd) (drafted @ stated) @ others)"
    and "\<forall>d \<in> set others. cd_outcome d = DO_BLOCKED"
    and "map scope_activities drafted = map (\<lambda>a. [a]) as" and "list_all2 claims_activity (tb_drafts batch) as"
    and "concat (map scope_activities stated) = []"
    and "\<forall>s \<in> set drafted. \<exists>d \<in> set (tb_drafts batch). \<exists>c sid bid key. claims_for_draft c sid bid key d = Inr (fst (snd s))"
proof -
  obtain cid ids ds sc sb sd blocked cl es' where run:
      "r_map (draft_scope cid ids) (enumerate 0 (tb_drafts batch)) = Inr ds"
      "statement_scope_claims cid es' = Inr (sc, sb, sd)"
      "r_map (issue_scope cid ids) (unsupported_row_issues batch) = Inr blocked"
      "canonical_claim_records (concat (map (fst \<circ> fst) ds) @ sc) = Inr cl"
      "cset_claim_records (cbr_claim_set r) = cl"
      "cset_claim_bundle_decision_records (cbr_claim_set r) = canonical_claim_bundle_decision_records
        (concat (map (snd \<circ> snd \<circ> fst) ds) @ sd @ map cia_bundle_decision blocked)"
    using assms by (auto simp: build_coinbase_claim_set_def r_bind_Inr_iff Let_def split: option.splits if_splits)
  obtain rows ids' scopes where st: "r_map (\<lambda>(m, v). statement_row_claims cid ids' m v) rows = Inr scopes"
      "canonical_claim_records (concat (map fst scopes)) = Inr sc"
      "sd = canonical_claim_bundle_decision_records (concat (map (snd \<circ> snd) scopes))"
    using run(2) by (auto simp: statement_scope_claims_def r_bind_Inr_iff Let_def)
  obtain as where as: "map scope_activities (map (scope_of_records \<circ> fst) ds) = map (\<lambda>a. [a]) as"
      "list_all2 claims_activity (tb_drafts batch) as"
    using drafted_scopes [OF run(1)] by blast
  show ?thesis
  proof (rule that [of "map (scope_of_records \<circ> fst) ds" "map scope_of_records scopes"
        "map cia_bundle_decision blocked" as])
    show "\<forall>s \<in> set (map (scope_of_records \<circ> fst) ds @ map scope_of_records scopes). good_scope s"
      using drafted_scopes [OF run(1)] statement_scopes [OF st(1)] by auto
    show "\<forall>s \<in> set (map (scope_of_records \<circ> fst) ds). \<exists>d \<in> set (tb_drafts batch). \<exists>c sid bid key.
        claims_for_draft c sid bid key d = Inr (fst (snd s))"
      using drafted_scopes [OF run(1)] by blast
    have "mset cl = mset (concat (map fst (map fst ds)) @ concat (map fst scopes))"
      using canonical_claims_mset [OF run(4)] canonical_claims_mset [OF st(2)] by simp
    then show "mset (cset_claim_records (cbr_claim_set r)) =
        mset (concat (map (fst \<circ> snd) (map (scope_of_records \<circ> fst) ds @ map scope_of_records scopes)))"
      by (simp only: run(5) map_append concat_append claims_of_scopes map_map [symmetric])
    show "mset (cset_claim_bundle_decision_records (cbr_claim_set r)) =
        mset (map (snd \<circ> snd) (map (scope_of_records \<circ> fst) ds @ map scope_of_records scopes) @
          map cia_bundle_decision blocked)"
      using drafted_scopes [OF run(1)] statement_scopes [OF st(1)]
      by (simp add: run(6) st(3) decision_order.canonical_mset del: map_map)
  qed (use as statement_scopes [OF st(1)] blocked_decisions [OF run(3)] in auto)
qed

end
