(* ===== verification/Claim_Economics.thy ===== *)
theory Claim_Economics
  imports Claim_Conservation
begin

text \<open>
  From drafts to economic facts: the facts built from a claim set have one event for each draft and
  one leg, of the same quantity, for each leg of a draft; and they are built whenever the drafts have
  an activity and identities the economics stage knows.
\<close>

section \<open>Conservation\<close>

lemma good_scope_id: "good_scope s \<Longrightarrow> fst s = cd_accepted_bundle_ref (snd (snd s)) \<and> cd_outcome (snd (snd s)) = DO_ACCEPTED"
  by (auto simp: good_scope_def split: prod.splits)

text \<open>The accepted decisions of a claim set are those of its scopes.\<close>

lemma scopes_distinct:
  assumes "\<forall>s \<in> set scopes. good_scope s" and "\<forall>d \<in> set others. cd_outcome d = DO_BLOCKED"
    and "mset ds = mset (map (snd \<circ> snd) scopes @ others)"
    and "distinct (map cd_accepted_bundle_ref (filter (\<lambda>d. cd_outcome d = DO_ACCEPTED) ds))"
  shows "distinct (map fst scopes)"
proof -
  have accepted: "filter (\<lambda>d. cd_outcome d = DO_ACCEPTED) (map (snd \<circ> snd) scopes @ others) = map (snd \<circ> snd) scopes"
    using assms(1,2) good_scope_id by (auto simp: filter_id_conv filter_empty_conv)
  have "mset (map cd_accepted_bundle_ref (filter (\<lambda>d. cd_outcome d = DO_ACCEPTED) ds)) =
      mset (map cd_accepted_bundle_ref (map (snd \<circ> snd) scopes))"
    using assms(3) accepted by (metis mset_filter mset_map)
  also have "map cd_accepted_bundle_ref (map (snd \<circ> snd) scopes) = map fst scopes"
    using assms(1) good_scope_id by simp
  finally show ?thesis using assms(4) by (metis mset_eq_imp_distinct_iff)
qed

lemma claims_activity_quantities:
  "claims_activity d a \<Longrightarrow> map ls_quantity (clm_leg_specs a) = map ld_quantity (ed_legs d)"
  by (drule claims_activity_def [THEN iffD1, THEN conjunct1])
    (drule arg_cong [where f = "map snd"], simp add: comp_def)

lemma drafts_become_bundles:
  assumes "build_coinbase_claim_set profile es pr batch = Inr (Some r)"
    and "distinct (map cd_accepted_bundle_ref (filter (\<lambda>d. cd_outcome d = DO_ACCEPTED)
      (cset_claim_bundle_decision_records (cbr_claim_set r))))"
  obtains bs as where "accepted_activity_bundles (cbr_claim_set r) = Inr bs"
    and "mset (map aab_activity_claim bs) = mset as" and "list_all2 claims_activity (tb_drafts batch) as"
    and "\<forall>b \<in> set bs. \<exists>d \<in> set (tb_drafts batch). \<exists>c sid bid key cl. claims_for_draft c sid bid key d = Inr cl \<and>
      mset (aab_bundle_claims b) = mset cl \<and> aab_activity_claim b \<in> set (filter (\<lambda>x. clm_kind x = CK_ACTIVITY) cl)"
proof -
  obtain drafted stated others as where p: "\<forall>s \<in> set (drafted @ stated). good_scope s"
      "mset (cset_claim_records (cbr_claim_set r)) = mset (concat (map (fst \<circ> snd) (drafted @ stated)))"
      "mset (cset_claim_bundle_decision_records (cbr_claim_set r)) =
        mset (map (snd \<circ> snd) (drafted @ stated) @ others)"
      "\<forall>d \<in> set others. cd_outcome d = DO_BLOCKED"
      "map scope_activities drafted = map (\<lambda>a. [a]) as" "list_all2 claims_activity (tb_drafts batch) as"
      "concat (map scope_activities stated) = []"
      "\<forall>s \<in> set drafted. \<exists>d \<in> set (tb_drafts batch). \<exists>c sid bid key. claims_for_draft c sid bid key d = Inr (fst (snd s))"
    using built_scopes [OF assms(1)] .
  have d: "distinct (map fst (drafted @ stated))" by (rule scopes_distinct [OF p(1,4,3) assms(2)])
  have "\<forall>x \<in> set others. cd_outcome x \<noteq> DO_ACCEPTED" using p(4) by simp
  from accepted_of_scopes [OF p(1) d p(2,3) this] obtain bs where
    bs: "accepted_activity_bundles (cbr_claim_set r) = Inr bs"
      "mset (map aab_activity_claim bs) = mset (concat (map scope_activities (drafted @ stated)))"
      "\<forall>b \<in> set bs. \<exists>s \<in> set (drafted @ stated). mset (aab_bundle_claims b) = mset (fst (snd s)) \<and>
        aab_activity_claim b \<in> set (scope_activities s)" by blast
  have "concat (map scope_activities (drafted @ stated)) = as"
    using p(5,7) by (simp add: concat_map_singleton)
  then have as: "mset (map aab_activity_claim bs) = mset as" using bs(2) by simp
  have "\<exists>d \<in> set (tb_drafts batch). \<exists>c sid bid key cl. claims_for_draft c sid bid key d = Inr cl \<and>
      mset (aab_bundle_claims b) = mset cl \<and> aab_activity_claim b \<in> set (filter (\<lambda>x. clm_kind x = CK_ACTIVITY) cl)"
    if b: "b \<in> set bs" for b
  proof -
    obtain s where s: "s \<in> set (drafted @ stated)" "mset (aab_bundle_claims b) = mset (fst (snd s))"
        "aab_activity_claim b \<in> set (scope_activities s)" using bs(3) b by blast
    then have "s \<in> set drafted" using p(7) by (auto simp: concat_eq_Nil_conv)
    then show ?thesis using p(8) s(2,3) unfolding scope_activities_def by blast
  qed
  then show ?thesis using that bs(1) as p(6) by blast
qed

lemma sum_legs:
  assumes "list_all2 claims_activity ds as"
  shows "concat (map (\<lambda>a. map ls_quantity (clm_leg_specs a)) as) = concat (map (\<lambda>d. map ld_quantity (ed_legs d)) ds)"
  using assms by (induction rule: list_all2_induct) (simp_all add: claims_activity_quantities)

section \<open>When the economics stage accepts the claims\<close>

definition usable_identity :: "instrument_identity_claim list \<Rightarrow> bool" where
  "usable_identity claims \<longleftrightarrow> claims \<noteq> [] \<and> valid_claim (hd claims)"

definition supported_draft :: "economic_activity_draft \<Rightarrow> bool" where
  "supported_draft d \<longleftrightarrow>
     activity_label_of (ed_provider_operation_key d) \<in>
       {''reward_income'', ''asset_migration'', ''buy'', ''sell'', ''receive'', ''send''} \<and>
     utcoffset (case ed_effective_at d of None \<Rightarrow> ed_timestamp d | Some t \<Rightarrow> t) = Some 0 \<and>
     (\<forall>l \<in> set (ed_legs d). dval (ld_quantity l) \<noteq> 0 \<and> usable_identity (ld_instrument_identity_claims l))"

lemma kind_of_text [simp]: "instrument_kind_of_text (instrument_kind_text k) = Inr k"
  by (cases k) (simp_all add: instrument_kind_of_text_def)

lemma resolved_single: "valid_claim c \<Longrightarrow> \<exists>r. resolve_instrument_identity [c] = Inr (Some r)"
  using resolve_validated [of "[c]"] by (simp add: claims_agree_def)

lemma instrument_claim_resolves:
  assumes "valid_claim ident"
  shows "is_ok (instrument_ref (instrument_claim_of c s b key ps slot (identity_key_of ident)))"
proof -
  let ?x = "instrument_claim_of c s b key ps slot (identity_key_of ident)"
  obtain k where k: "clm_instrument_kind ?x = instrument_kind_text k"
    by (cases "ic_kind_hint ident = IK_UNKNOWN") (auto simp: instrument_claim_of_def identity_key_of_def)
  let ?i = "\<lparr>ic_scheme = clm_scheme ?x, ic_value = clm_value ?x,
      ic_venue = (if clm_venue ?x = [] then None else Some (clm_venue ?x)),
      ic_kind_hint = k, ic_display_name = clm_name ?x, ic_precision_hint = None\<rparr>"
  have "valid_claim ?i"
    using assms by (simp add: valid_claim_iff instrument_claim_of_def identity_key_of_def negative_int_def)
  then have "mk_instrument_identity_claim ?i = Inr ?i" "\<exists>r. resolve_instrument_identity [?i] = Inr (Some r)"
    using resolved_single by (simp_all add: valid_claim_def)
  then show ?thesis by (auto simp: instrument_ref_def resolve_claim_instrument_def k)
qed

text \<open>The state of the loop over the legs.\<close>

definition instrument_state_ok :: "instrument_state \<Rightarrow> bool" where
  "instrument_state_ok st \<longleftrightarrow>
     (case st of (claims, by_identity, by_leg) \<Rightarrow>
       (\<forall>x \<in> set claims. clm_kind x = CK_INSTRUMENT \<and> is_ok (instrument_ref x)) \<and>
       ran (map_of by_identity) \<subseteq> clm_claim_id ` set claims \<and>
       ran (map_of by_leg) \<subseteq> clm_claim_id ` set claims)"

lemma ran_update: "ran (m(k \<mapsto> v)) \<subseteq> insert v (ran m)"
  by (auto simp: ran_def)

lemma py_index_0: "xs \<noteq> [] \<Longrightarrow> py_index xs 0 = Inr (hd xs)"
  by (cases xs) (simp_all add: py_index_def)

lemma add_leg_instrument_ok:
  assumes "add_leg_instrument c s b key ps l st = Inr st'" and "instrument_state_ok st"
    and "usable_identity (ld_instrument_identity_claims l)"
  shows "instrument_state_ok st' \<and> map_of (snd (snd st')) (ld_leg_id l) \<noteq> None \<and>
    dom (map_of (snd (snd st))) \<subseteq> dom (map_of (snd (snd st')))"
proof -
  obtain claims by_identity by_leg where st: "st = (claims, by_identity, by_leg)" by (cases st)
  let ?ident = "identity_key_of (hd (ld_instrument_identity_claims l))"
  let ?c = "instrument_claim_of c s b key ps (int_text (int (length claims))) ?ident"
  have hd: "py_index (ld_instrument_identity_claims l) 0 = Inr (hd (ld_instrument_identity_claims l))"
    using assms(3) by (simp add: usable_identity_def py_index_0)
  have ok: "is_ok (instrument_ref ?c)" using assms(3) by (simp add: instrument_claim_resolves usable_identity_def)
  show ?thesis
  proof (cases "map_of by_identity ?ident")
    case (Some i)
    then have "st' = (claims, by_identity, AList.update (ld_leg_id l) i by_leg)"
      using assms(1) by (simp add: add_leg_instrument_def st hd Let_def)
    moreover have "i \<in> clm_claim_id ` set claims"
      using assms(2) ranI [of "map_of by_identity", OF Some] by (auto simp: instrument_state_ok_def st)
    moreover note ran_update [of "map_of by_leg" "ld_leg_id l" i]
    ultimately show ?thesis using assms(2) by (auto simp: instrument_state_ok_def st update_conv')
  next
    case None
    then have "st' = (claims @ [?c], AList.update ?ident (clm_claim_id ?c) by_identity,
        AList.update (ld_leg_id l) (clm_claim_id ?c) by_leg)"
      using assms(1) by (auto simp: add_leg_instrument_def st hd Let_def r_bind_Inr_iff mk_claim_record_iff)
    moreover note ran_update [of "map_of by_leg" "ld_leg_id l" "clm_claim_id ?c"]
      ran_update [of "map_of by_identity" ?ident "clm_claim_id ?c"]
    ultimately show ?thesis using assms(2) ok by (auto simp: instrument_state_ok_def st update_conv')
  qed
qed

lemma instrument_loop_ok:
  assumes "r_fold (add_leg_instrument c s b key ps) legs st = Inr st'" and "instrument_state_ok st"
    and "\<forall>l \<in> set legs. usable_identity (ld_instrument_identity_claims l)"
  shows "instrument_state_ok st' \<and> (\<forall>l \<in> set legs. map_of (snd (snd st')) (ld_leg_id l) \<noteq> None) \<and>
    dom (map_of (snd (snd st))) \<subseteq> dom (map_of (snd (snd st')))"
  using assms
proof (induction legs arbitrary: st)
  case (Cons l legs)
  then obtain u where u: "add_leg_instrument c s b key ps l st = Inr u"
      "r_fold (add_leg_instrument c s b key ps) legs u = Inr st'"
    by (auto simp: r_bind_Inr_iff)
  have one: "instrument_state_ok u" "map_of (snd (snd u)) (ld_leg_id l) \<noteq> None"
      "dom (map_of (snd (snd st))) \<subseteq> dom (map_of (snd (snd u)))"
    using add_leg_instrument_ok [OF u(1) Cons.prems(2)] Cons.prems(3) by simp_all
  have rest: "instrument_state_ok st'" "\<forall>l \<in> set legs. map_of (snd (snd st')) (ld_leg_id l) \<noteq> None"
      "dom (map_of (snd (snd u))) \<subseteq> dom (map_of (snd (snd st')))"
    using Cons.IH [OF u(2) one(1)] Cons.prems(3) by simp_all
  moreover have "map_of (snd (snd st')) (ld_leg_id l) \<noteq> None" using one(2) rest(3) by blast
  ultimately show ?case using one(3) by auto
qed simp

text \<open>What the economics stage asks of the claims of an accepted bundle.\<close>

definition leg_ready :: "claim_record list \<Rightarrow> claim_leg_spec \<Rightarrow> bool" where
  "leg_ready cl s \<longleftrightarrow> dval (ls_quantity s) \<noteq> 0 \<and>
     (\<exists>c \<in> set cl. clm_kind c = CK_INSTRUMENT \<and> ls_instrument_claim_refs s = [clm_claim_id c]) \<and>
     (\<exists>c \<in> set cl. clm_kind c = CK_LOCATION \<and> ls_location_claim_ref s = clm_claim_id c)"

definition economic_claims :: "claim_record list \<Rightarrow> claim_record \<Rightarrow> bool" where
  "economic_claims cl a \<longleftrightarrow>
     length (filter (\<lambda>c. clm_kind c = CK_BENEFICIAL_OWNER) cl) = 1 \<and>
     (\<forall>c \<in> set cl. clm_kind c = CK_INSTRUMENT \<longrightarrow> is_ok (instrument_ref c)) \<and>
     clm_activity_label a \<in> {''reward_income'', ''asset_migration'', ''buy'', ''sell'', ''receive'', ''send''} \<and>
     (\<exists>t. clm_effective_at a = Some t \<and> utcoffset t = Some 0) \<and>
     (\<forall>s \<in> set (clm_leg_specs a). leg_ready cl s)"

lemma economic_claims_perm:
  assumes "mset cl = mset cl'" and "economic_claims cl a"
  shows "economic_claims cl' a"
proof -
  have "set cl = set cl'" using assms(1) by (metis set_mset_mset)
  moreover have "length (filter P cl) = length (filter P cl')" for P
    using assms(1) by (metis mset_filter size_mset)
  ultimately show ?thesis using assms(2) by (simp add: economic_claims_def leg_ready_def)
qed

lemma enumerate_member: "q \<in> set (enumerate n xs) \<Longrightarrow> snd q \<in> set xs"
  by (cases q) (auto simp: enumerate_eq_zip dest: set_zip_rightD)

lemma claims_for_draft_economic:
  assumes "claims_for_draft c s b key d = Inr cl" and "supported_draft d"
  obtains a where "filter (\<lambda>x. clm_kind x = CK_ACTIVITY) cl = [a]" and "economic_claims cl a"
proof -
  obtain claims by_identity by_leg where loop:
      "r_fold (add_leg_instrument c s b key (ed_provenance_refs d)) (ed_legs d) ([], [], []) =
        Inr (claims, by_identity, by_leg)"
    using assms(1) by (auto simp: claims_for_draft_def r_bind_Inr_iff Let_def)
  have state: "instrument_state_ok (claims, by_identity, by_leg)"
      "\<forall>l \<in> set (ed_legs d). map_of by_leg (ld_leg_id l) \<noteq> None"
    using instrument_loop_ok [OF loop] assms(2) by (auto simp: instrument_state_ok_def supported_draft_def)
  let ?claim = "\<lambda>kind. scope_claim c s b kind (claim_key_of key kind ''0'') [] (ed_provenance_refs d)"
  let ?specs = "map (leg_spec_of (ed_legs d) by_leg (clm_claim_id (?claim CK_LOCATION))) (enumerate 0 (ed_legs d))"
  define a where "a = (?claim CK_ACTIVITY)
        \<lparr>clm_effective_at := Some (case ed_effective_at d of None \<Rightarrow> ed_timestamp d | Some t \<Rightarrow> t),
         clm_precision := Some (case ed_effective_precision d of None \<Rightarrow> TIMESTAMP | Some p \<Rightarrow> p),
         clm_activity_label := activity_label_of (ed_provider_operation_key d),
         clm_location_claim_ref := clm_claim_id (?claim CK_LOCATION), clm_leg_specs := ?specs\<rparr>"
  define w where "w = (?claim CK_BENEFICIAL_OWNER)\<lparr>clm_beneficial_owner_ref := FILING_BENEFICIAL_OWNER_REF\<rparr>"
  define p where "p = (?claim CK_LOCATION)
        \<lparr>clm_location_ref := ed_location_id d, clm_location_group_label := ''Coinbase'',
         clm_location_label := ''Coinbase''\<rparr>"
  have cl: "cl = a # w # claims @ [p]"
    using assms(1) by (simp add: claims_for_draft_def Let_def loop r_bind_Inr_iff mk_claim_record_iff a_def w_def p_def)
  have kinds: "clm_kind a = CK_ACTIVITY" "clm_kind w = CK_BENEFICIAL_OWNER" "clm_kind p = CK_LOCATION"
      "clm_claim_id p = clm_claim_id (?claim CK_LOCATION)" "clm_leg_specs a = ?specs"
    by (simp_all add: a_def w_def p_def)
  have ins: "clm_kind x = CK_INSTRUMENT" "is_ok (instrument_ref x)" if "x \<in> set claims" for x
    using that state(1) by (simp_all add: instrument_state_ok_def)
  have none: "filter (\<lambda>x. clm_kind x = k) claims = []" if "k \<noteq> CK_INSTRUMENT" for k
    using ins(1) that by (auto simp: filter_empty_conv)
  have ready: "leg_ready cl x" if "x \<in> set ?specs" for x
  proof -
    obtain q where q: "q \<in> set (enumerate 0 (ed_legs d))" "x = leg_spec_of (ed_legs d) by_leg (clm_claim_id p) q"
      using \<open>x \<in> set ?specs\<close> kinds(4) by auto
    then obtain n l where l: "l \<in> set (ed_legs d)" "x = leg_spec_of (ed_legs d) by_leg (clm_claim_id p) (n, l)"
      using enumerate_member by (metis surj_pair snd_conv)
    obtain i where i: "map_of by_leg (ld_leg_id l) = Some i" using state(2) l(1) by blast
    then obtain y where y: "y \<in> set claims" "i = clm_claim_id y"
      using state(1) ranI [of "map_of by_leg", OF i] by (auto simp: instrument_state_ok_def)
    have "dval (ld_quantity l) \<noteq> 0" using assms(2) l(1) by (simp add: supported_draft_def)
    then show ?thesis
      using y ins(1) [OF y(1)] kinds i by (auto simp: leg_ready_def l(2) leg_spec_of_def cl dict_get_def)
  qed
  show ?thesis
  proof (rule that [of a])
    show "filter (\<lambda>x. clm_kind x = CK_ACTIVITY) cl = [a]" using none kinds by (simp add: cl)
    have "length (filter (\<lambda>x. clm_kind x = CK_BENEFICIAL_OWNER) cl) = 1" using none kinds by (simp add: cl)
    moreover have "\<forall>x \<in> set cl. clm_kind x = CK_INSTRUMENT \<longrightarrow> is_ok (instrument_ref x)"
      using ins kinds by (auto simp: cl)
    ultimately show "economic_claims cl a"
      using assms(2) ready unfolding economic_claims_def kinds(5)
      by (auto simp: a_def supported_draft_def)
  qed
qed

lemma index_by_hit: "k \<in> key ` set xs \<Longrightarrow> \<exists>x \<in> set xs. map_of (index_by key xs) k = Some x"
  using index_by_SomeD(1) keys_index_by by (metis map_of_eq_None_iff not_None_eq set_map)

lemma leg_for_spec_ok:
  assumes "economic_claims (aab_bundle_claims b) a" and "leg_ready (aab_bundle_claims b) s"
  shows "\<exists>l. leg_for_spec b e w s = Inr l"
proof -
  let ?ins = "filter (\<lambda>c. clm_kind c = CK_INSTRUMENT) (aab_bundle_claims b)"
  let ?loc = "filter (\<lambda>c. clm_kind c = CK_LOCATION) (aab_bundle_claims b)"
  obtain i where i: "ls_instrument_claim_refs s = [i]" "i \<in> clm_claim_id ` set ?ins"
    using assms(2) by (auto simp: leg_ready_def)
  have p: "ls_location_claim_ref s \<in> clm_claim_id ` set ?loc" using assms(2) by (auto simp: leg_ready_def)
  obtain x where x: "x \<in> set ?ins" "map_of (index_by clm_claim_id ?ins) i = Some x"
    using index_by_hit [OF i(2)] by blast
  obtain y where y: "map_of (index_by clm_claim_id ?loc) (ls_location_claim_ref s) = Some y"
    using index_by_hit [OF p] by blast
  obtain r where r: "instrument_ref x = Inr r" using assms(1) x(1) by (auto simp: economic_claims_def is_ok_iff)
  then have "r \<noteq> []" by (auto simp: instrument_ref_def r_bind_Inr_iff split: option.splits)
  then show ?thesis
    using i(1) r assms(2)
    by (simp add: leg_for_spec_def x y required_instrument_claim_def required_location_claim_def Let_def
        mk_economic_leg_record_def d_eq_iff leg_ready_def)
qed

lemma bundle_ok:
  assumes "economic_claims (aab_bundle_claims b) (aab_activity_claim b)"
  shows "\<exists>e ls. event_and_legs_for_bundle b = Inr (e, ls)"
proof -
  let ?a = "aab_activity_claim b"
  obtain t where t: "clm_effective_at ?a = Some t" "utcoffset t = Some 0"
    using assms by (auto simp: economic_claims_def)
  obtain w where w: "beneficial_owner_ref (aab_bundle_claims b) = Inr w"
    using assms by (cases "filter (\<lambda>c. clm_kind c = CK_BENEFICIAL_OWNER) (aab_bundle_claims b)")
      (auto simp: economic_claims_def beneficial_owner_ref_def)
  obtain k where k: "event_kind_of_activity (clm_activity_label ?a) = Inr k"
    using assms by (auto simp: economic_claims_def event_kind_of_activity_def)
  have "\<exists>ls. r_map (leg_for_spec b e w) (sort_key ls_slot (clm_leg_specs ?a)) = Inr ls" for e
    by (rule r_map_exists_ok) (use assms leg_for_spec_ok [OF assms] in \<open>simp add: economic_claims_def\<close>)
  then obtain ls where "r_map (leg_for_spec b (stable_event_id (clm_bundle_id ?a) 0) w)
      (sort_key ls_slot (clm_leg_specs ?a)) = Inr ls" by blast
  then show ?thesis
    by (simp add: event_and_legs_for_bundle_def Let_def t w k mk_economic_event_record_def
        require_utc_datetime_def)
qed

lemma bundle_of_supported:
  assumes "claims_for_draft c sid bid key d = Inr cl" and "supported_draft d"
    and "mset (aab_bundle_claims b) = mset cl"
    and "aab_activity_claim b \<in> set (filter (\<lambda>x. clm_kind x = CK_ACTIVITY) cl)"
  shows "\<exists>e ls. event_and_legs_for_bundle b = Inr (e, ls)"
proof -
  obtain a where a: "filter (\<lambda>x. clm_kind x = CK_ACTIVITY) cl = [a]" "economic_claims cl a"
    using claims_for_draft_economic [OF assms(1,2)] .
  then have "economic_claims (aab_bundle_claims b) (aab_activity_claim b)"
    using economic_claims_perm [OF assms(3) [symmetric]] assms(4) by simp
  then show ?thesis by (rule bundle_ok)
qed

lemma facts_of_bundles:
  assumes "accepted_activity_bundles cs = Inr bs"
    and "\<And>b. b \<in> set bs \<Longrightarrow> \<exists>e ls. event_and_legs_for_bundle b = Inr (e, ls)"
  shows "\<exists>f. build_economic_facts cs = Inr f"
proof -
  obtain parts where parts: "r_map event_and_legs_for_bundle bs = Inr parts"
    using r_map_exists_ok [of bs event_and_legs_for_bundle] assms(2) by blast
  have "is_ok (leg_key l)" if l: "l \<in> set (concat (map snd parts))" for l
  proof -
    obtain p where p: "p \<in> set parts" "l \<in> set (snd p)" using l by auto
    then obtain b where b: "event_and_legs_for_bundle b = Inr (fst p, snd p)"
      using r_map_set [OF parts p(1)] by auto
    obtain s where "leg_of_spec (bundle_event_id b) s l"
      using list_all2_right [OF event_and_legs_Inr(4) [OF b] p(2)] by blast
    then show ?thesis by (simp add: leg_of_spec_def leg_key_def leg_slot_stable)
  qed
  then have "\<exists>ls. canonical_economic_leg_records (concat (map snd parts)) = Inr ls"
    by (simp add: canonical_economic_leg_records_def sort_by_result_iff)
  then show ?thesis using assms(1) parts by (auto simp: build_economic_facts_def)
qed

lemma specs_quantity_mset:
  "mset (map (\<lambda>(e, s). ls_quantity s) (concat (map bundle_specs bs))) =
     mset (concat (map (\<lambda>a. map ls_quantity (clm_leg_specs a)) (map aab_activity_claim bs)))"
  by (induction bs) (simp_all add: bundle_specs_def comp_def mset_sort)

text \<open>
  C7: From drafts to economic facts nothing is lost: when the drafts have an activity the economics
  stage knows, a UTC instant, non-zero quantities and valid identities, and no two accepted decisions
  name the same bundle, the claim set built from them gives economic facts with one event for each
  draft, and the quantities of the legs are exactly the quantities of the legs of the drafts.
\<close>

theorem drafts_conserved:
  assumes "build_coinbase_claim_set profile es pr batch = Inr (Some r)"
    and "distinct (map cd_accepted_bundle_ref (filter (\<lambda>d. cd_outcome d = DO_ACCEPTED)
      (cset_claim_bundle_decision_records (cbr_claim_set r))))"
    and "\<forall>d \<in> set (tb_drafts batch). supported_draft d"
  shows "\<exists>f. build_economic_facts (cbr_claim_set r) = Inr f \<and>
    length (ef_economic_event_records f) = length (tb_drafts batch) \<and>
    mset (map leg_quantity (ef_economic_leg_records f)) =
      mset (concat (map (\<lambda>d. map ld_quantity (ed_legs d)) (tb_drafts batch)))"
proof -
  obtain bs as where bs: "accepted_activity_bundles (cbr_claim_set r) = Inr bs"
      "mset (map aab_activity_claim bs) = mset as" "list_all2 claims_activity (tb_drafts batch) as"
      "\<forall>b \<in> set bs. \<exists>d \<in> set (tb_drafts batch). \<exists>c sid bid key cl. claims_for_draft c sid bid key d = Inr cl \<and>
        mset (aab_bundle_claims b) = mset cl \<and> aab_activity_claim b \<in> set (filter (\<lambda>x. clm_kind x = CK_ACTIVITY) cl)"
    using drafts_become_bundles [OF assms(1,2)] .
  have "\<exists>e ls. event_and_legs_for_bundle b = Inr (e, ls)" if "b \<in> set bs" for b
    using bs(4) that assms(3) bundle_of_supported by meson
  then obtain f where f: "build_economic_facts (cbr_claim_set r) = Inr f"
    using facts_of_bundles [OF bs(1)] by blast
  obtain bs' legs where q: "accepted_activity_bundles (cbr_claim_set r) = Inr bs'"
      "mset (ef_economic_leg_records f) = mset legs"
      "mset (map ev_event_id (ef_economic_event_records f)) = mset (map bundle_event_id bs')"
      "list_all2 (\<lambda>(e, s) l. leg_of_spec e s l) (concat (map bundle_specs bs')) legs"
    using build_economic_facts_parts [OF f] .
  have same: "bs' = bs" using bs(1) q(1) by simp
  have "length (ef_economic_event_records f) = length bs"
    using q(3) same by (metis length_map size_mset)
  also have "\<dots> = length (tb_drafts batch)"
    using bs(2,3) by (metis length_map list_all2_lengthD size_mset)
  finally have events: "length (ef_economic_event_records f) = length (tb_drafts batch)" .
  have "map leg_quantity legs = map (\<lambda>(e, s). ls_quantity s) (concat (map bundle_specs bs))"
    using arg_cong [where f = "map snd", OF specs_quantities [OF q(4)]] by (simp add: same comp_def split_def)
  then have "mset (map leg_quantity (ef_economic_leg_records f)) =
      mset (concat (map (\<lambda>a. map ls_quantity (clm_leg_specs a)) (map aab_activity_claim bs)))"
    using q(2) specs_quantity_mset [of bs] by (metis mset_map)
  also have "\<dots> = mset (concat (map (\<lambda>a. map ls_quantity (clm_leg_specs a)) as))"
    by (rule mset_concat_perm [OF bs(2)])
  also have "\<dots> = mset (concat (map (\<lambda>d. map ld_quantity (ed_legs d)) (tb_drafts batch)))"
    using sum_legs [OF bs(3)] by simp
  finally show ?thesis using f events by blast
qed

section \<open>Witness\<close>

definition bought_draft :: economic_activity_draft where
  "bought_draft =
     \<lparr>ed_activity_id = ''a'', ed_source = ''coinbase'', ed_adapter_id = ''coinbase'',
      ed_timestamp = sample_time, ed_location_id = ''coinbase:retail'',
      ed_classification = \<lparr>cl_economic_kind = SPOT_TRADE, cl_projection_hint = None,
        cl_accounting_intent_hint = ASSET_EXCHANGE, cl_tax_treatment_hint = CAPITAL_EXCHANGE\<rparr>,
      ed_legs =
        [\<lparr>ld_leg_id = ''asset'', ld_kind = PRIMARY, ld_instrument_identity_claims = [sample_instrument],
          ld_quantity = Decimal 25 (-1), ld_subtype = None, ld_attributed_to_leg_id = None,
          ld_location_id = None\<rparr>,
         \<lparr>ld_leg_id = ''fee'', ld_kind = CHARGE, ld_instrument_identity_claims = [sample_instrument],
          ld_quantity = Decimal (-1) (-2), ld_subtype = None, ld_attributed_to_leg_id = Some ''asset'',
          ld_location_id = None\<rparr>],
      ed_leg_policy = SINGLE_PRIMARY_ACTIVITY_POLICY, ed_effective_at = None, ed_effective_precision = None,
      ed_description = [], ed_raw_file = ''retail.csv'', ed_raw_row_ref = ''r1'', ed_tx_hash = [],
      ed_provider_operation_key = ''Buy '', ed_operation_group_id = [], ed_provenance_refs = [],
      ed_review_markers = [], ed_adapter_metadata = [], ed_confidence = ''high'', ed_status = ''ready''\<rparr>"

definition bought_batch :: source_translation_batch where
  "bought_batch =
     \<lparr>tb_drafts = [bought_draft], tb_balance_references = [], tb_balance_reference_issues = [],
      tb_issues = [], tb_reviews = [], tb_location_inventory = []\<rparr>"

definition retail_evidence :: evidence_set where
  "retail_evidence =
     \<lparr>eset_evidence_set_id = ''ev'', eset_selection_fingerprint = ''f'',
      eset_capture_manifest_fingerprint = ''f'', eset_evidence_selection_records = [],
      eset_evidence_member_records =
        [\<lparr>em_evidence_set_id = ''ev'', em_selection_id = ''s'', em_member_id = ''m'',
          em_source_slug = ''coinbase'', em_adapter_id = ''coinbase'', em_capture_uid = ''c'',
          em_kind = MK_RETAIL_ACTIVITY_EXPORT_FILE, em_locator = [''in/retail.csv'', []],
          em_status = MS_SELECTED, em_capture_manifest_fingerprint = ''f''\<rparr>],
      eset_evidence_observation_records = []\<rparr>"

definition retail_profile :: planning_profile where
  "retail_profile = \<lparr>prof_source = ''coinbase'', prof_adapter_id = ''coinbase'', prof_file_inventory = []\<rparr>"

definition retail_plan :: planning_result where
  "retail_plan =
     \<lparr>pr_candidates = [], pr_plan = \<lparr>plan_selected_candidate_ids = [], plan_decisions = [], plan_blocked = False\<rparr>,
      pr_issues = []\<rparr>"

lemma bought_claims:
  "case build_coinbase_claim_set retail_profile (Some retail_evidence) retail_plan bought_batch of
     Inr (Some r) \<Rightarrow> distinct (map cd_accepted_bundle_ref (filter (\<lambda>d. cd_outcome d = DO_ACCEPTED)
       (cset_claim_bundle_decision_records (cbr_claim_set r))))
   | _ \<Rightarrow> False"
  by code_simp

theorem drafts_conserved_witness:
  "\<exists>r f. build_coinbase_claim_set retail_profile (Some retail_evidence) retail_plan bought_batch = Inr (Some r) \<and>
    build_economic_facts (cbr_claim_set r) = Inr f \<and>
    length (ef_economic_event_records f) = length (tb_drafts bought_batch) \<and>
    mset (map leg_quantity (ef_economic_leg_records f)) =
      mset (concat (map (\<lambda>d. map ld_quantity (ed_legs d)) (tb_drafts bought_batch)))"
proof -
  obtain r where r: "build_coinbase_claim_set retail_profile (Some retail_evidence) retail_plan bought_batch = Inr (Some r)"
      "distinct (map cd_accepted_bundle_ref (filter (\<lambda>d. cd_outcome d = DO_ACCEPTED)
        (cset_claim_bundle_decision_records (cbr_claim_set r))))"
    using bought_claims by (auto split: sum.splits option.splits)
  have "activity_label_of ''Buy '' = ''buy''" by code_simp
  then have "\<forall>d \<in> set (tb_drafts bought_batch). supported_draft d"
    using sample_instrument_resolved(1)
    by (simp add: bought_batch_def supported_draft_def bought_draft_def usable_identity_def valid_claim_def
        sample_time_def dval_def)
  from drafts_conserved [OF r this] r(1) show ?thesis by blast
qed

end
