(* ===== verification/Fact_Compiler.thy ===== *)
theory Fact_Compiler
  imports Activity_Drafts
begin

text \<open>
  Properties of \<open>application/facts/compiler.py\<close>: drafts that their constructors accept compile to
  facts that theirs accept. Legs whose claims do not agree on an instrument become one issue and
  one review each, and hold their draft back; nothing else is lost and nothing raises.
\<close>

section \<open>Legs\<close>

definition resolvable :: "economic_leg_draft \<Rightarrow> bool" where
  "resolvable l \<longleftrightarrow> claims_agree (map normal_claim (ld_instrument_identity_claims l))"

definition valid_leg_draft :: "economic_leg_draft \<Rightarrow> bool" where
  "valid_leg_draft l \<longleftrightarrow> mk_economic_leg_draft l = Inr l \<and>
     (\<forall>c \<in> set (ld_instrument_identity_claims l). valid_claim c)"

definition valid_draft :: "economic_activity_draft \<Rightarrow> bool" where
  "valid_draft d \<longleftrightarrow> mk_economic_activity_draft d = Inr d \<and> (\<forall>l \<in> set (ed_legs d). valid_leg_draft l)"

definition located :: "economic_leg \<Rightarrow> economic_leg" where
  "located l = (case located_leg l of Inr l' \<Rightarrow> l' | Inl _ \<Rightarrow> l)"

definition compiled_leg :: "economic_leg_draft \<Rightarrow> economic_leg" where
  "compiled_leg l =
     located (leg_of_draft (instrument_id_text (normal_claim (hd (ld_instrument_identity_claims l)))) l)"

lemma located_leg_fields:
  assumes "located_leg l = Inr l'"
  shows "el_leg_id l' = el_leg_id l" "el_kind l' = el_kind l" "el_quantity l' = el_quantity l"
    "el_attributed_to_leg_id l' = el_attributed_to_leg_id l" "el_subtype l' = el_subtype l"
    "el_instrument_id l' = el_instrument_id l"
  using assms by (auto simp: located_leg_def r_bind_Inr_iff split: option.splits)

lemma located_fields [simp]:
  "el_leg_id (located l) = el_leg_id l" "el_kind (located l) = el_kind l"
  "el_quantity (located l) = el_quantity l" "el_attributed_to_leg_id (located l) = el_attributed_to_leg_id l"
  "el_subtype (located l) = el_subtype l" "el_instrument_id (located l) = el_instrument_id l"
  by (simp_all add: located_def located_leg_fields split: sum.split)

lemma leg_of_draft_simps [simp]:
  "el_leg_id (leg_of_draft i l) = ld_leg_id l" "el_kind (leg_of_draft i l) = ld_kind l"
  "el_quantity (leg_of_draft i l) = ld_quantity l" "el_subtype (leg_of_draft i l) = ld_subtype l"
  "el_attributed_to_leg_id (leg_of_draft i l) = ld_attributed_to_leg_id l"
  "el_location_id (leg_of_draft i l) = ld_location_id l" "el_instrument_id (leg_of_draft i l) = i"
  by (simp_all add: leg_of_draft_def)

lemma compiled_leg_simps [simp]:
  "el_leg_id (compiled_leg l) = ld_leg_id l" "el_kind (compiled_leg l) = ld_kind l"
  "el_quantity (compiled_leg l) = ld_quantity l" "el_subtype (compiled_leg l) = ld_subtype l"
  "el_attributed_to_leg_id (compiled_leg l) = ld_attributed_to_leg_id l"
  by (simp_all add: compiled_leg_def)

lemma mk_economic_leg_iff:
  "mk_economic_leg l = Inr l' \<longleftrightarrow> located_leg l = Inr l' \<and>
     validate_leg_id (el_leg_id l) ''fact leg_id'' = Inr () \<and> el_instrument_id l \<noteq> [] \<and>
     \<not> d_eq (el_quantity l) d_zero \<and> \<not> (el_kind l = PRIMARY \<and> el_attributed_to_leg_id l \<noteq> None) \<and>
     (\<forall>a. el_attributed_to_leg_id l = Some a \<longrightarrow>
       validate_leg_id a ''fact leg attributed_to_leg_id'' = Inr ()) \<and>
     (\<forall>s. el_subtype l = Some s \<longrightarrow> fullmatch LEG_SUBTYPE_PATTERN s)"
proof (cases "located_leg l")
  case (Inl e)
  then show ?thesis by (auto simp: mk_economic_leg_def r_bind_Inr_iff)
next
  case (Inr m)
  note f = located_leg_fields [OF Inr]
  show ?thesis
    using f by (auto simp: mk_economic_leg_def r_bind_Inr_iff Inr split: if_splits option.splits)
qed

lemma located_leg_idem: "located_leg l = Inr l' \<Longrightarrow> located_leg l' = Inr l'"
proof (cases "el_location_id l")
  case (Some v)
  assume "located_leg l = Inr l'"
  then obtain n where n: "require_location_id v ''fact leg location_id'' = Inr n" "l' = l\<lparr>el_location_id := Some n\<rparr>"
    using Some by (auto simp: located_leg_def r_bind_Inr_iff)
  then show ?thesis using require_location_id_idem [OF n(1)] by (simp add: located_leg_def)
qed (simp add: located_leg_def)

lemma mk_economic_leg_idem:
  assumes "mk_economic_leg l = Inr l'"
  shows "mk_economic_leg l' = Inr l'"
proof -
  have loc: "located_leg l = Inr l'" using assms by (simp add: mk_economic_leg_iff)
  show ?thesis
    using assms located_leg_idem [OF loc] unfolding mk_economic_leg_iff located_leg_fields [OF loc] by blast
qed

lemma located_leg_swap:
  assumes "located_leg (leg_of_draft i l) = Inr m"
  shows "located_leg (leg_of_draft j l) = Inr (located (leg_of_draft j l))"
proof (cases "ld_location_id l")
  case (Some v)
  then obtain n where "require_location_id v ''fact leg location_id'' = Inr n"
    using assms by (auto simp: located_leg_def r_bind_Inr_iff)
  then show ?thesis using Some by (simp add: located_def located_leg_def)
qed (simp add: located_def located_leg_def)

lemma mk_economic_leg_swap:
  assumes "mk_economic_leg (leg_of_draft i l) = Inr m" and "j \<noteq> []"
  shows "mk_economic_leg (leg_of_draft j l) = Inr (located (leg_of_draft j l))"
proof -
  have "located_leg (leg_of_draft i l) = Inr m" using assms(1) by (simp add: mk_economic_leg_iff)
  from located_leg_swap [OF this, of j] show ?thesis
    using assms unfolding mk_economic_leg_iff leg_of_draft_simps by blast
qed

lemma instrument_id_text_nonempty: "instrument_id_text c \<noteq> []"
  by (simp add: instrument_id_text_def)

lemma valid_leg_made:
  assumes "valid_leg_draft l"
  shows "mk_economic_leg (leg_of_draft placeholder l) = Inr (located (leg_of_draft placeholder l))"
    and "ld_instrument_identity_claims l \<noteq> []"
proof -
  from assms obtain m where "mk_economic_leg (leg_of_draft placeholder l) = Inr m"
    "ld_instrument_identity_claims l \<noteq> []"
    by (auto simp: valid_leg_draft_def mk_economic_leg_draft_def r_bind_Inr_iff split: if_splits)
  then show "mk_economic_leg (leg_of_draft placeholder l) = Inr (located (leg_of_draft placeholder l))"
    "ld_instrument_identity_claims l \<noteq> []"
    using mk_economic_leg_swap [of placeholder l m placeholder] by (simp_all add: placeholder_def)
qed

lemma compiled_leg_made:
  assumes "valid_leg_draft l"
  shows "mk_economic_leg (leg_of_draft (instrument_id_text (normal_claim (hd (ld_instrument_identity_claims l)))) l) =
    Inr (compiled_leg l)"
  unfolding compiled_leg_def
  by (rule mk_economic_leg_swap [OF valid_leg_made(1) [OF assms] instrument_id_text_nonempty])

section \<open>The shape of a fact does not depend on its instruments\<close>

definition leg_core :: "economic_leg \<Rightarrow> economic_leg" where
  "leg_core l = l\<lparr>el_instrument_id := [], el_subtype := None, el_location_id := None\<rparr>"

lemma leg_core_simps [simp]:
  "el_leg_id (leg_core l) = el_leg_id l" "el_kind (leg_core l) = el_kind l"
  "el_attributed_to_leg_id (leg_core l) = el_attributed_to_leg_id l" "inflow (leg_core l) = inflow l"
  by (simp_all add: leg_core_def inflow_def)

lemma limit_respected_core: "limit_respected (map leg_core legs) m \<longleftrightarrow> limit_respected legs m"
proof -
  have "legs_of_kind (map leg_core legs) k = map leg_core (legs_of_kind legs k)" for k
    by (simp add: legs_of_kind_def filter_map comp_def)
  then show ?thesis by (simp add: limit_respected_def Let_def filter_map comp_def)
qed

lemma well_formed_legs_core: "well_formed_legs policy (map leg_core legs) \<longleftrightarrow> well_formed_legs policy legs"
  by (simp add: well_formed_legs_def limit_respected_core image_image comp_def)

lemma leg_core_eq:
  assumes "el_leg_id a = el_leg_id b" "el_kind a = el_kind b" "el_quantity a = el_quantity b"
    "el_attributed_to_leg_id a = el_attributed_to_leg_id b"
  shows "leg_core a = leg_core b"
  using assms by (cases a; cases b) (simp add: leg_core_def)

lemma well_formed_placeholder:
  "well_formed_legs policy (map (\<lambda>l. located (leg_of_draft placeholder l)) ls) \<longleftrightarrow>
   well_formed_legs policy (map compiled_leg ls)"
proof -
  have "map leg_core (map (\<lambda>l. located (leg_of_draft placeholder l)) ls) = map leg_core (map compiled_leg ls)"
    unfolding map_map by (intro map_cong refl) (simp, rule leg_core_eq; simp)
  then show ?thesis by (metis well_formed_legs_core)
qed

section \<open>Compilation\<close>

definition blocked_legs :: "economic_activity_draft \<Rightarrow> economic_leg_draft list" where
  "blocked_legs d = filter (\<lambda>l. \<not> resolvable l) (ed_legs d)"

definition blocked_issue_id :: "economic_activity_draft \<Rightarrow> economic_leg_draft \<Rightarrow> string" where
  "blocked_issue_id d l = ed_activity_id d @ '':'' @ ld_leg_id l @ '':instrument_identity_blocked''"

definition blocked_review_id :: "economic_activity_draft \<Rightarrow> economic_leg_draft \<Rightarrow> string" where
  "blocked_review_id d l = ed_activity_id d @ '':'' @ ld_leg_id l @ '':instrument_identity_review''"

definition compiled_fact :: "economic_activity_draft \<Rightarrow> transaction_fact" where
  "compiled_fact d = fact_of_draft d (map compiled_leg (ed_legs d))"

lemma resolve_leg:
  assumes "valid_leg_draft l"
  shows "\<not> resolvable l \<Longrightarrow> resolve_instrument_identity (ld_instrument_identity_claims l) = Inr None"
    and "resolvable l \<Longrightarrow> \<exists>r. resolve_instrument_identity (ld_instrument_identity_claims l) = Inr (Some r) \<and>
      ir_instrument_id (ri_instrument r) = instrument_id_text (normal_claim (hd (ld_instrument_identity_claims l)))"
proof -
  have v: "\<forall>c \<in> set (ld_instrument_identity_claims l). valid_claim c" and ne: "ld_instrument_identity_claims l \<noteq> []"
    using assms valid_leg_made(2) by (simp_all add: valid_leg_draft_def)
  show "\<not> resolvable l \<Longrightarrow> resolve_instrument_identity (ld_instrument_identity_claims l) = Inr None"
    using resolve_validated [OF v] by (simp add: resolvable_def)
  show "resolvable l \<Longrightarrow> \<exists>r. resolve_instrument_identity (ld_instrument_identity_claims l) = Inr (Some r) \<and>
      ir_instrument_id (ri_instrument r) = instrument_id_text (normal_claim (hd (ld_instrument_identity_claims l)))"
    using resolve_validated [OF v] ne by (simp add: resolvable_def hd_map)
qed

lemma compile_resolvable_leg:
  assumes "valid_leg_draft l" and "resolvable l"
  shows "compile_leg d l (issues, reviews, legs) = Inr (issues, reviews, legs @ [compiled_leg l])"
proof -
  obtain r where "resolve_instrument_identity (ld_instrument_identity_claims l) = Inr (Some r)"
      "ir_instrument_id (ri_instrument r) = instrument_id_text (normal_claim (hd (ld_instrument_identity_claims l)))"
    using resolve_leg(2) [OF assms] by blast
  then show ?thesis using compiled_leg_made [OF assms(1)] by (simp add: compile_leg_def)
qed

lemma compile_blocked_leg:
  assumes "valid_leg_draft l" and "\<not> resolvable l" and "utcoffset (ed_timestamp d) = Some 0"
  shows "\<exists>i r. compile_leg d l (issues, reviews, legs) = Inr (issues @ [i], reviews @ [r], legs) \<and>
    iss_issue_id i = blocked_issue_id d l \<and> nrr_review_id r = blocked_review_id d l"
  using resolve_leg(1) [OF assms(1,2)] assms(3)
  by (simp add: compile_leg_def blocking_identity_issue_def identity_review_def format_timestamp_def
      blocked_issue_id_def blocked_review_id_def)

lemma compile_legs:
  assumes "utcoffset (ed_timestamp d) = Some 0" and "\<forall>l \<in> set ls. valid_leg_draft l"
  shows "\<exists>qs rs. r_fold (compile_leg d) ls (issues, reviews, legs) =
      Inr (issues @ qs, reviews @ rs, legs @ map compiled_leg (filter resolvable ls)) \<and>
    map iss_issue_id qs = map (blocked_issue_id d) (filter (\<lambda>l. \<not> resolvable l) ls) \<and>
    map nrr_review_id rs = map (blocked_review_id d) (filter (\<lambda>l. \<not> resolvable l) ls)"
  using assms(2)
proof (induction ls arbitrary: issues reviews legs)
  case Nil
  show ?case by simp
next
  case (Cons l ls)
  then have v: "valid_leg_draft l" and ls: "\<forall>l \<in> set ls. valid_leg_draft l" by simp_all
  show ?case
  proof (cases "resolvable l")
    case True
    from Cons.IH [OF ls, of issues reviews "legs @ [compiled_leg l]"] show ?thesis
      by (simp add: compile_resolvable_leg [OF v True] True)
  next
    case False
    obtain i r where s: "compile_leg d l (issues, reviews, legs) = Inr (issues @ [i], reviews @ [r], legs)"
        "iss_issue_id i = blocked_issue_id d l" "nrr_review_id r = blocked_review_id d l"
      using compile_blocked_leg [OF v False assms(1)] by blast
    obtain qs rs where "r_fold (compile_leg d) ls (issues @ [i], reviews @ [r], legs) =
        Inr ((issues @ [i]) @ qs, (reviews @ [r]) @ rs, legs @ map compiled_leg (filter resolvable ls))"
      "map iss_issue_id qs = map (blocked_issue_id d) (filter (\<lambda>l. \<not> resolvable l) ls)"
      "map nrr_review_id rs = map (blocked_review_id d) (filter (\<lambda>l. \<not> resolvable l) ls)"
      using Cons.IH [OF ls] by blast
    then have "r_fold (compile_leg d) (l # ls) (issues, reviews, legs) =
        Inr (issues @ i # qs, reviews @ r # rs, legs @ map compiled_leg (filter resolvable (l # ls))) \<and>
      map iss_issue_id (i # qs) = map (blocked_issue_id d) (filter (\<lambda>l. \<not> resolvable l) (l # ls)) \<and>
      map nrr_review_id (r # rs) = map (blocked_review_id d) (filter (\<lambda>l. \<not> resolvable l) (l # ls))"
      using s False by simp
    then show ?thesis by blast
  qed
qed

text \<open>What the constructor of a draft has checked.\<close>

lemma valid_draft_checked:
  assumes "valid_draft d"
  shows "utcoffset (ed_timestamp d) = Some 0" "ed_legs d \<noteq> []"
    "require_location_id (ed_location_id d) ''transaction fact location_id'' = Inr (ed_location_id d)"
    "effective_ok (compiled_fact d)"
    "well_formed_legs (ed_leg_policy d) (map compiled_leg (ed_legs d))"
proof -
  have made: "mk_economic_activity_draft d = Inr d" and legs: "\<forall>l \<in> set (ed_legs d). valid_leg_draft l"
    using assms by (simp_all add: valid_draft_def)
  from made obtain loc e f where utc: "utcoffset (ed_timestamp d) = Some 0"
      and loc: "require_location_id (ed_location_id d) ''economic activity draft location_id'' = Inr loc"
      and e: "checked_draft_effective (d\<lparr>ed_location_id := loc\<rparr>) = Inr e"
      and ne: "ed_legs e \<noteq> []" and f: "validated_transaction_fact e = Inr f" and d: "e = d"
    by (auto simp: mk_economic_activity_draft_def r_bind_Inr_iff require_utc_iff split: if_splits)
  have "ed_location_id e = loc"
    using e by (auto simp: checked_draft_effective_def r_bind_Inr_iff split: option.splits if_splits)
  then have loc': "ed_location_id d = loc" using d by simp
  show "utcoffset (ed_timestamp d) = Some 0" "ed_legs d \<noteq> []" using utc ne d by simp_all
  show "require_location_id (ed_location_id d) ''transaction fact location_id'' = Inr (ed_location_id d)"
    using require_location_id_idem [OF loc] loc' by simp
  have "r_map (\<lambda>l. mk_economic_leg (leg_of_draft placeholder l)) (ed_legs d) =
      Inr (map (\<lambda>l. located (leg_of_draft placeholder l)) (ed_legs d))"
    using legs valid_leg_made(1) by (intro r_map_all_ok) blast
  then have "mk_transaction_fact (fact_of_draft d (map (\<lambda>l. located (leg_of_draft placeholder l)) (ed_legs d))) = Inr f"
    using f d by (simp add: validated_transaction_fact_def)
  note fact_made = this [unfolded mk_transaction_fact_iff]
  then show "well_formed_legs (ed_leg_policy d) (map compiled_leg (ed_legs d))"
    using well_formed_placeholder by (simp add: fact_of_draft_def)
  show "effective_ok (compiled_fact d)"
    using fact_made by (simp add: effective_ok_def compiled_fact_def fact_of_draft_def)
qed

lemma compiled_fact_made:
  assumes "valid_draft d"
  shows "mk_transaction_fact (compiled_fact d) = Inr (compiled_fact d)"
proof -
  have "(compiled_fact d)\<lparr>tf_location_id := ed_location_id d\<rparr> = compiled_fact d"
    by (simp add: compiled_fact_def fact_of_draft_def)
  then show ?thesis
    unfolding mk_transaction_fact_iff using valid_draft_checked [OF assms]
    by (simp add: compiled_fact_def fact_of_draft_def)
qed

lemma compiled_fact_valid:
  assumes "valid_draft d"
  shows "valid_fact (compiled_fact d)"
  unfolding valid_fact_def
proof (intro conjI ballI)
  show "mk_transaction_fact (compiled_fact d) = Inr (compiled_fact d)" by (rule compiled_fact_made [OF assms])
  fix leg assume "leg \<in> set (tf_legs (compiled_fact d))"
  then obtain l where "l \<in> set (ed_legs d)" "leg = compiled_leg l"
    by (auto simp: compiled_fact_def fact_of_draft_def)
  moreover from this have "valid_leg_draft l" using assms by (simp add: valid_draft_def)
  ultimately show "mk_economic_leg leg = Inr leg" using mk_economic_leg_idem [OF compiled_leg_made] by simp
qed

lemma compile_valid_draft:
  assumes "valid_draft d"
  shows "\<exists>qs rs. compile_activity_draft d =
      Inr (if blocked_legs d = [] then Some (compiled_fact d) else None, qs, rs) \<and>
    map iss_issue_id qs = map (blocked_issue_id d) (blocked_legs d) \<and>
    map nrr_review_id rs = map (blocked_review_id d) (blocked_legs d)"
proof -
  have "\<forall>l \<in> set (ed_legs d). valid_leg_draft l" using assms by (simp add: valid_draft_def)
  from compile_legs [OF valid_draft_checked(1) [OF assms] this, of "[]" "[]" "[]"]
  obtain qs rs where run: "r_fold (compile_leg d) (ed_legs d) ([], [], []) =
        Inr (qs, rs, map compiled_leg (filter resolvable (ed_legs d)))"
      and ids: "map iss_issue_id qs = map (blocked_issue_id d) (blocked_legs d)"
        "map nrr_review_id rs = map (blocked_review_id d) (blocked_legs d)"
    by (auto simp: blocked_legs_def)
  show ?thesis
  proof (cases "blocked_legs d = []")
    case True
    then have "filter resolvable (ed_legs d) = ed_legs d" by (simp add: blocked_legs_def filter_empty_conv)
    moreover have "mk_transaction_fact (fact_of_draft d (map compiled_leg (ed_legs d))) = Inr (compiled_fact d)"
      using compiled_fact_made [OF assms] by (simp add: compiled_fact_def)
    ultimately show ?thesis using ids True by (simp add: compile_activity_draft_def run)
  next
    case False
    then have "qs \<noteq> []" using ids(1) by (metis map_is_Nil_conv)
    then have "compile_activity_draft d = Inr (None, qs, rs)" by (simp add: compile_activity_draft_def run)
    then show ?thesis using ids False by auto
  qed
qed

definition ready_drafts :: "economic_activity_draft list \<Rightarrow> economic_activity_draft list" where
  "ready_drafts drafts = filter (\<lambda>d. blocked_legs d = []) drafts"

lemma compile_drafts_from:
  assumes "\<forall>d \<in> set drafts. valid_draft d"
  shows "\<exists>qs rs. r_fold compile_step drafts acc =
      Inr \<lparr>dc_facts = dc_facts acc @ map compiled_fact (ready_drafts drafts),
        dc_issues = dc_issues acc @ qs, dc_reviews = dc_reviews acc @ rs\<rparr> \<and>
    map iss_issue_id qs = concat (map (\<lambda>d. map (blocked_issue_id d) (blocked_legs d)) drafts) \<and>
    map nrr_review_id rs = concat (map (\<lambda>d. map (blocked_review_id d) (blocked_legs d)) drafts)"
  using assms
proof (induction drafts arbitrary: acc)
  case Nil
  show ?case by (simp add: ready_drafts_def)
next
  case (Cons d drafts)
  then have v: "valid_draft d" and vs: "\<forall>d \<in> set drafts. valid_draft d" by simp_all
  obtain qs rs where d: "compile_activity_draft d =
        Inr (if blocked_legs d = [] then Some (compiled_fact d) else None, qs, rs)"
      "map iss_issue_id qs = map (blocked_issue_id d) (blocked_legs d)"
      "map nrr_review_id rs = map (blocked_review_id d) (blocked_legs d)"
    using compile_valid_draft [OF v] by blast
  define acc' where "acc' = \<lparr>dc_facts = dc_facts acc @ map compiled_fact (ready_drafts [d]),
    dc_issues = dc_issues acc @ qs, dc_reviews = dc_reviews acc @ rs\<rparr>"
  have step: "compile_step d acc = Inr acc'"
    by (simp add: compile_step_def d(1) acc'_def ready_drafts_def)
  obtain js ss where "r_fold compile_step drafts acc' =
      Inr \<lparr>dc_facts = dc_facts acc' @ map compiled_fact (ready_drafts drafts),
        dc_issues = dc_issues acc' @ js, dc_reviews = dc_reviews acc' @ ss\<rparr>"
    "map iss_issue_id js = concat (map (\<lambda>d. map (blocked_issue_id d) (blocked_legs d)) drafts)"
    "map nrr_review_id ss = concat (map (\<lambda>d. map (blocked_review_id d) (blocked_legs d)) drafts)"
    using Cons.IH [OF vs] by blast
  then have "r_fold compile_step (d # drafts) acc =
      Inr \<lparr>dc_facts = dc_facts acc @ map compiled_fact (ready_drafts (d # drafts)),
        dc_issues = dc_issues acc @ (qs @ js), dc_reviews = dc_reviews acc @ (rs @ ss)\<rparr> \<and>
    map iss_issue_id (qs @ js) = concat (map (\<lambda>d. map (blocked_issue_id d) (blocked_legs d)) (d # drafts)) \<and>
    map nrr_review_id (rs @ ss) = concat (map (\<lambda>d. map (blocked_review_id d) (blocked_legs d)) (d # drafts))"
    using step d(2,3) by (simp add: acc'_def ready_drafts_def)
  then show ?case by blast
qed

lemma compile_drafts_run:
  assumes "\<forall>d \<in> set drafts. valid_draft d"
  obtains c where "compile_activity_drafts_with_feedback drafts = Inr c"
    "dc_facts c = map compiled_fact (ready_drafts drafts)"
    "map iss_issue_id (dc_issues c) = concat (map (\<lambda>d. map (blocked_issue_id d) (blocked_legs d)) drafts)"
    "map nrr_review_id (dc_reviews c) = concat (map (\<lambda>d. map (blocked_review_id d) (blocked_legs d)) drafts)"
  using compile_drafts_from [OF assms, of "\<lparr>dc_facts = [], dc_issues = [], dc_reviews = []\<rparr>"]
  by (auto simp: compile_activity_drafts_with_feedback_def)

section \<open>Properties\<close>

definition leg_facts :: "economic_leg \<Rightarrow> string \<times> leg_kind \<times> decimal \<times> string option" where
  "leg_facts l = (el_leg_id l, el_kind l, el_quantity l, el_attributed_to_leg_id l)"

definition leg_draft_facts :: "economic_leg_draft \<Rightarrow> string \<times> leg_kind \<times> decimal \<times> string option" where
  "leg_draft_facts l = (ld_leg_id l, ld_kind l, ld_quantity l, ld_attributed_to_leg_id l)"

definition fact_keeps_draft :: "economic_activity_draft \<Rightarrow> transaction_fact \<Rightarrow> bool" where
  "fact_keeps_draft d f \<longleftrightarrow> tf_fact_id f = ed_activity_id d \<and> tf_timestamp f = ed_timestamp d \<and>
     tf_location_id f = ed_location_id d \<and> tf_leg_policy f = ed_leg_policy d \<and>
     map leg_facts (tf_legs f) = map leg_draft_facts (ed_legs d)"

lemma compiled_fact_keeps: "fact_keeps_draft d (compiled_fact d)"
  by (simp add: fact_keeps_draft_def compiled_fact_def fact_of_draft_def leg_facts_def leg_draft_facts_def)


section \<open>Witness\<close>

definition sample_claim :: "string \<Rightarrow> instrument_identity_claim" where
  "sample_claim v =
     \<lparr>ic_scheme = ''symbol'', ic_value = v, ic_venue = None, ic_kind_hint = IK_UNKNOWN,
      ic_display_name = [], ic_precision_hint = None\<rparr>"

definition sample_leg_draft :: "string \<Rightarrow> instrument_identity_claim list \<Rightarrow> int \<Rightarrow> economic_leg_draft" where
  "sample_leg_draft i claims q =
     \<lparr>ld_leg_id = i, ld_kind = PRIMARY, ld_instrument_identity_claims = claims, ld_quantity = Decimal q 0,
      ld_subtype = None, ld_attributed_to_leg_id = None, ld_location_id = None\<rparr>"

definition sample_draft :: "string \<Rightarrow> economic_leg_draft list \<Rightarrow> economic_activity_draft" where
  "sample_draft i legs =
     \<lparr>ed_activity_id = i, ed_source = ''coinbase'', ed_adapter_id = ''coinbase.retail'',
      ed_timestamp = DateTime 2024 3 4 5 6 7 0 (Some 0), ed_location_id = ''coinbase:retail'',
      ed_classification = \<lparr>cl_economic_kind = SPOT_TRADE, cl_projection_hint = Some TRADE,
        cl_accounting_intent_hint = ASSET_EXCHANGE, cl_tax_treatment_hint = CAPITAL_EXCHANGE\<rparr>,
      ed_legs = legs, ed_leg_policy = TWO_SIDED_PRIMARY_EXCHANGE_POLICY, ed_effective_at = None,
      ed_effective_precision = None, ed_description = [], ed_raw_file = [], ed_raw_row_ref = [],
      ed_tx_hash = [], ed_provider_operation_key = [], ed_operation_group_id = [],
      ed_provenance_refs = [], ed_review_markers = [], ed_adapter_metadata = [],
      ed_confidence = ''high'', ed_status = ''mapped''\<rparr>"

definition sample_drafts :: "economic_activity_draft list" where
  "sample_drafts =
     [sample_draft ''d1'' [sample_leg_draft ''in'' [sample_claim ''btc'', sample_claim '' BTC''] 5,
        sample_leg_draft ''out'' [sample_claim ''EUR''] (-7)],
      sample_draft ''d2'' [sample_leg_draft ''in'' [sample_claim ''BTC'', sample_claim ''WBTC''] 5,
        sample_leg_draft ''out'' [sample_claim ''EUR''] (-7)]]"

lemma sample_drafts_valid: "\<forall>d \<in> set sample_drafts. valid_draft d"
  by code_simp

lemma sample_claim_normal:
  "normal_claim (sample_claim ''btc'') = sample_claim ''BTC''"
  "normal_claim (sample_claim '' BTC'') = sample_claim ''BTC''"
  "normal_claim (sample_claim ''BTC'') = sample_claim ''BTC''"
  "normal_claim (sample_claim ''WBTC'') = sample_claim ''WBTC''"
  "normal_claim (sample_claim ''EUR'') = sample_claim ''EUR''"
  by code_simp+

lemma sample_resolvable:
  "resolvable (sample_leg_draft i [sample_claim ''btc'', sample_claim '' BTC''] q)"
  "resolvable (sample_leg_draft i [sample_claim ''EUR''] q)"
  "\<not> resolvable (sample_leg_draft i [sample_claim ''BTC'', sample_claim ''WBTC''] q)"
  unfolding resolvable_def sample_leg_draft_def economic_leg_draft.simps list.map sample_claim_normal
  by (simp_all add: claims_agree_def claim_key_def sample_claim_def)


end
