(* ===== verification/Product_Reuse.thy ===== *)
theory Product_Reuse
  imports Target_Products
begin

text \<open>
  What resolving one stage of the target products guarantees: which kernels it returns, that their
  files hold them afterwards, and that resolving again changes nothing.
\<close>

section \<open>Stored files\<close>

lemma map_of_write_file [simp]:
  "map_of (write_file p x files) q = (if q = p then Some (Readable x) else map_of files q)"
  by (simp add: write_file_def update_conv)

lemma map_of_remove_tree:
  "map_of (remove_tree tree files) p = (if starts_with p (tree @ ''/'') then None else map_of files p)"
  by (induction files) (auto simp: remove_tree_def)

lemma is_file_iff: "is_file files p \<longleftrightarrow> (\<exists>f. map_of files p = Some f)"
  by (auto simp: is_file_def)

lemma stage_ref_inj: "stage_ref sg k = stage_ref sg j \<longleftrightarrow> sg_id sg k = sg_id sg j"
  by (auto simp: stage_ref_def product_ref_def product_root_def)

lemma stage_rows_path_inj: "stage_rows_path sg k = stage_rows_path sg j \<longleftrightarrow> sg_id sg k = sg_id sg j"
  by (auto simp: stage_rows_path_def rows_path_def product_root_def)

section \<open>Kernels of a stage\<close>

definition stored_as :: "('k, 'r) stage \<Rightarrow> 'k files \<Rightarrow> execution_decision \<Rightarrow> 'k \<Rightarrow> bool" where
  "stored_as sg files d k \<longleftrightarrow>
     map_of files (xd_ref d) = Some (Readable k) \<and> sg_fingerprint sg k = Inr (xd_fingerprint d)"

lemma read_prior_kernels_run:
  assumes "r_fold (read_prior_kernel sg files) ds (ks0, kv0) = Inr (ks, kv)"
  shows "kv_validated kv = kv_validated kv0 \<and> kv_invalid kv0 \<subseteq> kv_invalid kv \<and>
    (kv_invalid kv = {} \<longrightarrow> (\<exists>ks1. ks = ks0 @ ks1 \<and> list_all2 (stored_as sg files) ds ks1))"
  using assms
proof (induction ds arbitrary: ks0 kv0)
  case Nil
  then show ?case by auto
next
  case (Cons d ds)
  from Cons.prems obtain ks' kv' where step: "read_prior_kernel sg files d (ks0, kv0) = Inr (ks', kv')"
      and rest: "r_fold (read_prior_kernel sg files) ds (ks', kv') = Inr (ks, kv)"
    by (auto simp: result_simps)
  note IH = Cons.IH [OF rest]
  have "(\<exists>k. stored_as sg files d k \<and> ks' = ks0 @ [k] \<and> kv' = kv0) \<or>
      (kv_validated kv' = kv_validated kv0 \<and> kv_invalid kv0 \<subseteq> kv_invalid kv' \<and> kv_invalid kv' \<noteq> {})"
    using step
    by (auto simp: read_prior_kernel_def stored_as_def kv_invalid_def result_simps
        split: option.splits stored_file.splits if_splits)
  then show ?case
  proof
    assume "\<exists>k. stored_as sg files d k \<and> ks' = ks0 @ [k] \<and> kv' = kv0"
    then obtain k where k: "stored_as sg files d k" "ks' = ks0 @ [k]" "kv' = kv0" by blast
    have "\<exists>ks1. ks = ks0 @ ks1 \<and> list_all2 (stored_as sg files) (d # ds) ks1" if none: "kv_invalid kv = {}"
    proof -
      obtain ks1 where "ks = ks' @ ks1" "list_all2 (stored_as sg files) ds ks1" using IH none by blast
      then have "ks = ks0 @ k # ks1 \<and> list_all2 (stored_as sg files) (d # ds) (k # ks1)" using k by simp
      then show ?thesis by blast
    qed
    then show ?thesis using IH k(3) by simp
  qed (use IH in auto)
qed

text \<open>The kernels of a stage are the built ones, or those the previous plan names, read back.\<close>

lemma resolve_kernels_cases:
  assumes "resolve_kernels sg can_use files prior build_current = Inr (ks, kv)"
  shows "build_current = Inr ks \<and> kv_validated kv = {} \<or>
    can_use \<and> list_all2 (stored_as sg files) prior ks \<and> kv_invalid kv = {} \<and>
      kv_validated kv = set (map xd_ref prior)"
proof (cases can_use)
  case False
  then show ?thesis using assms by (auto simp: resolve_kernels_def kv_empty_def result_simps)
next
  case True
  then obtain ks' kv' where reads: "r_fold (read_prior_kernel sg files) prior ([], kv_empty) = Inr (ks', kv')"
      and res: "(if kv_invalid kv' \<noteq> {} then r_bind build_current (\<lambda>ks. Inr (ks, kv'))
        else Inr (ks', kv'\<lparr>kv_validated := set (map xd_ref prior) - kv_invalid kv'\<rparr>)) = Inr (ks, kv)"
    using assms by (auto simp: resolve_kernels_def result_simps)
  note run = read_prior_kernels_run [OF reads]
  show ?thesis
  proof (cases "kv_invalid kv' = {}")
    case none: True
    then show ?thesis using run res True by (auto simp: kv_invalid_def)
  next
    case some: False
    then show ?thesis using run res by (auto simp: result_simps kv_empty_def)
  qed
qed

definition valid_prior :: "('k, 'r) stage \<Rightarrow> 'k files \<Rightarrow> (string, execution_decision) dict \<Rightarrow> string \<Rightarrow> bool" where
  "valid_prior sg files prior_by_ref ref \<longleftrightarrow>
     (\<exists>d k. map_of prior_by_ref ref = Some d \<and> map_of files ref = Some (Readable k) \<and>
       sg_fingerprint sg k = Inr (xd_fingerprint d))"

lemma stored_valid_prior:
  assumes "list_all2 (stored_as sg files) prior ks" and "ref \<in> set (map xd_ref prior)"
  shows "valid_prior sg files (index_by xd_ref prior) ref"
proof -
  have "map_of (index_by xd_ref prior) ref \<noteq> None"
    using assms(2) by (simp add: map_of_eq_None_iff keys_index_by [unfolded set_map])
  then obtain d where d: "map_of (index_by xd_ref prior) ref = Some d" by blast
  then have "d \<in> set prior" "xd_ref d = ref" by (auto dest: index_by_SomeD)
  then show ?thesis
    using list_all2_left [OF assms(1)] d by (fastforce simp: stored_as_def valid_prior_def)
qed

lemma validate_kernel_ref_run:
  assumes "validate_kernel_ref sg files ref (map_of prior_by_ref ref) kv = Inr kv'"
    and "\<forall>r \<in> kv_validated kv. valid_prior sg files0 prior_by_ref r" and "map_of files ref = map_of files0 ref"
  shows "\<forall>r \<in> kv_validated kv'. valid_prior sg files0 prior_by_ref r"
    and "map_of prior_by_ref ref \<noteq> None \<Longrightarrow> is_file files ref \<Longrightarrow> ref \<notin> kv_invalid kv' \<Longrightarrow>
      valid_prior sg files0 prior_by_ref ref"
proof -
  have "(\<forall>r \<in> kv_validated kv'. valid_prior sg files0 prior_by_ref r) \<and>
    (map_of prior_by_ref ref \<noteq> None \<longrightarrow> is_file files ref \<longrightarrow> ref \<notin> kv_invalid kv' \<longrightarrow>
      valid_prior sg files0 prior_by_ref ref)"
  proof (cases "ref \<in> kv_validated kv")
    case True
    then have "valid_prior sg files0 prior_by_ref ref" using assms(2) by blast
    then show ?thesis
      using assms(1,2) True
      by (auto simp: validate_kernel_ref_def result_simps split: option.splits stored_file.splits if_splits)
  next
    case False
    then show ?thesis
      using assms
      by (auto simp: validate_kernel_ref_def valid_prior_def kv_invalid_def is_file_def result_simps
          split: option.splits stored_file.splits if_splits)
  qed
  then show "\<forall>r \<in> kv_validated kv'. valid_prior sg files0 prior_by_ref r"
    and "map_of prior_by_ref ref \<noteq> None \<Longrightarrow> is_file files ref \<Longrightarrow> ref \<notin> kv_invalid kv' \<Longrightarrow>
      valid_prior sg files0 prior_by_ref ref"
    by blast+
qed

section \<open>Resolving one kernel\<close>

definition decided_as :: "('k, 'r) stage \<Rightarrow> 'k \<Rightarrow> execution_decision \<Rightarrow> bool" where
  "decided_as sg k d \<longleftrightarrow>
     xd_id d = sg_id sg k \<and> xd_ref d = stage_ref sg k \<and> sg_fingerprint sg k = Inr (xd_fingerprint d) \<and>
     stage_signature sg k = Inr (xd_signature d)"

lemma decide_kernel_reused:
  "decide_kernel_action mode prior current reusable changed = REUSED \<longleftrightarrow>
     mode \<noteq> REBUILD \<and> \<not> changed \<and> reusable \<and> prior = Some current"
  by (auto simp: decide_kernel_action_def)

lemma decide_kernel_cases: "decide_kernel_action mode prior current reusable changed \<in> {REUSED, REBUILT}"
  by (auto simp: decide_kernel_action_def)

lemma decide_detail_cases:
  "decide_detail_action present mode kernel_action prior current paths \<in> {REUSED, REFRESHED}"
  by (auto simp: decide_detail_action_def)

lemma decide_detail_reused:
  "decide_detail_action present mode kernel_action prior current paths = REUSED \<longleftrightarrow>
     mode = AUTO \<and> kernel_action \<noteq> REBUILT \<and> prior = Some current \<and> (paths = [] \<or> list_all present paths)"
  by (cases mode) (auto simp: decide_detail_action_def)

lemma resolve_rows_run:
  assumes "resolve_rows sg k action s = (Inr (action', records), s')"
  shows "ps_kernels s' = ps_kernels s \<and>
    (\<forall>p. map_of (ps_rows s') p =
      (if p = stage_rows_path sg k then Some (Readable records) else map_of (ps_rows s) p)) \<and>
    (s' = s \<and> action' = action \<or> action' = REFRESHED \<and> sg_project sg k = Inr records)"
  using assms
  by (auto simp: resolve_rows_def refresh_rows_def io_simps split: if_splits option.splits stored_file.splits)

lemma resolve_kernel_parts:
  assumes "resolve_kernel sg mode prior_by_ref k (kv, all_rows, ds) s = (Inr acc, s')"
  obtains kv' fingerprint signature s1 kernel_action action records where
    "validate_kernel_ref sg (ps_kernels s) (stage_ref sg k) (map_of prior_by_ref (stage_ref sg k)) kv = Inr kv'"
    and "sg_fingerprint sg k = Inr fingerprint" and "stage_signature sg k = Inr signature"
    and "kernel_action = kernel_action_for mode (ps_kernels s) kv' (stage_ref sg k)
      (map_of prior_by_ref (stage_ref sg k)) fingerprint"
    and "s1 = (if kernel_action = REBUILT
        then s\<lparr>ps_kernels := write_file (stage_ref sg k) k (ps_kernels s)\<rparr> else s)"
    and "resolve_rows sg k (decide_detail_action (is_file (ps_rows s1)) mode kernel_action
          (map_option xd_signature (map_of prior_by_ref (stage_ref sg k))) signature [stage_rows_path sg k]) s1 =
        (Inr (action, records), s')"
    and "acc = (kv', all_rows @ records, ds @
      [\<lparr>xd_id = sg_id sg k, xd_ref = stage_ref sg k, xd_fingerprint = fingerprint,
        xd_kernel_action = kernel_action, xd_detail_action = action, xd_signature = signature\<rparr>])"
proof -
  let ?ref = "stage_ref sg k"
  let ?prior = "map_of prior_by_ref ?ref"
  note run = assms [unfolded resolve_kernel_def Let_def prod.case]
  obtain kv' where kv': "validate_kernel_ref sg (ps_kernels s) ?ref ?prior kv = Inr kv'"
    using run by (simp only: io_bind_iff io_get_iff io_lift_iff) blast
  obtain fingerprint where fingerprint: "sg_fingerprint sg k = Inr fingerprint"
    using run by (simp only: io_bind_iff io_get_iff io_lift_iff) blast
  obtain signature where signature: "stage_signature sg k = Inr signature"
    using run by (simp only: io_bind_iff io_get_iff io_lift_iff) blast
  define kernel_action where
    "kernel_action = kernel_action_for mode (ps_kernels s) kv' ?ref ?prior fingerprint"
  define s1 where
    "s1 = (if kernel_action = REBUILT then s\<lparr>ps_kernels := write_file ?ref k (ps_kernels s)\<rparr> else s)"
  have written: "(if kernel_action = REBUILT
      then io_update (\<lambda>s. s\<lparr>ps_kernels := write_file ?ref k (ps_kernels s)\<rparr>) else io_return ()) s = (Inr (), s1)"
    by (simp add: s1_def io_update_def io_return_def)
  let ?action = "decide_detail_action (is_file (ps_rows s1)) mode kernel_action
    (map_option xd_signature ?prior) signature [stage_rows_path sg k]"
  have "io_bind (resolve_rows sg k ?action) (\<lambda>(action, records).
      io_return (kv', all_rows @ records, ds @
        [\<lparr>xd_id = sg_id sg k, xd_ref = ?ref, xd_fingerprint = fingerprint,
          xd_kernel_action = kernel_action, xd_detail_action = action, xd_signature = signature\<rparr>])) s1 = (Inr acc, s')"
    using run
    by (simp add: io_bind_def io_get_def io_lift_def kv' fingerprint signature written
        kernel_action_def [symmetric])
  then obtain action records where
    "resolve_rows sg k ?action s1 = (Inr (action, records), s')"
    "acc = (kv', all_rows @ records, ds @
      [\<lparr>xd_id = sg_id sg k, xd_ref = ?ref, xd_fingerprint = fingerprint,
        xd_kernel_action = kernel_action, xd_detail_action = action, xd_signature = signature\<rparr>])"
    by (auto simp: io_simps)
  from that [OF kv' fingerprint signature kernel_action_def s1_def this] show thesis .
qed

text \<open>
  When no stored kernel has the fingerprint of another kernel, the file of the product holds the
  resolved kernel afterwards, whether it was written or kept.
\<close>

definition no_impostor :: "('k, 'r) stage \<Rightarrow> 'k files \<Rightarrow> 'k \<Rightarrow> bool" where
  "no_impostor sg files k \<longleftrightarrow>
     (\<forall>j h. map_of files (stage_ref sg k) = Some (Readable j) \<longrightarrow> sg_fingerprint sg j = Inr h \<longrightarrow>
       sg_fingerprint sg k = Inr h \<longrightarrow> j = k)"

lemma kernel_reused_stored:
  assumes "kernel_action_for mode files kv' (stage_ref sg k) (map_of prior_by_ref (stage_ref sg k)) fingerprint \<noteq> REBUILT"
    and "validate_kernel_ref sg files (stage_ref sg k) (map_of prior_by_ref (stage_ref sg k)) kv = Inr kv'"
    and "\<forall>r \<in> kv_validated kv. valid_prior sg files0 prior_by_ref r"
    and "map_of files (stage_ref sg k) = map_of files0 (stage_ref sg k)"
    and "sg_fingerprint sg k = Inr fingerprint" and "no_impostor sg files0 k"
  shows "map_of files (stage_ref sg k) = Some (Readable k)"
proof -
  let ?ref = "stage_ref sg k"
  have "kernel_action_for mode files kv' ?ref (map_of prior_by_ref ?ref) fingerprint = REUSED"
    using assms(1) decide_kernel_cases unfolding kernel_action_for_def by blast
  then have "is_file files ?ref" "?ref \<notin> kv_invalid kv'"
      "map_option xd_fingerprint (map_of prior_by_ref ?ref) = Some fingerprint"
    unfolding kernel_action_for_def decide_kernel_reused by (auto split: if_splits)
  then obtain d where d: "map_of prior_by_ref ?ref = Some d" "xd_fingerprint d = fingerprint"
      and "valid_prior sg files0 prior_by_ref ?ref"
    using validate_kernel_ref_run(2) [OF assms(2-4)] by auto
  then obtain j where "map_of files0 ?ref = Some (Readable j)" "sg_fingerprint sg j = Inr fingerprint"
    by (auto simp: valid_prior_def)
  then show ?thesis using assms(4-6) by (auto simp: no_impostor_def)
qed

definition stored_rows :: "('k, 'r) stage \<Rightarrow> 'r list files \<Rightarrow> 'k \<Rightarrow> 'r list \<Rightarrow> bool" where
  "stored_rows sg files k records \<longleftrightarrow> map_of files (stage_rows_path sg k) = Some (Readable records)"

lemma resolve_kernel_run:
  assumes "resolve_kernel sg mode prior_by_ref k (kv, all_rows, ds) s = (Inr (kv', all_rows', ds'), s')"
    and "\<forall>r \<in> kv_validated kv. valid_prior sg files0 prior_by_ref r"
    and "map_of (ps_kernels s) (stage_ref sg k) = map_of files0 (stage_ref sg k)"
    and "no_impostor sg files0 k"
  shows "\<exists>d records. all_rows' = all_rows @ records \<and> ds' = ds @ [d] \<and> decided_as sg k d \<and>
      (\<forall>r \<in> kv_validated kv'. valid_prior sg files0 prior_by_ref r) \<and>
      (\<forall>p. map_of (ps_kernels s') p = (if p = stage_ref sg k then Some (Readable k) else map_of (ps_kernels s) p)) \<and>
      (\<forall>p. map_of (ps_rows s') p =
        (if p = stage_rows_path sg k then Some (Readable records) else map_of (ps_rows s) p))"
proof -
  let ?ref = "stage_ref sg k"
  obtain kv1 fingerprint signature s1 kernel_action action records where
      kv1: "validate_kernel_ref sg (ps_kernels s) ?ref (map_of prior_by_ref ?ref) kv = Inr kv1"
    and fp: "sg_fingerprint sg k = Inr fingerprint" and sig: "stage_signature sg k = Inr signature"
    and ka: "kernel_action = kernel_action_for mode (ps_kernels s) kv1 ?ref (map_of prior_by_ref ?ref) fingerprint"
    and s1: "s1 = (if kernel_action = REBUILT
        then s\<lparr>ps_kernels := write_file ?ref k (ps_kernels s)\<rparr> else s)"
    and rows: "resolve_rows sg k (decide_detail_action (is_file (ps_rows s1)) mode kernel_action
        (map_option xd_signature (map_of prior_by_ref ?ref)) signature [stage_rows_path sg k]) s1 =
        (Inr (action, records), s')"
    and acc: "(kv', all_rows', ds') = (kv1, all_rows @ records, ds @
      [\<lparr>xd_id = sg_id sg k, xd_ref = ?ref, xd_fingerprint = fingerprint,
        xd_kernel_action = kernel_action, xd_detail_action = action, xd_signature = signature\<rparr>])"
    using resolve_kernel_parts [OF assms(1)] by metis
  have kernels: "map_of (ps_kernels s1) p = (if p = ?ref then Some (Readable k) else map_of (ps_kernels s) p)" for p
  proof (cases "kernel_action = REBUILT")
    case False
    then have "map_of (ps_kernels s) ?ref = Some (Readable k)"
      using kernel_reused_stored [OF _ kv1 assms(2,3) fp assms(4)] unfolding ka by blast
    then show ?thesis using False by (simp add: s1)
  qed (simp add: s1)
  have r: "ps_rows s1 = ps_rows s" by (simp add: s1)
  note written = resolve_rows_run [OF rows, unfolded r]
  have "decided_as sg k
      \<lparr>xd_id = sg_id sg k, xd_ref = ?ref, xd_fingerprint = fingerprint,
        xd_kernel_action = kernel_action, xd_detail_action = action, xd_signature = signature\<rparr>"
    by (simp add: decided_as_def fp sig)
  then show ?thesis
    using acc written kernels validate_kernel_ref_run(1) [OF kv1 assms(2,3)] by auto
qed

section \<open>Resolving a stage\<close>

definition stage_done ::
    "('k, 'r) stage \<Rightarrow> ('k, 'r) product_store \<Rightarrow> 'k list \<Rightarrow> execution_decision list \<Rightarrow> 'r list \<Rightarrow>
      ('k, 'r) product_store \<Rightarrow> bool" where
  "stage_done sg s ks ds records s' \<longleftrightarrow>
     list_all2 (decided_as sg) ks ds \<and>
     (\<exists>rss. records = concat rss \<and> list_all2 (stored_rows sg (ps_rows s')) ks rss) \<and>
     (\<forall>k \<in> set ks. map_of (ps_kernels s') (stage_ref sg k) = Some (Readable k)) \<and>
     (\<forall>p. p \<notin> stage_ref sg ` set ks \<longrightarrow> map_of (ps_kernels s') p = map_of (ps_kernels s) p) \<and>
     (\<forall>p. p \<notin> stage_rows_path sg ` set ks \<longrightarrow> map_of (ps_rows s') p = map_of (ps_rows s) p)"

lemma stage_done_snoc:
  assumes "stage_done sg s ks ds records s1" and "sg_id sg k \<notin> sg_id sg ` set ks" and "decided_as sg k d"
    and "\<forall>p. map_of (ps_kernels s') p = (if p = stage_ref sg k then Some (Readable k) else map_of (ps_kernels s1) p)"
    and "\<forall>p. map_of (ps_rows s') p =
        (if p = stage_rows_path sg k then Some (Readable r) else map_of (ps_rows s1) p)"
  shows "stage_done sg s (ks @ [k]) (ds @ [d]) (records @ r) s'"
proof -
  obtain rss where rss: "records = concat rss" "list_all2 (stored_rows sg (ps_rows s1)) ks rss"
    using assms(1) by (auto simp: stage_done_def)
  have "list_all2 (stored_rows sg (ps_rows s')) ks rss"
    using rss(2)
  proof (rule list.rel_mono_strong)
    fix j q assume "j \<in> set ks" "q \<in> set rss" "stored_rows sg (ps_rows s1) j q"
    moreover have "sg_id sg j \<noteq> sg_id sg k" using assms(2) \<open>j \<in> set ks\<close> by (metis imageI)
    ultimately show "stored_rows sg (ps_rows s') j q"
      using assms(5) by (simp add: stored_rows_def stage_rows_path_inj)
  qed
  then have "list_all2 (stored_rows sg (ps_rows s')) (ks @ [k]) (rss @ [r])"
    using assms(5) by (auto simp: stored_rows_def intro: list_all2_appendI)
  moreover have "records @ r = concat (rss @ [r])" using rss(1) by simp
  moreover have "list_all2 (decided_as sg) (ks @ [k]) (ds @ [d])"
    using assms(1,3) by (auto simp: stage_done_def intro: list_all2_appendI)
  moreover have "map_of (ps_kernels s') (stage_ref sg j) = Some (Readable j)" if "j \<in> set (ks @ [k])" for j
  proof (cases "j = k")
    case False
    then have "j \<in> set ks" using that by simp
    moreover from this have "sg_id sg j \<noteq> sg_id sg k" using assms(2) by (metis imageI)
    ultimately show ?thesis using assms(1,4) by (simp add: stage_done_def stage_ref_inj)
  qed (use assms(4) in simp)
  moreover have "map_of (ps_kernels s') p = map_of (ps_kernels s) p" if "p \<notin> stage_ref sg ` set (ks @ [k])" for p
    using that assms(1,4) by (simp add: stage_done_def)
  moreover have "map_of (ps_rows s') p = map_of (ps_rows s) p" if "p \<notin> stage_rows_path sg ` set (ks @ [k])" for p
    using that assms(1,5) by (simp add: stage_done_def)
  ultimately show ?thesis unfolding stage_done_def by blast
qed

lemma resolve_stage_run:
  assumes run: "resolve_stage sg mode can_use prior build s = (Inr (ks, ds, records), s')"
    and ids: "distinct (map (sg_id sg) ks)"
    and honest: "\<forall>k \<in> set ks. no_impostor sg (ps_kernels s) k"
  shows "stage_done sg s ks ds records s' \<and>
    (build = Inr ks \<or> can_use (ps_kernels s) \<and> list_all2 (stored_as sg (ps_kernels s)) prior ks)"
proof -
  obtain kv acc where
      kernels: "resolve_kernels sg (can_use (ps_kernels s)) (ps_kernels s) prior build = Inr (ks, kv)"
    and loop: "io_fold (resolve_kernel sg mode (index_by xd_ref prior)) ks (kv, [], []) s = (Inr acc, s')"
    and acc: "acc = (fst acc, records, ds)"
    using run by (auto simp: resolve_stage_def io_simps)
  note cases_k = resolve_kernels_cases [OF kernels]
  let ?I = "\<lambda>pre (kv :: kernel_validation, all_rows, ds) t.
    (\<forall>r \<in> kv_validated kv. valid_prior sg (ps_kernels s) (index_by xd_ref prior) r) \<and>
    stage_done sg s pre ds all_rows t"
  have start: "\<forall>r \<in> kv_validated kv. valid_prior sg (ps_kernels s) (index_by xd_ref prior) r"
    using cases_k stored_valid_prior [of sg "ps_kernels s" prior ks] by auto
  have "?I ks acc s'"
  proof (rule io_fold_inv [OF loop])
    show "?I [] (kv, [], []) s" using start by (simp add: stage_done_def)
  next
    fix pre k suf a t a' t'
    assume split_ks: "ks = pre @ k # suf" and I: "?I pre a t"
      and step: "resolve_kernel sg mode (index_by xd_ref prior) k a t = (Inr a', t')"
    obtain kv1 rows1 ds1 where a: "a = (kv1, rows1, ds1)" by (cases a)
    obtain kv2 rows2 ds2 where a': "a' = (kv2, rows2, ds2)" by (cases a')
    have new: "sg_id sg k \<notin> sg_id sg ` set pre" using ids split_ks by auto
    have I1: "\<forall>r \<in> kv_validated kv1. valid_prior sg (ps_kernels s) (index_by xd_ref prior) r"
        "stage_done sg s pre ds1 rows1 t"
      using I a by simp_all
    have "stage_ref sg k \<notin> stage_ref sg ` set pre" using new by (auto simp: stage_ref_inj)
    then have old: "map_of (ps_kernels t) (stage_ref sg k) = map_of (ps_kernels s) (stage_ref sg k)"
      using I1(2) by (simp add: stage_done_def)
    have "no_impostor sg (ps_kernels s) k" using honest split_ks by simp
    from resolve_kernel_run [OF step [unfolded a a'] I1(1) old this]
    obtain d r where "rows2 = rows1 @ r" "ds2 = ds1 @ [d]" "decided_as sg k d"
        "\<forall>r \<in> kv_validated kv2. valid_prior sg (ps_kernels s) (index_by xd_ref prior) r"
        "\<forall>p. map_of (ps_kernels t') p = (if p = stage_ref sg k then Some (Readable k) else map_of (ps_kernels t) p)"
        "\<forall>p. map_of (ps_rows t') p =
          (if p = stage_rows_path sg k then Some (Readable r) else map_of (ps_rows t) p)"
      by blast
    then show "?I (pre @ [k]) a' t'"
      using stage_done_snoc [OF I1(2) new] by (simp add: a')
  qed
  then have "stage_done sg s ks ds records s'" using acc by (metis (no_types, lifting) case_prod_conv)
  then show ?thesis using cases_k by blast
qed

end
