(* ===== verification/Product_Pruning.thy ===== *)
theory Product_Pruning
  imports Product_Reuse
begin

text \<open>
  What removing the roots of outdated products leaves alone: the files of every other product whose
  identifier holds no slash, which all content-derived identifiers are.
\<close>

section \<open>Identifiers without slashes\<close>

definition plain_id :: "string \<Rightarrow> bool" where
  "plain_id i \<longleftrightarrow> CHR ''/'' \<notin> set i"

lemma hex_char_plain: "d < 16 \<Longrightarrow> hex_char d \<noteq> CHR ''/''"
  using hex_val_hex_char [of d] by (auto simp: hex_val_def Let_def)

lemma plain_digest: "plain_id (sha256_hex s)"
  using sha256_hex_chars [of _ s] hex_char_plain by (fastforce simp: plain_id_def)

section \<open>Roots\<close>

lemma product_family_inj: "product_family k = product_family j \<longleftrightarrow> k = j"
  by (cases k; cases j) simp_all

lemma product_family_plain: "CHR ''/'' \<notin> set (product_family k)"
  by (cases k) simp_all

lemma starts_with_segment:
  assumes "c \<notin> set a" and "c \<notin> set b"
  shows "starts_with (a @ c # s) (b @ c # t) \<longleftrightarrow> a = b \<and> starts_with s t"
  using assms
proof (induction b arbitrary: a)
  case Nil
  then show ?case by (cases a) auto
next
  case (Cons x b)
  then show ?case by (cases a) auto
qed

definition under_root :: "product_kind \<Rightarrow> string \<Rightarrow> string \<Rightarrow> bool" where
  "under_root kind i p \<longleftrightarrow> (\<exists>rest. p = product_root kind i @ ''/'' @ rest)"

lemma under_root_other:
  assumes "under_root kind i p" and "plain_id i" and "plain_id j"
    and "starts_with p (product_root kind' j @ ''/'')"
  shows "kind' = kind \<and> j = i"
proof -
  obtain rest where p: "p = product_root kind i @ ''/'' @ rest" using assms(1) by (auto simp: under_root_def)
  have "starts_with (product_family kind @ CHR ''/'' # i @ CHR ''/'' # rest)
      (product_family kind' @ CHR ''/'' # j @ CHR ''/'' # [])"
    using assms(4) unfolding p product_root_def by simp
  then have "product_family kind = product_family kind'"
      and "starts_with (i @ CHR ''/'' # rest) (j @ CHR ''/'' # [])"
    using starts_with_segment [OF product_family_plain product_family_plain] by blast+
  then show ?thesis
    using starts_with_segment [of "CHR ''/''" i j rest "[]"] assms(2,3)
    by (auto simp: product_family_inj plain_id_def)
qed

lemma split_at_plain: "c \<notin> set a \<Longrightarrow> split_at c a = [a]"
  by (induction a) auto

lemma split_at_append: "c \<notin> set a \<Longrightarrow> split_at c (a @ c # b) = a # split_at c b"
  by (induction a) auto

lemma product_name_plain: "CHR ''/'' \<notin> set (product_name kind @ ''.json'')"
  by (cases kind) simp_all

lemma product_ref_split:
  assumes "plain_id i"
  shows "split_at (CHR ''/'') (product_ref kind i) =
    [''working'', ''products'', product_family kind, i, product_name kind @ ''.json'']"
proof -
  have "product_ref kind i = ''working'' @ CHR ''/'' # ''products'' @ CHR ''/'' #
      product_family kind @ CHR ''/'' # i @ CHR ''/'' # product_name kind @ ''.json''"
    by (simp add: product_ref_def product_root_def)
  then show ?thesis
    using assms product_family_plain product_name_plain
    by (simp only: split_at_append split_at_plain plain_id_def) (simp add: split_at_append split_at_plain)
qed

lemma product_root_from_ref_plain:
  assumes "plain_id i" and "product_root_from_ref (product_ref kind i) = Some tree"
  shows "tree = product_root kind i"
proof -
  have parts: "posix_parts (product_ref kind i) = [''working'', ''products'', product_family kind] @
      (if i \<noteq> [] \<and> i \<noteq> ''.'' then [i] else []) @ [product_name kind @ ''.json'']"
    unfolding posix_parts_def product_ref_split [OF assms(1)] by (cases kind) simp_all
  show ?thesis
  proof (cases "i \<noteq> [] \<and> i \<noteq> ''.''")
    case True
    then show ?thesis
      using assms(2) parts by (auto simp: product_root_from_ref_def product_root_def Let_def split: if_splits)
  next
    case False
    then show ?thesis using assms(2) parts by (auto simp: product_root_from_ref_def Let_def)
  qed
qed

section \<open>Removing roots\<close>

text \<open>The files a product may have under its root, in every part of the workspace.\<close>

definition same_under :: "product_kind \<Rightarrow> string \<Rightarrow> workspace \<Rightarrow> workspace \<Rightarrow> bool" where
  "same_under kind i ws ws' \<longleftrightarrow>
     (\<forall>p. under_root kind i p \<longrightarrow>
       map_of (ws_economic_facts ws') p = map_of (ws_economic_facts ws) p \<and>
       map_of (ws_facts ws') p = map_of (ws_facts ws) p \<and>
       map_of (ws_annotations ws') p = map_of (ws_annotations ws) p \<and>
       map_of (ps_kernels (ws_states ws')) p = map_of (ps_kernels (ws_states ws)) p \<and>
       map_of (ps_rows (ws_states ws')) p = map_of (ps_rows (ws_states ws)) p \<and>
       map_of (ps_kernels (ws_checkpoints ws')) p = map_of (ps_kernels (ws_checkpoints ws)) p \<and>
       map_of (ps_rows (ws_checkpoints ws')) p = map_of (ps_rows (ws_checkpoints ws)) p)"

lemma same_under_refl: "same_under kind i ws ws"
  by (simp add: same_under_def)

lemma same_under_trans: "same_under kind i ws ws1 \<Longrightarrow> same_under kind i ws1 ws2 \<Longrightarrow> same_under kind i ws ws2"
  by (simp add: same_under_def)

lemma prune_root_keeps:
  assumes "plain_id i" and "plain_id j" and "(kind', j) \<noteq> (kind, i)"
  shows "same_under kind i ws (prune_product_root (product_ref kind' j) ws)"
proof (cases "product_root_from_ref (product_ref kind' j)")
  case None
  then show ?thesis by (simp add: prune_product_root_def same_under_refl)
next
  case (Some tree)
  then have tree: "tree = product_root kind' j" using product_root_from_ref_plain assms(2) by blast
  have "\<not> starts_with p (tree @ ''/'')" if "under_root kind i p" for p
    using under_root_other [OF that assms(1,2)] assms(3) unfolding tree by blast
  then show ?thesis
    using Some by (simp add: prune_product_root_def same_under_def prune_store_def map_of_remove_tree)
qed

definition prunable :: "product_kind \<Rightarrow> string \<Rightarrow> string \<Rightarrow> bool" where
  "prunable kind i ref \<longleftrightarrow> (\<exists>kind' j. ref = product_ref kind' j \<and> plain_id j \<and> (kind', j) \<noteq> (kind, i))"

lemma prune_roots_keep:
  assumes "plain_id i" and "\<forall>r \<in> set refs. prunable kind i r"
  shows "same_under kind i ws (prune_product_roots refs ws)"
  using assms(2)
proof (induction refs arbitrary: ws)
  case Nil
  show ?case by (simp add: prune_product_roots_def same_under_refl)
next
  case (Cons r refs)
  obtain kind' j where "r = product_ref kind' j" "plain_id j" "(kind', j) \<noteq> (kind, i)"
    using Cons.prems by (auto simp: prunable_def)
  then have "same_under kind i ws (prune_product_root r ws)" using prune_root_keeps assms(1) by blast
  moreover have "same_under kind i (prune_product_root r ws) (prune_product_roots refs (prune_product_root r ws))"
    using Cons by simp
  ultimately show ?case by (simp add: prune_product_roots_def) (metis same_under_trans)
qed

lemma prune_roots_summary [simp]: "ws_summary (prune_product_roots refs ws) = ws_summary ws"
proof (induction refs arbitrary: ws)
  case (Cons r refs)
  then show ?case by (simp add: prune_product_roots_def prune_product_root_def split: option.split)
qed (simp add: prune_product_roots_def)

lemma prune_roots_none [simp]: "prune_product_roots [] ws = ws"
  by (simp add: prune_product_roots_def)

end
