(* ===== verification/Product_Runs.thy ===== *)
theory Product_Runs
  imports Product_Pruning
begin

text \<open>
  An execution of the target products against building them from scratch. A plan is sound when it
  names the products that some earlier inputs give; the stored kernels may be anything as long as
  none passes, by its fingerprint, for another one.
\<close>

section \<open>Sound plans\<close>

definition named_as :: "('k, 'r) stage \<Rightarrow> 'k \<Rightarrow> execution_decision \<Rightarrow> bool" where
  "named_as sg k d \<longleftrightarrow>
     xd_id d = sg_id sg k \<and> xd_ref d = stage_ref sg k \<and> sg_fingerprint sg k = Inr (xd_fingerprint d)"

definition facts_named :: "economic_facts \<Rightarrow> execution_decision \<Rightarrow> bool" where
  "facts_named f d \<longleftrightarrow>
     xd_id d = ef_economic_facts_id f \<and> xd_ref d = product_ref ECONOMIC_FACTS (ef_economic_facts_id f) \<and>
     economic_facts_fingerprint f = Inr (xd_fingerprint d)"

definition scratch_products ::
    "claim_set \<Rightarrow> evidence_set \<Rightarrow> (economic_facts \<times> reconciliation_state list \<times> checkpoint list) result" where
  "scratch_products cs es =
     r_bind (build_economic_facts cs) (\<lambda>f.
     r_bind (build_reconciliation_states f cs es) (\<lambda>ss.
     r_bind (build_checkpoints ss) (\<lambda>cks. Inr (f, ss, cks))))"

definition plan_names ::
    "execution_plan \<Rightarrow> evidence_set \<Rightarrow> economic_facts \<Rightarrow> reconciliation_state list \<Rightarrow> checkpoint list \<Rightarrow> bool" where
  "plan_names p es f ss cks \<longleftrightarrow>
     (\<exists>d. xp_economic_facts p = Some d \<and> facts_named f d) \<and>
     list_all2 (named_as reconciliation_stage) ss (xp_reconciliation_states p) \<and>
     list_all2 (named_as (checkpoint_stage ss es)) cks (xp_checkpoints p)"

definition plan_of_inputs :: "execution_plan \<Rightarrow> claim_set \<Rightarrow> evidence_set \<Rightarrow> bool" where
  "plan_of_inputs p cs es \<longleftrightarrow>
     claim_set_execution_fingerprint cs = Inr (xp_claim_set_fingerprint p) \<and>
     (\<exists>f ss cks. scratch_products cs es = Inr (f, ss, cks) \<and> plan_names p es f ss cks)"

definition empty_plan :: "execution_plan \<Rightarrow> bool" where
  "empty_plan p \<longleftrightarrow>
     xp_claim_set_fingerprint p = [] \<and> xp_economic_facts p = None \<and> xp_reconciliation_states p = [] \<and>
     xp_checkpoints p = []"

section \<open>Inputs and stored kernels without collisions\<close>

record universe =
  un_inputs :: "(claim_set \<times> evidence_set) set"
  un_facts :: "economic_facts set"
  un_states :: "reconciliation_state set"
  un_checkpoints :: "checkpoint set"

definition told_apart :: "('k \<Rightarrow> string result) \<Rightarrow> 'k set \<Rightarrow> bool" where
  "told_apart fingerprint S \<longleftrightarrow>
     (\<forall>a \<in> S. \<forall>b \<in> S. \<forall>h. fingerprint a = Inr h \<longrightarrow> fingerprint b = Inr h \<longrightarrow> a = b)"

definition builds_in :: "universe \<Rightarrow> claim_set \<Rightarrow> evidence_set \<Rightarrow> bool" where
  "builds_in U cs es \<longleftrightarrow>
     (\<forall>f. build_economic_facts cs = Inr f \<longrightarrow> f \<in> un_facts U \<and>
       (\<forall>ss. build_reconciliation_states f cs es = Inr ss \<longrightarrow>
         set ss \<subseteq> un_states U \<and> distinct (map rs_reconciliation_state_id ss) \<and>
         (\<forall>cks. build_checkpoints ss = Inr cks \<longrightarrow>
           set cks \<subseteq> un_checkpoints U \<and> distinct (map ck_checkpoint_id cks))))"

definition collision_free :: "universe \<Rightarrow> bool" where
  "collision_free U \<longleftrightarrow>
     told_apart economic_facts_fingerprint (un_facts U) \<and>
     told_apart reconciliation_state_fingerprint (un_states U) \<and>
     told_apart checkpoint_fingerprint (un_checkpoints U) \<and>
     told_apart (\<lambda>(cs, es). claim_set_execution_fingerprint cs) (un_inputs U) \<and>
     (\<forall>(cs, es) \<in> un_inputs U. builds_in U cs es)"

definition readable_in :: "'k set \<Rightarrow> 'k files \<Rightarrow> bool" where
  "readable_in S files \<longleftrightarrow> (\<forall>p k. map_of files p = Some (Readable k) \<longrightarrow> k \<in> S)"

definition stored_in :: "universe \<Rightarrow> workspace \<Rightarrow> bool" where
  "stored_in U ws \<longleftrightarrow>
     readable_in (un_facts U) (ws_economic_facts ws) \<and>
     readable_in (un_states U) (ps_kernels (ws_states ws)) \<and>
     readable_in (un_checkpoints U) (ps_kernels (ws_checkpoints ws))"

definition sound_plan :: "universe \<Rightarrow> execution_plan \<Rightarrow> bool" where
  "sound_plan U p \<longleftrightarrow> empty_plan p \<or> (\<exists>(cs, es) \<in> un_inputs U. plan_of_inputs p cs es)"

lemma told_apartD:
  "told_apart fp S \<Longrightarrow> a \<in> S \<Longrightarrow> b \<in> S \<Longrightarrow> fp a = Inr h \<Longrightarrow> fp b = Inr h \<Longrightarrow> a = b"
  unfolding told_apart_def by blast

lemma readable_inD: "readable_in S files \<Longrightarrow> map_of files p = Some (Readable k) \<Longrightarrow> k \<in> S"
  unfolding readable_in_def by blast

lemma sound_plan_same:
  assumes "collision_free U" and "sound_plan U p" and "(cs, es) \<in> un_inputs U"
    and "claim_set_execution_fingerprint cs = Inr (xp_claim_set_fingerprint p)"
  shows "plan_of_inputs p cs es"
proof -
  have "xp_claim_set_fingerprint p \<noteq> []"
    using assms(4) sha256_hex_length by (auto simp: claim_set_execution_fingerprint_def hash_payload_def result_simps)
      (metis list.size(3) zero_neq_numeral)
  then obtain cs' es' where prior: "(cs', es') \<in> un_inputs U" "plan_of_inputs p cs' es'"
    using assms(2) by (auto simp: sound_plan_def empty_plan_def)
  then have "claim_set_execution_fingerprint cs' = Inr (xp_claim_set_fingerprint p)"
    by (simp add: plan_of_inputs_def)
  moreover have "told_apart (\<lambda>(cs, es). claim_set_execution_fingerprint cs) (un_inputs U)"
    using assms(1) by (simp add: collision_free_def)
  ultimately have "(cs', es') = (cs, es)"
    using told_apartD [OF _ prior(1) assms(3)] assms(4) by simp
  then show ?thesis using prior(2) by simp
qed

section \<open>The economic facts\<close>

lemma build_economic_kernel_run:
  assumes "build_economic_kernel cs files can_use invalid = Inr ek"
    and "can_use \<longrightarrow> invalid" and "readable_in S files" and "told_apart economic_facts_fingerprint S"
    and "\<forall>f. build_economic_facts cs = Inr f \<longrightarrow> f \<in> S"
  shows "build_economic_facts cs = Inr (ek_facts ek) \<and>
    economic_facts_fingerprint (ek_facts ek) = Inr (ek_fingerprint ek) \<and>
    ek_ref ek = product_ref ECONOMIC_FACTS (ef_economic_facts_id (ek_facts ek)) \<and> ek_built ek \<and>
    (\<not> ek_invalid ek \<longrightarrow> is_file files (ek_ref ek) \<longrightarrow>
      map_of files (ek_ref ek) = Some (Readable (ek_facts ek)))"
proof -
  obtain f h where f: "build_economic_facts cs = Inr f" "economic_facts_fingerprint f = Inr h"
    using assms(1) by (auto simp: build_economic_kernel_def result_simps)
  have same: "g = f" if "map_of files p = Some (Readable g)" "economic_facts_fingerprint g = Inr h" for p g
    using that told_apartD [OF assms(4)] readable_inD [OF assms(3)] assms(5) f by metis
  show ?thesis
    using assms(1,2) f
    by (auto simp: build_economic_kernel_def result_simps is_file_def Let_def same
        split: if_splits option.splits stored_file.splits)
qed

lemma resolve_economic_facts_kernel_run:
  assumes U: "collision_free U" "readable_in (un_facts U) files" "(cs, es) \<in> un_inputs U"
    and prior: "\<forall>p. prior_plan = Some p \<longrightarrow> sound_plan U p"
    and fp: "claim_set_execution_fingerprint cs = Inr fingerprint"
    and run: "resolve_economic_facts_kernel mode prior_plan fingerprint cs files = Inr ek"
  shows "build_economic_facts cs = Inr (ek_facts ek) \<and>
    economic_facts_fingerprint (ek_facts ek) = Inr (ek_fingerprint ek) \<and>
    ek_ref ek = product_ref ECONOMIC_FACTS (ef_economic_facts_id (ek_facts ek)) \<and>
    (\<not> ek_invalid ek \<longrightarrow> is_file files (ek_ref ek) \<longrightarrow>
      map_of files (ek_ref ek) = Some (Readable (ek_facts ek)))"
proof -
  have built_in: "\<forall>f. build_economic_facts cs = Inr f \<longrightarrow> f \<in> un_facts U"
    using U(1,3) by (auto simp: collision_free_def builds_in_def)
  have apart: "told_apart economic_facts_fingerprint (un_facts U)" using U(1) by (simp add: collision_free_def)
  note built = build_economic_kernel_run [OF _ _ U(2) apart built_in]
  show ?thesis
  proof (cases "can_use_prior_facts mode prior_plan fingerprint files")
    case False
    then have "build_economic_kernel cs files False False = Inr ek"
      using run by (auto simp: resolve_economic_facts_kernel_def split: option.splits)
    then show ?thesis using built by blast
  next
    case True
    then obtain p d where p: "prior_plan = Some p" "xp_economic_facts p = Some d"
        and fp_p: "xp_claim_set_fingerprint p = fingerprint"
      by (auto simp: can_use_prior_facts_def split: option.splits)
    have plan: "plan_of_inputs p cs es"
      using sound_plan_same [OF U(1) _ U(3), of p] prior p(1) fp fp_p by simp
    then obtain f where f: "build_economic_facts cs = Inr f" "facts_named f d"
      using p(2) by (auto simp: plan_of_inputs_def plan_names_def scratch_products_def result_simps)
    show ?thesis
    proof (cases "\<exists>g. map_of files (xd_ref d) = Some (Readable g) \<and>
        economic_facts_fingerprint g = Inr (xd_fingerprint d)")
      case kept: True
      then obtain g where g: "map_of files (xd_ref d) = Some (Readable g)"
          "economic_facts_fingerprint g = Inr (xd_fingerprint d)" by blast
      have "g = f"
        using told_apartD [OF apart readable_inD [OF U(2) g(1)] _ g(2), of f] f built_in
        by (simp add: facts_named_def)
      moreover have "ek = \<lparr>ek_facts = g, ek_fingerprint = xd_fingerprint d, ek_ref = xd_ref d,
          ek_invalid = False, ek_built = False\<rparr>"
        using run p True g by (simp add: resolve_economic_facts_kernel_def)
      ultimately show ?thesis using f g by (simp add: facts_named_def)
    next
      case False
      then have "build_economic_kernel cs files True True = Inr ek"
        using run p True
        by (auto simp: resolve_economic_facts_kernel_def result_simps split: option.splits stored_file.splits if_splits)
      then show ?thesis using built by blast
    qed
  qed
qed

lemma facts_path_inj: "facts_path i = facts_path j \<longleftrightarrow> i = j"
  and annotations_path_inj: "annotations_path i = annotations_path j \<longleftrightarrow> i = j"
  by (simp_all add: facts_path_def annotations_path_def product_root_def)

definition facts_held ::
    "economic_facts \<Rightarrow> execution_decision \<Rightarrow> fact_artifacts \<Rightarrow> workspace \<Rightarrow> bool" where
  "facts_held f d art ws \<longleftrightarrow>
     map_of (ws_economic_facts ws) (xd_ref d) = Some (Readable f) \<and>
     map_of (ws_facts ws) (facts_path (ef_economic_facts_id f)) = Some (Readable (art_facts art)) \<and>
     map_of (ws_annotations ws) (annotations_path (ef_economic_facts_id f)) = Some (Readable (art_annotations art))"

definition other_parts_same :: "workspace \<Rightarrow> workspace \<Rightarrow> bool" where
  "other_parts_same ws ws' \<longleftrightarrow>
     ws_states ws' = ws_states ws \<and> ws_checkpoints ws' = ws_checkpoints ws \<and> ws_summary ws' = ws_summary ws"

lemma resolve_compatibility_run:
  assumes "resolve_compatibility f cs es records action ws = (Inr (action', art), ws')"
  shows "other_parts_same ws ws' \<and> ws_economic_facts ws' = ws_economic_facts ws \<and>
    map_of (ws_facts ws') (facts_path (ef_economic_facts_id f)) = Some (Readable (art_facts art)) \<and>
    map_of (ws_annotations ws') (annotations_path (ef_economic_facts_id f)) = Some (Readable (art_annotations art))"
proof -
  have refresh: "other_parts_same ws ws' \<and> ws_economic_facts ws' = ws_economic_facts ws \<and>
      map_of (ws_facts ws') (facts_path (ef_economic_facts_id f)) = Some (Readable (art_facts art)) \<and>
      map_of (ws_annotations ws') (annotations_path (ef_economic_facts_id f)) = Some (Readable (art_annotations art))"
    if "io_bind (refresh_economic_facts_compatibility f cs es records) (\<lambda>projection. io_return (REFRESHED, projection)) ws =
        (Inr (action', art), ws')"
    using that by (auto simp: refresh_economic_facts_compatibility_def io_simps other_parts_same_def)
  show ?thesis
  proof (cases "action = REFRESHED \<or> (\<forall>a b.
      (map_of (ws_facts ws) (facts_path (ef_economic_facts_id f)),
       map_of (ws_annotations ws) (annotations_path (ef_economic_facts_id f))) \<noteq> (Some (Readable a), Some (Readable b)))")
    case True
    then have "io_bind (refresh_economic_facts_compatibility f cs es records) (\<lambda>projection. io_return (REFRESHED, projection)) ws =
        (Inr (action', art), ws')"
      using assms
      by (auto simp: resolve_compatibility_def Let_def io_bind_def [of "io_get _"] io_get_def
          split: option.splits stored_file.splits if_splits)
    then show ?thesis by (rule refresh)
  next
    case False
    then show ?thesis
      using assms by (auto simp: resolve_compatibility_def Let_def io_simps other_parts_same_def)
  qed
qed

lemma resolve_economic_facts_run:
  assumes U: "collision_free U" "stored_in U ws" "(cs, es) \<in> un_inputs U"
    and prior: "\<forall>p. prior_plan = Some p \<longrightarrow> sound_plan U p"
    and fp: "claim_set_execution_fingerprint cs = Inr fingerprint"
    and run: "resolve_economic_facts mode prior_plan fingerprint cs es records ws = (Inr (f, d, art), ws')"
  shows "build_economic_facts cs = Inr f \<and> facts_named f d \<and>
    economic_facts_compatibility_signature f cs es records = Inr (xd_signature d) \<and>
    facts_held f d art ws' \<and> other_parts_same ws ws' \<and>
    (\<forall>p. p \<noteq> xd_ref d \<longrightarrow> map_of (ws_economic_facts ws') p = map_of (ws_economic_facts ws) p)"
proof -
  let ?files = "ws_economic_facts ws"
  have files: "readable_in (un_facts U) ?files" using U(2) by (simp add: stored_in_def)
  obtain ek kernel_action ws1 action action' where
      ek: "resolve_economic_facts_kernel mode prior_plan fingerprint cs ?files = Inr ek"
    and ka: "kernel_action = decide_kernel_action mode
        (if ek_invalid ek then None else map_option xd_fingerprint (Option.bind prior_plan xp_economic_facts))
        (ek_fingerprint ek) (is_file ?files (ek_ref ek) \<and> \<not> ek_invalid ek) False"
    and ws1: "ws1 = (if kernel_action = REBUILT then ws\<lparr>ws_economic_facts := write_file
        (product_ref ECONOMIC_FACTS (ef_economic_facts_id (ek_facts ek))) (ek_facts ek) ?files\<rparr> else ws)"
    and sig: "economic_facts_compatibility_signature (ek_facts ek) cs es records = Inr (xd_signature d)"
    and compat: "resolve_compatibility (ek_facts ek) cs es records action ws1 = (Inr (action', art), ws')"
    and f: "f = ek_facts ek" and d: "xd_id d = ef_economic_facts_id f" "xd_ref d = ek_ref ek"
      "xd_fingerprint d = ek_fingerprint ek"
    using run
    by (auto simp: resolve_economic_facts_def Let_def io_simps split: if_splits prod.splits)
  note kernel = resolve_economic_facts_kernel_run [OF U(1) files U(3) prior fp ek]
  note rest = resolve_compatibility_run [OF compat]
  have held: "map_of (ws_economic_facts ws1) (ek_ref ek) = Some (Readable f)"
  proof (cases "kernel_action = REBUILT")
    case True
    then show ?thesis using kernel by (simp add: ws1 f)
  next
    case False
    then have "kernel_action = REUSED" using decide_kernel_cases unfolding ka by blast
    then have "is_file ?files (ek_ref ek)" "\<not> ek_invalid ek"
      unfolding ka decide_kernel_reused by (simp_all split: if_splits)
    then have "map_of ?files (ek_ref ek) = Some (Readable (ek_facts ek))" using kernel by blast
    then show ?thesis using False by (simp add: ws1 f)
  qed
  have "other_parts_same ws ws1" by (simp add: ws1 other_parts_same_def)
  moreover have "map_of (ws_economic_facts ws1) p = map_of ?files p" if "p \<noteq> ek_ref ek" for p
    using that kernel by (simp add: ws1)
  ultimately show ?thesis
    using kernel rest held sig d unfolding f facts_named_def facts_held_def other_parts_same_def by simp
qed

section \<open>States and checkpoints\<close>

lemma read_back_same:
  assumes "list_all2 (named_as sg) ks0 ds" and "list_all2 (stored_as sg files) ds ks"
    and "readable_in S files" and "told_apart (sg_fingerprint sg) S" and "set ks0 \<subseteq> S"
  shows "ks = ks0"
  using assms(1,2,5)
proof (induction ks0 ds arbitrary: ks rule: list_all2_induct)
  case Nil
  then show ?case by simp
next
  case (Cons k0 ks0 d ds)
  then obtain k ks1 where ks: "ks = k # ks1" "stored_as sg files d k" "list_all2 (stored_as sg files) ds ks1"
    by (auto simp: list_all2_Cons1)
  have "k = k0"
    using told_apartD [OF assms(4) readable_inD [OF assms(3)], of "xd_ref d" k k0] ks(2) Cons.hyps(1) Cons.prems(2)
    by (auto simp: stored_as_def named_as_def)
  then show ?case using Cons.IH [OF ks(3)] Cons.prems(2) ks(1) by simp
qed

lemma resolve_stage_kernels:
  assumes "resolve_stage sg mode can_use prior build s = (Inr (ks, ds, records), s')"
  shows "build = Inr ks \<or> can_use (ps_kernels s) \<and> list_all2 (stored_as sg (ps_kernels s)) prior ks"
proof -
  obtain kv where "resolve_kernels sg (can_use (ps_kernels s)) (ps_kernels s) prior build = Inr (ks, kv)"
    using assms by (auto simp: resolve_stage_def io_simps)
  then show ?thesis using resolve_kernels_cases by blast
qed

lemma resolve_stage_built:
  assumes run: "resolve_stage sg mode can_use prior build s = (Inr (ks, ds, records), s')"
    and S: "readable_in S (ps_kernels s)" "told_apart (sg_fingerprint sg) S"
    and built: "\<And>ks. build = Inr ks \<Longrightarrow> set ks \<subseteq> S \<and> distinct (map (sg_id sg) ks)"
    and prior: "can_use (ps_kernels s) \<Longrightarrow> \<exists>ks0. build = Inr ks0 \<and> list_all2 (named_as sg) ks0 prior"
  shows "build = Inr ks \<and> stage_done sg s ks ds records s'"
proof -
  have ks: "build = Inr ks"
    using resolve_stage_kernels [OF run]
  proof
    assume "can_use (ps_kernels s) \<and> list_all2 (stored_as sg (ps_kernels s)) prior ks"
    moreover from this obtain ks0 where "build = Inr ks0" "list_all2 (named_as sg) ks0 prior"
      using prior by blast
    ultimately show ?thesis using read_back_same [OF _ _ S] built by blast
  qed
  have "no_impostor sg (ps_kernels s) k" if "k \<in> set ks" for k
    using that built [OF ks] told_apartD [OF S(2) readable_inD [OF S(1)]] unfolding no_impostor_def by blast
  then show ?thesis using resolve_stage_run [OF run] built [OF ks] ks by blast
qed

definition stage_held ::
    "('k, 'r) stage \<Rightarrow> 'k list \<Rightarrow> execution_decision list \<Rightarrow> 'r list \<Rightarrow> ('k, 'r) product_store \<Rightarrow> bool" where
  "stage_held sg ks ds records s \<longleftrightarrow>
     list_all2 (decided_as sg) ks ds \<and>
     (\<exists>rss. records = concat rss \<and> list_all2 (stored_rows sg (ps_rows s)) ks rss) \<and>
     (\<forall>k \<in> set ks. map_of (ps_kernels s) (stage_ref sg k) = Some (Readable k))"

lemma stage_done_held: "stage_done sg s ks ds records s' \<Longrightarrow> stage_held sg ks ds records s'"
  by (simp add: stage_done_def stage_held_def)

lemma decided_named: "list_all2 (decided_as sg) ks ds \<Longrightarrow> list_all2 (named_as sg) ks ds"
  by (erule list_all2_mono) (simp add: decided_as_def named_as_def)

lemma named_checkpoint_stage:
  "named_as (checkpoint_stage ss es) = named_as (checkpoint_stage ss' es')"
  by (simp add: fun_eq_iff named_as_def checkpoint_stage_def stage_ref_def)

text \<open>Identifiers of built products come from a digest, so their roots are told apart.\<close>

locale content_addressed =
  fixes build :: "'i \<Rightarrow> 'k list result" and kind :: product_kind and ident :: "'k \<Rightarrow> string"
  assumes digest_ids: "build x = Inr ks \<Longrightarrow> k \<in> set ks \<Longrightarrow> \<exists>text. ident k = sha256_hex text"
begin

lemma plain_ids: "build x = Inr ks \<Longrightarrow> k \<in> set ks \<Longrightarrow> plain_id (ident k)"
  using digest_ids plain_digest by metis

lemma plain_refs:
  assumes "build x = Inr ks" and "list_all2 (\<lambda>k d. xd_ref d = product_ref kind (ident k)) ks ds" and "d \<in> set ds"
  shows "\<exists>j. xd_ref d = product_ref kind j \<and> plain_id j"
  using list_all2_right [OF assms(2,3)] plain_ids [OF assms(1)] by blast

end

interpretation facts_products: content_addressed
  "\<lambda>cs. r_bind (build_economic_facts cs) (\<lambda>f. Inr [f])" ECONOMIC_FACTS ef_economic_facts_id
  by unfold_locales
    (auto simp: build_economic_facts_def stable_economic_facts_id_def stable_product_id_def result_simps)

interpretation state_products: content_addressed
  "\<lambda>(f, cs, es). build_reconciliation_states f cs es" RECONCILIATION_STATE rs_reconciliation_state_id
proof (unfold_locales, clarsimp)
  fix f cs es ks k
  assume built: "build_reconciliation_states f cs es = Inr ks" and k: "k \<in> set ks"
  obtain timed subjects where "list_all2 (\<lambda>s st. state_for_subject s (ef_economic_facts_id f)
      (filter (\<lambda>l. tl_subject l = s) timed) (subject_claims cs s)
      (eo_observation_id ` set (eset_evidence_observation_records es)) = Inr st) subjects ks"
    by (rule build_states_parts [OF built])
  from list_all2_right [OF this k]
  obtain s i legs claims refs where "state_for_subject s i legs claims refs = Inr k" by blast
  then show "\<exists>text. rs_reconciliation_state_id k = sha256_hex text"
    by (auto simp: state_for_subject_def stable_reconciliation_state_id_def stable_product_id_def result_simps)
qed

interpretation checkpoint_products: content_addressed build_checkpoints CHECKPOINT ck_checkpoint_id
proof unfold_locales
  fix ss ks k
  assume "build_checkpoints ss = Inr ks" "k \<in> set ks"
  then obtain row where "checkpoint_of_rows row = Inr k"
    by (auto simp: build_checkpoints_def result_simps dest!: r_map_set)
  then show "\<exists>text. ck_checkpoint_id k = sha256_hex text"
    by (auto simp: checkpoint_of_rows_def mk_checkpoint_def stable_checkpoint_id_def stable_product_id_def
        result_simps Let_def split: prod.splits)
qed

lemma scratch_Inr_iff:
  "scratch_products cs es = Inr (f, ss, cks) \<longleftrightarrow>
     build_economic_facts cs = Inr f \<and> build_reconciliation_states f cs es = Inr ss \<and> build_checkpoints ss = Inr cks"
  by (auto simp: scratch_products_def result_simps)

lemma stage_fields [simp]:
  "sg_kind reconciliation_stage = RECONCILIATION_STATE"
  "sg_id reconciliation_stage = rs_reconciliation_state_id"
  "sg_fingerprint reconciliation_stage = reconciliation_state_fingerprint"
  "sg_kind (checkpoint_stage ss es) = CHECKPOINT"
  "sg_id (checkpoint_stage ss es) = ck_checkpoint_id"
  "sg_fingerprint (checkpoint_stage ss es) = checkpoint_fingerprint"
  by (simp_all add: reconciliation_stage_def checkpoint_stage_def)

lemma collision_freeD:
  assumes "collision_free U" and "(cs, es) \<in> un_inputs U" and "build_economic_facts cs = Inr f"
    and "build_reconciliation_states f cs es = Inr ss"
  shows "set ss \<subseteq> un_states U \<and> distinct (map rs_reconciliation_state_id ss)"
    and "build_checkpoints ss = Inr cks \<Longrightarrow>
      set cks \<subseteq> un_checkpoints U \<and> distinct (map ck_checkpoint_id cks)"
proof -
  have "builds_in U cs es" using assms(1,2) unfolding collision_free_def by blast
  note b = this [unfolded builds_in_def, rule_format, OF assms(3), THEN conjunct2, rule_format, OF assms(4)]
  show "set ss \<subseteq> un_states U \<and> distinct (map rs_reconciliation_state_id ss)" using b by blast
  show "build_checkpoints ss = Inr cks \<Longrightarrow> set cks \<subseteq> un_checkpoints U \<and> distinct (map ck_checkpoint_id cks)"
    using b by blast
qed

lemma resolve_states_run:
  assumes U: "collision_free U" "readable_in (un_states U) (ps_kernels s)" "(cs, es) \<in> un_inputs U"
    and prior: "\<forall>p. prior_plan = Some p \<longrightarrow> sound_plan U p"
    and fp: "claim_set_execution_fingerprint cs = Inr fingerprint"
    and f: "build_economic_facts cs = Inr f"
    and run: "resolve_reconciliation_states mode prior_plan fingerprint prior_id cs es f reused s =
      (Inr (ss, ds, records), s')"
  shows "build_reconciliation_states f cs es = Inr ss \<and> stage_done reconciliation_stage s ss ds records s'"
proof (rule resolve_stage_built [OF run [unfolded resolve_reconciliation_states_def] U(2)])
  show "told_apart (sg_fingerprint reconciliation_stage) (un_states U)"
    using U(1) by (simp add: collision_free_def)
  show "set ks \<subseteq> un_states U \<and> distinct (map (sg_id reconciliation_stage) ks)"
    if "build_reconciliation_states f cs es = Inr ks" for ks
    using collision_freeD(1) [OF U(1,3) f that] by simp
  assume "can_use_prior_states mode prior_plan fingerprint prior_id es reused (ps_kernels s)"
  then obtain p where p: "prior_plan = Some p" "xp_claim_set_fingerprint p = fingerprint"
    by (auto simp: can_use_prior_states_def)
  then have "plan_of_inputs p cs es" using sound_plan_same [OF U(1) _ U(3)] prior fp by simp
  then show "\<exists>ks0. build_reconciliation_states f cs es = Inr ks0 \<and>
      list_all2 (named_as reconciliation_stage) ks0 (prior_states prior_plan)"
    using f p(1) by (auto simp: plan_of_inputs_def plan_names_def scratch_Inr_iff prior_states_def)
qed

lemma resolve_checkpoints_run:
  assumes U: "collision_free U" "readable_in (un_checkpoints U) (ps_kernels s)" "(cs, es) \<in> un_inputs U"
    and prior: "\<forall>p. prior_plan = Some p \<longrightarrow> sound_plan U p"
    and fp: "claim_set_execution_fingerprint cs = Inr fingerprint"
    and f: "build_economic_facts cs = Inr f" and ss: "build_reconciliation_states f cs es = Inr ss"
    and run: "resolve_checkpoints mode prior_plan fingerprint es ss reused s = (Inr (cks, ds, records), s')"
  shows "build_checkpoints ss = Inr cks \<and> stage_done (checkpoint_stage ss es) s cks ds records s'"
proof (rule resolve_stage_built [OF run [unfolded resolve_checkpoints_def] U(2)])
  show "told_apart (sg_fingerprint (checkpoint_stage ss es)) (un_checkpoints U)"
    using U(1) by (simp add: collision_free_def)
  show "set ks \<subseteq> un_checkpoints U \<and> distinct (map (sg_id (checkpoint_stage ss es)) ks)"
    if "build_checkpoints ss = Inr ks" for ks
    using collision_freeD(2) [OF U(1,3) f ss that] by simp
  assume "can_use_prior_checkpoints mode prior_plan fingerprint reused (ps_kernels s)"
  then obtain p where p: "prior_plan = Some p" "xp_claim_set_fingerprint p = fingerprint"
    by (auto simp: can_use_prior_checkpoints_def)
  then have "plan_of_inputs p cs es" using sound_plan_same [OF U(1) _ U(3)] prior fp by simp
  then show "\<exists>ks0. build_checkpoints ss = Inr ks0 \<and>
      list_all2 (named_as (checkpoint_stage ss es)) ks0 (prior_checkpoints prior_plan)"
    using f ss p(1) by (auto simp: plan_of_inputs_def plan_names_def scratch_Inr_iff prior_checkpoints_def)
qed

section \<open>Pruning\<close>

lemma under_root_paths:
  "under_root kind i (product_ref kind i)" "under_root kind i (rows_path kind i)"
  "under_root ECONOMIC_FACTS i (facts_path i)" "under_root ECONOMIC_FACTS i (annotations_path i)"
  by (cases kind; simp add: under_root_def product_ref_def rows_path_def facts_path_def annotations_path_def)+

lemma named_refs: "list_all2 (named_as sg) ks ds \<Longrightarrow>
    list_all2 (\<lambda>k d. xd_ref d = product_ref (sg_kind sg) (sg_id sg k)) ks ds"
  by (erule list_all2_mono) (simp add: named_as_def stage_ref_def)

lemma product_ref_inj: "product_ref kind i = product_ref kind j \<longleftrightarrow> i = j"
  by (simp add: product_ref_def product_root_def)

definition plain_ref :: "product_kind \<Rightarrow> string \<Rightarrow> bool" where
  "plain_ref kind r \<longleftrightarrow> (\<exists>j. r = product_ref kind j \<and> plain_id j)"

text \<open>Every reference in a sound plan is that of a product with a plain identifier.\<close>

lemma sound_plan_refs:
  assumes "sound_plan U p"
  shows "(\<forall>d. xp_economic_facts p = Some d \<longrightarrow> plain_ref ECONOMIC_FACTS (xd_ref d)) \<and>
    (\<forall>d \<in> set (xp_reconciliation_states p). plain_ref RECONCILIATION_STATE (xd_ref d)) \<and>
    (\<forall>d \<in> set (xp_checkpoints p). plain_ref CHECKPOINT (xd_ref d))"
proof -
  consider "empty_plan p" | cs es f ss cks where "scratch_products cs es = Inr (f, ss, cks)" "plan_names p es f ss cks"
    using assms by (auto simp: sound_plan_def plan_of_inputs_def)
  then show ?thesis
  proof cases
    case 1
    then show ?thesis by (simp add: empty_plan_def)
  next
    case (2 cs es f ss cks)
    then have built: "build_economic_facts cs = Inr f" "build_reconciliation_states f cs es = Inr ss"
        "build_checkpoints ss = Inr cks"
      by (simp_all add: scratch_Inr_iff)
    have names: "list_all2 (\<lambda>k d. xd_ref d = product_ref RECONCILIATION_STATE (rs_reconciliation_state_id k)) ss
        (xp_reconciliation_states p)"
      "list_all2 (\<lambda>k d. xd_ref d = product_ref CHECKPOINT (ck_checkpoint_id k)) cks (xp_checkpoints p)"
      using 2(2) named_refs [of reconciliation_stage ss] named_refs [of "checkpoint_stage ss es" cks]
      by (simp_all add: plan_names_def)
    have "plain_id (ef_economic_facts_id f)" using facts_products.plain_ids [of cs "[f]" f] built(1) by simp
    then have "plain_ref ECONOMIC_FACTS (xd_ref d)" if "xp_economic_facts p = Some d" for d
      using 2(2) that by (auto simp: plan_names_def facts_named_def plain_ref_def)
    moreover have "plain_ref RECONCILIATION_STATE (xd_ref d)" if "d \<in> set (xp_reconciliation_states p)" for d
      using state_products.plain_refs [of "(f, cs, es)" ss _ d] built(2) names(1) that
      unfolding plain_ref_def by simp
    moreover have "plain_ref CHECKPOINT (xd_ref d)" if "d \<in> set (xp_checkpoints p)" for d
      using checkpoint_products.plain_refs [OF built(3) names(2) that] unfolding plain_ref_def .
    ultimately show ?thesis by blast
  qed
qed

text \<open>Held products stay held when only other roots are removed.\<close>

definition held_in ::
    "evidence_set \<Rightarrow> economic_facts \<Rightarrow> reconciliation_state list \<Rightarrow> checkpoint list \<Rightarrow> execution_plan \<Rightarrow>
      fact_artifacts \<Rightarrow> balance_snapshot list \<Rightarrow> balance_reference list \<Rightarrow> workspace \<Rightarrow> bool" where
  "held_in es f ss cks p art snapshots references ws \<longleftrightarrow>
     (\<exists>d. xp_economic_facts p = Some d \<and> facts_named f d \<and> facts_held f d art ws) \<and>
     stage_held reconciliation_stage ss (xp_reconciliation_states p) snapshots (ws_states ws) \<and>
     stage_held (checkpoint_stage ss es) cks (xp_checkpoints p) references (ws_checkpoints ws)"

lemma stage_held_same:
  assumes "stage_held sg ks ds records s"
    and "\<And>k. k \<in> set ks \<Longrightarrow> map_of (ps_kernels s') (stage_ref sg k) = map_of (ps_kernels s) (stage_ref sg k)"
    and "\<And>k. k \<in> set ks \<Longrightarrow> map_of (ps_rows s') (stage_rows_path sg k) = map_of (ps_rows s) (stage_rows_path sg k)"
  shows "stage_held sg ks ds records s'"
proof -
  obtain rss where rss: "records = concat rss" "list_all2 (stored_rows sg (ps_rows s)) ks rss"
    using assms(1) by (auto simp: stage_held_def)
  have "list_all2 (stored_rows sg (ps_rows s')) ks rss"
    using rss(2) by (rule list.rel_mono_strong) (simp add: stored_rows_def assms(3))
  then show ?thesis using assms(1,2) rss(1) unfolding stage_held_def by auto
qed

lemma held_in_same:
  assumes held: "held_in es f ss cks p art snapshots references ws"
    and "same_under ECONOMIC_FACTS (ef_economic_facts_id f) ws ws'"
    and "\<And>k. k \<in> set ss \<Longrightarrow> same_under RECONCILIATION_STATE (rs_reconciliation_state_id k) ws ws'"
    and "\<And>k. k \<in> set cks \<Longrightarrow> same_under CHECKPOINT (ck_checkpoint_id k) ws ws'"
  shows "held_in es f ss cks p art snapshots references ws'"
proof -
  obtain d where d: "xp_economic_facts p = Some d" "facts_named f d" "facts_held f d art ws"
    using held by (auto simp: held_in_def)
  have "facts_held f d art ws'"
    using d(2,3) assms(2) under_root_paths
    unfolding facts_held_def facts_named_def same_under_def by metis
  moreover have "stage_held reconciliation_stage ss (xp_reconciliation_states p) snapshots (ws_states ws')"
  proof (rule stage_held_same)
    show "stage_held reconciliation_stage ss (xp_reconciliation_states p) snapshots (ws_states ws)"
      using held by (simp add: held_in_def)
  qed (use assms(3) under_root_paths in \<open>simp_all add: same_under_def stage_ref_def stage_rows_path_def\<close>)
  moreover have "stage_held (checkpoint_stage ss es) cks (xp_checkpoints p) references (ws_checkpoints ws')"
  proof (rule stage_held_same)
    show "stage_held (checkpoint_stage ss es) cks (xp_checkpoints p) references (ws_checkpoints ws)"
      using held by (simp add: held_in_def)
  qed (use assms(4) under_root_paths in \<open>simp_all add: same_under_def stage_ref_def stage_rows_path_def\<close>)
  ultimately show ?thesis using d unfolding held_in_def by blast
qed

definition plan_prunes :: "execution_plan option \<Rightarrow> string \<Rightarrow> execution_decision list \<Rightarrow> execution_decision list \<Rightarrow> string list" where
  "plan_prunes prior_plan facts_ref sds cds =
     pruned_economic_facts_refs prior_plan facts_ref @
     pruned_refs (map xd_ref (prior_states prior_plan)) (map xd_ref sds) @
     pruned_refs (map xd_ref (prior_checkpoints prior_plan)) (map xd_ref cds)"

lemma plan_prunes_other:
  assumes prior: "\<forall>p. prior_plan = Some p \<longrightarrow> sound_plan U p"
    and r: "r \<in> set (plan_prunes prior_plan (product_ref ECONOMIC_FACTS i) sds cds)"
  shows "prunable ECONOMIC_FACTS i r"
    and "product_ref RECONCILIATION_STATE j \<in> xd_ref ` set sds \<Longrightarrow> prunable RECONCILIATION_STATE j r"
    and "product_ref CHECKPOINT j \<in> xd_ref ` set cds \<Longrightarrow> prunable CHECKPOINT j r"
proof -
  obtain p where p: "prior_plan = Some p"
    using r by (cases prior_plan)
      (auto simp: plan_prunes_def pruned_economic_facts_refs_def pruned_refs_def prior_states_def prior_checkpoints_def)
  note refs = sound_plan_refs [of U p]
  have sound: "sound_plan U p" using prior p by simp
  consider (facts) "plain_ref ECONOMIC_FACTS r" "r \<noteq> product_ref ECONOMIC_FACTS i"
    | (states) "plain_ref RECONCILIATION_STATE r" "r \<notin> xd_ref ` set sds"
    | (checkpoints) "plain_ref CHECKPOINT r" "r \<notin> xd_ref ` set cds"
    using r refs [OF sound]
    by (auto simp: plan_prunes_def p pruned_economic_facts_refs_def pruned_refs_def prior_states_def
        prior_checkpoints_def split: option.splits if_splits)
  then have all: "prunable ECONOMIC_FACTS i r \<and>
      (product_ref RECONCILIATION_STATE j \<in> xd_ref ` set sds \<longrightarrow> prunable RECONCILIATION_STATE j r) \<and>
      (product_ref CHECKPOINT j \<in> xd_ref ` set cds \<longrightarrow> prunable CHECKPOINT j r)"
    by cases (auto simp: plain_ref_def prunable_def)
  from all show "prunable ECONOMIC_FACTS i r" by blast
  from all show "product_ref RECONCILIATION_STATE j \<in> xd_ref ` set sds \<Longrightarrow> prunable RECONCILIATION_STATE j r" by blast
  from all show "product_ref CHECKPOINT j \<in> xd_ref ` set cds \<Longrightarrow> prunable CHECKPOINT j r" by blast
qed

lemma prune_keeps_held:
  assumes held: "held_in es f ss cks p art snapshots references ws"
    and built: "scratch_products cs es = Inr (f, ss, cks)"
    and prior: "\<forall>q. prior_plan = Some q \<longrightarrow> sound_plan U q"
  shows "held_in es f ss cks p art snapshots references
    (prune_product_roots (plan_prunes prior_plan (product_ref ECONOMIC_FACTS (ef_economic_facts_id f))
      (xp_reconciliation_states p) (xp_checkpoints p)) ws)"
proof (rule held_in_same [OF held])
  note parts = built [unfolded scratch_Inr_iff]
  let ?refs = "plan_prunes prior_plan (product_ref ECONOMIC_FACTS (ef_economic_facts_id f))
    (xp_reconciliation_states p) (xp_checkpoints p)"
  have "plain_id (ef_economic_facts_id f)" using facts_products.plain_ids [of cs "[f]" f] parts by simp
  then show "same_under ECONOMIC_FACTS (ef_economic_facts_id f) ws (prune_product_roots ?refs ws)"
    using prune_roots_keep plan_prunes_other(1) [OF prior] by blast
  have named: "list_all2 (named_as reconciliation_stage) ss (xp_reconciliation_states p)"
      "list_all2 (named_as (checkpoint_stage ss es)) cks (xp_checkpoints p)"
    using held decided_named by (auto simp: held_in_def stage_held_def)
  {
    fix k assume k: "k \<in> set ss"
    then have "plain_id (rs_reconciliation_state_id k)"
      using state_products.plain_ids [of "(f, cs, es)" ss k] parts by simp
    moreover have "product_ref RECONCILIATION_STATE (rs_reconciliation_state_id k) \<in>
        xd_ref ` set (xp_reconciliation_states p)"
      using list_all2_left [OF named(1) k] by (force simp: named_as_def stage_ref_def)
    ultimately show "same_under RECONCILIATION_STATE (rs_reconciliation_state_id k) ws (prune_product_roots ?refs ws)"
      using prune_roots_keep plan_prunes_other(2) [OF prior] by blast
  next
    fix k assume k: "k \<in> set cks"
    then have "plain_id (ck_checkpoint_id k)"
      using checkpoint_products.plain_ids [of ss cks k] parts by simp
    moreover have "product_ref CHECKPOINT (ck_checkpoint_id k) \<in> xd_ref ` set (xp_checkpoints p)"
      using list_all2_left [OF named(2) k] by (force simp: named_as_def stage_ref_def)
    ultimately show "same_under CHECKPOINT (ck_checkpoint_id k) ws (prune_product_roots ?refs ws)"
      using prune_roots_keep plan_prunes_other(3) [OF prior] by blast
  }
qed

end
