(* ===== verification/Product_Executions.thy ===== *)
theory Product_Executions
  imports Product_Runs
begin

text \<open>
  A whole execution of the target products: its results are those of building from scratch, the
  files hold them afterwards, and an execution that fails leaves the summary of the last one.
\<close>

section \<open>A successful execution\<close>

definition result_of ::
    "claim_set \<Rightarrow> economic_facts \<Rightarrow> reconciliation_state list \<Rightarrow> checkpoint list \<Rightarrow> fact_artifacts \<Rightarrow>
      balance_snapshot list \<Rightarrow> balance_reference list \<Rightarrow> execution_result \<Rightarrow> bool" where
  "result_of cs f ss cks art snapshots references r \<longleftrightarrow>
     claim_set_execution_fingerprint cs = Inr (xp_claim_set_fingerprint (xr_plan r)) \<and>
     xp_signature_version (xr_plan r) = SIGNATURE_VERSION \<and>
     xr_economic_facts_id r = ef_economic_facts_id f \<and>
     xr_economic_facts_ref r = product_ref ECONOMIC_FACTS (ef_economic_facts_id f) \<and>
     xr_reconciliation_state_ids r = map rs_reconciliation_state_id ss \<and>
     xr_reconciliation_state_refs r = map (\<lambda>k. product_ref RECONCILIATION_STATE (rs_reconciliation_state_id k)) ss \<and>
     xr_checkpoint_ids r = map ck_checkpoint_id cks \<and>
     xr_checkpoint_refs r = map (\<lambda>k. product_ref CHECKPOINT (ck_checkpoint_id k)) cks \<and>
     xr_facts r = art_facts art \<and> xr_fact_annotations r = art_annotations art \<and>
     xr_balance_snapshots r = sort_key (\<lambda>s. balance_target_match_key (bs_target s)) snapshots \<and>
     xr_balance_references r = sort_key reference_order_key references"

lemma decided_refs:
  "list_all2 (decided_as sg) ks ds \<Longrightarrow> map xd_ref ds = map (\<lambda>k. product_ref (sg_kind sg) (sg_id sg k)) ks"
  by (induction rule: list_all2_induct) (simp_all add: decided_as_def stage_ref_def)

lemma full_execution_parts:
  assumes "full_execution mode prior_plan prior_id cs es records ws = (Inr r, ws')"
  obtains fingerprint f d art ws1 ss sds snapshots s2 cks cds references s3 where
    "claim_set_execution_fingerprint cs = Inr fingerprint"
    and "resolve_economic_facts mode prior_plan fingerprint cs es records ws = (Inr (f, d, art), ws1)"
    and "resolve_reconciliation_states mode prior_plan fingerprint prior_id cs es f (xd_kernel_action d = REUSED)
      (ws_states ws1) = (Inr (ss, sds, snapshots), s2)"
    and "resolve_checkpoints mode prior_plan fingerprint es ss (list_all (\<lambda>d. xd_kernel_action d = REUSED) sds)
      (ws_checkpoints ws1) = (Inr (cks, cds, references), s3)"
    and "ws' = prune_product_roots (plan_prunes prior_plan (xd_ref d) sds cds)
      (ws1\<lparr>ws_states := s2, ws_checkpoints := s3\<rparr>)"
    and "r = \<lparr>xr_economic_facts_id = ef_economic_facts_id f, xr_economic_facts_ref = xd_ref d,
        xr_reconciliation_state_ids = map rs_reconciliation_state_id ss,
        xr_reconciliation_state_refs = map xd_ref sds,
        xr_checkpoint_ids = map ck_checkpoint_id cks, xr_checkpoint_refs = map xd_ref cds,
        xr_facts = art_facts art, xr_fact_annotations = art_annotations art,
        xr_balance_snapshots = sort_key (\<lambda>s. balance_target_match_key (bs_target s)) snapshots,
        xr_balance_references = sort_key reference_order_key references,
        xr_summary = xr_summary r,
        xr_plan = \<lparr>xp_signature_version = SIGNATURE_VERSION, xp_update_mode_requested = update_mode_text mode,
          xp_update_mode_effective = update_mode_text mode, xp_claim_set_fingerprint = fingerprint,
          xp_economic_facts = Some d, xp_reconciliation_states = sds, xp_checkpoints = cds,
          xp_pruned_reconciliation_state_refs = pruned_refs (map xd_ref (prior_states prior_plan)) (map xd_ref sds),
          xp_pruned_checkpoint_refs = pruned_refs (map xd_ref (prior_checkpoints prior_plan)) (map xd_ref cds)\<rparr>,
        xr_update_mode = mode\<rparr>"
    and "xr_summary r = summary_with_economic_prunes (summarize_target_product_execution (xr_plan r))
      (pruned_economic_facts_refs prior_plan (xd_ref d))"
  using assms
  by (auto simp: full_execution_def finish_execution_def io_simps plan_prunes_def Let_def split: prod.splits)

lemma full_execution_run:
  assumes U: "collision_free U" "stored_in U ws" "(cs, es) \<in> un_inputs U"
    and prior: "\<forall>p. prior_plan = Some p \<longrightarrow> sound_plan U p"
    and run: "full_execution mode prior_plan prior_id cs es records ws = (Inr r, ws')"
  shows "\<exists>f ss cks art snapshots references. scratch_products cs es = Inr (f, ss, cks) \<and>
    result_of cs f ss cks art snapshots references r \<and>
    held_in es f ss cks (xr_plan r) art snapshots references ws' \<and>
    (\<exists>d. xp_economic_facts (xr_plan r) = Some d \<and>
      economic_facts_compatibility_signature f cs es records = Inr (xd_signature d)) \<and>
    ws_summary ws' = ws_summary ws"
proof (rule full_execution_parts [OF run])
  fix fingerprint f d art ws1 ss sds snapshots s2 cks cds references s3
  assume fp: "claim_set_execution_fingerprint cs = Inr fingerprint"
    and facts: "resolve_economic_facts mode prior_plan fingerprint cs es records ws = (Inr (f, d, art), ws1)"
    and states: "resolve_reconciliation_states mode prior_plan fingerprint prior_id cs es f
      (xd_kernel_action d = REUSED) (ws_states ws1) = (Inr (ss, sds, snapshots), s2)"
    and checkpoints: "resolve_checkpoints mode prior_plan fingerprint es ss
      (list_all (\<lambda>d. xd_kernel_action d = REUSED) sds) (ws_checkpoints ws1) = (Inr (cks, cds, references), s3)"
    and ws': "ws' = prune_product_roots (plan_prunes prior_plan (xd_ref d) sds cds)
      (ws1\<lparr>ws_states := s2, ws_checkpoints := s3\<rparr>)"
    and r: "r = \<lparr>xr_economic_facts_id = ef_economic_facts_id f, xr_economic_facts_ref = xd_ref d,
        xr_reconciliation_state_ids = map rs_reconciliation_state_id ss,
        xr_reconciliation_state_refs = map xd_ref sds,
        xr_checkpoint_ids = map ck_checkpoint_id cks, xr_checkpoint_refs = map xd_ref cds,
        xr_facts = art_facts art, xr_fact_annotations = art_annotations art,
        xr_balance_snapshots = sort_key (\<lambda>s. balance_target_match_key (bs_target s)) snapshots,
        xr_balance_references = sort_key reference_order_key references,
        xr_summary = xr_summary r,
        xr_plan = \<lparr>xp_signature_version = SIGNATURE_VERSION, xp_update_mode_requested = update_mode_text mode,
          xp_update_mode_effective = update_mode_text mode, xp_claim_set_fingerprint = fingerprint,
          xp_economic_facts = Some d, xp_reconciliation_states = sds, xp_checkpoints = cds,
          xp_pruned_reconciliation_state_refs = pruned_refs (map xd_ref (prior_states prior_plan)) (map xd_ref sds),
          xp_pruned_checkpoint_refs = pruned_refs (map xd_ref (prior_checkpoints prior_plan)) (map xd_ref cds)\<rparr>,
        xr_update_mode = mode\<rparr>"
  note f = resolve_economic_facts_run [OF U prior fp facts]
  have "ws_states ws1 = ws_states ws" "ws_checkpoints ws1 = ws_checkpoints ws" "ws_summary ws1 = ws_summary ws"
    using f by (simp_all add: other_parts_same_def)
  note same = this
  have s: "build_reconciliation_states f cs es = Inr ss \<and>
      stage_done reconciliation_stage (ws_states ws) ss sds snapshots s2"
    by (rule resolve_states_run [OF U(1) _ U(3) prior fp conjunct1 [OF f] states [unfolded same]])
      (use U(2) in \<open>simp add: stored_in_def\<close>)
  have c: "build_checkpoints ss = Inr cks \<and>
      stage_done (checkpoint_stage ss es) (ws_checkpoints ws) cks cds references s3"
    by (rule resolve_checkpoints_run [OF U(1) _ U(3) prior fp conjunct1 [OF f] conjunct1 [OF s]
          checkpoints [unfolded same]])
      (use U(2) in \<open>simp add: stored_in_def\<close>)
  have built: "scratch_products cs es = Inr (f, ss, cks)" using f s c by (simp add: scratch_Inr_iff)
  let ?p = "xr_plan r"
  have p: "xp_economic_facts ?p = Some d" "xp_reconciliation_states ?p = sds" "xp_checkpoints ?p = cds"
    by (subst r, simp)+
  have "held_in es f ss cks ?p art snapshots references (ws1\<lparr>ws_states := s2, ws_checkpoints := s3\<rparr>)"
    using f stage_done_held [OF conjunct2 [OF s]] stage_done_held [OF conjunct2 [OF c]]
    by (auto simp: held_in_def p facts_held_def)
  from prune_keeps_held [OF this built prior]
  have held: "held_in es f ss cks ?p art snapshots references ws'"
    using f by (simp add: ws' p facts_named_def)
  have refs: "map xd_ref sds = map (\<lambda>k. product_ref RECONCILIATION_STATE (rs_reconciliation_state_id k)) ss"
      "map xd_ref cds = map (\<lambda>k. product_ref CHECKPOINT (ck_checkpoint_id k)) cks"
    using decided_refs [of reconciliation_stage ss sds] decided_refs [of "checkpoint_stage ss es" cks cds] s c
    by (simp_all add: stage_done_def)
  have "result_of cs f ss cks art snapshots references r"
    unfolding result_of_def by (subst r, simp add: fp refs f [unfolded facts_named_def])+
  moreover have "ws_summary ws' = ws_summary ws" by (simp add: ws' same)
  ultimately show ?thesis using built held p(1) f by blast
qed

section \<open>Any execution\<close>

lemma readable_write [intro]: "readable_in S files \<Longrightarrow> k \<in> S \<Longrightarrow> readable_in S (write_file p k files)"
  by (auto simp: readable_in_def)

lemma readable_remove [intro]: "readable_in S files \<Longrightarrow> readable_in S (remove_tree tree files)"
  by (auto simp: readable_in_def map_of_remove_tree)

lemma resolve_rows_keeps: "io_keeps (\<lambda>s. readable_in S (ps_kernels s)) (resolve_rows sg k action)"
  unfolding resolve_rows_def refresh_rows_def
  by (auto intro!: keeps_intros keeps_update split: option.splits stored_file.splits)

lemma resolve_kernel_keeps:
  "k \<in> S \<Longrightarrow> io_keeps (\<lambda>s. readable_in S (ps_kernels s)) (resolve_kernel sg mode prior k acc)"
  unfolding resolve_kernel_def Let_def
  by (auto intro!: keeps_intros keeps_update resolve_rows_keeps readable_write split: prod.splits)

lemma resolve_stage_keeps:
  assumes "\<And>ks. build = Inr ks \<Longrightarrow> set ks \<subseteq> S"
  shows "io_keeps (\<lambda>s. readable_in S (ps_kernels s)) (resolve_stage sg mode can_use prior build)"
  unfolding resolve_stage_def
proof (rule keeps_bind [OF keeps_get], rule keeps_bind [OF keeps_lift])
  fix files s s' acc t t'
  assume files: "readable_in S (ps_kernels s)" "io_get ps_kernels s = (Inr files, s')"
    and kernels: "io_lift (resolve_kernels sg (can_use files) files prior build) t = (Inr acc, t')"
  obtain ks kv where acc: "acc = (ks, kv)" by (cases acc)
  have readable: "readable_in S files" using files by (simp add: io_simps)
  have stored: "k \<in> S" if "list_all2 (stored_as sg files) prior ks" "k \<in> set ks" for k
    using list_all2_right [OF that] readable_inD [OF readable] by (auto simp: stored_as_def)
  have "resolve_kernels sg (can_use files) files prior build = Inr (ks, kv)"
    using kernels acc by (simp add: io_simps)
  then have ks: "set ks \<subseteq> S" using resolve_kernels_cases assms stored by blast
  show "io_keeps (\<lambda>s. readable_in S (ps_kernels s))
      (case acc of (kernels, kv) \<Rightarrow>
        io_bind (io_fold (resolve_kernel sg mode (index_by xd_ref prior)) kernels (kv, [], []))
          (\<lambda>(_, records, decisions). io_return (kernels, decisions, records)))"
    using ks unfolding acc by (auto intro!: keeps_intros keeps_fold resolve_kernel_keeps)
qed

definition keeps_universe :: "universe \<Rightarrow> string stored_file option \<Rightarrow> workspace \<Rightarrow> bool" where
  "keeps_universe U summary ws \<longleftrightarrow> stored_in U ws \<and> ws_summary ws = summary"

lemma prune_stored: "stored_in U ws \<Longrightarrow> stored_in U (prune_product_roots refs ws)"
proof (induction refs arbitrary: ws)
  case (Cons r refs)
  have "stored_in U (prune_product_root r ws)"
    using Cons.prems
    by (auto simp: stored_in_def prune_product_root_def prune_store_def split: option.split)
  then show ?case using Cons.IH by (simp add: prune_product_roots_def)
qed simp

lemma prune_keeps: "io_keeps (keeps_universe U summary) (io_update (prune_product_roots refs))"
  by (rule keeps_update) (simp add: keeps_universe_def prune_stored)

lemma build_economic_kernel_facts:
  "build_economic_kernel cs files can_use invalid = Inr ek \<Longrightarrow> build_economic_facts cs = Inr (ek_facts ek)"
  by (auto simp: build_economic_kernel_def Let_def result_simps)

lemma economic_kernel_facts:
  assumes "resolve_economic_facts_kernel mode prior_plan fingerprint cs files = Inr ek" and "ek_built ek"
  shows "build_economic_facts cs = Inr (ek_facts ek)"
proof -
  have "ek_built ek \<longrightarrow> (\<exists>can_use invalid. build_economic_kernel cs files can_use invalid = Inr ek)"
    using assms(1)
    by (auto simp: resolve_economic_facts_kernel_def result_simps
        split: option.splits stored_file.splits if_splits)
  then show ?thesis using assms(2) build_economic_kernel_facts by blast
qed

lemma resolve_economic_facts_keeps:
  assumes U: "collision_free U" "(cs, es) \<in> un_inputs U"
  shows "io_keeps (keeps_universe U summary) (resolve_economic_facts mode prior_plan fingerprint cs es records)"
proof -
  have compat: "io_keeps (keeps_universe U summary) (resolve_compatibility f cs es records action)" for f action
    unfolding resolve_compatibility_def refresh_economic_facts_compatibility_def Let_def
    by (auto intro!: keeps_intros keeps_update split: option.splits stored_file.splits
        simp: keeps_universe_def stored_in_def)
  have written: "io_keeps (keeps_universe U summary)
      (io_bind (io_lift (r_require (ek_built ek) (AssertionError []))) (\<lambda>_.
        io_update (\<lambda>ws. ws\<lparr>ws_economic_facts := write_file p (ek_facts ek) (ws_economic_facts ws)\<rparr>)))"
    if "resolve_economic_facts_kernel mode prior_plan fingerprint cs files = Inr ek" for ek files p
  proof (rule keeps_bind [OF keeps_lift])
    fix u s s' assume "io_lift (r_require (ek_built ek) (AssertionError [])) s = (Inr u, s')"
    then have "ek_built ek" by (simp add: io_simps result_simps)
    then have "ek_facts ek \<in> un_facts U"
      using economic_kernel_facts [OF that] U by (auto simp: collision_free_def builds_in_def)
    then show "io_keeps (keeps_universe U summary)
        (io_update (\<lambda>ws. ws\<lparr>ws_economic_facts := write_file p (ek_facts ek) (ws_economic_facts ws)\<rparr>))"
      by (intro keeps_update) (auto simp: keeps_universe_def stored_in_def)
  qed
  show ?thesis
    unfolding resolve_economic_facts_def Let_def
    apply (rule keeps_bind [OF keeps_get])
    apply (rule keeps_bind [OF keeps_lift])
    apply (rule keeps_bind_any)
     apply (auto simp: io_simps intro: written keeps_return) []
    apply (auto intro!: keeps_intros compat split: prod.splits)
    done
qed

lemma states_part_keeps:
  assumes "\<And>ss. build_reconciliation_states f cs es = Inr ss \<Longrightarrow> set ss \<subseteq> un_states U"
  shows "io_keeps (keeps_universe U summary) (io_on ws_states (\<lambda>s ws. ws\<lparr>ws_states := s\<rparr>)
    (resolve_reconciliation_states mode prior_plan fingerprint prior_id cs es f reused))"
  unfolding resolve_reconciliation_states_def
  by (rule keeps_on [OF resolve_stage_keeps [OF assms]]) (simp_all add: keeps_universe_def stored_in_def)

lemma checkpoints_part_keeps:
  assumes "\<And>cks. build_checkpoints ss = Inr cks \<Longrightarrow> set cks \<subseteq> un_checkpoints U"
  shows "io_keeps (keeps_universe U summary) (io_on ws_checkpoints (\<lambda>s ws. ws\<lparr>ws_checkpoints := s\<rparr>)
    (resolve_checkpoints mode prior_plan fingerprint es ss reused))"
  unfolding resolve_checkpoints_def
  by (rule keeps_on [OF resolve_stage_keeps [OF assms]]) (simp_all add: keeps_universe_def stored_in_def)

lemma finish_keeps: "io_keeps (keeps_universe U summary) (finish_execution mode prior_plan fingerprint fr sr cr)"
  unfolding finish_execution_def Let_def case_prod_unfold
  by (rule keeps_bind_any [OF prune_keeps keeps_return])

lemma full_execution_keeps:
  assumes U: "collision_free U" "(cs, es) \<in> un_inputs U"
    and prior: "\<forall>p. prior_plan = Some p \<longrightarrow> sound_plan U p"
  shows "io_keeps (keeps_universe U summary) (full_execution mode prior_plan prior_id cs es records)"
  unfolding full_execution_def
proof (rule keeps_bind [OF keeps_lift], rule keeps_bind [OF resolve_economic_facts_keeps [OF U]],
    rule keeps_bind [OF states_part_keeps], goal_cases ss checkpoints)
  case (ss fingerprint s s' fr t t' ss)
  then have "build_economic_facts cs = Inr (fst fr)"
    using resolve_economic_facts_run [OF U(1) _ U(2) prior, of t fingerprint mode records "fst fr"]
    by (cases fr) (auto simp: keeps_universe_def io_simps)
  then show ?case using collision_freeD(1) [OF U] ss by blast
next
  case (checkpoints fingerprint s s' fr t t' sr u u')
  have fp: "claim_set_execution_fingerprint cs = Inr fingerprint" using checkpoints by (simp add: io_simps)
  then have f: "build_economic_facts cs = Inr (fst fr)"
    using resolve_economic_facts_run [OF U(1) _ U(2) prior fp, of t mode records "fst fr"] checkpoints
    by (cases fr) (auto simp: keeps_universe_def)
  have "build_reconciliation_states (fst fr) cs es = Inr (fst sr)"
    using checkpoints(5,6) resolve_states_run [OF U(1) _ U(2) prior fp f, of "ws_states u"]
    by (cases sr) (auto simp: io_simps keeps_universe_def stored_in_def)
  from collision_freeD(2) [OF U f this]
  show ?case by (intro keeps_bind_any checkpoints_part_keeps finish_keeps) blast
qed

section \<open>Running again on the same inputs\<close>

definition reused_decision :: "execution_decision \<Rightarrow> execution_decision" where
  "reused_decision d = d\<lparr>xd_kernel_action := REUSED, xd_detail_action := REUSED\<rparr>"

lemma index_by_lookup:
  assumes "distinct (map key xs)" and "x \<in> set xs"
  shows "map_of (index_by key xs) (key x) = Some x"
proof -
  have "map_of (index_by key xs) (key x) \<noteq> None"
    using assms(2) by (simp add: map_of_eq_None_iff keys_index_by [unfolded set_map])
  then obtain y where y: "map_of (index_by key xs) (key x) = Some y" by blast
  then have "y \<in> set xs" "key y = key x" by (auto dest: index_by_SomeD)
  then have "y = x" using assms by (simp add: distinct_map inj_on_def)
  then show ?thesis using y by simp
qed

lemma resolve_kernel_again:
  assumes d: "map_of prior_by_ref (stage_ref sg k) = Some d" "decided_as sg k d"
    and files: "map_of (ps_kernels s) (stage_ref sg k) = Some (Readable k)" "stored_rows sg (ps_rows s) k r"
    and kv: "kv_invalid kv = {}"
  shows "\<exists>kv'. kv_invalid kv' = {} \<and>
    resolve_kernel sg AUTO prior_by_ref k (kv, rows, ds) s = (Inr (kv', rows @ r, ds @ [reused_decision d]), s)"
proof -
  let ?ref = "stage_ref sg k"
  have fields: "xd_id d = sg_id sg k" "xd_ref d = ?ref" "sg_fingerprint sg k = Inr (xd_fingerprint d)"
      "stage_signature sg k = Inr (xd_signature d)"
    using d(2) by (simp_all add: decided_as_def)
  obtain kv' where kv': "validate_kernel_ref sg (ps_kernels s) ?ref (Some d) kv = Inr kv'" "kv_invalid kv' = {}"
    using kv files(1) fields
    by (cases "?ref \<in> kv_validated kv") (auto simp: validate_kernel_ref_def is_file_def kv_invalid_def)
  have ka: "kernel_action_for AUTO (ps_kernels s) kv' ?ref (Some d) (xd_fingerprint d) = REUSED"
    using files(1) kv'(2) by (simp add: kernel_action_for_def decide_kernel_action_def is_file_def)
  have da: "decide_detail_action (is_file (ps_rows s)) AUTO REUSED (Some (xd_signature d)) (xd_signature d)
      [stage_rows_path sg k] = REUSED"
    using files(2) by (simp add: decide_detail_action_def is_file_def stored_rows_def)
  have rows: "resolve_rows sg k REUSED s = (Inr (REUSED, r), s)"
    using files(2) by (simp add: resolve_rows_def stored_rows_def io_bind_def io_get_def io_return_def)
  have decision: "\<lparr>xd_id = sg_id sg k, xd_ref = ?ref, xd_fingerprint = xd_fingerprint d,
      xd_kernel_action = REUSED, xd_detail_action = REUSED, xd_signature = xd_signature d\<rparr> = reused_decision d"
    using fields by (simp add: reused_decision_def)
  have "resolve_kernel sg AUTO prior_by_ref k (kv, rows, ds) s = (Inr (kv', rows @ r, ds @ [reused_decision d]), s)"
    using decision
    by (simp add: resolve_kernel_def Let_def io_bind_def io_get_def io_lift_def io_return_def d(1) kv'(1) fields(3,4)
        ka da rows)
  then show ?thesis using kv'(2) by blast
qed

lemma resolve_loop_again:
  assumes "list_all2 (decided_as sg) ks ds" and "list_all2 (stored_rows sg (ps_rows s)) ks rss"
    and "\<forall>k \<in> set ks. map_of (ps_kernels s) (stage_ref sg k) = Some (Readable k)"
    and "\<forall>d \<in> set ds. map_of prior_by_ref (xd_ref d) = Some d" and "kv_invalid kv = {}"
  shows "\<exists>kv'. io_fold (resolve_kernel sg AUTO prior_by_ref) ks (kv, rows, acc) s =
    (Inr (kv', rows @ concat rss, acc @ map reused_decision ds), s)"
  using assms
proof (induction ks ds arbitrary: rss kv rows acc rule: list_all2_induct)
  case Nil
  then show ?case by (simp add: io_return_def)
next
  case (Cons k ks d ds)
  obtain r rss' where rss: "rss = r # rss'" "stored_rows sg (ps_rows s) k r"
      "list_all2 (stored_rows sg (ps_rows s)) ks rss'"
    using Cons.prems(1) by (auto simp: list_all2_Cons1)
  have "map_of prior_by_ref (stage_ref sg k) = Some d"
    using Cons.prems(3) Cons.hyps(1) by (simp add: decided_as_def)
  then obtain kv1 where kv1: "kv_invalid kv1 = {}"
      "resolve_kernel sg AUTO prior_by_ref k (kv, rows, acc) s = (Inr (kv1, rows @ r, acc @ [reused_decision d]), s)"
    using resolve_kernel_again [OF _ Cons.hyps(1) _ rss(2) Cons.prems(4)] Cons.prems(2) by fastforce
  obtain kv2 where "io_fold (resolve_kernel sg AUTO prior_by_ref) ks (kv1, rows @ r, acc @ [reused_decision d]) s =
      (Inr (kv2, (rows @ r) @ concat rss', (acc @ [reused_decision d]) @ map reused_decision ds), s)"
    using Cons.IH [OF rss(3) _ _ kv1(1)] Cons.prems(2,3) by fastforce
  then show ?case using kv1(2) rss(1) by (simp add: io_bind_def)
qed

lemma read_prior_again:
  assumes "list_all2 (decided_as sg) ks ds"
    and "\<forall>k \<in> set ks. map_of files (stage_ref sg k) = Some (Readable k)"
  shows "r_fold (read_prior_kernel sg files) ds (ks0, kv) = Inr (ks0 @ ks, kv)"
  using assms
proof (induction ks ds arbitrary: ks0 rule: list_all2_induct)
  case Nil
  then show ?case by simp
next
  case (Cons k ks d ds)
  then show ?case by (simp add: read_prior_kernel_def decided_as_def)
qed

lemma resolve_stage_again:
  assumes held: "stage_held sg ks ds records s" and ids: "distinct (map (sg_id sg) ks)"
    and built: "\<not> can_use (ps_kernels s) \<Longrightarrow> build = Inr ks"
  shows "resolve_stage sg AUTO can_use ds build s = (Inr (ks, map reused_decision ds, records), s)"
proof -
  obtain rss where parts: "list_all2 (decided_as sg) ks ds" "records = concat rss"
      "list_all2 (stored_rows sg (ps_rows s)) ks rss"
      "\<forall>k \<in> set ks. map_of (ps_kernels s) (stage_ref sg k) = Some (Readable k)"
    using held by (auto simp: stage_held_def)
  obtain kv where kernels: "resolve_kernels sg (can_use (ps_kernels s)) (ps_kernels s) ds build = Inr (ks, kv)"
      "kv_invalid kv = {}"
    using read_prior_again [OF parts(1,4), of "[]" kv_empty] built
    by (cases "can_use (ps_kernels s)") (simp_all add: resolve_kernels_def kv_empty_def kv_invalid_def)
  have "map xd_ref ds = map (stage_ref sg) ks"
    using parts(1) by (induction rule: list_all2_induct) (simp_all add: decided_as_def)
  then have "distinct (map xd_ref ds)"
    using ids by (simp add: distinct_map inj_on_def stage_ref_inj)
  then have "\<forall>d \<in> set ds. map_of (index_by xd_ref ds) (xd_ref d) = Some d" using index_by_lookup [of xd_ref ds] by blast
  then obtain kv' where "io_fold (resolve_kernel sg AUTO (index_by xd_ref ds)) ks (kv, [], []) s =
      (Inr (kv', [] @ concat rss, [] @ map reused_decision ds), s)"
    using resolve_loop_again [OF parts(1,3,4) _ kernels(2)] by blast
  then show ?thesis
    by (simp add: resolve_stage_def io_bind_def io_get_def io_lift_def io_return_def kernels(1) parts(2))
qed

lemma resolve_economic_facts_again:
  assumes held: "facts_held f d art ws" "facts_named f d"
    and sig: "economic_facts_compatibility_signature f cs es records = Inr (xd_signature d)"
    and p: "xp_economic_facts p = Some d"
  shows "resolve_economic_facts AUTO (Some p) (xp_claim_set_fingerprint p) cs es records ws =
    (Inr (f, reused_decision d, art), ws)"
proof -
  have names: "xd_id d = ef_economic_facts_id f" "xd_ref d = product_ref ECONOMIC_FACTS (ef_economic_facts_id f)"
      "economic_facts_fingerprint f = Inr (xd_fingerprint d)"
    using held(2) by (simp_all add: facts_named_def)
  have files: "map_of (ws_economic_facts ws) (xd_ref d) = Some (Readable f)"
      "map_of (ws_facts ws) (facts_path (ef_economic_facts_id f)) = Some (Readable (art_facts art))"
      "map_of (ws_annotations ws) (annotations_path (ef_economic_facts_id f)) = Some (Readable (art_annotations art))"
    using held(1) by (simp_all add: facts_held_def)
  have ek: "resolve_economic_facts_kernel AUTO (Some p) (xp_claim_set_fingerprint p) cs (ws_economic_facts ws) =
      Inr \<lparr>ek_facts = f, ek_fingerprint = xd_fingerprint d, ek_ref = xd_ref d, ek_invalid = False, ek_built = False\<rparr>"
    using files(1) names(3) p by (simp add: resolve_economic_facts_kernel_def can_use_prior_facts_def is_file_def)
  have ka: "decide_kernel_action AUTO (Some (xd_fingerprint d)) (xd_fingerprint d)
      (is_file (ws_economic_facts ws) (xd_ref d) \<and> \<not> False) False = REUSED"
    using files(1) by (simp add: decide_kernel_action_def is_file_def)
  have da: "decide_detail_action (\<lambda>_. is_file (ws_facts ws) (facts_path (ef_economic_facts_id f)) \<and>
        is_file (ws_annotations ws) (annotations_path (ef_economic_facts_id f))) AUTO REUSED
      (Some (xd_signature d)) (xd_signature d) ps = REUSED" for ps
    using files(2,3) by (simp add: decide_detail_action_def is_file_def list_all_iff)
  have rc: "resolve_compatibility f cs es records REUSED ws = (Inr (REUSED, art), ws)"
    using files(2,3) by (simp add: resolve_compatibility_def Let_def io_bind_def io_get_def io_return_def)
  have decision: "\<lparr>xd_id = ef_economic_facts_id f, xd_ref = xd_ref d, xd_fingerprint = xd_fingerprint d,
      xd_kernel_action = REUSED, xd_detail_action = REUSED, xd_signature = xd_signature d\<rparr> = reused_decision d"
    using names(1) by (simp add: reused_decision_def)
  show ?thesis
    using decision ka
    by (simp add: resolve_economic_facts_def Let_def io_bind_def io_get_def io_lift_def io_return_def ek p sig da rc)
qed

definition reused_plan :: "execution_plan \<Rightarrow> execution_plan" where
  "reused_plan p = p\<lparr>xp_update_mode_requested := ''auto'', xp_update_mode_effective := ''auto'',
     xp_economic_facts := map_option reused_decision (xp_economic_facts p),
     xp_reconciliation_states := map reused_decision (xp_reconciliation_states p),
     xp_checkpoints := map reused_decision (xp_checkpoints p),
     xp_pruned_reconciliation_state_refs := [], xp_pruned_checkpoint_refs := []\<rparr>"

lemma pruned_refs_same: "pruned_refs refs refs = []"
  by (simp add: pruned_refs_def sorted_distinct_def)

lemma summarize_reused:
  "xp_economic_facts p \<noteq> None \<Longrightarrow> summarize_target_product_execution (reused_plan p) =
     \<lparr>xs_reused_count = Suc (length (xp_reconciliation_states p) + length (xp_checkpoints p)),
      xs_rebuilt_count = 0, xs_pruned_count = 0, xs_refreshed_count = 0\<rparr>"
  by (auto simp: summarize_target_product_execution_def reused_plan_def kernel_actions_def detail_actions_def
      plan_decisions_all_def reused_decision_def comp_def filter_map)

lemma reused_plan_members:
  "reused_plan p = \<lparr>xp_signature_version = xp_signature_version p, xp_update_mode_requested = ''auto'',
     xp_update_mode_effective = ''auto'', xp_claim_set_fingerprint = xp_claim_set_fingerprint p,
     xp_economic_facts = map_option reused_decision (xp_economic_facts p),
     xp_reconciliation_states = map reused_decision (xp_reconciliation_states p),
     xp_checkpoints = map reused_decision (xp_checkpoints p),
     xp_pruned_reconciliation_state_refs = [], xp_pruned_checkpoint_refs = []\<rparr>"
  by (cases p) (simp add: reused_plan_def)

lemma finish_again:
  assumes "xp_signature_version p = SIGNATURE_VERSION" and "xp_economic_facts p = Some d"
  shows "finish_execution AUTO (Some p) (xp_claim_set_fingerprint p) (f, reused_decision d, art)
      (ss, map reused_decision (xp_reconciliation_states p), snapshots)
      (cks, map reused_decision (xp_checkpoints p), references) ws =
    (Inr \<lparr>xr_economic_facts_id = ef_economic_facts_id f, xr_economic_facts_ref = xd_ref d,
      xr_reconciliation_state_ids = map rs_reconciliation_state_id ss,
      xr_reconciliation_state_refs = map xd_ref (xp_reconciliation_states p),
      xr_checkpoint_ids = map ck_checkpoint_id cks, xr_checkpoint_refs = map xd_ref (xp_checkpoints p),
      xr_facts = art_facts art, xr_fact_annotations = art_annotations art,
      xr_balance_snapshots = sort_key (\<lambda>s. balance_target_match_key (bs_target s)) snapshots,
      xr_balance_references = sort_key reference_order_key references,
      xr_summary = summarize_target_product_execution (reused_plan p), xr_plan = reused_plan p,
      xr_update_mode = AUTO\<rparr>, ws)"
proof -
  have refs: "map xd_ref (map reused_decision ds) = map xd_ref ds" "xd_ref (reused_decision d) = xd_ref d" for ds
    by (simp_all add: reused_decision_def)
  have none: "pruned_economic_facts_refs (Some p) (xd_ref d) = []"
    using assms(2) by (simp add: pruned_economic_facts_refs_def)
  have plan: "\<lparr>xp_signature_version = SIGNATURE_VERSION, xp_update_mode_requested = update_mode_text AUTO,
      xp_update_mode_effective = update_mode_text AUTO, xp_claim_set_fingerprint = xp_claim_set_fingerprint p,
      xp_economic_facts = Some (reused_decision d),
      xp_reconciliation_states = map reused_decision (xp_reconciliation_states p),
      xp_checkpoints = map reused_decision (xp_checkpoints p),
      xp_pruned_reconciliation_state_refs = [], xp_pruned_checkpoint_refs = []\<rparr> = reused_plan p"
    using assms by (simp add: reused_plan_members)
  show ?thesis
    unfolding finish_execution_def Let_def prod.case prior_states_def prior_checkpoints_def option.case refs
      pruned_refs_same none plan
    by (simp add: io_bind_def io_update_def io_return_def summary_with_economic_prunes_def)
qed

lemma full_execution_again:
  assumes result: "result_of cs f ss cks art snapshots references r"
    and held: "held_in es f ss cks (xr_plan r) art snapshots references ws"
    and built: "scratch_products cs es = Inr (f, ss, cks)"
    and ids: "distinct (map rs_reconciliation_state_id ss)" "distinct (map ck_checkpoint_id cks)"
    and sig: "xp_economic_facts (xr_plan r) = Some d"
      "economic_facts_compatibility_signature f cs es records = Inr (xd_signature d)"
  shows "\<exists>r'. full_execution AUTO (Some (xr_plan r)) prior_id cs es records ws = (Inr r', ws) \<and>
    xr_plan r' = reused_plan (xr_plan r) \<and> result_of cs f ss cks art snapshots references r' \<and>
    xr_summary r' = \<lparr>xs_reused_count = Suc (length ss + length cks),
      xs_rebuilt_count = 0, xs_pruned_count = 0, xs_refreshed_count = 0\<rparr> \<and> xr_update_mode r' = AUTO"
proof -
  let ?p = "xr_plan r"
  define sds where "sds = xp_reconciliation_states ?p"
  define cds where "cds = xp_checkpoints ?p"
  have fp: "claim_set_execution_fingerprint cs = Inr (xp_claim_set_fingerprint ?p)"
      "xp_signature_version ?p = SIGNATURE_VERSION"
    using result by (simp_all add: result_of_def)
  have h: "facts_named f d" "facts_held f d art ws" "stage_held reconciliation_stage ss sds snapshots (ws_states ws)"
      "stage_held (checkpoint_stage ss es) cks cds references (ws_checkpoints ws)"
    using held sig(1) by (auto simp: held_in_def sds_def cds_def)
  have prior: "prior_states (Some ?p) = sds" "prior_checkpoints (Some ?p) = cds"
    by (simp_all add: prior_states_def prior_checkpoints_def sds_def cds_def)
  have parts: "build_reconciliation_states f cs es = Inr ss" "build_checkpoints ss = Inr cks"
    using built by (simp_all add: scratch_Inr_iff)
  have a: "resolve_economic_facts AUTO (Some ?p) (xp_claim_set_fingerprint ?p) cs es records ws =
      (Inr (f, reused_decision d, art), ws)"
    by (rule resolve_economic_facts_again [OF h(2,1) sig(2,1)])
  have b: "resolve_reconciliation_states AUTO (Some ?p) (xp_claim_set_fingerprint ?p) prior_id cs es f True (ws_states ws) =
      (Inr (ss, map reused_decision sds, snapshots), ws_states ws)"
    unfolding resolve_reconciliation_states_def prior
    by (rule resolve_stage_again [OF h(3)]) (simp_all add: ids parts)
  have c: "resolve_checkpoints AUTO (Some ?p) (xp_claim_set_fingerprint ?p) es ss True (ws_checkpoints ws) =
      (Inr (cks, map reused_decision cds, references), ws_checkpoints ws)"
    unfolding resolve_checkpoints_def prior
    by (rule resolve_stage_again [OF h(4)]) (simp_all add: ids parts)
  have all: "list_all (\<lambda>d. xd_kernel_action d = REUSED) (map reused_decision sds)"
      "xd_kernel_action (reused_decision d) = REUSED"
    by (simp_all add: list_all_iff reused_decision_def)
  let ?r = "\<lparr>xr_economic_facts_id = ef_economic_facts_id f, xr_economic_facts_ref = xd_ref d,
      xr_reconciliation_state_ids = map rs_reconciliation_state_id ss, xr_reconciliation_state_refs = map xd_ref sds,
      xr_checkpoint_ids = map ck_checkpoint_id cks, xr_checkpoint_refs = map xd_ref cds,
      xr_facts = art_facts art, xr_fact_annotations = art_annotations art,
      xr_balance_snapshots = sort_key (\<lambda>s. balance_target_match_key (bs_target s)) snapshots,
      xr_balance_references = sort_key reference_order_key references,
      xr_summary = summarize_target_product_execution (reused_plan ?p), xr_plan = reused_plan ?p,
      xr_update_mode = AUTO\<rparr>"
  have run: "finish_execution AUTO (Some ?p) (xp_claim_set_fingerprint ?p) (f, reused_decision d, art)
      (ss, map reused_decision sds, snapshots) (cks, map reused_decision cds, references) ws = (Inr ?r, ws)"
    using finish_again [OF fp(2) sig(1)] by (simp add: sds_def cds_def)
  have "full_execution AUTO (Some ?p) prior_id cs es records ws = (Inr ?r, ws)"
    using all run
    by (simp add: full_execution_def io_bind_def io_lift_def io_on_def fp a b c)
  moreover have "map xd_ref sds = map (\<lambda>k. product_ref RECONCILIATION_STATE (rs_reconciliation_state_id k)) ss"
      "map xd_ref cds = map (\<lambda>k. product_ref CHECKPOINT (ck_checkpoint_id k)) cks"
    using decided_refs [of reconciliation_stage ss sds] decided_refs [of "checkpoint_stage ss es" cks cds] h
    by (simp_all add: stage_held_def)
  moreover have "length sds = length ss" "length cds = length cks"
    using h(3,4) by (auto simp: stage_held_def dest: list_all2_lengthD)
  moreover from calculation have "result_of cs f ss cks art snapshots references ?r"
    using fp h(1) by (simp add: result_of_def reused_plan_def facts_named_def)
  moreover have "summarize_target_product_execution (reused_plan ?p) =
      \<lparr>xs_reused_count = Suc (length sds + length cds),
       xs_rebuilt_count = 0, xs_pruned_count = 0, xs_refreshed_count = 0\<rparr>"
    using summarize_reused [of ?p] sig(1) by (simp add: sds_def cds_def)
  ultimately show ?thesis by (intro exI [of _ ?r]) simp
qed

end
