(* ===== verification/Normalization_Runs.thy ===== *)
theory Normalization_Runs
  imports Product_Executions Normalization_Summary
begin

text \<open>
  The end of \<open>NormalizeSourceUseCase.execute\<close> in \<open>application/normalization/normalize_source.py\<close>: the
  target products, the outputs taken from them, the summary and the response; and sequences of
  such runs over one workspace, with failures and edited files in between.
\<close>

section \<open>One run\<close>

record normalize_response =
  nx_normalized_output_ref :: string
  nx_adapter_id :: string
  nx_evidence_set_id :: string
  nx_evidence_set_ref :: string
  nx_claim_set_id :: string
  nx_claim_set_ref :: string
  nx_economic_facts_id :: string
  nx_economic_facts_ref :: string
  nx_reconciliation_state_ids :: "string list"
  nx_reconciliation_state_refs :: "string list"
  nx_checkpoint_ids :: "string list"
  nx_checkpoint_refs :: "string list"
  nx_update_mode_requested :: string
  nx_update_mode_effective :: string
  nx_products :: execution_summary
  nx_fact_count :: nat
  nx_balance_count :: nat
  nx_issue_count :: nat
  nx_review_count :: nat
  nx_translation :: translation_metrics

definition outputs_with_products :: "normalization_outputs \<Rightarrow> execution_result \<Rightarrow> normalization_outputs" where
  "outputs_with_products outputs r =
     (if xr_economic_facts_id r = [] then outputs
      else outputs\<lparr>no_facts := xr_facts r, no_fact_annotations := xr_fact_annotations r,
        no_balance_snapshots := xr_balance_snapshots r, no_balance_references := xr_balance_references r\<rparr>)"

definition normalize_response_of ::
    "normalize_request \<Rightarrow> string \<Rightarrow> normalization_outputs \<Rightarrow> translation_products \<Rightarrow> execution_result \<Rightarrow>
      normalize_response" where
  "normalize_response_of request adapter_id outputs translation r =
     \<lparr>nx_normalized_output_ref = nr_normalized_output_ref request, nx_adapter_id = adapter_id,
      nx_evidence_set_id = tp_evidence_set_id translation, nx_evidence_set_ref = tp_evidence_set_ref translation,
      nx_claim_set_id = tp_claim_set_id translation, nx_claim_set_ref = tp_claim_set_ref translation,
      nx_economic_facts_id = xr_economic_facts_id r, nx_economic_facts_ref = xr_economic_facts_ref r,
      nx_reconciliation_state_ids = xr_reconciliation_state_ids r,
      nx_reconciliation_state_refs = xr_reconciliation_state_refs r,
      nx_checkpoint_ids = xr_checkpoint_ids r, nx_checkpoint_refs = xr_checkpoint_refs r,
      nx_update_mode_requested = update_mode_text (xr_update_mode r),
      nx_update_mode_effective = update_mode_text (xr_update_mode r), nx_products = xr_summary r,
      nx_fact_count = length (no_facts outputs), nx_balance_count = length (no_balance_snapshots outputs),
      nx_issue_count = length (no_issues outputs), nx_review_count = length (no_reviews outputs),
      nx_translation = tp_metrics translation\<rparr>"

definition finish_normalization ::
    "normalize_request \<Rightarrow> string \<Rightarrow> normalization_outputs \<Rightarrow> window_stats \<Rightarrow> translation_products \<Rightarrow>
      (workspace, normalize_response) io" where
  "finish_normalization request adapter_id outputs stats translation =
     io_bind (build_target_product_execution (nr_update_mode request) translation) (\<lambda>r.
     let outputs = outputs_with_products outputs r in
     io_bind (io_update (\<lambda>ws. ws\<lparr>ws_summary := Some (Readable (json_file_text
         (build_normalization_summary request adapter_id outputs stats translation r)))\<rparr>)) (\<lambda>_.
       io_return (normalize_response_of request adapter_id outputs translation r)))"

section \<open>Sequences of runs\<close>

definition inputs_of :: "translation_products \<Rightarrow> (claim_set \<times> evidence_set) option" where
  "inputs_of t =
     (case (tp_claim_set t, tp_evidence_set t) of
        (Some cs, Some es) \<Rightarrow> if tp_claim_set_ref t = [] then None else Some (cs, es)
      | _ \<Rightarrow> None)"

text \<open>
  A workspace starts without a summary, whatever kernels it holds. A run may succeed or raise, in any
  mode. Between runs files may be edited, damaged, restored or removed, the summary only removed or
  damaged.
\<close>

inductive reachable :: "universe \<Rightarrow> workspace \<Rightarrow> bool" for U where
  fresh: "stored_in U ws \<Longrightarrow> ws_summary ws = None \<Longrightarrow> reachable U ws"
| after_run: "reachable U ws \<Longrightarrow> (\<And>inputs. inputs_of t = Some inputs \<Longrightarrow> inputs \<in> un_inputs U) \<Longrightarrow>
    finish_normalization request adapter_id outputs stats t ws = (outcome, ws') \<Longrightarrow> reachable U ws'"
| edited: "reachable U ws \<Longrightarrow> stored_in U ws' \<Longrightarrow> ws_summary ws' \<in> {ws_summary ws, None, Some Damaged} \<Longrightarrow>
    reachable U ws'"

definition sound_summary :: "universe \<Rightarrow> string stored_file option \<Rightarrow> bool" where
  "sound_summary U summary \<longleftrightarrow>
     (\<exists>prior pid. load_prior_target_product_execution summary = Inr prior \<and>
       load_prior_summary_id summary ''evidence_set_id'' = Inr pid \<and>
       (\<forall>p. prior = Some p \<longrightarrow> sound_plan U p))"

lemma no_summary_sound: "sound_summary U None" "sound_summary U (Some Damaged)"
  by (simp_all add: sound_summary_def load_prior_target_product_execution_def load_prior_summary_id_def
      read_summary_payload_def)

lemma build_execution_cases:
  assumes "load_prior_target_product_execution (ws_summary ws) = Inr prior"
    and "load_prior_summary_id (ws_summary ws) ''evidence_set_id'' = Inr pid"
  shows "build_target_product_execution mode t ws =
    (case inputs_of t of
       None \<Rightarrow> empty_execution mode prior ws
     | Some (cs, es) \<Rightarrow> full_execution mode prior pid cs es (tp_projection_fields t) ws)"
  using assms
  by (auto simp: build_target_product_execution_def inputs_of_def io_bind_def io_get_def io_lift_def
      split: option.splits)

lemma empty_execution_run:
  "\<exists>r refs. empty_execution mode prior ws = (Inr r, prune_product_roots refs ws) \<and>
    empty_plan (xr_plan r) \<and> xp_signature_version (xr_plan r) = SIGNATURE_VERSION"
  by (simp add: empty_execution_def Let_def io_bind_def io_update_def io_return_def empty_execution_plan_def
      empty_plan_def)
    blast

lemma held_plan_sound:
  assumes "result_of cs f ss cks art snapshots references r" and "scratch_products cs es = Inr (f, ss, cks)"
    and "held_in es f ss cks (xr_plan r) art snapshots references ws" and "(cs, es) \<in> un_inputs U"
  shows "sound_plan U (xr_plan r)"
proof -
  have "plan_of_inputs (xr_plan r) cs es"
    using assms(1-3)
    by (auto simp: plan_of_inputs_def plan_names_def held_in_def stage_held_def result_of_def intro: decided_named)
  then show ?thesis using assms(4) by (auto simp: sound_plan_def)
qed

text \<open>What building the target products does, whatever the outcome.\<close>

lemma build_execution_outcome:
  assumes U: "collision_free U" "stored_in U ws" "\<And>inputs. inputs_of t = Some inputs \<Longrightarrow> inputs \<in> un_inputs U"
    and sound: "sound_summary U (ws_summary ws)"
    and run: "build_target_product_execution mode t ws = (outcome, ws')"
  shows "stored_in U ws' \<and> ws_summary ws' = ws_summary ws \<and>
    (\<forall>r. outcome = Inr r \<longrightarrow> sound_plan U (xr_plan r) \<and> xp_signature_version (xr_plan r) = SIGNATURE_VERSION)"
proof -
  obtain prior pid where prior: "load_prior_target_product_execution (ws_summary ws) = Inr prior"
      "load_prior_summary_id (ws_summary ws) ''evidence_set_id'' = Inr pid"
      "\<forall>p. prior = Some p \<longrightarrow> sound_plan U p"
    using sound by (auto simp: sound_summary_def)
  note cases_run = run [unfolded build_execution_cases [OF prior(1,2)]]
  show ?thesis
  proof (cases "inputs_of t")
    case None
    then have e: "empty_execution mode prior ws = (outcome, ws')" using cases_run by simp
    obtain r refs where "empty_execution mode prior ws = (Inr r, prune_product_roots refs ws)"
        "empty_plan (xr_plan r)" "xp_signature_version (xr_plan r) = SIGNATURE_VERSION"
      using empty_execution_run by blast
    then show ?thesis using e U(2) by (auto simp: prune_stored sound_plan_def)
  next
    case (Some inputs)
    obtain cs es where i: "inputs = (cs, es)" "(cs, es) \<in> un_inputs U" using U(3) [OF Some] by (cases inputs) auto
    have full: "full_execution mode prior pid cs es (tp_projection_fields t) ws = (outcome, ws')"
      using cases_run Some i by simp
    have "keeps_universe U (ws_summary ws) ws'"
      using io_keepsD [OF full_execution_keeps [OF U(1) i(2) prior(3)] _ full] U(2)
      by (simp add: keeps_universe_def)
    moreover have "sound_plan U (xr_plan r) \<and> xp_signature_version (xr_plan r) = SIGNATURE_VERSION"
      if "outcome = Inr r" for r
      using full_execution_run [OF U(1,2) i(2) prior(3) full [unfolded that]] held_plan_sound [OF _ _ _ i(2)]
      by (auto simp: result_of_def)
    ultimately show ?thesis by (simp add: keeps_universe_def)
  qed
qed

lemma written_summary_sound:
  assumes "sound_plan U (xr_plan r)" and "xp_signature_version (xr_plan r) = SIGNATURE_VERSION"
  shows "sound_summary U (Some (Readable (json_file_text
    (build_normalization_summary request adapter_id outputs stats t r))))"
proof -
  obtain pid where "load_prior_summary_id (Some (Readable (json_file_text
      (build_normalization_summary request adapter_id outputs stats t r)))) ''evidence_set_id'' = Inr pid"
    using summary_evidence_id by blast
  then show ?thesis using summary_read [OF assms(2)] assms(1) by (simp add: sound_summary_def)
qed

lemma finish_normalization_cases:
  assumes "finish_normalization request adapter_id outputs stats t ws = (outcome, ws')"
  shows "(\<exists>e. build_target_product_execution (nr_update_mode request) t ws = (Inl e, ws') \<and> outcome = Inl e) \<or>
    (\<exists>r ws1. build_target_product_execution (nr_update_mode request) t ws = (Inr r, ws1) \<and>
      outcome = Inr (normalize_response_of request adapter_id (outputs_with_products outputs r) t r) \<and>
      ws' = ws1\<lparr>ws_summary := Some (Readable (json_file_text
        (build_normalization_summary request adapter_id (outputs_with_products outputs r) stats t r)))\<rparr>)"
  using assms
  by (auto simp: finish_normalization_def Let_def io_bind_def io_update_def io_return_def
      split: prod.splits sum.splits)

lemma stored_in_summary [simp]: "stored_in U (ws\<lparr>ws_summary := s\<rparr>) = stored_in U ws"
  by (simp add: stored_in_def)

lemma reachable_sound:
  assumes "reachable U ws" and "collision_free U"
  shows "stored_in U ws \<and> sound_summary U (ws_summary ws)"
  using assms(1)
proof (induction rule: reachable.induct)
  case (fresh ws)
  then show ?case by (simp add: no_summary_sound)
next
  case (after_run ws t request adapter_id outputs stats outcome ws')
  note outcome = build_execution_outcome [OF assms(2) conjunct1 [OF after_run.IH] after_run.hyps(2)
      conjunct2 [OF after_run.IH]]
  from finish_normalization_cases [OF after_run.hyps(3)] show ?case
  proof (elim disjE exE conjE)
    fix e assume "build_target_product_execution (nr_update_mode request) t ws = (Inl e, ws')"
    from outcome [OF _ this] show ?case using after_run.IH by simp
  next
    fix r ws1
    assume "build_target_product_execution (nr_update_mode request) t ws = (Inr r, ws1)"
      and "ws' = ws1\<lparr>ws_summary := Some (Readable (json_file_text
        (build_normalization_summary request adapter_id (outputs_with_products outputs r) stats t r)))\<rparr>"
    with outcome [OF _ this(1)] show ?case using written_summary_sound by simp
  qed
next
  case (edited ws ws')
  then show ?case using no_summary_sound by auto
qed

section \<open>Products of a successful run\<close>

lemma successful_run_parts:
  assumes U: "collision_free U" "reachable U ws" "inputs_of t = Some (cs, es)" "(cs, es) \<in> un_inputs U"
    and run: "finish_normalization request adapter_id outputs stats t ws = (Inr response, ws')"
  shows "\<exists>r f ss cks art snapshots references d. scratch_products cs es = Inr (f, ss, cks) \<and>
    result_of cs f ss cks art snapshots references r \<and>
    held_in es f ss cks (xr_plan r) art snapshots references ws' \<and>
    xp_economic_facts (xr_plan r) = Some d \<and>
    economic_facts_compatibility_signature f cs es (tp_projection_fields t) = Inr (xd_signature d) \<and>
    response = normalize_response_of request adapter_id (outputs_with_products outputs r) t r \<and>
    load_prior_target_product_execution (ws_summary ws') = Inr (Some (xr_plan r)) \<and>
    (\<exists>pid. load_prior_summary_id (ws_summary ws') ''evidence_set_id'' = Inr pid)"
proof -
  note sound = reachable_sound [OF U(2,1)]
  obtain prior pid where prior: "load_prior_target_product_execution (ws_summary ws) = Inr prior"
      "load_prior_summary_id (ws_summary ws) ''evidence_set_id'' = Inr pid"
      "\<forall>p. prior = Some p \<longrightarrow> sound_plan U p"
    using sound by (auto simp: sound_summary_def)
  obtain r ws1 where build: "build_target_product_execution (nr_update_mode request) t ws = (Inr r, ws1)"
      and response: "response = normalize_response_of request adapter_id (outputs_with_products outputs r) t r"
      and ws': "ws' = ws1\<lparr>ws_summary := Some (Readable (json_file_text
        (build_normalization_summary request adapter_id (outputs_with_products outputs r) stats t r)))\<rparr>"
    using finish_normalization_cases [OF run] by auto
  have full: "full_execution (nr_update_mode request) prior pid cs es (tp_projection_fields t) ws = (Inr r, ws1)"
    using build unfolding build_execution_cases [OF prior(1,2)] U(3) by simp
  obtain f ss cks art snapshots references d where
      p: "scratch_products cs es = Inr (f, ss, cks)" "result_of cs f ss cks art snapshots references r"
        "held_in es f ss cks (xr_plan r) art snapshots references ws1" "xp_economic_facts (xr_plan r) = Some d"
        "economic_facts_compatibility_signature f cs es (tp_projection_fields t) = Inr (xd_signature d)"
    using full_execution_run [OF U(1) conjunct1 [OF sound] U(4) prior(3) full] by blast
  have "held_in es f ss cks (xr_plan r) art snapshots references ws'"
    using p(3) by (simp add: ws' held_in_def facts_held_def)
  moreover have "load_prior_target_product_execution (ws_summary ws') = Inr (Some (xr_plan r))"
    using p(2) summary_read by (simp add: ws' result_of_def)
  moreover have "\<exists>pid. load_prior_summary_id (ws_summary ws') ''evidence_set_id'' = Inr pid"
    using summary_evidence_id by (simp add: ws')
  ultimately show ?thesis using p response by blast
qed

lemma stage_held_kernels:
  assumes "stage_held sg ks ds records s"
  shows "list_all2 (\<lambda>k ref. map_of (ps_kernels s) ref = Some (Readable k)) ks
    (map (\<lambda>k. product_ref (sg_kind sg) (sg_id sg k)) ks)"
  using assms by (auto simp: stage_held_def list_all2_conv_all_nth stage_ref_def)



section \<open>Witnesses\<close>

definition sample_claims :: claim_set where
  "sample_claims = \<lparr>cset_claim_set_id = ''e1:coinbase'', cset_evidence_set_ref = ''e1'', cset_emitter_id = ''coinbase'',
     cset_claim_records = [], cset_claim_bundle_records = [], cset_claim_bundle_decision_records = []\<rparr>"

definition sample_evidence :: evidence_set where
  "sample_evidence = \<lparr>eset_evidence_set_id = ''e1'', eset_selection_fingerprint = ''s1'',
     eset_capture_manifest_fingerprint = ''m1'', eset_evidence_selection_records = [],
     eset_evidence_member_records = [], eset_evidence_observation_records = []\<rparr>"

definition empty_facts :: economic_facts where
  "empty_facts = \<lparr>ef_economic_facts_id = stable_economic_facts_id [''e1:coinbase''],
     ef_claim_set_refs = [''e1:coinbase''], ef_economic_event_records = [], ef_economic_leg_records = [],
     ef_valuation_records = []\<rparr>"

definition sample_translation :: translation_products where
  "sample_translation = \<lparr>
     tp_metrics = \<lparr>tm_candidate_count = 1, tm_selected_count = 1, tm_superseded_count = 0, tm_blocked_count = 0,
       tm_planner_used = True\<rparr>,
     tp_evidence_set_id = ''e1'', tp_evidence_set_ref = ''working/products/evidence_sets/e1/evidence_set.json'',
     tp_claim_set_id = ''e1:coinbase'', tp_claim_set_ref = ''working/products/claim_sets/e1:coinbase/claim_set.json'',
     tp_evidence_set = Some sample_evidence, tp_claim_set = Some sample_claims, tp_projection_fields = []\<rparr>"

definition sample_request :: normalize_request where
  "sample_request = \<lparr>nr_source = ''coinbase'', nr_raw_capture_ref = ''raw'', nr_normalized_output_ref = ''out'',
     nr_update_mode = FULL_UPDATE, nr_window_start = None, nr_window_end = None, nr_inspect_archives = True\<rparr>"

definition sample_outputs :: normalization_outputs where
  "sample_outputs = \<lparr>no_facts = [], no_fact_annotations = [], no_location_annotations = [],
     no_balance_snapshots = [], no_balance_references = [], no_balance_reference_issues = [], no_issues = [],
     no_reviews = [], no_location_inventory = []\<rparr>"

definition no_stats :: window_stats where
  "no_stats = \<lparr>wst_facts_outside_window = 0, wst_issues_outside_window = 0, wst_reviews_outside_window = 0\<rparr>"

definition sample_workspace :: workspace where
  "sample_workspace = \<lparr>ws_economic_facts = [],
     ws_facts = [], ws_annotations = [],
     ws_states = \<lparr>ps_kernels = [], ps_rows = []\<rparr>, ws_checkpoints = \<lparr>ps_kernels = [], ps_rows = []\<rparr>,
     ws_summary = None\<rparr>"

definition sample_universe :: universe where
  "sample_universe = \<lparr>un_inputs = {(sample_claims, sample_evidence)}, un_facts = {empty_facts}, un_states = {},
     un_checkpoints = {}\<rparr>"

lemma sample_scratch:
  "build_economic_facts sample_claims = Inr empty_facts"
  "build_reconciliation_states empty_facts sample_claims sample_evidence = Inr []"
  "build_checkpoints [] = Inr []"
  by (simp_all add: build_economic_facts_def accepted_activity_bundles_def sample_claims_def empty_facts_def
      sample_evidence_def canonical_economic_leg_records_def sort_by_result_def canonical_economic_event_records_def
      build_reconciliation_states_def accepted_balance_claims_def group_by_def build_checkpoints_def Let_def)

lemma sample_collision_free: "collision_free sample_universe"
  by (simp add: collision_free_def sample_universe_def told_apart_def builds_in_def sample_scratch)

lemma sample_reachable: "reachable sample_universe sample_workspace"
  by (rule reachable.fresh)
    (simp_all add: sample_universe_def sample_workspace_def stored_in_def readable_in_def)

lemma sample_fingerprints:
  "\<exists>h. claim_set_execution_fingerprint sample_claims = Inr h"
  "\<exists>h. economic_facts_fingerprint empty_facts = Inr h"
  "project_compatibility_artifacts_from_economic_facts empty_facts sample_claims sample_evidence [] =
    Inr \<lparr>art_facts = [], art_annotations = []\<rparr>"
  by (simp_all add: claim_set_execution_fingerprint_def claim_set_payload_def canonical_claim_records_def
      sort_by_result_def sample_claims_def economic_facts_fingerprint_def economic_facts_payload_def empty_facts_def
      canonical_economic_leg_records_def canonical_economic_event_records_def canonical_valuation_records_def
      project_compatibility_artifacts_from_economic_facts_def group_by_def)

lemma sample_run:
  "\<exists>response ws'. finish_normalization sample_request ''coinbase'' sample_outputs no_stats sample_translation
    sample_workspace = (Inr response, ws')"
proof -
  obtain h where h: "claim_set_execution_fingerprint sample_claims = Inr h" using sample_fingerprints(1) by blast
  obtain g where g: "economic_facts_fingerprint empty_facts = Inr g" using sample_fingerprints(2) by blast
  obtain s where s: "economic_facts_compatibility_signature empty_facts sample_claims sample_evidence [] = Inr s"
    by (simp add: economic_facts_compatibility_signature_def sample_fingerprints(3) artifacts_signature_def)
  have ek: "resolve_economic_facts_kernel FULL_UPDATE None h sample_claims [] = Inr \<lparr>ek_facts = empty_facts,
      ek_fingerprint = g, ek_ref = product_ref ECONOMIC_FACTS (ef_economic_facts_id empty_facts),
      ek_invalid = False, ek_built = True\<rparr>"
    by (simp add: resolve_economic_facts_kernel_def build_economic_kernel_def sample_scratch(1) g is_file_def Let_def)
  obtain d art ws1 where facts: "resolve_economic_facts FULL_UPDATE None h sample_claims sample_evidence [] sample_workspace =
      (Inr (empty_facts, d, art), ws1)" and ws1: "ws_states ws1 = ws_states sample_workspace"
      "ws_checkpoints ws1 = ws_checkpoints sample_workspace"
    by (simp add: resolve_economic_facts_def io_bind_def io_get_def io_lift_def io_return_def io_update_def ek s
        decide_kernel_action_def decide_detail_action_def resolve_compatibility_def
        refresh_economic_facts_compatibility_def sample_fingerprints(3) Let_def is_file_def sample_workspace_def)
  have states: "resolve_reconciliation_states FULL_UPDATE None h None sample_claims sample_evidence empty_facts reused st =
      (Inr ([], [], []), st)" for reused st
    by (simp add: resolve_reconciliation_states_def resolve_stage_def io_bind_def io_get_def io_lift_def io_return_def
        resolve_kernels_def can_use_prior_states_def sample_scratch(2))
  have checkpoints: "resolve_checkpoints FULL_UPDATE None h sample_evidence [] reused st = (Inr ([], [], []), st)"
    for reused st
    by (simp add: resolve_checkpoints_def resolve_stage_def io_bind_def io_get_def io_lift_def io_return_def
        resolve_kernels_def can_use_prior_checkpoints_def sample_scratch(3))
  have "\<exists>r ws2. full_execution FULL_UPDATE None None sample_claims sample_evidence [] sample_workspace = (Inr r, ws2)"
    by (simp add: full_execution_def io_bind_def io_lift_def io_on_def h facts states checkpoints ws1
        finish_execution_def Let_def io_update_def io_return_def)
  then have "\<exists>r ws2. build_target_product_execution FULL_UPDATE sample_translation sample_workspace = (Inr r, ws2)"
    by (subst build_execution_cases [of _ None None])
      (simp_all add: sample_workspace_def load_prior_target_product_execution_def load_prior_summary_id_def
        read_summary_payload_def inputs_of_def sample_translation_def)
  then show ?thesis
    by (auto simp: finish_normalization_def sample_request_def Let_def io_bind_def io_update_def io_return_def)
qed

lemma sample_run_inputs:
  "inputs_of sample_translation = Some (sample_claims, sample_evidence)"
  "(sample_claims, sample_evidence) \<in> un_inputs sample_universe"
  by (simp_all add: inputs_of_def sample_translation_def sample_universe_def)



end
