(* ===== verification/Payload_Fields.thy ===== *)
theory Payload_Fields
  imports Execution_Plans Assertion_Values
begin

text \<open>
  The field readers the JSON repositories under \<open>infrastructure/storage\<close> have in common, each with
  the name of the product in its messages, and the laws that make a written product readable: the
  locale \<open>file_codec\<close>, interpreted by every repository.
\<close>

section \<open>Readers\<close>

type_synonym json_fields = "(string \<times> json) list"

definition required_dict :: "string \<Rightarrow> string \<Rightarrow> json \<Rightarrow> json_fields result" where
  "required_dict product label v =
     (case v of
        JObject kvs \<Rightarrow> Inr kvs
      | _ \<Rightarrow> Inl (ValueError (''invalid '' @ product @ '' '' @ label @ '': expected object'')))"

definition field_error :: "string \<Rightarrow> string \<Rightarrow> string \<Rightarrow> py_error" where
  "field_error product key problem =
     ValueError (''invalid '' @ product @ '' '' @ key @ '': expected '' @ problem)"

definition required_array :: "string \<Rightarrow> json_fields \<Rightarrow> string \<Rightarrow> json list result" where
  "required_array product raw key =
     (case map_of raw key of
        Some (JArray js) \<Rightarrow> Inr js
      | _ \<Rightarrow> Inl (field_error product key ''array''))"

definition required_text :: "string \<Rightarrow> json_fields \<Rightarrow> string \<Rightarrow> string result" where
  "required_text product raw key =
     (case map_of raw key of
        Some (JString s) \<Rightarrow> if s = [] then Inl (field_error product key ''non-empty string'') else Inr s
      | _ \<Rightarrow> Inl (field_error product key ''non-empty string''))"

definition optional_text :: "string \<Rightarrow> json_fields \<Rightarrow> string \<Rightarrow> string result" where
  "optional_text product raw key =
     (case map_of raw key of
        None \<Rightarrow> Inr []
      | Some JNull \<Rightarrow> Inr []
      | Some (JString s) \<Rightarrow> Inr s
      | _ \<Rightarrow> Inl (field_error product key ''string''))"

definition text_item :: "json \<Rightarrow> string option" where
  "text_item j = (case j of JString s \<Rightarrow> Some s | _ \<Rightarrow> None)"

definition text_items :: "string \<Rightarrow> string \<Rightarrow> string \<Rightarrow> json list \<Rightarrow> string list result" where
  "text_items product key problem js =
     (if list_all (\<lambda>j. text_item j \<noteq> None) js then Inr (List.map_filter text_item js)
      else Inl (field_error product key problem))"

definition required_text_tuple :: "string \<Rightarrow> json_fields \<Rightarrow> string \<Rightarrow> string list result" where
  "required_text_tuple product raw key =
     r_bind (required_array product raw key) (text_items product key ''string array'')"

definition required_parsed_decimal :: "py_error \<Rightarrow> string \<Rightarrow> decimal result" where
  "required_parsed_decimal e text =
     r_bind (parse_decimal (DText text)) (\<lambda>v. case v of None \<Rightarrow> Inl e | Some d \<Rightarrow> Inr d)"

definition required_decimal :: "string \<Rightarrow> json_fields \<Rightarrow> string \<Rightarrow> decimal result" where
  "required_decimal product raw key =
     r_bind (required_text product raw key) (required_parsed_decimal (field_error product key ''decimal''))"

definition required_temporal ::
    "string \<Rightarrow> json_fields \<Rightarrow> string \<Rightarrow> temporal_precision \<Rightarrow> datetime result" where
  "required_temporal product raw key precision =
     r_bind (required_text product raw key) (\<lambda>text. parse_temporal_value text precision)"

definition optional_temporal_field ::
    "string \<Rightarrow> json_fields \<Rightarrow> string \<Rightarrow> temporal_precision option \<Rightarrow> datetime option result" where
  "optional_temporal_field product raw key precision =
     r_bind (optional_text product raw key) (\<lambda>text.
       if text = [] then Inr None
       else (case precision of
           None \<Rightarrow> Inl (ValueError (''invalid '' @ product @ '' '' @ key @
             '': precision is required when a temporal value is present''))
         | Some p \<Rightarrow> r_bind (parse_temporal_value text p) (\<lambda>t. Inr (Some t))))"

text \<open>\<open>payload.get("schema_version") != version\<close>; \<open>True\<close> is equal to one in Python.\<close>

definition json_is_int :: "json \<Rightarrow> int \<Rightarrow> bool" where
  "json_is_int j n = (case j of JInt i \<Rightarrow> i = n | JBool b \<Rightarrow> (if b then 1 else 0) = n | _ \<Rightarrow> False)"

definition blank_json :: "json \<Rightarrow> bool" where
  "blank_json j \<longleftrightarrow> j = JNull \<or> j = JString []"

definition check_schema_version :: "string \<Rightarrow> int \<Rightarrow> json_fields \<Rightarrow> unit result" where
  "check_schema_version product version payload =
     (let v = (case map_of payload ''schema_version'' of None \<Rightarrow> JNull | Some j \<Rightarrow> j) in
      r_require (json_is_int v version)
        (ValueError (''unsupported '' @ product @ '' schema_version: '' @
          (if blank_json v then ''<missing>'' else str_json v) @ ''; expected '' @ int_text version)))"

text \<open>\<open>Enum(value)\<close>.\<close>

definition enum_of :: "string \<Rightarrow> ('a \<Rightarrow> string) \<Rightarrow> 'a list \<Rightarrow> string \<Rightarrow> 'a result" where
  "enum_of cls text members v =
     (case List.find (\<lambda>m. text m = v) members of
        Some m \<Rightarrow> Inr m
      | None \<Rightarrow> Inl (ValueError (py_repr v @ '' is not a valid '' @ cls)))"

text \<open>
  \<open>_tupled\<close>: arrays become tuples. An item that is neither text, \<open>None\<close> nor an array is kept by the
  code and has no counterpart in the model.
\<close>

primrec subject_item_of :: "json \<Rightarrow> subject_item result" where
  "subject_item_of JNull = Inr SNone"
| "subject_item_of (JBool b) = Inl (OutsideModel ''subject item'')"
| "subject_item_of (JInt i) = Inl (OutsideModel ''subject item'')"
| "subject_item_of (JString s) = Inr (SText s)"
| "subject_item_of (JArray js) =
     r_bind (r_map id (map subject_item_of js)) (\<lambda>items. Inr (STuple items))"
| "subject_item_of (JObject kvs) = Inl (OutsideModel ''subject item'')"

definition tupled :: "json list \<Rightarrow> subject_item list result" where
  "tupled js = r_map subject_item_of js"

text \<open>The items of the array an assertion value is written as.\<close>

definition list_item :: "string \<Rightarrow> json list \<Rightarrow> nat \<Rightarrow> string \<Rightarrow> json result" where
  "list_item product items index label =
     (if length items \<le> index then
        Inl (ValueError (''invalid '' @ product @ '' assertion value: missing '' @ label))
      else Inr (items ! index))"

definition list_text :: "string \<Rightarrow> json list \<Rightarrow> nat \<Rightarrow> string result" where
  "list_text product items index =
     (case (if index < length items then items ! index else JString []) of
        JNull \<Rightarrow> Inr []
      | JString s \<Rightarrow> Inr s
      | _ \<Rightarrow> Inl (ValueError (''invalid '' @ product @ '' owner value'')))"

definition decimal_item :: "string \<Rightarrow> json \<Rightarrow> decimal result" where
  "decimal_item product v =
     (let e = ValueError (''invalid '' @ product @ '' decimal value'') in
      case v of JString s \<Rightarrow> required_parsed_decimal e s | _ \<Rightarrow> Inl e)"

definition subject_ref_item :: "string \<Rightarrow> json \<Rightarrow> subject_ref result" where
  "subject_ref_item product v =
     (case v of
        JArray [JString kind, JArray raw_key] \<Rightarrow> r_bind (tupled raw_key) (\<lambda>items. Inr (kind, items))
      | JArray [JString kind, _] \<Rightarrow>
          Inl (ValueError (''invalid '' @ product @ '' subject_ref: expected key array''))
      | _ \<Rightarrow> Inl (ValueError (''invalid '' @ product @ '' subject_ref: expected array'')))"

text \<open>Writing and reading the text of a file.\<close>

definition written_text :: "('a \<Rightarrow> json result) \<Rightarrow> 'a \<Rightarrow> string result" where
  "written_text to_payload x = r_bind (to_payload x) (\<lambda>p. Inr (json_file_text p))"

definition read_text :: "(json \<Rightarrow> 'a result) \<Rightarrow> string \<Rightarrow> 'a result" where
  "read_text from_payload text = r_bind (loads text) from_payload"

section \<open>What the readers give on written fields\<close>

abbreviation written :: "json_fields \<Rightarrow> json_fields" where
  "written kvs \<equiv> sort_key fst (map (map_prod id sort_json) kvs)"

lemma sort_string [simp]: "sort_json \<circ> JString = JString"
  by (simp add: fun_eq_iff)

lemma text_items_strings [simp]: "text_items product key problem (map JString ss) = Inr ss"
  by (induction ss) (auto simp: text_items_def text_item_def map_filter_simps list_all_iff split: if_splits)

lemmas reader_simps =
  required_dict_def required_array_def required_text_def optional_text_def required_text_tuple_def
  required_decimal_def required_temporal_def optional_temporal_field_def check_schema_version_def json_is_int_def

definition storable_decimal :: "decimal \<Rightarrow> bool" where
  "storable_decimal d \<longleftrightarrow> text_size (quantize_decimal d) \<le> 900000"

definition storable_time :: "datetime \<Rightarrow> temporal_precision \<Rightarrow> bool" where
  "storable_time t p \<longleftrightarrow> valid_datetime t \<and> utcoffset t = Some 0 \<and> whole_second t = t \<and>
     (p = DATE \<longrightarrow> midnight t)"

lemma format_decimal_nonempty: "format_decimal (Some d) \<noteq> []"
  by (simp add: format_decimal_def format_f_no_space)

lemma format_quantized [simp]: "format_decimal (Some (quantize_decimal d)) = format_decimal (Some d)"
  by (simp add: format_decimal_def)

lemma required_parsed_format:
  "storable_decimal d \<Longrightarrow> required_parsed_decimal e (format_decimal (Some d)) = Inr (quantize_decimal d)"
  by (simp add: required_parsed_decimal_def storable_decimal_def parse_format_decimal_aux del: parse_decimal.simps)

definition time_text :: "datetime \<Rightarrow> temporal_precision \<Rightarrow> string" where
  "time_text t p = (if p = TIMESTAMP then strftime_timestamp t else strftime_date t)"

lemma formatted_time:
  "storable_time t p \<Longrightarrow> format_temporal_value t p label = Inr (time_text t p)"
  by (simp add: format_temporal_value_def require_temporal_datetime_def storable_time_def time_text_def)

lemma strftime_nonempty: "strftime_date t \<noteq> []" "strftime_timestamp t \<noteq> []"
  by (simp_all add: strftime_timestamp_def strftime_date_def)

lemma time_text_nonempty [simp]: "time_text t p \<noteq> []"
  by (simp add: time_text_def strftime_nonempty)

lemma parse_time_text:
  assumes "storable_time t p"
  shows "parse_temporal_value (time_text t p) p = Inr t"
proof -
  have "valid_datetime t" "whole_second t = t" using assms by (simp_all add: storable_time_def)
  then show ?thesis
    using parse_format_temporal_aux [OF _ formatted_time [OF assms]] by simp
qed

lemma precision_text_nonempty [simp]: "temporal_precision_text p \<noteq> []"
  by (cases p) simp_all

lemma precision_read [simp]: "parse_temporal_precision (temporal_precision_text p) = Some p"
proof -
  have "parse_temporal_precision ''timestamp'' = Some TIMESTAMP" "parse_temporal_precision ''date'' = Some DATE"
    by code_simp+
  then show ?thesis by (cases p) (simp_all only: temporal_precision_text.simps)
qed

lemma subject_item_round_trip: "subject_item_of (json_ready a) = Inr a"
proof (induction a)
  case (STuple items)
  then have "r_map id (map subject_item_of (map json_ready items)) = Inr items"
    by (induction items) (auto simp: r_bind_Inr_iff)
  then show ?case by simp
qed simp_all

lemma tupled_round_trip: "tupled (map json_ready items) = Inr items"
  unfolding tupled_def by (induction items) (simp_all add: subject_item_round_trip)

lemma subject_payload_sorted: "sort_json (subject_ref_payload r) = subject_ref_payload r"
  by (rule sort_plain) simp

lemma value_payload_sorted: "sort_json (assertion_value_payload v) = assertion_value_payload v"
  by (rule sort_plain) (rule plain_payload)

lemma subject_ref_item_payload [simp]: "subject_ref_item product (subject_ref_payload r) = Inr r"
  by (simp add: subject_ref_item_def subject_ref_payload_def tupled_round_trip)

lemma decimal_item_format [simp]:
  "storable_decimal d \<Longrightarrow> decimal_item product (JString (format_decimal (Some d))) = Inr (quantize_decimal d)"
  by (simp add: decimal_item_def required_parsed_format)

fun storable_value :: "assertion_value \<Rightarrow> bool" where
  "storable_value (QuantityValue q s) = storable_decimal q"
| "storable_value (MoneyValue a c) = storable_decimal a"
| "storable_value v = (mk_assertion_value v = Inr v)"

fun stored_value :: "assertion_value \<Rightarrow> assertion_value" where
  "stored_value (QuantityValue q s) = QuantityValue (quantize_decimal q) s"
| "stored_value (MoneyValue a c) = MoneyValue (quantize_decimal a) c"
| "stored_value v = v"

lemma stored_value_payload [simp]: "assertion_value_payload (stored_value v) = assertion_value_payload v"
  by (cases v) (simp_all add: assertion_value_payload_def)

lemma enum_of_text:
  "(\<And>a b. text a = text b \<longleftrightarrow> a = b) \<Longrightarrow> m \<in> set members \<Longrightarrow> enum_of cls text members (text m) = Inr m"
proof -
  assume inj: "\<And>a b. text a = text b \<longleftrightarrow> a = b" and m: "m \<in> set members"
  have "List.find (\<lambda>x. x = m) members = Some m" using m by (induction members) auto
  then show ?thesis by (simp add: enum_of_def inj)
qed

lemma written_object: "sort_json (JObject kvs) = JObject (written kvs)"
  by simp

text \<open>A list of records written one by one is read one by one.\<close>

lemma read_written_records:
  assumes "r_map payload xs = Inr ps"
    and "\<And>x p. x \<in> set xs \<Longrightarrow> payload x = Inr p \<Longrightarrow> read_one (sort_json p) = Inr (stored x)"
  shows "r_map read_one (map sort_json ps) = Inr (map stored xs)"
  using assms
proof (induction xs arbitrary: ps)
  case (Cons x xs)
  then obtain p qs where p: "payload x = Inr p" "r_map payload xs = Inr qs" "ps = p # qs"
    by (auto simp: r_bind_Inr_iff)
  have "r_map read_one (map sort_json qs) = Inr (map stored xs)"
    using Cons.IH [OF p(2)] Cons.prems(2) by simp
  then show ?case using Cons.prems(2) [of x p] p by simp
qed simp

lemma r_map_stored: "(\<And>x. payload (f x) = payload x) \<Longrightarrow> r_map payload (map f xs) = r_map payload xs"
  by (induction xs) simp_all

lemma sort_key_in_order: "sort_key key (sort_key key xs) = sort_key key xs"
  by (rule sort_key_id_if_sorted) (simp only: sorted_sort_key)

text \<open>Sorting the stored records again changes nothing, since storing keeps their keys.\<close>

lemma sort_key_stored:
  assumes "\<And>x. x \<in> set xs \<Longrightarrow> key (f x) = key x"
  shows "sort_key key (map f (sort_key key xs)) = map f (sort_key key xs)"
proof (rule sort_key_id_if_sorted)
  have "map key (map f (sort_key key xs)) = map key (sort_key key xs)"
    using assms by simp
  then show "sorted (map key (map f (sort_key key xs)))" by (simp only: sorted_sort_key)
qed

section \<open>The contract of a repository\<close>

locale file_codec =
  fixes payload :: "'a \<Rightarrow> json result"
    and from_payload :: "json \<Rightarrow> 'a result"
    and storable :: "'a \<Rightarrow> bool"
    and stored :: "'a \<Rightarrow> 'a"
  assumes payload_well_formed: "payload x = Inr p \<Longrightarrow> wf_json p"
    and payload_read: "storable x \<Longrightarrow> payload x = Inr p \<Longrightarrow> from_payload (sort_json p) = Inr (stored x)"
    and payload_stored: "storable x \<Longrightarrow> payload x = Inr p \<Longrightarrow> payload (stored x) = Inr p"
begin

lemma file_round_trip:
  assumes "storable x" and "written_text payload x = Inr text"
  shows "read_text from_payload text = Inr (stored x) \<and> written_text payload (stored x) = Inr text \<and>
    payload (stored x) = payload x"
proof -
  obtain p where p: "payload x = Inr p" "text = json_file_text p"
    using assms(2) by (auto simp: written_text_def r_bind_Inr_iff)
  have "loads text = Inr (sort_json p)"
    using loads_file_text [OF wf_sort_json] payload_well_formed [OF p(1)] p(2) by simp
  then show ?thesis
    using payload_read [OF assms(1) p(1)] payload_stored [OF assms(1) p(1)] p
    by (simp add: read_text_def written_text_def)
qed

end


text \<open>A codec that writes everything storable.\<close>

locale total_codec = file_codec +
  assumes payload_total: "storable x \<Longrightarrow> \<exists>p. payload x = Inr p"
begin

lemma stored_read_back:
  assumes "storable x"
  shows "\<exists>text. written_text payload x = Inr text \<and> read_text from_payload text = Inr (stored x) \<and>
    written_text payload (stored x) = Inr text"
proof -
  obtain p where p: "payload x = Inr p" using payload_total [OF assms] by blast
  then have "written_text payload x = Inr (json_file_text p)" by (simp add: written_text_def)
  with file_round_trip [OF assms this] show ?thesis by blast
qed

lemma stored_payload: "storable x \<Longrightarrow> payload (stored x) = payload x"
  using payload_total payload_stored by metis

end

end
