(* ===== verification/Economic_Facts_Files.thy ===== *)
theory Economic_Facts_Files
  imports Payload_Fields Economics
begin

text \<open>
  \<open>infrastructure/storage/economic_facts.py\<close>: economic facts are written as the JSON text of their
  payload and read back field by field. The theorem: reading a written file gives the facts back,
  and writing these again gives the same file.
\<close>

section \<open>Fields\<close>

definition ef_required_dict :: "string \<Rightarrow> json \<Rightarrow> json_fields result" where
  "ef_required_dict label v = required_dict ''economic facts'' label v"

definition ef_required_list :: "json_fields \<Rightarrow> string \<Rightarrow> json list result" where
  "ef_required_list payload key = required_array ''economic facts'' payload key"

definition ef_required_text :: "json_fields \<Rightarrow> string \<Rightarrow> string result" where
  "ef_required_text payload key = required_text ''economic facts'' payload key"

definition ef_optional_text :: "json_fields \<Rightarrow> string \<Rightarrow> string result" where
  "ef_optional_text payload key = optional_text ''economic facts'' payload key"

definition ef_required_text_tuple :: "json_fields \<Rightarrow> string \<Rightarrow> string list result" where
  "ef_required_text_tuple payload key = required_text_tuple ''economic facts'' payload key"

definition ef_required_decimal :: "json_fields \<Rightarrow> string \<Rightarrow> decimal result" where
  "ef_required_decimal payload key = required_decimal ''economic facts'' payload key"

definition ef_required_temporal :: "json_fields \<Rightarrow> string \<Rightarrow> temporal_precision \<Rightarrow> datetime result" where
  "ef_required_temporal payload key precision = required_temporal ''economic facts'' payload key precision"

definition ef_required_subject_ref :: "json_fields \<Rightarrow> string \<Rightarrow> subject_ref result" where
  "ef_required_subject_ref payload key =
     (case map_of payload key of
        Some (JArray [JString kind, JArray raw_key]) \<Rightarrow>
          r_bind (tupled raw_key) (\<lambda>items. Inr (kind, items))
      | _ \<Rightarrow> Inl (field_error ''economic facts'' key ''subject ref array''))"

lemmas ef_readers = ef_required_dict_def ef_required_list_def ef_required_text_def ef_optional_text_def
  ef_required_text_tuple_def ef_required_decimal_def ef_required_temporal_def ef_required_subject_ref_def

section \<open>Records\<close>

definition event_kinds :: "event_kind list" where
  "event_kinds =
     [EK_ASSET_MOVEMENT, EK_CASH_MOVEMENT, EK_OBLIGATION_OR_RIGHT, EK_SETTLEMENT, EK_COLLATERAL_CHANGE,
      EK_FINANCING_FLOW, EK_FEE_OR_REBATE, EK_WITHHOLDING, EK_LIFECYCLE_RESTRUCTURE, EK_CORRECTION]"

definition leg_roles :: "leg_role list" where
  "leg_roles =
     [HOLDING_CHANGE, CASH_CHANGE, OBLIGATION_CHANGE, SETTLEMENT_CHANGE, COLLATERAL_CHANGE,
      FINANCING_CHANGE, FEE, REBATE, WITHHOLDING]"

definition economic_event_from_payload :: "json \<Rightarrow> economic_event_record result" where
  "economic_event_from_payload payload =
     r_bind (ef_required_dict ''economic event'' payload) (\<lambda>raw.
     r_bind (ef_required_text raw ''event_id'') (\<lambda>event_id.
     r_bind (ef_required_text raw ''claim_bundle_id'') (\<lambda>bundle_id.
     r_bind (ef_required_text raw ''claim_bundle_decision_id'') (\<lambda>decision_id.
     r_bind (ef_required_text raw ''kind'') (\<lambda>kind_text.
     r_bind (enum_of ''EconomicEventKind'' event_kind_text event_kinds kind_text) (\<lambda>kind.
     r_bind (ef_required_temporal raw ''effective_at'' TIMESTAMP) (\<lambda>effective_at.
     r_bind (ef_required_temporal raw ''recorded_at'' TIMESTAMP) (\<lambda>recorded_at.
     r_bind (ef_required_text raw ''settlement_status'') (\<lambda>status_text.
     r_bind (enum_of ''SettlementStatus'' (\<lambda>_. ''settled'') [SETTLED] status_text) (\<lambda>status.
     r_bind (ef_required_text raw ''lifecycle_event'') (\<lambda>lifecycle_text.
     r_bind (enum_of ''LifecycleEvent'' lifecycle_event_text [CREATED, MIGRATED] lifecycle_text) (\<lambda>lifecycle.
     r_bind (ef_optional_text raw ''legal_owner_ref'') (\<lambda>legal.
     r_bind (ef_optional_text raw ''beneficial_owner_ref'') (\<lambda>beneficial.
     r_bind (ef_optional_text raw ''counterparty_ref'') (\<lambda>counterparty.
     r_bind (ef_optional_text raw ''supersedes_event_id'') (\<lambda>supersedes.
       mk_economic_event_record
         \<lparr>ev_event_id = event_id, ev_claim_bundle_id = bundle_id, ev_claim_bundle_decision_id = decision_id,
          ev_kind = kind, ev_effective_at = effective_at, ev_recorded_at = recorded_at,
          ev_settlement_status = status, ev_lifecycle_event = lifecycle, ev_legal_owner_ref = legal,
          ev_beneficial_owner_ref = beneficial, ev_counterparty_ref = counterparty,
          ev_supersedes_event_id = supersedes\<rparr>))))))))))))))))"

definition economic_leg_from_payload :: "json \<Rightarrow> economic_leg_record result" where
  "economic_leg_from_payload payload =
     r_bind (ef_required_dict ''economic leg'' payload) (\<lambda>raw.
     r_bind (ef_required_subject_ref raw ''subject_ref'') (\<lambda>subject_ref.
     r_bind (ef_required_text raw ''leg_id'') (\<lambda>leg_id.
     r_bind (ef_required_text raw ''event_id'') (\<lambda>event_id.
     r_bind (ef_required_text raw ''role'') (\<lambda>role_text.
     r_bind (enum_of ''EconomicLegRole'' leg_role_text leg_roles role_text) (\<lambda>role.
     r_bind (ef_required_text_tuple raw ''instrument_ref'') (\<lambda>instrument_ref.
     r_bind (ef_required_text_tuple raw ''location_ref'') (\<lambda>location_ref.
     r_bind (ef_required_decimal raw ''quantity'') (\<lambda>quantity.
     r_bind (ef_optional_text raw ''valuation_ref'') (\<lambda>valuation_ref.
       mk_economic_leg_record
         \<lparr>leg_leg_id = leg_id, leg_event_id = event_id, leg_role_of = role, leg_subject_ref = subject_ref,
          leg_instrument_ref = instrument_ref, leg_location_ref = location_ref, leg_quantity = quantity,
          leg_valuation_ref = valuation_ref\<rparr>))))))))))"

definition valuation_from_payload :: "json \<Rightarrow> valuation_record result" where
  "valuation_from_payload payload =
     r_bind (ef_required_dict ''valuation'' payload) (\<lambda>raw.
     r_bind (ef_required_text raw ''precision'') (\<lambda>precision_text.
     case parse_temporal_precision precision_text of
       None \<Rightarrow> Inl (ValueError ''invalid economic facts precision: expected supported precision'')
     | Some precision \<Rightarrow>
     r_bind (ef_required_text_tuple raw ''origin_ref'') (\<lambda>origin_ref.
     if length origin_ref \<noteq> 2 then Inl (ValueError ''invalid economic facts origin_ref: expected pair'')
     else
     r_bind (ef_required_text raw ''valuation_id'') (\<lambda>valuation_id.
     r_bind (ef_required_text raw ''purpose'') (\<lambda>purpose.
     r_bind (ef_required_decimal raw ''amount'') (\<lambda>amount.
     r_bind (ef_required_text raw ''currency'') (\<lambda>currency.
     r_bind (ef_required_temporal raw ''valued_at'' precision) (\<lambda>valued_at.
     r_bind (ef_required_text_tuple raw ''provenance_refs'') (\<lambda>provenance_refs.
     r_bind (ef_required_text raw ''confidence'') (\<lambda>confidence.
       mk_valuation_record
         \<lparr>val_valuation_id = valuation_id, val_origin_ref = (origin_ref ! 0, origin_ref ! 1),
          val_purpose = purpose, val_amount = amount, val_currency = currency, val_valued_at = valued_at,
          val_precision = precision, val_provenance_refs = provenance_refs,
          val_confidence = confidence\<rparr>))))))))))"

definition economic_facts_from_payload :: "json \<Rightarrow> economic_facts result" where
  "economic_facts_from_payload v =
     r_bind (ef_required_dict ''payload'' v) (\<lambda>payload.
     r_bind (check_schema_version ''economic facts'' ECONOMIC_FACTS_SCHEMA_VERSION payload) (\<lambda>_.
     r_bind (ef_required_text payload ''economic_facts_id'') (\<lambda>economic_facts_id.
     r_bind (ef_required_text_tuple payload ''claim_set_refs'') (\<lambda>claim_set_refs.
     r_bind (ef_required_list payload ''economic_event_records'') (\<lambda>raw_events.
     r_bind (r_map economic_event_from_payload raw_events) (\<lambda>events.
     r_bind (ef_required_list payload ''economic_leg_records'') (\<lambda>raw_legs.
     r_bind (r_map economic_leg_from_payload raw_legs) (\<lambda>legs.
     r_bind (ef_required_list payload ''valuation_records'') (\<lambda>raw_valuations.
     r_bind (r_map valuation_from_payload raw_valuations) (\<lambda>valuations.
       Inr \<lparr>ef_economic_facts_id = economic_facts_id, ef_claim_set_refs = claim_set_refs,
         ef_economic_event_records = events, ef_economic_leg_records = legs,
         ef_valuation_records = valuations\<rparr>))))))))))"

definition write_economic_facts :: "economic_facts \<Rightarrow> string result" where
  "write_economic_facts f = written_text economic_facts_payload f"

definition read_economic_facts :: "string \<Rightarrow> economic_facts result" where
  "read_economic_facts text = read_text economic_facts_from_payload text"

section \<open>What is stored\<close>

definition storable_event :: "economic_event_record \<Rightarrow> bool" where
  "storable_event e \<longleftrightarrow> ev_event_id e \<noteq> [] \<and> ev_claim_bundle_id e \<noteq> [] \<and>
     ev_claim_bundle_decision_id e \<noteq> [] \<and> storable_time (ev_effective_at e) TIMESTAMP \<and>
     storable_time (ev_recorded_at e) TIMESTAMP"

definition storable_leg :: "economic_leg_record \<Rightarrow> bool" where
  "storable_leg l \<longleftrightarrow> leg_leg_id l \<noteq> [] \<and> leg_event_id l \<noteq> [] \<and> mk_economic_leg_record l = Inr l \<and>
     storable_decimal (leg_quantity l)"

definition storable_valuation :: "valuation_record \<Rightarrow> bool" where
  "storable_valuation v \<longleftrightarrow> val_valuation_id v \<noteq> [] \<and> val_purpose v \<noteq> [] \<and> val_currency v \<noteq> [] \<and>
     val_confidence v \<noteq> [] \<and> storable_decimal (val_amount v) \<and>
     storable_time (val_valued_at v) (val_precision v)"

definition storable_facts :: "economic_facts \<Rightarrow> bool" where
  "storable_facts f \<longleftrightarrow> ef_economic_facts_id f \<noteq> [] \<and>
     (\<forall>e \<in> set (ef_economic_event_records f). storable_event e) \<and>
     (\<forall>l \<in> set (ef_economic_leg_records f). storable_leg l) \<and>
     (\<forall>v \<in> set (ef_valuation_records f). storable_valuation v)"

definition stored_leg :: "economic_leg_record \<Rightarrow> economic_leg_record" where
  "stored_leg l = l\<lparr>leg_quantity := quantize_decimal (leg_quantity l)\<rparr>"

definition stored_valuation :: "valuation_record \<Rightarrow> valuation_record" where
  "stored_valuation v =
     v\<lparr>val_amount := quantize_decimal (val_amount v), val_provenance_refs := sort (val_provenance_refs v)\<rparr>"

definition leg_order :: "economic_leg_record \<Rightarrow> string \<times> int \<times> string" where
  "leg_order l = (case leg_key l of Inr k \<Rightarrow> k)"

definition stored_facts :: "economic_facts \<Rightarrow> economic_facts" where
  "stored_facts f =
     f\<lparr>ef_economic_event_records := canonical_economic_event_records (ef_economic_event_records f),
       ef_economic_leg_records := map stored_leg (sort_key leg_order (ef_economic_leg_records f)),
       ef_valuation_records := map stored_valuation (canonical_valuation_records (ef_valuation_records f))\<rparr>"

lemma event_kind_read [simp]: "enum_of cls event_kind_text event_kinds (event_kind_text k) = Inr k"
  by (cases k) (simp_all add: enum_of_def event_kinds_def)

lemma leg_role_read [simp]: "enum_of cls leg_role_text leg_roles (leg_role_text r) = Inr r"
  by (cases r) (simp_all add: enum_of_def leg_roles_def)

lemma settlement_status_read [simp]: "enum_of cls (\<lambda>_. ''settled'') [SETTLED] ''settled'' = Inr SETTLED"
  by (simp add: enum_of_def)

lemma settlement_status_only: "(s :: settlement_status) = SETTLED"
  by (cases s)

lemma lifecycle_read [simp]: "enum_of cls lifecycle_event_text [CREATED, MIGRATED] (lifecycle_event_text e) = Inr e"
  by (cases e) (simp_all add: enum_of_def)

lemma event_kind_text_nonempty [simp]: "event_kind_text k \<noteq> []" by (cases k) simp_all
lemma leg_role_text_nonempty [simp]: "leg_role_text r \<noteq> []" by (cases r) simp_all
lemma lifecycle_text_nonempty [simp]: "lifecycle_event_text e \<noteq> []" by (cases e) simp_all
lemma event_read_back:
  assumes "storable_event e" and "event_payload e = Inr p"
  shows "economic_event_from_payload (sort_json p) = Inr e"
proof -
  have times: "storable_time (ev_effective_at e) TIMESTAMP" "storable_time (ev_recorded_at e) TIMESTAMP"
    using assms(1) by (simp_all add: storable_event_def)
  then have utc: "utcoffset (ev_effective_at e) = Some 0" "utcoffset (ev_recorded_at e) = Some 0"
    by (simp_all add: storable_time_def)
  obtain kvs where p: "p = JObject kvs" and kvs: "kvs =
         [(''event_id'', JString (ev_event_id e)),
          (''claim_bundle_id'', JString (ev_claim_bundle_id e)),
          (''claim_bundle_decision_id'', JString (ev_claim_bundle_decision_id e)),
          (''kind'', JString (event_kind_text (ev_kind e))),
          (''effective_at'', JString (time_text (ev_effective_at e) TIMESTAMP)),
          (''recorded_at'', JString (time_text (ev_recorded_at e) TIMESTAMP)),
          (''settlement_status'', JString ''settled''),
          (''lifecycle_event'', JString (lifecycle_event_text (ev_lifecycle_event e))),
          (''legal_owner_ref'', JString (ev_legal_owner_ref e)),
          (''beneficial_owner_ref'', JString (ev_beneficial_owner_ref e)),
          (''counterparty_ref'', JString (ev_counterparty_ref e)),
          (''supersedes_event_id'', JString (ev_supersedes_event_id e))]"
    using assms(2) times by (simp add: event_payload_def formatted_time)
  have m: "map_of (written kvs) k = map_option sort_json (map_of kvs k)" for k
    by (rule map_of_sort_json) (simp add: kvs)
  show ?thesis
    unfolding p written_object economic_event_from_payload_def ef_readers reader_simps m
    using assms(1) times utc settlement_status_only [of "ev_settlement_status e"]
    by (cases e) (simp add: kvs storable_event_def parse_time_text mk_economic_event_record_def)
qed

lemma subject_read_back [simp]:
  "map_of raw key = Some (subject_ref_payload r) \<Longrightarrow> ef_required_subject_ref raw key = Inr r"
  by (simp add: ef_required_subject_ref_def subject_ref_payload_def tupled_round_trip)

lemma leg_read_back:
  assumes "storable_leg l"
  shows "economic_leg_from_payload (sort_json (leg_payload l)) = Inr (stored_leg l)"
proof -
  obtain kvs where p: "leg_payload l = JObject kvs" and kvs: "kvs =
       [(''leg_id'', JString (leg_leg_id l)), (''event_id'', JString (leg_event_id l)),
        (''role'', JString (leg_role_text (leg_role_of l))),
        (''subject_ref'', subject_ref_payload (leg_subject_ref l)),
        (''instrument_ref'', JArray (map JString (leg_instrument_ref l))),
        (''location_ref'', JArray (map JString (leg_location_ref l))),
        (''quantity'', JString (format_decimal (Some (leg_quantity l)))),
        (''valuation_ref'', JString (leg_valuation_ref l))]"
    by (simp add: leg_payload_def)
  have m: "map_of (written kvs) k = map_option sort_json (map_of kvs k)" for k
    by (rule map_of_sort_json) (simp add: kvs)
  have q: "storable_decimal (leg_quantity l)" "\<not> d_eq (quantize_decimal (leg_quantity l)) d_zero"
      "leg_instrument_ref l \<noteq> []" "leg_location_ref l \<noteq> []"
    using assms by (simp_all add: storable_leg_def mk_economic_leg_record_def d_eq_iff quantize_zero_iff split: if_splits)
  have s: "ef_required_subject_ref (written kvs) ''subject_ref'' = Inr (leg_subject_ref l)"
    by (rule subject_read_back) (simp add: m kvs subject_payload_sorted)
  show ?thesis
    unfolding p written_object economic_leg_from_payload_def ef_required_dict_def required_dict_def json.case
      r_bind.simps s
    unfolding ef_readers reader_simps m
    using assms q
    by (cases l) (simp add: kvs storable_leg_def required_parsed_format format_decimal_nonempty
        mk_economic_leg_record_def stored_leg_def)
qed

lemma valuation_read_back:
  assumes "storable_valuation v" and "valuation_payload v = Inr p"
  shows "valuation_from_payload (sort_json p) = Inr (stored_valuation v)"
proof -
  have time: "storable_time (val_valued_at v) (val_precision v)" "storable_decimal (val_amount v)"
    using assms(1) by (simp_all add: storable_valuation_def)
  then have utc: "utcoffset (val_valued_at v) = Some 0" by (simp add: storable_time_def)
  obtain kvs where p: "p = JObject kvs" and kvs: "kvs =
       [(''valuation_id'', JString (val_valuation_id v)),
        (''origin_ref'', JArray (map JString [fst (val_origin_ref v), snd (val_origin_ref v)])),
        (''purpose'', JString (val_purpose v)),
        (''amount'', JString (format_decimal (Some (val_amount v)))),
        (''currency'', JString (val_currency v)),
        (''valued_at'', JString (time_text (val_valued_at v) (val_precision v))),
        (''precision'', JString (temporal_precision_text (val_precision v))),
        (''provenance_refs'', JArray (map JString (sort (val_provenance_refs v)))),
        (''confidence'', JString (val_confidence v))]"
    using assms(2) time by (simp add: valuation_payload_def formatted_time)
  have m: "map_of (written kvs) k = map_option sort_json (map_of kvs k)" for k
    by (rule map_of_sort_json) (simp add: kvs)
  have pair: "text_items product key problem [JString a, JString b] = Inr [a, b]" for product key problem a b
    using text_items_strings [of product key problem "[a, b]"] by simp
  show ?thesis
    unfolding p written_object valuation_from_payload_def ef_readers reader_simps m
    using assms(1) time utc
    by (cases v) (simp add: kvs storable_valuation_def parse_time_text pair required_parsed_format
        format_decimal_nonempty mk_valuation_record_def stored_valuation_def)
qed

section \<open>Files\<close>

lemma leg_order_stored [simp]: "leg_order (stored_leg l) = leg_order l" "leg_key (stored_leg l) = leg_key l"
  by (simp_all add: leg_order_def leg_key_def stored_leg_def)

lemma leg_payload_stored: "leg_payload (stored_leg l) = leg_payload l"
  by (simp add: leg_payload_def stored_leg_def)

lemma valuation_payload_stored: "valuation_payload (stored_valuation v) = valuation_payload v"
  by (simp add: valuation_payload_def stored_valuation_def sort_key_in_order)

lemma canonical_legs_iff:
  "canonical_economic_leg_records ls = Inr ks \<longleftrightarrow>
     (\<forall>l \<in> set ls. is_ok (leg_key l)) \<and> ks = sort_key leg_order ls"
  unfolding canonical_economic_leg_records_def sort_by_result_iff leg_order_def by simp

lemma facts_payload_parts:
  assumes "economic_facts_payload f = Inr p"
  obtains es vs where "r_map event_payload (canonical_economic_event_records (ef_economic_event_records f)) = Inr es"
    and "\<forall>l \<in> set (ef_economic_leg_records f). is_ok (leg_key l)"
    and "r_map valuation_payload (canonical_valuation_records (ef_valuation_records f)) = Inr vs"
    and "p = JObject
         [(''economic_facts_id'', JString (ef_economic_facts_id f)),
          (''schema_version'', JInt ECONOMIC_FACTS_SCHEMA_VERSION),
          (''claim_set_refs'', JArray (map JString (ef_claim_set_refs f))),
          (''economic_event_records'', JArray es),
          (''economic_leg_records'', JArray (map leg_payload (sort_key leg_order (ef_economic_leg_records f)))),
          (''valuation_records'', JArray vs)]"
  using assms by (auto simp: economic_facts_payload_def r_bind_Inr_iff canonical_legs_iff)

lemma facts_payload_well_formed: "economic_facts_payload f = Inr p \<Longrightarrow> wf_json p"
proof (elim facts_payload_parts)
  fix es vs
  assume es: "r_map event_payload (canonical_economic_event_records (ef_economic_event_records f)) = Inr es"
    and vs: "r_map valuation_payload (canonical_valuation_records (ef_valuation_records f)) = Inr vs"
    and p: "p = JObject
         [(''economic_facts_id'', JString (ef_economic_facts_id f)),
          (''schema_version'', JInt ECONOMIC_FACTS_SCHEMA_VERSION),
          (''claim_set_refs'', JArray (map JString (ef_claim_set_refs f))),
          (''economic_event_records'', JArray es),
          (''economic_leg_records'', JArray (map leg_payload (sort_key leg_order (ef_economic_leg_records f)))),
          (''valuation_records'', JArray vs)]"
  have "wf_json e" if "e \<in> set es" for e
    using r_map_set [OF es that] by (auto simp: event_payload_def r_bind_Inr_iff)
  moreover have "wf_json v" if "v \<in> set vs" for v
    using r_map_set [OF vs that] by (auto simp: valuation_payload_def r_bind_Inr_iff list_all_iff)
  moreover have "wf_json (leg_payload l)" for l
    by (simp add: leg_payload_def list_all_iff plain_wf)
  ultimately show ?thesis by (simp add: p list_all_iff)
qed

lemma facts_payload_read:
  assumes "storable_facts f" and "economic_facts_payload f = Inr p"
  shows "economic_facts_from_payload (sort_json p) = Inr (stored_facts f)"
  using assms(2)
proof (rule facts_payload_parts)
  fix es vs
  assume es: "r_map event_payload (canonical_economic_event_records (ef_economic_event_records f)) = Inr es"
    and vs: "r_map valuation_payload (canonical_valuation_records (ef_valuation_records f)) = Inr vs"
    and p: "p = JObject
         [(''economic_facts_id'', JString (ef_economic_facts_id f)),
          (''schema_version'', JInt ECONOMIC_FACTS_SCHEMA_VERSION),
          (''claim_set_refs'', JArray (map JString (ef_claim_set_refs f))),
          (''economic_event_records'', JArray es),
          (''economic_leg_records'', JArray (map leg_payload (sort_key leg_order (ef_economic_leg_records f)))),
          (''valuation_records'', JArray vs)]" (is "p = JObject ?kvs")
  have m: "map_of (written ?kvs) k = map_option sort_json (map_of ?kvs k)" for k
    by (rule map_of_sort_json) simp
  have "r_map economic_event_from_payload (map sort_json es) =
      Inr (map (\<lambda>e. e) (canonical_economic_event_records (ef_economic_event_records f)))"
    by (rule read_written_records [OF es])
      (use assms(1) event_read_back in \<open>auto simp: storable_facts_def canonical_economic_event_records_def\<close>)
  moreover have "r_map valuation_from_payload (map sort_json vs) =
      Inr (map stored_valuation (canonical_valuation_records (ef_valuation_records f)))"
    by (rule read_written_records [OF vs])
      (use assms(1) valuation_read_back in \<open>auto simp: storable_facts_def canonical_valuation_records_def\<close>)
  moreover have "r_map economic_leg_from_payload (map (sort_json \<circ> leg_payload) (sort_key leg_order (ef_economic_leg_records f))) =
      Inr (map stored_leg (sort_key leg_order (ef_economic_leg_records f)))"
    unfolding map_map [symmetric]
    by (rule read_written_records [where payload = "\<lambda>l. Inr (leg_payload l)"])
      (use assms(1) leg_read_back in \<open>auto simp: storable_facts_def intro: r_map_all_ok\<close>)
  ultimately show ?thesis
    unfolding p written_object economic_facts_from_payload_def ef_readers reader_simps m
    using assms(1) by (simp add: storable_facts_def stored_facts_def)
qed

lemma facts_payload_stored:
  assumes "economic_facts_payload f = Inr p"
  shows "economic_facts_payload (stored_facts f) = Inr p"
proof -
  have events: "canonical_economic_event_records (canonical_economic_event_records es) =
      canonical_economic_event_records es" for es
    by (simp add: canonical_economic_event_records_def sort_key_in_order)
  have vals: "canonical_valuation_records (map stored_valuation (canonical_valuation_records vs)) =
      map stored_valuation (canonical_valuation_records vs)" for vs
    unfolding canonical_valuation_records_def
    by (rule sort_key_stored) (simp add: valuation_key_def stored_valuation_def)
  have legs: "sort_key leg_order (map stored_leg (sort_key leg_order ls)) = map stored_leg (sort_key leg_order ls)" for ls
    by (rule sort_key_stored) simp
  have "r_map valuation_payload (map stored_valuation vs) = r_map valuation_payload vs" for vs
    by (induction vs) (simp_all add: valuation_payload_stored)
  moreover have "leg_payload \<circ> stored_leg = leg_payload" by (simp add: fun_eq_iff leg_payload_stored)
  ultimately show ?thesis
    using assms
    by (auto simp: economic_facts_payload_def stored_facts_def events vals legs r_bind_Inr_iff canonical_legs_iff)
qed

interpretation facts_file: file_codec economic_facts_payload economic_facts_from_payload storable_facts stored_facts
  by unfold_locales (blast intro: facts_payload_well_formed facts_payload_read facts_payload_stored)+

end
