(* ===== verification/Reconciliation_Files.thy ===== *)
theory Reconciliation_Files
  imports Payload_Fields Reconciliation
begin

text \<open>
  \<open>infrastructure/storage/reconciliation_states.py\<close>: reconciliation states as JSON files. The
  theorem: reading a written file gives the state back, with its records in canonical order and
  its decimals in canonical form, and writing that again gives the same file.
\<close>

section \<open>Fields\<close>

definition rs_required_dict :: "json \<Rightarrow> string \<Rightarrow> json_fields result" where
  "rs_required_dict v label = required_dict ''reconciliation state'' label v"

definition rs_required_list :: "json_fields \<Rightarrow> string \<Rightarrow> json list result" where
  "rs_required_list payload key = required_array ''reconciliation state'' payload key"

definition rs_required_text :: "json_fields \<Rightarrow> string \<Rightarrow> string result" where
  "rs_required_text payload key = required_text ''reconciliation state'' payload key"

definition rs_optional_text :: "json_fields \<Rightarrow> string \<Rightarrow> string result" where
  "rs_optional_text payload key = optional_text ''reconciliation state'' payload key"

definition rs_required_text_tuple :: "json_fields \<Rightarrow> string \<Rightarrow> string list result" where
  "rs_required_text_tuple payload key = required_text_tuple ''reconciliation state'' payload key"

definition rs_required_temporal :: "json_fields \<Rightarrow> string \<Rightarrow> datetime result" where
  "rs_required_temporal payload key = required_temporal ''reconciliation state'' payload key TIMESTAMP"

definition rs_subject_ref_from_payload :: "json \<Rightarrow> subject_ref result" where
  "rs_subject_ref_from_payload v = subject_ref_item ''reconciliation'' v"

definition rs_required_subject_ref :: "json_fields \<Rightarrow> string \<Rightarrow> subject_ref result" where
  "rs_required_subject_ref payload key =
     rs_subject_ref_from_payload (case map_of payload key of None \<Rightarrow> JNull | Some v \<Rightarrow> v)"

definition rs_required_list_item :: "json list \<Rightarrow> nat \<Rightarrow> string \<Rightarrow> json result" where
  "rs_required_list_item items index label = list_item ''reconciliation'' items index label"

definition rs_optional_list_text :: "json list \<Rightarrow> nat \<Rightarrow> string result" where
  "rs_optional_list_text items index = list_text ''reconciliation'' items index"

definition rs_required_decimal_text :: "json \<Rightarrow> decimal result" where
  "rs_required_decimal_text v = decimal_item ''reconciliation'' v"

definition rs_required_list_object :: "json \<Rightarrow> string \<Rightarrow> json list result" where
  "rs_required_list_object v label =
     (case v of JArray js \<Rightarrow> Inr js
      | _ \<Rightarrow> Inl (ValueError (''invalid reconciliation '' @ label @ '': expected array'')))"

definition rs_tagged_value :: "string \<Rightarrow> json \<Rightarrow> assertion_value result" where
  "rs_tagged_value kind value_payload =
     (if kind = ''quantity'' then
        r_bind (rs_required_list_object value_payload ''quantity assertion value'') (\<lambda>items.
        r_bind (rs_required_list_item items 0 ''quantity amount'') (\<lambda>amount.
        r_bind (rs_required_decimal_text amount) (\<lambda>quantity.
        r_bind (rs_required_list_item items 1 ''quantity subject_ref'') (\<lambda>raw_subject.
        r_bind (rs_subject_ref_from_payload raw_subject) (\<lambda>subject_ref.
          mk_assertion_value (QuantityValue quantity subject_ref))))))
      else if kind = ''money'' then
        r_bind (rs_required_list_object value_payload ''money assertion value'') (\<lambda>items.
        r_bind (rs_required_list_item items 1 ''money currency'') (\<lambda>currency.
        case currency of
          JString c \<Rightarrow>
            r_bind (rs_required_list_item items 0 ''money amount'') (\<lambda>amount.
            r_bind (rs_required_decimal_text amount) (\<lambda>a. mk_assertion_value (MoneyValue a c)))
        | _ \<Rightarrow> Inl (ValueError ''invalid reconciliation money value: expected currency'')))
      else if kind = ''owner'' then
        r_bind (rs_required_list_object value_payload ''owner assertion value'') (\<lambda>items.
        r_bind (rs_optional_list_text items 0) (\<lambda>legal.
        r_bind (rs_optional_list_text items 1) (\<lambda>beneficial.
        r_bind (rs_optional_list_text items 2) (\<lambda>counterparty.
          mk_assertion_value (OwnerValue legal beneficial counterparty)))))
      else if kind = ''location'' then
        r_bind (rs_required_list_object value_payload ''location assertion value'') (\<lambda>items.
        r_bind (rs_required_list_item items 0 ''location ref'') (\<lambda>location_ref.
        case location_ref of
          JString l \<Rightarrow> mk_assertion_value (LocationValue l)
        | _ \<Rightarrow> Inl (ValueError ''invalid reconciliation location value'')))
      else Inl (ValueError (''invalid reconciliation assertion value kind: '' @ kind)))"

definition rs_assertion_value_from_payload :: "json \<Rightarrow> assertion_value result" where
  "rs_assertion_value_from_payload payload =
     (case payload of
        JArray [JString kind, value_payload] \<Rightarrow> rs_tagged_value kind value_payload
      | JArray _ \<Rightarrow> Inl (ValueError ''invalid reconciliation assertion value: expected tagged array'')
      | _ \<Rightarrow> Inl (ValueError ''invalid reconciliation assertion value: expected array''))"

definition rs_required_assertion_value :: "json_fields \<Rightarrow> string \<Rightarrow> assertion_value result" where
  "rs_required_assertion_value payload key =
     rs_assertion_value_from_payload (case map_of payload key of None \<Rightarrow> JNull | Some v \<Rightarrow> v)"

section \<open>Records\<close>

definition segment_from_payload :: "json \<Rightarrow> continuity_segment_record result" where
  "segment_from_payload payload =
     r_bind (rs_required_dict payload ''continuity segment'') (\<lambda>raw.
     r_bind (rs_required_text raw ''segment_id'') (\<lambda>segment_id.
     r_bind (rs_required_subject_ref raw ''subject_ref'') (\<lambda>subject_ref.
     r_bind (rs_required_temporal raw ''segment_start_at'') (\<lambda>start_at.
     r_bind (rs_required_temporal raw ''segment_end_at'') (\<lambda>end_at.
     r_bind (rs_required_text raw ''status'') (\<lambda>status_text.
     r_bind (enum_of ''ContinuitySegmentStatus'' continuity_segment_status_text
       [CSS_COMPLETE, CSS_PARTIAL] status_text) (\<lambda>status.
     r_bind (rs_required_temporal raw ''as_of'') (\<lambda>as_of.
       mk_continuity_segment_record
         \<lparr>seg_segment_id = segment_id, seg_subject_ref = subject_ref, seg_segment_start_at = start_at,
          seg_segment_end_at = end_at, seg_status = status, seg_as_of = as_of\<rparr>))))))))"

definition event_link_from_payload :: "json \<Rightarrow> event_link_record result" where
  "event_link_from_payload payload =
     r_bind (rs_required_dict payload ''event link'') (\<lambda>raw.
     r_bind (rs_required_text raw ''event_link_id'') (\<lambda>event_link_id.
     r_bind (rs_required_text raw ''segment_id'') (\<lambda>segment_id.
     r_bind (rs_required_text raw ''kind'') (\<lambda>kind.
     r_bind (rs_required_text raw ''left_event_ref'') (\<lambda>left.
     r_bind (rs_required_text raw ''right_event_ref'') (\<lambda>right.
     r_bind (rs_required_text raw ''status'') (\<lambda>status.
       Inr \<lparr>lnk_event_link_id = event_link_id, lnk_segment_id = segment_id, lnk_kind = kind,
         lnk_left_event_ref = left, lnk_right_event_ref = right, lnk_status = status\<rparr>)))))))"

definition rs_observed_value :: "json_fields \<Rightarrow> assertion_value option result" where
  "rs_observed_value raw =
     (case map_of raw ''observed_value'' of
        None \<Rightarrow> Inr None
      | Some JNull \<Rightarrow> Inr None
      | Some v \<Rightarrow> r_bind (rs_assertion_value_from_payload v) (\<lambda>a. Inr (Some a)))"

definition rs_comparison_outcome :: "json_fields \<Rightarrow> comparison_outcome option result" where
  "rs_comparison_outcome raw =
     (if blank_json (case map_of raw ''comparison_outcome'' of None \<Rightarrow> JNull | Some v \<Rightarrow> v) then Inr None
      else r_bind (rs_required_text raw ''comparison_outcome'') (\<lambda>text.
        r_bind (enum_of ''ComparisonOutcome'' comparison_outcome_text [MATCHED, MISMATCHED] text) (\<lambda>c.
          Inr (Some c))))"

definition target_from_payload :: "json \<Rightarrow> balance_target_record result" where
  "target_from_payload payload =
     r_bind (rs_required_dict payload ''balance target'') (\<lambda>raw.
     r_bind (rs_required_text raw ''target_id'') (\<lambda>target_id.
     r_bind (rs_required_text raw ''segment_id'') (\<lambda>segment_id.
     r_bind (rs_required_subject_ref raw ''subject_ref'') (\<lambda>subject_ref.
     r_bind (rs_required_text raw ''kind'') (\<lambda>kind_text.
     r_bind (enum_of ''BalanceTargetKind'' balance_target_kind_text [EXACT_BALANCE] kind_text) (\<lambda>kind.
     r_bind (rs_required_temporal raw ''as_of'') (\<lambda>as_of.
     r_bind (rs_required_assertion_value raw ''expected_value'') (\<lambda>expected_value.
     r_bind (rs_observed_value raw) (\<lambda>observed_value.
     r_bind (rs_required_text raw ''observation_status'') (\<lambda>status_text.
     r_bind (enum_of ''BalanceTargetObservationStatus'' observation_status_text
       [OBSERVED, UNOBSERVED] status_text) (\<lambda>observation_status.
     r_bind (rs_comparison_outcome raw) (\<lambda>comparison_outcome.
       mk_balance_target_record
         \<lparr>bt_target_id = target_id, bt_segment_id = segment_id, bt_subject_ref = subject_ref,
          bt_kind = kind, bt_as_of = as_of, bt_expected_value = expected_value,
          bt_observed_value = observed_value, bt_observation_status = observation_status,
          bt_comparison_outcome = comparison_outcome\<rparr>))))))))))))"

definition proposal_from_payload :: "json \<Rightarrow> checkpoint_proposal_record result" where
  "proposal_from_payload payload =
     r_bind (rs_required_dict payload ''checkpoint proposal'') (\<lambda>raw.
     r_bind (rs_required_text raw ''proposal_id'') (\<lambda>proposal_id.
     r_bind (rs_required_text raw ''segment_id'') (\<lambda>segment_id.
     r_bind (rs_required_subject_ref raw ''subject_ref'') (\<lambda>subject_ref.
     r_bind (rs_required_temporal raw ''as_of'') (\<lambda>as_of.
     r_bind (rs_required_text raw ''status'') (\<lambda>status_text.
     r_bind (enum_of ''CheckpointProposalStatus'' proposal_status_text
       [PS_READY, PS_PARTIAL, PS_BLOCKED] status_text) (\<lambda>status.
     r_bind (rs_optional_text raw ''superseding_proposal_ref'') (\<lambda>superseding.
     r_bind (rs_required_text_tuple raw ''target_refs'') (\<lambda>target_refs.
     r_bind (rs_required_text_tuple raw ''evidence_refs'') (\<lambda>evidence_refs.
       mk_checkpoint_proposal_record
         \<lparr>cp_proposal_id = proposal_id, cp_segment_id = segment_id, cp_subject_ref = subject_ref,
          cp_as_of = as_of, cp_status = status, cp_superseding_proposal_ref = superseding,
          cp_target_refs = target_refs, cp_evidence_refs = evidence_refs\<rparr>))))))))))"

definition reconciliation_state_from_payload :: "json \<Rightarrow> reconciliation_state result" where
  "reconciliation_state_from_payload v =
     r_bind (rs_required_dict v ''payload'') (\<lambda>payload.
     r_bind (check_schema_version ''reconciliation state'' RECONCILIATION_STATE_SCHEMA_VERSION payload) (\<lambda>_.
     r_bind (rs_required_text payload ''reconciliation_state_id'') (\<lambda>state_id.
     r_bind (rs_required_text payload ''economic_facts_ref'') (\<lambda>facts_ref.
     r_bind (rs_required_list payload ''continuity_segment_records'') (\<lambda>raw_segments.
     r_bind (r_map segment_from_payload raw_segments) (\<lambda>segments.
     r_bind (rs_required_list payload ''event_link_records'') (\<lambda>raw_links.
     r_bind (r_map event_link_from_payload raw_links) (\<lambda>links.
     r_bind (rs_required_list payload ''balance_target_records'') (\<lambda>raw_targets.
     r_bind (r_map target_from_payload raw_targets) (\<lambda>targets.
     r_bind (rs_required_list payload ''checkpoint_proposal_records'') (\<lambda>raw_proposals.
     r_bind (r_map proposal_from_payload raw_proposals) (\<lambda>proposals.
       Inr \<lparr>rs_reconciliation_state_id = state_id, rs_economic_facts_ref = facts_ref,
         rs_continuity_segment_records = segments, rs_event_link_records = links,
         rs_balance_target_records = targets, rs_checkpoint_proposal_records = proposals\<rparr>))))))))))))"

definition write_reconciliation_state :: "reconciliation_state \<Rightarrow> string result" where
  "write_reconciliation_state s = written_text reconciliation_state_payload s"

definition read_reconciliation_state :: "string \<Rightarrow> reconciliation_state result" where
  "read_reconciliation_state text = read_text reconciliation_state_from_payload text"

section \<open>What is stored\<close>

definition storable_segment :: "continuity_segment_record \<Rightarrow> bool" where
  "storable_segment s \<longleftrightarrow> seg_segment_id s \<noteq> [] \<and> storable_time (seg_segment_start_at s) TIMESTAMP \<and>
     storable_time (seg_segment_end_at s) TIMESTAMP \<and> storable_time (seg_as_of s) TIMESTAMP"

definition storable_link :: "event_link_record \<Rightarrow> bool" where
  "storable_link l \<longleftrightarrow> lnk_event_link_id l \<noteq> [] \<and> lnk_segment_id l \<noteq> [] \<and> lnk_kind l \<noteq> [] \<and>
     lnk_left_event_ref l \<noteq> [] \<and> lnk_right_event_ref l \<noteq> [] \<and> lnk_status l \<noteq> []"

definition storable_target :: "balance_target_record \<Rightarrow> bool" where
  "storable_target t \<longleftrightarrow> bt_target_id t \<noteq> [] \<and> bt_segment_id t \<noteq> [] \<and> storable_time (bt_as_of t) TIMESTAMP \<and>
     storable_value (bt_expected_value t) \<and> (\<forall>v. bt_observed_value t = Some v \<longrightarrow> storable_value v) \<and>
     mk_balance_target_record t = Inr t"

definition storable_proposal :: "checkpoint_proposal_record \<Rightarrow> bool" where
  "storable_proposal p \<longleftrightarrow> cp_proposal_id p \<noteq> [] \<and> cp_segment_id p \<noteq> [] \<and> storable_time (cp_as_of p) TIMESTAMP"

definition storable_state :: "reconciliation_state \<Rightarrow> bool" where
  "storable_state s \<longleftrightarrow> rs_reconciliation_state_id s \<noteq> [] \<and> rs_economic_facts_ref s \<noteq> [] \<and>
     (\<forall>x \<in> set (rs_continuity_segment_records s). storable_segment x) \<and>
     (\<forall>x \<in> set (rs_event_link_records s). storable_link x) \<and>
     (\<forall>x \<in> set (rs_balance_target_records s). storable_target x) \<and>
     (\<forall>x \<in> set (rs_checkpoint_proposal_records s). storable_proposal x)"

definition stored_target :: "balance_target_record \<Rightarrow> balance_target_record" where
  "stored_target t =
     t\<lparr>bt_expected_value := stored_value (bt_expected_value t),
       bt_observed_value := map_option stored_value (bt_observed_value t)\<rparr>"

definition stored_proposal :: "checkpoint_proposal_record \<Rightarrow> checkpoint_proposal_record" where
  "stored_proposal p = p\<lparr>cp_target_refs := sort (cp_target_refs p), cp_evidence_refs := sort (cp_evidence_refs p)\<rparr>"

definition stored_state :: "reconciliation_state \<Rightarrow> reconciliation_state" where
  "stored_state s =
     s\<lparr>rs_continuity_segment_records := canonical_continuity_segment_records (rs_continuity_segment_records s),
       rs_balance_target_records :=
         map stored_target (canonical_balance_target_records (rs_balance_target_records s)),
       rs_checkpoint_proposal_records :=
         map stored_proposal (canonical_checkpoint_proposal_records (rs_checkpoint_proposal_records s))\<rparr>"

section \<open>Reading what was written\<close>

lemmas rs_readers = rs_required_dict_def rs_required_list_def rs_required_text_def rs_optional_text_def
  rs_required_text_tuple_def rs_required_temporal_def

lemma segment_status_read [simp]:
  "enum_of cls continuity_segment_status_text [CSS_COMPLETE, CSS_PARTIAL] (continuity_segment_status_text s) = Inr s"
  "continuity_segment_status_text s \<noteq> []"
  by (cases s; simp add: enum_of_def)+

lemma target_kind_read [simp]:
  "enum_of cls balance_target_kind_text [EXACT_BALANCE] (balance_target_kind_text k) = Inr k"
  "balance_target_kind_text k \<noteq> []"
  by (cases k; simp add: enum_of_def)+

lemma observation_status_read [simp]:
  "enum_of cls observation_status_text [OBSERVED, UNOBSERVED] (observation_status_text s) = Inr s"
  "observation_status_text s \<noteq> []"
  by (cases s; simp add: enum_of_def)+

lemma comparison_outcome_read [simp]:
  "enum_of cls comparison_outcome_text [MATCHED, MISMATCHED] (comparison_outcome_text c) = Inr c"
  "comparison_outcome_text c \<noteq> []"
  by (cases c; simp add: enum_of_def)+

lemma proposal_status_read [simp]:
  "enum_of cls proposal_status_text [PS_READY, PS_PARTIAL, PS_BLOCKED] (proposal_status_text s) = Inr s"
  "proposal_status_text s \<noteq> []"
  by (cases s; simp add: enum_of_def)+

lemma rs_value_read [simp]:
  "storable_value v \<Longrightarrow> rs_assertion_value_from_payload (assertion_value_payload v) = Inr (stored_value v)"
  by (cases v) (auto simp: rs_assertion_value_from_payload_def assertion_value_payload_def
    rs_tagged_value_def rs_required_list_object_def rs_required_list_item_def list_item_def
    rs_required_decimal_text_def rs_subject_ref_from_payload_def rs_optional_list_text_def list_text_def)

lemma rs_observed_value_some:
  assumes "map_of raw ''observed_value'' = Some (assertion_value_payload v)" and "storable_value v"
  shows "rs_observed_value raw = Inr (Some (stored_value v))"
proof -
  obtain js where "assertion_value_payload v = JArray js" by (simp add: assertion_value_payload_def)
  then show ?thesis using assms rs_value_read [OF assms(2)] by (simp add: rs_observed_value_def)
qed

lemma rs_subject_read:
  "map_of raw key = Some (subject_ref_payload r) \<Longrightarrow> rs_required_subject_ref raw key = Inr r"
  by (simp add: rs_required_subject_ref_def rs_subject_ref_from_payload_def)

lemma segment_read_back:
  assumes "storable_segment s" and "segment_payload s = Inr p"
  shows "segment_from_payload (sort_json p) = Inr s"
proof -
  have times: "storable_time (seg_segment_start_at s) TIMESTAMP" "storable_time (seg_segment_end_at s) TIMESTAMP"
      "storable_time (seg_as_of s) TIMESTAMP"
    using assms(1) by (simp_all add: storable_segment_def)
  then have utc: "utcoffset (seg_segment_start_at s) = Some 0" "utcoffset (seg_segment_end_at s) = Some 0"
      "utcoffset (seg_as_of s) = Some 0"
    by (simp_all add: storable_time_def)
  obtain kvs where p: "p = JObject kvs" and kvs: "kvs =
         [(''segment_id'', JString (seg_segment_id s)),
          (''subject_ref'', subject_ref_payload (seg_subject_ref s)),
          (''segment_start_at'', JString (time_text (seg_segment_start_at s) TIMESTAMP)),
          (''segment_end_at'', JString (time_text (seg_segment_end_at s) TIMESTAMP)),
          (''status'', JString (continuity_segment_status_text (seg_status s))),
          (''as_of'', JString (time_text (seg_as_of s) TIMESTAMP))]"
    using assms(2) times by (simp add: segment_payload_def formatted_time)
  have m: "map_of (written kvs) k = map_option sort_json (map_of kvs k)" for k
    by (rule map_of_sort_json) (simp add: kvs)
  have s: "rs_required_subject_ref (written kvs) ''subject_ref'' = Inr (seg_subject_ref s)"
    by (rule rs_subject_read) (simp add: m kvs subject_payload_sorted)
  show ?thesis
    unfolding p written_object segment_from_payload_def rs_required_dict_def required_dict_def json.case
      r_bind.simps s
    unfolding rs_readers reader_simps m
    using assms(1) times utc
    by (cases s) (simp add: kvs storable_segment_def parse_time_text mk_continuity_segment_record_def)
qed

lemma link_read_back:
  assumes "storable_link l"
  shows "event_link_from_payload (sort_json (event_link_payload l)) = Inr l"
proof -
  obtain kvs where p: "event_link_payload l = JObject kvs" and kvs: "kvs =
     [(''event_link_id'', JString (lnk_event_link_id l)), (''segment_id'', JString (lnk_segment_id l)),
      (''kind'', JString (lnk_kind l)), (''left_event_ref'', JString (lnk_left_event_ref l)),
      (''right_event_ref'', JString (lnk_right_event_ref l)), (''status'', JString (lnk_status l))]"
    by (simp add: event_link_payload_def)
  have m: "map_of (written kvs) k = map_option sort_json (map_of kvs k)" for k
    by (rule map_of_sort_json) (simp add: kvs)
  show ?thesis
    unfolding p written_object event_link_from_payload_def rs_readers reader_simps m
    using assms by (cases l) (simp add: kvs storable_link_def)
qed

lemma target_read_back:
  assumes "storable_target t" and "balance_target_payload t = Inr p"
  shows "target_from_payload (sort_json p) = Inr (stored_target t)"
proof -
  have time: "storable_time (bt_as_of t) TIMESTAMP" using assms(1) by (simp add: storable_target_def)
  then have utc: "utcoffset (bt_as_of t) = Some 0" by (simp add: storable_time_def)
  obtain kvs where p: "p = JObject kvs" and kvs: "kvs =
         [(''target_id'', JString (bt_target_id t)), (''segment_id'', JString (bt_segment_id t)),
          (''subject_ref'', subject_ref_payload (bt_subject_ref t)),
          (''kind'', JString (balance_target_kind_text (bt_kind t))),
          (''as_of'', JString (time_text (bt_as_of t) TIMESTAMP)),
          (''expected_value'', assertion_value_payload (bt_expected_value t)),
          (''observed_value'', case bt_observed_value t of
             None \<Rightarrow> JNull | Some v \<Rightarrow> assertion_value_payload v),
          (''observation_status'', JString (observation_status_text (bt_observation_status t))),
          (''comparison_outcome'', case bt_comparison_outcome t of
             None \<Rightarrow> JNull | Some c \<Rightarrow> JString (comparison_outcome_text c))]"
    using assms(2) time by (simp add: balance_target_payload_def formatted_time)
  have m: "map_of (written kvs) k = map_option sort_json (map_of kvs k)" for k
    by (rule map_of_sort_json) (simp add: kvs)
  have vals: "storable_value (bt_expected_value t)" "\<And>v. bt_observed_value t = Some v \<Longrightarrow> storable_value v"
    using assms(1) by (simp_all add: storable_target_def)
  have s: "rs_required_subject_ref (written kvs) ''subject_ref'' = Inr (bt_subject_ref t)"
    by (rule rs_subject_read) (simp add: m kvs subject_payload_sorted)
  have e: "rs_required_assertion_value (written kvs) ''expected_value'' = Inr (stored_value (bt_expected_value t))"
    unfolding rs_required_assertion_value_def m by (simp add: kvs value_payload_sorted vals)
  have v: "rs_observed_value (written kvs) = Inr (map_option stored_value (bt_observed_value t))"
  proof (cases "bt_observed_value t")
    case None
    then show ?thesis unfolding rs_observed_value_def m by (simp add: kvs)
  next
    case (Some v)
    have "map_of (written kvs) ''observed_value'' = Some (assertion_value_payload v)"
      unfolding m by (simp add: kvs Some value_payload_sorted)
    from rs_observed_value_some [OF this vals(2) [OF Some]] show ?thesis by (simp add: Some)
  qed
  have c: "rs_comparison_outcome (written kvs) = Inr (bt_comparison_outcome t)"
    unfolding rs_comparison_outcome_def rs_readers reader_simps m
    by (cases "bt_comparison_outcome t") (simp_all add: kvs blank_json_def)
  show ?thesis
    unfolding p written_object target_from_payload_def rs_required_dict_def required_dict_def json.case
      r_bind.simps s e v c
    unfolding rs_readers reader_simps m
    using assms(1) time utc
    by (cases t) (auto simp: kvs storable_target_def parse_time_text mk_balance_target_record_def stored_target_def
        split: if_splits)
qed

lemma proposal_read_back:
  assumes "storable_proposal c" and "checkpoint_proposal_payload c = Inr p"
  shows "proposal_from_payload (sort_json p) = Inr (stored_proposal c)"
proof -
  have time: "storable_time (cp_as_of c) TIMESTAMP" using assms(1) by (simp add: storable_proposal_def)
  then have utc: "utcoffset (cp_as_of c) = Some 0" by (simp add: storable_time_def)
  obtain kvs where p: "p = JObject kvs" and kvs: "kvs =
         [(''proposal_id'', JString (cp_proposal_id c)), (''segment_id'', JString (cp_segment_id c)),
          (''subject_ref'', subject_ref_payload (cp_subject_ref c)),
          (''as_of'', JString (time_text (cp_as_of c) TIMESTAMP)),
          (''status'', JString (proposal_status_text (cp_status c))),
          (''superseding_proposal_ref'', JString (cp_superseding_proposal_ref c)),
          (''target_refs'', JArray (map JString (sort (cp_target_refs c)))),
          (''evidence_refs'', JArray (map JString (sort (cp_evidence_refs c))))]"
    using assms(2) time by (simp add: checkpoint_proposal_payload_def formatted_time)
  have m: "map_of (written kvs) k = map_option sort_json (map_of kvs k)" for k
    by (rule map_of_sort_json) (simp add: kvs)
  have s: "rs_required_subject_ref (written kvs) ''subject_ref'' = Inr (cp_subject_ref c)"
    by (rule rs_subject_read) (simp add: m kvs subject_payload_sorted)
  show ?thesis
    unfolding p written_object proposal_from_payload_def rs_required_dict_def required_dict_def json.case
      r_bind.simps s
    unfolding rs_readers reader_simps m
    using assms(1) time utc
    by (cases c) (simp add: kvs storable_proposal_def parse_time_text mk_checkpoint_proposal_record_def
        stored_proposal_def)
qed

section \<open>Files\<close>

lemma canonical_stored:
  "canonical_continuity_segment_records (canonical_continuity_segment_records ss) = canonical_continuity_segment_records ss"
  "canonical_balance_target_records (map stored_target (canonical_balance_target_records ts)) =
     map stored_target (canonical_balance_target_records ts)"
  "canonical_checkpoint_proposal_records (map stored_proposal (canonical_checkpoint_proposal_records ps)) =
     map stored_proposal (canonical_checkpoint_proposal_records ps)"
proof -
  show "canonical_continuity_segment_records (canonical_continuity_segment_records ss) =
      canonical_continuity_segment_records ss"
    by (simp add: canonical_continuity_segment_records_def sort_key_in_order)
  show "canonical_balance_target_records (map stored_target (canonical_balance_target_records ts)) =
      map stored_target (canonical_balance_target_records ts)"
    unfolding canonical_balance_target_records_def
    by (rule sort_key_stored) (simp add: target_key_def stored_target_def)
  show "canonical_checkpoint_proposal_records (map stored_proposal (canonical_checkpoint_proposal_records ps)) =
      map stored_proposal (canonical_checkpoint_proposal_records ps)"
    unfolding canonical_checkpoint_proposal_records_def
    by (rule sort_key_stored) (simp add: proposal_key_def stored_proposal_def)
qed

lemma target_payload_stored: "balance_target_payload (stored_target t) = balance_target_payload t"
  by (cases "bt_observed_value t") (simp_all add: balance_target_payload_def stored_target_def)

lemma proposal_payload_stored: "checkpoint_proposal_payload (stored_proposal p) = checkpoint_proposal_payload p"
  by (simp add: checkpoint_proposal_payload_def stored_proposal_def sort_key_in_order)

lemma state_payload_parts:
  assumes "reconciliation_state_payload s = Inr p"
  obtains ss ts ps where
      "r_map segment_payload (canonical_continuity_segment_records (rs_continuity_segment_records s)) = Inr ss"
    and "r_map balance_target_payload (canonical_balance_target_records (rs_balance_target_records s)) = Inr ts"
    and "r_map checkpoint_proposal_payload
       (canonical_checkpoint_proposal_records (rs_checkpoint_proposal_records s)) = Inr ps"
    and "p = JObject
         [(''reconciliation_state_id'', JString (rs_reconciliation_state_id s)),
          (''schema_version'', JInt RECONCILIATION_STATE_SCHEMA_VERSION),
          (''economic_facts_ref'', JString (rs_economic_facts_ref s)),
          (''continuity_segment_records'', JArray ss),
          (''event_link_records'', JArray (map event_link_payload (rs_event_link_records s))),
          (''balance_target_records'', JArray ts), (''checkpoint_proposal_records'', JArray ps)]"
  using assms by (auto simp: reconciliation_state_payload_def r_bind_Inr_iff)

lemma state_payload_well_formed:
  assumes "reconciliation_state_payload s = Inr p"
  shows "wf_json p"
  using assms
proof (rule state_payload_parts)
  fix ss ts ps
  assume ss: "r_map segment_payload (canonical_continuity_segment_records (rs_continuity_segment_records s)) = Inr ss"
    and ts: "r_map balance_target_payload (canonical_balance_target_records (rs_balance_target_records s)) = Inr ts"
    and ps: "r_map checkpoint_proposal_payload
       (canonical_checkpoint_proposal_records (rs_checkpoint_proposal_records s)) = Inr ps"
    and p: "p = JObject
         [(''reconciliation_state_id'', JString (rs_reconciliation_state_id s)),
          (''schema_version'', JInt RECONCILIATION_STATE_SCHEMA_VERSION),
          (''economic_facts_ref'', JString (rs_economic_facts_ref s)),
          (''continuity_segment_records'', JArray ss),
          (''event_link_records'', JArray (map event_link_payload (rs_event_link_records s))),
          (''balance_target_records'', JArray ts), (''checkpoint_proposal_records'', JArray ps)]"
  note plain = plain_wf [OF plain_subject] plain_wf [OF plain_payload]
  have "wf_json x" if "x \<in> set ss" for x
    using r_map_set [OF ss that] by (auto simp: segment_payload_def r_bind_Inr_iff plain)
  moreover have "wf_json x" if "x \<in> set ts" for x
    using r_map_set [OF ts that]
    by (auto simp: balance_target_payload_def r_bind_Inr_iff plain split: option.split)
  moreover have "wf_json x" if "x \<in> set ps" for x
    using r_map_set [OF ps that]
    by (auto simp: checkpoint_proposal_payload_def r_bind_Inr_iff plain list_all_iff)
  moreover have "wf_json (event_link_payload l)" for l by (simp add: event_link_payload_def)
  ultimately show ?thesis by (simp add: p list_all_iff)
qed

lemma state_payload_read:
  assumes "storable_state s" and "reconciliation_state_payload s = Inr p"
  shows "reconciliation_state_from_payload (sort_json p) = Inr (stored_state s)"
  using assms(2)
proof (rule state_payload_parts)
  fix ss ts ps
  assume ss: "r_map segment_payload (canonical_continuity_segment_records (rs_continuity_segment_records s)) = Inr ss"
    and ts: "r_map balance_target_payload (canonical_balance_target_records (rs_balance_target_records s)) = Inr ts"
    and ps: "r_map checkpoint_proposal_payload
       (canonical_checkpoint_proposal_records (rs_checkpoint_proposal_records s)) = Inr ps"
    and p: "p = JObject
         [(''reconciliation_state_id'', JString (rs_reconciliation_state_id s)),
          (''schema_version'', JInt RECONCILIATION_STATE_SCHEMA_VERSION),
          (''economic_facts_ref'', JString (rs_economic_facts_ref s)),
          (''continuity_segment_records'', JArray ss),
          (''event_link_records'', JArray (map event_link_payload (rs_event_link_records s))),
          (''balance_target_records'', JArray ts), (''checkpoint_proposal_records'', JArray ps)]" (is "p = JObject ?kvs")
  have m: "map_of (written ?kvs) k = map_option sort_json (map_of ?kvs k)" for k
    by (rule map_of_sort_json) simp
  have "r_map segment_from_payload (map sort_json ss) =
      Inr (map (\<lambda>x. x) (canonical_continuity_segment_records (rs_continuity_segment_records s)))"
    by (rule read_written_records [OF ss])
      (use assms(1) segment_read_back in \<open>auto simp: storable_state_def canonical_continuity_segment_records_def\<close>)
  moreover have "r_map target_from_payload (map sort_json ts) =
      Inr (map stored_target (canonical_balance_target_records (rs_balance_target_records s)))"
    by (rule read_written_records [OF ts])
      (use assms(1) target_read_back in \<open>auto simp: storable_state_def canonical_balance_target_records_def\<close>)
  moreover have "r_map proposal_from_payload (map sort_json ps) =
      Inr (map stored_proposal (canonical_checkpoint_proposal_records (rs_checkpoint_proposal_records s)))"
    by (rule read_written_records [OF ps])
      (use assms(1) proposal_read_back in \<open>auto simp: storable_state_def canonical_checkpoint_proposal_records_def\<close>)
  moreover have "r_map event_link_from_payload (map (sort_json \<circ> event_link_payload) (rs_event_link_records s)) =
      Inr (map (\<lambda>x. x) (rs_event_link_records s))"
    unfolding map_map [symmetric]
    by (rule read_written_records [where payload = "\<lambda>l. Inr (event_link_payload l)"])
      (use assms(1) link_read_back in \<open>auto simp: storable_state_def intro: r_map_all_ok\<close>)
  ultimately show ?thesis
    unfolding p written_object reconciliation_state_from_payload_def rs_readers reader_simps m
    using assms(1) by (simp add: storable_state_def stored_state_def)
qed

lemma state_payload_stored:
  "reconciliation_state_payload (stored_state s) = reconciliation_state_payload s"
  by (simp add: reconciliation_state_payload_def stored_state_def canonical_stored
      r_map_stored [where payload = balance_target_payload and f = stored_target, OF target_payload_stored]
      r_map_stored [where payload = checkpoint_proposal_payload and f = stored_proposal, OF proposal_payload_stored])

interpretation state_file:
  file_codec reconciliation_state_payload reconciliation_state_from_payload storable_state stored_state
  by unfold_locales (simp_all add: state_payload_well_formed state_payload_read state_payload_stored)

end
