(* ===== verification/Checkpoint_Files.thy ===== *)
theory Checkpoint_Files
  imports Payload_Fields Checkpoints
begin

text \<open>
  \<open>infrastructure/storage/checkpoints.py\<close>: checkpoints as JSON files, and that reading a written
  file gives the checkpoint back.
\<close>

section \<open>Fields\<close>

definition ck_required_dict :: "json \<Rightarrow> string \<Rightarrow> json_fields result" where
  "ck_required_dict v label = required_dict ''checkpoint'' label v"

definition ck_required_list :: "json_fields \<Rightarrow> string \<Rightarrow> json list result" where
  "ck_required_list payload key = required_array ''checkpoint'' payload key"

definition ck_required_text :: "json_fields \<Rightarrow> string \<Rightarrow> string result" where
  "ck_required_text payload key = required_text ''checkpoint'' payload key"

definition ck_required_text_tuple :: "json_fields \<Rightarrow> string \<Rightarrow> string list result" where
  "ck_required_text_tuple payload key = required_text_tuple ''checkpoint'' payload key"

definition ck_required_temporal :: "json_fields \<Rightarrow> string \<Rightarrow> datetime result" where
  "ck_required_temporal payload key = required_temporal ''checkpoint'' payload key TIMESTAMP"

definition ck_subject_ref_from_payload :: "json \<Rightarrow> subject_ref result" where
  "ck_subject_ref_from_payload v = subject_ref_item ''checkpoint'' v"

definition ck_required_subject_ref :: "json_fields \<Rightarrow> string \<Rightarrow> subject_ref result" where
  "ck_required_subject_ref payload key =
     ck_subject_ref_from_payload (case map_of payload key of None \<Rightarrow> JNull | Some v \<Rightarrow> v)"

definition ck_required_list_item :: "json list \<Rightarrow> nat \<Rightarrow> string \<Rightarrow> json result" where
  "ck_required_list_item items index label = list_item ''checkpoint'' items index label"

definition ck_optional_list_text :: "json list \<Rightarrow> nat \<Rightarrow> string result" where
  "ck_optional_list_text items index = list_text ''checkpoint'' items index"

definition ck_required_decimal_text :: "json \<Rightarrow> decimal result" where
  "ck_required_decimal_text v = decimal_item ''checkpoint'' v"

definition ck_required_list_object :: "json \<Rightarrow> string \<Rightarrow> json list result" where
  "ck_required_list_object v label =
     (case v of JArray js \<Rightarrow> Inr js
      | _ \<Rightarrow> Inl (ValueError (''invalid '' @ label @ '': expected array'')))"

definition ck_tagged_value :: "string \<Rightarrow> json list \<Rightarrow> assertion_value result" where
  "ck_tagged_value kind items =
     (if kind = ''quantity'' then
        r_bind (ck_required_list_item items 0 ''quantity amount'') (\<lambda>amount.
        r_bind (ck_required_decimal_text amount) (\<lambda>quantity.
        r_bind (ck_required_list_item items 1 ''quantity subject_ref'') (\<lambda>raw_subject.
        r_bind (ck_subject_ref_from_payload raw_subject) (\<lambda>subject_ref.
          mk_assertion_value (QuantityValue quantity subject_ref)))))
      else if kind = ''money'' then
        r_bind (ck_required_list_item items 1 ''money currency'') (\<lambda>currency.
        case currency of
          JString c \<Rightarrow>
            r_bind (ck_required_list_item items 0 ''money amount'') (\<lambda>amount.
            r_bind (ck_required_decimal_text amount) (\<lambda>a. mk_assertion_value (MoneyValue a c)))
        | _ \<Rightarrow> Inl (ValueError ''invalid checkpoint money value''))
      else if kind = ''owner'' then
        r_bind (ck_optional_list_text items 0) (\<lambda>legal.
        r_bind (ck_optional_list_text items 1) (\<lambda>beneficial.
        r_bind (ck_optional_list_text items 2) (\<lambda>counterparty.
          mk_assertion_value (OwnerValue legal beneficial counterparty))))
      else if kind = ''location'' then
        r_bind (ck_required_list_item items 0 ''location ref'') (\<lambda>location_ref.
        case location_ref of
          JString l \<Rightarrow> mk_assertion_value (LocationValue l)
        | _ \<Rightarrow> Inl (ValueError ''invalid checkpoint location value''))
      else Inl (ValueError (''invalid checkpoint assertion value kind: '' @ kind)))"

definition ck_required_assertion_value :: "json_fields \<Rightarrow> string \<Rightarrow> assertion_value result" where
  "ck_required_assertion_value payload key =
     (case map_of payload key of
        Some (JArray [JString kind, value_payload]) \<Rightarrow>
          r_bind (ck_required_list_object value_payload ''checkpoint assertion value'') (ck_tagged_value kind)
      | Some (JArray _) \<Rightarrow> Inl (ValueError ''invalid checkpoint assertion value: expected tagged array'')
      | _ \<Rightarrow> Inl (ValueError ''invalid checkpoint assertion value: expected array''))"

section \<open>Records\<close>

definition checkpoint_record_from_payload :: "json \<Rightarrow> checkpoint_record result" where
  "checkpoint_record_from_payload payload =
     r_bind (ck_required_dict payload ''checkpoint record'') (\<lambda>raw.
     r_bind (ck_required_text raw ''checkpoint_id'') (\<lambda>checkpoint_id.
     r_bind (ck_required_temporal raw ''as_of'') (\<lambda>as_of.
     r_bind (ck_required_text_tuple raw ''assertion_ids'') (\<lambda>assertion_ids.
     r_bind (ck_required_text_tuple raw ''proposal_refs'') (\<lambda>proposal_refs.
       mk_checkpoint_record
         \<lparr>cr_checkpoint_id = checkpoint_id, cr_as_of = as_of, cr_assertion_ids = assertion_ids,
          cr_proposal_refs = proposal_refs\<rparr>)))))"

definition checkpoint_assertion_from_payload :: "json \<Rightarrow> checkpoint_assertion_record result" where
  "checkpoint_assertion_from_payload payload =
     r_bind (ck_required_dict payload ''checkpoint assertion'') (\<lambda>raw.
     r_bind (ck_required_text raw ''assertion_id'') (\<lambda>assertion_id.
     r_bind (ck_required_text raw ''checkpoint_id'') (\<lambda>checkpoint_id.
     r_bind (ck_required_subject_ref raw ''subject_ref'') (\<lambda>subject_ref.
     r_bind (ck_required_text raw ''kind'') (\<lambda>kind_text.
     r_bind (enum_of ''CheckpointAssertionValueKind'' checkpoint_value_kind_text
       [POSITION_QUANTITY] kind_text) (\<lambda>kind.
     r_bind (ck_required_temporal raw ''as_of'') (\<lambda>as_of.
     r_bind (ck_required_assertion_value raw ''accepted_value'') (\<lambda>accepted_value.
     r_bind (ck_required_text raw ''trust_level'') (\<lambda>trust_text.
     r_bind (enum_of ''CheckpointAssertionTrustLevel'' trust_level_text
       [FILING_READY, ANALYSIS_READY] trust_text) (\<lambda>trust.
     r_bind (ck_required_text raw ''basis'') (\<lambda>basis_text.
     r_bind (enum_of ''CheckpointAssertionBasis'' assertion_basis_text
       [DOCUMENT_SUPPORT, RECONCILED_CONTINUITY] basis_text) (\<lambda>basis.
     r_bind (ck_required_text raw ''support_shape'') (\<lambda>shape_text.
     r_bind (enum_of ''CheckpointAssertionSupportShape'' support_shape_text
       [DOCUMENT_OBSERVATION] shape_text) (\<lambda>shape.
     r_bind (ck_required_text raw ''continuity_kind'') (\<lambda>continuity_text.
     r_bind (enum_of ''CheckpointAssertionContinuityKind'' continuity_kind_text
       [OBSERVED_CONTINUITY, RECONCILED_ROLLFORWARD] continuity_text) (\<lambda>continuity.
       mk_checkpoint_assertion_record
         \<lparr>ca_assertion_id = assertion_id, ca_checkpoint_id = checkpoint_id, ca_subject_ref = subject_ref,
          ca_kind = kind, ca_as_of = as_of, ca_accepted_value = accepted_value, ca_trust_level = trust,
          ca_basis = basis, ca_support_shape = shape, ca_continuity_kind = continuity\<rparr>))))))))))))))))"

definition checkpoint_from_payload :: "json \<Rightarrow> checkpoint result" where
  "checkpoint_from_payload v =
     r_bind (ck_required_dict v ''payload'') (\<lambda>payload.
     r_bind (check_schema_version ''checkpoint'' CHECKPOINT_SCHEMA_VERSION payload) (\<lambda>_.
     r_bind (ck_required_text payload ''checkpoint_id'') (\<lambda>checkpoint_id.
     r_bind (ck_required_text_tuple payload ''reconciliation_state_refs'') (\<lambda>state_refs.
     r_bind (ck_required_temporal payload ''as_of'') (\<lambda>as_of.
     r_bind (ck_required_list payload ''checkpoint_records'') (\<lambda>raw_records.
     r_bind (r_map checkpoint_record_from_payload raw_records) (\<lambda>records.
     r_bind (ck_required_list payload ''checkpoint_assertion_records'') (\<lambda>raw_assertions.
     r_bind (r_map checkpoint_assertion_from_payload raw_assertions) (\<lambda>assertions.
       mk_checkpoint
         \<lparr>ck_checkpoint_id = checkpoint_id, ck_reconciliation_state_refs = state_refs, ck_as_of = as_of,
          ck_checkpoint_records = records, ck_checkpoint_assertion_records = assertions\<rparr>)))))))))"

definition write_checkpoint :: "checkpoint \<Rightarrow> string result" where
  "write_checkpoint c = written_text checkpoint_payload c"

definition read_checkpoint :: "string \<Rightarrow> checkpoint result" where
  "read_checkpoint text = read_text checkpoint_from_payload text"

section \<open>What is stored\<close>

definition storable_checkpoint_record :: "checkpoint_record \<Rightarrow> bool" where
  "storable_checkpoint_record r \<longleftrightarrow> cr_checkpoint_id r \<noteq> [] \<and> storable_time (cr_as_of r) TIMESTAMP"

definition storable_assertion :: "checkpoint_assertion_record \<Rightarrow> bool" where
  "storable_assertion a \<longleftrightarrow> ca_assertion_id a \<noteq> [] \<and> ca_checkpoint_id a \<noteq> [] \<and>
     storable_time (ca_as_of a) TIMESTAMP \<and> storable_value (ca_accepted_value a)"

definition storable_checkpoint :: "checkpoint \<Rightarrow> bool" where
  "storable_checkpoint c \<longleftrightarrow> ck_checkpoint_id c \<noteq> [] \<and> storable_time (ck_as_of c) TIMESTAMP \<and>
     (\<forall>r \<in> set (ck_checkpoint_records c). storable_checkpoint_record r) \<and>
     (\<forall>a \<in> set (ck_checkpoint_assertion_records c). storable_assertion a)"

definition stored_checkpoint_record :: "checkpoint_record \<Rightarrow> checkpoint_record" where
  "stored_checkpoint_record r = r\<lparr>cr_proposal_refs := sort (cr_proposal_refs r)\<rparr>"

definition stored_assertion :: "checkpoint_assertion_record \<Rightarrow> checkpoint_assertion_record" where
  "stored_assertion a = a\<lparr>ca_accepted_value := stored_value (ca_accepted_value a)\<rparr>"

definition stored_checkpoint :: "checkpoint \<Rightarrow> checkpoint" where
  "stored_checkpoint c =
     c\<lparr>ck_reconciliation_state_refs := sort (ck_reconciliation_state_refs c),
       ck_checkpoint_records := map stored_checkpoint_record (ck_checkpoint_records c),
       ck_checkpoint_assertion_records :=
         map stored_assertion (canonical_checkpoint_assertion_records (ck_checkpoint_assertion_records c))\<rparr>"

section \<open>Reading what was written\<close>

lemmas ck_readers = ck_required_dict_def ck_required_list_def ck_required_text_def
  ck_required_text_tuple_def ck_required_temporal_def

lemma checkpoint_enums_read [simp]:
  "enum_of cls checkpoint_value_kind_text [POSITION_QUANTITY] (checkpoint_value_kind_text k) = Inr k"
  "enum_of cls trust_level_text [FILING_READY, ANALYSIS_READY] (trust_level_text t) = Inr t"
  "enum_of cls assertion_basis_text [DOCUMENT_SUPPORT, RECONCILED_CONTINUITY] (assertion_basis_text b) = Inr b"
  "enum_of cls support_shape_text [DOCUMENT_OBSERVATION] (support_shape_text s) = Inr s"
  "enum_of cls continuity_kind_text [OBSERVED_CONTINUITY, RECONCILED_ROLLFORWARD] (continuity_kind_text c) = Inr c"
proof -
  show "enum_of cls checkpoint_value_kind_text [POSITION_QUANTITY] (checkpoint_value_kind_text k) = Inr k"
    by (cases k) (simp_all add: enum_of_def)
  show "enum_of cls trust_level_text [FILING_READY, ANALYSIS_READY] (trust_level_text t) = Inr t"
    by (cases t) (simp_all add: enum_of_def)
  show "enum_of cls assertion_basis_text [DOCUMENT_SUPPORT, RECONCILED_CONTINUITY] (assertion_basis_text b) = Inr b"
    by (cases b) (simp_all add: enum_of_def)
  show "enum_of cls support_shape_text [DOCUMENT_OBSERVATION] (support_shape_text s) = Inr s"
    by (cases s) (simp_all add: enum_of_def)
  show "enum_of cls continuity_kind_text [OBSERVED_CONTINUITY, RECONCILED_ROLLFORWARD] (continuity_kind_text c) = Inr c"
    by (cases c) (simp_all add: enum_of_def)
qed

lemma checkpoint_enum_texts [simp]:
  "checkpoint_value_kind_text k \<noteq> [] \<and> trust_level_text t \<noteq> [] \<and> assertion_basis_text b \<noteq> [] \<and>
   support_shape_text s \<noteq> [] \<and> continuity_kind_text c \<noteq> []"
  by (cases k; cases t; cases b; cases s; cases c) simp_all

lemma ck_value_read:
  assumes "map_of raw key = Some (assertion_value_payload v)" and "storable_value v"
  shows "ck_required_assertion_value raw key = Inr (stored_value v)"
  using assms
  by (cases v) (auto simp: ck_required_assertion_value_def assertion_value_payload_def
    ck_tagged_value_def ck_required_list_object_def ck_required_list_item_def list_item_def
    ck_required_decimal_text_def ck_subject_ref_from_payload_def ck_optional_list_text_def list_text_def)

lemma ck_subject_read:
  "map_of raw key = Some (subject_ref_payload r) \<Longrightarrow> ck_required_subject_ref raw key = Inr r"
  by (simp add: ck_required_subject_ref_def ck_subject_ref_from_payload_def)

lemma checkpoint_record_read_back:
  assumes "storable_checkpoint_record r" and "checkpoint_record_payload r = Inr p"
  shows "checkpoint_record_from_payload (sort_json p) = Inr (stored_checkpoint_record r)"
proof -
  have time: "storable_time (cr_as_of r) TIMESTAMP" using assms(1) by (simp add: storable_checkpoint_record_def)
  then have utc: "utcoffset (cr_as_of r) = Some 0" by (simp add: storable_time_def)
  obtain kvs where p: "p = JObject kvs" and kvs: "kvs =
         [(''checkpoint_id'', JString (cr_checkpoint_id r)),
          (''as_of'', JString (time_text (cr_as_of r) TIMESTAMP)),
          (''assertion_ids'', JArray (map JString (cr_assertion_ids r))),
          (''proposal_refs'', JArray (map JString (sort (cr_proposal_refs r))))]"
    using assms(2) time by (simp add: checkpoint_record_payload_def formatted_time)
  have m: "map_of (written kvs) k = map_option sort_json (map_of kvs k)" for k
    by (rule map_of_sort_json) (simp add: kvs)
  show ?thesis
    unfolding p written_object checkpoint_record_from_payload_def ck_readers reader_simps m
    using assms(1) time utc
    by (cases r) (simp add: kvs storable_checkpoint_record_def parse_time_text mk_checkpoint_record_def
        stored_checkpoint_record_def)
qed

lemma assertion_read_back:
  assumes "storable_assertion a" and "checkpoint_assertion_payload a = Inr p"
  shows "checkpoint_assertion_from_payload (sort_json p) = Inr (stored_assertion a)"
proof -
  have time: "storable_time (ca_as_of a) TIMESTAMP" using assms(1) by (simp add: storable_assertion_def)
  then have utc: "utcoffset (ca_as_of a) = Some 0" by (simp add: storable_time_def)
  obtain kvs where p: "p = JObject kvs" and kvs: "kvs =
         [(''assertion_id'', JString (ca_assertion_id a)),
          (''checkpoint_id'', JString (ca_checkpoint_id a)),
          (''subject_ref'', subject_ref_payload (ca_subject_ref a)),
          (''kind'', JString (checkpoint_value_kind_text (ca_kind a))),
          (''as_of'', JString (time_text (ca_as_of a) TIMESTAMP)),
          (''accepted_value'', assertion_value_payload (ca_accepted_value a)),
          (''trust_level'', JString (trust_level_text (ca_trust_level a))),
          (''basis'', JString (assertion_basis_text (ca_basis a))),
          (''support_shape'', JString (support_shape_text (ca_support_shape a))),
          (''continuity_kind'', JString (continuity_kind_text (ca_continuity_kind a)))]"
    using assms(2) time by (simp add: checkpoint_assertion_payload_def formatted_time)
  have m: "map_of (written kvs) k = map_option sort_json (map_of kvs k)" for k
    by (rule map_of_sort_json) (simp add: kvs)
  have s: "ck_required_subject_ref (written kvs) ''subject_ref'' = Inr (ca_subject_ref a)"
    by (rule ck_subject_read) (simp add: m kvs subject_payload_sorted)
  have v: "ck_required_assertion_value (written kvs) ''accepted_value'' = Inr (stored_value (ca_accepted_value a))"
    by (rule ck_value_read) (use assms(1) in \<open>simp_all add: m kvs value_payload_sorted storable_assertion_def\<close>)
  show ?thesis
    unfolding p written_object checkpoint_assertion_from_payload_def ck_required_dict_def required_dict_def
      json.case r_bind.simps s v
    unfolding ck_readers reader_simps m
    using assms(1) time utc
    by (cases a) (simp add: kvs storable_assertion_def parse_time_text mk_checkpoint_assertion_record_def
        stored_assertion_def)
qed

section \<open>Files\<close>

lemma assertions_canonical_stored:
  "canonical_checkpoint_assertion_records (map stored_assertion (canonical_checkpoint_assertion_records xs)) =
     map stored_assertion (canonical_checkpoint_assertion_records xs)"
  unfolding canonical_checkpoint_assertion_records_def
  by (rule sort_key_stored) (simp add: assertion_key_def stored_assertion_def)

lemma checkpoint_payload_parts:
  assumes "checkpoint_payload c = Inr p"
  obtains t rs as where "format_temporal_value (ck_as_of c) TIMESTAMP ''checkpoint as_of'' = Inr t"
    and "r_map checkpoint_record_payload (ck_checkpoint_records c) = Inr rs"
    and "r_map checkpoint_assertion_payload
       (canonical_checkpoint_assertion_records (ck_checkpoint_assertion_records c)) = Inr as"
    and "p = JObject
         [(''checkpoint_id'', JString (ck_checkpoint_id c)),
          (''schema_version'', JInt CHECKPOINT_SCHEMA_VERSION),
          (''reconciliation_state_refs'', JArray (map JString (sort (ck_reconciliation_state_refs c)))),
          (''as_of'', JString t), (''checkpoint_records'', JArray rs),
          (''checkpoint_assertion_records'', JArray as)]"
  using assms by (auto simp: checkpoint_payload_def r_bind_Inr_iff)

lemma checkpoint_payload_well_formed:
  assumes "checkpoint_payload c = Inr p"
  shows "wf_json p"
  using assms
proof (rule checkpoint_payload_parts)
  fix t rs as
  assume rs: "r_map checkpoint_record_payload (ck_checkpoint_records c) = Inr rs"
    and as: "r_map checkpoint_assertion_payload
       (canonical_checkpoint_assertion_records (ck_checkpoint_assertion_records c)) = Inr as"
    and p: "p = JObject
         [(''checkpoint_id'', JString (ck_checkpoint_id c)),
          (''schema_version'', JInt CHECKPOINT_SCHEMA_VERSION),
          (''reconciliation_state_refs'', JArray (map JString (sort (ck_reconciliation_state_refs c)))),
          (''as_of'', JString t), (''checkpoint_records'', JArray rs),
          (''checkpoint_assertion_records'', JArray as)]"
  note plain = plain_wf [OF plain_subject] plain_wf [OF plain_payload]
  have "wf_json x" if "x \<in> set rs" for x
    using r_map_set [OF rs that] by (auto simp: checkpoint_record_payload_def r_bind_Inr_iff list_all_iff)
  moreover have "wf_json x" if "x \<in> set as" for x
    using r_map_set [OF as that] by (auto simp: checkpoint_assertion_payload_def r_bind_Inr_iff plain)
  ultimately show ?thesis by (simp add: p list_all_iff)
qed

lemma checkpoint_payload_read:
  assumes "storable_checkpoint c" and "checkpoint_payload c = Inr p"
  shows "checkpoint_from_payload (sort_json p) = Inr (stored_checkpoint c)"
  using assms(2)
proof (rule checkpoint_payload_parts)
  fix t rs as
  assume t: "format_temporal_value (ck_as_of c) TIMESTAMP ''checkpoint as_of'' = Inr t"
    and rs: "r_map checkpoint_record_payload (ck_checkpoint_records c) = Inr rs"
    and as: "r_map checkpoint_assertion_payload
       (canonical_checkpoint_assertion_records (ck_checkpoint_assertion_records c)) = Inr as"
    and p: "p = JObject
         [(''checkpoint_id'', JString (ck_checkpoint_id c)),
          (''schema_version'', JInt CHECKPOINT_SCHEMA_VERSION),
          (''reconciliation_state_refs'', JArray (map JString (sort (ck_reconciliation_state_refs c)))),
          (''as_of'', JString t), (''checkpoint_records'', JArray rs),
          (''checkpoint_assertion_records'', JArray as)]" (is "p = JObject ?kvs")
  have m: "map_of (written ?kvs) k = map_option sort_json (map_of ?kvs k)" for k
    by (rule map_of_sort_json) simp
  have time: "storable_time (ck_as_of c) TIMESTAMP" using assms(1) by (simp add: storable_checkpoint_def)
  have parse: "parse_temporal_value t TIMESTAMP = Inr (ck_as_of c)" "t \<noteq> []" "utcoffset (ck_as_of c) = Some 0"
    using t time parse_time_text [OF time] by (auto simp: formatted_time storable_time_def)
  have "r_map checkpoint_record_from_payload (map sort_json rs) =
      Inr (map stored_checkpoint_record (ck_checkpoint_records c))"
    by (rule read_written_records [OF rs])
      (use assms(1) checkpoint_record_read_back in \<open>auto simp: storable_checkpoint_def\<close>)
  moreover have "r_map checkpoint_assertion_from_payload (map sort_json as) =
      Inr (map stored_assertion (canonical_checkpoint_assertion_records (ck_checkpoint_assertion_records c)))"
    by (rule read_written_records [OF as])
      (use assms(1) assertion_read_back in
        \<open>auto simp: storable_checkpoint_def canonical_checkpoint_assertion_records_def\<close>)
  ultimately show ?thesis
    unfolding p written_object checkpoint_from_payload_def ck_readers reader_simps m
    using assms(1) parse by (simp add: storable_checkpoint_def stored_checkpoint_def mk_checkpoint_def)
qed

lemma record_payload_stored: "checkpoint_record_payload (stored_checkpoint_record r) = checkpoint_record_payload r"
  by (simp add: checkpoint_record_payload_def stored_checkpoint_record_def sort_key_in_order)

lemma assertion_payload_stored: "checkpoint_assertion_payload (stored_assertion a) = checkpoint_assertion_payload a"
  by (simp add: checkpoint_assertion_payload_def stored_assertion_def)

lemma checkpoint_payload_stored: "checkpoint_payload (stored_checkpoint c) = checkpoint_payload c"
  by (simp add: checkpoint_payload_def stored_checkpoint_def assertions_canonical_stored sort_key_in_order
      r_map_stored [where payload = checkpoint_record_payload and f = stored_checkpoint_record, OF record_payload_stored]
      r_map_stored [where payload = checkpoint_assertion_payload and f = stored_assertion, OF assertion_payload_stored])

interpretation checkpoint_file:
  file_codec checkpoint_payload checkpoint_from_payload storable_checkpoint stored_checkpoint
  by unfold_locales
    (simp_all add: checkpoint_payload_well_formed checkpoint_payload_read checkpoint_payload_stored)

end
