(* ===== verification/Claim_Set_Files.thy ===== *)
theory Claim_Set_Files
  imports Payload_Fields Claims
begin

text \<open>
  \<open>infrastructure/storage/claim_sets.py\<close>: claim sets as JSON files. Only the fields of a claim's
  kind are written, so what is read back is the claim without the fields of other kinds. The
  normalization run works on the claim set it has read back from its file.
\<close>

section \<open>Fields\<close>

definition cs_required_dict :: "json \<Rightarrow> string \<Rightarrow> json_fields result" where
  "cs_required_dict v label = required_dict ''claim set'' label v"

text \<open>A missing key has the default of the call, when there is one.\<close>

definition cs_required_list :: "json_fields \<Rightarrow> string \<Rightarrow> json list option \<Rightarrow> json list result" where
  "cs_required_list payload key missing =
     (case (map_of payload key, missing) of
        (None, Some js) \<Rightarrow> Inr js
      | _ \<Rightarrow> required_array ''claim set'' payload key)"

definition cs_required_text :: "json_fields \<Rightarrow> string \<Rightarrow> string result" where
  "cs_required_text payload key = required_text ''claim set'' payload key"

definition cs_optional_text :: "json_fields \<Rightarrow> string \<Rightarrow> string result" where
  "cs_optional_text payload key = optional_text ''claim set'' payload key"

definition cs_required_text_tuple :: "json_fields \<Rightarrow> string \<Rightarrow> string list result" where
  "cs_required_text_tuple payload key =
     (case map_of payload key of
        None \<Rightarrow> Inr []
      | Some _ \<Rightarrow> required_text_tuple ''claim set'' payload key)"

definition number_of :: "json \<Rightarrow> int option" where
  "number_of v = (case v of JInt i \<Rightarrow> Some i | JBool b \<Rightarrow> Some (if b then 1 else 0) | _ \<Rightarrow> None)"

definition cs_required_number :: "json_fields \<Rightarrow> string \<Rightarrow> int result" where
  "cs_required_number payload key =
     (case Option.bind (map_of payload key) number_of of
        Some i \<Rightarrow> Inr i
      | None \<Rightarrow> Inl (field_error ''claim set'' key ''integer''))"

definition cs_required_decimal :: "json_fields \<Rightarrow> string \<Rightarrow> decimal result" where
  "cs_required_decimal payload key = required_decimal ''claim set'' payload key"

definition cs_optional_temporal ::
    "json_fields \<Rightarrow> string \<Rightarrow> temporal_precision option \<Rightarrow> datetime option result" where
  "cs_optional_temporal payload key precision = optional_temporal_field ''claim set'' payload key precision"

definition cs_optional_decimal :: "json_fields \<Rightarrow> string \<Rightarrow> decimal option result" where
  "cs_optional_decimal raw key = r_bind (cs_optional_text raw key) (\<lambda>text. parse_decimal (DText text))"

section \<open>Records\<close>

definition attributed_slot :: "json_fields \<Rightarrow> int option result" where
  "attributed_slot spec =
     (case map_of spec ''attributed_to_slot'' of
        None \<Rightarrow> Inr None
      | Some JNull \<Rightarrow> Inr None
      | Some _ \<Rightarrow> r_bind (cs_required_number spec ''attributed_to_slot'') (\<lambda>i. Inr (Some i)))"

definition leg_spec_from_payload :: "json \<Rightarrow> claim_leg_spec result" where
  "leg_spec_from_payload item =
     r_bind (cs_required_dict item ''claim leg spec'') (\<lambda>spec.
     r_bind (cs_required_number spec ''slot'') (\<lambda>slot.
     r_bind (cs_required_text spec ''role'') (\<lambda>role.
     r_bind (cs_required_decimal spec ''quantity'') (\<lambda>quantity.
     r_bind (cs_required_text_tuple spec ''instrument_claim_refs'') (\<lambda>instruments.
     r_bind (cs_required_text spec ''location_claim_ref'') (\<lambda>location.
     r_bind (cs_optional_text spec ''subtype'') (\<lambda>subtype.
     r_bind (attributed_slot spec) (\<lambda>attributed.
       Inr \<lparr>ls_slot = slot, ls_role = role, ls_quantity = quantity, ls_instrument_claim_refs = instruments,
         ls_location_claim_ref = location, ls_subtype = subtype, ls_attributed_to_slot = attributed\<rparr>))))))))"

definition claim_kinds_all :: "claim_kind list" where
  "claim_kinds_all = [CK_ACTIVITY, CK_BALANCE, CK_INSTRUMENT, CK_LOCATION, CK_BENEFICIAL_OWNER, CK_VALUATION]"

definition claim_record_from_payload :: "json \<Rightarrow> claim_record result" where
  "claim_record_from_payload payload =
     r_bind (cs_required_dict payload ''claim'') (\<lambda>raw.
     r_bind (cs_optional_text raw ''precision'') (\<lambda>precision_text.
     let precision = parse_temporal_precision precision_text in
     r_bind (cs_required_list raw ''leg_specs'' (Some [])) (\<lambda>raw_specs.
     r_bind (r_map leg_spec_from_payload raw_specs) (\<lambda>leg_specs.
     r_bind (cs_required_text raw ''claim_set_id'') (\<lambda>claim_set_id.
     r_bind (cs_required_text raw ''scope_id'') (\<lambda>scope_id.
     r_bind (cs_required_text raw ''bundle_id'') (\<lambda>bundle_id.
     r_bind (cs_required_text raw ''claim_id'') (\<lambda>claim_id.
     r_bind (cs_required_text raw ''kind'') (\<lambda>kind_text.
     r_bind (enum_of ''ClaimKind'' claim_kind_text claim_kinds_all kind_text) (\<lambda>kind.
     r_bind (cs_required_text raw ''status'') (\<lambda>status_text.
     r_bind (enum_of ''ClaimRecordStatus'' claim_status_text [CS_ASSERTED, CS_SUPERSEDED] status_text) (\<lambda>status.
     r_bind (cs_required_text_tuple raw ''key'') (\<lambda>key.
     r_bind (cs_required_text_tuple raw ''member_refs'') (\<lambda>member_refs.
     r_bind (cs_required_text_tuple raw ''observation_refs'') (\<lambda>observation_refs.
     r_bind (cs_optional_temporal raw ''effective_at'' precision) (\<lambda>effective_at.
     r_bind (cs_required_text_tuple raw ''provenance_refs'') (\<lambda>provenance_refs.
     r_bind (cs_optional_text raw ''activity_label'') (\<lambda>activity_label.
     r_bind (cs_optional_text raw ''location_claim_ref'') (\<lambda>location_claim_ref.
     r_bind (cs_required_text_tuple raw ''instrument_claim_refs'') (\<lambda>instrument_claim_refs.
     r_bind (cs_optional_text raw ''balance_kind'') (\<lambda>balance_kind.
     r_bind (cs_optional_decimal raw ''quantity'') (\<lambda>quantity.
     r_bind (cs_optional_temporal raw ''observed_at'' precision) (\<lambda>observed_at.
     r_bind (cs_optional_text raw ''scheme'') (\<lambda>scheme.
     r_bind (cs_optional_text raw ''value'') (\<lambda>v.
     r_bind (cs_optional_text raw ''venue'') (\<lambda>venue.
     r_bind (cs_optional_text raw ''instrument_kind'') (\<lambda>instrument_kind.
     r_bind (cs_optional_text raw ''name'') (\<lambda>name.
     r_bind (cs_optional_text raw ''location_ref'') (\<lambda>location_ref.
     r_bind (cs_optional_text raw ''location_group_label'') (\<lambda>location_group_label.
     r_bind (cs_optional_text raw ''location_label'') (\<lambda>location_label.
     r_bind (cs_optional_text raw ''beneficial_owner_ref'') (\<lambda>beneficial_owner_ref.
     r_bind (cs_optional_text raw ''purpose'') (\<lambda>purpose.
     r_bind (cs_optional_decimal raw ''amount'') (\<lambda>amount.
     r_bind (cs_optional_text raw ''currency'') (\<lambda>currency.
     r_bind (cs_optional_temporal raw ''valued_at'' precision) (\<lambda>valued_at.
       mk_claim_record
         \<lparr>clm_claim_set_id = claim_set_id, clm_scope_id = scope_id, clm_bundle_id = bundle_id,
          clm_claim_id = claim_id, clm_kind = kind, clm_status = status, clm_key = key,
          clm_member_refs = member_refs, clm_observation_refs = observation_refs,
          clm_effective_at = effective_at, clm_precision = precision, clm_provenance_refs = provenance_refs,
          clm_activity_label = activity_label, clm_location_claim_ref = location_claim_ref,
          clm_leg_specs = leg_specs, clm_instrument_claim_refs = instrument_claim_refs,
          clm_balance_kind = balance_kind, clm_quantity = quantity, clm_observed_at = observed_at,
          clm_scheme = scheme, clm_value = v, clm_venue = venue, clm_instrument_kind = instrument_kind,
          clm_name = name, clm_location_ref = location_ref, clm_location_group_label = location_group_label,
          clm_location_label = location_label, clm_beneficial_owner_ref = beneficial_owner_ref,
          clm_purpose = purpose, clm_amount = amount, clm_currency = currency,
          clm_valued_at = valued_at\<rparr>))))))))))))))))))))))))))))))))))))"

definition claim_bundle_from_payload :: "json \<Rightarrow> claim_bundle_record result" where
  "claim_bundle_from_payload payload =
     r_bind (cs_required_dict payload ''claim bundle'') (\<lambda>raw.
     r_bind (cs_required_text raw ''claim_set_id'') (\<lambda>claim_set_id.
     r_bind (cs_required_text raw ''scope_id'') (\<lambda>scope_id.
     r_bind (cs_required_text raw ''bundle_id'') (\<lambda>bundle_id.
     r_bind (cs_required_text raw ''key'') (\<lambda>key.
     r_bind (cs_required_text_tuple raw ''scope_key'') (\<lambda>scope_key.
     r_bind (cs_required_text_tuple raw ''claim_refs'') (\<lambda>claim_refs.
       Inr \<lparr>cb_claim_set_id = claim_set_id, cb_scope_id = scope_id, cb_bundle_id = bundle_id, cb_key = key,
         cb_scope_key = scope_key, cb_claim_refs = claim_refs\<rparr>)))))))"

definition decision_outcomes :: "decision_outcome list" where
  "decision_outcomes = [DO_ACCEPTED, DO_BLOCKED, DO_DEFERRED, DO_SUPERSEDED]"

definition decision_bases :: "decision_basis list" where
  "decision_bases =
     [DB_SINGLE_BUNDLE, DB_INSUFFICIENT_IDENTITY, DB_INSUFFICIENT_TEMPORAL_PRECISION,
      DB_CONFLICTING_CLAIMS, DB_UPSTREAM_GAP, DB_POLICY_DECISION_REQUIRED, DB_LATER_BUNDLE_SELECTED]"

definition claim_bundle_decision_from_payload :: "json \<Rightarrow> claim_bundle_decision_record result" where
  "claim_bundle_decision_from_payload payload =
     r_bind (cs_required_dict payload ''claim bundle decision'') (\<lambda>raw.
     r_bind (cs_required_text raw ''claim_set_id'') (\<lambda>claim_set_id.
     r_bind (cs_required_text raw ''scope_id'') (\<lambda>scope_id.
     r_bind (cs_required_text raw ''decision_id'') (\<lambda>decision_id.
     r_bind (cs_required_text raw ''outcome'') (\<lambda>outcome_text.
     r_bind (enum_of ''ClaimBundleDecisionOutcome'' decision_outcome_text decision_outcomes outcome_text) (\<lambda>outcome.
     r_bind (cs_optional_text raw ''accepted_bundle_ref'') (\<lambda>accepted.
     r_bind (cs_required_text_tuple raw ''rejected_bundle_refs'') (\<lambda>rejected.
     r_bind (cs_required_text_tuple raw ''deferred_bundle_refs'') (\<lambda>deferred.
     r_bind (cs_required_text raw ''basis'') (\<lambda>basis_text.
     r_bind (enum_of ''ClaimBundleDecisionBasis'' decision_basis_text decision_bases basis_text) (\<lambda>basis.
     r_bind (cs_required_text_tuple raw ''blocking_gap_refs'') (\<lambda>gaps.
       Inr \<lparr>cd_claim_set_id = claim_set_id, cd_scope_id = scope_id, cd_decision_id = decision_id,
         cd_outcome = outcome, cd_accepted_bundle_ref = accepted, cd_rejected_bundle_refs = rejected,
         cd_deferred_bundle_refs = deferred, cd_basis = basis, cd_blocking_gap_refs = gaps\<rparr>))))))))))))"

definition claim_set_from_payload :: "json \<Rightarrow> claim_set result" where
  "claim_set_from_payload v =
     r_bind (cs_required_dict v ''payload'') (\<lambda>payload.
     r_bind (check_schema_version ''claim set'' CLAIM_SET_SCHEMA_VERSION payload) (\<lambda>_.
     r_bind (cs_required_text payload ''claim_set_id'') (\<lambda>claim_set_id.
     r_bind (cs_required_text payload ''evidence_set_ref'') (\<lambda>evidence_set_ref.
     r_bind (cs_required_text payload ''emitter_id'') (\<lambda>emitter_id.
     r_bind (cs_required_list payload ''claim_records'' None) (\<lambda>raw_claims.
     r_bind (r_map claim_record_from_payload raw_claims) (\<lambda>claims.
     r_bind (cs_required_list payload ''claim_bundle_records'' None) (\<lambda>raw_bundles.
     r_bind (r_map claim_bundle_from_payload raw_bundles) (\<lambda>bundles.
     r_bind (cs_required_list payload ''claim_bundle_decision_records'' None) (\<lambda>raw_decisions.
     r_bind (r_map claim_bundle_decision_from_payload raw_decisions) (\<lambda>decisions.
       Inr \<lparr>cset_claim_set_id = claim_set_id, cset_evidence_set_ref = evidence_set_ref,
         cset_emitter_id = emitter_id, cset_claim_records = claims, cset_claim_bundle_records = bundles,
         cset_claim_bundle_decision_records = decisions\<rparr>)))))))))))"

definition write_claim_set :: "claim_set \<Rightarrow> string result" where
  "write_claim_set s = written_text claim_set_payload s"

definition read_claim_set :: "string \<Rightarrow> claim_set result" where
  "read_claim_set text = read_text claim_set_from_payload text"

section \<open>What is stored\<close>

definition storable_leg_spec :: "claim_leg_spec \<Rightarrow> bool" where
  "storable_leg_spec s \<longleftrightarrow> ls_role s \<noteq> [] \<and> ls_location_claim_ref s \<noteq> [] \<and> storable_decimal (ls_quantity s)"

definition stored_leg_spec :: "claim_leg_spec \<Rightarrow> claim_leg_spec" where
  "stored_leg_spec s =
     s\<lparr>ls_quantity := quantize_decimal (ls_quantity s),
       ls_instrument_claim_refs := sort (ls_instrument_claim_refs s)\<rparr>"

definition storable_optional :: "datetime option \<Rightarrow> temporal_precision option \<Rightarrow> bool" where
  "storable_optional t p \<longleftrightarrow>
     (case t of None \<Rightarrow> True | Some t \<Rightarrow> (case p of None \<Rightarrow> False | Some p \<Rightarrow> storable_time t p))"

definition storable_amount :: "decimal option \<Rightarrow> bool" where
  "storable_amount d \<longleftrightarrow> (\<forall>v. d = Some v \<longrightarrow> storable_decimal v)"

definition storable_claim :: "claim_record \<Rightarrow> bool" where
  "storable_claim c \<longleftrightarrow> clm_claim_set_id c \<noteq> [] \<and> clm_scope_id c \<noteq> [] \<and> clm_bundle_id c \<noteq> [] \<and>
     clm_claim_id c \<noteq> [] \<and> valid_claim_record c \<and> storable_optional (clm_effective_at c) (clm_precision c) \<and>
     (clm_kind c = CK_ACTIVITY \<longrightarrow> (\<forall>s \<in> set (clm_leg_specs c). storable_leg_spec s)) \<and>
     (clm_kind c = CK_BALANCE \<longrightarrow> storable_optional (clm_observed_at c) (clm_precision c) \<and>
       storable_amount (clm_quantity c)) \<and>
     (clm_kind c = CK_VALUATION \<longrightarrow> storable_optional (clm_valued_at c) (clm_precision c) \<and>
       storable_amount (clm_amount c))"

text \<open>A claim without the fields of the other kinds, in canonical form.\<close>

definition bare_claim :: "claim_record \<Rightarrow> claim_record" where
  "bare_claim c =
     c\<lparr>clm_member_refs := sort (clm_member_refs c), clm_observation_refs := sort (clm_observation_refs c),
       clm_provenance_refs := sort (clm_provenance_refs c), clm_activity_label := [],
       clm_location_claim_ref := [], clm_leg_specs := [], clm_instrument_claim_refs := [],
       clm_balance_kind := [], clm_quantity := None, clm_observed_at := None, clm_scheme := [],
       clm_value := [], clm_venue := [], clm_instrument_kind := [], clm_name := [], clm_location_ref := [],
       clm_location_group_label := [], clm_location_label := [], clm_beneficial_owner_ref := [],
       clm_purpose := [], clm_amount := None, clm_currency := [], clm_valued_at := None\<rparr>"

definition stored_claim :: "claim_record \<Rightarrow> claim_record" where
  "stored_claim c =
     (case clm_kind c of
        CK_ACTIVITY \<Rightarrow> (bare_claim c)\<lparr>clm_activity_label := clm_activity_label c,
          clm_location_claim_ref := clm_location_claim_ref c,
          clm_leg_specs := map stored_leg_spec (sort_key ls_slot (clm_leg_specs c))\<rparr>
      | CK_BALANCE \<Rightarrow> (bare_claim c)\<lparr>clm_location_claim_ref := clm_location_claim_ref c,
          clm_instrument_claim_refs := sort (clm_instrument_claim_refs c),
          clm_balance_kind := clm_balance_kind c,
          clm_quantity := map_option quantize_decimal (clm_quantity c),
          clm_observed_at := clm_observed_at c\<rparr>
      | CK_INSTRUMENT \<Rightarrow> (bare_claim c)\<lparr>clm_scheme := clm_scheme c, clm_value := clm_value c,
          clm_venue := clm_venue c, clm_instrument_kind := clm_instrument_kind c, clm_name := clm_name c\<rparr>
      | CK_LOCATION \<Rightarrow> (bare_claim c)\<lparr>clm_location_ref := clm_location_ref c,
          clm_location_group_label := clm_location_group_label c, clm_location_label := clm_location_label c\<rparr>
      | CK_BENEFICIAL_OWNER \<Rightarrow> (bare_claim c)\<lparr>clm_beneficial_owner_ref := clm_beneficial_owner_ref c\<rparr>
      | CK_VALUATION \<Rightarrow> (bare_claim c)\<lparr>clm_purpose := clm_purpose c,
          clm_amount := map_option quantize_decimal (clm_amount c), clm_currency := clm_currency c,
          clm_valued_at := clm_valued_at c, clm_location_claim_ref := clm_location_claim_ref c,
          clm_instrument_claim_refs := sort (clm_instrument_claim_refs c)\<rparr>)"

definition storable_bundle :: "claim_bundle_record \<Rightarrow> bool" where
  "storable_bundle b \<longleftrightarrow> cb_claim_set_id b \<noteq> [] \<and> cb_scope_id b \<noteq> [] \<and> cb_bundle_id b \<noteq> [] \<and> cb_key b \<noteq> []"

definition stored_bundle :: "claim_bundle_record \<Rightarrow> claim_bundle_record" where
  "stored_bundle b = b\<lparr>cb_claim_refs := sort (cb_claim_refs b)\<rparr>"

definition storable_bundle_decision :: "claim_bundle_decision_record \<Rightarrow> bool" where
  "storable_bundle_decision d \<longleftrightarrow> cd_claim_set_id d \<noteq> [] \<and> cd_scope_id d \<noteq> [] \<and> cd_decision_id d \<noteq> []"

definition stored_bundle_decision :: "claim_bundle_decision_record \<Rightarrow> claim_bundle_decision_record" where
  "stored_bundle_decision d =
     d\<lparr>cd_rejected_bundle_refs := sort (cd_rejected_bundle_refs d),
       cd_deferred_bundle_refs := sort (cd_deferred_bundle_refs d),
       cd_blocking_gap_refs := sort (cd_blocking_gap_refs d)\<rparr>"

definition claim_order :: "claim_record \<Rightarrow> string list" where
  "claim_order c = (case claim_sort_key c of Inr k \<Rightarrow> k)"

definition storable_claim_set :: "claim_set \<Rightarrow> bool" where
  "storable_claim_set s \<longleftrightarrow> cset_claim_set_id s \<noteq> [] \<and> cset_evidence_set_ref s \<noteq> [] \<and> cset_emitter_id s \<noteq> [] \<and>
     (\<forall>c \<in> set (cset_claim_records s). storable_claim c) \<and>
     (\<forall>b \<in> set (cset_claim_bundle_records s). storable_bundle b) \<and>
     (\<forall>d \<in> set (cset_claim_bundle_decision_records s). storable_bundle_decision d)"

definition stored_claim_set :: "claim_set \<Rightarrow> claim_set" where
  "stored_claim_set s =
     s\<lparr>cset_claim_records := map stored_claim (sort_key claim_order (cset_claim_records s)),
       cset_claim_bundle_records :=
         map stored_bundle (canonical_claim_bundle_records (cset_claim_bundle_records s)),
       cset_claim_bundle_decision_records :=
         map stored_bundle_decision (canonical_claim_bundle_decision_records (cset_claim_bundle_decision_records s))\<rparr>"

section \<open>Reading what was written\<close>

lemmas cs_readers = cs_required_dict_def cs_required_list_def cs_required_text_def cs_optional_text_def
  cs_required_text_tuple_def cs_required_number_def cs_required_decimal_def cs_optional_temporal_def
  cs_optional_decimal_def

lemma claim_kind_read [simp]: "enum_of cls claim_kind_text claim_kinds_all (claim_kind_text k) = Inr k"
  by (cases k) (simp_all add: enum_of_def claim_kinds_all_def)

lemmas claim_kind_texts_read =
  claim_kind_read [of _ CK_ACTIVITY, unfolded claim_kind_text.simps]
  claim_kind_read [of _ CK_BALANCE, unfolded claim_kind_text.simps]
  claim_kind_read [of _ CK_INSTRUMENT, unfolded claim_kind_text.simps]
  claim_kind_read [of _ CK_LOCATION, unfolded claim_kind_text.simps]
  claim_kind_read [of _ CK_BENEFICIAL_OWNER, unfolded claim_kind_text.simps]
  claim_kind_read [of _ CK_VALUATION, unfolded claim_kind_text.simps]

lemma claim_status_read [simp]:
  "enum_of cls claim_status_text [CS_ASSERTED, CS_SUPERSEDED] (claim_status_text s) = Inr s"
  by (cases s) (simp_all add: enum_of_def)

lemma decision_outcome_read [simp]:
  "enum_of cls decision_outcome_text decision_outcomes (decision_outcome_text v) = Inr v"
  by (cases v) (simp_all add: enum_of_def decision_outcomes_def)

lemma decision_basis_read [simp]:
  "enum_of cls decision_basis_text decision_bases (decision_basis_text v) = Inr v"
  by (cases v) (simp_all add: enum_of_def decision_bases_def)

lemma claim_kind_text_nonempty [simp]: "claim_kind_text k \<noteq> []" by (cases k) simp_all
lemma claim_status_text_nonempty [simp]: "claim_status_text s \<noteq> []" by (cases s) simp_all
lemma decision_outcome_text_nonempty [simp]: "decision_outcome_text v \<noteq> []" by (cases v) simp_all
lemma decision_basis_text_nonempty [simp]: "decision_basis_text v \<noteq> []" by (cases v) simp_all

lemma leg_spec_read_back:
  assumes "storable_leg_spec s"
  shows "leg_spec_from_payload (sort_json (leg_spec_payload s)) = Inr (stored_leg_spec s)"
proof -
  obtain kvs where p: "leg_spec_payload s = JObject kvs" and kvs: "kvs =
     [(''slot'', JInt (ls_slot s)), (''role'', JString (ls_role s)),
      (''quantity'', JString (format_decimal (Some (ls_quantity s)))),
      (''instrument_claim_refs'', JArray (map JString (sort (ls_instrument_claim_refs s)))),
      (''location_claim_ref'', JString (ls_location_claim_ref s)),
      (''subtype'', JString (ls_subtype s)),
      (''attributed_to_slot'', case ls_attributed_to_slot s of None \<Rightarrow> JNull | Some i \<Rightarrow> JInt i)]"
    by (simp add: leg_spec_payload_def sorted_texts_def strings_json_def)
  have m: "map_of (written kvs) k = map_option sort_json (map_of kvs k)" for k
    by (rule map_of_sort_json) (simp add: kvs)
  have a: "attributed_slot (written kvs) = Inr (ls_attributed_to_slot s)"
    unfolding attributed_slot_def cs_readers m
    by (cases "ls_attributed_to_slot s") (simp_all add: kvs number_of_def)
  show ?thesis
    unfolding p written_object leg_spec_from_payload_def cs_required_dict_def required_dict_def json.case
      r_bind.simps a
    unfolding cs_readers reader_simps m
    using assms
    by (cases s) (simp add: kvs storable_leg_spec_def required_parsed_format format_decimal_nonempty
        stored_leg_spec_def number_of_def)
qed

lemma bundle_read_back:
  assumes "storable_bundle b"
  shows "claim_bundle_from_payload (sort_json (bundle_payload b)) = Inr (stored_bundle b)"
proof -
  obtain kvs where p: "bundle_payload b = JObject kvs" and kvs: "kvs =
     [(''claim_set_id'', JString (cb_claim_set_id b)), (''scope_id'', JString (cb_scope_id b)),
      (''bundle_id'', JString (cb_bundle_id b)), (''key'', JString (cb_key b)),
      (''scope_key'', JArray (map JString (cb_scope_key b))),
      (''claim_refs'', JArray (map JString (sort (cb_claim_refs b))))]"
    by (simp add: bundle_payload_def sorted_texts_def strings_json_def)
  have m: "map_of (written kvs) k = map_option sort_json (map_of kvs k)" for k
    by (rule map_of_sort_json) (simp add: kvs)
  show ?thesis
    unfolding p written_object claim_bundle_from_payload_def cs_readers reader_simps m
    using assms by (cases b) (simp add: kvs storable_bundle_def stored_bundle_def)
qed

lemma decision_read_back_claims:
  assumes "storable_bundle_decision d"
  shows "claim_bundle_decision_from_payload (sort_json (decision_payload d)) = Inr (stored_bundle_decision d)"
proof -
  obtain kvs where p: "decision_payload d = JObject kvs" and kvs: "kvs =
     [(''claim_set_id'', JString (cd_claim_set_id d)), (''scope_id'', JString (cd_scope_id d)),
      (''decision_id'', JString (cd_decision_id d)),
      (''outcome'', JString (decision_outcome_text (cd_outcome d))),
      (''accepted_bundle_ref'', JString (cd_accepted_bundle_ref d)),
      (''rejected_bundle_refs'', JArray (map JString (sort (cd_rejected_bundle_refs d)))),
      (''deferred_bundle_refs'', JArray (map JString (sort (cd_deferred_bundle_refs d)))),
      (''basis'', JString (decision_basis_text (cd_basis d))),
      (''blocking_gap_refs'', JArray (map JString (sort (cd_blocking_gap_refs d))))]"
    by (simp add: decision_payload_def sorted_texts_def strings_json_def)
  have m: "map_of (written kvs) k = map_option sort_json (map_of kvs k)" for k
    by (rule map_of_sort_json) (simp add: kvs)
  show ?thesis
    unfolding p written_object claim_bundle_decision_from_payload_def cs_readers reader_simps m
    using assms by (cases d) (simp add: kvs storable_bundle_decision_def stored_bundle_decision_def)
qed

lemma sort_empty_iff [simp]: "sort_key f xs = [] \<longleftrightarrow> xs = []"
  by (metis set_empty set_sort)

lemma stored_claim_common [simp]:
  "clm_kind (stored_claim c) = clm_kind c" "clm_precision (stored_claim c) = clm_precision c"
  "clm_effective_at (stored_claim c) = clm_effective_at c" "clm_bundle_id (stored_claim c) = clm_bundle_id c"
  "clm_claim_id (stored_claim c) = clm_claim_id c"
  by (simp_all add: stored_claim_def bare_claim_def split: claim_kind.split)

lemma stored_claim_valid:
  assumes "valid_claim_record c"
  shows "mk_claim_record (stored_claim c) = Inr (stored_claim c)"
proof -
  have "claim_field_problem (stored_claim c) = None"
    using assms
    by (cases "clm_kind c")
      (auto simp: valid_claim_record_def claim_field_problem_def stored_claim_def bare_claim_def
        balance_fields_set_def instrument_fields_set_def location_fields_set_def valuation_fields_set_def
        split: if_splits)
  then show ?thesis by (simp add: mk_claim_record_def)
qed

definition optional_time_text :: "datetime option \<Rightarrow> temporal_precision option \<Rightarrow> string" where
  "optional_time_text t p = (case (t, p) of (Some t, Some p) \<Rightarrow> time_text t p | _ \<Rightarrow> [])"

lemma optional_temporal_text:
  "storable_optional t p \<Longrightarrow> optional_temporal t p label = Inr (optional_time_text t p)"
  by (auto simp: storable_optional_def optional_temporal_def optional_time_text_def formatted_time split: option.splits)

lemma optional_time_parsed:
  assumes "storable_optional t p"
  shows "(if optional_time_text t p = [] then Inr None
     else (case p of None \<Rightarrow> Inl e | Some q \<Rightarrow> r_bind (parse_temporal_value (optional_time_text t p) q) (\<lambda>t. Inr (Some t)))) =
    Inr t"
  using assms
  by (auto simp: storable_optional_def optional_time_text_def parse_time_text split: option.splits)

lemma precision_option_read [simp]:
  "parse_temporal_precision (case p of None \<Rightarrow> [] | Some q \<Rightarrow> temporal_precision_text q) = p"
proof (cases p)
  case None
  have "parse_temporal_precision [] = None" by code_simp
  then show ?thesis by (simp add: None)
qed simp

lemma amount_read:
  "storable_amount d \<Longrightarrow> parse_decimal (DText (format_decimal d)) = Inr (map_option quantize_decimal d)"
proof (cases d)
  case None
  have "strip [] = []" by code_simp
  then show ?thesis by (simp add: None format_decimal_def)
next
  case (Some v)
  assume "storable_amount d"
  then show ?thesis
    using parse_format_decimal_aux [of v] by (simp add: Some storable_amount_def storable_decimal_def del: parse_decimal.simps)
qed

lemma blank_amount_read: "parse_decimal (DText []) = Inr None"
  using amount_read [of None] by (simp add: storable_amount_def format_decimal_def del: parse_decimal.simps)

definition common_fields :: "claim_record \<Rightarrow> json_fields" where
  "common_fields c =
     [(''claim_set_id'', JString (clm_claim_set_id c)), (''scope_id'', JString (clm_scope_id c)),
      (''bundle_id'', JString (clm_bundle_id c)), (''claim_id'', JString (clm_claim_id c)),
      (''kind'', JString (claim_kind_text (clm_kind c))), (''status'', JString (claim_status_text (clm_status c))),
      (''key'', JArray (map JString (clm_key c))), (''member_refs'', JArray (map JString (sort (clm_member_refs c)))),
      (''observation_refs'', JArray (map JString (sort (clm_observation_refs c)))),
      (''effective_at'', JString (optional_time_text (clm_effective_at c) (clm_precision c))),
      (''precision'', JString (case clm_precision c of None \<Rightarrow> [] | Some p \<Rightarrow> temporal_precision_text p)),
      (''provenance_refs'', JArray (map JString (sort (clm_provenance_refs c))))]"

definition kind_fields :: "claim_record \<Rightarrow> json_fields" where
  "kind_fields c =
     (case clm_kind c of
        CK_ACTIVITY \<Rightarrow>
          [(''activity_label'', JString (clm_activity_label c)),
           (''location_claim_ref'', JString (clm_location_claim_ref c)),
           (''leg_specs'', JArray (map leg_spec_payload (sort_key ls_slot (clm_leg_specs c))))]
      | CK_BALANCE \<Rightarrow>
          [(''location_claim_ref'', JString (clm_location_claim_ref c)),
           (''instrument_claim_refs'', JArray (map JString (sort (clm_instrument_claim_refs c)))),
           (''balance_kind'', JString (clm_balance_kind c)),
           (''quantity'', JString (format_decimal (clm_quantity c))),
           (''observed_at'', JString (optional_time_text (clm_observed_at c) (clm_precision c)))]
      | CK_INSTRUMENT \<Rightarrow>
          [(''scheme'', JString (clm_scheme c)), (''value'', JString (clm_value c)),
           (''venue'', JString (clm_venue c)),
           (''instrument_kind'', JString (clm_instrument_kind c)), (''name'', JString (clm_name c))]
      | CK_LOCATION \<Rightarrow>
          [(''location_ref'', JString (clm_location_ref c)),
           (''location_group_label'', JString (clm_location_group_label c)),
           (''location_label'', JString (clm_location_label c))]
      | CK_BENEFICIAL_OWNER \<Rightarrow> [(''beneficial_owner_ref'', JString (clm_beneficial_owner_ref c))]
      | CK_VALUATION \<Rightarrow>
          [(''purpose'', JString (clm_purpose c)), (''amount'', JString (format_decimal (clm_amount c))),
           (''currency'', JString (clm_currency c)),
           (''valued_at'', JString (optional_time_text (clm_valued_at c) (clm_precision c))),
           (''location_claim_ref'', JString (clm_location_claim_ref c)),
           (''instrument_claim_refs'', JArray (map JString (sort (clm_instrument_claim_refs c))))])"

lemma claim_payload_fields:
  "storable_claim c \<Longrightarrow> claim_payload c = Inr (JObject (common_fields c @ kind_fields c))"
  by (cases "clm_kind c")
    (simp_all add: storable_claim_def claim_payload_def claim_semantic_payload_def kind_payload_def
      optional_temporal_text common_fields_def kind_fields_def sorted_texts_def strings_json_def)

lemma claim_fields_distinct: "distinct (map fst (common_fields c @ kind_fields c))"
  by (cases "clm_kind c") (simp_all add: common_fields_def kind_fields_def)

lemma leg_specs_read:
  assumes "storable_claim c" and "clm_kind c = CK_ACTIVITY"
  shows "r_map leg_spec_from_payload (map (sort_json \<circ> leg_spec_payload) (sort_key ls_slot (clm_leg_specs c))) =
    Inr (map stored_leg_spec (sort_key ls_slot (clm_leg_specs c)))"
  unfolding map_map [symmetric]
  by (rule read_written_records [where payload = "\<lambda>s. Inr (leg_spec_payload s)"])
    (use assms leg_spec_read_back in \<open>auto simp: storable_claim_def intro: r_map_all_ok\<close>)

lemma optional_temporal_some:
  "map_of raw key = Some (JString (optional_time_text t p)) \<Longrightarrow> storable_optional t p \<Longrightarrow>
     cs_optional_temporal raw key p = Inr t"
  unfolding cs_optional_temporal_def optional_temporal_field_def optional_text_def
  by (simp add: optional_time_parsed del: if_split)

lemma optional_temporal_none: "map_of raw key = None \<Longrightarrow> cs_optional_temporal raw key p = Inr None"
  by (simp add: cs_optional_temporal_def optional_temporal_field_def optional_text_def)

lemma optional_decimal_some:
  "map_of raw key = Some (JString (format_decimal d)) \<Longrightarrow> storable_amount d \<Longrightarrow>
     cs_optional_decimal raw key = Inr (map_option quantize_decimal d)"
  by (simp add: cs_optional_decimal_def cs_optional_text_def optional_text_def amount_read del: parse_decimal.simps)

lemma optional_decimal_none: "map_of raw key = None \<Longrightarrow> cs_optional_decimal raw key = Inr None"
  by (simp add: cs_optional_decimal_def cs_optional_text_def optional_text_def blank_amount_read del: parse_decimal.simps)

lemma claim_read_back:
  assumes "storable_claim c" and "claim_payload c = Inr p"
  shows "claim_record_from_payload (sort_json p) = Inr (stored_claim c)"
proof -
  define kvs where "kvs = common_fields c @ kind_fields c"
  have p: "p = JObject kvs" using claim_payload_fields [OF assms(1)] assms(2) by (simp add: kvs_def)
  have m: "map_of (written kvs) k = map_option sort_json (map_of kvs k)" for k
    by (rule map_of_sort_json) (use claim_fields_distinct in \<open>simp add: kvs_def\<close>)
  note fields = kvs_def common_fields_def kind_fields_def
  have storable: "storable_optional (clm_effective_at c) (clm_precision c)"
    "clm_kind c = CK_BALANCE \<Longrightarrow> storable_optional (clm_observed_at c) (clm_precision c)"
    "clm_kind c = CK_VALUATION \<Longrightarrow> storable_optional (clm_valued_at c) (clm_precision c)"
    "clm_kind c = CK_BALANCE \<Longrightarrow> storable_amount (clm_quantity c)"
    "clm_kind c = CK_VALUATION \<Longrightarrow> storable_amount (clm_amount c)"
    using assms(1) by (simp_all add: storable_claim_def)
  have pr: "cs_optional_text (written kvs) ''precision'' =
      Inr (case clm_precision c of None \<Rightarrow> [] | Some p \<Rightarrow> temporal_precision_text p)"
    unfolding cs_optional_text_def optional_text_def m by (simp add: fields)
  have effective: "cs_optional_temporal (written kvs) ''effective_at'' (clm_precision c) = Inr (clm_effective_at c)"
    by (rule optional_temporal_some [OF _ storable(1)]) (simp add: m, simp add: fields)
  have observed: "cs_optional_temporal (written kvs) ''observed_at'' (clm_precision c) =
      Inr (if clm_kind c = CK_BALANCE then clm_observed_at c else None)"
    by (cases "clm_kind c")
      (auto simp: m fields intro!: optional_temporal_some optional_temporal_none storable)
  have valued: "cs_optional_temporal (written kvs) ''valued_at'' (clm_precision c) =
      Inr (if clm_kind c = CK_VALUATION then clm_valued_at c else None)"
    by (cases "clm_kind c")
      (auto simp: m fields intro!: optional_temporal_some optional_temporal_none storable)
  have quantity: "cs_optional_decimal (written kvs) ''quantity'' =
      Inr (if clm_kind c = CK_BALANCE then map_option quantize_decimal (clm_quantity c) else None)"
    by (cases "clm_kind c")
      (auto simp: m fields intro!: optional_decimal_some optional_decimal_none storable)
  have amount: "cs_optional_decimal (written kvs) ''amount'' =
      Inr (if clm_kind c = CK_VALUATION then map_option quantize_decimal (clm_amount c) else None)"
    by (cases "clm_kind c")
      (auto simp: m fields intro!: optional_decimal_some optional_decimal_none storable)
  have raw: "cs_required_list (written kvs) ''leg_specs'' (Some []) = Inr (if clm_kind c = CK_ACTIVITY
      then map (sort_json \<circ> leg_spec_payload) (sort_key ls_slot (clm_leg_specs c)) else [])"
    unfolding cs_required_list_def required_array_def m by (cases "clm_kind c") (simp_all add: fields)
  have specs: "r_map leg_spec_from_payload (if clm_kind c = CK_ACTIVITY
      then map (sort_json \<circ> leg_spec_payload) (sort_key ls_slot (clm_leg_specs c)) else []) =
    Inr (if clm_kind c = CK_ACTIVITY then map stored_leg_spec (sort_key ls_slot (clm_leg_specs c)) else [])"
    using leg_specs_read [OF assms(1)] by simp
  have valid: "mk_claim_record (stored_claim c) = Inr (stored_claim c)"
    and ids: "clm_claim_set_id c \<noteq> []" "clm_scope_id c \<noteq> []" "clm_bundle_id c \<noteq> []" "clm_claim_id c \<noteq> []"
    using assms(1) by (simp_all add: storable_claim_def stored_claim_valid)
  note facts = pr effective observed valued quantity amount raw specs
  show ?thesis
    unfolding p written_object claim_record_from_payload_def cs_required_dict_def required_dict_def json.case
      r_bind.simps Let_def facts precision_option_read
    unfolding cs_readers reader_simps m
    using valid ids
    by (cases "clm_kind c"; cases c) (simp_all add: fields claim_kind_texts_read stored_claim_def bare_claim_def)
qed

section \<open>Files\<close>

lemma stored_leg_spec_payload: "leg_spec_payload (stored_leg_spec s) = leg_spec_payload s"
  by (simp add: leg_spec_payload_def stored_leg_spec_def sorted_texts_def sort_key_in_order)

lemma stored_claim_payload: "claim_payload (stored_claim c) = claim_payload c"
proof -
  have "sort_key ls_slot (map stored_leg_spec (sort_key ls_slot ss)) = map stored_leg_spec (sort_key ls_slot ss)" for ss
    by (rule sort_key_stored) (simp add: stored_leg_spec_def)
  moreover have "leg_spec_payload \<circ> stored_leg_spec = leg_spec_payload"
    by (simp add: fun_eq_iff stored_leg_spec_payload)
  moreover have "format_decimal (map_option quantize_decimal d) = format_decimal d" for d
    by (cases d) simp_all
  ultimately have "kind_payload (stored_claim c) = kind_payload c"
    by (cases "clm_kind c")
      (simp_all add: kind_payload_def stored_claim_def bare_claim_def sorted_texts_def sort_key_in_order)
  then show ?thesis
    by (cases "clm_kind c")
      (simp_all add: claim_payload_def claim_semantic_payload_def stored_claim_def bare_claim_def sorted_texts_def
        sort_key_in_order)
qed

lemma claim_sort_key_stored [simp]: "claim_sort_key (stored_claim c) = claim_sort_key c"
  "claim_order (stored_claim c) = claim_order c"
  by (simp_all add: claim_sort_key_def claim_order_def)

lemma canonical_claims_iff:
  "canonical_claim_records cs = Inr ks \<longleftrightarrow> (\<forall>c \<in> set cs. is_ok (claim_sort_key c)) \<and> ks = sort_key claim_order cs"
  unfolding canonical_claim_records_def sort_by_result_iff claim_order_def by simp

lemma claim_set_payload_parts:
  assumes "claim_set_payload s = Inr p"
  obtains cs where "r_map claim_payload (sort_key claim_order (cset_claim_records s)) = Inr cs"
    and "\<forall>c \<in> set (cset_claim_records s). is_ok (claim_sort_key c)"
    and "p = JObject
         [(''claim_set_id'', JString (cset_claim_set_id s)),
          (''schema_version'', JInt CLAIM_SET_SCHEMA_VERSION),
          (''evidence_set_ref'', JString (cset_evidence_set_ref s)),
          (''emitter_id'', JString (cset_emitter_id s)), (''claim_records'', JArray cs),
          (''claim_bundle_records'', JArray (map bundle_payload
             (canonical_claim_bundle_records (cset_claim_bundle_records s)))),
          (''claim_bundle_decision_records'', JArray (map decision_payload
             (canonical_claim_bundle_decision_records (cset_claim_bundle_decision_records s))))]"
  using assms by (auto simp: claim_set_payload_def r_bind_Inr_iff canonical_claims_iff)

lemma claim_payload_wf: "claim_payload c = Inr p \<Longrightarrow> wf_json p"
  by (cases "clm_kind c")
    (auto simp: claim_payload_def claim_semantic_payload_def kind_payload_def r_bind_Inr_iff sorted_texts_def
      strings_json_def list_all_iff leg_spec_payload_def split: option.split)

lemma claim_set_payload_well_formed:
  assumes "claim_set_payload s = Inr p"
  shows "wf_json p"
  using assms
proof (rule claim_set_payload_parts)
  fix cs
  assume cs: "r_map claim_payload (sort_key claim_order (cset_claim_records s)) = Inr cs"
    and p: "p = JObject
         [(''claim_set_id'', JString (cset_claim_set_id s)),
          (''schema_version'', JInt CLAIM_SET_SCHEMA_VERSION),
          (''evidence_set_ref'', JString (cset_evidence_set_ref s)),
          (''emitter_id'', JString (cset_emitter_id s)), (''claim_records'', JArray cs),
          (''claim_bundle_records'', JArray (map bundle_payload
             (canonical_claim_bundle_records (cset_claim_bundle_records s)))),
          (''claim_bundle_decision_records'', JArray (map decision_payload
             (canonical_claim_bundle_decision_records (cset_claim_bundle_decision_records s))))]"
  have "wf_json x" if "x \<in> set cs" for x using r_map_set [OF cs that] claim_payload_wf by blast
  moreover have "wf_json (bundle_payload b)" "wf_json (decision_payload d)" for b d
    by (simp_all add: bundle_payload_def decision_payload_def sorted_texts_def strings_json_def list_all_iff)
  ultimately show ?thesis by (simp add: p list_all_iff)
qed

lemma claim_set_payload_read:
  assumes "storable_claim_set s" and "claim_set_payload s = Inr p"
  shows "claim_set_from_payload (sort_json p) = Inr (stored_claim_set s)"
  using assms(2)
proof (rule claim_set_payload_parts)
  fix cs
  assume cs: "r_map claim_payload (sort_key claim_order (cset_claim_records s)) = Inr cs"
    and p: "p = JObject
         [(''claim_set_id'', JString (cset_claim_set_id s)),
          (''schema_version'', JInt CLAIM_SET_SCHEMA_VERSION),
          (''evidence_set_ref'', JString (cset_evidence_set_ref s)),
          (''emitter_id'', JString (cset_emitter_id s)), (''claim_records'', JArray cs),
          (''claim_bundle_records'', JArray (map bundle_payload
             (canonical_claim_bundle_records (cset_claim_bundle_records s)))),
          (''claim_bundle_decision_records'', JArray (map decision_payload
             (canonical_claim_bundle_decision_records (cset_claim_bundle_decision_records s))))]" (is "p = JObject ?kvs")
  have m: "map_of (written ?kvs) k = map_option sort_json (map_of ?kvs k)" for k
    by (rule map_of_sort_json) simp
  have "r_map claim_record_from_payload (map sort_json cs) =
      Inr (map stored_claim (sort_key claim_order (cset_claim_records s)))"
    by (rule read_written_records [OF cs])
      (use assms(1) claim_read_back in \<open>auto simp: storable_claim_set_def\<close>)
  moreover have "r_map claim_bundle_from_payload (map (sort_json \<circ> bundle_payload)
        (canonical_claim_bundle_records (cset_claim_bundle_records s))) =
      Inr (map stored_bundle (canonical_claim_bundle_records (cset_claim_bundle_records s)))"
    unfolding map_map [symmetric]
    by (rule read_written_records [where payload = "\<lambda>b. Inr (bundle_payload b)"])
      (use assms(1) bundle_read_back in
        \<open>auto simp: storable_claim_set_def canonical_claim_bundle_records_def intro: r_map_all_ok\<close>)
  moreover have "r_map claim_bundle_decision_from_payload (map (sort_json \<circ> decision_payload)
        (canonical_claim_bundle_decision_records (cset_claim_bundle_decision_records s))) =
      Inr (map stored_bundle_decision
        (canonical_claim_bundle_decision_records (cset_claim_bundle_decision_records s)))"
    unfolding map_map [symmetric]
    by (rule read_written_records [where payload = "\<lambda>b. Inr (decision_payload b)"])
      (use assms(1) decision_read_back_claims in
        \<open>auto simp: storable_claim_set_def canonical_claim_bundle_decision_records_def intro: r_map_all_ok\<close>)
  ultimately show ?thesis
    unfolding p written_object claim_set_from_payload_def cs_readers reader_simps m
    using assms(1) by (simp add: storable_claim_set_def stored_claim_set_def)
qed

lemma claim_set_payload_stored:
  assumes "claim_set_payload s = Inr p"
  shows "claim_set_payload (stored_claim_set s) = Inr p"
proof -
  have claims: "sort_key claim_order (map stored_claim (sort_key claim_order cs)) =
      map stored_claim (sort_key claim_order cs)" for cs
    by (rule sort_key_stored) simp
  have "canonical_claim_bundle_records (map stored_bundle (canonical_claim_bundle_records bs)) =
      map stored_bundle (canonical_claim_bundle_records bs)" for bs
    unfolding canonical_claim_bundle_records_def
    by (rule sort_key_stored) (simp add: bundle_key_def stored_bundle_def)
  moreover have "canonical_claim_bundle_decision_records
        (map stored_bundle_decision (canonical_claim_bundle_decision_records ds)) =
      map stored_bundle_decision (canonical_claim_bundle_decision_records ds)" for ds
    unfolding canonical_claim_bundle_decision_records_def
    by (rule sort_key_stored) (simp add: decision_key_def stored_bundle_decision_def)
  moreover have "bundle_payload \<circ> stored_bundle = bundle_payload"
    "decision_payload \<circ> stored_bundle_decision = decision_payload"
    by (simp_all add: fun_eq_iff bundle_payload_def stored_bundle_def decision_payload_def
        stored_bundle_decision_def sorted_texts_def sort_key_in_order)
  ultimately show ?thesis
    using assms
    by (auto simp: claim_set_payload_def stored_claim_set_def r_bind_Inr_iff canonical_claims_iff claims
        r_map_stored [where payload = claim_payload and f = stored_claim, OF stored_claim_payload])
qed

interpretation claim_set_file: file_codec claim_set_payload claim_set_from_payload storable_claim_set stored_claim_set
  by unfold_locales (blast intro: claim_set_payload_well_formed claim_set_payload_read claim_set_payload_stored)+

end
