(* ===== verification/Evidence_Set_Files.thy ===== *)
theory Evidence_Set_Files
  imports Claim_Set_Files Evidence
begin

text \<open>
  \<open>infrastructure/storage/evidence_sets.py\<close>: evidence sets as JSON files, and that reading a
  written file gives the evidence set back.
\<close>

section \<open>Fields\<close>

definition es_required_dict :: "json \<Rightarrow> string \<Rightarrow> json_fields result" where
  "es_required_dict v label = required_dict ''evidence set'' label v"

definition es_required_list :: "json_fields \<Rightarrow> string \<Rightarrow> json list result" where
  "es_required_list payload key = required_array ''evidence set'' payload key"

definition es_required_text :: "json_fields \<Rightarrow> string \<Rightarrow> string result" where
  "es_required_text payload key = required_text ''evidence set'' payload key"

definition es_optional_text :: "json_fields \<Rightarrow> string \<Rightarrow> string result" where
  "es_optional_text payload key = optional_text ''evidence set'' payload key"

definition es_required_text_tuple :: "json_fields \<Rightarrow> string \<Rightarrow> string list result" where
  "es_required_text_tuple payload key = required_text_tuple ''evidence set'' payload key"

definition ref_tuple :: "string \<Rightarrow> json \<Rightarrow> string list result" where
  "ref_tuple key item =
     (case item of
        JArray parts \<Rightarrow> text_items ''evidence set'' key ''array of string arrays'' parts
      | _ \<Rightarrow> Inl (field_error ''evidence set'' key ''array of string arrays''))"

definition es_required_ref_tuples :: "json_fields \<Rightarrow> string \<Rightarrow> string list list result" where
  "es_required_ref_tuples payload key =
     r_bind (required_array ''evidence set'' payload key) (r_map (ref_tuple key))"

definition es_optional_temporal ::
    "json_fields \<Rightarrow> string \<Rightarrow> temporal_precision option \<Rightarrow> datetime option result" where
  "es_optional_temporal payload key precision = optional_temporal_field ''evidence set'' payload key precision"

definition es_optional_precision :: "json_fields \<Rightarrow> string \<Rightarrow> temporal_precision option result" where
  "es_optional_precision raw key = r_bind (es_optional_text raw key) (\<lambda>text. Inr (parse_temporal_precision text))"

definition es_optional_decimal :: "json_fields \<Rightarrow> string \<Rightarrow> decimal option result" where
  "es_optional_decimal raw key = r_bind (es_optional_text raw key) (\<lambda>text. parse_decimal (DText text))"

section \<open>Records\<close>

definition selection_bases :: "selection_basis list" where
  "selection_bases =
     [SB_SINGLE_MEMBER, SB_DUPLICATE, SB_COVERAGE, SB_FRESHNESS, SB_AMBIGUOUS_OVERLAP, SB_UPSTREAM_GAP]"

definition selection_from_payload :: "json \<Rightarrow> evidence_selection_record result" where
  "selection_from_payload payload =
     r_bind (es_required_dict payload ''selection'') (\<lambda>raw.
     r_bind (es_required_text raw ''evidence_set_id'') (\<lambda>evidence_set_id.
     r_bind (es_required_text raw ''selection_id'') (\<lambda>selection_id.
     r_bind (es_required_text_tuple raw ''key'') (\<lambda>key.
     r_bind (es_required_text raw ''fingerprint'') (\<lambda>fingerprint.
     r_bind (es_required_text raw ''basis'') (\<lambda>basis_text.
     r_bind (enum_of ''EvidenceSelectionBasis'' selection_basis_text selection_bases basis_text) (\<lambda>basis.
     r_bind (es_required_text_tuple raw ''blocking_gap_refs'') (\<lambda>gaps.
       Inr \<lparr>es_evidence_set_id = evidence_set_id, es_selection_id = selection_id, es_key = key,
         es_fingerprint = fingerprint, es_basis = basis, es_blocking_gap_refs = gaps\<rparr>))))))))"

definition member_from_payload :: "json \<Rightarrow> evidence_member_record result" where
  "member_from_payload payload =
     r_bind (es_required_dict payload ''member'') (\<lambda>raw.
     r_bind (es_required_text raw ''evidence_set_id'') (\<lambda>evidence_set_id.
     r_bind (es_required_text raw ''selection_id'') (\<lambda>selection_id.
     r_bind (es_required_text raw ''member_id'') (\<lambda>member_id.
     r_bind (es_required_text raw ''source_slug'') (\<lambda>source_slug.
     r_bind (es_required_text raw ''adapter_id'') (\<lambda>adapter_id.
     r_bind (es_required_text raw ''capture_uid'') (\<lambda>capture_uid.
     r_bind (es_required_text raw ''kind'') (\<lambda>kind_text.
     r_bind (enum_of ''EvidenceMemberKind'' member_kind_text
       [MK_RETAIL_ACTIVITY_EXPORT_FILE, MK_STATEMENT_DOCUMENT_FILE] kind_text) (\<lambda>kind.
     r_bind (es_required_text_tuple raw ''locator'') (\<lambda>locator.
     r_bind (es_required_text raw ''status'') (\<lambda>status_text.
     r_bind (enum_of ''EvidenceMemberStatus'' member_status_text [MS_SELECTED, MS_SUPERSEDED, MS_BLOCKED] status_text) (\<lambda>status.
     r_bind (es_required_text raw ''capture_manifest_fingerprint'') (\<lambda>fingerprint.
       Inr \<lparr>em_evidence_set_id = evidence_set_id, em_selection_id = selection_id, em_member_id = member_id,
         em_source_slug = source_slug, em_adapter_id = adapter_id, em_capture_uid = capture_uid,
         em_kind = kind, em_locator = locator, em_status = status,
         em_capture_manifest_fingerprint = fingerprint\<rparr>)))))))))))))"

definition observation_from_payload :: "json \<Rightarrow> evidence_observation_record result" where
  "observation_from_payload payload =
     r_bind (es_required_dict payload ''observation'') (\<lambda>raw.
     r_bind (es_optional_precision raw ''precision'') (\<lambda>precision.
     r_bind (es_optional_precision raw ''document_effective_precision'') (\<lambda>document_precision.
     r_bind (es_optional_precision raw ''statement_as_of_precision'') (\<lambda>as_of_precision.
     r_bind (es_required_text raw ''evidence_set_id'') (\<lambda>evidence_set_id.
     r_bind (es_required_text raw ''member_id'') (\<lambda>member_id.
     r_bind (es_required_text raw ''observation_id'') (\<lambda>observation_id.
     r_bind (es_required_text raw ''kind'') (\<lambda>kind_text.
     r_bind (enum_of ''EvidenceObservationKind'' observation_kind_text
       [OK_STATEMENT_DOCUMENT, OK_STATEMENT_BALANCE_ROW] kind_text) (\<lambda>kind.
     r_bind (es_required_text_tuple raw ''key'') (\<lambda>key.
     r_bind (es_optional_temporal raw ''observed_at'' precision) (\<lambda>observed_at.
     r_bind (es_required_ref_tuples raw ''provenance_refs'') (\<lambda>provenance_refs.
     r_bind (es_optional_text raw ''statement_kind'') (\<lambda>statement_kind.
     r_bind (es_optional_temporal raw ''document_effective_at'' document_precision) (\<lambda>document_effective_at.
     r_bind (es_optional_temporal raw ''statement_as_of'' as_of_precision) (\<lambda>statement_as_of.
     r_bind (es_optional_text raw ''location_group_label'') (\<lambda>location_group_label.
     r_bind (es_optional_text raw ''location_label'') (\<lambda>location_label.
     r_bind (es_optional_text raw ''balance_kind'') (\<lambda>balance_kind.
     r_bind (es_optional_text raw ''instrument_symbol'') (\<lambda>instrument_symbol.
     r_bind (es_optional_decimal raw ''quantity'') (\<lambda>quantity.
     r_bind (es_optional_text raw ''notes'') (\<lambda>notes.
     r_bind (es_optional_text raw ''staked_quantity_text'') (\<lambda>staked.
     r_bind (es_optional_text raw ''value_amount_text'') (\<lambda>value_amount.
     r_bind (es_optional_text raw ''value_currency'') (\<lambda>value_currency.
     r_bind (es_optional_text raw ''price_amount_text'') (\<lambda>price_amount.
     r_bind (es_optional_text raw ''price_currency'') (\<lambda>price_currency.
       Inr \<lparr>eo_evidence_set_id = evidence_set_id, eo_member_id = member_id, eo_observation_id = observation_id,
         eo_kind = kind, eo_key = key, eo_observed_at = observed_at, eo_precision = precision,
         eo_provenance_refs = provenance_refs, eo_statement_kind = statement_kind,
         eo_document_effective_at = document_effective_at, eo_document_effective_precision = document_precision,
         eo_statement_as_of = statement_as_of, eo_statement_as_of_precision = as_of_precision,
         eo_location_group_label = location_group_label, eo_location_label = location_label,
         eo_balance_kind = balance_kind, eo_instrument_symbol = instrument_symbol, eo_quantity = quantity,
         eo_notes = notes, eo_staked_quantity_text = staked, eo_value_amount_text = value_amount,
         eo_value_currency = value_currency, eo_price_amount_text = price_amount,
         eo_price_currency = price_currency\<rparr>))))))))))))))))))))))))))"

definition evidence_set_from_payload :: "json \<Rightarrow> evidence_set result" where
  "evidence_set_from_payload v =
     r_bind (es_required_dict v ''payload'') (\<lambda>payload.
     r_bind (check_schema_version ''evidence set'' EVIDENCE_SET_SCHEMA_VERSION payload) (\<lambda>_.
     r_bind (es_required_list payload ''evidence_selection_records'') (\<lambda>raw_selections.
     r_bind (r_map selection_from_payload raw_selections) (\<lambda>selections.
     r_bind (es_required_list payload ''evidence_member_records'') (\<lambda>raw_members.
     r_bind (r_map member_from_payload raw_members) (\<lambda>members.
     r_bind (es_required_list payload ''evidence_observation_records'') (\<lambda>raw_observations.
     r_bind (r_map observation_from_payload raw_observations) (\<lambda>observations.
     r_bind (es_required_text payload ''evidence_set_id'') (\<lambda>evidence_set_id.
     r_bind (es_required_text payload ''selection_fingerprint'') (\<lambda>selection_fingerprint.
     r_bind (es_required_text payload ''capture_manifest_fingerprint'') (\<lambda>manifest_fingerprint.
       Inr \<lparr>eset_evidence_set_id = evidence_set_id, eset_selection_fingerprint = selection_fingerprint,
         eset_capture_manifest_fingerprint = manifest_fingerprint, eset_evidence_selection_records = selections,
         eset_evidence_member_records = members, eset_evidence_observation_records = observations\<rparr>)))))))))))"

definition write_evidence_set :: "evidence_set \<Rightarrow> string result" where
  "write_evidence_set s = written_text evidence_set_payload s"

definition read_evidence_set :: "string \<Rightarrow> evidence_set result" where
  "read_evidence_set text = read_text evidence_set_from_payload text"

section \<open>What is stored\<close>

definition storable_selection :: "evidence_selection_record \<Rightarrow> bool" where
  "storable_selection s \<longleftrightarrow> es_evidence_set_id s \<noteq> [] \<and> es_selection_id s \<noteq> [] \<and> es_fingerprint s \<noteq> []"

definition stored_selection :: "evidence_selection_record \<Rightarrow> evidence_selection_record" where
  "stored_selection s = s\<lparr>es_blocking_gap_refs := sort (es_blocking_gap_refs s)\<rparr>"

definition storable_member :: "evidence_member_record \<Rightarrow> bool" where
  "storable_member m \<longleftrightarrow> em_evidence_set_id m \<noteq> [] \<and> em_selection_id m \<noteq> [] \<and> em_member_id m \<noteq> [] \<and>
     em_source_slug m \<noteq> [] \<and> em_adapter_id m \<noteq> [] \<and> em_capture_uid m \<noteq> [] \<and>
     em_capture_manifest_fingerprint m \<noteq> []"

definition storable_observation :: "evidence_observation_record \<Rightarrow> bool" where
  "storable_observation v \<longleftrightarrow> eo_evidence_set_id v \<noteq> [] \<and> eo_member_id v \<noteq> [] \<and> eo_observation_id v \<noteq> [] \<and>
     storable_optional (eo_observed_at v) (eo_precision v) \<and>
     storable_optional (eo_document_effective_at v) (eo_document_effective_precision v) \<and>
     storable_optional (eo_statement_as_of v) (eo_statement_as_of_precision v) \<and> storable_amount (eo_quantity v)"

definition stored_observation :: "evidence_observation_record \<Rightarrow> evidence_observation_record" where
  "stored_observation v =
     v\<lparr>eo_provenance_refs := sort (eo_provenance_refs v), eo_quantity := map_option quantize_decimal (eo_quantity v)\<rparr>"

definition storable_evidence_set :: "evidence_set \<Rightarrow> bool" where
  "storable_evidence_set s \<longleftrightarrow> eset_evidence_set_id s \<noteq> [] \<and> eset_selection_fingerprint s \<noteq> [] \<and>
     eset_capture_manifest_fingerprint s \<noteq> [] \<and>
     (\<forall>x \<in> set (eset_evidence_selection_records s). storable_selection x) \<and>
     (\<forall>x \<in> set (eset_evidence_member_records s). storable_member x) \<and>
     (\<forall>x \<in> set (eset_evidence_observation_records s). storable_observation x)"

definition stored_evidence_set :: "evidence_set \<Rightarrow> evidence_set" where
  "stored_evidence_set s =
     s\<lparr>eset_evidence_selection_records := map stored_selection (eset_evidence_selection_records s),
       eset_evidence_observation_records := map stored_observation (eset_evidence_observation_records s)\<rparr>"

section \<open>Reading what was written\<close>

lemmas es_readers = es_required_dict_def es_required_list_def es_required_text_def es_optional_text_def
  es_required_text_tuple_def es_required_ref_tuples_def

lemma selection_basis_read [simp]:
  "enum_of cls selection_basis_text selection_bases (selection_basis_text b) = Inr b" "selection_basis_text b \<noteq> []"
  by (cases b; simp add: enum_of_def selection_bases_def)+

lemma member_kind_read [simp]:
  "enum_of cls member_kind_text [MK_RETAIL_ACTIVITY_EXPORT_FILE, MK_STATEMENT_DOCUMENT_FILE] (member_kind_text k) = Inr k"
  "member_kind_text k \<noteq> []"
  by (cases k; simp add: enum_of_def)+

lemma member_status_read [simp]:
  "enum_of cls member_status_text [MS_SELECTED, MS_SUPERSEDED, MS_BLOCKED] (member_status_text s) = Inr s"
  "member_status_text s \<noteq> []"
  by (cases s; simp add: enum_of_def)+

lemma observation_kind_read [simp]:
  "enum_of cls observation_kind_text [OK_STATEMENT_DOCUMENT, OK_STATEMENT_BALANCE_ROW] (observation_kind_text k) = Inr k"
  "observation_kind_text k \<noteq> []"
  by (cases k; simp add: enum_of_def)+

lemma ref_tuples_read [simp]:
  "r_map (ref_tuple key) (map (sort_json \<circ> strings_json) refs) = Inr refs"
  by (induction refs) (simp_all add: ref_tuple_def strings_json_def)

lemma selection_read_back:
  assumes "storable_selection s"
  shows "selection_from_payload (sort_json (selection_payload s)) = Inr (stored_selection s)"
proof -
  obtain kvs where p: "selection_payload s = JObject kvs" and kvs: "kvs =
     [(''evidence_set_id'', JString (es_evidence_set_id s)), (''selection_id'', JString (es_selection_id s)),
      (''key'', JArray (map JString (es_key s))), (''fingerprint'', JString (es_fingerprint s)),
      (''basis'', JString (selection_basis_text (es_basis s))),
      (''blocking_gap_refs'', JArray (map JString (sort (es_blocking_gap_refs s))))]"
    by (simp add: selection_payload_def selection_semantic_payload_def sorted_texts_def strings_json_def)
  have m: "map_of (written kvs) k = map_option sort_json (map_of kvs k)" for k
    by (rule map_of_sort_json) (simp add: kvs)
  show ?thesis
    unfolding p written_object selection_from_payload_def es_readers reader_simps m
    using assms by (cases s) (simp add: kvs storable_selection_def stored_selection_def)
qed

lemma member_read_back:
  assumes "storable_member v"
  shows "member_from_payload (sort_json (member_payload v)) = Inr v"
proof -
  obtain kvs where p: "member_payload v = JObject kvs" and kvs: "kvs =
     [(''evidence_set_id'', JString (em_evidence_set_id v)), (''selection_id'', JString (em_selection_id v)),
      (''member_id'', JString (em_member_id v)), (''source_slug'', JString (em_source_slug v)),
      (''adapter_id'', JString (em_adapter_id v)), (''capture_uid'', JString (em_capture_uid v)),
      (''kind'', JString (member_kind_text (em_kind v))), (''locator'', JArray (map JString (em_locator v))),
      (''status'', JString (member_status_text (em_status v))),
      (''capture_manifest_fingerprint'', JString (em_capture_manifest_fingerprint v))]"
    by (simp add: member_payload_def member_semantic_payload_def strings_json_def)
  have m: "map_of (written kvs) k = map_option sort_json (map_of kvs k)" for k
    by (rule map_of_sort_json) (simp add: kvs)
  show ?thesis
    unfolding p written_object member_from_payload_def es_readers reader_simps m
    using assms by (cases v) (simp add: kvs storable_member_def)
qed

lemma es_optional_temporal_some:
  assumes "map_of raw key = Some (JString (optional_time_text t p))" and "storable_optional t p"
  shows "es_optional_temporal raw key p = Inr t"
  unfolding es_optional_temporal_def optional_temporal_field_def optional_text_def
  using assms by (simp add: optional_time_parsed del: if_split)

lemma observation_read_back:
  assumes "storable_observation v" and "observation_payload v = Inr p"
  shows "observation_from_payload (sort_json p) = Inr (stored_observation v)"
proof -
  have storable: "storable_optional (eo_observed_at v) (eo_precision v)"
      "storable_optional (eo_document_effective_at v) (eo_document_effective_precision v)"
      "storable_optional (eo_statement_as_of v) (eo_statement_as_of_precision v)" "storable_amount (eo_quantity v)"
    using assms(1) by (simp_all add: storable_observation_def)
  obtain kvs where p: "p = JObject kvs" and kvs: "kvs =
        [(''evidence_set_id'', JString (eo_evidence_set_id v)), (''member_id'', JString (eo_member_id v)),
         (''observation_id'', JString (eo_observation_id v)),
         (''kind'', JString (observation_kind_text (eo_kind v))), (''key'', JArray (map JString (eo_key v))),
         (''observed_at'', JString (optional_time_text (eo_observed_at v) (eo_precision v))),
         (''precision'', JString (case eo_precision v of None \<Rightarrow> [] | Some q \<Rightarrow> temporal_precision_text q)),
         (''provenance_refs'', JArray (map strings_json (sort (eo_provenance_refs v)))),
         (''statement_kind'', JString (eo_statement_kind v)),
         (''document_effective_at'',
            JString (optional_time_text (eo_document_effective_at v) (eo_document_effective_precision v))),
         (''document_effective_precision'',
            JString (case eo_document_effective_precision v of None \<Rightarrow> [] | Some q \<Rightarrow> temporal_precision_text q)),
         (''statement_as_of'', JString (optional_time_text (eo_statement_as_of v) (eo_statement_as_of_precision v))),
         (''statement_as_of_precision'',
            JString (case eo_statement_as_of_precision v of None \<Rightarrow> [] | Some q \<Rightarrow> temporal_precision_text q)),
         (''location_group_label'', JString (eo_location_group_label v)),
         (''location_label'', JString (eo_location_label v)), (''balance_kind'', JString (eo_balance_kind v)),
         (''instrument_symbol'', JString (eo_instrument_symbol v)),
         (''quantity'', JString (format_decimal (eo_quantity v))), (''notes'', JString (eo_notes v)),
         (''staked_quantity_text'', JString (eo_staked_quantity_text v)),
         (''value_amount_text'', JString (eo_value_amount_text v)),
         (''value_currency'', JString (eo_value_currency v)),
         (''price_amount_text'', JString (eo_price_amount_text v)),
         (''price_currency'', JString (eo_price_currency v))]"
    using assms(2) storable
    by (simp add: observation_payload_def observation_semantic_payload_def optional_temporal_text strings_json_def
        refs_json_def optional_precision_text_def)
  have m: "map_of (written kvs) k = map_option sort_json (map_of kvs k)" for k
    by (rule map_of_sort_json) (simp add: kvs)
  have precisions: "es_optional_precision (written kvs) ''precision'' = Inr (eo_precision v)"
    "es_optional_precision (written kvs) ''document_effective_precision'' = Inr (eo_document_effective_precision v)"
    "es_optional_precision (written kvs) ''statement_as_of_precision'' = Inr (eo_statement_as_of_precision v)"
    unfolding es_optional_precision_def es_readers reader_simps m by (simp_all add: kvs)
  have times: "es_optional_temporal (written kvs) ''observed_at'' (eo_precision v) = Inr (eo_observed_at v)"
    "es_optional_temporal (written kvs) ''document_effective_at'' (eo_document_effective_precision v) =
      Inr (eo_document_effective_at v)"
    "es_optional_temporal (written kvs) ''statement_as_of'' (eo_statement_as_of_precision v) =
      Inr (eo_statement_as_of v)"
    by (rule es_optional_temporal_some [OF _ storable(1)], simp add: m, simp add: kvs,
      rule es_optional_temporal_some [OF _ storable(2)], simp add: m, simp add: kvs,
      rule es_optional_temporal_some [OF _ storable(3)], simp add: m, simp add: kvs)
  have quantity: "es_optional_decimal (written kvs) ''quantity'' = Inr (map_option quantize_decimal (eo_quantity v))"
    unfolding es_optional_decimal_def es_readers reader_simps m
    by (simp add: kvs amount_read storable(4) del: parse_decimal.simps)
  show ?thesis
    unfolding p written_object observation_from_payload_def es_required_dict_def required_dict_def json.case
      r_bind.simps precisions times quantity
    unfolding es_readers reader_simps m
    using assms(1)
    by (cases v) (simp add: kvs storable_observation_def stored_observation_def)
qed

section \<open>Files\<close>

lemma evidence_set_payload_parts:
  assumes "evidence_set_payload s = Inr p"
  obtains vs where "r_map observation_payload (eset_evidence_observation_records s) = Inr vs"
    and "p = JObject
         [(''capture_manifest_fingerprint'', JString (eset_capture_manifest_fingerprint s)),
          (''evidence_member_records'', JArray (map member_payload (eset_evidence_member_records s))),
          (''evidence_observation_records'', JArray vs),
          (''evidence_selection_records'',
             JArray (map selection_payload (eset_evidence_selection_records s))),
          (''evidence_set_id'', JString (eset_evidence_set_id s)),
          (''schema_version'', JInt EVIDENCE_SET_SCHEMA_VERSION),
          (''selection_fingerprint'', JString (eset_selection_fingerprint s))]"
  using assms by (auto simp: evidence_set_payload_def r_bind_Inr_iff)

lemma evidence_set_payload_well_formed:
  assumes "evidence_set_payload s = Inr p"
  shows "wf_json p"
  using assms
proof (rule evidence_set_payload_parts)
  fix vs
  assume vs: "r_map observation_payload (eset_evidence_observation_records s) = Inr vs"
    and p: "p = JObject
         [(''capture_manifest_fingerprint'', JString (eset_capture_manifest_fingerprint s)),
          (''evidence_member_records'', JArray (map member_payload (eset_evidence_member_records s))),
          (''evidence_observation_records'', JArray vs),
          (''evidence_selection_records'',
             JArray (map selection_payload (eset_evidence_selection_records s))),
          (''evidence_set_id'', JString (eset_evidence_set_id s)),
          (''schema_version'', JInt EVIDENCE_SET_SCHEMA_VERSION),
          (''selection_fingerprint'', JString (eset_selection_fingerprint s))]"
  have "wf_json x" if "x \<in> set vs" for x
    using r_map_set [OF vs that]
    by (auto simp: observation_payload_def observation_semantic_payload_def r_bind_Inr_iff strings_json_def
        refs_json_def list_all_iff)
  moreover have "wf_json (member_payload b)" "wf_json (selection_payload d)" for b d
    by (simp_all add: member_payload_def member_semantic_payload_def selection_payload_def
        selection_semantic_payload_def sorted_texts_def strings_json_def list_all_iff)
  ultimately show ?thesis by (simp add: p list_all_iff)
qed

lemma evidence_set_payload_read:
  assumes "storable_evidence_set s" and "evidence_set_payload s = Inr p"
  shows "evidence_set_from_payload (sort_json p) = Inr (stored_evidence_set s)"
  using assms(2)
proof (rule evidence_set_payload_parts)
  fix vs
  assume vs: "r_map observation_payload (eset_evidence_observation_records s) = Inr vs"
    and p: "p = JObject
         [(''capture_manifest_fingerprint'', JString (eset_capture_manifest_fingerprint s)),
          (''evidence_member_records'', JArray (map member_payload (eset_evidence_member_records s))),
          (''evidence_observation_records'', JArray vs),
          (''evidence_selection_records'',
             JArray (map selection_payload (eset_evidence_selection_records s))),
          (''evidence_set_id'', JString (eset_evidence_set_id s)),
          (''schema_version'', JInt EVIDENCE_SET_SCHEMA_VERSION),
          (''selection_fingerprint'', JString (eset_selection_fingerprint s))]" (is "p = JObject ?kvs")
  have m: "map_of (written ?kvs) k = map_option sort_json (map_of ?kvs k)" for k
    by (rule map_of_sort_json) simp
  have "r_map observation_from_payload (map sort_json vs) =
      Inr (map stored_observation (eset_evidence_observation_records s))"
    by (rule read_written_records [OF vs])
      (use assms(1) observation_read_back in \<open>auto simp: storable_evidence_set_def\<close>)
  moreover have "r_map member_from_payload (map (sort_json \<circ> member_payload) (eset_evidence_member_records s)) =
      Inr (map (\<lambda>x. x) (eset_evidence_member_records s))"
    unfolding map_map [symmetric]
    by (rule read_written_records [where payload = "\<lambda>b. Inr (member_payload b)"])
      (use assms(1) member_read_back in \<open>auto simp: storable_evidence_set_def intro: r_map_all_ok\<close>)
  moreover have "r_map selection_from_payload (map (sort_json \<circ> selection_payload)
        (eset_evidence_selection_records s)) = Inr (map stored_selection (eset_evidence_selection_records s))"
    unfolding map_map [symmetric]
    by (rule read_written_records [where payload = "\<lambda>b. Inr (selection_payload b)"])
      (use assms(1) selection_read_back in \<open>auto simp: storable_evidence_set_def intro: r_map_all_ok\<close>)
  ultimately show ?thesis
    unfolding p written_object evidence_set_from_payload_def es_readers reader_simps m
    using assms(1) by (simp add: storable_evidence_set_def stored_evidence_set_def)
qed

lemma observation_payload_stored: "observation_payload (stored_observation v) = observation_payload v"
  by (cases "eo_quantity v")
    (simp_all add: observation_payload_def observation_semantic_payload_def stored_observation_def sort_key_in_order)

lemma evidence_set_payload_stored: "evidence_set_payload (stored_evidence_set s) = evidence_set_payload s"
proof -
  have "selection_payload \<circ> stored_selection = selection_payload"
    by (simp add: fun_eq_iff selection_payload_def selection_semantic_payload_def stored_selection_def
        sorted_texts_def sort_key_in_order)
  then show ?thesis
    by (simp add: evidence_set_payload_def stored_evidence_set_def
        r_map_stored [where payload = observation_payload and f = stored_observation, OF observation_payload_stored])
qed

interpretation evidence_set_file:
  file_codec evidence_set_payload evidence_set_from_payload storable_evidence_set stored_evidence_set
  by unfold_locales
    (simp_all add: evidence_set_payload_well_formed evidence_set_payload_read evidence_set_payload_stored)

end
