(* ===== verification/Stored_Products.thy ===== *)
theory Stored_Products
  imports Economic_Facts_Files Reconciliation_Files Checkpoint_Files Evidence_Set_Files Checkpoint_Builder
begin

text \<open>
  The stored products together: the codecs of the claim sets, evidence sets, economic facts,
  reconciliation states and checkpoints (each an interpretation of the locale \<open>file_codec\<close> in its
  own theory) are total on storable values and faithful, and the economic facts a storable claim
  set builds are storable.
\<close>

section \<open>Built economic facts can be stored\<close>

lemma storable_date_time: "storable_time t p \<Longrightarrow> storable_time t TIMESTAMP"
  by (simp add: storable_time_def)

lemma accepted_origin:
  assumes "accepted_activity_bundles cs = Inr bs" and "b \<in> set bs"
  shows "aab_activity_claim b \<in> set (cset_claim_records cs) \<and> clm_kind (aab_activity_claim b) = CK_ACTIVITY \<and>
    (\<exists>d \<in> set (cset_claim_bundle_decision_records cs). aab_decision_id b = cd_decision_id d)"
proof -
  obtain parts where parts: "r_map (accept_decision (group_by clm_bundle_id (cset_claim_records cs)))
        (cset_claim_bundle_decision_records cs) = Inr parts" "bs = concat parts"
    using assms(1) by (auto simp: accepted_activity_bundles_def result_simps)
  with assms(2) obtain p where p: "p \<in> set parts" "b \<in> set p" by auto
  then obtain d where d: "d \<in> set (cset_claim_bundle_decision_records cs)"
      "accept_decision (group_by clm_bundle_id (cset_claim_records cs)) d = Inr p"
    using r_map_set [OF parts(1)] by blast
  define bc where "bc = filter (\<lambda>c. clm_bundle_id c = cd_accepted_bundle_ref d) (cset_claim_records cs)"
  define ac where "ac = filter (\<lambda>c. clm_kind c = CK_ACTIVITY) bc"
  have get: "dict_get (group_by clm_bundle_id (cset_claim_records cs)) (cd_accepted_bundle_ref d) [] = bc"
    by (simp add: dict_simps bc_def)
  note run = d(2) [unfolded accept_decision_def get Let_def ac_def [symmetric]]
  have sub: "c \<in> set (cset_claim_records cs) \<and> clm_kind c = CK_ACTIVITY" if "c \<in> set ac" for c
    using that by (simp add: ac_def bc_def)
  obtain c rest where ac: "ac = c # rest" using run p(2) by (cases ac) (auto split: if_splits)
  show ?thesis using run p(2) d(1) sub [of c] ac by (auto split: if_splits list.splits)
qed

lemma id_texts_nonempty:
  "stable_event_id b n \<noteq> []" "stable_leg_id e r s i \<noteq> []" "stable_economic_facts_id refs \<noteq> []"
  using sha256_hex_length
  by (auto simp: stable_event_id_def stable_leg_id_def stable_economic_facts_id_def stable_id_def
      stable_product_id_def json_text_def dumps_sorted_def simp flip: length_greater_0_conv)

lemma leg_for_spec_storable:
  assumes "leg_for_spec b e w s = Inr l" and "storable_leg_spec s" and "e \<noteq> []"
  shows "storable_leg l \<and> is_ok (leg_key l)"
  using assms
  by (auto simp: leg_for_spec_def storable_leg_def storable_leg_spec_def mk_economic_leg_record_def
      result_simps Let_def id_texts_nonempty leg_key_def leg_slot_stable split: list.splits if_splits)

lemma bundle_storable:
  assumes "event_and_legs_for_bundle b = Inr (e, ls)" and "storable_claim (aab_activity_claim b)"
    and "clm_kind (aab_activity_claim b) = CK_ACTIVITY" and "aab_decision_id b \<noteq> []"
  shows "storable_event e \<and> (\<forall>l \<in> set ls. storable_leg l \<and> is_ok (leg_key l))"
proof -
  obtain t w where t: "clm_effective_at (aab_activity_claim b) = Some t"
      "r_map (leg_for_spec b (bundle_event_id b) w) (sort_key ls_slot (clm_leg_specs (aab_activity_claim b))) = Inr ls"
      "ev_event_id e = bundle_event_id b" "ev_claim_bundle_id e = clm_bundle_id (aab_activity_claim b)"
      "ev_claim_bundle_decision_id e = aab_decision_id b" "ev_effective_at e = t" "ev_recorded_at e = t"
    using assms(1)
    by (auto simp: event_and_legs_for_bundle_def bundle_event_id_def mk_economic_event_record_def
        result_simps Let_def split: option.splits)
  have "storable_time t TIMESTAMP"
    using assms(2) t(1)
    by (auto simp: storable_claim_def storable_optional_def dest: storable_date_time split: option.splits)
  then have "storable_event e"
    using assms(2,4) t by (simp add: storable_event_def storable_claim_def bundle_event_id_def id_texts_nonempty)
  moreover have "storable_leg l \<and> is_ok (leg_key l)" if "l \<in> set ls" for l
  proof -
    note leg = that
    obtain s where s: "s \<in> set (clm_leg_specs (aab_activity_claim b))"
        "leg_for_spec b (bundle_event_id b) w s = Inr l"
      using r_map_set [OF t(2) leg] by auto
    then show ?thesis
      using leg_for_spec_storable [OF s(2)] assms(2,3)
      by (simp add: storable_claim_def bundle_event_id_def id_texts_nonempty)
  qed
  ultimately show ?thesis by blast
qed

lemma built_facts_storable:
  assumes "build_economic_facts cs = Inr f" and "storable_claim_set cs"
  shows "storable_facts f \<and> (\<forall>l \<in> set (ef_economic_leg_records f). is_ok (leg_key l))"
proof -
  obtain bs parts legs where run: "accepted_activity_bundles cs = Inr bs"
      "r_map event_and_legs_for_bundle bs = Inr parts"
      "canonical_economic_leg_records (concat (map snd parts)) = Inr legs"
      "f = \<lparr>ef_economic_facts_id = stable_economic_facts_id [cset_claim_set_id cs],
            ef_claim_set_refs = [cset_claim_set_id cs],
            ef_economic_event_records = canonical_economic_event_records (map fst parts),
            ef_economic_leg_records = legs, ef_valuation_records = []\<rparr>"
    using assms(1) by (auto simp: build_economic_facts_def result_simps)
  have part: "storable_event (fst p) \<and> (\<forall>l \<in> set (snd p). storable_leg l \<and> is_ok (leg_key l))"
    if "p \<in> set parts" for p
  proof -
    note p = that
    obtain b where b: "b \<in> set bs" "event_and_legs_for_bundle b = Inr (fst p, snd p)"
      using r_map_set [OF run(2) p] by auto
    have "storable_claim (aab_activity_claim b)" "clm_kind (aab_activity_claim b) = CK_ACTIVITY"
        "aab_decision_id b \<noteq> []"
      using accepted_origin [OF run(1) b(1)] assms(2)
      by (auto simp: storable_claim_set_def storable_bundle_decision_def)
    then show ?thesis using bundle_storable [OF b(2)] by blast
  qed
  have "set legs = set (concat (map snd parts))"
    using run(3) by (auto simp: canonical_legs_iff)
  then have "\<forall>l \<in> set legs. storable_leg l \<and> is_ok (leg_key l)" using part by auto
  moreover have "\<forall>e \<in> set (canonical_economic_event_records (map fst parts)). storable_event e"
    using part by (auto simp: event_order.canonical_set)
  ultimately show ?thesis
    by (simp add: run(4) storable_facts_def id_texts_nonempty)
qed

text \<open>Every storable value is written: the codecs are total.\<close>

lemma optional_time_written: "storable_optional t p \<Longrightarrow> \<exists>s. optional_temporal t p label = Inr s"
  by (auto simp: storable_optional_def optional_temporal_def formatted_time split: option.splits)

lemma claim_written:
  assumes "storable_claim c"
  shows "\<exists>p. claim_payload c = Inr p" and "is_ok (claim_sort_key c)"
proof -
  obtain t where t: "optional_temporal (clm_effective_at c) (clm_precision c) label = Inr (t label)" for label
    using optional_time_written assms unfolding storable_claim_def by metis
  have "\<exists>k. kind_payload c = Inr k"
    using assms optional_time_written [of "clm_observed_at c" "clm_precision c"]
      optional_time_written [of "clm_valued_at c" "clm_precision c"]
    by (cases "clm_kind c") (auto simp: kind_payload_def storable_claim_def r_bind_Inr_iff)
  then show "\<exists>p. claim_payload c = Inr p"
    using t by (auto simp: claim_payload_def claim_semantic_payload_def)
  show "is_ok (claim_sort_key c)" using t by (simp add: claim_sort_key_def)
qed

definition storable_built_facts :: "economic_facts \<Rightarrow> bool" where
  "storable_built_facts f \<longleftrightarrow> storable_facts f \<and> (\<forall>l \<in> set (ef_economic_leg_records f). is_ok (leg_key l))"

interpretation facts_store:
  total_codec economic_facts_payload economic_facts_from_payload storable_built_facts stored_facts
proof unfold_locales
  fix f :: economic_facts
  assume f: "storable_built_facts f"
  have "\<exists>es. r_map event_payload (canonical_economic_event_records (ef_economic_event_records f)) = Inr es"
    by (rule r_map_exists_ok)
      (use f in \<open>auto simp: storable_built_facts_def storable_facts_def event_order.canonical_set event_payload_def
        storable_event_def formatted_time\<close>)
  moreover have "\<exists>vs. r_map valuation_payload (canonical_valuation_records (ef_valuation_records f)) = Inr vs"
    by (rule r_map_exists_ok)
      (use f in \<open>auto simp: storable_built_facts_def storable_facts_def canonical_valuation_records_def
        valuation_payload_def storable_valuation_def formatted_time\<close>)
  moreover have "\<exists>ls. canonical_economic_leg_records (ef_economic_leg_records f) = Inr ls"
    using f by (simp add: canonical_legs_iff storable_built_facts_def)
  ultimately show "\<exists>p. economic_facts_payload f = Inr p"
    by (auto simp: economic_facts_payload_def)
qed (auto simp: storable_built_facts_def intro: facts_file.payload_well_formed facts_file.payload_read
    facts_file.payload_stored)

interpretation state_store:
  total_codec reconciliation_state_payload reconciliation_state_from_payload storable_state stored_state
proof unfold_locales
  fix s :: reconciliation_state
  assume s: "storable_state s"
  have "\<exists>ps. r_map segment_payload (canonical_continuity_segment_records (rs_continuity_segment_records s)) = Inr ps"
    by (rule r_map_exists_ok) (use s in \<open>auto simp: storable_state_def canonical_continuity_segment_records_def
      segment_payload_def storable_segment_def formatted_time\<close>)
  moreover have "\<exists>ps. r_map balance_target_payload (canonical_balance_target_records (rs_balance_target_records s)) = Inr ps"
    by (rule r_map_exists_ok) (use s in \<open>auto simp: storable_state_def canonical_balance_target_records_def
      balance_target_payload_def storable_target_def formatted_time\<close>)
  moreover have "\<exists>ps. r_map checkpoint_proposal_payload
      (canonical_checkpoint_proposal_records (rs_checkpoint_proposal_records s)) = Inr ps"
    by (rule r_map_exists_ok) (use s in \<open>auto simp: storable_state_def canonical_checkpoint_proposal_records_def
      checkpoint_proposal_payload_def storable_proposal_def formatted_time\<close>)
  ultimately show "\<exists>p. reconciliation_state_payload s = Inr p"
    by (auto simp: reconciliation_state_payload_def)
qed

interpretation checkpoint_store:
  total_codec checkpoint_payload checkpoint_from_payload storable_checkpoint stored_checkpoint
proof unfold_locales
  fix c :: checkpoint
  assume c: "storable_checkpoint c"
  have "\<exists>ps. r_map checkpoint_record_payload (ck_checkpoint_records c) = Inr ps"
    by (rule r_map_exists_ok) (use c in \<open>auto simp: storable_checkpoint_def checkpoint_record_payload_def
      storable_checkpoint_record_def formatted_time\<close>)
  moreover have "\<exists>ps. r_map checkpoint_assertion_payload
      (canonical_checkpoint_assertion_records (ck_checkpoint_assertion_records c)) = Inr ps"
    by (rule r_map_exists_ok) (use c in \<open>auto simp: storable_checkpoint_def canonical_checkpoint_assertion_records_def
      checkpoint_assertion_payload_def storable_assertion_def formatted_time\<close>)
  ultimately show "\<exists>p. checkpoint_payload c = Inr p"
    using c by (auto simp: checkpoint_payload_def storable_checkpoint_def formatted_time)
qed

interpretation claim_set_store:
  total_codec claim_set_payload claim_set_from_payload storable_claim_set stored_claim_set
proof unfold_locales
  fix s :: claim_set
  assume s: "storable_claim_set s"
  have "\<exists>ps. r_map claim_payload (sort_key claim_order (cset_claim_records s)) = Inr ps"
    by (rule r_map_exists_ok) (use s claim_written(1) in \<open>auto simp: storable_claim_set_def\<close>)
  moreover have "canonical_claim_records (cset_claim_records s) = Inr (sort_key claim_order (cset_claim_records s))"
    using s claim_written(2) by (auto simp: canonical_claims_iff storable_claim_set_def)
  ultimately show "\<exists>p. claim_set_payload s = Inr p" by (auto simp: claim_set_payload_def)
qed

interpretation evidence_set_store:
  total_codec evidence_set_payload evidence_set_from_payload storable_evidence_set stored_evidence_set
proof unfold_locales
  fix s :: evidence_set
  assume s: "storable_evidence_set s"
  have "\<exists>p. observation_payload v = Inr p" if "storable_observation v" for v
  proof -
    obtain a where "optional_temporal (eo_observed_at v) (eo_precision v)
        ''evidence observation observed_at'' = Inr a"
      using optional_time_written storable_observation_def \<open>storable_observation v\<close> by meson
    moreover obtain b where "optional_temporal (eo_document_effective_at v) (eo_document_effective_precision v)
        ''evidence observation document_effective_at'' = Inr b"
      using optional_time_written storable_observation_def \<open>storable_observation v\<close> by meson
    moreover obtain c where "optional_temporal (eo_statement_as_of v) (eo_statement_as_of_precision v)
        ''evidence observation statement_as_of'' = Inr c"
      using optional_time_written storable_observation_def \<open>storable_observation v\<close> by meson
    ultimately show ?thesis by (simp add: observation_payload_def observation_semantic_payload_def)
  qed
  then have "\<exists>ps. r_map observation_payload (eset_evidence_observation_records s) = Inr ps"
    using s by (intro r_map_exists_ok) (simp add: storable_evidence_set_def)
  then show "\<exists>p. evidence_set_payload s = Inr p" by (auto simp: evidence_set_payload_def)
qed

section \<open>Properties\<close>

text \<open>
  C8: The economic facts built from a storable claim set are written, and reading the file gives
  the facts back (quantities in their stored precision, records in canonical order): writing what
  was read gives the same file and the same fingerprint.
\<close>

theorem built_facts_read_back:
  assumes "build_economic_facts cs = Inr f" and "storable_claim_set cs"
  shows "\<exists>text. write_economic_facts f = Inr text \<and> read_economic_facts text = Inr (stored_facts f) \<and>
    write_economic_facts (stored_facts f) = Inr text \<and>
    economic_facts_fingerprint (stored_facts f) = economic_facts_fingerprint f"
proof -
  have f: "storable_built_facts f" using built_facts_storable [OF assms] by (simp add: storable_built_facts_def)
  show ?thesis
    using facts_store.stored_read_back [OF f] facts_store.stored_payload [OF f]
    by (simp add: write_economic_facts_def read_economic_facts_def economic_facts_fingerprint_def)
qed

text \<open>
  C9: Reconciliation states and checkpoints survive their files: whatever is storable is written,
  the file is read back as the value in its stored form, and writing that again gives the same
  text and the same fingerprint.
\<close>

theorem checkpoint_products_read_back:
  assumes "storable_state s" and "storable_checkpoint c"
  shows "(\<exists>text. write_reconciliation_state s = Inr text \<and>
      read_reconciliation_state text = Inr (stored_state s) \<and>
      write_reconciliation_state (stored_state s) = Inr text) \<and>
    reconciliation_state_fingerprint (stored_state s) = reconciliation_state_fingerprint s \<and>
    (\<exists>text. write_checkpoint c = Inr text \<and> read_checkpoint text = Inr (stored_checkpoint c) \<and>
      write_checkpoint (stored_checkpoint c) = Inr text) \<and>
    checkpoint_fingerprint (stored_checkpoint c) = checkpoint_fingerprint c"
  using state_store.stored_read_back [OF assms(1)] state_store.stored_payload [OF assms(1)]
    checkpoint_store.stored_read_back [OF assms(2)] checkpoint_store.stored_payload [OF assms(2)]
  by (simp add: write_reconciliation_state_def read_reconciliation_state_def write_checkpoint_def
      read_checkpoint_def reconciliation_state_fingerprint_def checkpoint_fingerprint_def)

text \<open>
  C10: Claim sets and evidence sets survive their files: whatever is storable is written, the file
  is read back as the set in its stored form, and writing that again gives the same text; the
  fingerprint of a claim set does not change.
\<close>

theorem claim_products_read_back:
  assumes "storable_claim_set s" and "storable_evidence_set e"
  shows "(\<exists>text. write_claim_set s = Inr text \<and> read_claim_set text = Inr (stored_claim_set s) \<and>
      write_claim_set (stored_claim_set s) = Inr text) \<and>
    claim_set_fingerprint (stored_claim_set s) = claim_set_fingerprint s \<and>
    (\<exists>text. write_evidence_set e = Inr text \<and> read_evidence_set text = Inr (stored_evidence_set e) \<and>
      write_evidence_set (stored_evidence_set e) = Inr text)"
  using claim_set_store.stored_read_back [OF assms(1)] claim_set_store.stored_payload [OF assms(1)]
    evidence_set_store.stored_read_back [OF assms(2)]
  by (simp add: write_claim_set_def read_claim_set_def write_evidence_set_def read_evidence_set_def
      claim_set_fingerprint_def)

section \<open>Witnesses\<close>

lemma sample_time_storable: "storable_time sample_time TIMESTAMP"
  by (simp add: storable_time_def sample_time_def whole_second_def valid_datetime_def valid_date_def days_in_month_def)

lemma sample_claim_set_storable: "storable_claim_set sample_claim_set"
proof -
  have "storable_decimal (Decimal 25 (-1))" "storable_decimal (Decimal 250 (-2))" by code_simp+
  then show ?thesis
    using sample_time_storable
    by (simp add: storable_claim_set_def sample_claim_set_def accept_bundle_def storable_bundle_decision_def
        storable_claim_def sample_activity_def sample_support_def blank_claim_def valid_claim_record_def
        claim_field_problem_def balance_fields_set_def instrument_fields_set_def location_fields_set_def
        valuation_fields_set_def storable_optional_def storable_amount_def storable_leg_spec_def)
qed

theorem built_facts_read_back_witness:
  "\<exists>f text. build_economic_facts sample_claim_set = Inr f \<and> write_economic_facts f = Inr text \<and>
    read_economic_facts text = Inr (stored_facts f) \<and> write_economic_facts (stored_facts f) = Inr text \<and>
    economic_facts_fingerprint (stored_facts f) = economic_facts_fingerprint f"
  using sample_facts built_facts_read_back [OF _ sample_claim_set_storable] by blast


definition sample_state :: reconciliation_state where
  "sample_state =
     \<lparr>rs_reconciliation_state_id = ''r'', rs_economic_facts_ref = ''f'',
      rs_continuity_segment_records =
        [\<lparr>seg_segment_id = ''s'', seg_subject_ref = (''position'', [STuple [SText ''self''], SNone]),
          seg_segment_start_at = sample_time, seg_segment_end_at = sample_time,
          seg_status = CSS_PARTIAL, seg_as_of = sample_time\<rparr>],
      rs_event_link_records = [],
      rs_balance_target_records =
        [\<lparr>bt_target_id = ''t'', bt_segment_id = ''s'',
          bt_subject_ref = (''position'', [STuple [SText ''self''], SNone]),
          bt_kind = EXACT_BALANCE, bt_as_of = sample_time,
          bt_expected_value = QuantityValue (Decimal 250 (-2)) (''instrument'', [SText ''BTC'']),
          bt_observed_value = Some (QuantityValue (Decimal 25 (-1)) (''instrument'', [SText ''BTC''])),
          bt_observation_status = OBSERVED, bt_comparison_outcome = Some MATCHED\<rparr>],
      rs_checkpoint_proposal_records = []\<rparr>"

definition sample_checkpoint :: checkpoint where
  "sample_checkpoint =
     \<lparr>ck_checkpoint_id = ''c'', ck_reconciliation_state_refs = [''r''], ck_as_of = sample_time,
      ck_checkpoint_records =
        [\<lparr>cr_checkpoint_id = ''c'', cr_as_of = sample_time, cr_assertion_ids = [''a''],
          cr_proposal_refs = [''p2'', ''p1'']\<rparr>],
      ck_checkpoint_assertion_records =
        [\<lparr>ca_assertion_id = ''a'', ca_checkpoint_id = ''c'',
          ca_subject_ref = (''position'', [STuple [SText ''self''], SNone]), ca_kind = POSITION_QUANTITY,
          ca_as_of = sample_time, ca_accepted_value = QuantityValue (Decimal 250 (-2)) (''instrument'', [SText ''BTC'']),
          ca_trust_level = ANALYSIS_READY, ca_basis = DOCUMENT_SUPPORT,
          ca_support_shape = DOCUMENT_OBSERVATION, ca_continuity_kind = OBSERVED_CONTINUITY\<rparr>]\<rparr>"

lemma sample_decimals_storable: "storable_decimal (Decimal 25 (-1))" "storable_decimal (Decimal 250 (-2))"
  by code_simp+

lemma sample_state_storable: "storable_state sample_state"
  using sample_time_storable sample_decimals_storable
  by (simp add: storable_state_def sample_state_def storable_segment_def storable_target_def
      mk_balance_target_record_def require_utc_datetime_def sample_time_def)

lemma sample_checkpoint_storable: "storable_checkpoint sample_checkpoint"
  using sample_time_storable sample_decimals_storable
  by (simp add: storable_checkpoint_def sample_checkpoint_def storable_checkpoint_record_def storable_assertion_def)

theorem checkpoint_products_read_back_witness:
  "(\<exists>text. write_reconciliation_state sample_state = Inr text \<and>
      read_reconciliation_state text = Inr (stored_state sample_state) \<and>
      write_reconciliation_state (stored_state sample_state) = Inr text) \<and>
    reconciliation_state_fingerprint (stored_state sample_state) = reconciliation_state_fingerprint sample_state \<and>
    (\<exists>text. write_checkpoint sample_checkpoint = Inr text \<and>
      read_checkpoint text = Inr (stored_checkpoint sample_checkpoint) \<and>
      write_checkpoint (stored_checkpoint sample_checkpoint) = Inr text) \<and>
    checkpoint_fingerprint (stored_checkpoint sample_checkpoint) = checkpoint_fingerprint sample_checkpoint"
  using checkpoint_products_read_back [OF sample_state_storable sample_checkpoint_storable] .

lemma sample_evidence_set_storable: "storable_evidence_set sample_evidence_set"
  using sample_time_storable sample_decimals_storable
  by (simp add: storable_evidence_set_def sample_evidence_set_def storable_observation_def sample_observation_def
      storable_optional_def storable_amount_def)

theorem claim_products_read_back_witness:
  "(\<exists>text. write_claim_set sample_claim_set = Inr text \<and>
      read_claim_set text = Inr (stored_claim_set sample_claim_set) \<and>
      write_claim_set (stored_claim_set sample_claim_set) = Inr text) \<and>
    claim_set_fingerprint (stored_claim_set sample_claim_set) = claim_set_fingerprint sample_claim_set \<and>
    (\<exists>text. write_evidence_set sample_evidence_set = Inr text \<and>
      read_evidence_set text = Inr (stored_evidence_set sample_evidence_set) \<and>
      write_evidence_set (stored_evidence_set sample_evidence_set) = Inr text)"
  using claim_products_read_back [OF sample_claim_set_storable sample_evidence_set_storable] .

end
